(* ===== verification/Prelude.thy ===== *)
theory Prelude
  imports Main "HOL-Library.Word" "HOL-Library.Sublist"
begin

text \<open>
  Shared vocabulary of the development: Rust's \<open>Result\<close> as a sum (\<open>Inl\<close> is \<open>Err\<close>), the
  \<open>?\<close> operator on pure computations (\<open>attempt\<close>) and on methods that take \<open>&mut self\<close>
  (\<open>attempt_in\<close>: a failing step returns the state reached so far), and the list operation
  behind every \<open>if !xs.contains(&x) { xs.push(x) }\<close> loop of the program.
  The collection \<open>outcome\<close> holds the inversion rules that carry the component proofs.
\<close>

named_theorems outcome "inversion of successful and failing computations"
named_theorems kept_rules "introduction rules for atomicity of state-passing computations"

subsection \<open>Results\<close>

definition attempt :: "'e + 'a \<Rightarrow> ('a \<Rightarrow> 'e + 'b) \<Rightarrow> 'e + 'b" where
  "attempt r k = (case r of Inl e \<Rightarrow> Inl e | Inr x \<Rightarrow> k x)"

definition attempt_in :: "'s \<Rightarrow> 'e + 'a \<Rightarrow> ('a \<Rightarrow> ('e + 'b) \<times> 's) \<Rightarrow> ('e + 'b) \<times> 's" where
  "attempt_in s r k = (case r of Inl e \<Rightarrow> (Inl e, s) | Inr x \<Rightarrow> k x)"

definition ensure :: "bool \<Rightarrow> 'e \<Rightarrow> 'e + unit" where
  "ensure b e = (if b then Inr () else Inl e)"

definition ok_or :: "'e \<Rightarrow> 'a option \<Rightarrow> 'e + 'a" where
  "ok_or e x = (case x of None \<Rightarrow> Inl e | Some y \<Rightarrow> Inr y)"

definition map_err :: "('e \<Rightarrow> 'f) \<Rightarrow> 'e + 'a \<Rightarrow> 'f + 'a" where
  "map_err f r = (case r of Inl e \<Rightarrow> Inl (f e) | Inr x \<Rightarrow> Inr x)"

fun collect_results :: "('a \<Rightarrow> 'e + 'b) \<Rightarrow> 'a list \<Rightarrow> 'e + 'b list" where
  "collect_results f [] = Inr []"
| "collect_results f (x # xs) =
     attempt (f x) (\<lambda>y. attempt (collect_results f xs) (\<lambda>ys. Inr (y # ys)))"

definition is_ok :: "'e + 'a \<Rightarrow> bool" where
  "is_ok r = (case r of Inl _ \<Rightarrow> False | Inr _ \<Rightarrow> True)"

lemma attempt_Inr [outcome]: "attempt r k = Inr y \<longleftrightarrow> (\<exists>x. r = Inr x \<and> k x = Inr y)"
  by (cases r) (auto simp: attempt_def)

lemma attempt_Inl [outcome]:
  "attempt r k = Inl e \<longleftrightarrow> r = Inl e \<or> (\<exists>x. r = Inr x \<and> k x = Inl e)"
  by (cases r) (auto simp: attempt_def)

lemma attempt_in_Inr [outcome]:
  "attempt_in s r k = (Inr y, s') \<longleftrightarrow> (\<exists>x. r = Inr x \<and> k x = (Inr y, s'))"
  by (cases r) (auto simp: attempt_in_def)

lemma attempt_in_Inl [outcome]:
  "attempt_in s r k = (Inl e, s') \<longleftrightarrow>
     r = Inl e \<and> s' = s \<or> (\<exists>x. r = Inr x \<and> k x = (Inl e, s'))"
  by (cases r) (auto simp: attempt_in_def)

lemma ensure_Inr [outcome]: "ensure b e = Inr u \<longleftrightarrow> b"
  by (cases u) (simp add: ensure_def)

lemma ensure_Inl [outcome]: "ensure b e = Inl e' \<longleftrightarrow> \<not> b \<and> e' = e"
  by (auto simp: ensure_def)

lemma ok_or_Inr [outcome]: "ok_or e x = Inr y \<longleftrightarrow> x = Some y"
  by (cases x) (auto simp: ok_or_def)

lemma ok_or_Inl [outcome]: "ok_or e x = Inl e' \<longleftrightarrow> x = None \<and> e' = e"
  by (cases x) (auto simp: ok_or_def)

lemma map_err_Inr [outcome]: "map_err f r = Inr y \<longleftrightarrow> r = Inr y"
  by (cases r) (auto simp: map_err_def)

lemma map_err_Inl [outcome]: "map_err f r = Inl e \<longleftrightarrow> (\<exists>d. r = Inl d \<and> e = f d)"
  by (cases r) (auto simp: map_err_def)

lemma is_ok_iff [outcome]: "is_ok r \<longleftrightarrow> (\<exists>x. r = Inr x)"
  by (cases r) (auto simp: is_ok_def)

lemma attempt_simps [simp]:
  "attempt (Inl e) k = Inl e" "attempt (Inr x) k = k x"
  "attempt_in s (Inl e) k' = (Inl e, s)" "attempt_in s (Inr x) k' = k' x"
  by (simp_all add: attempt_def attempt_in_def)

lemma collect_results_Inr:
  "collect_results f xs = Inr ys \<longleftrightarrow> list_all2 (\<lambda>x y. f x = Inr y) xs ys"
  by (induction xs arbitrary: ys) (auto simp: outcome list_all2_Cons1)

lemma collect_results_length: "collect_results f xs = Inr ys \<Longrightarrow> length ys = length xs"
  by (auto simp: collect_results_Inr dest: list_all2_lengthD)

lemma collect_results_member:
  "collect_results f xs = Inr ys \<Longrightarrow> y \<in> set ys \<Longrightarrow> \<exists>x \<in> set xs. f x = Inr y"
  by (induction xs arbitrary: ys) (auto simp: outcome)

subsection \<open>State-passing computations\<close>

text \<open>\<open>atomic s r\<close>: if the computation from \<open>s\<close> failed, it left \<open>s\<close> as it was.\<close>

definition atomic :: "'s \<Rightarrow> ('e + 'a) \<times> 's \<Rightarrow> bool" where
  "atomic s r = (case r of (Inl _, s') \<Rightarrow> s' = s | (Inr _, _) \<Rightarrow> True)"

lemma atomic_Inl [simp]: "atomic s (Inl e, s') \<longleftrightarrow> s' = s"
  by (simp add: atomic_def)

lemma atomic_Inr [simp]: "atomic s (Inr x, s')"
  by (simp add: atomic_def)

lemma atomic_attempt_in [kept_rules]:
  "(\<And>x. r = Inr x \<Longrightarrow> atomic s (k x)) \<Longrightarrow> atomic s (attempt_in s r k)"
  by (cases r) simp_all

lemma atomicD: "atomic s (r, s') \<Longrightarrow> r = Inl e \<Longrightarrow> s' = s"
  by simp

lemma snd_attempt_in:
  "P s \<Longrightarrow> (\<And>x. r = Inr x \<Longrightarrow> P (snd (k x))) \<Longrightarrow> P (snd (attempt_in s r k))"
  by (cases r) simp_all

subsection \<open>Adding only what is missing\<close>

fun push_new :: "'a list \<Rightarrow> 'a list \<Rightarrow> 'a list" where
  "push_new xs [] = xs"
| "push_new xs (y # ys) = push_new (if y \<in> set xs then xs else xs @ [y]) ys"

lemma set_push_new [simp]: "set (push_new xs ys) = set xs \<union> set ys"
  by (induction xs ys rule: push_new.induct) auto

lemma distinct_push_new: "distinct xs \<Longrightarrow> distinct (push_new xs ys)"
  by (induction xs ys rule: push_new.induct) auto

lemma push_new_prefix: "prefix xs (push_new xs ys)"
proof (induction xs ys rule: push_new.induct)
  case (1 xs)
  show ?case by simp
next
  case (2 xs y ys)
  have "prefix xs (if y \<in> set xs then xs else xs @ [y])" by simp
  with "2.IH" show ?case by (auto intro: prefix_order.trans)
qed

lemma push_new_subset: "set ys \<subseteq> set xs \<Longrightarrow> push_new xs ys = xs"
  by (induction xs ys rule: push_new.induct) auto

end
