(* ===== verification/Rust_Text.thy ===== *)
theory Rust_Text
  imports Prelude "HOL-Library.List_Lexorder" "HOL-Library.Char_ord"
begin

text \<open>
  The operations of Rust's \<open>str\<close> and \<open>Path\<close> that the program calls. A \<open>String\<close> is the list of its
  UTF-8 bytes (a \<open>char\<close> of HOL is a byte), so \<open>length\<close> is Rust's \<open>len()\<close>, slices count bytes, and
  the order of \<open>List_Lexorder\<close> over \<open>Char_ord\<close> is Rust's bytewise order. White space, which Rust
  defines on Unicode scalar values, is the list of the UTF-8 encodings of those values. Paths are
  Unix paths: \<open>components\<close> is \<open>Path::components\<close>, and two paths are equal when their components are.
\<close>

subsection \<open>Trimming\<close>

definition white_space :: "string list" where
  "white_space =
     [[CHR 0x09], [CHR 0x0A], [CHR 0x0B], [CHR 0x0C], [CHR 0x0D], [CHR 0x20],
      [CHR 0xC2, CHR 0x85], [CHR 0xC2, CHR 0xA0], [CHR 0xE1, CHR 0x9A, CHR 0x80],
      [CHR 0xE2, CHR 0x80, CHR 0x80], [CHR 0xE2, CHR 0x80, CHR 0x81], [CHR 0xE2, CHR 0x80, CHR 0x82],
      [CHR 0xE2, CHR 0x80, CHR 0x83], [CHR 0xE2, CHR 0x80, CHR 0x84], [CHR 0xE2, CHR 0x80, CHR 0x85],
      [CHR 0xE2, CHR 0x80, CHR 0x86], [CHR 0xE2, CHR 0x80, CHR 0x87], [CHR 0xE2, CHR 0x80, CHR 0x88],
      [CHR 0xE2, CHR 0x80, CHR 0x89], [CHR 0xE2, CHR 0x80, CHR 0x8A], [CHR 0xE2, CHR 0x80, CHR 0xA8],
      [CHR 0xE2, CHR 0x80, CHR 0xA9], [CHR 0xE2, CHR 0x80, CHR 0xAF], [CHR 0xE2, CHR 0x81, CHR 0x9F],
      [CHR 0xE3, CHR 0x80, CHR 0x80]]"

definition leading :: "string list \<Rightarrow> string \<Rightarrow> string option" where
  "leading ws s = find (\<lambda>w. w \<noteq> [] \<and> prefix w s) ws"

function strip_leading :: "string list \<Rightarrow> string \<Rightarrow> string" where
  "strip_leading ws s =
     (case leading ws s of None \<Rightarrow> s | Some w \<Rightarrow> strip_leading ws (drop (length w) s))"
  by pat_completeness auto
termination
  by (relation "measure (\<lambda>(ws, s). length s)")
     (auto simp: leading_def find_Some_iff prefix_def)

declare strip_leading.simps [simp del]

definition trim_start :: "string \<Rightarrow> string" where
  "trim_start s = strip_leading white_space s"

definition trim_end :: "string \<Rightarrow> string" where
  "trim_end s = rev (strip_leading (map rev white_space) (rev s))"

definition trim :: "string \<Rightarrow> string" where
  "trim s = trim_end (trim_start s)"

definition blank :: "string \<Rightarrow> bool" where
  "blank s \<longleftrightarrow> trim s = []"

lemma leading_None: "leading ws s = None \<longleftrightarrow> (\<forall>w \<in> set ws. w \<noteq> [] \<longrightarrow> \<not> prefix w s)"
  by (auto simp: leading_def find_None_iff)

lemma leading_strip [simp]: "leading ws (strip_leading ws s) = None"
proof (induction ws s rule: strip_leading.induct)
  case (1 ws s)
  then show ?case
    by (cases "leading ws s") (simp_all add: strip_leading.simps [of ws s])
qed

lemma strip_leading_done: "leading ws s = None \<Longrightarrow> strip_leading ws s = s"
  by (simp add: strip_leading.simps)

lemma strip_leading_idem [simp]: "strip_leading ws (strip_leading ws s) = strip_leading ws s"
  by (simp add: strip_leading_done)

lemma strip_leading_suffix: "suffix (strip_leading ws s) s"
proof (induction ws s rule: strip_leading.induct)
  case (1 ws s)
  show ?case
  proof (cases "leading ws s")
    case None
    then show ?thesis by (simp add: strip_leading_done)
  next
    case (Some w)
    with 1 have "suffix (strip_leading ws (drop (length w) s)) (drop (length w) s)" by simp
    then have "suffix (strip_leading ws (drop (length w) s)) s"
      by (metis suffix_drop suffix_order.trans)
    with Some show ?thesis by (simp add: strip_leading.simps [of ws s])
  qed
qed

lemma leading_prefix_None: "prefix t s \<Longrightarrow> leading ws s = None \<Longrightarrow> leading ws t = None"
  by (auto simp: leading_None dest: prefix_order.trans)

lemma trim_end_prefix: "prefix (trim_end s) s"
  unfolding trim_end_def
  by (metis rev_rev_ident strip_leading_suffix suffix_to_prefix)

lemma trim_end_idem [simp]: "trim_end (trim_end s) = trim_end s"
  by (simp add: trim_end_def)

text \<open>Trimming twice is trimming once: removing trailing white space uncovers no leading one.\<close>

lemma trim_idem [simp]: "trim (trim s) = trim s"
proof -
  have "leading white_space (trim_start s) = None" by (simp add: trim_start_def)
  then have "leading white_space (trim s) = None"
    unfolding trim_def by (rule leading_prefix_None [OF trim_end_prefix])
  then have "trim_start (trim s) = trim s" by (simp add: trim_start_def strip_leading_done)
  then show ?thesis by (simp add: trim_def)
qed

text \<open>A byte that is part of no white space makes a text visible.\<close>

lemma strip_leading_keeps: "c \<in> set s \<Longrightarrow> \<forall>w \<in> set ws. c \<notin> set w \<Longrightarrow> c \<in> set (strip_leading ws s)"
proof (induction ws s rule: strip_leading.induct)
  case (1 ws s)
  show ?case
  proof (cases "leading ws s")
    case None
    with "1.prems" show ?thesis by (simp add: strip_leading_done)
  next
    case (Some w)
    then have "w \<in> set ws" "prefix w s" by (auto simp: leading_def find_Some_iff)
    with "1.prems" have "c \<in> set (drop (length w) s)" by (auto simp: prefix_def)
    with 1 Some show ?thesis by (simp add: strip_leading.simps [of ws s])
  qed
qed

lemma visible_not_blank: "c \<in> set s \<Longrightarrow> list_all (\<lambda>w. c \<notin> set w) white_space \<Longrightarrow> \<not> blank s"
proof -
  assume "c \<in> set s" "list_all (\<lambda>w. c \<notin> set w) white_space"
  then have "c \<in> set (trim s)"
    unfolding trim_def trim_end_def trim_start_def by (auto simp: list_all_iff intro!: strip_leading_keeps)
  then show "\<not> blank s" by (auto simp: blank_def)
qed

lemma trim_Nil [simp]: "trim [] = []"
  by code_simp

lemma blank_Nil [simp]: "blank []"
  by (simp add: blank_def)

lemma trim_nonblank: "\<not> blank s \<Longrightarrow> trim s \<noteq> []"
  by (simp add: blank_def)

subsection \<open>Searching and splitting\<close>

text \<open>\<open>strip_prefix\<close>, \<open>strip_suffix\<close>, \<open>contains\<close>, \<open>split_once\<close> on a byte, and \<open>split\<close> on a byte,
  which keeps empty pieces and always returns at least one.\<close>

fun strip_prefix :: "string \<Rightarrow> string \<Rightarrow> string option" where
  "strip_prefix [] s = Some s"
| "strip_prefix (p # ps) [] = None"
| "strip_prefix (p # ps) (c # s) = (if p = c then strip_prefix ps s else None)"

definition strip_suffix :: "string \<Rightarrow> string \<Rightarrow> string option" where
  "strip_suffix p s = map_option rev (strip_prefix (rev p) (rev s))"

lemma strip_prefix_Some: "strip_prefix p s = Some r \<longleftrightarrow> s = p @ r"
  by (induction p s rule: strip_prefix.induct) auto

lemma strip_suffix_Some: "strip_suffix p s = Some r \<longleftrightarrow> s = r @ p"
proof -
  have "strip_suffix p s = Some r \<longleftrightarrow> strip_prefix (rev p) (rev s) = Some (rev r)"
    unfolding strip_suffix_def by (cases "strip_prefix (rev p) (rev s)") auto
  also have "\<dots> \<longleftrightarrow> rev s = rev (r @ p)" by (simp add: strip_prefix_Some)
  also have "\<dots> \<longleftrightarrow> s = r @ p" by (simp only: rev_is_rev_conv)
  finally show ?thesis .
qed

lemma strip_prefix_append [simp]: "strip_prefix p (p @ r) = Some r"
  by (simp add: strip_prefix_Some)

definition contains :: "string \<Rightarrow> string \<Rightarrow> bool" where
  "contains s p \<longleftrightarrow> (\<exists>i \<in> set [0..<Suc (length s)]. prefix p (drop i s))"

lemma contains_iff: "contains s p \<longleftrightarrow> (\<exists>a b. s = a @ p @ b)"
proof
  assume "contains s p"
  then obtain i r where "drop i s = p @ r" by (auto simp: contains_def prefix_def)
  then have "s = take i s @ p @ r" by (metis append_take_drop_id)
  then show "\<exists>a b. s = a @ p @ b" by blast
next
  assume "\<exists>a b. s = a @ p @ b"
  then obtain a b where s: "s = a @ p @ b" by blast
  then have "prefix p (drop (length a) s)" by simp
  moreover have "length a \<in> set [0..<Suc (length s)]" by (simp add: s)
  ultimately show "contains s p" unfolding contains_def by blast
qed

fun split_once :: "char \<Rightarrow> string \<Rightarrow> (string \<times> string) option" where
  "split_once c [] = None"
| "split_once c (x # xs) =
     (if x = c then Some ([], xs)
      else map_option (\<lambda>(a, b). (x # a, b)) (split_once c xs))"

lemma split_once_Some: "split_once c s = Some (a, b) \<longleftrightarrow> s = a @ c # b \<and> c \<notin> set a"
proof (induction s arbitrary: a)
  case Nil
  then show ?case by simp
next
  case (Cons x xs)
  show ?case
  proof (cases "x = c")
    case True
    then show ?thesis by (cases a) auto
  next
    case False
    have "split_once c (x # xs) = Some (a, b) \<longleftrightarrow>
        (\<exists>a'. split_once c xs = Some (a', b) \<and> a = x # a')"
      using False by auto
    also have "\<dots> \<longleftrightarrow> (\<exists>a'. xs = a' @ c # b \<and> c \<notin> set a' \<and> a = x # a')"
      by (simp add: Cons)
    also have "\<dots> \<longleftrightarrow> x # xs = a @ c # b \<and> c \<notin> set a"
      using False by (cases a) auto
    finally show ?thesis .
  qed
qed

lemma split_once_None: "split_once c s = None \<longleftrightarrow> c \<notin> set s"
  by (induction s) auto

fun split_on :: "char \<Rightarrow> string \<Rightarrow> string list" where
  "split_on c [] = [[]]"
| "split_on c (x # xs) =
     (if x = c then [] # split_on c xs
      else (case split_on c xs of [] \<Rightarrow> [[x]] | p # ps \<Rightarrow> (x # p) # ps))"

lemma split_on_nonempty [simp]: "split_on c s \<noteq> []"
  by (induction s) (auto split: list.splits)

lemma split_on_pieces: "p \<in> set (split_on c s) \<Longrightarrow> c \<notin> set p"
proof (induction s arbitrary: p)
  case Nil
  then show ?case by simp
next
  case (Cons x s)
  obtain q qs where "split_on c s = q # qs" by (cases "split_on c s") auto
  with Cons show ?case by (auto split: if_splits)
qed

text \<open>\<open>match_indices\<close>: the start indices of the non-overlapping matches of a nonempty pattern,
  found from the left.\<close>

function match_indices_from :: "nat \<Rightarrow> string \<Rightarrow> string \<Rightarrow> nat list" where
  "match_indices_from i p s =
     (if p = [] \<or> s = [] then []
      else if prefix p s then i # match_indices_from (i + length p) p (drop (length p) s)
      else match_indices_from (Suc i) p (tl s))"
  by pat_completeness auto
termination
  by (relation "measure (\<lambda>(i, p, s). length s)") auto

declare match_indices_from.simps [simp del]

definition match_indices :: "string \<Rightarrow> string \<Rightarrow> nat list" where
  "match_indices p s = match_indices_from 0 p s"

lemma match_indices_from_sound:
  "j \<in> set (match_indices_from i p s) \<Longrightarrow> i \<le> j \<and> prefix p (drop (j - i) s)"
proof (induction i p s rule: match_indices_from.induct)
  case (1 i p s)
  show ?case
  proof (cases "p = [] \<or> s = []")
    case True
    with "1.prems" show ?thesis by (simp add: match_indices_from.simps [of i p s])
  next
    case ne: False
    show ?thesis
    proof (cases "prefix p s")
      case True
      with ne "1.prems" consider "j = i" | "j \<in> set (match_indices_from (i + length p) p (drop (length p) s))"
        by (auto simp: match_indices_from.simps [of i p s])
      then show ?thesis
      proof cases
        case 1
        with True show ?thesis by simp
      next
        case 2
        with ne True "1.IH"(1) have "i + length p \<le> j \<and> prefix p (drop (j - (i + length p)) (drop (length p) s))"
          by blast
        moreover from this have "length p + (j - (i + length p)) = j - i" by arith
        ultimately show ?thesis by (simp add: add.commute)
      qed
    next
      case False
      with ne "1.prems" have "j \<in> set (match_indices_from (Suc i) p (tl s))"
        by (simp add: match_indices_from.simps [of i p s])
      with ne False "1.IH"(2) have IH: "Suc i \<le> j \<and> prefix p (drop (j - Suc i) (tl s))" by blast
      then have "drop (j - Suc i) (tl s) = drop (j - i) s"
        by (metis Suc_diff_Suc Suc_le_eq drop_Suc)
      with IH show ?thesis by simp
    qed
  qed
qed

lemma match_indices_sound: "j \<in> set (match_indices p s) \<Longrightarrow> prefix p (drop j s)"
  unfolding match_indices_def by (drule match_indices_from_sound) simp

lemma match_indices_skip:
  assumes "p \<noteq> []" and "hd p \<notin> set a"
  shows "match_indices_from i p (a @ s) = match_indices_from (i + length a) p s"
  using assms(2)
proof (induction a arbitrary: i)
  case Nil
  then show ?case by simp
next
  case (Cons x a)
  then have "\<not> prefix p ((x # a) @ s)" using assms(1) by (cases p) auto
  then have "match_indices_from i p ((x # a) @ s) = match_indices_from (Suc i) p (a @ s)"
    using assms(1) by (subst match_indices_from.simps) simp
  with Cons show ?case by simp
qed

lemma match_indices_none:
  assumes "p \<noteq> []" and "hd p \<notin> set a"
  shows "match_indices_from i p a = []"
  using match_indices_skip [OF assms, of i "[]"]
  by (simp add: match_indices_from.simps [of "i + length a" p "[]"])

lemma match_indices_hit:
  "p \<noteq> [] \<Longrightarrow> match_indices_from i p (p @ s) = i # match_indices_from (i + length p) p s"
  by (simp add: match_indices_from.simps [of i p "p @ s"])

lemma match_indices_miss:
  "\<not> prefix p (c # s) \<Longrightarrow> p \<noteq> [] \<Longrightarrow>
     match_indices_from i p (c # s) = match_indices_from (Suc i) p s"
  by (simp add: match_indices_from.simps [of i p "c # s"])

lemma prefix_drop_split:
  "prefix p (drop i s) \<Longrightarrow> s = take i s @ p @ drop (i + length p) s"
  by (metis add.commute append_eq_conv_conj append_take_drop_id drop_drop prefix_def)

subsection \<open>Bytes and decimal text\<close>

definition byte :: "char \<Rightarrow> nat" where
  "byte c = of_char c"

definition is_ascii_digit :: "char \<Rightarrow> bool" where
  "is_ascii_digit c \<longleftrightarrow> 48 \<le> byte c \<and> byte c \<le> 57"

definition is_ascii_uppercase :: "char \<Rightarrow> bool" where
  "is_ascii_uppercase c \<longleftrightarrow> 65 \<le> byte c \<and> byte c \<le> 90"

definition is_ascii_lowercase :: "char \<Rightarrow> bool" where
  "is_ascii_lowercase c \<longleftrightarrow> 97 \<le> byte c \<and> byte c \<le> 122"

definition is_ascii_hexdigit :: "char \<Rightarrow> bool" where
  "is_ascii_hexdigit c \<longleftrightarrow>
     is_ascii_digit c \<or> (65 \<le> byte c \<and> byte c \<le> 70) \<or> (97 \<le> byte c \<and> byte c \<le> 102)"

definition hex_text :: "nat \<Rightarrow> string \<Rightarrow> bool" where
  "hex_text n s \<longleftrightarrow> length s = n \<and> list_all is_ascii_hexdigit s"

fun decimal :: "nat \<Rightarrow> string" where
  "decimal n =
     (if n < 10 then [char_of (48 + n)] else decimal (n div 10) @ [char_of (48 + n mod 10)])"

declare decimal.simps [simp del]

text \<open>A byte string is UTF-8 when \<open>std::str::from_utf8\<close> accepts it.\<close>

definition tail_byte :: "nat \<Rightarrow> bool" where
  "tail_byte b \<longleftrightarrow> 128 \<le> b \<and> b \<le> 191"

fun utf8_bytes :: "nat list \<Rightarrow> bool" where
  "utf8_bytes [] = True"
| "utf8_bytes (a # as) =
     (if a < 128 then utf8_bytes as
      else (case as of
         [] \<Rightarrow> False
       | b # bs \<Rightarrow>
           if 194 \<le> a \<and> a \<le> 223 then tail_byte b \<and> utf8_bytes bs
           else (case bs of
              [] \<Rightarrow> False
            | c # cs \<Rightarrow>
                if 224 \<le> a \<and> a \<le> 239 then
                  tail_byte b \<and> (a = 224 \<longrightarrow> 160 \<le> b) \<and> (a = 237 \<longrightarrow> b \<le> 159)
                  \<and> tail_byte c \<and> utf8_bytes cs
                else (case cs of
                   [] \<Rightarrow> False
                 | d # ds \<Rightarrow>
                     240 \<le> a \<and> a \<le> 244 \<and> tail_byte b \<and> (a = 240 \<longrightarrow> 144 \<le> b)
                     \<and> (a = 244 \<longrightarrow> b \<le> 143) \<and> tail_byte c \<and> tail_byte d \<and> utf8_bytes ds))))"

definition utf8 :: "string \<Rightarrow> bool" where
  "utf8 s \<longleftrightarrow> utf8_bytes (map byte s)"

lemma utf8_first:
  assumes "utf8_bytes (a # as)"
  obtains ts rest where "as = ts @ rest" "list_all tail_byte ts" "length ts \<le> 3" "utf8_bytes rest" "\<not> tail_byte a"
proof (cases "a < 128")
  case True
  with assms show ?thesis by (intro that [of "[]" as]) (simp_all add: tail_byte_def)
next
  case a: False
  then obtain b bs where as: "as = b # bs" using assms by (auto split: list.splits)
  show ?thesis
  proof (cases "194 \<le> a \<and> a \<le> 223")
    case True
    with assms a as show ?thesis by (intro that [of "[b]" bs]) (auto simp: tail_byte_def)
  next
    case two: False
    then obtain c cs where bs: "bs = c # cs" using assms a as by (auto split: list.splits)
    show ?thesis
    proof (cases "224 \<le> a \<and> a \<le> 239")
      case True
      with assms a as bs two show ?thesis by (intro that [of "[b, c]" cs]) (auto simp: tail_byte_def)
    next
      case three: False
      then obtain d ds where cs: "cs = d # ds" using assms a as bs two by (auto split: list.splits)
      with assms a as bs two three show ?thesis
        by (intro that [of "[b, c, d]" ds]) (auto simp: tail_byte_def)
    qed
  qed
qed

text \<open>Wherever a text is cut, at most three bytes of a character begun before follow.\<close>

lemma utf8_cut:
  "utf8_bytes bs \<Longrightarrow> \<exists>ts rest. drop n bs = ts @ rest \<and> list_all tail_byte ts \<and> length ts \<le> 3 \<and> utf8_bytes rest"
proof (induction "length bs" arbitrary: bs n rule: less_induct)
  case less
  show ?case
  proof (cases n)
    case 0
    with less.prems show ?thesis by (intro exI [of _ "[]"] exI [of _ bs]) simp
  next
    case (Suc k)
    show ?thesis
    proof (cases bs)
      case Nil
      then show ?thesis by simp
    next
      case (Cons a as)
      obtain ts rest where as: "as = ts @ rest" "list_all tail_byte ts" "length ts \<le> 3" "utf8_bytes rest"
        using less.prems unfolding Cons by (rule utf8_first)
      show ?thesis
      proof (cases "k < length ts")
        case True
        with as Suc Cons show ?thesis
          by (intro exI [of _ "drop k ts"] exI [of _ rest]) (auto simp: list_all_iff dest: in_set_dropD)
      next
        case False
        then have "drop n bs = drop (k - length ts) rest" using as Suc Cons by simp
        moreover have "length rest < length bs" using as Cons by simp
        ultimately show ?thesis using less.hyps [OF _ as(4), of "k - length ts"] by simp
      qed
    qed
  qed
qed

lemma utf8_starts: "utf8_bytes bs \<Longrightarrow> dropWhile tail_byte bs = bs"
proof (cases bs)
  case (Cons a as)
  moreover assume "utf8_bytes bs"
  ultimately have "\<not> tail_byte a" by (metis utf8_first)
  with Cons show ?thesis by simp
qed simp

lemma utf8_cut_dropped:
  assumes "utf8 s"
  shows "utf8 (dropWhile (\<lambda>c. tail_byte (byte c)) (drop n s))"
    "length (dropWhile (\<lambda>c. tail_byte (byte c)) (drop n s)) + 3 \<ge> length (drop n s)"
proof -
  obtain ts rest where cut: "drop n (map byte s) = ts @ rest" "list_all tail_byte ts" "length ts \<le> 3" "utf8_bytes rest"
    using utf8_cut assms unfolding utf8_def by blast
  have "map byte (dropWhile (\<lambda>c. tail_byte (byte c)) (drop n s)) = dropWhile tail_byte (drop n (map byte s))"
    by (simp add: drop_map dropWhile_map comp_def)
  also have "\<dots> = rest" using cut by (simp add: dropWhile_append2 list_all_iff utf8_starts)
  finally have r: "map byte (dropWhile (\<lambda>c. tail_byte (byte c)) (drop n s)) = rest" .
  then show "utf8 (dropWhile (\<lambda>c. tail_byte (byte c)) (drop n s))" using cut(4) by (simp add: utf8_def)
  have "length (drop n s) = length ts + length rest"
    using arg_cong [OF cut(1), of length] by simp
  with r [THEN arg_cong [of _ _ length]] cut(3)
  show "length (dropWhile (\<lambda>c. tail_byte (byte c)) (drop n s)) + 3 \<ge> length (drop n s)" by simp
qed

subsection \<open>Paths\<close>

datatype component = RootDir | CurDir | ParentDir | Normal string

definition is_absolute :: "string \<Rightarrow> bool" where
  "is_absolute p \<longleftrightarrow> prefix ''/'' p"

fun path_piece :: "string \<Rightarrow> component list" where
  "path_piece s =
     (if s = [] \<or> s = ''.'' then [] else if s = ''..'' then [ParentDir] else [Normal s])"

definition components :: "string \<Rightarrow> component list" where
  "components p =
     (let pieces = split_on (CHR ''/'') p;
          body = concat (map path_piece pieces)
      in if is_absolute p then RootDir # body
         else if hd pieces = ''.'' then CurDir # body else body)"

definition path_eq :: "string \<Rightarrow> string \<Rightarrow> bool" where
  "path_eq p q \<longleftrightarrow> components p = components q"

definition path_starts_with :: "string \<Rightarrow> string \<Rightarrow> bool" where
  "path_starts_with p base \<longleftrightarrow> prefix (components base) (components p)"

definition path_to_str :: "string \<Rightarrow> string option" where
  "path_to_str p = (if utf8 p then Some p else None)"

lemma path_eq_refl [simp]: "path_eq p p"
  by (simp add: path_eq_def)

lemma path_eq_sym: "path_eq p q \<Longrightarrow> path_eq q p"
  by (simp add: path_eq_def)

lemma path_eq_trans: "path_eq p q \<Longrightarrow> path_eq q r \<Longrightarrow> path_eq p r"
  by (simp add: path_eq_def)

lemma path_piece_not_special: "c \<in> set (path_piece s) \<Longrightarrow> c \<noteq> RootDir \<and> c \<noteq> CurDir"
  by (auto split: if_splits)

lemma components_absolute: "RootDir \<in> set (components p) \<longleftrightarrow> is_absolute p"
  by (auto simp: components_def Let_def dest: path_piece_not_special simp del: path_piece.simps)

lemma path_eq_absolute: "path_eq p q \<Longrightarrow> is_absolute p = is_absolute q"
  by (metis components_absolute path_eq_def)

end
