(* ===== verification/Participant.thy ===== *)
theory Participant
  imports Rust_Text
begin

text \<open>
  The marker protocol of the participants, \<open>crates/core/src/participant.rs\<close>: the signals a task may
  return, and the parser that extracts the one result marker of a response. The parser's error is
  its \<open>detail\<close> text; the argument \<open>dbg\<close> is the escaping of Rust's \<open>{:?}\<close> on strings, which follows the
  Unicode tables of the standard library and is only used to quote an unknown signal in an error.
\<close>

definition PARTICIPANT_PROTOCOL_V2 :: string where
  "PARTICIPANT_PROTOCOL_V2 = ''worktree-merge-consensus/v2''"

definition MARKER_OPEN :: string where
  "MARKER_OPEN = ''<consensus-result>''"

definition MARKER_CLOSE :: string where
  "MARKER_CLOSE = ''</consensus-result>''"

datatype participant_signal =
    ContractReady
  | PlanReady
  | Approved
  | ChangesRequired
  | IntegrationReady
  | VerificationReady
  | SignalBlocked

fun signal_as_str :: "participant_signal \<Rightarrow> string" where
  "signal_as_str ContractReady = ''CONTRACT_READY''"
| "signal_as_str PlanReady = ''PLAN_READY''"
| "signal_as_str Approved = ''APPROVED''"
| "signal_as_str ChangesRequired = ''CHANGES_REQUIRED''"
| "signal_as_str IntegrationReady = ''INTEGRATION_READY''"
| "signal_as_str VerificationReady = ''VERIFICATION_READY''"
| "signal_as_str SignalBlocked = ''BLOCKED''"

definition signal_parse :: "string \<Rightarrow> participant_signal option" where
  "signal_parse value =
     (if value = ''CONTRACT_READY'' then Some ContractReady
      else if value = ''PLAN_READY'' then Some PlanReady
      else if value = ''APPROVED'' then Some Approved
      else if value = ''CHANGES_REQUIRED'' then Some ChangesRequired
      else if value = ''INTEGRATION_READY'' then Some IntegrationReady
      else if value = ''VERIFICATION_READY'' then Some VerificationReady
      else if value = ''BLOCKED'' then Some SignalBlocked
      else None)"

record participant_response =
  resp_signal :: participant_signal
  resp_blocked_reason :: "string option"
  resp_body :: string

definition reason_byte :: "char \<Rightarrow> bool" where
  "reason_byte b \<longleftrightarrow> is_ascii_uppercase b \<or> is_ascii_digit b \<or> b = CHR ''_''"

definition valid_reason :: "string \<Rightarrow> bool" where
  "valid_reason reason \<longleftrightarrow> reason \<noteq> [] \<and> length reason \<le> 64 \<and> list_all reason_byte reason"

text \<open>The value between the markers: the signal text and the reason of a \<open>BLOCKED:REASON\<close>.\<close>

definition marker_signal :: "string \<Rightarrow> string + string \<times> string option" where
  "marker_signal marker_value =
     (case split_once (CHR '':'') marker_value of
        Some (signal, reason) \<Rightarrow>
          if trim signal = ''BLOCKED'' then
            (let reason = trim reason in
             if \<not> valid_reason reason then
               Inl ''a BLOCKED reason must be 1-64 uppercase ASCII letters, digits, or underscores''
             else Inr (trim signal, Some reason))
          else Inl ''only BLOCKED may include an optional reason after a colon''
      | None \<Rightarrow> Inr (marker_value, None))"

definition response_body :: "string \<Rightarrow> string \<Rightarrow> string" where
  "response_body text_before text_after =
     (if text_before = [] \<and> text_after = [] then []
      else if text_after = [] then text_before
      else if text_before = [] then text_after
      else text_before @ [CHR 0x0A, CHR 0x0A] @ text_after)"

definition parse_participant_response ::
  "(string \<Rightarrow> string) \<Rightarrow> string \<Rightarrow> participant_signal list \<Rightarrow> string + participant_response" where
  "parse_participant_response dbg text allowed =
     (let opens = match_indices MARKER_OPEN text;
          closes = match_indices MARKER_CLOSE text
      in if length opens \<noteq> 1 \<or> length closes \<noteq> 1 then
           Inl (''expected exactly one '' @ MARKER_OPEN @ ''...'' @ MARKER_CLOSE @ '' marker'')
         else
           let marker_start = hd opens;
               value_start = marker_start + length MARKER_OPEN;
               marker_end = hd closes
           in if marker_end < value_start then
                Inl ''the closing marker appears before the opening marker''
              else
                attempt (marker_signal (trim (take (marker_end - value_start) (drop value_start text))))
                  (\<lambda>(signal_value, blocked_reason).
                     attempt (ok_or (''unknown result '' @ dbg signal_value) (signal_parse signal_value))
                       (\<lambda>signal.
                          if signal \<notin> set allowed then
                            Inl (''result '' @ signal_as_str signal @ '' is not allowed for this turn'')
                          else
                            let after_marker = marker_end + length MARKER_CLOSE;
                                before = trim (take marker_start text);
                                after = trim (drop after_marker text)
                            in Inr \<lparr>resp_signal = signal, resp_blocked_reason = blocked_reason,
                                    resp_body = response_body before after\<rparr>)))"

subsection \<open>Signals\<close>

lemma signal_parse_as_str [simp]: "signal_parse (signal_as_str g) = Some g"
  by (cases g) (simp_all add: signal_parse_def)

lemma signal_parse_Some: "signal_parse v = Some g \<longleftrightarrow> v = signal_as_str g"
  by (cases g) (auto simp: signal_parse_def split: if_splits)

lemma blocked_as_str [simp]: "''BLOCKED'' = signal_as_str g \<longleftrightarrow> g = SignalBlocked"
  by (cases g) simp_all

lemma signal_as_str_plain: "c \<in> set (signal_as_str g) \<Longrightarrow> reason_byte c"
proof -
  have "list_all (\<lambda>g. list_all reason_byte (signal_as_str g))
      [ContractReady, PlanReady, Approved, ChangesRequired, IntegrationReady, VerificationReady,
       SignalBlocked]"
    by code_simp
  then have "list_all reason_byte (signal_as_str g)" by (cases g) simp_all
  then show "c \<in> set (signal_as_str g) \<Longrightarrow> reason_byte c" by (simp add: list_all_iff)
qed

lemma reason_byte_colon: "\<not> reason_byte (CHR '':'')"
  by code_simp

lemma split_once_signal [simp]: "split_once (CHR '':'') (signal_as_str g) = None"
  using signal_as_str_plain reason_byte_colon by (auto simp: split_once_None)

lemma marker_signal_plain [simp]: "marker_signal (signal_as_str g) = Inr (signal_as_str g, None)"
  by (simp add: marker_signal_def)

lemma marker_signal_Inr:
  "marker_signal v = Inr (sv, r) \<longleftrightarrow>
     (case r of
        None \<Rightarrow> CHR '':'' \<notin> set v \<and> sv = v
      | Some reason \<Rightarrow> valid_reason reason \<and> sv = ''BLOCKED'' \<and>
          (\<exists>a b. v = a @ CHR '':'' # b \<and> CHR '':'' \<notin> set a \<and> trim a = ''BLOCKED'' \<and> trim b = reason))"
proof (cases "split_once (CHR '':'') v")
  case None
  moreover from None have "CHR '':'' \<notin> set v" by (simp add: split_once_None)
  ultimately show ?thesis by (cases r) (auto simp: marker_signal_def)
next
  case (Some p)
  obtain a b where p: "p = (a, b)" by (cases p)
  with Some have v: "v = a @ CHR '':'' # b" and a: "CHR '':'' \<notin> set a"
    by (auto simp: split_once_Some)
  have unique: "a' = a \<and> b' = b" if "v = a' @ CHR '':'' # b'" and "CHR '':'' \<notin> set a'" for a' b'
  proof -
    from that have "split_once (CHR '':'') v = Some (a', b')" by (simp add: split_once_Some)
    with Some p show ?thesis by simp
  qed
  show ?thesis
  proof (cases r)
    case None
    with Some p v show ?thesis by (auto simp: marker_signal_def Let_def split: if_splits)
  next
    case (Some reason)
    have "marker_signal v = Inr (sv, r) \<longleftrightarrow>
        trim a = ''BLOCKED'' \<and> valid_reason (trim b) \<and> sv = ''BLOCKED'' \<and> trim b = reason"
      using \<open>split_once (CHR '':'') v = Some p\<close> p Some by (auto simp: marker_signal_def Let_def)
    also have "\<dots> \<longleftrightarrow> valid_reason reason \<and> sv = ''BLOCKED'' \<and>
        (\<exists>a b. v = a @ CHR '':'' # b \<and> CHR '':'' \<notin> set a \<and> trim a = ''BLOCKED'' \<and> trim b = reason)"
      using v a unique by blast
    finally show ?thesis using Some by simp
  qed
qed

subsection \<open>Where the markers are\<close>

lemma markers_nonempty [simp]: "MARKER_OPEN \<noteq> []" "MARKER_CLOSE \<noteq> []"
  by (simp_all add: MARKER_OPEN_def MARKER_CLOSE_def)

lemma hd_markers: "hd MARKER_OPEN = CHR ''<''" "hd MARKER_CLOSE = CHR ''<''"
  by (simp_all add: MARKER_OPEN_def MARKER_CLOSE_def)

lemma match_open_at_close:
  "match_indices_from i MARKER_OPEN (MARKER_CLOSE @ s) = match_indices_from (i + length MARKER_CLOSE) MARKER_OPEN s"
proof -
  have "match_indices_from i MARKER_OPEN (MARKER_CLOSE @ s)
      = match_indices_from (Suc i) MARKER_OPEN (tl MARKER_CLOSE @ s)"
    by (simp add: MARKER_OPEN_def MARKER_CLOSE_def match_indices_miss)
  also have "\<dots> = match_indices_from (Suc i + length (tl MARKER_CLOSE)) MARKER_OPEN s"
    by (rule match_indices_skip) (simp_all add: MARKER_OPEN_def MARKER_CLOSE_def)
  finally show ?thesis by (simp add: MARKER_CLOSE_def)
qed

lemma match_close_at_open:
  "match_indices_from i MARKER_CLOSE (MARKER_OPEN @ s) = match_indices_from (i + length MARKER_OPEN) MARKER_CLOSE s"
proof -
  have "match_indices_from i MARKER_CLOSE (MARKER_OPEN @ s)
      = match_indices_from (Suc i) MARKER_CLOSE (tl MARKER_OPEN @ s)"
    by (simp add: MARKER_OPEN_def MARKER_CLOSE_def match_indices_miss)
  also have "\<dots> = match_indices_from (Suc i + length (tl MARKER_OPEN)) MARKER_CLOSE s"
    by (rule match_indices_skip) (simp_all add: MARKER_OPEN_def MARKER_CLOSE_def)
  finally show ?thesis by (simp add: MARKER_OPEN_def)
qed

lemma marker_positions:
  assumes "CHR ''<'' \<notin> set before" and "CHR ''<'' \<notin> set v" and "CHR ''<'' \<notin> set after"
  defines "text \<equiv> before @ MARKER_OPEN @ v @ MARKER_CLOSE @ after"
  shows "match_indices MARKER_OPEN text = [length before]"
    and "match_indices MARKER_CLOSE text = [length before + length MARKER_OPEN + length v]"
  using assms(1-3)
  by (simp_all add: text_def match_indices_def match_indices_skip hd_markers match_indices_hit
      match_open_at_close match_close_at_open match_indices_none)

text \<open>What an accepted response looks like: one marker, its value, and the text around it.\<close>

definition marker_layout :: "string \<Rightarrow> string \<Rightarrow> string \<Rightarrow> string \<Rightarrow> bool" where
  "marker_layout text before v after \<longleftrightarrow> text = before @ MARKER_OPEN @ v @ MARKER_CLOSE @ after"

lemma parse_layout:
  assumes "match_indices MARKER_OPEN text = [i]" and "match_indices MARKER_CLOSE text = [j]"
    and "i + length MARKER_OPEN \<le> j"
  shows "marker_layout text (take i text)
      (take (j - (i + length MARKER_OPEN)) (drop (i + length MARKER_OPEN) text))
      (drop (j + length MARKER_CLOSE) text)"
proof -
  let ?v = "i + length MARKER_OPEN"
  from assms(1) have "prefix MARKER_OPEN (drop i text)" by (auto intro: match_indices_sound)
  then have o: "text = take i text @ MARKER_OPEN @ drop ?v text" by (rule prefix_drop_split)
  from assms(2) have "prefix MARKER_CLOSE (drop j text)" by (auto intro: match_indices_sound)
  moreover have "drop j text = drop (j - ?v) (drop ?v text)" using assms(3) by simp
  ultimately have "drop ?v text = take (j - ?v) (drop ?v text) @ MARKER_CLOSE
      @ drop (j - ?v + length MARKER_CLOSE) (drop ?v text)"
    by (metis prefix_drop_split)
  moreover have "drop (j - ?v + length MARKER_CLOSE) (drop ?v text) = drop (j + length MARKER_CLOSE) text"
    using assms(3) by (simp add: add.commute add.left_commute)
  ultimately show ?thesis using o by (simp add: marker_layout_def)
qed

lemma parse_accepted_positions:
  assumes "parse_participant_response dbg text allowed = Inr r"
  obtains i j where "match_indices MARKER_OPEN text = [i]" and "match_indices MARKER_CLOSE text = [j]"
    and "i + length MARKER_OPEN \<le> j"
proof -
  from assms have "length (match_indices MARKER_OPEN text) = 1 \<and> length (match_indices MARKER_CLOSE text) = 1"
    by (simp add: parse_participant_response_def Let_def split: if_splits)
  then obtain i j where ij: "match_indices MARKER_OPEN text = [i]" "match_indices MARKER_CLOSE text = [j]"
    by (auto simp: length_Suc_conv)
  with assms have "i + length MARKER_OPEN \<le> j"
    by (simp add: parse_participant_response_def Let_def split: if_splits)
  with ij show ?thesis by (rule that)
qed

subsection \<open>Soundness and completeness of the parser\<close>

text \<open>Soundness of the marker parser. Whatever response \<open>parse_participant_response\<close> accepts has
  exactly one opening and one closing marker, in this order; the signal returned is allowed for the
  turn; the value between the markers is that signal, or \<open>BLOCKED:REASON\<close> with a reason of 1 to 64
  bytes from the restricted alphabet; and the body is the trimmed text around the marker.\<close>

theorem participant_parse_sound:
  assumes "parse_participant_response dbg text allowed = Inr r"
  shows "resp_signal r \<in> set allowed \<and>
    (\<exists>before v after. marker_layout text before v after \<and>
       match_indices MARKER_OPEN text = [length before] \<and>
       match_indices MARKER_CLOSE text = [length before + length MARKER_OPEN + length v] \<and>
       resp_body r = response_body (trim before) (trim after) \<and>
       (case resp_blocked_reason r of
          None \<Rightarrow> trim v = signal_as_str (resp_signal r)
        | Some reason \<Rightarrow> resp_signal r = SignalBlocked \<and> valid_reason reason \<and>
            (\<exists>a b. trim v = a @ CHR '':'' # b \<and> trim a = ''BLOCKED'' \<and> trim b = reason)))"
proof -
  obtain i j where one: "match_indices MARKER_OPEN text = [i]" "match_indices MARKER_CLOSE text = [j]"
    and le: "i + length MARKER_OPEN \<le> j"
    using assms by (rule parse_accepted_positions)
  let ?s = "i + length MARKER_OPEN"
  let ?v = "take (j - ?s) (drop ?s text)"
  obtain sv g where m: "marker_signal (trim ?v) = Inr (sv, resp_blocked_reason r)"
    and g: "signal_parse sv = Some g" and r: "resp_signal r = g" "g \<in> set allowed"
      "resp_body r = response_body (trim (take i text)) (trim (drop (j + length MARKER_CLOSE) text))"
    using assms one le
    by (simp add: parse_participant_response_def Let_def attempt_Inr ok_or_Inr split: if_splits prod.splits)
       (elim exE conjE; force)
  have lay: "marker_layout text (take i text) ?v (drop (j + length MARKER_CLOSE) text)"
    by (rule parse_layout [OF one le])
  have "prefix MARKER_OPEN (drop i text)" "prefix MARKER_CLOSE (drop j text)"
    using one by (auto intro: match_indices_sound)
  then have len: "i < length text" "j < length text"
    by (metis drop_all leI markers_nonempty(1) prefix_bot.extremum_unique,
        metis drop_all leI markers_nonempty(2) prefix_bot.extremum_unique)
  have "case resp_blocked_reason r of
          None \<Rightarrow> trim ?v = signal_as_str (resp_signal r)
        | Some reason \<Rightarrow> resp_signal r = SignalBlocked \<and> valid_reason reason \<and>
            (\<exists>a b. trim ?v = a @ CHR '':'' # b \<and> trim a = ''BLOCKED'' \<and> trim b = reason)"
    using m g r(1) by (auto simp: marker_signal_Inr signal_parse_Some blocked_as_str split: option.splits)
  then show ?thesis using lay one r len le
    by (intro conjI exI [of _ "take i text"] exI [of _ ?v] exI [of _ "drop (j + length MARKER_CLOSE) text"])
       simp_all
qed

text \<open>Completeness of the marker parser (round trip). Rendering any allowed signal between the
  markers, padded with any white space, inside any text without \<open><\<close>, is parsed back to that signal
  with no blocked reason and the trimmed surrounding text as body.\<close>

theorem participant_parse_roundtrip:
  assumes "g \<in> set allowed" and "trim v = signal_as_str g"
    and "CHR ''<'' \<notin> set before" and "CHR ''<'' \<notin> set v" and "CHR ''<'' \<notin> set after"
  shows "parse_participant_response dbg (before @ MARKER_OPEN @ v @ MARKER_CLOSE @ after) allowed =
    Inr \<lparr>resp_signal = g, resp_blocked_reason = None,
         resp_body = response_body (trim before) (trim after)\<rparr>"
  using assms
  by (simp add: parse_participant_response_def Let_def marker_positions outcome attempt_def ok_or_def)

theorem participant_parse_roundtrip_witness:
  "parse_participant_response (\<lambda>s. s) (''Done. '' @ MARKER_OPEN @ '' APPROVED '' @ MARKER_CLOSE @ '' ok'')
     [Approved, ChangesRequired, SignalBlocked] =
   Inr \<lparr>resp_signal = Approved, resp_blocked_reason = None,
        resp_body = ''Done.'' @ [CHR 0x0A, CHR 0x0A] @ ''ok''\<rparr>"
proof -
  have v: "trim '' APPROVED '' = signal_as_str Approved" by code_simp
  have b: "response_body (trim ''Done. '') (trim '' ok'') = ''Done.'' @ [CHR 0x0A, CHR 0x0A] @ ''ok''"
    by code_simp
  show ?thesis
    using participant_parse_roundtrip [OF _ v, of "[Approved, ChangesRequired, SignalBlocked]" "''Done. ''" "'' ok''" "\<lambda>s. s"] b
    by simp
qed

theorem participant_parse_sound_witness:
  "resp_signal \<lparr>resp_signal = SignalBlocked, resp_blocked_reason = Some ''NO_TOOL'', resp_body = ''x''\<rparr> \<in> {SignalBlocked} \<and>
   match_indices MARKER_OPEN (MARKER_OPEN @ ''BLOCKED: NO_TOOL'' @ MARKER_CLOSE @ ''x'') = [0]"
proof -
  have "parse_participant_response (\<lambda>s. s) (MARKER_OPEN @ ''BLOCKED: NO_TOOL'' @ MARKER_CLOSE @ ''x'') [SignalBlocked]
      = Inr \<lparr>resp_signal = SignalBlocked, resp_blocked_reason = Some ''NO_TOOL'', resp_body = ''x''\<rparr>"
    by code_simp
  note s = participant_parse_sound [OF this]
  have "match_indices MARKER_OPEN (MARKER_OPEN @ ''BLOCKED: NO_TOOL'' @ MARKER_CLOSE @ ''x'') = [0]"
    by code_simp
  with s show ?thesis by simp
qed

end
