(* ===== verification/Json_Value.thy ===== *)
theory Json_Value
  imports Rust_Text "HOL-Library.Multiset"
begin

text \<open>
  \<open>serde_json::Value\<close> and the canonical hash of \<open>crates/core/src/hash.rs\<close>. A JSON object is
  \<open>serde_json::Map\<close>, which in this build is a \<open>BTreeMap\<close>: an association list with strictly
  increasing keys, kept so by \<open>obj_insert\<close>. A number is an integer in the range of \<open>i64\<close> and
  \<open>u64\<close>, or the bit pattern of an \<open>f64\<close>.

  The record \<open>libs\<close> collects the functions of other crates on which the core depends and whose
  code is not part of the repository: \<open>serde_json::to_vec\<close>; the hexadecimal SHA-256 digest of
  \<open>sha2\<close> and \<open>hex\<close>; the errors the \<open>jsonschema\<close> validator reports for \<open>schemas/protocol-v1.json\<close>;
  the text of a \<open>Uuid\<close> and its parser; the texts of \<open>serde_json\<close>'s decoding errors for a
  message and for a test evidence entry. Every
  definition that needs one takes the record as its first argument.
\<close>

type_synonym uuid = "128 word"

datatype json =
    JNull
  | JBool bool
  | JInt int
  | JFloat "64 word"
  | JStr string
  | JArr "json list"
  | JObj "(string \<times> json) list"

record libs =
  to_vec :: "json \<Rightarrow> string"
  sha256_hex :: "string \<Rightarrow> string"
  schema_errors :: "json \<Rightarrow> string list"
  uuid_text :: "uuid \<Rightarrow> string"
  uuid_parse :: "string \<Rightarrow> uuid option"
  decode_error_text :: "json \<Rightarrow> string"
  entry_error_text :: "json \<Rightarrow> string"

subsection \<open>Accessors\<close>

fun as_object :: "json \<Rightarrow> (string \<times> json) list option" where
  "as_object (JObj es) = Some es"
| "as_object _ = None"

fun as_array :: "json \<Rightarrow> json list option" where
  "as_array (JArr vs) = Some vs"
| "as_array _ = None"

fun as_str :: "json \<Rightarrow> string option" where
  "as_str (JStr s) = Some s"
| "as_str _ = None"

fun as_u64 :: "json \<Rightarrow> int option" where
  "as_u64 (JInt i) = (if 0 \<le> i then Some i else None)"
| "as_u64 _ = None"

fun as_i64 :: "json \<Rightarrow> int option" where
  "as_i64 (JInt i) = (if i < 2 ^ 63 then Some i else None)"
| "as_i64 _ = None"

definition is_object :: "json \<Rightarrow> bool" where
  "is_object v \<longleftrightarrow> as_object v \<noteq> None"

definition is_string :: "json \<Rightarrow> bool" where
  "is_string v \<longleftrightarrow> as_str v \<noteq> None"

definition is_array :: "json \<Rightarrow> bool" where
  "is_array v \<longleftrightarrow> as_array v \<noteq> None"

definition get :: "json \<Rightarrow> string \<Rightarrow> json option" where
  "get v k = Option.bind (as_object v) (\<lambda>es. map_of es k)"

definition str_field :: "json \<Rightarrow> string \<Rightarrow> string option" where
  "str_field v k = Option.bind (get v k) as_str"

definition array_field :: "json \<Rightarrow> string \<Rightarrow> json list option" where
  "array_field v k = Option.bind (get v k) as_array"

lemma as_object_Some [simp]: "as_object v = Some es \<longleftrightarrow> v = JObj es"
  by (cases v) auto

lemma as_array_Some [simp]: "as_array v = Some vs \<longleftrightarrow> v = JArr vs"
  by (cases v) auto

lemma as_str_Some [simp]: "as_str v = Some s \<longleftrightarrow> v = JStr s"
  by (cases v) auto

lemma get_JObj [simp]: "get (JObj es) k = map_of es k"
  by (simp add: get_def)

lemma str_field_Some [simp]: "str_field v k = Some s \<longleftrightarrow> get v k = Some (JStr s)"
  by (auto simp: str_field_def bind_eq_Some_conv)

lemma array_field_Some [simp]: "array_field v k = Some vs \<longleftrightarrow> get v k = Some (JArr vs)"
  by (auto simp: array_field_def bind_eq_Some_conv)

subsection \<open>Objects as ordered maps\<close>

fun obj_insert :: "string \<Rightarrow> 'v \<Rightarrow> (string \<times> 'v) list \<Rightarrow> (string \<times> 'v) list" where
  "obj_insert k v [] = [(k, v)]"
| "obj_insert k v ((k', v') # es) =
     (if k < k' then (k, v) # (k', v') # es
      else if k = k' then (k, v) # es
      else (k', v') # obj_insert k v es)"

definition obj_remove :: "string \<Rightarrow> (string \<times> 'v) list \<Rightarrow> (string \<times> 'v) list" where
  "obj_remove k es = filter (\<lambda>e. fst e \<noteq> k) es"

definition obj_of :: "(string \<times> 'v) list \<Rightarrow> (string \<times> 'v) list" where
  "obj_of kvs = fold (\<lambda>(k, v). obj_insert k v) kvs []"

abbreviation key_sorted :: "(string \<times> 'v) list \<Rightarrow> bool" where
  "key_sorted es \<equiv> sorted_wrt (<) (map fst es)"

definition json_object :: "(string \<times> json) list \<Rightarrow> json" where
  "json_object kvs = JObj (obj_of kvs)"

lemma map_of_obj_insert: "map_of (obj_insert k v es) = (map_of es)(k \<mapsto> v)"
  by (induction k v es rule: obj_insert.induct) auto

lemma obj_insert_keys: "set (map fst (obj_insert k v es)) = insert k (set (map fst es))"
  by (induction k v es rule: obj_insert.induct) auto

lemma obj_insert_sorted: "key_sorted es \<Longrightarrow> key_sorted (obj_insert k v es)"
proof (induction k v es rule: obj_insert.induct)
  case (1 k v)
  then show ?case by simp
next
  case (2 k v k' v' es)
  have keys: "fst ` set (obj_insert k v es) = insert k (fst ` set es)"
    using obj_insert_keys [of k v es] by simp
  from 2 show ?case by (auto simp: keys)
qed

lemma map_of_obj_remove: "map_of (obj_remove k es) = (map_of es)(k := None)"
proof
  fix x
  show "map_of (obj_remove k es) x = ((map_of es)(k := None)) x"
    by (induction es) (auto simp: obj_remove_def)
qed

lemma map_of_fold_obj_insert:
  "map_of (fold (\<lambda>(k, v). obj_insert k v) kvs es) = map_of es ++ map_of (rev kvs)"
  by (induction kvs arbitrary: es) (auto simp: map_of_obj_insert)

lemma map_of_obj_of: "map_of (obj_of kvs) = map_of (rev kvs)"
  by (simp add: obj_of_def map_of_fold_obj_insert)

lemma fold_obj_insert_sorted:
  "key_sorted es \<Longrightarrow> key_sorted (fold (\<lambda>(k, v). obj_insert k v) kvs es)"
  by (induction kvs arbitrary: es) (auto simp: obj_insert_sorted)

lemma obj_of_sorted: "key_sorted (obj_of kvs)"
  by (simp add: obj_of_def fold_obj_insert_sorted)

lemma get_json_object: "get (json_object kvs) k = map_of (rev kvs) k"
  by (simp add: json_object_def map_of_obj_of)

text \<open>Two key-sorted lists with the same lookups are equal: an ordered map has one representation.\<close>

lemma key_sorted_distinct: "key_sorted es \<Longrightarrow> distinct (map fst es)"
  by (simp add: strict_sorted_iff)

lemma key_sorted_unique:
  assumes "key_sorted xs" and "key_sorted ys" and "map_of xs = map_of ys"
  shows "xs = ys"
proof -
  from assms(1,2) have d: "distinct (map fst xs)" "distinct (map fst ys)"
    by (simp_all add: key_sorted_distinct)
  with assms(3) have s: "set xs = set ys" by (simp add: map_of_inject_set)
  have "inj_on fst (set xs \<union> set ys)"
    using d(1) s by (simp add: distinct_map)
  then show ?thesis
    using map_sorted_distinct_set_unique [of fst xs ys] assms(1,2) d s
    by (simp add: strict_sorted_iff)
qed

lemma map_of_rev_distinct: "distinct (map fst es) \<Longrightarrow> map_of (rev es) = map_of es"
  by (subst map_of_inject_set) (auto simp: rev_map [symmetric])

lemma obj_of_id: "key_sorted es \<Longrightarrow> obj_of es = es"
  by (rule key_sorted_unique)
     (simp_all add: obj_of_sorted map_of_obj_of key_sorted_distinct map_of_rev_distinct)

subsection \<open>Canonical form and hash\<close>

fun canonicalize :: "json \<Rightarrow> json" where
  "canonicalize (JObj es) =
     JObj (obj_of (map (\<lambda>(k, v). (k, canonicalize v)) (sort_key fst es)))"
| "canonicalize (JArr vs) = JArr (map canonicalize vs)"
| "canonicalize v = v"

definition canonical_json_hash :: "libs \<Rightarrow> json \<Rightarrow> string" where
  "canonical_json_hash L v = sha256_hex L (to_vec L (canonicalize v))"

text \<open>\<open>json_wf\<close>: what every \<open>Value\<close> of the program satisfies, by the types of its parts.\<close>

fun json_wf :: "json \<Rightarrow> bool" where
  "json_wf (JObj es) \<longleftrightarrow> key_sorted es \<and> list_all (\<lambda>e. json_wf (snd e)) es"
| "json_wf (JArr vs) \<longleftrightarrow> list_all json_wf vs"
| "json_wf (JInt i) \<longleftrightarrow> - (2 ^ 63) \<le> i \<and> i < 2 ^ 64"
| "json_wf _ \<longleftrightarrow> True"

text \<open>\<open>same_content v w\<close>: \<open>w\<close> is \<open>v\<close> with the entries of its objects, at any depth, listed in
  another order.\<close>

inductive same_content :: "json \<Rightarrow> json \<Rightarrow> bool" where
  same_refl: "same_content v v"
| same_array: "list_all2 same_content vs ws \<Longrightarrow> same_content (JArr vs) (JArr ws)"
| same_object:
    "distinct (map fst es) \<Longrightarrow> mset es = mset es' \<Longrightarrow>
     list_all2 (\<lambda>e f. fst e = fst f \<and> same_content (snd e) (snd f)) es' fs \<Longrightarrow>
     same_content (JObj es) (JObj fs)"

inductive_cases same_objectE: "same_content (JObj es) w"

lemma key_sorted_map_value:
  "map fst (map (\<lambda>(k, v). (k, f v)) es) = map fst es"
  by (induction es) auto

lemma map_of_map_value: "map_of (map (\<lambda>(k, v). (k, f v)) es) = map_option f \<circ> map_of es"
  by (induction es) (auto simp: fun_eq_iff)

lemma sort_key_key_sorted: "key_sorted es \<Longrightarrow> sort_key fst es = es"
  by (simp add: sort_key_id_if_sorted strict_sorted_iff)

lemma canonicalize_wf_id: "json_wf v \<Longrightarrow> canonicalize v = v"
proof (induction v rule: canonicalize.induct)
  case (1 es)
  then have s: "key_sorted es" and sk: "sort_key fst es = es" by (simp_all add: sort_key_key_sorted)
  have "map (\<lambda>(k, v). (k, canonicalize v)) es = es"
    using 1 sk by (intro map_idI) (force simp: list_all_iff)
  with s sk show ?case by (simp add: obj_of_id)
next
  case (2 vs)
  then show ?case by (simp add: list_all_iff map_idI)
qed simp_all

lemma sort_key_mset:
  fixes es es' :: "(string \<times> 'v) list"
  assumes "distinct (map fst es)" and "mset es = mset es'"
  shows "sort_key fst es = sort_key fst es'"
proof -
  have m: "mset (map fst es) = mset (map fst es')" using assms(2) by simp
  then have d: "distinct (map fst es')" using assms(1) mset_eq_imp_distinct_iff by blast
  have "sorted_wrt (<) (map fst (sort_key fst es))" "sorted_wrt (<) (map fst (sort_key fst es'))"
    using assms(1) d by (simp_all add: strict_sorted_iff distinct_map)
  moreover have "map_of (sort_key fst es) = map_of (sort_key fst es')"
    using assms d by (subst map_of_inject_set) (auto simp: distinct_map dest: mset_eq_setD)
  ultimately show ?thesis by (rule key_sorted_unique)
qed

lemma sort_key_all2:
  fixes es fs :: "(string \<times> 'v) list"
  assumes "list_all2 (\<lambda>e f. fst e = fst f \<and> R (snd e) (snd f)) es fs"
  shows "list_all2 (\<lambda>e f. fst e = fst f \<and> R (snd e) (snd f)) (sort_key fst es) (sort_key fst fs)"
proof -
  let ?R = "\<lambda>e f. fst e = fst f \<and> R (snd e) (snd f)"
  have ins: "list_all2 ?R (insort_key fst e xs) (insort_key fst f ys)"
    if "list_all2 ?R xs ys" and "?R e f" for xs ys and e f :: "string \<times> 'v"
    using that by (induction xs ys rule: list_all2_induct) auto
  from assms show ?thesis
    by (induction es fs rule: list_all2_induct) (auto intro!: ins)
qed

text \<open>The canonical form forgets the order in which the entries of an object were listed.\<close>

lemma canonicalize_same_content: "same_content v w \<Longrightarrow> canonicalize v = canonicalize w"
proof (induction rule: same_content.induct)
  case (same_refl v)
  show ?case ..
next
  case (same_array vs ws)
  then have "map canonicalize vs = map canonicalize ws"
    by (induction rule: list_all2_induct) auto
  then show ?case by simp
next
  case (same_object es es' fs)
  then have "list_all2 (\<lambda>e f. fst e = fst f \<and> canonicalize (snd e) = canonicalize (snd f)) es' fs"
    by (auto elim!: list_all2_mono)
  then have "list_all2 (\<lambda>e f. fst e = fst f \<and> canonicalize (snd e) = canonicalize (snd f))
      (sort_key fst es') (sort_key fst fs)"
    by (rule sort_key_all2)
  then have "map (\<lambda>(k, v). (k, canonicalize v)) (sort_key fst es')
      = map (\<lambda>(k, v). (k, canonicalize v)) (sort_key fst fs)"
    by (induction rule: list_all2_induct) (auto split: prod.splits)
  moreover have "sort_key fst es = sort_key fst es'"
    using same_object by (intro sort_key_mset)
  ultimately show ?case by simp
qed

lemma canonicalize_key_sorted: "canonicalize (JObj es) = JObj fs \<Longrightarrow> key_sorted fs"
  by (auto simp: obj_of_sorted)

lemma canonical_json_hash_wf:
  "json_wf v \<Longrightarrow> canonical_json_hash L v = sha256_hex L (to_vec L v)"
  by (simp add: canonical_json_hash_def canonicalize_wf_id)

end
