(* ===== verification/Protocol.thy ===== *)
theory Protocol
  imports Json_Value
begin

text \<open>
  The protocol messages of \<open>crates/core/src/protocol.rs\<close>: the envelope and its enumerations, their
  serialization to and from \<open>Value\<close>, and the invariants \<open>validate_message\<close> checks after the JSON
  schema. A decoded message is exactly what \<open>serde\<close> derives for the structs: an absent optional
  field is \<open>None\<close>, unknown fields are ignored.
\<close>

definition PROTOCOL_V1 :: string where
  "PROTOCOL_V1 = ''worktree-merge-consensus/v1''"

datatype message_type =
    MContractReady
  | MPlanReady
  | MChangesRequired
  | MApprovedPlan
  | MIntegrationReady
  | MApprovedResult
  | MBlocked

datatype message_phase =
    MDiscover
  | MFreeze
  | MContract
  | MPlanReview
  | MIntegrate
  | MVerify
  | MResultReview
  | MAccepted
  | MPhaseBlocked
  | MPausedUserAction
  | MCancelled

record envelope =
  env_protocol :: string
  env_run_id :: uuid
  env_message_type :: message_type
  env_phase :: message_phase
  env_round :: "32 word"
  env_primary_sha :: string
  env_reviewer_sha :: string
  env_plan_revision :: "32 word option"
  env_integration_branch :: "string option"
  env_integration_sha :: "string option"
  env_reason_code :: "string option"

record protocol_message =
  envelope :: envelope
  payload :: json

datatype protocol_error =
    ExpectedObject
  | SchemaError string
  | DecodeError string
  | InvariantError string

fun protocol_error_text :: "protocol_error \<Rightarrow> string" where
  "protocol_error_text ExpectedObject = ''protocol response must be a JSON object''"
| "protocol_error_text (SchemaError t) = ''protocol schema validation failed: '' @ t"
| "protocol_error_text (DecodeError t) = ''protocol message could not be decoded: '' @ t"
| "protocol_error_text (InvariantError t) = ''protocol invariant failed: '' @ t"

subsection \<open>Names of the enumerations\<close>

fun message_type_name :: "message_type \<Rightarrow> string" where
  "message_type_name MContractReady = ''CONTRACT_READY''"
| "message_type_name MPlanReady = ''PLAN_READY''"
| "message_type_name MChangesRequired = ''CHANGES_REQUIRED''"
| "message_type_name MApprovedPlan = ''APPROVED_PLAN''"
| "message_type_name MIntegrationReady = ''INTEGRATION_READY''"
| "message_type_name MApprovedResult = ''APPROVED_RESULT''"
| "message_type_name MBlocked = ''BLOCKED''"

definition message_types :: "message_type list" where
  "message_types = [MContractReady, MPlanReady, MChangesRequired, MApprovedPlan, MIntegrationReady,
     MApprovedResult, MBlocked]"

fun message_type_debug :: "message_type \<Rightarrow> string" where
  "message_type_debug MContractReady = ''ContractReady''"
| "message_type_debug MPlanReady = ''PlanReady''"
| "message_type_debug MChangesRequired = ''ChangesRequired''"
| "message_type_debug MApprovedPlan = ''ApprovedPlan''"
| "message_type_debug MIntegrationReady = ''IntegrationReady''"
| "message_type_debug MApprovedResult = ''ApprovedResult''"
| "message_type_debug MBlocked = ''Blocked''"

fun message_phase_name :: "message_phase \<Rightarrow> string" where
  "message_phase_name MDiscover = ''DISCOVER''"
| "message_phase_name MFreeze = ''FREEZE''"
| "message_phase_name MContract = ''CONTRACT''"
| "message_phase_name MPlanReview = ''PLAN_REVIEW''"
| "message_phase_name MIntegrate = ''INTEGRATE''"
| "message_phase_name MVerify = ''VERIFY''"
| "message_phase_name MResultReview = ''RESULT_REVIEW''"
| "message_phase_name MAccepted = ''ACCEPTED''"
| "message_phase_name MPhaseBlocked = ''BLOCKED''"
| "message_phase_name MPausedUserAction = ''PAUSED_USER_ACTION''"
| "message_phase_name MCancelled = ''CANCELLED''"

definition message_phases :: "message_phase list" where
  "message_phases = [MDiscover, MFreeze, MContract, MPlanReview, MIntegrate, MVerify, MResultReview,
     MAccepted, MPhaseBlocked, MPausedUserAction, MCancelled]"

fun message_phase_debug :: "message_phase \<Rightarrow> string" where
  "message_phase_debug MDiscover = ''Discover''"
| "message_phase_debug MFreeze = ''Freeze''"
| "message_phase_debug MContract = ''Contract''"
| "message_phase_debug MPlanReview = ''PlanReview''"
| "message_phase_debug MIntegrate = ''Integrate''"
| "message_phase_debug MVerify = ''Verify''"
| "message_phase_debug MResultReview = ''ResultReview''"
| "message_phase_debug MAccepted = ''Accepted''"
| "message_phase_debug MPhaseBlocked = ''Blocked''"
| "message_phase_debug MPausedUserAction = ''PausedUserAction''"
| "message_phase_debug MCancelled = ''Cancelled''"

lemma message_type_name_inj [simp]: "message_type_name a = message_type_name b \<longleftrightarrow> a = b"
  by (cases a; cases b) simp_all

lemma message_phase_name_inj [simp]: "message_phase_name a = message_phase_name b \<longleftrightarrow> a = b"
  by (cases a; cases b) simp_all

subsection \<open>Serialization\<close>

text \<open>\<open>serde\<close> reads a unit variant from its name, or from an object with that one key and \<open>null\<close>.\<close>

definition variant_text :: "json \<Rightarrow> string option" where
  "variant_text v = (case v of JStr s \<Rightarrow> Some s | JObj [(k, JNull)] \<Rightarrow> Some k | _ \<Rightarrow> None)"

definition variant_of :: "('a \<Rightarrow> string) \<Rightarrow> 'a list \<Rightarrow> json \<Rightarrow> 'a option" where
  "variant_of name xs v = Option.bind (variant_text v) (\<lambda>t. find (\<lambda>x. name x = t) xs)"

definition u32_of :: "json \<Rightarrow> 32 word option" where
  "u32_of v = (case v of JInt i \<Rightarrow> if 0 \<le> i \<and> i < 2 ^ 32 then Some (word_of_int i) else None | _ \<Rightarrow> None)"

text \<open>A field of an \<open>Option\<close> type: absent or \<open>null\<close> is \<open>None\<close>; the outer \<open>option\<close> is the failure.\<close>

definition optional_field :: "(json \<Rightarrow> 'a option) \<Rightarrow> json \<Rightarrow> string \<Rightarrow> 'a option option" where
  "optional_field f v k =
     (case get v k of None \<Rightarrow> Some None | Some JNull \<Rightarrow> Some None | Some w \<Rightarrow> map_option Some (f w))"

definition required_field :: "(json \<Rightarrow> 'a option) \<Rightarrow> json \<Rightarrow> string \<Rightarrow> 'a option" where
  "required_field f v k = Option.bind (get v k) f"

fun opt_json :: "('a \<Rightarrow> json) \<Rightarrow> 'a option \<Rightarrow> json" where
  "opt_json f None = JNull"
| "opt_json f (Some x) = f x"

definition word_json :: "'a::len word \<Rightarrow> json" where
  "word_json w = JInt (uint w)"

definition envelope_fields :: "libs \<Rightarrow> envelope \<Rightarrow> (string \<times> json) list" where
  "envelope_fields L e =
     [(''protocol'', JStr (env_protocol e)),
      (''run_id'', JStr (uuid_text L (env_run_id e))),
      (''message_type'', JStr (message_type_name (env_message_type e))),
      (''phase'', JStr (message_phase_name (env_phase e))),
      (''round'', word_json (env_round e)),
      (''primary_sha'', JStr (env_primary_sha e)),
      (''reviewer_sha'', JStr (env_reviewer_sha e)),
      (''plan_revision'', opt_json word_json (env_plan_revision e)),
      (''integration_branch'', opt_json JStr (env_integration_branch e)),
      (''integration_sha'', opt_json JStr (env_integration_sha e)),
      (''reason_code'', opt_json JStr (env_reason_code e))]"

definition message_to_value :: "libs \<Rightarrow> protocol_message \<Rightarrow> json" where
  "message_to_value L m =
     json_object (envelope_fields L (envelope m) @ [(''payload'', payload m)])"

definition envelope_of_value :: "libs \<Rightarrow> json \<Rightarrow> envelope option" where
  "envelope_of_value L v =
     Option.bind (required_field as_str v ''protocol'') (\<lambda>protocol.
     Option.bind (Option.bind (required_field as_str v ''run_id'') (uuid_parse L)) (\<lambda>run_id.
     Option.bind (required_field (variant_of message_type_name message_types) v ''message_type'') (\<lambda>message_type.
     Option.bind (required_field (variant_of message_phase_name message_phases) v ''phase'') (\<lambda>phase.
     Option.bind (required_field u32_of v ''round'') (\<lambda>round.
     Option.bind (required_field as_str v ''primary_sha'') (\<lambda>primary_sha.
     Option.bind (required_field as_str v ''reviewer_sha'') (\<lambda>reviewer_sha.
     Option.bind (optional_field u32_of v ''plan_revision'') (\<lambda>plan_revision.
     Option.bind (optional_field as_str v ''integration_branch'') (\<lambda>integration_branch.
     Option.bind (optional_field as_str v ''integration_sha'') (\<lambda>integration_sha.
     Option.bind (optional_field as_str v ''reason_code'') (\<lambda>reason_code.
       Some \<lparr>env_protocol = protocol, env_run_id = run_id, env_message_type = message_type,
             env_phase = phase, env_round = round, env_primary_sha = primary_sha,
             env_reviewer_sha = reviewer_sha, env_plan_revision = plan_revision,
             env_integration_branch = integration_branch, env_integration_sha = integration_sha,
             env_reason_code = reason_code\<rparr>)))))))))))"

definition message_from_value :: "libs \<Rightarrow> json \<Rightarrow> protocol_message option" where
  "message_from_value L v =
     Option.bind (envelope_of_value L v) (\<lambda>e.
     Option.bind (get v ''payload'') (\<lambda>p. Some \<lparr>envelope = e, payload = p\<rparr>))"

subsection \<open>Requirements on a message\<close>

abbreviation invariant :: "string \<Rightarrow> protocol_error" where
  "invariant t \<equiv> InvariantError t"

definition require_phase_of :: "protocol_message \<Rightarrow> message_phase \<Rightarrow> protocol_error + unit" where
  "require_phase_of m expected =
     ensure (env_phase (envelope m) = expected)
       (invariant (message_type_debug (env_message_type (envelope m)) @ '' is not valid during ''
          @ message_phase_debug (env_phase (envelope m))))"

definition require_plan_revision_of :: "protocol_message \<Rightarrow> protocol_error + 32 word" where
  "require_plan_revision_of m =
     (case env_plan_revision (envelope m) of
        Some revision \<Rightarrow>
          if 0 < revision then Inr revision
          else Inl (invariant ''message requires a non-zero plan_revision'')
      | None \<Rightarrow> Inl (invariant ''message requires a non-zero plan_revision''))"

definition require_no_integration :: "protocol_message \<Rightarrow> protocol_error + unit" where
  "require_no_integration m =
     (if env_integration_branch (envelope m) \<noteq> None \<or> env_integration_sha (envelope m) \<noteq> None then
        Inl (invariant ''message must not include an integration branch or SHA'')
      else Inr ())"

definition nonempty_text :: "string option \<Rightarrow> string option" where
  "nonempty_text x = (case x of Some t \<Rightarrow> if t \<noteq> [] then Some t else None | None \<Rightarrow> None)"

definition require_integration_identity :: "protocol_message \<Rightarrow> protocol_error + string \<times> string" where
  "require_integration_identity m =
     attempt (ok_or (invariant ''message requires an integration_branch'')
                (nonempty_text (env_integration_branch (envelope m)))) (\<lambda>branch.
     attempt (ok_or (invariant ''message requires an integration_sha'')
                (nonempty_text (env_integration_sha (envelope m)))) (\<lambda>sha.
     Inr (branch, sha)))"

definition payload_object :: "protocol_message \<Rightarrow> protocol_error + json" where
  "payload_object m =
     (if is_object (payload m) then Inr (payload m)
      else Inl (invariant ''payload must be a JSON object''))"

definition require_u64 :: "json \<Rightarrow> string \<Rightarrow> int \<Rightarrow> protocol_error + unit" where
  "require_u64 p key expected =
     (if Option.bind (get p key) as_u64 \<noteq> Some expected then
        Inl (invariant (''payload.'' @ key @ '' must match the envelope''))
      else Inr ())"

definition require_string :: "json \<Rightarrow> string \<Rightarrow> string \<Rightarrow> protocol_error + unit" where
  "require_string p key expected =
     (if str_field p key \<noteq> Some expected then
        Inl (invariant (''payload.'' @ key @ '' must match the envelope''))
      else Inr ())"

definition require_empty_array :: "json \<Rightarrow> string \<Rightarrow> protocol_error + unit" where
  "require_empty_array p key =
     (if array_field p key = Some [] then Inr ()
      else Inl (invariant (''payload.'' @ key @ '' must be present and empty for approval'')))"

definition nonblank_string :: "json \<Rightarrow> bool" where
  "nonblank_string v = (case as_str v of Some text \<Rightarrow> \<not> blank text | None \<Rightarrow> False)"

definition require_nonempty_string_array :: "json \<Rightarrow> string \<Rightarrow> protocol_error + unit" where
  "require_nonempty_string_array p key =
     (case array_field p key of
        None \<Rightarrow> Inl (invariant (''payload.'' @ key @ '' must be a nonempty array''))
      | Some [] \<Rightarrow> Inl (invariant (''payload.'' @ key @ '' must be a nonempty array''))
      | Some values \<Rightarrow>
          if list_ex (\<lambda>v. \<not> nonblank_string v) values then
            Inl (invariant (''payload.'' @ key @ '' entries must be nonempty strings''))
          else Inr ())"

definition missing_reason :: "protocol_message \<Rightarrow> bool" where
  "missing_reason m = (nonempty_text (env_reason_code (envelope m)) = None)"


subsection \<open>Invariants by message type\<close>

definition hex_digest :: "string \<Rightarrow> bool" where
  "hex_digest s \<longleftrightarrow> length s = 64 \<and> list_all is_ascii_hexdigit s"

definition validate_plan_approval :: "protocol_message \<Rightarrow> protocol_error + unit" where
  "validate_plan_approval m =
     attempt (require_phase_of m MPlanReview) (\<lambda>_.
     attempt (require_no_integration m) (\<lambda>_.
     attempt (require_plan_revision_of m) (\<lambda>revision.
     attempt (payload_object m) (\<lambda>p.
     attempt (require_u64 p ''approved_plan_revision'' (uint revision)) (\<lambda>_.
     attempt (require_string p ''approved_primary_sha'' (env_primary_sha (envelope m))) (\<lambda>_.
     attempt (require_string p ''approved_reviewer_sha'' (env_reviewer_sha (envelope m))) (\<lambda>_.
     attempt (ok_or (invariant ''APPROVED_PLAN requires approved_plan_hash'')
                (str_field p ''approved_plan_hash'')) (\<lambda>plan_hash.
     attempt (ensure (hex_digest plan_hash)
                (invariant ''APPROVED_PLAN approved_plan_hash must be a 64-character hex digest'')) (\<lambda>_.
     attempt (require_empty_array p ''uncovered_items'') (\<lambda>_.
     Inr ()))))))))))"

definition field_satisfies :: "(json \<Rightarrow> bool) \<Rightarrow> json \<Rightarrow> string \<Rightarrow> bool" where
  "field_satisfies q p k = (case get p k of Some v \<Rightarrow> q v | None \<Rightarrow> False)"

fun require_object_fields :: "json \<Rightarrow> string list \<Rightarrow> protocol_error + unit" where
  "require_object_fields p [] = Inr ()"
| "require_object_fields p (key # keys) =
     (if \<not> field_satisfies is_object p key then
        Inl (invariant (''PLAN_READY payload.'' @ key @ '' must be a JSON object''))
      else require_object_fields p keys)"

definition validate_plan_ready :: "protocol_message \<Rightarrow> protocol_error + unit" where
  "validate_plan_ready m =
     attempt (require_phase_of m MPlanReview) (\<lambda>_.
     attempt (require_no_integration m) (\<lambda>_.
     attempt (require_plan_revision_of m) (\<lambda>_.
     attempt (payload_object m) (\<lambda>p.
     attempt (require_object_fields p [''primary_contract'', ''reviewer_contract'', ''plan'']) (\<lambda>_.
     attempt (ensure (field_satisfies is_array p ''coverage_matrix'')
                (invariant ''PLAN_READY payload.coverage_matrix must be a JSON array'')) (\<lambda>_.
     attempt (require_nonempty_string_array p ''test_commands'') (\<lambda>_.
     Inr ())))))))"

definition validate_result_approval :: "protocol_message \<Rightarrow> protocol_error + unit" where
  "validate_result_approval m =
     attempt (require_phase_of m MResultReview) (\<lambda>_.
     attempt (require_plan_revision_of m) (\<lambda>revision.
     attempt (require_integration_identity m) (\<lambda>(branch, integration_sha).
     attempt (payload_object m) (\<lambda>p.
     attempt (require_u64 p ''approved_plan_revision'' (uint revision)) (\<lambda>_.
     attempt (require_string p ''approved_primary_sha'' (env_primary_sha (envelope m))) (\<lambda>_.
     attempt (require_string p ''approved_reviewer_sha'' (env_reviewer_sha (envelope m))) (\<lambda>_.
     attempt (require_string p ''approved_integration_branch'' branch) (\<lambda>_.
     attempt (require_string p ''approved_integration_sha'' integration_sha) (\<lambda>_.
     attempt (require_empty_array p ''uncovered_items'') (\<lambda>_.
     Inr ()))))))))))"

definition validate_changes_required :: "protocol_message \<Rightarrow> protocol_error + unit" where
  "validate_changes_required m =
     attempt (ensure (env_phase (envelope m) \<in> {MPlanReview, MResultReview})
                (invariant ''CHANGES_REQUIRED is only valid during PLAN_REVIEW or RESULT_REVIEW'')) (\<lambda>_.
     attempt (require_plan_revision_of m) (\<lambda>_.
     attempt (ensure (\<not> missing_reason m)
                (invariant ''CHANGES_REQUIRED requires a non-empty reason_code'')) (\<lambda>_.
     if env_phase (envelope m) = MResultReview
     then attempt (require_integration_identity m) (\<lambda>_. Inr ())
     else attempt (require_no_integration m) (\<lambda>_. Inr ()))))"

definition validate_contract_ready :: "protocol_message \<Rightarrow> protocol_error + unit" where
  "validate_contract_ready m =
     attempt (require_phase_of m MContract) (\<lambda>_.
     attempt (require_no_integration m) (\<lambda>_.
     attempt (payload_object m) (\<lambda>p.
     attempt (ok_or (invariant ''CONTRACT_READY payload.contract must be an object'')
                (Option.bind (get p ''contract'') as_object)) (\<lambda>contract.
     attempt (require_nonempty_string_array (JObj contract) ''tests'') (\<lambda>_.
     Inr ())))))"

definition validate_by_type :: "protocol_message \<Rightarrow> protocol_error + unit" where
  "validate_by_type m =
     (case env_message_type (envelope m) of
        MContractReady \<Rightarrow> validate_contract_ready m
      | MPlanReady \<Rightarrow> validate_plan_ready m
      | MApprovedPlan \<Rightarrow> validate_plan_approval m
      | MIntegrationReady \<Rightarrow>
          attempt (ensure (env_phase (envelope m) \<in> {MIntegrate, MVerify})
                     (invariant ''INTEGRATION_READY must be emitted during INTEGRATE or VERIFY'')) (\<lambda>_.
          attempt (require_integration_identity m) (\<lambda>_. Inr ()))
      | MApprovedResult \<Rightarrow> validate_result_approval m
      | MChangesRequired \<Rightarrow> validate_changes_required m
      | MBlocked \<Rightarrow>
          ensure (\<not> missing_reason m) (invariant ''BLOCKED requires a non-empty reason_code''))"

definition validate_invariants :: "protocol_message \<Rightarrow> protocol_error + unit" where
  "validate_invariants m =
     (if env_protocol (envelope m) \<noteq> PROTOCOL_V1 then Inl (invariant ''unsupported protocol version'')
      else validate_by_type m)"

fun join :: "string \<Rightarrow> string list \<Rightarrow> string" where
  "join sep [] = []"
| "join sep [t] = t"
| "join sep (t # ts) = t @ sep @ join sep ts"

definition validate_message :: "libs \<Rightarrow> json \<Rightarrow> protocol_error + protocol_message" where
  "validate_message L v =
     (if \<not> is_object v then Inl ExpectedObject
      else if schema_errors L v \<noteq> [] then Inl (SchemaError (join ''; '' (schema_errors L v)))
      else attempt (ok_or (DecodeError (decode_error_text L v)) (message_from_value L v)) (\<lambda>m.
           attempt (validate_invariants m) (\<lambda>_. Inr m)))"

subsection \<open>What a valid message satisfies\<close>

lemma require_phase_of_Inr [outcome]: "require_phase_of m p = Inr u \<longleftrightarrow> env_phase (envelope m) = p"
  by (simp add: require_phase_of_def outcome)

lemma require_plan_revision_of_Inr [outcome]:
  "require_plan_revision_of m = Inr r \<longleftrightarrow> env_plan_revision (envelope m) = Some r \<and> 0 < r"
  by (auto simp: require_plan_revision_of_def split: option.splits)

lemma require_no_integration_Inr [outcome]:
  "require_no_integration m = Inr u \<longleftrightarrow>
     env_integration_branch (envelope m) = None \<and> env_integration_sha (envelope m) = None"
  by (simp add: require_no_integration_def)

lemma nonempty_text_Some: "nonempty_text x = Some t \<longleftrightarrow> x = Some t \<and> t \<noteq> []"
  by (auto simp: nonempty_text_def split: option.splits)

lemma require_integration_identity_Inr [outcome]:
  "require_integration_identity m = Inr bs \<longleftrightarrow>
     env_integration_branch (envelope m) = Some (fst bs) \<and> fst bs \<noteq> []
     \<and> env_integration_sha (envelope m) = Some (snd bs) \<and> snd bs \<noteq> []"
  by (cases bs) (auto simp: require_integration_identity_def outcome nonempty_text_Some)

lemma payload_object_Inr [outcome]: "payload_object m = Inr p \<longleftrightarrow> is_object (payload m) \<and> p = payload m"
  by (auto simp: payload_object_def)

lemma require_string_Inr [outcome]: "require_string p k t = Inr u \<longleftrightarrow> get p k = Some (JStr t)"
  by (auto simp: require_string_def)

lemma as_u64_Some [simp]: "as_u64 v = Some i \<longleftrightarrow> v = JInt i \<and> 0 \<le> i"
  by (cases v) auto

lemma require_u64_Inr [outcome]: "0 \<le> i \<Longrightarrow> require_u64 p k i = Inr u \<longleftrightarrow> get p k = Some (JInt i)"
  by (auto simp: require_u64_def bind_eq_Some_conv)

lemma require_empty_array_Inr [outcome]: "require_empty_array p k = Inr u \<longleftrightarrow> get p k = Some (JArr [])"
  by (auto simp: require_empty_array_def)

lemma validate_invariants_by_type:
  "validate_invariants m = Inr u \<Longrightarrow> env_protocol (envelope m) = PROTOCOL_V1 \<and> validate_by_type m = Inr ()"
  by (cases u) (simp add: validate_invariants_def split: if_splits)

lemma validate_message_invariants:
  "validate_message L v = Inr m \<Longrightarrow> validate_invariants m = Inr ()"
  by (auto simp: validate_message_def outcome split: if_splits)

lemma validate_plan_approval_Inr:
  "validate_plan_approval m = Inr u \<longleftrightarrow>
     env_phase (envelope m) = MPlanReview \<and> env_integration_branch (envelope m) = None
     \<and> env_integration_sha (envelope m) = None \<and> is_object (payload m)
     \<and> (\<exists>revision h. env_plan_revision (envelope m) = Some revision \<and> 0 < revision
          \<and> get (payload m) ''approved_plan_revision'' = Some (JInt (uint revision))
          \<and> get (payload m) ''approved_plan_hash'' = Some (JStr h) \<and> hex_digest h)
     \<and> get (payload m) ''approved_primary_sha'' = Some (JStr (env_primary_sha (envelope m)))
     \<and> get (payload m) ''approved_reviewer_sha'' = Some (JStr (env_reviewer_sha (envelope m)))
     \<and> get (payload m) ''uncovered_items'' = Some (JArr [])"
  by (cases u) (auto simp: validate_plan_approval_def outcome)

lemma validate_result_approval_Inr:
  "validate_result_approval m = Inr u \<longleftrightarrow>
     env_phase (envelope m) = MResultReview \<and> is_object (payload m)
     \<and> (\<exists>revision branch sha. env_plan_revision (envelope m) = Some revision \<and> 0 < revision
          \<and> env_integration_branch (envelope m) = Some branch \<and> branch \<noteq> []
          \<and> env_integration_sha (envelope m) = Some sha \<and> sha \<noteq> []
          \<and> get (payload m) ''approved_plan_revision'' = Some (JInt (uint revision))
          \<and> get (payload m) ''approved_integration_branch'' = Some (JStr branch)
          \<and> get (payload m) ''approved_integration_sha'' = Some (JStr sha))
     \<and> get (payload m) ''approved_primary_sha'' = Some (JStr (env_primary_sha (envelope m)))
     \<and> get (payload m) ''approved_reviewer_sha'' = Some (JStr (env_reviewer_sha (envelope m)))
     \<and> get (payload m) ''uncovered_items'' = Some (JArr [])"
  by (cases u) (auto simp: validate_result_approval_def outcome)

end
