(* ===== verification/Run_State.thy ===== *)
theory Run_State
  imports Protocol
begin

text \<open>
  The run state of \<open>crates/core/src/state.rs\<close>: its data, its constructor, the readers of message
  payloads, the requirements the operations check, and the check of a persisted state. The operations
  are in \<open>Run_Operations\<close> and \<open>Run_Recovery\<close>. A \<open>&mut self\<close> method that returns
  \<open>Result<NextAction, StateError>\<close> is a function from the state to the result and the state
  it leaves behind, also when it fails.
  \<open>u32\<close> and \<open>u8\<close> fields are words of their width, a \<open>PathBuf\<close> is its text and is compared with
  \<open>path_eq\<close>.
\<close>

definition DEFAULT_MAX_REVIEW_ROUNDS :: "32 word" where
  "DEFAULT_MAX_REVIEW_ROUNDS = 6"

definition DEFAULT_NO_PROGRESS_ROUNDS :: "8 word" where
  "DEFAULT_NO_PROGRESS_ROUNDS = 2"

definition RUN_STATE_SCHEMA_VERSION :: "32 word" where
  "RUN_STATE_SCHEMA_VERSION = 2"

definition MACHINE_VERIFICATION_SUMMARY :: string where
  "MACHINE_VERIFICATION_SUMMARY = ''One or more frozen verification commands failed. Correct only the reported failures on the existing integration branch, then return a new integration result for isolated verification.''"

subsection \<open>Data\<close>

datatype phase =
    Discover
  | Freeze
  | Contract
  | PlanReview
  | Integrate
  | Verify
  | ResultReview
  | Accepted
  | Blocked
  | PausedUserAction
  | Cancelled

datatype run_status =
    SRunning
  | SWaitingThread
  | SPausedUserAction
  | SAccepted
  | SBlocked
  | SCancelled
  | SIncompatibleCodex

datatype role = Primary | Reviewer

datatype next_action =
    RequestPrimaryContract
  | RequestReviewerContract
  | RequestPrimaryPlan
  | RequestReviewerPlanVerdict
  | RequestPrimaryIntegration
  | RequestPrimaryVerification
  | RequestReviewerResultVerdict
  | RevalidateAndAccept
  | WaitForUser
  | Stop

record run_facts =
  rf_run_id :: uuid
  rf_primary_thread_id :: string
  rf_reviewer_thread_id :: string
  rf_primary_worktree :: string
  rf_reviewer_worktree :: string
  rf_git_common_dir :: string
  rf_primary_sha :: string
  rf_reviewer_sha :: string
  rf_primary_ref :: "string option"
  rf_reviewer_ref :: "string option"

record test_evidence =
  te_command :: string
  te_exit_code :: int
  te_turn_id :: string
  te_item_id :: string
  te_cwd :: string

record verification_failure =
  vf_command :: string
  vf_exit_code :: int
  vf_item_id :: string
  vf_output :: string

record publication_boundary =
  pb_local_only :: bool
  pb_pushed :: bool
  pb_pull_request_created :: bool
  pb_merged_into_existing_branch :: bool

record accepted_result =
  ar_integration_branch :: string
  ar_integration_sha :: string
  ar_primary_sha :: string
  ar_reviewer_sha :: string
  ar_tests :: "test_evidence list"
  ar_source_refs_unchanged :: bool
  ar_publication :: publication_boundary

record run_diagnostic =
  rd_code :: string
  rd_detail :: string
  rd_operation :: "string option"
  rd_action :: next_action
  rd_role :: "role option"
  rd_thread_id :: "string option"
  rd_source_thread_id :: "string option"
  rd_effective_thread_id :: "string option"
  rd_participant_binding_generation :: "32 word option"
  rd_participant_binding_mode :: "string option"
  rd_participant_server :: "string option"

record run_state =
  schema_version :: "32 word"
  facts :: run_facts
  phase :: phase
  status :: run_status
  round :: "32 word"
  plan_revision :: "32 word option"
  integration_branch :: "string option"
  integration_sha :: "string option"
  reason_code :: "string option"
  last_error :: "run_diagnostic option"
  next_action :: next_action
  target_integration_branch :: "string option"
  required_test_commands :: "string list"
  test_evidence :: "test_evidence list"
  accepted_result :: "accepted_result option"
  primary_contract :: "json option"
  reviewer_contract :: "json option"
  current_plan_payload :: "json option"
  plan_approval_payload :: "json option"
  current_integration_payload :: "json option"
  last_plan_feedback :: "json option"
  last_result_feedback :: "json option"
  verification_worktree :: "string option"
  max_review_rounds :: "32 word"
  no_progress_rounds :: "8 word"
  primary_contract_hash :: "string option"
  reviewer_contract_hash :: "string option"
  current_plan_hash :: "string option"
  last_review_fingerprint :: "string option"
  unchanged_review_streak :: "8 word"
  plan_approved :: bool
  result_approved_sha :: "string option"

datatype state_error = StateError (se_code: string) (se_detail: string)

type_synonym 'a run_op = "run_state \<Rightarrow> (state_error + 'a) \<times> run_state"

fun phase_debug :: "phase \<Rightarrow> string" where
  "phase_debug Discover = ''Discover''"
| "phase_debug Freeze = ''Freeze''"
| "phase_debug Contract = ''Contract''"
| "phase_debug PlanReview = ''PlanReview''"
| "phase_debug Integrate = ''Integrate''"
| "phase_debug Verify = ''Verify''"
| "phase_debug ResultReview = ''ResultReview''"
| "phase_debug Accepted = ''Accepted''"
| "phase_debug Blocked = ''Blocked''"
| "phase_debug PausedUserAction = ''PausedUserAction''"
| "phase_debug Cancelled = ''Cancelled''"

fun run_status_debug :: "run_status \<Rightarrow> string" where
  "run_status_debug SRunning = ''Running''"
| "run_status_debug SWaitingThread = ''WaitingThread''"
| "run_status_debug SPausedUserAction = ''PausedUserAction''"
| "run_status_debug SAccepted = ''Accepted''"
| "run_status_debug SBlocked = ''Blocked''"
| "run_status_debug SCancelled = ''Cancelled''"
| "run_status_debug SIncompatibleCodex = ''IncompatibleCodex''"

fun message_phase_of :: "phase \<Rightarrow> message_phase" where
  "message_phase_of Discover = MDiscover"
| "message_phase_of Freeze = MFreeze"
| "message_phase_of Contract = MContract"
| "message_phase_of PlanReview = MPlanReview"
| "message_phase_of Integrate = MIntegrate"
| "message_phase_of Verify = MVerify"
| "message_phase_of ResultReview = MResultReview"
| "message_phase_of Accepted = MAccepted"
| "message_phase_of Blocked = MPhaseBlocked"
| "message_phase_of PausedUserAction = MPausedUserAction"
| "message_phase_of Cancelled = MCancelled"

lemma message_phase_of_inj [simp]: "message_phase_of a = message_phase_of b \<longleftrightarrow> a = b"
  by (cases a; cases b) simp_all

definition new_run :: "run_facts \<Rightarrow> run_state" where
  "new_run f = \<lparr>
     schema_version = RUN_STATE_SCHEMA_VERSION,
     facts = f,
     phase = Contract,
     status = SRunning,
     round = 1,
     plan_revision = None,
     integration_branch = None,
     integration_sha = None,
     reason_code = None,
     last_error = None,
     next_action = RequestPrimaryContract,
     target_integration_branch = None,
     required_test_commands = [],
     test_evidence = [],
     accepted_result = None,
     primary_contract = None,
     reviewer_contract = None,
     current_plan_payload = None,
     plan_approval_payload = None,
     current_integration_payload = None,
     last_plan_feedback = None,
     last_result_feedback = None,
     verification_worktree = None,
     max_review_rounds = DEFAULT_MAX_REVIEW_ROUNDS,
     no_progress_rounds = DEFAULT_NO_PROGRESS_ROUNDS,
     primary_contract_hash = None,
     reviewer_contract_hash = None,
     current_plan_hash = None,
     last_review_fingerprint = None,
     unchanged_review_streak = 0,
     plan_approved = False,
     result_approved_sha = None\<rparr>"


subsection \<open>Reading payloads\<close>

abbreviation state_error :: "string \<Rightarrow> string \<Rightarrow> state_error" where
  "state_error code detail \<equiv> StateError code detail"

definition trimmed_command :: "string \<Rightarrow> json \<Rightarrow> state_error + string" where
  "trimmed_command field v =
     ok_or (state_error ''INVALID_RESPONSE'' (field @ '' entries must be nonempty strings''))
       (case as_str v of None \<Rightarrow> None
        | Some text \<Rightarrow> if trim text \<noteq> [] then Some (trim text) else None)"

definition nonempty_array_field :: "json \<Rightarrow> string \<Rightarrow> json list option" where
  "nonempty_array_field v field =
     (case array_field v field of
        Some values \<Rightarrow> if values \<noteq> [] then Some values else None
      | None \<Rightarrow> None)"

definition string_array_field :: "json \<Rightarrow> string \<Rightarrow> state_error + string list" where
  "string_array_field v field =
     attempt
       (ok_or (state_error ''INVALID_RESPONSE'' (field @ '' must be a nonempty array of commands''))
          (nonempty_array_field v field))
       (collect_results (trimmed_command field))"

text \<open>
  \<open>serde_json::from_value\<close> reads a struct from an object, or from an array that holds its fields in
  order. \<open>TestEvidence\<close> ignores other keys; \<open>VerificationFailure\<close> denies them.
\<close>

definition evidence_of_fields ::
  "json option \<Rightarrow> json option \<Rightarrow> json option \<Rightarrow> json option \<Rightarrow> json option \<Rightarrow> test_evidence option" where
  "evidence_of_fields command exit_code turn_id item_id cwd =
     Option.bind (Option.bind command as_str) (\<lambda>c.
     Option.bind (Option.bind exit_code as_i64) (\<lambda>x.
     Option.bind (Option.bind turn_id as_str) (\<lambda>t.
     Option.bind (Option.bind item_id as_str) (\<lambda>i.
     Option.bind (Option.bind cwd as_str) (\<lambda>d.
       Some \<lparr>te_command = c, te_exit_code = x, te_turn_id = t, te_item_id = i, te_cwd = d\<rparr>)))))"

definition test_evidence_of_value :: "json \<Rightarrow> test_evidence option" where
  "test_evidence_of_value v =
     (case v of
        JObj es \<Rightarrow>
          evidence_of_fields (get v ''command'') (get v ''exit_code'') (get v ''turn_id'')
            (get v ''item_id'') (get v ''cwd'')
      | JArr [command, exit_code, turn_id, item_id, cwd] \<Rightarrow>
          evidence_of_fields (Some command) (Some exit_code) (Some turn_id) (Some item_id) (Some cwd)
      | _ \<Rightarrow> None)"

definition test_evidence_value :: "test_evidence \<Rightarrow> json" where
  "test_evidence_value e =
     json_object
       [(''command'', JStr (te_command e)), (''exit_code'', JInt (te_exit_code e)),
        (''turn_id'', JStr (te_turn_id e)), (''item_id'', JStr (te_item_id e)),
        (''cwd'', JStr (te_cwd e))]"

definition payload_evidence_entry :: "libs \<Rightarrow> json \<Rightarrow> state_error + test_evidence" where
  "payload_evidence_entry L v =
     ok_or (state_error ''INVALID_RESPONSE'' (''invalid test_evidence entry: '' @ entry_error_text L v))
       (test_evidence_of_value v)"

definition payload_test_evidence :: "libs \<Rightarrow> json \<Rightarrow> state_error + test_evidence list" where
  "payload_test_evidence L p =
     attempt
       (ok_or (state_error ''INVALID_RESPONSE'' ''test_evidence must be a nonempty array'')
          (nonempty_array_field p ''test_evidence''))
       (collect_results (payload_evidence_entry L))"

definition failure_of_fields ::
  "json option \<Rightarrow> json option \<Rightarrow> json option \<Rightarrow> json option \<Rightarrow> verification_failure option" where
  "failure_of_fields command exit_code item_id output =
     Option.bind (Option.bind command as_str) (\<lambda>c.
     Option.bind (Option.bind exit_code as_i64) (\<lambda>x.
     Option.bind (Option.bind item_id as_str) (\<lambda>i.
     Option.bind (Option.bind output as_str) (\<lambda>out.
       Some \<lparr>vf_command = c, vf_exit_code = x, vf_item_id = i, vf_output = out\<rparr>))))"

definition verification_failure_of_value :: "json \<Rightarrow> verification_failure option" where
  "verification_failure_of_value v =
     (case v of
        JObj es \<Rightarrow>
          if list_all (\<lambda>(k, _). k \<in> {''command'', ''exit_code'', ''item_id'', ''output''}) es then
            failure_of_fields (get v ''command'') (get v ''exit_code'') (get v ''item_id'') (get v ''output'')
          else None
      | JArr [command, exit_code, item_id, output] \<Rightarrow>
          failure_of_fields (Some command) (Some exit_code) (Some item_id) (Some output)
      | _ \<Rightarrow> None)"

definition verification_failure_value :: "verification_failure \<Rightarrow> json" where
  "verification_failure_value f =
     json_object
       [(''command'', JStr (vf_command f)), (''exit_code'', JInt (vf_exit_code f)),
        (''item_id'', JStr (vf_item_id f)), (''output'', JStr (vf_output f))]"

definition failure_matches :: "verification_failure \<Rightarrow> test_evidence \<Rightarrow> bool" where
  "failure_matches f e \<longleftrightarrow>
     vf_command f = te_command e \<and> vf_exit_code f = te_exit_code e \<and> vf_item_id f = te_item_id e"

definition canonical_verification_failures ::
  "libs \<Rightarrow> json \<Rightarrow> test_evidence list \<Rightarrow> json option" where
  "canonical_verification_failures L v ev =
     Option.bind (Option.bind (as_array v) (\<lambda>vs. those (map verification_failure_of_value vs))) (\<lambda>failures.
       let expected = filter (\<lambda>entry. te_exit_code entry \<noteq> 0) ev;
           canonical = JArr (map verification_failure_value failures)
       in if failures = [] \<or> length failures \<noteq> length expected
             \<or> list_ex (\<lambda>(f, e). \<not> failure_matches f e) (zip failures expected) then None
          else if canonical_json_hash L v = canonical_json_hash L canonical then Some canonical
          else None)"

definition trimmed_issues :: "json list \<Rightarrow> string list" where
  "trimmed_issues vs = filter (\<lambda>issue. issue \<noteq> []) (map trim (List.map_filter as_str vs))"

definition normalized_issue_hash :: "libs \<Rightarrow> json \<Rightarrow> string" where
  "normalized_issue_hash L p =
     (case array_field p ''issue_ids'' of
        Some issue_ids \<Rightarrow>
          canonical_json_hash L (JArr (map JStr (remdups_adj (sort (trimmed_issues issue_ids)))))
      | None \<Rightarrow> canonical_json_hash L p)"

definition diagnostic_matches_primary :: "run_facts \<Rightarrow> run_diagnostic \<Rightarrow> bool" where
  "diagnostic_matches_primary f d \<longleftrightarrow>
     rd_thread_id d = Some (rf_primary_thread_id f)
     \<or> (rd_source_thread_id d = Some (rf_primary_thread_id f)
        \<and> rd_effective_thread_id d = rd_thread_id d
        \<and> rd_participant_binding_generation d \<noteq> None
        \<and> rd_participant_binding_mode d \<noteq> None
        \<and> rd_participant_server d \<noteq> None)"

definition quoted :: "string \<Rightarrow> string" where
  "quoted t = CHR 0x27 # t @ [CHR 0x27]"

definition completed_integration_command_audit_detail :: "string \<Rightarrow> bool" where
  "completed_integration_command_audit_detail detail \<longleftrightarrow>
     detail \<in>
       {''integration command is not canonically completed with exit code zero'',
        ''integration command is outside the frozen execution policy'',
        ''controlled patch call appears after the final agent response'',
        ''patch-success confirmation executed a non-read-only command: git symbolic-ref --short HEAD'',
        ''patch-success confirmation executed a non-read-only command: /bin/bash -lc '' @ quoted ''git symbolic-ref --short HEAD'',
        ''patch-success confirmation executed a non-read-only command: git branch --show-current'',
        ''patch-success confirmation executed a non-read-only command: /bin/bash -lc '' @ quoted ''git branch --show-current''}"

definition revalidate_message :: "libs \<Rightarrow> protocol_message \<Rightarrow> state_error + protocol_message" where
  "revalidate_message L m =
     map_err (\<lambda>e. state_error ''INVALID_RESPONSE'' (protocol_error_text e))
       (validate_message L (message_to_value L m))"


subsection \<open>Requirements\<close>

definition require_running :: "run_state \<Rightarrow> state_error + unit" where
  "require_running s =
     ensure (status s = SRunning)
       (state_error ''RUN_NOT_ACTIVE'' (''run status is '' @ run_status_debug (status s)))"

definition require_phase :: "run_state \<Rightarrow> phase \<Rightarrow> state_error + unit" where
  "require_phase s expected =
     ensure (phase s = expected)
       (state_error ''WRONG_PHASE''
          (''expected '' @ phase_debug expected @ '', found '' @ phase_debug (phase s)))"

definition require_round :: "protocol_message \<Rightarrow> 32 word \<Rightarrow> state_error + unit" where
  "require_round m expected =
     ensure (env_round (envelope m) = expected)
       (state_error ''STALE_ROUND''
          (''message round '' @ decimal (unat (env_round (envelope m)))
             @ '' does not match current round '' @ decimal (unat expected)))"

definition require_plan_revision :: "run_state \<Rightarrow> protocol_message \<Rightarrow> state_error + unit" where
  "require_plan_revision s m =
     ensure (env_plan_revision (envelope m) = plan_revision s)
       (state_error ''STALE_PLAN_REVISION'' ''message plan_revision does not match the current revision'')"

definition require_current_integration :: "run_state \<Rightarrow> protocol_message \<Rightarrow> state_error + unit" where
  "require_current_integration s m =
     attempt (ensure (env_integration_branch (envelope m) = integration_branch s)
                (state_error ''STALE_INTEGRATION_BRANCH'' ''verdict targets a different integration branch'')) (\<lambda>_.
     ensure (env_integration_sha (envelope m) = integration_sha s)
       (state_error ''STALE_INTEGRATION_SHA'' ''verdict targets a different integration SHA''))"

definition verify_immutable_envelope :: "run_state \<Rightarrow> protocol_message \<Rightarrow> state_error + unit" where
  "verify_immutable_envelope s m =
     attempt (ensure (env_run_id (envelope m) = rf_run_id (facts s))
                (state_error ''STALE_RUN_ID'' ''message run_id does not match the active run'')) (\<lambda>_.
     attempt (ensure (env_primary_sha (envelope m) = rf_primary_sha (facts s))
                (state_error ''STALE_PRIMARY_SHA'' ''message primary_sha does not match the frozen source'')) (\<lambda>_.
     ensure (env_reviewer_sha (envelope m) = rf_reviewer_sha (facts s))
       (state_error ''STALE_REVIEWER_SHA'' ''message reviewer_sha does not match the frozen source'')))"

definition verify_blocked_envelope :: "run_state \<Rightarrow> protocol_message \<Rightarrow> state_error + unit" where
  "verify_blocked_envelope s m =
     attempt (ensure (env_phase (envelope m) = message_phase_of (phase s))
                (state_error ''WRONG_PHASE'' ''BLOCKED phase does not match the pending action'')) (\<lambda>_.
     attempt (require_round m (round s)) (\<lambda>_.
     attempt (ensure (env_plan_revision (envelope m) = plan_revision s)
                (state_error ''STALE_PLAN_REVISION'' ''BLOCKED plan revision does not match the current revision'')) (\<lambda>_.
     case integration_sha s of
       Some _ \<Rightarrow> require_current_integration s m
     | None \<Rightarrow>
         if env_integration_branch (envelope m) = None \<and> env_integration_sha (envelope m) = None
         then Inr ()
         else Inl (state_error ''STALE_INTEGRATION_SHA''
                     ''BLOCKED carries an integration identity before one exists''))))"

subsection \<open>Test evidence\<close>

text \<open>\<open>repeated_or_blank cs\<close>: some command is blank or occurs before its index.\<close>

definition repeated_or_blank :: "string list \<Rightarrow> bool" where
  "repeated_or_blank cs \<longleftrightarrow>
     list_ex (\<lambda>i. blank (cs ! i) \<or> cs ! i \<in> set (take i cs)) [0..<length cs]"

definition malformed_evidence :: "test_evidence \<Rightarrow> bool" where
  "malformed_evidence e \<longleftrightarrow>
     blank (te_command e) \<or> blank (te_turn_id e) \<or> blank (te_item_id e) \<or> \<not> is_absolute (te_cwd e)"

definition evidence_complete :: "string list \<Rightarrow> test_evidence list \<Rightarrow> bool" where
  "evidence_complete cs ev \<longleftrightarrow>
     \<not> (cs = [] \<or> length ev \<noteq> length cs \<or> repeated_or_blank cs
        \<or> list_ex malformed_evidence ev
        \<or> list_ex (\<lambda>required. length (filter (\<lambda>entry. te_command entry = required) ev) \<noteq> 1) cs)"

definition validate_complete_test_evidence ::
  "run_state \<Rightarrow> test_evidence list \<Rightarrow> state_error + unit" where
  "validate_complete_test_evidence s ev =
     ensure (evidence_complete (required_test_commands s) ev)
       (state_error ''TEST_FAILURE''
          ''verification requires exact terminal evidence for every frozen test command'')"

definition some_failed :: "test_evidence list \<Rightarrow> bool" where
  "some_failed ev \<longleftrightarrow> list_ex (\<lambda>e. te_exit_code e \<noteq> 0) ev"

definition validate_test_evidence :: "run_state \<Rightarrow> state_error + unit" where
  "validate_test_evidence s =
     attempt (validate_complete_test_evidence s (test_evidence s)) (\<lambda>_.
     ensure (\<not> some_failed (test_evidence s))
       (state_error ''TEST_FAILURE''
          ''acceptance requires exact successful evidence for every frozen test command''))"

subsection \<open>Persisted states\<close>

definition evidence_eq :: "test_evidence \<Rightarrow> test_evidence \<Rightarrow> bool" where
  "evidence_eq a b \<longleftrightarrow>
     te_command a = te_command b \<and> te_exit_code a = te_exit_code b \<and> te_turn_id a = te_turn_id b
     \<and> te_item_id a = te_item_id b \<and> path_eq (te_cwd a) (te_cwd b)"

definition accepted_result_eq :: "accepted_result \<Rightarrow> accepted_result \<Rightarrow> bool" where
  "accepted_result_eq a b \<longleftrightarrow>
     ar_integration_branch a = ar_integration_branch b \<and> ar_integration_sha a = ar_integration_sha b
     \<and> ar_primary_sha a = ar_primary_sha b \<and> ar_reviewer_sha a = ar_reviewer_sha b
     \<and> list_all2 evidence_eq (ar_tests a) (ar_tests b)
     \<and> ar_source_refs_unchanged a = ar_source_refs_unchanged b
     \<and> ar_publication a = ar_publication b"

definition local_publication :: publication_boundary where
  "local_publication = \<lparr>pb_local_only = True, pb_pushed = False, pb_pull_request_created = False,
     pb_merged_into_existing_branch = False\<rparr>"

definition result_of :: "run_state \<Rightarrow> string \<Rightarrow> string \<Rightarrow> accepted_result" where
  "result_of s branch sha = \<lparr>
     ar_integration_branch = branch,
     ar_integration_sha = sha,
     ar_primary_sha = rf_primary_sha (facts s),
     ar_reviewer_sha = rf_reviewer_sha (facts s),
     ar_tests = test_evidence s,
     ar_source_refs_unchanged = True,
     ar_publication = local_publication\<rparr>"

abbreviation incompatible_state :: "string \<Rightarrow> state_error" where
  "incompatible_state t \<equiv> StateError ''INCOMPATIBLE_STATE'' t"

definition validate_terminal :: "run_state \<Rightarrow> state_error + unit" where
  "validate_terminal s =
     (if status s = SAccepted then
        attempt (ensure (phase s = Accepted \<and> next_action s = Stop \<and> result_approved_sha s = integration_sha s)
                   (incompatible_state ''persisted accepted state has inconsistent terminal metadata'')) (\<lambda>_.
        attempt (map_err (\<lambda>_. incompatible_state ''persisted accepted state lacks authoritative successful tests'')
                   (validate_test_evidence s)) (\<lambda>_.
        attempt (ok_or (incompatible_state ''persisted accepted state lacks an integration branch'')
                   (integration_branch s)) (\<lambda>branch.
        attempt (ok_or (incompatible_state ''persisted accepted state lacks an integration SHA'')
                   (integration_sha s)) (\<lambda>sha.
        ensure (case accepted_result s of None \<Rightarrow> False
                | Some r \<Rightarrow> accepted_result_eq r (result_of s branch sha))
          (incompatible_state ''persisted accepted_result does not match authoritative state'')))))
      else
        ensure (accepted_result s = None)
          (incompatible_state ''persisted non-accepted state contains an accepted_result''))"

definition validate_persisted :: "run_state \<Rightarrow> state_error + unit" where
  "validate_persisted s =
     attempt (ensure (schema_version s = RUN_STATE_SCHEMA_VERSION)
                (incompatible_state
                   (''persisted state schema '' @ decimal (unat (schema_version s))
                      @ '' is not supported; expected '' @ decimal (unat RUN_STATE_SCHEMA_VERSION)))) (\<lambda>_.
     attempt (ensure (\<not> (next_action s \<in> {RequestPrimaryVerification, RequestReviewerResultVerdict,
                                             RevalidateAndAccept}
                         \<and> (current_integration_payload s = None \<or> integration_branch s = None
                            \<or> integration_sha s = None)))
                (incompatible_state ''persisted active result state lacks canonical integration evidence'')) (\<lambda>_.
     attempt (if test_evidence s \<noteq> [] then
                map_err (\<lambda>_. incompatible_state ''persisted result state has incomplete authoritative test evidence'')
                  (validate_complete_test_evidence s (test_evidence s))
              else Inr ()) (\<lambda>_.
     attempt (if next_action s \<in> {RequestReviewerResultVerdict, RevalidateAndAccept} then
                map_err (\<lambda>_. incompatible_state ''persisted result state lacks authoritative successful tests'')
                  (validate_test_evidence s)
              else Inr ()) (\<lambda>_.
     validate_terminal s))))"

end
