(* ===== verification/Protocol_Properties.thy ===== *)
theory Protocol_Properties
  imports Run_State
begin

text \<open>
  Properties of protocol messages and of the canonical hash: decoding inverts encoding, revalidation
  changes nothing, an approval names exactly what it approves, and the hash ignores the order of
  object entries.
\<close>

lemma u32_of_word_json [simp]: "u32_of (word_json (w :: 32 word)) = Some w"
proof -
  have "uint w < 2 ^ 32" using uint_lt2p [of w] by simp
  then show ?thesis by (simp add: u32_of_def word_json_def)
qed

lemma word_json_not_null: "word_json w \<noteq> JNull"
  by (simp add: word_json_def)

lemma variant_of_type [simp]:
  "variant_of message_type_name message_types (JStr (message_type_name t)) = Some t"
  by (cases t) (simp_all add: variant_of_def variant_text_def message_types_def)

lemma variant_of_phase [simp]:
  "variant_of message_phase_name message_phases (JStr (message_phase_name p)) = Some p"
  by (cases p) (simp_all add: variant_of_def variant_text_def message_phases_def)

lemma optional_field_opt_json:
  assumes "get v k = Some (opt_json g x)" and "\<And>y. f (g y) = Some y" and "\<And>y. g y \<noteq> JNull"
  shows "optional_field f v k = Some x"
proof (cases x)
  case (Some y)
  then show ?thesis
    using assms(1) assms(2) [of y] assms(3) [of y] by (cases "g y") (simp_all add: optional_field_def)
qed (use assms(1) in \<open>simp add: optional_field_def\<close>)

lemma message_fields:
  "list_all (\<lambda>(k, v). get (message_to_value L m) k = Some v)
     (envelope_fields L (envelope m) @ [(''payload'', payload m)])"
  by (simp add: message_to_value_def get_json_object envelope_fields_def)

lemmas message_field = message_fields [unfolded envelope_fields_def, simplified]

lemma decode_encode:
  assumes "uuid_parse L (uuid_text L (env_run_id (envelope m))) = Some (env_run_id (envelope m))"
  shows "message_from_value L (message_to_value L m) = Some m"
proof -
  note field = message_field [of L m]
  have o1: "optional_field u32_of (message_to_value L m) ''plan_revision'' = Some (env_plan_revision (envelope m))"
    by (rule optional_field_opt_json [where g = word_json]) (simp_all add: field word_json_not_null)
  have o2: "optional_field as_str (message_to_value L m) k = Some x"
    if "get (message_to_value L m) k = Some (opt_json JStr x)" for k x
    using that by (rule optional_field_opt_json) simp_all
  show ?thesis
    using assms field
    by (simp add: message_from_value_def envelope_of_value_def required_field_def o1 o2)
qed

text \<open>
  C39: Encoding a message as JSON and decoding it gives the same message, every optional field and the
  payload included, if the identifier of the run can be read back from its text.
\<close>

theorem message_roundtrip:
  assumes "uuid_parse L (uuid_text L (env_run_id (envelope m))) = Some (env_run_id (envelope m))"
  shows "message_from_value L (message_to_value L m) = Some m"
  using assms by (rule decode_encode)

theorem message_roundtrip_witness:
  "\<exists>(L :: libs) m. message_from_value L (message_to_value L m) = Some m
     \<and> env_plan_revision (envelope m) = Some 3 \<and> env_integration_sha (envelope m) = None"
proof -
  let ?L = "\<lparr>to_vec = (\<lambda>_. []), sha256_hex = (\<lambda>s. s), schema_errors = (\<lambda>_. []),
    uuid_text = (\<lambda>u. replicate (unat u) CHR ''x''), uuid_parse = (\<lambda>t. Some (of_nat (length t))),
    decode_error_text = (\<lambda>_. []), entry_error_text = (\<lambda>_. [])\<rparr>"
  let ?m = "\<lparr>envelope = \<lparr>env_protocol = PROTOCOL_V1, env_run_id = 5, env_message_type = MBlocked,
      env_phase = MVerify, env_round = 2, env_primary_sha = ''a'', env_reviewer_sha = ''b'',
      env_plan_revision = Some 3, env_integration_branch = None, env_integration_sha = None,
      env_reason_code = Some ''X''\<rparr>, payload = JNull\<rparr>"
  have "uuid_parse ?L (uuid_text ?L (env_run_id (envelope ?m))) = Some (env_run_id (envelope ?m))" by simp
  from message_roundtrip [OF this] show ?thesis by (intro exI [of _ ?L] exI [of _ ?m]) simp
qed

lemma revalidate_message_eq:
  assumes "uuid_parse L (uuid_text L (env_run_id (envelope m))) = Some (env_run_id (envelope m))"
    and "schema_errors L (message_to_value L m) = []"
  shows "revalidate_message L m
    = map_err (\<lambda>e. StateError ''INVALID_RESPONSE'' (protocol_error_text e))
        (attempt (validate_invariants m) (\<lambda>_. Inr m))"
proof -
  have "is_object (message_to_value L m)"
    by (simp add: message_to_value_def json_object_def is_object_def)
  moreover have "message_from_value L (message_to_value L m) = Some m"
    using assms(1) by (rule decode_encode)
  ultimately show ?thesis
    using assms(2) by (simp add: revalidate_message_def validate_message_def ok_or_def)
qed

text \<open>
  Revalidation accepts a message exactly when the message conforms to the schema and satisfies the
  invariants of its type, and then returns the message itself: applying a message never acts on
  something other than what was received.
\<close>

theorem revalidation_identity:
  assumes "uuid_parse L (uuid_text L (env_run_id (envelope m))) = Some (env_run_id (envelope m))"
  shows "revalidate_message L m = Inr m'
    \<longleftrightarrow> m' = m \<and> schema_errors L (message_to_value L m) = [] \<and> validate_invariants m = Inr ()"
proof (cases "schema_errors L (message_to_value L m) = []")
  case True
  show ?thesis
    by (simp add: revalidate_message_eq [OF assms True] outcome True)
       (cases "validate_invariants m"; auto)
next
  case False
  then show ?thesis
    by (auto simp: revalidate_message_def validate_message_def map_err_Inr split: if_splits)
qed

theorem revalidation_identity_witness:
  "\<exists>(L :: libs) m. uuid_parse L (uuid_text L (env_run_id (envelope m))) = Some (env_run_id (envelope m))
     \<and> revalidate_message L m = Inr m"
proof -
  let ?L = "\<lparr>to_vec = (\<lambda>_. []), sha256_hex = (\<lambda>s. s), schema_errors = (\<lambda>_. []),
    uuid_text = (\<lambda>u. []), uuid_parse = (\<lambda>t. Some 5),
    decode_error_text = (\<lambda>_. []), entry_error_text = (\<lambda>_. [])\<rparr>"
  let ?m = "\<lparr>envelope = \<lparr>env_protocol = PROTOCOL_V1, env_run_id = 5, env_message_type = MBlocked,
      env_phase = MVerify, env_round = 2, env_primary_sha = ''a'', env_reviewer_sha = ''b'',
      env_plan_revision = Some 3, env_integration_branch = None, env_integration_sha = None,
      env_reason_code = Some ''X''\<rparr>, payload = JNull\<rparr>"
  have u: "uuid_parse ?L (uuid_text ?L (env_run_id (envelope ?m))) = Some (env_run_id (envelope ?m))" by simp
  have "validate_invariants ?m = Inr ()"
    by (simp add: validate_invariants_def validate_by_type_def missing_reason_def nonempty_text_def ensure_def)
  then have "revalidate_message ?L ?m = Inr ?m" using revalidation_identity [OF u, of ?m] by simp
  with u show ?thesis by (intro exI [of _ ?L] exI [of _ ?m]) simp
qed

definition names_sources :: "protocol_message \<Rightarrow> bool" where
  "names_sources m \<longleftrightarrow>
     get (payload m) ''approved_plan_revision''
       = map_option (\<lambda>r. JInt (uint r)) (env_plan_revision (envelope m))
     \<and> env_plan_revision (envelope m) \<noteq> None
     \<and> get (payload m) ''approved_primary_sha'' = Some (JStr (env_primary_sha (envelope m)))
     \<and> get (payload m) ''approved_reviewer_sha'' = Some (JStr (env_reviewer_sha (envelope m)))
     \<and> get (payload m) ''uncovered_items'' = Some (JArr [])"

text \<open>
  A valid approval names exactly what it approves. An APPROVED_PLAN repeats the revision and the
  source SHAs of its envelope, carries a 64-digit hexadecimal plan hash, leaves nothing uncovered and
  mentions no integration; an APPROVED_RESULT repeats the revision, the source SHAs and the nonempty
  branch and SHA of the integration, and leaves nothing uncovered.
\<close>

theorem approvals_bound:
  assumes "validate_message L v = Inr m"
    and "env_message_type (envelope m) \<in> {MApprovedPlan, MApprovedResult}"
  shows "names_sources m \<and>
    (if env_message_type (envelope m) = MApprovedPlan
     then env_phase (envelope m) = MPlanReview
       \<and> env_integration_branch (envelope m) = None \<and> env_integration_sha (envelope m) = None
       \<and> (\<exists>h. get (payload m) ''approved_plan_hash'' = Some (JStr h) \<and> hex_digest h)
     else env_phase (envelope m) = MResultReview
       \<and> (\<exists>branch sha. env_integration_branch (envelope m) = Some branch \<and> branch \<noteq> []
            \<and> env_integration_sha (envelope m) = Some sha \<and> sha \<noteq> []
            \<and> get (payload m) ''approved_integration_branch'' = Some (JStr branch)
            \<and> get (payload m) ''approved_integration_sha'' = Some (JStr sha)))"
  using assms validate_message_invariants [OF assms(1)]
  by (auto simp: names_sources_def validate_by_type_def validate_plan_approval_Inr
      validate_result_approval_Inr dest!: validate_invariants_by_type)

theorem approvals_bound_witness:
  "\<exists>m. env_message_type (envelope m) = MApprovedPlan \<and> names_sources m
     \<and> (\<exists>h. get (payload m) ''approved_plan_hash'' = Some (JStr h) \<and> hex_digest h)"
proof -
  let ?L = "\<lparr>to_vec = (\<lambda>_. []), sha256_hex = (\<lambda>s. s), schema_errors = (\<lambda>_. []),
    uuid_text = (\<lambda>u. []), uuid_parse = (\<lambda>t. Some 5),
    decode_error_text = (\<lambda>_. []), entry_error_text = (\<lambda>_. [])\<rparr>"
  let ?m = "\<lparr>envelope = \<lparr>env_protocol = PROTOCOL_V1, env_run_id = 5, env_message_type = MApprovedPlan,
      env_phase = MPlanReview, env_round = 2, env_primary_sha = ''a'', env_reviewer_sha = ''b'',
      env_plan_revision = Some 3, env_integration_branch = None, env_integration_sha = None,
      env_reason_code = None\<rparr>,
    payload = JObj [(''approved_plan_hash'', JStr (replicate 64 (CHR ''0''))),
      (''approved_plan_revision'', JInt 3), (''approved_primary_sha'', JStr ''a''),
      (''approved_reviewer_sha'', JStr ''b''), (''uncovered_items'', JArr [])]\<rparr>"
  have "validate_message ?L (message_to_value ?L ?m) = Inr ?m" by code_simp
  from approvals_bound [OF this] show ?thesis by (intro exI [of _ ?m]) simp
qed

text \<open>
  Two payloads with the same content, listed with the entries of their objects in any order at any
  depth, have the same canonical hash, so a plan hash does not depend on how the participant ordered
  the keys.
\<close>

theorem canonical_hash_ignores_order:
  assumes "same_content v w"
  shows "canonical_json_hash L v = canonical_json_hash L w"
  using canonicalize_same_content [OF assms] by (simp add: canonical_json_hash_def)

theorem canonical_hash_ignores_order_witness:
  "\<forall>L. canonical_json_hash L (JObj [(''b'', JInt 1), (''a'', JNull)])
     = canonical_json_hash L (JObj [(''a'', JNull), (''b'', JInt 1)])"
  by (intro allI canonical_hash_ignores_order, rule same_object
      [where es' = "[(''a'', JNull), (''b'', JInt 1)]"]) (auto intro: same_refl)

end
