(* ===== verification/Run_Operations.thy ===== *)
theory Run_Operations
  imports Run_State
begin

text \<open>
  The operations of \<open>RunState\<close> (\<open>crates/core/src/state.rs\<close>) that drive a run: configuration, the
  application of a protocol message in every phase, pausing, waiting, resuming, cancelling, blocking
  and the final acceptance. After the definitions come, for each operation, the rule that inverts a
  success, the fact that a failure leaves the state untouched, and the first properties.
\<close>

subsection \<open>Operations without a message\<close>

text \<open>\<open>Ok(self.next_action)\<close>\<close>

definition returning :: "run_state \<Rightarrow> ('e + next_action) \<times> run_state" where
  "returning s = (Inr (next_action s), s)"

lemma returning_Inl [simp]: "returning s \<noteq> (Inl e, s')"
  by (simp add: returning_def)

lemma returning_Inr [simp]: "returning s = (Inr a, s') \<longleftrightarrow> s' = s \<and> a = next_action s"
  by (auto simp: returning_def)

lemma snd_returning [simp]: "snd (returning s) = s"
  by (simp add: returning_def)

definition fail :: "string \<Rightarrow> string \<Rightarrow> run_state \<Rightarrow> (state_error + 'a) \<times> run_state" where
  "fail code detail s = (Inl (StateError code detail), s)"

lemma fail_Inr [simp]: "fail c d s \<noteq> (Inr x, s')"
  by (simp add: fail_def)

lemma fail_Inl [simp]: "fail c d s = (Inl e, s') \<longleftrightarrow> s' = s \<and> e = StateError c d"
  by (auto simp: fail_def)

lemma snd_fail [simp]: "snd (fail c d s) = s"
  by (simp add: fail_def)

definition freeze_test_commands :: "string list \<Rightarrow> run_state \<Rightarrow> run_state" where
  "freeze_test_commands commands s =
     s\<lparr>required_test_commands := push_new (required_test_commands s) commands\<rparr>"

definition configure_integration :: "string \<Rightarrow> string list \<Rightarrow> unit run_op" where
  "configure_integration target_branch test_commands s =
     attempt_in s (require_running s) (\<lambda>_.
     if phase s \<noteq> Contract \<or> next_action s \<noteq> RequestPrimaryContract
        \<or> target_integration_branch s \<noteq> None then
       fail ''POLICY_ALREADY_FROZEN''
         ''integration policy can only be configured once before the first turn'' s
     else if blank target_branch then
       fail ''INVALID_BRANCH_NAME'' ''target integration branch cannot be empty'' s
     else if list_ex blank test_commands then
       fail ''INVALID_TEST_COMMAND'' ''required test commands cannot be empty'' s
     else
       (Inr (), s\<lparr>target_integration_branch := Some target_branch,
                  required_test_commands := push_new [] (map trim test_commands)\<rparr>))"

definition record_plan :: "libs \<Rightarrow> json \<Rightarrow> next_action run_op" where
  "record_plan L p s =
     attempt_in s (require_running s) (\<lambda>_.
     attempt_in s (require_phase s PlanReview) (\<lambda>_.
     if \<not> is_object p then
       fail ''INVALID_RESPONSE'' ''the primary plan payload must be a JSON object'' s
     else
       attempt_in s
         (if get p ''test_commands'' \<noteq> None then
            attempt (string_array_field p ''test_commands'') (\<lambda>commands.
              Inr (freeze_test_commands commands s))
          else Inr s) (\<lambda>s'.
       returning (s'\<lparr>current_plan_hash := Some (canonical_json_hash L p),
                     current_plan_payload := Some p,
                     next_action := RequestReviewerPlanVerdict\<rparr>))))"

definition request_integration :: "next_action run_op" where
  "request_integration s =
     attempt_in s (require_running s) (\<lambda>_.
     attempt_in s (require_phase s PlanReview) (\<lambda>_.
     if \<not> plan_approved s then
       fail ''PLAN_NOT_APPROVED'' ''an exact APPROVED_PLAN is required before integration'' s
     else returning (s\<lparr>phase := Integrate, next_action := RequestPrimaryIntegration\<rparr>)))"

definition pause :: "string \<Rightarrow> unit run_op" where
  "pause reason s =
     (if status s \<notin> {SRunning, SWaitingThread} then
        fail ''RUN_NOT_ACTIVE'' ''only a running or waiting run can be paused'' s
      else (Inr (), s\<lparr>status := SPausedUserAction, reason_code := Some reason\<rparr>))"

definition record_error :: "run_diagnostic \<Rightarrow> run_state \<Rightarrow> run_state" where
  "record_error d s = s\<lparr>last_error := Some d\<rparr>"

definition wait_for_thread :: "unit run_op" where
  "wait_for_thread s =
     attempt_in s (require_running s) (\<lambda>_. (Inr (), s\<lparr>status := SWaitingThread\<rparr>))"

definition thread_became_idle :: "unit run_op" where
  "thread_became_idle s =
     (if status s \<noteq> SWaitingThread then
        fail ''NOT_WAITING_THREAD'' ''run is not waiting for a task turn'' s
      else (Inr (), s\<lparr>status := SRunning\<rparr>))"

definition resume :: "next_action run_op" where
  "resume s =
     (if status s \<noteq> SPausedUserAction then
        fail ''NOT_PAUSED'' ''only a PAUSED_USER_ACTION run can be resumed'' s
      else returning (s\<lparr>status := SRunning, reason_code := None, last_error := None\<rparr>))"

definition cancel :: "run_state \<Rightarrow> run_state" where
  "cancel s = s\<lparr>status := SCancelled, phase := Cancelled, reason_code := None, next_action := Stop\<rparr>"

definition mark_incompatible :: "string \<Rightarrow> run_state \<Rightarrow> run_state" where
  "mark_incompatible reason s =
     s\<lparr>status := SIncompatibleCodex, phase := Blocked, reason_code := Some reason, next_action := Stop\<rparr>"

definition block :: "string \<Rightarrow> run_state \<Rightarrow> run_state" where
  "block reason s =
     s\<lparr>status := SBlocked, phase := Blocked, reason_code := Some reason, next_action := Stop\<rparr>"

definition accept_after_revalidation :: "next_action run_op" where
  "accept_after_revalidation s =
     attempt_in s (require_running s) (\<lambda>_.
     if next_action s \<noteq> RevalidateAndAccept \<or> result_approved_sha s \<noteq> integration_sha s then
       fail ''RESULT_NOT_APPROVED'' ''the current integration SHA has not received an exact approval'' s
     else
       attempt_in s (validate_test_evidence s) (\<lambda>_.
       attempt_in s (ok_or (state_error ''INVALID_STATE'' ''accepted integration branch is missing'')
                       (integration_branch s)) (\<lambda>branch.
       attempt_in s (ok_or (state_error ''INVALID_STATE'' ''accepted integration SHA is missing'')
                       (integration_sha s)) (\<lambda>sha.
       returning (s\<lparr>status := SAccepted, phase := Accepted, reason_code := None, next_action := Stop,
                    accepted_result := Some (result_of s branch sha)\<rparr>)))))"

subsection \<open>Applying a message\<close>

definition expected_contract_role :: "next_action \<Rightarrow> string option" where
  "expected_contract_role a =
     (case a of RequestPrimaryContract \<Rightarrow> Some ''PRIMARY'' | RequestReviewerContract \<Rightarrow> Some ''REVIEWER''
      | _ \<Rightarrow> None)"

definition check_contract_role :: "json \<Rightarrow> string \<Rightarrow> state_error + unit" where
  "check_contract_role p expected =
     (case get p ''role'' of
        None \<Rightarrow> Inr ()
      | Some v \<Rightarrow>
          attempt (ok_or (state_error ''INVALID_RESPONSE''
                            ''CONTRACT_READY payload.role must be a string when present'') (as_str v)) (\<lambda>role.
          ensure (role = expected)
            (state_error ''UNEXPECTED_ROLE''
               ''contract role does not match the bound task for the pending action'')))"

definition apply_contract :: "libs \<Rightarrow> protocol_message \<Rightarrow> next_action run_op" where
  "apply_contract L m s =
     attempt_in s (require_phase s Contract) (\<lambda>_.
     attempt_in s (require_round m 1) (\<lambda>_.
     attempt_in s (ok_or (state_error ''UNEXPECTED_MESSAGE'' ''a contract was not the pending action'')
                     (expected_contract_role (next_action s))) (\<lambda>expected_role.
     attempt_in s (check_contract_role (payload m) expected_role) (\<lambda>_.
     attempt_in s (ok_or (state_error ''INVALID_RESPONSE'' ''CONTRACT_READY payload requires a contract'')
                     (get (payload m) ''contract'')) (\<lambda>contract.
     attempt_in s (string_array_field contract ''tests'') (\<lambda>tests.
     if next_action s = RequestPrimaryContract then
       returning ((freeze_test_commands tests
         (s\<lparr>primary_contract_hash := Some (canonical_json_hash L contract),
            primary_contract := Some contract\<rparr>))
           \<lparr>next_action := RequestReviewerContract\<rparr>)
     else
       returning ((freeze_test_commands tests
         (s\<lparr>reviewer_contract_hash := Some (canonical_json_hash L contract),
            reviewer_contract := Some contract\<rparr>))
           \<lparr>phase := PlanReview, round := 1, plan_revision := Some 1,
            next_action := RequestPrimaryPlan\<rparr>)))))))"

definition apply_plan_approval :: "protocol_message \<Rightarrow> next_action run_op" where
  "apply_plan_approval m s =
     attempt_in s (require_phase s PlanReview) (\<lambda>_.
     attempt_in s (require_round m (round s)) (\<lambda>_.
     attempt_in s (require_plan_revision s m) (\<lambda>_.
     if current_plan_hash s = None then
       fail ''PLAN_MISSING'' ''a primary plan must be recorded before reviewer approval'' s
     else
       attempt_in s (ok_or (state_error ''INVALID_RESPONSE'' ''APPROVED_PLAN requires approved_plan_hash'')
                       (str_field (payload m) ''approved_plan_hash'')) (\<lambda>approved_hash.
       if current_plan_hash s \<noteq> Some approved_hash then
         fail ''STALE_PLAN_HASH'' ''plan approval does not bind the current canonical plan payload'' s
       else
         request_integration (s\<lparr>plan_approved := True, plan_approval_payload := Some (payload m)\<rparr>)))))"

definition apply_plan :: "libs \<Rightarrow> protocol_message \<Rightarrow> next_action run_op" where
  "apply_plan L m s =
     attempt_in s (require_phase s PlanReview) (\<lambda>_.
     attempt_in s (require_round m (round s)) (\<lambda>_.
     attempt_in s (require_plan_revision s m) (\<lambda>_.
     if next_action s \<noteq> RequestPrimaryPlan then
       fail ''UNEXPECTED_MESSAGE'' ''a primary plan was not the pending action'' s
     else record_plan L (payload m) s)))"

definition integration_created :: "protocol_message \<Rightarrow> string \<Rightarrow> string \<Rightarrow> next_action run_op" where
  "integration_created m branch sha s =
     (if env_phase (envelope m) \<noteq> MIntegrate then
        fail ''WRONG_PHASE'' ''integration creation evidence must use INTEGRATE phase'' s
      else if (case array_field (payload m) ''test_evidence'' of Some ev \<Rightarrow> ev \<noteq> [] | None \<Rightarrow> False) then
        fail ''INVALID_RESPONSE'' ''integration creation cannot self-report test evidence'' s
      else if integration_sha s = Some sha then
        fail ''STALE_INTEGRATION_SHA'' ''a corrective integration result must advance the integration SHA'' s
      else
        (let is_initial_result_review = (integration_sha s = None);
             s1 = s\<lparr>integration_branch := Some branch, integration_sha := Some sha,
                    current_integration_payload := Some (payload m), test_evidence := [],
                    verification_worktree := None, result_approved_sha := None, phase := Verify\<rparr>;
             s2 = (if is_initial_result_review
                   then s1\<lparr>round := 1, last_review_fingerprint := None, unchanged_review_streak := 0\<rparr>
                   else s1)
         in returning (s2\<lparr>next_action := RequestPrimaryVerification\<rparr>)))"

definition machine_feedback :: "json \<Rightarrow> json" where
  "machine_feedback p =
     json_object
       [(''format'', JStr ''machine_verification''),
        (''summary'', JStr MACHINE_VERIFICATION_SUMMARY),
        (''failed_tests'', case get p ''verification_failures'' of Some v \<Rightarrow> v | None \<Rightarrow> JArr []),
        (''verification_summary'', case get p ''verification_summary'' of Some v \<Rightarrow> v | None \<Rightarrow> JNull)]"

text \<open>The state after complete evidence \<open>ev\<close> for the current integration has been reported.\<close>

definition verification_outcome :: "protocol_message \<Rightarrow> test_evidence list \<Rightarrow> run_state \<Rightarrow> run_state" where
  "verification_outcome m ev s =
     (if some_failed ev then
        (let s1 = s\<lparr>test_evidence := ev, current_integration_payload := Some (payload m),
                    result_approved_sha := None,
                    last_result_feedback := Some (machine_feedback (payload m))\<rparr>
         in if max_review_rounds s1 \<le> round s1 then block ''ROUND_LIMIT'' s1
            else s1\<lparr>round := round s1 + 1, phase := Integrate,
                    next_action := RequestPrimaryIntegration\<rparr>)
      else
        s\<lparr>test_evidence := ev, current_integration_payload := Some (payload m),
          result_approved_sha := None, phase := ResultReview,
          next_action := RequestReviewerResultVerdict\<rparr>)"

definition integration_verified :: "libs \<Rightarrow> protocol_message \<Rightarrow> next_action run_op" where
  "integration_verified L m s =
     (if env_phase (envelope m) \<noteq> MVerify then
        fail ''WRONG_PHASE'' ''test verification evidence must use VERIFY phase'' s
      else
        attempt_in s (require_current_integration s m) (\<lambda>_.
        attempt_in s (payload_test_evidence L (payload m)) (\<lambda>ev.
        attempt_in s (validate_complete_test_evidence s ev) (\<lambda>_.
        returning (verification_outcome m ev s)))))"

definition apply_integration :: "libs \<Rightarrow> protocol_message \<Rightarrow> next_action run_op" where
  "apply_integration L m s =
     (if phase s \<notin> {Integrate, Verify} then
        fail ''WRONG_PHASE'' ''INTEGRATION_READY requires INTEGRATE or VERIFY state'' s
      else
        attempt_in s (require_round m (round s)) (\<lambda>_.
        attempt_in s (require_plan_revision s m) (\<lambda>_.
        if \<not> plan_approved s then
          fail ''PLAN_NOT_APPROVED'' ''integration evidence arrived without an approved plan'' s
        else
          attempt_in s (ok_or (state_error ''INVALID_RESPONSE'' ''integration branch is missing'')
                          (env_integration_branch (envelope m))) (\<lambda>branch.
          if (case target_integration_branch s of Some target \<Rightarrow> target \<noteq> branch | None \<Rightarrow> False) then
            fail ''UNEXPECTED_INTEGRATION_BRANCH''
              ''reported integration branch does not match the authorized new branch'' s
          else
            attempt_in s (ok_or (state_error ''INVALID_RESPONSE'' ''integration SHA is missing'')
                            (env_integration_sha (envelope m))) (\<lambda>sha.
            if phase s = Integrate then integration_created m branch sha s
            else integration_verified L m s)))))"

definition apply_result_approval :: "protocol_message \<Rightarrow> next_action run_op" where
  "apply_result_approval m s =
     attempt_in s (require_phase s ResultReview) (\<lambda>_.
     attempt_in s (require_round m (round s)) (\<lambda>_.
     attempt_in s (require_plan_revision s m) (\<lambda>_.
     attempt_in s (require_current_integration s m) (\<lambda>_.
     returning (s\<lparr>result_approved_sha := env_integration_sha (envelope m),
                  next_action := RevalidateAndAccept\<rparr>)))))"

text \<open>\<open>u8::saturating_add(1)\<close>\<close>

definition saturating_inc :: "8 word \<Rightarrow> 8 word" where
  "saturating_inc w = (if w = - 1 then w else w + 1)"

definition review_fingerprint :: "libs \<Rightarrow> run_state \<Rightarrow> json \<Rightarrow> string" where
  "review_fingerprint L s p =
     canonical_json_hash L
       (json_object [(''plan'', opt_json JStr (current_plan_hash s)),
                     (''issues'', JStr (normalized_issue_hash L p))])"

definition count_review :: "string \<Rightarrow> run_state \<Rightarrow> run_state" where
  "count_review fingerprint s =
     (if last_review_fingerprint s = Some fingerprint
      then s\<lparr>unchanged_review_streak := saturating_inc (unchanged_review_streak s)\<rparr>
      else s\<lparr>last_review_fingerprint := Some fingerprint, unchanged_review_streak := 1\<rparr>)"

text \<open>The state after a valid request for changes, by the limits on rounds and progress.\<close>

definition changes_outcome :: "libs \<Rightarrow> protocol_message \<Rightarrow> run_state \<Rightarrow> run_state" where
  "changes_outcome L m s =
     (let s1 = count_review (review_fingerprint L s (payload m)) s
      in if no_progress_rounds s1 \<le> unchanged_review_streak s1 then block ''NO_PROGRESS'' s1
         else if max_review_rounds s1 \<le> round s1 then block ''ROUND_LIMIT'' s1
         else
           (let s2 = s1\<lparr>round := round s1 + 1, result_approved_sha := None\<rparr>
            in if phase s2 = PlanReview then
                 s2\<lparr>last_plan_feedback := Some (payload m),
                    plan_revision := map_option (\<lambda>revision. revision + 1) (plan_revision s2),
                    plan_approved := False, plan_approval_payload := None,
                    next_action := RequestPrimaryPlan\<rparr>
               else
                 s2\<lparr>last_result_feedback := Some (payload m), phase := Integrate,
                    next_action := RequestPrimaryIntegration\<rparr>))"

definition apply_changes_required :: "libs \<Rightarrow> protocol_message \<Rightarrow> next_action run_op" where
  "apply_changes_required L m s =
     (if phase s \<notin> {PlanReview, ResultReview} then
        fail ''WRONG_PHASE'' ''CHANGES_REQUIRED is not valid in the current state phase'' s
      else
        attempt_in s (require_round m (round s)) (\<lambda>_.
        attempt_in s (require_plan_revision s m) (\<lambda>_.
        attempt_in s (if phase s = ResultReview then require_current_integration s m else Inr ()) (\<lambda>_.
        returning (changes_outcome L m s)))))"

definition apply_checked_message :: "libs \<Rightarrow> protocol_message \<Rightarrow> next_action run_op" where
  "apply_checked_message L m s =
     (case env_message_type (envelope m) of
        MContractReady \<Rightarrow> apply_contract L m s
      | MPlanReady \<Rightarrow> apply_plan L m s
      | MChangesRequired \<Rightarrow> apply_changes_required L m s
      | MApprovedPlan \<Rightarrow> apply_plan_approval m s
      | MIntegrationReady \<Rightarrow> apply_integration L m s
      | MApprovedResult \<Rightarrow> apply_result_approval m s
      | MBlocked \<Rightarrow>
          attempt_in s (verify_blocked_envelope s m) (\<lambda>_.
          returning (block (case env_reason_code (envelope m) of Some reason \<Rightarrow> reason
                            | None \<Rightarrow> ''INVALID_RESPONSE'') s)))"

definition apply_message :: "libs \<Rightarrow> protocol_message \<Rightarrow> next_action run_op" where
  "apply_message L message s =
     attempt_in s (require_running s) (\<lambda>_.
     attempt_in s (revalidate_message L message) (\<lambda>m.
     attempt_in s (verify_immutable_envelope s m) (\<lambda>_.
     apply_checked_message L m s)))"

end
