(* ===== verification/Run_Rules.thy ===== *)
theory Run_Rules
  imports Run_Operations
begin

text \<open>
  Rules for the operations of \<open>Run_Operations\<close>: what a successful operation has checked and the
  state it leaves, and that a failing operation leaves the state as it was.
\<close>

subsection \<open>Requirements\<close>

lemma require_running_Inr [outcome]: "require_running s = Inr u \<longleftrightarrow> status s = SRunning"
  by (simp add: require_running_def outcome)

lemma require_phase_Inr [outcome]: "require_phase s p = Inr u \<longleftrightarrow> phase s = p"
  by (simp add: require_phase_def outcome)

lemma require_round_Inr [outcome]: "require_round m r = Inr u \<longleftrightarrow> env_round (envelope m) = r"
  by (simp add: require_round_def outcome)

lemma require_plan_revision_Inr [outcome]:
  "require_plan_revision s m = Inr u \<longleftrightarrow> env_plan_revision (envelope m) = plan_revision s"
  by (simp add: require_plan_revision_def outcome)

lemma require_current_integration_Inr [outcome]:
  "require_current_integration s m = Inr u \<longleftrightarrow>
     env_integration_branch (envelope m) = integration_branch s
     \<and> env_integration_sha (envelope m) = integration_sha s"
  by (simp add: require_current_integration_def outcome)

lemma verify_immutable_envelope_Inr [outcome]:
  "verify_immutable_envelope s m = Inr u \<longleftrightarrow>
     env_run_id (envelope m) = rf_run_id (facts s)
     \<and> env_primary_sha (envelope m) = rf_primary_sha (facts s)
     \<and> env_reviewer_sha (envelope m) = rf_reviewer_sha (facts s)"
  by (simp add: verify_immutable_envelope_def outcome)

lemma verify_blocked_envelope_Inr [outcome]:
  "verify_blocked_envelope s m = Inr u \<longleftrightarrow>
     env_phase (envelope m) = message_phase_of (phase s)
     \<and> env_round (envelope m) = round s
     \<and> env_plan_revision (envelope m) = plan_revision s
     \<and> (if integration_sha s = None
        then env_integration_branch (envelope m) = None \<and> env_integration_sha (envelope m) = None
        else env_integration_branch (envelope m) = integration_branch s
             \<and> env_integration_sha (envelope m) = integration_sha s)"
  by (auto simp: verify_blocked_envelope_def outcome split: option.splits)

lemma validate_complete_test_evidence_Inr [outcome]:
  "validate_complete_test_evidence s ev = Inr u \<longleftrightarrow> evidence_complete (required_test_commands s) ev"
  by (simp add: validate_complete_test_evidence_def outcome)

lemma validate_test_evidence_Inr [outcome]:
  "validate_test_evidence s = Inr u \<longleftrightarrow>
     evidence_complete (required_test_commands s) (test_evidence s) \<and> \<not> some_failed (test_evidence s)"
  by (simp add: validate_test_evidence_def outcome)

lemma evidence_complete_nonempty: "evidence_complete cs ev \<Longrightarrow> ev \<noteq> [] \<and> cs \<noteq> []"
  by (auto simp: evidence_complete_def)

subsection \<open>Field updates that the invariants ignore\<close>

lemma freeze_test_commands_fields [simp]:
  "freeze_test_commands cs s = s\<lparr>required_test_commands := push_new (required_test_commands s) cs\<rparr>"
  by (simp add: freeze_test_commands_def)

subsection \<open>Operations without a message\<close>

lemma configure_integration_Inr:
  "configure_integration b cs s = (Inr u, s') \<longleftrightarrow>
     status s = SRunning \<and> phase s = Contract \<and> next_action s = RequestPrimaryContract
     \<and> target_integration_branch s = None \<and> \<not> blank b \<and> \<not> list_ex blank cs
     \<and> s' = s\<lparr>target_integration_branch := Some b,
              required_test_commands := push_new [] (map trim cs)\<rparr>"
  by (auto simp: configure_integration_def outcome)

lemma record_plan_Inr:
  "record_plan L p s = (Inr a, s') \<longleftrightarrow>
     status s = SRunning \<and> phase s = PlanReview \<and> is_object p \<and> a = RequestReviewerPlanVerdict
     \<and> (\<exists>commands. (if get p ''test_commands'' = None then commands = []
                   else string_array_field p ''test_commands'' = Inr commands)
          \<and> s' = s\<lparr>required_test_commands := push_new (required_test_commands s) commands,
                   current_plan_hash := Some (canonical_json_hash L p),
                   current_plan_payload := Some p,
                   next_action := RequestReviewerPlanVerdict\<rparr>)"
  by (auto simp: record_plan_def outcome)

lemma request_integration_Inr:
  "request_integration s = (Inr a, s') \<longleftrightarrow>
     status s = SRunning \<and> phase s = PlanReview \<and> plan_approved s \<and> a = RequestPrimaryIntegration
     \<and> s' = s\<lparr>phase := Integrate, next_action := RequestPrimaryIntegration\<rparr>"
  by (auto simp: request_integration_def outcome)

lemma pause_Inr:
  "pause r s = (Inr u, s') \<longleftrightarrow>
     status s \<in> {SRunning, SWaitingThread}
     \<and> s' = s\<lparr>status := SPausedUserAction, reason_code := Some r\<rparr>"
  by (auto simp: pause_def)

lemma wait_for_thread_Inr:
  "wait_for_thread s = (Inr u, s') \<longleftrightarrow> status s = SRunning \<and> s' = s\<lparr>status := SWaitingThread\<rparr>"
  by (auto simp: wait_for_thread_def outcome)

lemma thread_became_idle_Inr:
  "thread_became_idle s = (Inr u, s') \<longleftrightarrow> status s = SWaitingThread \<and> s' = s\<lparr>status := SRunning\<rparr>"
  by (auto simp: thread_became_idle_def)

lemma resume_Inr:
  "resume s = (Inr a, s') \<longleftrightarrow>
     status s = SPausedUserAction \<and> a = next_action s
     \<and> s' = s\<lparr>status := SRunning, reason_code := None, last_error := None\<rparr>"
  by (auto simp: resume_def)

lemma accept_after_revalidation_Inr:
  "accept_after_revalidation s = (Inr a, s') \<longleftrightarrow>
     status s = SRunning \<and> next_action s = RevalidateAndAccept
     \<and> result_approved_sha s = integration_sha s
     \<and> evidence_complete (required_test_commands s) (test_evidence s)
     \<and> \<not> some_failed (test_evidence s) \<and> a = Stop
     \<and> (\<exists>branch sha. integration_branch s = Some branch \<and> integration_sha s = Some sha
          \<and> s' = s\<lparr>status := SAccepted, phase := Accepted, reason_code := None, next_action := Stop,
                   accepted_result := Some (result_of s branch sha)\<rparr>)"
  by (auto simp: accept_after_revalidation_def outcome)

subsection \<open>Messages\<close>

lemma apply_contract_Inr:
  "apply_contract L m s = (Inr a, s') \<longleftrightarrow>
     phase s = Contract \<and> env_round (envelope m) = 1
     \<and> (\<exists>role contract tests.
          expected_contract_role (next_action s) = Some role
          \<and> check_contract_role (payload m) role = Inr ()
          \<and> get (payload m) ''contract'' = Some contract
          \<and> string_array_field contract ''tests'' = Inr tests
          \<and> (if next_action s = RequestPrimaryContract then
               a = RequestReviewerContract
               \<and> s' = s\<lparr>primary_contract_hash := Some (canonical_json_hash L contract),
                        primary_contract := Some contract,
                        required_test_commands := push_new (required_test_commands s) tests,
                        next_action := RequestReviewerContract\<rparr>
             else
               a = RequestPrimaryPlan
               \<and> s' = s\<lparr>reviewer_contract_hash := Some (canonical_json_hash L contract),
                        reviewer_contract := Some contract,
                        required_test_commands := push_new (required_test_commands s) tests,
                        phase := PlanReview, round := 1, plan_revision := Some 1,
                        next_action := RequestPrimaryPlan\<rparr>))"
  by (auto simp: apply_contract_def outcome)

lemma apply_plan_Inr:
  "apply_plan L m s = (Inr a, s') \<longleftrightarrow>
     phase s = PlanReview \<and> env_round (envelope m) = round s
     \<and> env_plan_revision (envelope m) = plan_revision s \<and> next_action s = RequestPrimaryPlan
     \<and> record_plan L (payload m) s = (Inr a, s')"
  by (auto simp: apply_plan_def outcome)

lemma apply_plan_approval_Inr:
  "apply_plan_approval m s = (Inr a, s') \<longleftrightarrow>
     status s = SRunning \<and> phase s = PlanReview \<and> env_round (envelope m) = round s
     \<and> env_plan_revision (envelope m) = plan_revision s
     \<and> (\<exists>h. current_plan_hash s = Some h \<and> get (payload m) ''approved_plan_hash'' = Some (JStr h))
     \<and> a = RequestPrimaryIntegration
     \<and> s' = s\<lparr>plan_approved := True, plan_approval_payload := Some (payload m),
              phase := Integrate, next_action := RequestPrimaryIntegration\<rparr>"
  by (auto simp: apply_plan_approval_def outcome request_integration_def)

lemma integration_created_Inr:
  "integration_created m branch sha s = (Inr a, s') \<longleftrightarrow>
     env_phase (envelope m) = MIntegrate
     \<and> (array_field (payload m) ''test_evidence'' = None \<or> array_field (payload m) ''test_evidence'' = Some [])
     \<and> integration_sha s \<noteq> Some sha \<and> a = RequestPrimaryVerification
     \<and> s' = s\<lparr>integration_branch := Some branch, integration_sha := Some sha,
              current_integration_payload := Some (payload m), test_evidence := [],
              verification_worktree := None, result_approved_sha := None, phase := Verify,
              round := (if integration_sha s = None then 1 else round s),
              last_review_fingerprint :=
                (if integration_sha s = None then None else last_review_fingerprint s),
              unchanged_review_streak :=
                (if integration_sha s = None then 0 else unchanged_review_streak s),
              next_action := RequestPrimaryVerification\<rparr>"
  by (auto simp: integration_created_def Let_def split: option.splits)

lemma integration_verified_Inr:
  "integration_verified L m s = (Inr a, s') \<longleftrightarrow>
     env_phase (envelope m) = MVerify
     \<and> env_integration_branch (envelope m) = integration_branch s
     \<and> env_integration_sha (envelope m) = integration_sha s
     \<and> (\<exists>ev. payload_test_evidence L (payload m) = Inr ev
          \<and> evidence_complete (required_test_commands s) ev
          \<and> s' = verification_outcome m ev s \<and> a = next_action s')"
  by (auto simp: integration_verified_def outcome)

lemma apply_integration_Inr:
  "apply_integration L m s = (Inr a, s') \<longleftrightarrow>
     phase s \<in> {Integrate, Verify} \<and> env_round (envelope m) = round s
     \<and> env_plan_revision (envelope m) = plan_revision s \<and> plan_approved s
     \<and> (\<exists>branch sha. env_integration_branch (envelope m) = Some branch
          \<and> env_integration_sha (envelope m) = Some sha
          \<and> (target_integration_branch s = None \<or> target_integration_branch s = Some branch)
          \<and> (if phase s = Integrate then integration_created m branch sha s = (Inr a, s')
             else integration_verified L m s = (Inr a, s')))"
  by (cases "target_integration_branch s") (auto simp: apply_integration_def outcome)

lemma apply_result_approval_Inr:
  "apply_result_approval m s = (Inr a, s') \<longleftrightarrow>
     phase s = ResultReview \<and> env_round (envelope m) = round s
     \<and> env_plan_revision (envelope m) = plan_revision s
     \<and> env_integration_branch (envelope m) = integration_branch s
     \<and> env_integration_sha (envelope m) = integration_sha s
     \<and> a = RevalidateAndAccept
     \<and> s' = s\<lparr>result_approved_sha := integration_sha s, next_action := RevalidateAndAccept\<rparr>"
  by (auto simp: apply_result_approval_def outcome)

lemma apply_changes_required_Inr:
  "apply_changes_required L m s = (Inr a, s') \<longleftrightarrow>
     phase s \<in> {PlanReview, ResultReview} \<and> env_round (envelope m) = round s
     \<and> env_plan_revision (envelope m) = plan_revision s
     \<and> (phase s = ResultReview \<longrightarrow>
          env_integration_branch (envelope m) = integration_branch s
          \<and> env_integration_sha (envelope m) = integration_sha s)
     \<and> s' = changes_outcome L m s \<and> a = next_action s'"
  by (auto simp: apply_changes_required_def outcome)

definition blocked_reason :: "protocol_message \<Rightarrow> string" where
  "blocked_reason m = (case env_reason_code (envelope m) of Some reason \<Rightarrow> reason
                       | None \<Rightarrow> ''INVALID_RESPONSE'')"

lemma apply_message_Inr:
  "apply_message L message s = (Inr a, s') \<longleftrightarrow>
     status s = SRunning \<and>
     (\<exists>m. revalidate_message L message = Inr m
        \<and> env_run_id (envelope m) = rf_run_id (facts s)
        \<and> env_primary_sha (envelope m) = rf_primary_sha (facts s)
        \<and> env_reviewer_sha (envelope m) = rf_reviewer_sha (facts s)
        \<and> apply_checked_message L m s = (Inr a, s'))"
  by (auto simp: apply_message_def outcome)

lemma apply_checked_blocked_Inr:
  "env_message_type (envelope m) = MBlocked \<Longrightarrow>
   apply_checked_message L m s = (Inr a, s') \<longleftrightarrow>
     verify_blocked_envelope s m = Inr () \<and> a = Stop \<and> s' = block (blocked_reason m) s"
  by (auto simp: apply_checked_message_def blocked_reason_def outcome block_def split: option.splits)

subsection \<open>Failures\<close>

lemma atomic_fail [kept_rules]: "atomic s (fail c d s)"
  by (simp add: fail_def)

lemma atomic_returning [kept_rules]: "atomic s (returning s')"
  by (simp add: returning_def)

lemma atomic_if [kept_rules]:
  "(b \<Longrightarrow> atomic s x) \<Longrightarrow> (\<not> b \<Longrightarrow> atomic s y) \<Longrightarrow> atomic s (if b then x else y)"
  by simp

lemma atomic_record_plan [kept_rules]: "atomic s (record_plan L p s)"
  unfolding record_plan_def by (intro kept_rules)

lemma atomic_request_integration_at [kept_rules]:
  "status s = SRunning \<Longrightarrow> phase s = PlanReview \<Longrightarrow> plan_approved s \<Longrightarrow> atomic t (request_integration s)"
  by (simp add: request_integration_def require_running_def require_phase_def ensure_def returning_def)

lemma atomic_apply_contract [kept_rules]: "atomic s (apply_contract L m s)"
  unfolding apply_contract_def by (intro kept_rules)

lemma atomic_apply_plan [kept_rules]: "atomic s (apply_plan L m s)"
  unfolding apply_plan_def by (intro kept_rules)

lemma atomic_apply_plan_approval:
  "status s = SRunning \<Longrightarrow> atomic s (apply_plan_approval m s)"
  unfolding apply_plan_approval_def by (intro kept_rules) (simp_all add: outcome)

lemma atomic_integration_created [kept_rules]: "atomic s (integration_created m b sha s)"
  unfolding integration_created_def Let_def by (intro kept_rules)

lemma atomic_integration_verified [kept_rules]: "atomic s (integration_verified L m s)"
  unfolding integration_verified_def by (intro kept_rules)

lemma atomic_apply_integration [kept_rules]: "atomic s (apply_integration L m s)"
  unfolding apply_integration_def by (intro kept_rules)

lemma atomic_apply_result_approval [kept_rules]: "atomic s (apply_result_approval m s)"
  unfolding apply_result_approval_def by (intro kept_rules)

lemma atomic_apply_changes_required [kept_rules]: "atomic s (apply_changes_required L m s)"
  unfolding apply_changes_required_def by (intro kept_rules)

lemma atomic_apply_checked_message:
  "status s = SRunning \<Longrightarrow> atomic s (apply_checked_message L m s)"
  unfolding apply_checked_message_def
  by (cases "env_message_type (envelope m)") (simp_all add: kept_rules atomic_apply_plan_approval)

lemma atomic_apply_message: "atomic s (apply_message L m s)"
  unfolding apply_message_def
  by (intro kept_rules atomic_apply_checked_message) (simp add: outcome)

end
