(* ===== verification/Run_Recovery.thy ===== *)
theory Run_Recovery
  imports Run_Rules
begin

text \<open>
  The recovery operations of \<open>RunState\<close>: the \<open>retry_blocked_...\<close> methods and
  \<open>recover_v025_verification_completion_collision\<close>. Each first checks, without changing anything,
  that the run is blocked for exactly one known reason and that nothing has happened since; then it
  reopens the run at one action and checks the reopened state. The check of an operation is
  \<open>check_...\<close>, its result the phase and the action at which the run is reopened; \<open>reopen\<close> is the
  common end. When the check of the reopened state fails, the state stays reopened, as in the code.
\<close>

definition reopened :: "phase \<times> next_action \<Rightarrow> run_state \<Rightarrow> run_state" where
  "reopened at s = s\<lparr>status := SRunning, phase := fst at, next_action := snd at,
     reason_code := None, last_error := None\<rparr>"

definition reopen :: "state_error + phase \<times> next_action \<Rightarrow> next_action run_op" where
  "reopen check s =
     attempt_in s check (\<lambda>at.
     attempt_in (reopened at s) (validate_persisted (reopened at s)) (\<lambda>_.
     returning (reopened at s)))"

abbreviation not_retryable :: "string \<Rightarrow> state_error" where
  "not_retryable t \<equiv> StateError ''NOT_RETRYABLE'' t"

text \<open>\<open>terminal_blocked s r\<close>: the run stopped in BLOCKED for reason \<open>r\<close>.\<close>

definition terminal_blocked :: "run_state \<Rightarrow> string \<Rightarrow> bool" where
  "terminal_blocked s reason \<longleftrightarrow>
     status s = SBlocked \<and> phase s = Blocked \<and> next_action s = Stop \<and> reason_code s = Some reason"

definition originating :: "run_state \<Rightarrow> string \<Rightarrow> state_error + run_diagnostic" where
  "originating s t = ok_or (incompatible_state t) (last_error s)"

definition frozen_plan_approved :: "run_state \<Rightarrow> bool" where
  "frozen_plan_approved s \<longleftrightarrow>
     plan_approved s \<and> current_plan_payload s \<noteq> None \<and> plan_approval_payload s \<noteq> None
     \<and> target_integration_branch s \<noteq> None"

definition integration_recorded :: "run_state \<Rightarrow> bool" where
  "integration_recorded s \<longleftrightarrow>
     integration_branch s \<noteq> None \<or> integration_sha s \<noteq> None \<or> current_integration_payload s \<noteq> None"

definition result_recorded :: "run_state \<Rightarrow> bool" where
  "result_recorded s \<longleftrightarrow>
     integration_recorded s \<or> verification_worktree s \<noteq> None \<or> test_evidence s \<noteq> []"

definition awaiting_verification :: "run_state \<Rightarrow> bool" where
  "awaiting_verification s \<longleftrightarrow>
     plan_approved s \<and> integration_branch s \<noteq> None \<and> integration_sha s \<noteq> None
     \<and> current_integration_payload s \<noteq> None \<and> verification_worktree s \<noteq> None
     \<and> required_test_commands s \<noteq> [] \<and> test_evidence s = [] \<and> accepted_result s = None"

definition unaccepted_verified_integration :: "run_state \<Rightarrow> bool" where
  "unaccepted_verified_integration s \<longleftrightarrow>
     frozen_plan_approved s \<and> integration_branch s \<noteq> None \<and> integration_sha s \<noteq> None
     \<and> current_integration_payload s \<noteq> None \<and> verification_worktree s \<noteq> None
     \<and> required_test_commands s \<noteq> [] \<and> test_evidence s \<noteq> [] \<and> accepted_result s = None
     \<and> result_approved_sha s = None \<and> 1 < round s
     \<and> integration_branch s = target_integration_branch s"

definition primary_integration_diagnostic :: "run_state \<Rightarrow> string \<Rightarrow> run_diagnostic \<Rightarrow> bool" where
  "primary_integration_diagnostic s code d \<longleftrightarrow>
     rd_code d = code \<and> rd_action d = RequestPrimaryIntegration \<and> rd_role d = Some Primary
     \<and> diagnostic_matches_primary (facts s) d"

subsection \<open>Before integration\<close>

definition declaration_phase :: "next_action \<Rightarrow> phase option" where
  "declaration_phase a =
     (case a of RequestPrimaryContract \<Rightarrow> Some Contract | RequestReviewerContract \<Rightarrow> Some Contract
      | RequestPrimaryPlan \<Rightarrow> Some PlanReview | _ \<Rightarrow> None)"

definition check_invalid_test_command :: "run_state \<Rightarrow> state_error + phase \<times> next_action" where
  "check_invalid_test_command s =
     attempt (ensure (status s = SBlocked \<and> reason_code s = Some ''INVALID_TEST_COMMAND'')
                (not_retryable ''only a legacy INVALID_TEST_COMMAND blocked run can be retried'')) (\<lambda>_.
     attempt (originating s ''blocked invalid-test state has no originating diagnostic'') (\<lambda>d.
     attempt (ensure (rd_code d = ''INVALID_TEST_COMMAND'')
                (incompatible_state ''blocked invalid-test reason does not match its diagnostic'')) (\<lambda>_.
     attempt (ok_or (not_retryable ''invalid test-command recovery is limited to pre-integration declaration turns'')
                (declaration_phase (rd_action d))) (\<lambda>ph.
     attempt (ensure (\<not> integration_recorded s)
                (not_retryable ''invalid test-command recovery cannot rewrite a run after integration begins'')) (\<lambda>_.
     Inr (ph, rd_action d))))))"

definition retry_blocked_invalid_test_command :: "next_action run_op" where
  "retry_blocked_invalid_test_command s = reopen (check_invalid_test_command s) s"

definition preintegration_phase :: "next_action \<Rightarrow> phase option" where
  "preintegration_phase a =
     (case a of RequestPrimaryContract \<Rightarrow> Some Contract | RequestReviewerContract \<Rightarrow> Some Contract
      | RequestPrimaryPlan \<Rightarrow> Some PlanReview | RequestReviewerPlanVerdict \<Rightarrow> Some PlanReview | _ \<Rightarrow> None)"

definition check_preintegration_invalid_response :: "run_state \<Rightarrow> state_error + phase \<times> next_action" where
  "check_preintegration_invalid_response s =
     attempt (ensure (status s = SBlocked \<and> reason_code s = Some ''INVALID_RESPONSE'')
                (not_retryable ''only a pre-integration INVALID_RESPONSE blocked run can be retried'')) (\<lambda>_.
     attempt (originating s ''blocked invalid-response state has no originating diagnostic'') (\<lambda>d.
     attempt (ensure (rd_code d = ''INVALID_RESPONSE'')
                (incompatible_state ''blocked invalid-response reason does not match its diagnostic'')) (\<lambda>_.
     attempt (ok_or (not_retryable ''invalid-response recovery is limited to pre-integration read-only turns'')
                (preintegration_phase (rd_action d))) (\<lambda>ph.
     attempt (ensure (\<not> integration_recorded s)
                (not_retryable ''invalid-response recovery cannot rewrite a run after integration begins'')) (\<lambda>_.
     Inr (ph, rd_action d))))))"

definition retry_blocked_preintegration_invalid_response :: "next_action run_op" where
  "retry_blocked_preintegration_invalid_response s = reopen (check_preintegration_invalid_response s) s"

subsection \<open>The first integration turn\<close>

definition check_integration_invalid_response :: "run_state \<Rightarrow> state_error + phase \<times> next_action" where
  "check_integration_invalid_response s =
     attempt (ensure (terminal_blocked s ''INVALID_RESPONSE'')
                (not_retryable ''only a terminal INVALID_RESPONSE integration result can be retried'')) (\<lambda>_.
     attempt (originating s ''integration invalid-response recovery requires its originating diagnostic'') (\<lambda>d.
     attempt (ensure (primary_integration_diagnostic s ''INVALID_RESPONSE'' d)
                (not_retryable ''invalid-response recovery is limited to the bound primary integration turn'')) (\<lambda>_.
     attempt (ensure (frozen_plan_approved s)
                (incompatible_state ''integration invalid-response recovery requires an approved frozen plan'')) (\<lambda>_.
     attempt (ensure (\<not> result_recorded s)
                (not_retryable ''integration invalid-response recovery cannot replace an accepted result'')) (\<lambda>_.
     Inr (Integrate, RequestPrimaryIntegration))))))"

definition retry_blocked_integration_invalid_response :: "next_action run_op" where
  "retry_blocked_integration_invalid_response s = reopen (check_integration_invalid_response s) s"

definition check_completed_integration_forbidden_operation ::
  "run_state \<Rightarrow> state_error + phase \<times> next_action" where
  "check_completed_integration_forbidden_operation s =
     attempt (ensure (terminal_blocked s ''FORBIDDEN_OPERATION'')
                (not_retryable ''only a terminal completed-integration FORBIDDEN_OPERATION can be retried'')) (\<lambda>_.
     attempt (originating s ''completed-integration forbidden recovery requires its originating diagnostic'') (\<lambda>d.
     attempt (ensure (primary_integration_diagnostic s ''FORBIDDEN_OPERATION'' d
                      \<and> completed_integration_command_audit_detail (rd_detail d))
                (not_retryable ''completed-integration forbidden recovery is limited to the bound command audit'')) (\<lambda>_.
     attempt (ensure (frozen_plan_approved s)
                (incompatible_state ''completed-integration forbidden recovery requires an approved frozen plan'')) (\<lambda>_.
     attempt (ensure (\<not> (result_recorded s \<or> accepted_result s \<noteq> None))
                (not_retryable ''completed-integration forbidden recovery cannot replace an accepted result'')) (\<lambda>_.
     Inr (Integrate, RequestPrimaryIntegration))))))"

definition retry_blocked_completed_integration_forbidden_operation :: "next_action run_op" where
  "retry_blocked_completed_integration_forbidden_operation s =
     reopen (check_completed_integration_forbidden_operation s) s"

definition unsent_recreation_diagnostic :: "run_state \<Rightarrow> run_diagnostic \<Rightarrow> bool" where
  "unsent_recreation_diagnostic s d \<longleftrightarrow>
     rd_code d = ''HISTORY_UNAVAILABLE''
     \<and> rd_detail d = ''Source Primary before safe mirror recreation is not idle''
     \<and> rd_operation d = None
     \<and> rd_action d = RequestPrimaryIntegration
     \<and> rd_role d = Some Primary
     \<and> diagnostic_matches_primary (facts s) d
     \<and> rd_thread_id d \<noteq> Some (rf_primary_thread_id (facts s))
     \<and> rd_thread_id d \<noteq> Some (rf_reviewer_thread_id (facts s))
     \<and> rd_participant_binding_mode d = Some ''EPHEMERAL_FORK''
     \<and> rd_participant_server d = Some ''worktreeMergeConsensusParticipant''"

definition check_unsent_ephemeral_source_recreation ::
  "run_state \<Rightarrow> state_error + phase \<times> next_action" where
  "check_unsent_ephemeral_source_recreation s =
     attempt (ensure (terminal_blocked s ''HISTORY_UNAVAILABLE'')
                (not_retryable ''only the terminal unsent ephemeral Source recreation blocker can be retried'')) (\<lambda>_.
     attempt (originating s ''ephemeral Source recreation recovery requires its originating diagnostic'') (\<lambda>d.
     attempt (ensure (unsent_recreation_diagnostic s d)
                (not_retryable ''ephemeral Source recreation recovery is limited to the exact bound Primary mirror'')) (\<lambda>_.
     attempt (ensure (frozen_plan_approved s)
                (incompatible_state ''ephemeral Source recreation recovery requires an approved frozen plan'')) (\<lambda>_.
     attempt (ensure (\<not> (result_recorded s \<or> accepted_result s \<noteq> None))
                (not_retryable ''ephemeral Source recreation recovery cannot replace an accepted result'')) (\<lambda>_.
     Inr (Integrate, RequestPrimaryIntegration))))))"

definition retry_blocked_unsent_ephemeral_source_recreation :: "next_action run_op" where
  "retry_blocked_unsent_ephemeral_source_recreation s =
     reopen (check_unsent_ephemeral_source_recreation s) s"

definition check_integration_execution_tool_unavailable ::
  "run_state \<Rightarrow> state_error + phase \<times> next_action" where
  "check_integration_execution_tool_unavailable s =
     attempt (ensure (terminal_blocked s ''EXECUTION_TOOL_UNAVAILABLE'')
                (not_retryable ''only a terminal EXECUTION_TOOL_UNAVAILABLE integration blocker can be retried'')) (\<lambda>_.
     attempt (ensure (frozen_plan_approved s)
                (incompatible_state ''execution-tool recovery requires an approved frozen integration plan'')) (\<lambda>_.
     attempt (ensure (\<not> result_recorded s)
                (not_retryable ''execution-tool recovery is limited to a side-effect-free pre-integration blocker'')) (\<lambda>_.
     Inr (Integrate, RequestPrimaryIntegration))))"

definition retry_blocked_integration_execution_tool_unavailable :: "next_action run_op" where
  "retry_blocked_integration_execution_tool_unavailable s =
     reopen (check_integration_execution_tool_unavailable s) s"

definition check_preintegration_forbidden_operation ::
  "run_state \<Rightarrow> state_error + phase \<times> next_action" where
  "check_preintegration_forbidden_operation s =
     attempt (ensure (terminal_blocked s ''FORBIDDEN_OPERATION'')
                (not_retryable ''only a terminal pre-integration FORBIDDEN_OPERATION can be retried'')) (\<lambda>_.
     attempt (originating s ''forbidden-operation recovery requires its originating diagnostic'') (\<lambda>d.
     attempt (ensure (primary_integration_diagnostic s ''FORBIDDEN_OPERATION'' d)
                (not_retryable ''forbidden-operation recovery is limited to the bound primary integration turn'')) (\<lambda>_.
     attempt (ensure (frozen_plan_approved s)
                (incompatible_state ''forbidden-operation recovery requires an approved frozen integration plan'')) (\<lambda>_.
     attempt (ensure (\<not> result_recorded s)
                (not_retryable ''forbidden-operation recovery is limited to a side-effect-free first integration turn'')) (\<lambda>_.
     Inr (Integrate, RequestPrimaryIntegration))))))"

definition retry_blocked_preintegration_forbidden_operation :: "next_action run_op" where
  "retry_blocked_preintegration_forbidden_operation s = reopen (check_preintegration_forbidden_operation s) s"

subsection \<open>Verification\<close>

definition check_verification_without_execution :: "run_state \<Rightarrow> state_error + phase \<times> next_action" where
  "check_verification_without_execution s =
     attempt (ensure (terminal_blocked s ''TEST_FAILURE'')
                (not_retryable ''only a terminal TEST_FAILURE verification turn can be retried'')) (\<lambda>_.
     attempt (originating s ''verification retry requires its originating diagnostic'') (\<lambda>d.
     attempt (ensure (rd_code d = ''TEST_FAILURE'' \<and> rd_action d = RequestPrimaryVerification
                      \<and> rd_role d = Some Primary \<and> diagnostic_matches_primary (facts s) d
                      \<and> rd_detail d = ''verification must execute each frozen command exactly once and no other command'')
                (not_retryable ''verification retry is limited to the bound turn that executed no test commands'')) (\<lambda>_.
     attempt (ensure (awaiting_verification s)
                (not_retryable ''verification retry requires an unchanged unaccepted integration result'')) (\<lambda>_.
     Inr (Verify, RequestPrimaryVerification)))))"

definition retry_blocked_verification_without_execution :: "next_action run_op" where
  "retry_blocked_verification_without_execution s = reopen (check_verification_without_execution s) s"

definition check_v025_verification_completion_collision ::
  "run_state \<Rightarrow> state_error + phase \<times> next_action" where
  "check_v025_verification_completion_collision s =
     attempt (ensure (terminal_blocked s ''DATABASE_ERROR'')
                (not_retryable ''only the v0.2.5 verification completion collision can be recovered'')) (\<lambda>_.
     attempt (originating s ''verification completion collision recovery requires its originating diagnostic'') (\<lambda>d.
     attempt (ensure (rd_code d = ''DATABASE_ERROR''
                      \<and> rd_detail d = ''database error: UNIQUE constraint failed: turn_event_completions.turn_record_id''
                      \<and> rd_operation d = None \<and> rd_action d = RequestPrimaryVerification
                      \<and> rd_role d = Some Primary \<and> diagnostic_matches_primary (facts s) d)
                (not_retryable ''database-error recovery is limited to the exact bound v0.2.5 completion collision'')) (\<lambda>_.
     attempt (ensure (awaiting_verification s)
                (not_retryable ''completion collision recovery requires an unchanged unaccepted integration result'')) (\<lambda>_.
     Inr (Verify, RequestPrimaryVerification)))))"

definition recover_v025_verification_completion_collision :: "next_action run_op" where
  "recover_v025_verification_completion_collision s =
     reopen (check_v025_verification_completion_collision s) s"

definition check_verification_environment_unavailable ::
  "run_state \<Rightarrow> state_error + phase \<times> next_action" where
  "check_verification_environment_unavailable s =
     attempt (ensure (terminal_blocked s ''CARGO_UNAVAILABLE'')
                (not_retryable ''only a terminal CARGO_UNAVAILABLE verification turn can be retried'')) (\<lambda>_.
     attempt (ensure (awaiting_verification s)
                (not_retryable ''verification environment recovery requires an unchanged unaccepted integration result'')) (\<lambda>_.
     Inr (Verify, RequestPrimaryVerification)))"

definition retry_blocked_verification_environment_unavailable :: "next_action run_op" where
  "retry_blocked_verification_environment_unavailable s =
     reopen (check_verification_environment_unavailable s) s"

subsection \<open>After verification\<close>

definition reviewer_lifecycle_diagnostic :: "run_state \<Rightarrow> run_diagnostic \<Rightarrow> bool" where
  "reviewer_lifecycle_diagnostic s d \<longleftrightarrow>
     rd_code d = ''INCOMPATIBLE_STATE'' \<and> rd_action d = RequestReviewerResultVerdict
     \<and> rd_role d = Some Reviewer \<and> rd_thread_id d = Some (rf_reviewer_thread_id (facts s))"

definition check_reviewer_reasoning_lifecycle_compatibility ::
  "run_state \<Rightarrow> state_error + phase \<times> next_action" where
  "check_reviewer_reasoning_lifecycle_compatibility s =
     attempt (ensure (terminal_blocked s ''INCOMPATIBLE_STATE'')
                (not_retryable ''only the terminal Reviewer reasoning-lifecycle compatibility blocker can be retried'')) (\<lambda>_.
     attempt (originating s ''Reviewer reasoning-lifecycle recovery requires its originating diagnostic'') (\<lambda>d.
     attempt (ensure (reviewer_lifecycle_diagnostic s d)
                (not_retryable ''Reviewer reasoning-lifecycle recovery is limited to the bound final-verdict turn'')) (\<lambda>_.
     attempt (ensure (prefix ''INCOMPATIBLE_STATE: turn '' (rd_detail d)
                      \<and> suffix '' completed before all item lifecycle events were persisted'' (rd_detail d))
                (not_retryable ''Reviewer reasoning-lifecycle recovery diagnostic does not match the compatibility blocker'')) (\<lambda>_.
     attempt (ensure (plan_approved s \<and> integration_branch s \<noteq> None \<and> integration_sha s \<noteq> None
                      \<and> current_integration_payload s \<noteq> None \<and> verification_worktree s \<noteq> None
                      \<and> test_evidence s \<noteq> [] \<and> accepted_result s = None \<and> result_approved_sha s = None)
                (not_retryable ''Reviewer reasoning-lifecycle recovery requires an unchanged, verified, unaccepted integration result'')) (\<lambda>_.
     attempt (validate_test_evidence s) (\<lambda>_.
     Inr (ResultReview, RequestReviewerResultVerdict)))))))"

definition retry_blocked_reviewer_reasoning_lifecycle_compatibility :: "next_action run_op" where
  "retry_blocked_reviewer_reasoning_lifecycle_compatibility s =
     reopen (check_reviewer_reasoning_lifecycle_compatibility s) s"

text \<open>\<open>payload_evidence != self.test_evidence\<close>, and the working directory of every entry.\<close>

definition same_evidence :: "test_evidence list \<Rightarrow> test_evidence list \<Rightarrow> bool" where
  "same_evidence xs ys \<longleftrightarrow> list_all2 evidence_eq xs ys"

definition evidence_elsewhere :: "run_state \<Rightarrow> string \<Rightarrow> bool" where
  "evidence_elsewhere s worktree \<longleftrightarrow> list_ex (\<lambda>e. \<not> path_eq (te_cwd e) worktree) (test_evidence s)"

definition machine_feedback_matches :: "libs \<Rightarrow> json \<Rightarrow> json \<Rightarrow> json \<Rightarrow> bool" where
  "machine_feedback_matches L feedback summary failures \<longleftrightarrow>
     str_field feedback ''format'' = Some ''machine_verification''
     \<and> str_field feedback ''summary'' = Some MACHINE_VERIFICATION_SUMMARY
     \<and> get feedback ''verification_summary'' = Some summary
     \<and> field_satisfies (\<lambda>v. canonical_json_hash L v = canonical_json_hash L failures) feedback ''failed_tests''"

definition check_corrective_patch_tool_unavailable ::
  "libs \<Rightarrow> run_state \<Rightarrow> state_error + phase \<times> next_action" where
  "check_corrective_patch_tool_unavailable L s =
     attempt (ensure (terminal_blocked s ''CONTROLLED_PATCH_TOOL_UNAVAILABLE'' \<and> last_error s = None)
                (not_retryable ''only the exact terminal corrective controlled-patch blocker can be retried'')) (\<lambda>_.
     attempt (ensure (unaccepted_verified_integration s)
                (not_retryable ''corrective controlled-patch recovery requires an unaccepted post-verification integration'')) (\<lambda>_.
     attempt (map_err (\<lambda>_. not_retryable ''corrective controlled-patch recovery requires complete frozen test evidence'')
                (validate_complete_test_evidence s (test_evidence s))) (\<lambda>_.
     attempt (ok_or (not_retryable ''corrective controlled-patch recovery requires a persisted verification worktree'')
                (verification_worktree s)) (\<lambda>worktree.
     attempt (ensure (\<not> evidence_elsewhere s worktree)
                (not_retryable ''corrective controlled-patch recovery evidence must come from the persisted verification worktree'')) (\<lambda>_.
     attempt (ensure (some_failed (test_evidence s))
                (not_retryable ''corrective controlled-patch recovery requires at least one failed frozen test'')) (\<lambda>_.
     attempt (ok_or (not_retryable ''corrective controlled-patch recovery requires retained integration evidence'')
                (current_integration_payload s)) (\<lambda>p.
     attempt (map_err (\<lambda>_. not_retryable ''corrective controlled-patch recovery requires matching persisted test evidence'')
                (payload_test_evidence L p)) (\<lambda>ev.
     attempt (ensure (same_evidence ev (test_evidence s))
                (not_retryable ''corrective controlled-patch recovery test evidence fields disagree'')) (\<lambda>_.
     attempt (ok_or (not_retryable ''corrective controlled-patch recovery requires canonical production verification failures'')
                (Option.bind (get p ''verification_failures'')
                   (\<lambda>v. canonical_verification_failures L v (test_evidence s)))) (\<lambda>failures.
     attempt (ok_or (not_retryable ''corrective controlled-patch recovery requires the production verification summary'')
                (case get p ''verification_summary'' of
                   Some v \<Rightarrow> if is_string v then Some v else None | None \<Rightarrow> None)) (\<lambda>summary.
     attempt (ok_or (not_retryable ''corrective controlled-patch recovery requires machine verification feedback'')
                (last_result_feedback s)) (\<lambda>feedback.
     attempt (ensure (machine_feedback_matches L feedback summary failures)
                (not_retryable ''corrective controlled-patch recovery requires matching machine failure diagnostics'')) (\<lambda>_.
     Inr (Integrate, RequestPrimaryIntegration))))))))))))))"

definition retry_blocked_corrective_patch_tool_unavailable :: "libs \<Rightarrow> next_action run_op" where
  "retry_blocked_corrective_patch_tool_unavailable L s =
     reopen (check_corrective_patch_tool_unavailable L s) s"

definition reviewer_feedback_present :: "json \<Rightarrow> bool" where
  "reviewer_feedback_present feedback \<longleftrightarrow>
     (case as_object feedback of Some es \<Rightarrow> es \<noteq> [] | None \<Rightarrow> False)
     \<and> str_field feedback ''format'' \<noteq> Some ''machine_verification''
     \<and> \<not> (str_field feedback ''format'' = Some ''markdown''
           \<and> (case str_field feedback ''feedback'' of Some t \<Rightarrow> blank t | None \<Rightarrow> True))"

definition check_result_review_patch_not_authorized ::
  "libs \<Rightarrow> run_state \<Rightarrow> state_error + phase \<times> next_action" where
  "check_result_review_patch_not_authorized L s =
     attempt (ensure (terminal_blocked s ''PATCH_NOT_AUTHORIZED'' \<and> last_error s = None)
                (not_retryable ''only the exact terminal result-review controlled-patch rejection can be retried'')) (\<lambda>_.
     attempt (ensure (unaccepted_verified_integration s)
                (not_retryable ''result-review controlled-patch recovery requires an unaccepted verified integration'')) (\<lambda>_.
     attempt (map_err (\<lambda>_. not_retryable ''result-review controlled-patch recovery requires complete frozen test evidence'')
                (validate_complete_test_evidence s (test_evidence s))) (\<lambda>_.
     attempt (ensure (\<not> some_failed (test_evidence s))
                (not_retryable ''result-review controlled-patch recovery requires the previously verified result'')) (\<lambda>_.
     attempt (ok_or (not_retryable ''result-review controlled-patch recovery requires a persisted verification worktree'')
                (verification_worktree s)) (\<lambda>worktree.
     attempt (ensure (\<not> evidence_elsewhere s worktree)
                (not_retryable ''result-review controlled-patch recovery evidence must come from the persisted verification worktree'')) (\<lambda>_.
     attempt (ok_or (not_retryable ''result-review controlled-patch recovery requires retained integration evidence'')
                (current_integration_payload s)) (\<lambda>p.
     attempt (map_err (\<lambda>_. not_retryable ''result-review controlled-patch recovery requires matching persisted test evidence'')
                (payload_test_evidence L p)) (\<lambda>ev.
     attempt (ensure (same_evidence ev (test_evidence s))
                (not_retryable ''result-review controlled-patch recovery test evidence fields disagree'')) (\<lambda>_.
     attempt (ok_or (not_retryable ''result-review controlled-patch recovery requires retained Reviewer feedback'')
                (last_result_feedback s)) (\<lambda>feedback.
     attempt (ensure (reviewer_feedback_present feedback)
                (not_retryable ''result-review controlled-patch recovery requires nonempty Reviewer feedback distinct from machine verification'')) (\<lambda>_.
     Inr (Integrate, RequestPrimaryIntegration))))))))))))"

definition retry_blocked_result_review_patch_not_authorized :: "libs \<Rightarrow> next_action run_op" where
  "retry_blocked_result_review_patch_not_authorized L s =
     reopen (check_result_review_patch_not_authorized L s) s"

subsection \<open>The contract of a recovery\<close>

text \<open>
  What every recovery promises about the place where it reopens the run: only a blocked run is
  reopened, the action fits the phase, a run goes back before the integration only if none is
  recorded, and after it only if one is.
\<close>

definition before_integration :: "(phase \<times> next_action) list" where
  "before_integration =
     [(Contract, RequestPrimaryContract), (Contract, RequestReviewerContract),
      (PlanReview, RequestPrimaryPlan), (PlanReview, RequestReviewerPlanVerdict)]"

definition recovery_place :: "run_state \<Rightarrow> phase \<times> next_action \<Rightarrow> bool" where
  "recovery_place s at \<longleftrightarrow>
     at \<in> set before_integration \<and> \<not> integration_recorded s
     \<or> at = (Integrate, RequestPrimaryIntegration) \<and> plan_approved s \<and> current_plan_payload s \<noteq> None
       \<and> (\<not> result_recorded s \<or> unaccepted_verified_integration s)
     \<or> at = (Verify, RequestPrimaryVerification) \<and> awaiting_verification s
     \<or> at = (ResultReview, RequestReviewerResultVerdict) \<and> plan_approved s
       \<and> integration_branch s \<noteq> None \<and> integration_sha s \<noteq> None
       \<and> current_integration_payload s \<noteq> None \<and> accepted_result s = None
       \<and> evidence_complete (required_test_commands s) (test_evidence s)
       \<and> \<not> some_failed (test_evidence s)"

locale recovery =
  fixes check :: "run_state \<Rightarrow> state_error + phase \<times> next_action"
  assumes only_blocked: "check s = Inr at \<Longrightarrow> status s = SBlocked"
    and places: "check s = Inr at \<Longrightarrow> recovery_place s at"
begin

lemma reopen_cases:
  assumes "reopen (check s) s = (r, s')"
  obtains (refused) e where "check s = Inl e" "r = Inl e" "s' = s"
    | (reopened) at where "check s = Inr at" "s' = reopened at s"
        "r = attempt (validate_persisted s') (\<lambda>_. Inr (snd at))"
  using assms
  by (cases "check s"; cases "validate_persisted (reopened (projr (check s)) s)")
     (auto simp: reopen_def returning_def reopened_def)

lemma success:
  assumes "reopen (check s) s = (Inr a, s')"
  obtains at where "check s = Inr at" "s' = reopened at s" "a = snd at" "validate_persisted s' = Inr ()"
  using assms by (auto simp: reopen_def outcome reopened_def)

text \<open>A recovery reopens a blocked run as running and changes nothing of what the run has agreed
  on: the frozen facts, the counters, the contracts, the plan and the integration.\<close>

lemma agreement_kept:
  assumes "reopen (check s) s = (r, s')"
  shows "facts s' = facts s" "round s' = round s" "plan_revision s' = plan_revision s"
    "integration_branch s' = integration_branch s" "integration_sha s' = integration_sha s"
    "test_evidence s' = test_evidence s" "required_test_commands s' = required_test_commands s"
    "plan_approved s' = plan_approved s" "current_plan_hash s' = current_plan_hash s"
    "result_approved_sha s' = result_approved_sha s" "accepted_result s' = accepted_result s"
    "unchanged_review_streak s' = unchanged_review_streak s"
  using assms by (auto elim!: reopen_cases simp: reopened_def)

lemma never_accepts: "reopen (check s) s = (r, s') \<Longrightarrow> status s' = SAccepted \<longleftrightarrow> status s = SAccepted"
  by (erule reopen_cases) (auto simp: reopened_def dest: only_blocked)

lemma not_blocked_refused: "status s \<noteq> SBlocked \<Longrightarrow> \<exists>e. reopen (check s) s = (Inl e, s)"
  using only_blocked by (cases "check s") (auto simp: reopen_def)

end

lemma originating_Inr [outcome]: "originating s t = Inr d \<longleftrightarrow> last_error s = Some d"
  by (simp add: originating_def outcome)

subsection \<open>Every recovery keeps the contract\<close>

lemma declaration_phase_place:
  "declaration_phase a = Some ph \<Longrightarrow> (ph, a) \<in> set before_integration"
  by (cases a) (auto simp: declaration_phase_def before_integration_def)

lemma preintegration_phase_place:
  "preintegration_phase a = Some ph \<Longrightarrow> (ph, a) \<in> set before_integration"
  by (cases a) (auto simp: preintegration_phase_def before_integration_def)

lemma place_before:
  "at \<in> set before_integration \<Longrightarrow> \<not> integration_recorded s \<Longrightarrow> recovery_place s at"
  by (simp add: recovery_place_def)

lemma place_first_integration:
  "frozen_plan_approved s \<Longrightarrow> \<not> result_recorded s \<Longrightarrow> recovery_place s (Integrate, RequestPrimaryIntegration)"
  by (simp add: recovery_place_def frozen_plan_approved_def)

lemma place_corrective_integration:
  "unaccepted_verified_integration s \<Longrightarrow> recovery_place s (Integrate, RequestPrimaryIntegration)"
  by (simp add: recovery_place_def unaccepted_verified_integration_def frozen_plan_approved_def)

lemma place_verification:
  "awaiting_verification s \<Longrightarrow> recovery_place s (Verify, RequestPrimaryVerification)"
  by (simp add: recovery_place_def)

interpretation invalid_test_command: recovery check_invalid_test_command
  by unfold_locales (clarsimp simp: check_invalid_test_command_def outcome terminal_blocked_def declaration_phase_place place_before)+

interpretation preintegration_invalid_response: recovery check_preintegration_invalid_response
  by unfold_locales (clarsimp simp: check_preintegration_invalid_response_def outcome terminal_blocked_def preintegration_phase_place place_before)+

interpretation integration_invalid_response: recovery check_integration_invalid_response
  by unfold_locales (clarsimp simp: check_integration_invalid_response_def outcome terminal_blocked_def place_first_integration)+

interpretation completed_integration: recovery check_completed_integration_forbidden_operation
  by unfold_locales (clarsimp simp: check_completed_integration_forbidden_operation_def outcome terminal_blocked_def place_first_integration)+

interpretation unsent_recreation: recovery check_unsent_ephemeral_source_recreation
  by unfold_locales (clarsimp simp: check_unsent_ephemeral_source_recreation_def outcome terminal_blocked_def place_first_integration)+

interpretation execution_tool: recovery check_integration_execution_tool_unavailable
  by unfold_locales (clarsimp simp: check_integration_execution_tool_unavailable_def outcome terminal_blocked_def place_first_integration)+

interpretation forbidden_operation: recovery check_preintegration_forbidden_operation
  by unfold_locales (clarsimp simp: check_preintegration_forbidden_operation_def outcome terminal_blocked_def place_first_integration)+

interpretation without_execution: recovery check_verification_without_execution
  by unfold_locales (clarsimp simp: check_verification_without_execution_def outcome terminal_blocked_def place_verification)+

interpretation completion_collision: recovery check_v025_verification_completion_collision
  by unfold_locales (clarsimp simp: check_v025_verification_completion_collision_def outcome terminal_blocked_def place_verification)+

interpretation environment_unavailable: recovery check_verification_environment_unavailable
  by unfold_locales (clarsimp simp: check_verification_environment_unavailable_def outcome terminal_blocked_def place_verification)+

interpretation reviewer_lifecycle: recovery check_reviewer_reasoning_lifecycle_compatibility
  by unfold_locales (clarsimp simp: check_reviewer_reasoning_lifecycle_compatibility_def outcome terminal_blocked_def recovery_place_def)+

interpretation corrective_patch: recovery "check_corrective_patch_tool_unavailable L" for L
  by unfold_locales (clarsimp simp: check_corrective_patch_tool_unavailable_def outcome terminal_blocked_def place_corrective_integration)+

interpretation review_patch: recovery "check_result_review_patch_not_authorized L" for L
  by unfold_locales (clarsimp simp: check_result_review_patch_not_authorized_def outcome terminal_blocked_def place_corrective_integration)+

end
