(* ===== verification/Run_Machine.thy ===== *)
theory Run_Machine
  imports Run_Recovery
begin

text \<open>
  The life of a persisted run: which operations of \<open>RunState\<close> the daemon performs on the stored state
  (\<open>crates/daemon/src/coordinator.rs\<close>), each loading the state, changing it and saving it, where a
  save checks the state first (\<open>serialize_state\<close> of \<open>crates/daemon/src/store.rs\<close>). A run is a list
  of inputs applied to \<open>new_run\<close>; an input that fails leaves the stored state as it was. The locale
  \<open>run_invariant\<close> carries every proof about all runs.
\<close>

datatype recovery =
    InvalidTestCommand
  | PreintegrationInvalidResponse
  | IntegrationInvalidResponse
  | CompletedIntegrationForbiddenOperation
  | UnsentEphemeralSourceRecreation
  | IntegrationExecutionToolUnavailable
  | PreintegrationForbiddenOperation
  | VerificationWithoutExecution
  | V025VerificationCompletionCollision
  | VerificationEnvironmentUnavailable
  | ReviewerReasoningLifecycleCompatibility
  | CorrectivePatchToolUnavailable
  | ResultReviewPatchNotAuthorized

fun recover :: "libs \<Rightarrow> recovery \<Rightarrow> next_action run_op" where
  "recover L InvalidTestCommand = retry_blocked_invalid_test_command"
| "recover L PreintegrationInvalidResponse = retry_blocked_preintegration_invalid_response"
| "recover L IntegrationInvalidResponse = retry_blocked_integration_invalid_response"
| "recover L CompletedIntegrationForbiddenOperation = retry_blocked_completed_integration_forbidden_operation"
| "recover L UnsentEphemeralSourceRecreation = retry_blocked_unsent_ephemeral_source_recreation"
| "recover L IntegrationExecutionToolUnavailable = retry_blocked_integration_execution_tool_unavailable"
| "recover L PreintegrationForbiddenOperation = retry_blocked_preintegration_forbidden_operation"
| "recover L VerificationWithoutExecution = retry_blocked_verification_without_execution"
| "recover L V025VerificationCompletionCollision = recover_v025_verification_completion_collision"
| "recover L VerificationEnvironmentUnavailable = retry_blocked_verification_environment_unavailable"
| "recover L ReviewerReasoningLifecycleCompatibility = retry_blocked_reviewer_reasoning_lifecycle_compatibility"
| "recover L CorrectivePatchToolUnavailable = retry_blocked_corrective_patch_tool_unavailable L"
| "recover L ResultReviewPatchNotAuthorized = retry_blocked_result_review_patch_not_authorized L"

fun recovery_check :: "libs \<Rightarrow> recovery \<Rightarrow> run_state \<Rightarrow> state_error + phase \<times> next_action" where
  "recovery_check L InvalidTestCommand = check_invalid_test_command"
| "recovery_check L PreintegrationInvalidResponse = check_preintegration_invalid_response"
| "recovery_check L IntegrationInvalidResponse = check_integration_invalid_response"
| "recovery_check L CompletedIntegrationForbiddenOperation = check_completed_integration_forbidden_operation"
| "recovery_check L UnsentEphemeralSourceRecreation = check_unsent_ephemeral_source_recreation"
| "recovery_check L IntegrationExecutionToolUnavailable = check_integration_execution_tool_unavailable"
| "recovery_check L PreintegrationForbiddenOperation = check_preintegration_forbidden_operation"
| "recovery_check L VerificationWithoutExecution = check_verification_without_execution"
| "recovery_check L V025VerificationCompletionCollision = check_v025_verification_completion_collision"
| "recovery_check L VerificationEnvironmentUnavailable = check_verification_environment_unavailable"
| "recovery_check L ReviewerReasoningLifecycleCompatibility = check_reviewer_reasoning_lifecycle_compatibility"
| "recovery_check L CorrectivePatchToolUnavailable = check_corrective_patch_tool_unavailable L"
| "recovery_check L ResultReviewPatchNotAuthorized = check_result_review_patch_not_authorized L"

lemma recover_reopen: "recover L k s = reopen (recovery_check L k s) s"
  by (cases k)
     (simp_all add: retry_blocked_invalid_test_command_def
       retry_blocked_preintegration_invalid_response_def retry_blocked_integration_invalid_response_def
       retry_blocked_completed_integration_forbidden_operation_def
       retry_blocked_unsent_ephemeral_source_recreation_def
       retry_blocked_integration_execution_tool_unavailable_def
       retry_blocked_preintegration_forbidden_operation_def
       retry_blocked_verification_without_execution_def
       recover_v025_verification_completion_collision_def
       retry_blocked_verification_environment_unavailable_def
       retry_blocked_reviewer_reasoning_lifecycle_compatibility_def
       retry_blocked_corrective_patch_tool_unavailable_def
       retry_blocked_result_review_patch_not_authorized_def)

interpretation every_recovery: recovery "recovery_check L k" for L k
  by (cases k)
     (simp_all add: invalid_test_command.recovery_axioms preintegration_invalid_response.recovery_axioms
       integration_invalid_response.recovery_axioms completed_integration.recovery_axioms
       unsent_recreation.recovery_axioms execution_tool.recovery_axioms
       forbidden_operation.recovery_axioms without_execution.recovery_axioms
       completion_collision.recovery_axioms environment_unavailable.recovery_axioms
       reviewer_lifecycle.recovery_axioms corrective_patch.recovery_axioms
       review_patch.recovery_axioms)

lemma recover_Inr:
  assumes "recover L k s = (Inr a, s')"
  obtains at where "status s = SBlocked" "recovery_place s at" "s' = reopened at s" "a = snd at"
    "validate_persisted s' = Inr ()"
  using assms every_recovery.success every_recovery.only_blocked every_recovery.places
  unfolding recover_reopen by metis

subsection \<open>What the coordinator does to a stored run\<close>

definition is_test_declaration_action :: "next_action \<Rightarrow> bool" where
  "is_test_declaration_action a \<longleftrightarrow>
     a \<in> {RequestPrimaryContract, RequestReviewerContract, RequestPrimaryPlan}"

text \<open>A failed step of the driver: the diagnostic is recorded on the state reloaded from the store,
  and the run is paused, marked or blocked by the code of the error.\<close>

definition drive_failure :: "run_diagnostic \<Rightarrow> unit run_op" where
  "drive_failure d s =
     (if status s \<in> {SPausedUserAction, SCancelled} then (Inr (), s)
      else
        (let s1 = record_error d s
         in if rd_code d = ''COMMUNICATION_FAILURE'' then pause ''COMMUNICATION_FAILURE'' s1
            else if rd_code d = ''INVALID_TEST_COMMAND'' \<and> is_test_declaration_action (rd_action d) then
              pause ''INVALID_TEST_COMMAND'' s1
            else if rd_code d = ''INCOMPATIBLE_CODEX'' then
              (Inr (), mark_incompatible ''INCOMPATIBLE_CODEX'' s1)
            else (Inr (), block (rd_code d) s1)))"

text \<open>\<open>prepare_verification_workspace\<close>: \<open>destination\<close> is the path the store assigns to the
  integration SHA, \<open>prepared\<close> the answer of the repository safety provider.\<close>

definition prepare_verification :: "string \<Rightarrow> state_error + string \<Rightarrow> unit run_op" where
  "prepare_verification destination prepared s =
     attempt_in s (ok_or (state_error ''INVALID_STATE'' ''verification requires an integration SHA'')
                     (integration_sha s)) (\<lambda>_.
     if (case verification_worktree s of Some existing \<Rightarrow> \<not> path_eq existing destination | None \<Rightarrow> False) then
       fail ''INVALID_STATE'' ''persisted verification workspace does not match the exact integration SHA'' s
     else
       attempt_in s prepared (\<lambda>path.
       if \<not> path_eq path destination then
         fail ''UNSAFE_VERIFICATION_WORKSPACE'' ''verification workspace provider returned a different path'' s
       else (Inr (), s\<lparr>verification_worktree := Some path\<rparr>)))"

datatype run_input =
    Configure string "string list"
  | Message protocol_message
  | PrepareVerification string "state_error + string"
  | AcceptRevalidated
  | DriveFailure run_diagnostic
  | StepLimit
  | Pause string
  | WaitForThread
  | ThreadBecameIdle
  | Resume
  | Cancel
  | Recover recovery

fun is_recovery :: "run_input \<Rightarrow> bool" where
  "is_recovery (Recover k) = True"
| "is_recovery _ = False"

definition discard :: "('e + 'a) \<times> 's \<Rightarrow> ('e + unit) \<times> 's" where
  "discard r = (map_sum id (\<lambda>_. ()) (fst r), snd r)"

fun perform :: "libs \<Rightarrow> run_input \<Rightarrow> unit run_op" where
  "perform L (Configure branch commands) s = configure_integration branch commands s"
| "perform L (Message m) s = discard (apply_message L m s)"
| "perform L (PrepareVerification destination prepared) s =
     (if status s \<in> {SRunning, SWaitingThread} \<and> next_action s = RequestPrimaryVerification
      then prepare_verification destination prepared s else (Inr (), s))"
| "perform L AcceptRevalidated s = discard (accept_after_revalidation s)"
| "perform L (DriveFailure d) s = drive_failure d s"
| "perform L StepLimit s = (Inr (), block ''NO_PROGRESS'' s)"
| "perform L (Pause reason) s = pause reason s"
| "perform L WaitForThread s = wait_for_thread s"
| "perform L ThreadBecameIdle s = thread_became_idle s"
| "perform L Resume s = discard (resume s)"
| "perform L Cancel s = (Inr (), cancel s)"
| "perform L (Recover k) s = discard (recover L k s)"

text \<open>\<open>save_state\<close> and \<open>accept_response_and_advance\<close> store a state only if it is valid.\<close>

definition persist :: "run_state \<Rightarrow> (state_error + unit) \<times> run_state \<Rightarrow> (state_error + unit) \<times> run_state" where
  "persist s r = attempt_in s (fst r) (\<lambda>x. attempt_in s (validate_persisted (snd r)) (\<lambda>_. (Inr x, snd r)))"

definition run_step :: "libs \<Rightarrow> run_input \<Rightarrow> run_state \<Rightarrow> run_state" where
  "run_step L i s = snd (persist s (perform L i s))"

definition run_of :: "libs \<Rightarrow> run_facts \<Rightarrow> run_input list \<Rightarrow> run_state" where
  "run_of L f is = fold (run_step L) is (new_run f)"

lemma run_of_Nil [simp]: "run_of L f [] = new_run f"
  by (simp add: run_of_def)

lemma run_of_snoc [simp]: "run_of L f (is @ [i]) = run_step L i (run_of L f is)"
  by (simp add: run_of_def)

lemma discard_Inr [outcome]: "discard r = (Inr u, s') \<longleftrightarrow> (\<exists>x. r = (Inr x, s'))"
  by (cases r; cases "fst r") (auto simp: discard_def)

lemma run_step_cases:
  obtains (refused) "run_step L i s = s"
    | (performed) "perform L i s = (Inr (), run_step L i s)" "validate_persisted (run_step L i s) = Inr ()"
proof (cases "fst (perform L i s)")
  case (Inl e)
  then show ?thesis using refused by (simp add: run_step_def persist_def)
next
  case (Inr u)
  then show ?thesis
    using refused performed
    by (cases "validate_persisted (snd (perform L i s))"; cases "perform L i s")
       (auto simp: run_step_def persist_def)
qed

subsection \<open>Invariants of all runs\<close>

text \<open>A property of the inputs so far and the state they lead to.\<close>

locale run_invariant =
  fixes L :: libs and f :: run_facts and I :: "run_input list \<Rightarrow> run_state \<Rightarrow> bool"
  assumes start: "I [] (new_run f)"
    and later: "I is s \<Longrightarrow> run_step L i s = s \<Longrightarrow> I (is @ [i]) s"
    and kept: "I is s \<Longrightarrow> perform L i s = (Inr (), s') \<Longrightarrow> validate_persisted s' = Inr () \<Longrightarrow>
      run_step L i s = s' \<Longrightarrow> I (is @ [i]) s'"
begin

lemma always: "I is (run_of L f is)"
proof (induction "is" rule: rev_induct)
  case Nil
  show ?case by (simp add: start)
next
  case (snoc i "is")
  then show ?case
    by (cases rule: run_step_cases [of L i "run_of L f is"]) (auto intro: later kept)
qed

end

end
