(* ===== verification/Run_Transitions.thy ===== *)
theory Run_Transitions
  imports Run_Machine
begin

text \<open>
  The transitions of a stored run as a step relation: one rule for each way in which an input of
  \<open>Run_Machine\<close> succeeds, with what it has checked and the state it leaves. \<open>perform_transition\<close>
  shows that the operations of the code make no other step; the proofs about all runs go by cases on
  the rules.
\<close>

definition accepted_message :: "libs \<Rightarrow> protocol_message \<Rightarrow> protocol_message \<Rightarrow> run_state \<Rightarrow> bool" where
  "accepted_message L message m s \<longleftrightarrow>
     status s = SRunning \<and> revalidate_message L message = Inr m
     \<and> env_run_id (envelope m) = rf_run_id (facts s)
     \<and> env_primary_sha (envelope m) = rf_primary_sha (facts s)
     \<and> env_reviewer_sha (envelope m) = rf_reviewer_sha (facts s)"

definition current_message :: "libs \<Rightarrow> protocol_message \<Rightarrow> protocol_message \<Rightarrow> run_state \<Rightarrow> bool" where
  "current_message L message m s \<longleftrightarrow>
     accepted_message L message m s \<and> env_round (envelope m) = round s
     \<and> env_plan_revision (envelope m) = plan_revision s"

lemma revalidated_invariants: "revalidate_message L message = Inr m \<Longrightarrow> validate_invariants m = Inr ()"
  by (auto simp: revalidate_message_def outcome dest: validate_message_invariants)

lemma current_changes_revision:
  "current_message L message m s \<Longrightarrow> env_message_type (envelope m) = MChangesRequired \<Longrightarrow>
     plan_revision s \<noteq> None"
  by (auto simp: current_message_def accepted_message_def validate_by_type_def
      validate_changes_required_def outcome dest!: revalidated_invariants validate_invariants_by_type)

definition next_streak :: "string \<Rightarrow> run_state \<Rightarrow> 8 word" where
  "next_streak fp s =
     (if last_review_fingerprint s = Some fp then saturating_inc (unchanged_review_streak s) else 1)"

lemma count_review_fields:
  "count_review fp s = s\<lparr>last_review_fingerprint := Some fp, unchanged_review_streak := next_streak fp s\<rparr>"
  by (simp add: count_review_def next_streak_def)

inductive transition :: "libs \<Rightarrow> run_input \<Rightarrow> run_state \<Rightarrow> run_state \<Rightarrow> bool" for L :: libs where
  configured:
    "status s = SRunning \<Longrightarrow> phase s = Contract \<Longrightarrow> next_action s = RequestPrimaryContract \<Longrightarrow>
     target_integration_branch s = None \<Longrightarrow> \<not> blank b \<Longrightarrow>
     transition L (Configure b cs) s
       (s\<lparr>target_integration_branch := Some b, required_test_commands := push_new [] (map trim cs)\<rparr>)"
| primary_contract_ready:
    "accepted_message L message m s \<Longrightarrow> env_message_type (envelope m) = MContractReady \<Longrightarrow>
     phase s = Contract \<Longrightarrow> next_action s = RequestPrimaryContract \<Longrightarrow>
     get (payload m) ''contract'' = Some contract \<Longrightarrow> string_array_field contract ''tests'' = Inr tests \<Longrightarrow>
     transition L (Message message) s
       (s\<lparr>primary_contract_hash := Some (canonical_json_hash L contract), primary_contract := Some contract,
          required_test_commands := push_new (required_test_commands s) tests,
          next_action := RequestReviewerContract\<rparr>)"
| reviewer_contract_ready:
    "accepted_message L message m s \<Longrightarrow> env_message_type (envelope m) = MContractReady \<Longrightarrow>
     phase s = Contract \<Longrightarrow> next_action s = RequestReviewerContract \<Longrightarrow>
     get (payload m) ''contract'' = Some contract \<Longrightarrow> string_array_field contract ''tests'' = Inr tests \<Longrightarrow>
     transition L (Message message) s
       (s\<lparr>reviewer_contract_hash := Some (canonical_json_hash L contract), reviewer_contract := Some contract,
          required_test_commands := push_new (required_test_commands s) tests,
          phase := PlanReview, round := 1, plan_revision := Some 1, next_action := RequestPrimaryPlan\<rparr>)"
| plan_ready:
    "current_message L message m s \<Longrightarrow> env_message_type (envelope m) = MPlanReady \<Longrightarrow>
     phase s = PlanReview \<Longrightarrow> next_action s = RequestPrimaryPlan \<Longrightarrow> is_object (payload m) \<Longrightarrow>
     transition L (Message message) s
       (s\<lparr>required_test_commands := push_new (required_test_commands s) commands,
          current_plan_hash := Some (canonical_json_hash L (payload m)),
          current_plan_payload := Some (payload m), next_action := RequestReviewerPlanVerdict\<rparr>)"
| plan_approval:
    "current_message L message m s \<Longrightarrow> env_message_type (envelope m) = MApprovedPlan \<Longrightarrow>
     phase s = PlanReview \<Longrightarrow> current_plan_hash s = Some h \<Longrightarrow>
     get (payload m) ''approved_plan_hash'' = Some (JStr h) \<Longrightarrow>
     transition L (Message message) s
       (s\<lparr>plan_approved := True, plan_approval_payload := Some (payload m),
          phase := Integrate, next_action := RequestPrimaryIntegration\<rparr>)"
| integration_ready:
    "current_message L message m s \<Longrightarrow> env_message_type (envelope m) = MIntegrationReady \<Longrightarrow>
     phase s = Integrate \<Longrightarrow> plan_approved s \<Longrightarrow>
     env_integration_branch (envelope m) = Some branch \<Longrightarrow> env_integration_sha (envelope m) = Some sha \<Longrightarrow>
     target_integration_branch s = None \<or> target_integration_branch s = Some branch \<Longrightarrow>
     integration_sha s \<noteq> Some sha \<Longrightarrow>
     transition L (Message message) s
       (s\<lparr>integration_branch := Some branch, integration_sha := Some sha,
          current_integration_payload := Some (payload m), test_evidence := [],
          verification_worktree := None, result_approved_sha := None, phase := Verify,
          round := (if integration_sha s = None then 1 else round s),
          last_review_fingerprint := (if integration_sha s = None then None else last_review_fingerprint s),
          unchanged_review_streak := (if integration_sha s = None then 0 else unchanged_review_streak s),
          next_action := RequestPrimaryVerification\<rparr>)"
| verification_ready:
    "current_message L message m s \<Longrightarrow> env_message_type (envelope m) = MIntegrationReady \<Longrightarrow>
     phase s = Verify \<Longrightarrow> plan_approved s \<Longrightarrow>
     env_integration_branch (envelope m) = integration_branch s \<Longrightarrow>
     env_integration_sha (envelope m) = integration_sha s \<Longrightarrow> integration_sha s \<noteq> None \<Longrightarrow>
     payload_test_evidence L (payload m) = Inr ev \<Longrightarrow>
     evidence_complete (required_test_commands s) ev \<Longrightarrow>
     transition L (Message message) s (verification_outcome m ev s)"
| result_approval:
    "current_message L message m s \<Longrightarrow> env_message_type (envelope m) = MApprovedResult \<Longrightarrow>
     phase s = ResultReview \<Longrightarrow>
     env_integration_branch (envelope m) = integration_branch s \<Longrightarrow>
     env_integration_sha (envelope m) = integration_sha s \<Longrightarrow>
     transition L (Message message) s
       (s\<lparr>result_approved_sha := integration_sha s, next_action := RevalidateAndAccept\<rparr>)"
| changes_required:
    "current_message L message m s \<Longrightarrow> env_message_type (envelope m) = MChangesRequired \<Longrightarrow>
     phase s \<in> {PlanReview, ResultReview} \<Longrightarrow>
     (phase s = ResultReview \<Longrightarrow> env_integration_branch (envelope m) = integration_branch s
       \<and> env_integration_sha (envelope m) = integration_sha s) \<Longrightarrow>
     transition L (Message message) s (changes_outcome L m s)"
| participant_blocked:
    "current_message L message m s \<Longrightarrow> env_message_type (envelope m) = MBlocked \<Longrightarrow>
     env_phase (envelope m) = message_phase_of (phase s) \<Longrightarrow>
     transition L (Message message) s (block (blocked_reason m) s)"
| verification_prepared:
    "status s \<in> {SRunning, SWaitingThread} \<Longrightarrow> next_action s = RequestPrimaryVerification \<Longrightarrow>
     integration_sha s \<noteq> None \<Longrightarrow> path_eq path destination \<Longrightarrow>
     transition L (PrepareVerification destination prepared) s (s\<lparr>verification_worktree := Some path\<rparr>)"
| accepting:
    "status s = SRunning \<Longrightarrow> next_action s = RevalidateAndAccept \<Longrightarrow>
     result_approved_sha s = integration_sha s \<Longrightarrow>
     evidence_complete (required_test_commands s) (test_evidence s) \<Longrightarrow>
     \<not> some_failed (test_evidence s) \<Longrightarrow>
     integration_branch s = Some branch \<Longrightarrow> integration_sha s = Some sha \<Longrightarrow>
     transition L AcceptRevalidated s
       (s\<lparr>status := SAccepted, phase := Accepted, reason_code := None, next_action := Stop,
          accepted_result := Some (result_of s branch sha)\<rparr>)"
| failure_paused:
    "status s \<in> {SRunning, SWaitingThread} \<Longrightarrow>
     transition L (DriveFailure d) s
       (s\<lparr>last_error := Some d, status := SPausedUserAction, reason_code := Some reason\<rparr>)"
| failure_incompatible:
    "status s \<notin> {SPausedUserAction, SCancelled} \<Longrightarrow>
     transition L (DriveFailure d) s (mark_incompatible reason (s\<lparr>last_error := Some d\<rparr>))"
| failure_blocked:
    "status s \<notin> {SPausedUserAction, SCancelled} \<Longrightarrow>
     transition L (DriveFailure d) s (block reason (s\<lparr>last_error := Some d\<rparr>))"
| step_limit: "transition L StepLimit s (block ''NO_PROGRESS'' s)"
| paused:
    "status s \<in> {SRunning, SWaitingThread} \<Longrightarrow>
     transition L (Pause reason) s (s\<lparr>status := SPausedUserAction, reason_code := Some reason\<rparr>)"
| waiting: "status s = SRunning \<Longrightarrow> transition L WaitForThread s (s\<lparr>status := SWaitingThread\<rparr>)"
| idle: "status s = SWaitingThread \<Longrightarrow> transition L ThreadBecameIdle s (s\<lparr>status := SRunning\<rparr>)"
| resumed:
    "status s = SPausedUserAction \<Longrightarrow>
     transition L Resume s (s\<lparr>status := SRunning, reason_code := None, last_error := None\<rparr>)"
| cancelled: "transition L Cancel s (cancel s)"
| recovered:
    "status s = SBlocked \<Longrightarrow> recovery_place s at \<Longrightarrow>
     transition L (Recover k) s (reopened at s)"

inductive_cases message_transitionE: "transition L (Message message) s s'"
inductive_cases accept_transitionE: "transition L AcceptRevalidated s s'"

text \<open>Every successful input is one of these steps, or leaves the state as it is.\<close>

lemma apply_message_transition:
  assumes "apply_message L message s = (Inr a, s')"
  shows "transition L (Message message) s s'"
proof -
  obtain m where m: "accepted_message L message m s"
    and checked: "apply_checked_message L m s = (Inr a, s')"
    using assms by (auto simp: apply_message_Inr accepted_message_def)
  note [simp] = current_message_def apply_checked_message_def
  show ?thesis
  proof (cases "env_message_type (envelope m)")
    case MContractReady
    with m checked show ?thesis
      by (cases "next_action s")
         (auto simp: apply_contract_Inr expected_contract_role_def
           intro: primary_contract_ready reviewer_contract_ready)
  next
    case MPlanReady
    with m checked show ?thesis
      by (auto simp: apply_plan_Inr record_plan_Inr intro: plan_ready)
  next
    case MChangesRequired
    with m checked show ?thesis
      by (auto simp: apply_changes_required_Inr intro!: changes_required)
  next
    case MApprovedPlan
    with m checked show ?thesis
      by (auto simp: apply_plan_approval_Inr intro!: plan_approval)
  next
    case MIntegrationReady
    with checked have i: "apply_integration L m s = (Inr a, s')" by simp
    show ?thesis
    proof (cases "phase s = Integrate")
      case True
      with i obtain branch sha where
        "env_integration_branch (envelope m) = Some branch" "env_integration_sha (envelope m) = Some sha"
        "target_integration_branch s = None \<or> target_integration_branch s = Some branch"
        and created: "integration_created m branch sha s = (Inr a, s')"
        and cur: "current_message L message m s" "plan_approved s"
        using m unfolding apply_integration_Inr by auto
      note facts = this
      show ?thesis
        using created unfolding integration_created_Inr
        by (elim conjE) (erule ssubst, rule integration_ready [OF cur(1) MIntegrationReady True cur(2) facts(1-3)])
    next
      case False
      with m MIntegrationReady i show ?thesis
        unfolding apply_integration_Inr integration_verified_Inr
        by (auto intro!: verification_ready)
    qed
  next
    case MApprovedResult
    with m checked show ?thesis
      by (auto simp: apply_result_approval_Inr intro!: result_approval)
  next
    case MBlocked
    from checked have "verify_blocked_envelope s m = Inr ()" and "s' = block (blocked_reason m) s"
      unfolding apply_checked_blocked_Inr [OF MBlocked] by blast+
    with m MBlocked show ?thesis
      by (auto simp: verify_blocked_envelope_Inr intro!: participant_blocked)
  qed
qed

lemma drive_failure_transition:
  assumes "drive_failure d s = (Inr (), s')"
  shows "s' = s \<or> transition L (DriveFailure d) s s'"
  using assms
  by (auto simp: drive_failure_def Let_def record_error_def pause_Inr
      intro: failure_paused failure_incompatible failure_blocked split: if_splits)

lemma perform_transition:
  assumes "perform L i s = (Inr (), s')"
  shows "s' = s \<or> transition L i s s'"
proof (cases i)
  case (Configure b cs)
  with assms show ?thesis by (auto simp: configure_integration_Inr intro: configured)
next
  case (Message m)
  with assms show ?thesis by (auto simp: outcome dest: apply_message_transition)
next
  case (PrepareVerification destination prepared)
  with assms show ?thesis
    by (auto simp: prepare_verification_def outcome intro: verification_prepared split: if_splits)
next
  case AcceptRevalidated
  with assms show ?thesis by (auto simp: outcome accept_after_revalidation_Inr intro: accepting)
next
  case (DriveFailure d)
  with assms show ?thesis by (auto dest: drive_failure_transition)
next
  case (Recover k)
  with assms show ?thesis by (auto simp: outcome elim!: recover_Inr intro: recovered)
qed (use assms in \<open>auto simp: outcome pause_Inr wait_for_thread_Inr thread_became_idle_Inr resume_Inr
       intro: transition.intros\<close>)

end
