(* ===== verification/Run_Invariants.thy ===== *)
theory Run_Invariants
  imports Run_Transitions
begin

text \<open>
  The well-formedness of a stored run, in five parts, and the proof that every transition keeps each
  part. \<open>run_ok\<close> puts them together and holds for every run the program can store.
\<close>

lemma count_review_simps [simp]:
  "phase (count_review fp s) = phase s" "round (count_review fp s) = round s"
  "no_progress_rounds (count_review fp s) = no_progress_rounds s"
  "max_review_rounds (count_review fp s) = max_review_rounds s"
  by (simp_all add: count_review_fields)

text \<open>The outcome of a request for changes, field by field.\<close>

definition progress_stalled :: "libs \<Rightarrow> protocol_message \<Rightarrow> run_state \<Rightarrow> bool" where
  "progress_stalled L m s \<longleftrightarrow> no_progress_rounds s \<le> next_streak (review_fingerprint L s (payload m)) s"

lemma changes_outcome_cases:
  obtains (no_progress) fp where "progress_stalled L m s"
      "changes_outcome L m s = block ''NO_PROGRESS''
         (s\<lparr>last_review_fingerprint := Some fp, unchanged_review_streak := next_streak fp s\<rparr>)"
    | (round_limit) fp where "\<not> progress_stalled L m s" "max_review_rounds s \<le> round s"
      "changes_outcome L m s = block ''ROUND_LIMIT''
         (s\<lparr>last_review_fingerprint := Some fp, unchanged_review_streak := next_streak fp s\<rparr>)"
    | (plan_again) fp where "\<not> progress_stalled L m s" "round s < max_review_rounds s"
      "phase s = PlanReview" "next_streak fp s < no_progress_rounds s"
      "changes_outcome L m s =
         s\<lparr>last_review_fingerprint := Some fp, unchanged_review_streak := next_streak fp s,
           round := round s + 1, result_approved_sha := None, last_plan_feedback := Some (payload m),
           plan_revision := map_option (\<lambda>revision. revision + 1) (plan_revision s),
           plan_approved := False, plan_approval_payload := None, next_action := RequestPrimaryPlan\<rparr>"
    | (integrate_again) fp where "\<not> progress_stalled L m s" "round s < max_review_rounds s"
      "phase s \<noteq> PlanReview" "next_streak fp s < no_progress_rounds s"
      "changes_outcome L m s =
         s\<lparr>last_review_fingerprint := Some fp, unchanged_review_streak := next_streak fp s,
           round := round s + 1, result_approved_sha := None, last_result_feedback := Some (payload m),
           phase := Integrate, next_action := RequestPrimaryIntegration\<rparr>"
proof -
  define fp where "fp = review_fingerprint L s (payload m)"
  note d = changes_outcome_def Let_def count_review_fields progress_stalled_def
  show ?thesis
  proof (cases "progress_stalled L m s")
    case True
    then show ?thesis by (intro no_progress [of fp]) (simp_all add: d fp_def)
  next
    case stalled: False
    show ?thesis
    proof (cases "max_review_rounds s \<le> round s")
      case True
      with stalled show ?thesis by (intro round_limit [of fp]) (simp_all add: d fp_def)
    next
      case False
      with stalled show ?thesis
        by (cases "phase s = PlanReview")
           (simp_all add: d fp_def not_le plan_again integrate_again)
    qed
  qed
qed

lemma verification_outcome_cases:
  obtains (limit) "some_failed ev" "max_review_rounds s \<le> round s"
      "verification_outcome m ev s = block ''ROUND_LIMIT''
         (s\<lparr>test_evidence := ev, current_integration_payload := Some (payload m),
            result_approved_sha := None, last_result_feedback := Some (machine_feedback (payload m))\<rparr>)"
    | (corrective) "some_failed ev" "round s < max_review_rounds s"
      "verification_outcome m ev s =
         s\<lparr>test_evidence := ev, current_integration_payload := Some (payload m),
           result_approved_sha := None, last_result_feedback := Some (machine_feedback (payload m)),
           round := round s + 1, phase := Integrate, next_action := RequestPrimaryIntegration\<rparr>"
    | (passed) "\<not> some_failed ev"
      "verification_outcome m ev s =
         s\<lparr>test_evidence := ev, current_integration_payload := Some (payload m),
           result_approved_sha := None, phase := ResultReview,
           next_action := RequestReviewerResultVerdict\<rparr>"
proof (cases "some_failed ev")
  case True
  show ?thesis
  proof (cases "max_review_rounds s \<le> round s")
    case limited: True
    show ?thesis by (rule limit) (simp_all add: verification_outcome_def True limited)
  next
    case False
    show ?thesis
      by (rule corrective) (simp_all add: verification_outcome_def True False not_le [symmetric])
  qed
next
  case False
  show ?thesis by (rule passed) (simp_all add: verification_outcome_def False)
qed

subsection \<open>Pending action and phase\<close>

fun action_phase :: "next_action \<Rightarrow> phase option" where
  "action_phase RequestPrimaryContract = Some Contract"
| "action_phase RequestReviewerContract = Some Contract"
| "action_phase RequestPrimaryPlan = Some PlanReview"
| "action_phase RequestReviewerPlanVerdict = Some PlanReview"
| "action_phase RequestPrimaryIntegration = Some Integrate"
| "action_phase RequestPrimaryVerification = Some Verify"
| "action_phase RequestReviewerResultVerdict = Some ResultReview"
| "action_phase RevalidateAndAccept = Some ResultReview"
| "action_phase WaitForUser = None"
| "action_phase Stop = None"

definition active :: "run_state \<Rightarrow> bool" where
  "active s \<longleftrightarrow> status s \<in> {SRunning, SWaitingThread, SPausedUserAction}"

fun terminal_phase :: "run_status \<Rightarrow> phase option" where
  "terminal_phase SAccepted = Some Accepted"
| "terminal_phase SBlocked = Some Blocked"
| "terminal_phase SCancelled = Some Cancelled"
| "terminal_phase SIncompatibleCodex = Some Blocked"
| "terminal_phase _ = None"

definition phase_coherent :: "run_state \<Rightarrow> bool" where
  "phase_coherent s \<longleftrightarrow>
     (if active s then action_phase (next_action s) = Some (phase s)
      else next_action s = Stop \<and> terminal_phase (status s) = Some (phase s))"

lemmas state_ops = block_def mark_incompatible_def cancel_def reopened_def

lemma phase_coherent_step:
  assumes "transition L i s s'" and ok: "phase_coherent s"
  shows "phase_coherent s'"
  using assms(1)
proof cases
  case (verification_ready message m ev)
  with ok show ?thesis
    by (cases rule: verification_outcome_cases [of ev s m])
       (auto simp: current_message_def accepted_message_def phase_coherent_def active_def state_ops)
next
  case (changes_required message m)
  with ok show ?thesis
    by (cases rule: changes_outcome_cases [of L m s])
       (auto simp: current_message_def accepted_message_def phase_coherent_def active_def state_ops)
next
  case (recovered at k)
  then show ?thesis
    by (auto simp: recovery_place_def before_integration_def phase_coherent_def active_def state_ops)
qed (use ok in \<open>auto simp: phase_coherent_def active_def state_ops current_message_def accepted_message_def\<close>)

subsection \<open>Fixed fields\<close>

definition fixed_fields :: "run_facts \<Rightarrow> run_state \<Rightarrow> bool" where
  "fixed_fields f s \<longleftrightarrow>
     facts s = f \<and> schema_version s = RUN_STATE_SCHEMA_VERSION
     \<and> max_review_rounds s = DEFAULT_MAX_REVIEW_ROUNDS
     \<and> no_progress_rounds s = DEFAULT_NO_PROGRESS_ROUNDS"

lemma fixed_fields_step:
  assumes "transition L i s s'" and ok: "fixed_fields f s"
  shows "fixed_fields f s'"
  using assms(1)
proof cases
  case (verification_ready message m ev)
  with ok show ?thesis
    by (cases rule: verification_outcome_cases [of ev s m]) (simp_all add: fixed_fields_def block_def)
next
  case (changes_required message m)
  with ok show ?thesis
    by (cases rule: changes_outcome_cases [of L m s]) (simp_all add: fixed_fields_def block_def)
qed (use ok in \<open>simp_all add: fixed_fields_def state_ops\<close>)

subsection \<open>Integration and evidence\<close>

text \<open>
  The branch, the SHA and the payload of an integration are recorded together, only for an approved
  plan, and a run that has one never goes back before the integration. Evidence, approval and worktree
  exist only for an integration.
\<close>

definition integration_ok :: "run_state \<Rightarrow> bool" where
  "integration_ok s \<longleftrightarrow>
     (case integration_sha s of
        None \<Rightarrow> integration_branch s = None \<and> current_integration_payload s = None
          \<and> test_evidence s = [] \<and> result_approved_sha s = None \<and> verification_worktree s = None
          \<and> accepted_result s = None
          \<and> (active s \<longrightarrow> phase s \<in> {Contract, PlanReview, Integrate})
      | Some sha \<Rightarrow> integration_branch s \<noteq> None \<and> current_integration_payload s \<noteq> None
          \<and> plan_approved s \<and> (active s \<longrightarrow> phase s \<in> {Integrate, Verify, ResultReview}))"

lemma integration_ok_step:
  assumes "transition L i s s'" and ok: "integration_ok s" "phase_coherent s"
  shows "integration_ok s'"
  using assms(1)
proof cases
  case (verification_ready message m ev)
  with ok show ?thesis
    by (cases rule: verification_outcome_cases [of ev s m])
       (auto simp: integration_ok_def block_def active_def current_message_def accepted_message_def
         split: option.splits)
next
  case (changes_required message m)
  with ok show ?thesis
    by (cases rule: changes_outcome_cases [of L m s])
       (auto simp: integration_ok_def block_def active_def current_message_def accepted_message_def
         split: option.splits)
next
  case (recovered at k)
  with ok show ?thesis
    by (auto simp: recovery_place_def before_integration_def integration_recorded_def
         result_recorded_def unaccepted_verified_integration_def awaiting_verification_def
         integration_ok_def reopened_def active_def split: option.splits)
next
  case (verification_prepared path destination prepared)
  with ok show ?thesis
    by (auto simp: integration_ok_def active_def split: option.splits)
next
  case accepting
  with ok show ?thesis
    by (auto simp: integration_ok_def active_def split: option.splits)
qed (use ok in \<open>auto simp: integration_ok_def active_def state_ops current_message_def
       accepted_message_def phase_coherent_def split: option.splits\<close>)

subsection \<open>Rounds and revisions\<close>

text \<open>
  Rounds stay between one and the limit, and before the first integration the plan revision is the
  round. So neither \<open>self.round += 1\<close> nor \<open>revision + 1\<close> can overflow.
\<close>

definition rounds_ok :: "run_state \<Rightarrow> bool" where
  "rounds_ok s \<longleftrightarrow>
     1 \<le> unat (round s) \<and> unat (round s) \<le> unat (max_review_rounds s)
     \<and> (integration_sha s = None \<longrightarrow>
          plan_revision s = Some (round s) \<or> plan_revision s = None \<and> round s = 1)
     \<and> (\<forall>r. plan_revision s = Some r \<longrightarrow> 1 \<le> unat r \<and> unat r \<le> unat (max_review_rounds s))"

lemma unat_inc: "(r :: 32 word) < m \<Longrightarrow> unat (r + 1) = Suc (unat r)"
proof -
  assume "r < m"
  then have "r \<noteq> - 1" using word_n1_ge [of m] by (auto simp: not_le [symmetric])
  then have "1 + r \<noteq> 0" by (metis eq_neg_iff_add_eq_0 add.commute)
  then show ?thesis using unatSuc [of r] by (simp add: add.commute)
qed

lemma rounds_ok_step:
  assumes "transition L i s s'" and ok: "rounds_ok s" "phase_coherent s" "integration_ok s"
  shows "rounds_ok s'"
  using assms(1)
proof cases
  case (verification_ready message m ev)
  with ok show ?thesis
    by (cases rule: verification_outcome_cases [of ev s m])
       (auto simp: rounds_ok_def unat_inc word_less_nat_alt block_def current_message_def accepted_message_def)
next
  case (changes_required message m)
  then have "integration_sha s = None \<longleftrightarrow> phase s = PlanReview"
    using ok by (auto simp: integration_ok_def active_def current_message_def accepted_message_def
        split: option.splits)
  with changes_required ok show ?thesis
    by (cases rule: changes_outcome_cases [of L m s])
       (auto simp: rounds_ok_def unat_inc word_less_nat_alt block_def active_def
         dest!: current_changes_revision)
qed (use ok in \<open>auto simp: rounds_ok_def active_def state_ops current_message_def accepted_message_def\<close>)

subsection \<open>Evidence, approval and acceptance\<close>

definition evidence_ok :: "run_state \<Rightarrow> bool" where
  "evidence_ok s \<longleftrightarrow>
     (test_evidence s \<noteq> [] \<longrightarrow> evidence_complete (required_test_commands s) (test_evidence s))
     \<and> (next_action s \<in> {RequestReviewerResultVerdict, RevalidateAndAccept} \<longrightarrow>
          test_evidence s \<noteq> [] \<and> \<not> some_failed (test_evidence s))
     \<and> (next_action s = RevalidateAndAccept \<longrightarrow> result_approved_sha s = integration_sha s)
     \<and> (result_approved_sha s \<noteq> None \<longrightarrow>
          result_approved_sha s = integration_sha s \<and> test_evidence s \<noteq> []
          \<and> \<not> some_failed (test_evidence s))"

lemma evidence_ok_step:
  assumes "transition L i s s'" and ok: "evidence_ok s" "integration_ok s" "phase_coherent s"
  shows "evidence_ok s'"
  using assms(1)
proof cases
  case (verification_ready message m ev)
  with ok show ?thesis
    by (cases rule: verification_outcome_cases [of ev s m])
       (auto simp: evidence_ok_def block_def dest: evidence_complete_nonempty)
next
  case (changes_required message m)
  with ok show ?thesis
    by (cases rule: changes_outcome_cases [of L m s]) (auto simp: evidence_ok_def block_def)
next
  case (result_approval message m)
  then have "next_action s \<in> {RequestReviewerResultVerdict, RevalidateAndAccept}"
    using ok(3) by (cases "next_action s")
      (auto simp: phase_coherent_def active_def current_message_def accepted_message_def)
  with result_approval ok show ?thesis by (auto simp: evidence_ok_def)
next
  case (recovered at k)
  with ok show ?thesis
    by (auto simp: recovery_place_def before_integration_def evidence_ok_def reopened_def
        dest: evidence_complete_nonempty)
qed (use ok in \<open>auto simp: evidence_ok_def state_ops integration_ok_def active_def current_message_def
       accepted_message_def split: option.splits\<close>)

definition acceptance_ok :: "run_state \<Rightarrow> bool" where
  "acceptance_ok s \<longleftrightarrow>
     (status s = SAccepted \<longleftrightarrow> accepted_result s \<noteq> None)
     \<and> (\<forall>r. accepted_result s = Some r \<longrightarrow>
          (\<exists>branch sha. integration_branch s = Some branch \<and> integration_sha s = Some sha
             \<and> r = result_of s branch sha \<and> result_approved_sha s = Some sha))"

lemma validate_persisted_accepted:
  "validate_persisted s = Inr u \<Longrightarrow> status s = SAccepted \<longleftrightarrow> accepted_result s \<noteq> None"
  by (auto simp: validate_persisted_def validate_terminal_def outcome split: option.splits if_splits)

lemma result_of_fields:
  "facts s' = facts s \<Longrightarrow> test_evidence s' = test_evidence s \<Longrightarrow> result_of s' = result_of s"
  by (simp add: result_of_def fun_eq_iff)

lemma acceptance_ok_step:
  assumes "transition L i s s'" and ok: "acceptance_ok s" and valid: "validate_persisted s' = Inr ()"
  shows "acceptance_ok s'"
proof (cases "status s' = SAccepted")
  case False
  then show ?thesis using validate_persisted_accepted [OF valid] by (simp add: acceptance_ok_def)
next
  case accepted: True
  from assms(1) show ?thesis
  proof cases
    case (verification_ready message m ev)
    with accepted show ?thesis
      by (cases rule: verification_outcome_cases [of ev s m])
         (auto simp: block_def current_message_def accepted_message_def)
  next
    case (changes_required message m)
    with accepted show ?thesis
      by (cases rule: changes_outcome_cases [of L m s])
         (auto simp: block_def current_message_def accepted_message_def)
  next
    case (accepting branch sha)
    then show ?thesis by (simp add: acceptance_ok_def result_of_def)
  qed (use accepted in \<open>auto simp: state_ops current_message_def accepted_message_def\<close>)
qed

subsection \<open>All runs\<close>

definition run_ok :: "run_facts \<Rightarrow> run_state \<Rightarrow> bool" where
  "run_ok f s \<longleftrightarrow>
     fixed_fields f s \<and> phase_coherent s \<and> integration_ok s \<and> rounds_ok s \<and> evidence_ok s
     \<and> acceptance_ok s"

lemma run_ok_new: "run_ok f (new_run f)"
  by (simp add: run_ok_def new_run_def fixed_fields_def phase_coherent_def active_def
      integration_ok_def rounds_ok_def evidence_ok_def acceptance_ok_def DEFAULT_MAX_REVIEW_ROUNDS_def)

lemma run_ok_transition:
  "transition L i s s' \<Longrightarrow> run_ok f s \<Longrightarrow> validate_persisted s' = Inr () \<Longrightarrow> run_ok f s'"
  unfolding run_ok_def
  by (blast intro: fixed_fields_step phase_coherent_step integration_ok_step rounds_ok_step
      evidence_ok_step acceptance_ok_step)

lemma run_ok_perform:
  "run_ok f s \<Longrightarrow> perform L i s = (Inr (), s') \<Longrightarrow> validate_persisted s' = Inr () \<Longrightarrow> run_ok f s'"
  using perform_transition run_ok_transition by blast

interpretation well_formed: run_invariant L f "\<lambda>_. run_ok f" for L f
  by unfold_locales (auto intro: run_ok_new run_ok_perform)

end
