(* ===== verification/Run_Provenance.thy ===== *)
theory Run_Provenance
  imports Run_Invariants
begin

text \<open>
  Where the agreements of a run come from: each approval and each piece of evidence in a stored run
  was brought by a message the run has received, in a state the message was about.
\<close>

text \<open>\<open>received L f is Q\<close>: the inputs \<open>is\<close> contain a valid message \<open>m\<close> that arrived when the
  run was in a state \<open>t\<close> with \<open>Q m t\<close>.\<close>

definition received ::
  "libs \<Rightarrow> run_facts \<Rightarrow> run_input list \<Rightarrow> (protocol_message \<Rightarrow> run_state \<Rightarrow> bool) \<Rightarrow> bool" where
  "received L f is Q \<longleftrightarrow>
     (\<exists>xs message ys m. is = xs @ Message message # ys
        \<and> revalidate_message L message = Inr m \<and> Q m (run_of L f xs))"

lemma received_snoc: "received L f is Q \<Longrightarrow> received L f (is @ [i]) Q"
  unfolding received_def by (metis append.assoc append_Cons)

lemma received_now:
  "revalidate_message L message = Inr m \<Longrightarrow> Q m (run_of L f is) \<Longrightarrow>
     received L f (is @ [Message message]) Q"
  unfolding received_def by blast

definition from_sources :: "run_facts \<Rightarrow> protocol_message \<Rightarrow> bool" where
  "from_sources f m \<longleftrightarrow>
     env_run_id (envelope m) = rf_run_id f \<and> env_primary_sha (envelope m) = rf_primary_sha f
     \<and> env_reviewer_sha (envelope m) = rf_reviewer_sha f"

definition approves_plan :: "run_facts \<Rightarrow> json option \<Rightarrow> protocol_message \<Rightarrow> run_state \<Rightarrow> bool" where
  "approves_plan f p m t \<longleftrightarrow>
     from_sources f m \<and> env_message_type (envelope m) = MApprovedPlan \<and> phase t = PlanReview
     \<and> p = Some (payload m)
     \<and> (\<exists>h. current_plan_hash t = Some h \<and> get (payload m) ''approved_plan_hash'' = Some (JStr h))"

definition reports_evidence ::
  "libs \<Rightarrow> run_facts \<Rightarrow> string option \<Rightarrow> test_evidence list \<Rightarrow> protocol_message \<Rightarrow> run_state \<Rightarrow> bool" where
  "reports_evidence L f sha ev m t \<longleftrightarrow>
     from_sources f m \<and> env_message_type (envelope m) = MIntegrationReady \<and> phase t = Verify
     \<and> env_integration_sha (envelope m) = sha \<and> integration_sha t = sha
     \<and> payload_test_evidence L (payload m) = Inr ev"

definition approves_result ::
  "run_facts \<Rightarrow> run_state \<Rightarrow> protocol_message \<Rightarrow> run_state \<Rightarrow> bool" where
  "approves_result f s m t \<longleftrightarrow>
     from_sources f m \<and> env_message_type (envelope m) = MApprovedResult \<and> phase t = ResultReview
     \<and> env_integration_sha (envelope m) = integration_sha s
     \<and> env_integration_branch (envelope m) = integration_branch s
     \<and> env_round (envelope m) = round s \<and> env_plan_revision (envelope m) = plan_revision s
     \<and> test_evidence t = test_evidence s"

definition provenance :: "libs \<Rightarrow> run_facts \<Rightarrow> run_input list \<Rightarrow> run_state \<Rightarrow> bool" where
  "provenance L f is s \<longleftrightarrow>
     (plan_approved s \<longrightarrow> received L f is (approves_plan f (plan_approval_payload s)))
     \<and> (test_evidence s \<noteq> [] \<longrightarrow>
          received L f is (reports_evidence L f (integration_sha s) (test_evidence s)))
     \<and> (result_approved_sha s \<noteq> None \<longrightarrow> received L f is (approves_result f s))"

lemma provenance_later: "provenance L f is s \<Longrightarrow> provenance L f (is @ [i]) s"
  by (auto simp: provenance_def intro: received_snoc)

text \<open>A step that leaves the agreed fields alone keeps their provenance.\<close>

definition same_agreements :: "run_state \<Rightarrow> run_state \<Rightarrow> bool" where
  "same_agreements s s' \<longleftrightarrow>
     (plan_approved s' \<longrightarrow> plan_approved s \<and> plan_approval_payload s' = plan_approval_payload s)
     \<and> (test_evidence s' \<noteq> [] \<longrightarrow>
          test_evidence s' = test_evidence s \<and> integration_sha s' = integration_sha s)
     \<and> (result_approved_sha s' \<noteq> None \<longrightarrow> result_approved_sha s' = result_approved_sha s
          \<and> integration_sha s' = integration_sha s \<and> integration_branch s' = integration_branch s
          \<and> round s' = round s \<and> plan_revision s' = plan_revision s \<and> test_evidence s' = test_evidence s)"

lemma approves_result_fields:
  "integration_sha s' = integration_sha s \<Longrightarrow> integration_branch s' = integration_branch s \<Longrightarrow>
   round s' = round s \<Longrightarrow> plan_revision s' = plan_revision s \<Longrightarrow> test_evidence s' = test_evidence s \<Longrightarrow>
     approves_result f s' = approves_result f s"
  by (simp add: approves_result_def fun_eq_iff)

lemma provenance_same:
  assumes prov: "provenance L f is s" and same: "same_agreements s s'"
  shows "provenance L f (is @ [i]) s'"
  unfolding provenance_def
proof (intro conjI impI)
  assume "plan_approved s'"
  then show "received L f (is @ [i]) (approves_plan f (plan_approval_payload s'))"
    using prov same by (simp add: provenance_def same_agreements_def received_snoc)
next
  assume "test_evidence s' \<noteq> []"
  then show "received L f (is @ [i]) (reports_evidence L f (integration_sha s') (test_evidence s'))"
    using prov same by (simp add: provenance_def same_agreements_def received_snoc)
next
  assume "result_approved_sha s' \<noteq> None"
  then have "approves_result f s' = approves_result f s" and "result_approved_sha s \<noteq> None"
    using same by (auto simp: same_agreements_def intro: approves_result_fields)
  then show "received L f (is @ [i]) (approves_result f s')"
    using prov by (simp add: provenance_def received_snoc)
qed

lemma provenance_step:
  assumes "transition L i s s'" and prov: "provenance L f is s" and ok: "run_ok f s"
    and s: "s = run_of L f is"
  shows "provenance L f (is @ [i]) s'"
proof -
  have facts: "facts s = f" and int: "integration_ok s"
    using ok by (simp_all add: run_ok_def fixed_fields_def)
  note simps = current_message_def accepted_message_def
  from assms(1) show ?thesis
  proof cases
    case (plan_approval message m h)
    then have "received L f (is @ [i]) (approves_plan f (Some (payload m)))"
      using facts s by (auto simp: simps approves_plan_def from_sources_def intro!: received_now)
    moreover have "approves_result f s' = approves_result f s"
      using plan_approval by (simp add: approves_result_def fun_eq_iff)
    ultimately show ?thesis
      using plan_approval prov by (auto simp: provenance_def intro: received_snoc)
  next
    case (verification_ready message m ev)
    then have "received L f (is @ [i]) (reports_evidence L f (integration_sha s) ev)"
      using facts s by (auto simp: simps reports_evidence_def from_sources_def intro!: received_now)
    with verification_ready prov show ?thesis
      by (cases rule: verification_outcome_cases [of ev s m])
         (auto simp: provenance_def block_def intro: received_snoc)
  next
    case (result_approval message m)
    then have "received L f (is @ [i]) (approves_result f s')"
      using facts s by (auto simp: simps approves_result_def from_sources_def intro!: received_now)
    with result_approval prov show ?thesis
      by (auto simp: provenance_def intro: received_snoc)
  next
    case (changes_required message m)
    then have "same_agreements s s'"
      by (cases rule: changes_outcome_cases [of L m s]) (auto simp: same_agreements_def block_def)
    with prov show ?thesis by (rule provenance_same)
  next
    case (reviewer_contract_ready message m contract tests)
    then have "same_agreements s s'"
      using int by (auto simp: same_agreements_def simps integration_ok_def active_def split: option.splits)
    with prov show ?thesis by (rule provenance_same)
  qed (rule provenance_same [OF prov], simp add: same_agreements_def state_ops)+
qed

interpretation traced: run_invariant L f
  "\<lambda>is s. s = run_of L f is \<and> run_ok f s \<and> provenance L f is s" for L f
proof unfold_locales
  show "new_run f = run_of L f [] \<and> run_ok f (new_run f) \<and> provenance L f [] (new_run f)"
    using run_ok_new [of f] by (simp add: provenance_def new_run_def)
next
  fix "is" s i
  assume "s = run_of L f is \<and> run_ok f s \<and> provenance L f is s" and "run_step L i s = s"
  then show "s = run_of L f (is @ [i]) \<and> run_ok f s \<and> provenance L f (is @ [i]) s"
    by (auto intro: provenance_later)
next
  fix "is" s i s'
  assume old: "s = run_of L f is \<and> run_ok f s \<and> provenance L f is s"
    and p: "perform L i s = (Inr (), s')" and valid: "validate_persisted s' = Inr ()"
    and step: "run_step L i s = s'"
  have "provenance L f (is @ [i]) s'"
    using perform_transition [OF p] old by (auto intro: provenance_step provenance_later)
  with old p valid step show "s' = run_of L f (is @ [i]) \<and> run_ok f s' \<and> provenance L f (is @ [i]) s'"
    by (auto intro: run_ok_perform)
qed

end
