(* ===== verification/Run_Progress.thy ===== *)
theory Run_Progress
  imports Run_Provenance
begin

text \<open>
  Progress of a run: a rank that every effective message lowers, so that the reviews of a run are
  bounded; and the proof that a save never refuses the result of an operation on a run that is not yet
  accepted.
\<close>

subsection \<open>Rank\<close>

text \<open>
  The number of effective messages a run can still take: two contracts, two messages in each round of
  the plan review, then four in each round of the integration (result, evidence, approval, request for
  changes). The repeated approval of an approved result changes nothing.
\<close>

definition rounds_left :: "run_state \<Rightarrow> nat" where
  "rounds_left s = unat (max_review_rounds s) - unat (round s)"

definition rank :: "run_state \<Rightarrow> nat" where
  "rank s =
     (let most = unat (max_review_rounds s); left = rounds_left s
      in case next_action s of
           RequestPrimaryContract \<Rightarrow> 6 * most + 2
         | RequestReviewerContract \<Rightarrow> 6 * most + 1
         | RequestPrimaryPlan \<Rightarrow> 4 * most + 2 * left + 2
         | RequestReviewerPlanVerdict \<Rightarrow> 4 * most + 2 * left + 1
         | RequestPrimaryIntegration \<Rightarrow>
             (if integration_sha s = None then 4 * most else 4 * left + 4)
         | RequestPrimaryVerification \<Rightarrow> 4 * left + 3
         | RequestReviewerResultVerdict \<Rightarrow> 4 * left + 2
         | RevalidateAndAccept \<Rightarrow> 4 * left + 1
         | WaitForUser \<Rightarrow> 0
         | Stop \<Rightarrow> 0)"

fun is_message :: "run_input \<Rightarrow> bool" where
  "is_message (Message m) = True"
| "is_message _ = False"

lemma rounds_left_inc:
  "round s < max_review_rounds s \<Longrightarrow> rounds_left s = Suc (unat (max_review_rounds s) - unat (round s + 1))"
  by (simp add: rounds_left_def unat_inc word_less_nat_alt Suc_diff_Suc)

lemma current_running: "current_message L message m s \<Longrightarrow> status s = SRunning"
  by (simp add: current_message_def accepted_message_def)

lemma running_action:
  "phase_coherent s \<Longrightarrow> status s = SRunning \<Longrightarrow> action_phase (next_action s) = Some (phase s)"
  by (simp add: phase_coherent_def active_def)

lemma action_phase_simps:
  "action_phase a = Some PlanReview \<longleftrightarrow> a \<in> {RequestPrimaryPlan, RequestReviewerPlanVerdict}"
  "action_phase a = Some Integrate \<longleftrightarrow> a = RequestPrimaryIntegration"
  "action_phase a = Some Verify \<longleftrightarrow> a = RequestPrimaryVerification"
  "action_phase a = Some ResultReview \<longleftrightarrow> a \<in> {RequestReviewerResultVerdict, RevalidateAndAccept}"
  by (cases a; simp)+

lemma review_integration:
  "integration_ok s \<Longrightarrow> status s = SRunning \<Longrightarrow> phase s \<in> {Verify, ResultReview} \<Longrightarrow> integration_sha s \<noteq> None"
  "integration_ok s \<Longrightarrow> status s = SRunning \<Longrightarrow> phase s = PlanReview \<Longrightarrow> integration_sha s = None"
  by (auto simp: integration_ok_def active_def split: option.splits)

lemma rank_block [simp]: "rank (block r s) = 0"
  by (simp add: rank_def block_def Let_def)

lemma rank_positive:
  "phase_coherent s \<Longrightarrow> rounds_ok s \<Longrightarrow> status s = SRunning \<Longrightarrow> 0 < rank s"
  by (cases "next_action s")
     (auto simp: rank_def Let_def phase_coherent_def active_def rounds_ok_def)

lemma rank_message:
  assumes "transition L (Message message) s s'" and ok: "run_ok f s" and "s' \<noteq> s"
  shows "rank s' < rank s"
proof -
  have pc: "phase_coherent s" and int: "integration_ok s" and rd: "rounds_ok s" and ev: "evidence_ok s"
    using ok by (simp_all add: run_ok_def)
  have most: "1 \<le> unat (round s)" "unat (round s) \<le> unat (max_review_rounds s)"
    using rd by (simp_all add: rounds_ok_def)
  note r = rank_def Let_def rounds_left_def
  from assms(1) show ?thesis
  proof cases
    case (verification_ready m ev)
    then have a: "next_action s = RequestPrimaryVerification"
      using running_action [OF pc current_running] by (auto simp: action_phase_simps)
    from verification_ready rank_positive [OF pc rd current_running] show ?thesis
      by (cases rule: verification_outcome_cases [of ev s m])
         (auto simp: rank_def Let_def a block_def rounds_left_inc, simp_all add: rounds_left_def)
  next
    case (changes_required m)
    have running: "status s = SRunning" by (rule current_running) fact
    have pos: "0 < rank s" by (rule rank_positive [OF pc rd running])
    show ?thesis
    proof (cases rule: changes_outcome_cases [of L m s])
      case (plan_again fp)
      then have "next_action s \<in> {RequestPrimaryPlan, RequestReviewerPlanVerdict}"
        using running_action [OF pc running] by (auto simp: action_phase_simps)
      with plan_again changes_required show ?thesis
        by (auto simp: rank_def Let_def rounds_left_inc) (simp_all add: rounds_left_def)
    next
      case (integrate_again fp)
      then have p: "phase s = ResultReview" using changes_required by simp
      then have "next_action s \<in> {RequestReviewerResultVerdict, RevalidateAndAccept}"
        using running_action [OF pc running] by (auto simp: action_phase_simps)
      moreover have "integration_sha s \<noteq> None" using review_integration(1) [OF int running] p by simp
      ultimately show ?thesis using integrate_again changes_required
        by (auto simp: rank_def Let_def rounds_left_inc) (simp_all add: rounds_left_def)
    qed (use changes_required pos in simp_all)
  next
    case (result_approval m)
    have running: "status s = SRunning" by (rule current_running) fact
    then have "next_action s \<in> {RequestReviewerResultVerdict, RevalidateAndAccept}"
      using running_action [OF pc running] result_approval by (auto simp: action_phase_simps)
    moreover have "next_action s \<noteq> RevalidateAndAccept"
    proof
      assume a: "next_action s = RevalidateAndAccept"
      then have "result_approved_sha s = integration_sha s" using ev by (simp add: evidence_ok_def)
      then have "s' = s" using result_approval a by simp
      with assms(3) show False ..
    qed
    ultimately show ?thesis using result_approval by (simp add: r)
  next
    case (integration_ready m branch sha)
    then have "next_action s = RequestPrimaryIntegration"
      using running_action [OF pc current_running] by (auto simp: action_phase_simps)
    with integration_ready most show ?thesis by (auto simp: r)
  next
    case (plan_approval m h)
    have running: "status s = SRunning" by (rule current_running) fact
    then have "next_action s \<in> {RequestPrimaryPlan, RequestReviewerPlanVerdict}"
      using running_action [OF pc running] plan_approval by (auto simp: action_phase_simps)
    moreover have "integration_sha s = None" using review_integration(2) [OF int running] plan_approval by simp
    ultimately show ?thesis using plan_approval by (auto simp: r)
  next
    case (participant_blocked m)
    with rank_positive [OF pc rd current_running] show ?thesis by simp
  qed (use most in \<open>auto simp: r\<close>)
qed

lemma rank_other:
  "transition L i s s' \<Longrightarrow> \<not> is_message i \<Longrightarrow> \<not> is_recovery i \<Longrightarrow> rank s' \<le> rank s"
  by (erule transition.cases) (auto simp: rank_def Let_def rounds_left_def state_ops)

lemma rank_step:
  assumes "run_ok f s" and "\<not> is_recovery i"
  shows "rank (run_step L i s) + (if is_message i \<and> run_step L i s \<noteq> s then 1 else 0) \<le> rank s"
proof (cases rule: run_step_cases [of L i s])
  case refused
  then show ?thesis by simp
next
  case performed
  show ?thesis
  proof (cases "run_step L i s = s")
    case True
    then show ?thesis by simp
  next
    case False
    then have t: "transition L i s (run_step L i s)" using perform_transition performed(1) by blast
    show ?thesis
    proof (cases i)
      case (Message m)
      with t have "transition L (Message m) s (run_step L i s)" by simp
      from rank_message [OF this assms(1) False] Message False show ?thesis by simp
    qed (use rank_other [OF t] assms(2) in simp_all)
  qed
qed

text \<open>The messages that have an effect, in a run that starts from a state.\<close>

fun effective_messages :: "libs \<Rightarrow> run_state \<Rightarrow> run_input list \<Rightarrow> nat" where
  "effective_messages L s [] = 0"
| "effective_messages L s (i # is) =
     (if is_message i \<and> run_step L i s \<noteq> s then 1 else 0) + effective_messages L (run_step L i s) is"

lemma run_ok_run_step: "run_ok f s \<Longrightarrow> run_ok f (run_step L i s)"
  by (cases rule: run_step_cases [of L i s]) (auto intro: run_ok_perform)

lemma effective_messages_rank:
  "run_ok f s \<Longrightarrow> list_all (\<lambda>i. \<not> is_recovery i) is \<Longrightarrow> effective_messages L s is \<le> rank s"
proof (induction "is" arbitrary: s)
  case (Cons i "is")
  then have "effective_messages L (run_step L i s) is \<le> rank (run_step L i s)"
    by (simp add: run_ok_run_step)
  with rank_step [OF Cons.prems(1), of i L] Cons.prems(2) show ?case by simp
qed simp

subsection \<open>Saving\<close>

lemma run_ok_persistable: "run_ok f s \<Longrightarrow> validate_persisted s = Inr ()"
proof -
  assume ok: "run_ok f s"
  have pc: "phase_coherent s" and int: "integration_ok s" and ev: "evidence_ok s" and acc: "acceptance_ok s"
    and fixed: "schema_version s = RUN_STATE_SCHEMA_VERSION"
    using ok by (simp_all add: run_ok_def fixed_fields_def)
  have "validate_terminal s = Inr ()"
    using pc ev acc
    by (auto simp: validate_terminal_def outcome evidence_ok_def acceptance_ok_def phase_coherent_def
        active_def accepted_result_eq_def evidence_eq_def list.rel_refl)
  moreover have "next_action s \<in> {RequestPrimaryVerification, RequestReviewerResultVerdict, RevalidateAndAccept}
      \<Longrightarrow> current_integration_payload s \<noteq> None \<and> integration_branch s \<noteq> None \<and> integration_sha s \<noteq> None"
    using pc int by (auto simp: phase_coherent_def integration_ok_def split: option.splits if_splits)
  ultimately show ?thesis
    using fixed ev by (auto simp: validate_persisted_def outcome evidence_ok_def)
qed

lemma acceptance_ok_unaccepted:
  assumes "transition L i s s'" and ok: "acceptance_ok s" and unacc: "status s \<noteq> SAccepted"
  shows "acceptance_ok s'"
  using assms(1)
proof cases
  case (verification_ready message m ev)
  with ok unacc show ?thesis
    by (cases rule: verification_outcome_cases [of ev s m]) (auto simp: acceptance_ok_def block_def)
next
  case (changes_required message m)
  with ok unacc show ?thesis
    by (cases rule: changes_outcome_cases [of L m s]) (auto simp: acceptance_ok_def block_def)
next
  case (accepting branch sha)
  then show ?thesis by (simp add: acceptance_ok_def result_of_def)
qed (use ok unacc in \<open>auto simp: acceptance_ok_def state_ops\<close>)

lemma perform_persistable:
  assumes ok: "run_ok f s" and p: "perform L i s = (Inr (), s')" and unacc: "status s \<noteq> SAccepted"
  shows "run_ok f s'" "validate_persisted s' = Inr ()"
proof -
  show "run_ok f s'"
  proof (cases "s' = s")
    case True
    with ok show ?thesis by simp
  next
    case False
    then have t: "transition L i s s'" using perform_transition [OF p] by simp
    with ok unacc show ?thesis unfolding run_ok_def
      by (blast intro: fixed_fields_step phase_coherent_step integration_ok_step rounds_ok_step
          evidence_ok_step acceptance_ok_unaccepted)
  qed
  then show "validate_persisted s' = Inr ()" by (rule run_ok_persistable)
qed

end
