(* ===== verification/Run_Refinement.thy ===== *)
theory Run_Refinement
  imports Run_Progress
begin

text \<open>
  The consensus protocol a run implements, stated without messages, hashes and payloads: whose turn
  it is and in which round. The stored run refines it. The file also proves what a run freezes when an
  integration exists, that an accepted run is final, and that a repeated review stops a run.
\<close>

datatype consensus = Turn next_action nat | Finished | Halted

text \<open>\<open>consensus_step most\<close>: the steps of the protocol with at most \<open>most\<close> rounds of review.\<close>

inductive consensus_step :: "nat \<Rightarrow> consensus \<Rightarrow> consensus \<Rightarrow> bool" for most :: nat where
  first_contract: "consensus_step most (Turn RequestPrimaryContract n) (Turn RequestReviewerContract n)"
| second_contract: "consensus_step most (Turn RequestReviewerContract n) (Turn RequestPrimaryPlan 1)"
| propose: "consensus_step most (Turn RequestPrimaryPlan n) (Turn RequestReviewerPlanVerdict n)"
| revise: "a \<in> {RequestPrimaryPlan, RequestReviewerPlanVerdict} \<Longrightarrow> n < most \<Longrightarrow>
    consensus_step most (Turn a n) (Turn RequestPrimaryPlan (n + 1))"
| agree: "a \<in> {RequestPrimaryPlan, RequestReviewerPlanVerdict} \<Longrightarrow>
    consensus_step most (Turn a n) (Turn RequestPrimaryIntegration n)"
| integrate_first: "consensus_step most (Turn RequestPrimaryIntegration n) (Turn RequestPrimaryVerification 1)"
| integrate_next: "consensus_step most (Turn RequestPrimaryIntegration n) (Turn RequestPrimaryVerification n)"
| verify: "consensus_step most (Turn RequestPrimaryVerification n) (Turn RequestReviewerResultVerdict n)"
| verify_failed: "n < most \<Longrightarrow>
    consensus_step most (Turn RequestPrimaryVerification n) (Turn RequestPrimaryIntegration (n + 1))"
| endorse: "consensus_step most (Turn RequestReviewerResultVerdict n) (Turn RevalidateAndAccept n)"
| reject: "a \<in> {RequestReviewerResultVerdict, RevalidateAndAccept} \<Longrightarrow> n < most \<Longrightarrow>
    consensus_step most (Turn a n) (Turn RequestPrimaryIntegration (n + 1))"
| finish: "consensus_step most (Turn RevalidateAndAccept n) Finished"
| halt: "c \<noteq> Finished \<Longrightarrow> consensus_step most c Halted"
| reopen: "consensus_step most Halted (Turn a n)"

inductive_cases into_finishedE: "consensus_step most c Finished"
inductive_simps from_finished: "consensus_step most Finished c"

definition abstraction :: "run_state \<Rightarrow> consensus" where
  "abstraction s =
     (if status s = SAccepted then Finished
      else if active s then Turn (next_action s) (unat (round s)) else Halted)"

definition refines_step :: "run_state \<Rightarrow> run_state \<Rightarrow> bool" where
  "refines_step s s' \<longleftrightarrow>
     abstraction s' = abstraction s
     \<or> consensus_step (unat (max_review_rounds s)) (abstraction s) (abstraction s')"

lemma abstraction_running: "status s = SRunning \<Longrightarrow> abstraction s = Turn (next_action s) (unat (round s))"
  by (simp add: abstraction_def active_def)

lemma refines_halt:
  "status s \<noteq> SAccepted \<Longrightarrow> status s' \<in> {SBlocked, SCancelled, SIncompatibleCodex} \<Longrightarrow> refines_step s s'"
  by (auto simp: refines_step_def abstraction_def active_def intro!: halt)

lemma refines_block [intro]: "status s \<noteq> SAccepted \<Longrightarrow> refines_step s (block r s')"
  by (rule refines_halt) (simp_all add: block_def)

lemma transition_refines:
  assumes "transition L i s s'" and ok: "run_ok f s" and unacc: "status s \<noteq> SAccepted"
  shows "refines_step s s'"
proof -
  have pc: "phase_coherent s" using ok by (simp add: run_ok_def)
  note run = current_running abstraction_running
  have turn: "abstraction s = Turn (next_action s) (unat (round s))"
    and act: "action_phase (next_action s) = Some (phase s)" if "status s = SRunning"
    using that running_action [OF pc] by (simp_all add: abstraction_running)
  note d = refines_step_def abstraction_def active_def
  from assms(1) show ?thesis
  proof cases
    case (verification_ready message m ev)
    have running: "status s = SRunning" by (rule current_running) fact
    have a: "next_action s = RequestPrimaryVerification"
      using act [OF running] verification_ready by (simp add: action_phase_simps)
    show ?thesis
    proof (cases rule: verification_outcome_cases [of ev s m])
      case corrective
      then show ?thesis using verification_ready running a
        by (auto simp: d unat_inc word_less_nat_alt intro: verify_failed [unfolded Suc_eq_plus1 [symmetric]])
    next
      case passed
      then show ?thesis using verification_ready running a by (auto simp: d intro: verify)
    qed (use verification_ready unacc in auto)
  next
    case (changes_required message m)
    have running: "status s = SRunning" by (rule current_running) fact
    show ?thesis
    proof (cases rule: changes_outcome_cases [of L m s])
      case (plan_again fp)
      then have "next_action s \<in> {RequestPrimaryPlan, RequestReviewerPlanVerdict}"
        using act [OF running] by (auto simp: action_phase_simps)
      with plan_again changes_required running show ?thesis
        by (auto simp: d unat_inc word_less_nat_alt intro: revise [unfolded Suc_eq_plus1 [symmetric]])
    next
      case (integrate_again fp)
      then have "phase s = ResultReview" using changes_required by simp
      then have "next_action s \<in> {RequestReviewerResultVerdict, RevalidateAndAccept}"
        using act [OF running] by (auto simp: action_phase_simps)
      with integrate_again changes_required running show ?thesis
        by (auto simp: d unat_inc word_less_nat_alt intro: reject [unfolded Suc_eq_plus1 [symmetric]])
    qed (use changes_required unacc in auto)
  next
    case (plan_approval message m h)
    have running: "status s = SRunning" by (rule current_running) fact
    then have "next_action s \<in> {RequestPrimaryPlan, RequestReviewerPlanVerdict}"
      using act [OF running] plan_approval by (auto simp: action_phase_simps)
    with plan_approval running show ?thesis by (auto simp: d intro: agree)
  next
    case (integration_ready message m branch sha)
    have running: "status s = SRunning" by (rule current_running) fact
    then have "next_action s = RequestPrimaryIntegration"
      using act [OF running] integration_ready by (auto simp: action_phase_simps)
    with integration_ready running show ?thesis
      by (auto simp: d intro: integrate_first [unfolded One_nat_def] integrate_next)
  next
    case (result_approval message m)
    have running: "status s = SRunning" by (rule current_running) fact
    then have "next_action s \<in> {RequestReviewerResultVerdict, RevalidateAndAccept}"
      using act [OF running] result_approval by (auto simp: action_phase_simps)
    with result_approval running show ?thesis by (auto simp: d intro: endorse)
  next
    case (recovered at k)
    then show ?thesis by (auto simp: d reopened_def intro: reopen)
  next
    case (participant_blocked message m)
    with unacc show ?thesis by auto
  next
    case step_limit
    with unacc show ?thesis by auto
  next
    case (failure_blocked d reason)
    with unacc show ?thesis by auto
  next
    case (failure_incompatible d reason)
    with unacc show ?thesis by (auto simp: mark_incompatible_def intro: refines_halt)
  next
    case cancelled
    with unacc show ?thesis by (auto simp: cancel_def intro: refines_halt)
  qed (auto simp: d current_message_def accepted_message_def
         intro: consensus_step.intros second_contract [unfolded One_nat_def])
qed

subsection \<open>An accepted run is final\<close>

lemma accepted_step:
  assumes ok: "run_ok f s" and acc: "status s = SAccepted"
  shows "run_step L i s = s"
proof (cases rule: run_step_cases [of L i s])
  case performed
  show ?thesis
  proof (rule ccontr)
    assume "run_step L i s \<noteq> s"
    then have t: "transition L i s (run_step L i s)" using perform_transition performed(1) by blast
    have "accepted_result s \<noteq> None" using ok acc by (simp add: run_ok_def acceptance_ok_def)
    with t acc have "accepted_result (run_step L i s) \<noteq> None \<and> status (run_step L i s) \<noteq> SAccepted"
      by cases (auto simp: state_ops current_message_def accepted_message_def)
    with validate_persisted_accepted [OF performed(2)] show False by simp
  qed
qed

lemma accepted_final:
  "run_ok f s \<Longrightarrow> status s = SAccepted \<Longrightarrow> fold (run_step L) is s = s"
  by (induction "is") (simp_all add: accepted_step)

subsection \<open>What an integration freezes\<close>

definition frozen_part :: "run_state \<Rightarrow> run_facts \<times> string option \<times> string list \<times> 32 word option" where
  "frozen_part s = (facts s, target_integration_branch s, required_test_commands s, plan_revision s)"

definition frozen_plan :: "run_state \<Rightarrow> json option \<times> string option \<times> json option \<times> bool" where
  "frozen_plan s = (current_plan_payload s, current_plan_hash s, plan_approval_payload s, plan_approved s)"

lemma integration_freezes_step:
  assumes "transition L i s s'" and int: "integration_ok s" "integration_sha s \<noteq> None"
  shows "integration_sha s' \<noteq> None \<and> frozen_part s' = frozen_part s \<and> frozen_plan s' = frozen_plan s"
proof -
  have ph: "phase s \<notin> {Contract, PlanReview}" if "status s = SRunning"
    using int that by (auto simp: integration_ok_def active_def split: option.splits)
  note d = frozen_part_def frozen_plan_def
  from assms(1) show ?thesis
  proof cases
    case (verification_ready message m ev)
    with int show ?thesis
      by (cases rule: verification_outcome_cases [of ev s m]) (auto simp: d block_def)
  next
    case (changes_required message m)
    with int ph [OF current_running [OF changes_required(3)]] show ?thesis
      by (cases rule: changes_outcome_cases [of L m s]) (auto simp: d block_def)
  next
    case (plan_approval message m h)
    with int ph show ?thesis
      by (auto simp: d integration_ok_def current_message_def accepted_message_def split: option.splits)
  qed (use int ph in \<open>auto simp: d state_ops current_message_def accepted_message_def\<close>)
qed

lemma integration_freezes:
  assumes "run_ok f s" and "integration_sha s \<noteq> None"
  shows "integration_sha (fold (run_step L) is s) \<noteq> None
     \<and> frozen_part (fold (run_step L) is s) = frozen_part s
     \<and> frozen_plan (fold (run_step L) is s) = frozen_plan s"
  using assms
proof (induction "is" arbitrary: s)
  case (Cons i "is")
  have "integration_sha (run_step L i s) \<noteq> None \<and> frozen_part (run_step L i s) = frozen_part s
      \<and> frozen_plan (run_step L i s) = frozen_plan s"
  proof (cases rule: run_step_cases [of L i s])
    case performed
    then consider "run_step L i s = s" | "transition L i s (run_step L i s)"
      using perform_transition by blast
    then show ?thesis
    proof cases
      case 2
      from integration_freezes_step [OF this] Cons.prems show ?thesis by (simp add: run_ok_def)
    qed (use Cons.prems in simp_all)
  qed (use Cons.prems in simp_all)
  with Cons.IH [OF run_ok_run_step [OF Cons.prems(1)]] show ?case by simp
qed simp

subsection \<open>Reviews without progress\<close>

lemma unat_saturating_inc: "unat (saturating_inc w) = min (Suc (unat w)) 255"
proof (cases "w = - 1")
  case True
  have "unat (- 1 :: 8 word) = 255" by code_simp
  with True show ?thesis by (simp add: saturating_inc_def)
next
  case False
  then have "1 + w \<noteq> 0" by (metis eq_neg_iff_add_eq_0 add.commute)
  then have "unat (w + 1) = Suc (unat w)" using unatSuc [of w] by (simp add: add.commute)
  moreover have "unat w < 255"
  proof -
    have "(255 :: 8 word) = - 1" by code_simp
    then have "unat w \<noteq> 255" using False by (metis of_nat_numeral of_nat_unat ucast_id)
    moreover have "unat w < 256" by (rule order.strict_trans2 [OF unsigned_less]) simp
    ultimately show ?thesis by simp
  qed
  ultimately show ?thesis using False by (simp add: saturating_inc_def)
qed

definition review_counted :: "run_state \<Rightarrow> bool" where
  "review_counted s \<longleftrightarrow> (last_review_fingerprint s \<noteq> None \<longrightarrow> 1 \<le> unat (unchanged_review_streak s))"

lemma unat_next_streak:
  "review_counted s \<Longrightarrow>
     (if last_review_fingerprint s = Some fp then 2 \<le> unat (next_streak fp s) else unat (next_streak fp s) = 1)"
  by (auto simp: review_counted_def next_streak_def unat_saturating_inc)

lemma next_streak_counted: "review_counted s \<Longrightarrow> 1 \<le> unat (next_streak fp s)"
  using unat_next_streak [of s fp] by (simp split: if_splits)

lemma review_counted_step:
  assumes "transition L i s s'" and ok: "review_counted s"
  shows "review_counted s'"
  using assms(1)
proof cases
  case (verification_ready message m ev)
  with ok show ?thesis
    by (cases rule: verification_outcome_cases [of ev s m]) (auto simp: review_counted_def block_def)
next
  case (changes_required message m)
  note counted = next_streak_counted [OF ok]
  from changes_required counted show ?thesis
    by (cases rule: changes_outcome_cases [of L m s]) (auto simp: review_counted_def block_def)
qed (use ok in \<open>auto simp: review_counted_def state_ops\<close>)

interpretation counted: run_invariant L f "\<lambda>_. review_counted" for L f
proof unfold_locales
  show "review_counted (new_run f)" by (simp add: review_counted_def new_run_def)
next
  fix s i s' assume "review_counted s" "perform L i s = (Inr (), s')"
  then show "review_counted s'" using perform_transition review_counted_step by blast
qed

lemma progress_stalled_iff:
  assumes "run_ok f s" and "review_counted s"
  shows "progress_stalled L m s \<longleftrightarrow>
    last_review_fingerprint s = Some (review_fingerprint L s (payload m))"
  using assms unat_next_streak [of s "review_fingerprint L s (payload m)"]
  by (auto simp: progress_stalled_def run_ok_def fixed_fields_def DEFAULT_NO_PROGRESS_ROUNDS_def
      word_le_nat_alt split: if_splits)

end
