(* ===== verification/Run_Example.thy ===== *)
theory Run_Example
  imports Run_Refinement
begin

text \<open>
  A concrete run on which the properties of runs are evaluated: a configured run that goes through
  contracts, plan, approval, integration, verification and result approval to acceptance. The
  functions of other crates are instantiated with simple ones: every value hashes to the same digest
  and every message satisfies the schema.
\<close>

definition example_digest :: string where
  "example_digest = ''aaaaaaaaaaaaaaaaaaaaaaaaaaaaaaaaaaaaaaaaaaaaaaaaaaaaaaaaaaaaaaaa''"

definition example_libs :: libs where
  "example_libs = \<lparr>to_vec = (\<lambda>_. ''''), sha256_hex = (\<lambda>_. example_digest), schema_errors = (\<lambda>_. []),
     uuid_text = (\<lambda>_. ''id''), uuid_parse = (\<lambda>_. Some 1), decode_error_text = (\<lambda>_. ''''),
     entry_error_text = (\<lambda>_. '''')\<rparr>"

definition example_facts :: run_facts where
  "example_facts = \<lparr>rf_run_id = 1, rf_primary_thread_id = ''p'', rf_reviewer_thread_id = ''r'',
     rf_primary_worktree = ''/p'', rf_reviewer_worktree = ''/r'', rf_git_common_dir = ''/g'',
     rf_primary_sha = ''a'', rf_reviewer_sha = ''b'', rf_primary_ref = None, rf_reviewer_ref = None\<rparr>"

definition example_message ::
  "message_type \<Rightarrow> message_phase \<Rightarrow> 32 word \<Rightarrow> 32 word option \<Rightarrow> (string \<times> string) option \<Rightarrow> string option \<Rightarrow>
     (string \<times> json) list \<Rightarrow> protocol_message" where
  "example_message ty ph r revision integration reason p = \<lparr>envelope =
     \<lparr>env_protocol = PROTOCOL_V1, env_run_id = 1, env_message_type = ty, env_phase = ph, env_round = r,
      env_primary_sha = ''a'', env_reviewer_sha = ''b'', env_plan_revision = revision,
      env_integration_branch = map_option fst integration,
      env_integration_sha = map_option snd integration, env_reason_code = reason\<rparr>,
     payload = json_object p\<rparr>"

definition contract_message :: protocol_message where
  "contract_message = example_message MContractReady MContract 1 None None None
     [(''contract'', json_object [(''tests'', JArr [JStr ''t''])])]"

definition plan_message :: protocol_message where
  "plan_message = example_message MPlanReady MPlanReview 1 (Some 1) None None
     [(''primary_contract'', JObj []), (''reviewer_contract'', JObj []), (''plan'', JObj []),
      (''coverage_matrix'', JArr []), (''test_commands'', JArr [JStr ''t''])]"

definition approval_fields :: "(string \<times> json) list" where
  "approval_fields = [(''approved_plan_revision'', JInt 1), (''approved_primary_sha'', JStr ''a''),
     (''approved_reviewer_sha'', JStr ''b''), (''uncovered_items'', JArr [])]"

definition plan_approval_message :: protocol_message where
  "plan_approval_message = example_message MApprovedPlan MPlanReview 1 (Some 1) None None
     ((''approved_plan_hash'', JStr example_digest) # approval_fields)"

definition integration_message :: protocol_message where
  "integration_message = example_message MIntegrationReady MIntegrate 1 (Some 1) (Some (''i'', ''c'')) None []"

definition verification_message :: protocol_message where
  "verification_message = example_message MIntegrationReady MVerify 1 (Some 1) (Some (''i'', ''c'')) None
     [(''test_evidence'', JArr [test_evidence_value
        \<lparr>te_command = ''t'', te_exit_code = 0, te_turn_id = ''u'', te_item_id = ''v'', te_cwd = ''/v''\<rparr>])]"

definition result_approval_message :: protocol_message where
  "result_approval_message = example_message MApprovedResult MResultReview 1 (Some 1) (Some (''i'', ''c'')) None
     ((''approved_integration_branch'', JStr ''i'') # (''approved_integration_sha'', JStr ''c'') # approval_fields)"

definition planning_inputs :: "run_input list" where
  "planning_inputs =
     [Configure ''i'' [''t''], Message contract_message, Message contract_message, Message plan_message]"

definition example_inputs :: "run_input list" where
  "example_inputs = planning_inputs @
     [Message plan_approval_message, Message integration_message,
      PrepareVerification ''/v'' (Inr ''/v''), Message verification_message,
      Message result_approval_message]"

abbreviation example_run :: "run_input list \<Rightarrow> run_state" where
  "example_run \<equiv> run_of example_libs example_facts"

definition plan_changes_message :: protocol_message where
  "plan_changes_message = example_message MChangesRequired MPlanReview 1 (Some 1) None (Some ''R'') []"

definition repeated_changes_message :: protocol_message where
  "repeated_changes_message = example_message MChangesRequired MPlanReview 2 (Some 2) None (Some ''R'') []"

definition self_approval_message :: protocol_message where
  "self_approval_message = example_message MApprovedPlan MPlanReview 2 (Some 2) None None
     [(''approved_plan_hash'', JStr example_digest), (''approved_plan_revision'', JInt 2),
      (''approved_primary_sha'', JStr ''a''), (''approved_reviewer_sha'', JStr ''b''),
      (''uncovered_items'', JArr [])]"

definition rejected_inputs :: "run_input list" where
  "rejected_inputs = planning_inputs @ [Message plan_changes_message]"

definition tool_failure :: run_diagnostic where
  "tool_failure = \<lparr>rd_code = ''EXECUTION_TOOL_UNAVAILABLE'', rd_detail = '''', rd_operation = None,
     rd_action = RequestPrimaryIntegration, rd_role = Some Primary, rd_thread_id = Some ''p'',
     rd_source_thread_id = None, rd_effective_thread_id = None,
     rd_participant_binding_generation = None, rd_participant_binding_mode = None,
     rd_participant_server = None\<rparr>"

definition blocked_inputs :: "run_input list" where
  "blocked_inputs = planning_inputs @ [Message plan_approval_message, DriveFailure tool_failure]"

lemma accepted_example:
  "let s = example_run (example_inputs @ [AcceptRevalidated])
   in status s = SAccepted \<and> integration_sha s = Some ''c''"
  by code_simp

lemma rejected_example:
  "let s = example_run rejected_inputs
   in status s = SRunning \<and> phase s = PlanReview \<and> next_action s = RequestPrimaryPlan
      \<and> round s = 2 \<and> plan_revision s = Some 2 \<and> last_plan_feedback s = Some (payload plan_changes_message)
      \<and> last_review_fingerprint s = Some example_digest"
  by code_simp

lemma blocked_example:
  "let s = example_run blocked_inputs
   in status s = SBlocked \<and> next_action s = Stop
      \<and> fst (recover example_libs IntegrationExecutionToolUnavailable s) = Inr RequestPrimaryIntegration"
  by code_simp

end
