(* ===== verification/Run_Properties.thy ===== *)
theory Run_Properties
  imports Run_Example
begin

text \<open>
  The properties of stored runs: acceptance, provenance, progress, freezing, persistence and recovery.
  Each is stated for every run the daemon can store, \<open>run_of L f is\<close>, and follows from the invariants
  of \<open>Run_Invariants\<close>, \<open>Run_Provenance\<close>, \<open>Run_Progress\<close> and \<open>Run_Refinement\<close>.
\<close>

lemma run_ok_always: "run_ok f (run_of L f is)"
  by (rule well_formed.always)

lemma run_of_append: "run_of L f (is @ js) = fold (run_step L) js (run_of L f is)"
  by (simp add: run_of_def)

subsection \<open>Acceptance\<close>

text \<open>
  C1: A run is accepted only if all three agreements exist. The accepted result names the recorded
  integration branch and SHA and the frozen source SHAs; every frozen test command has exactly one
  terminal evidence entry and every exit code is zero; and among the messages of the run, all for the
  frozen sources, are an APPROVED_PLAN that bound the canonical hash of the recorded plan, an
  INTEGRATION_READY that reported exactly this evidence while this SHA was being verified, and an
  APPROVED_RESULT for exactly this branch, SHA, round and plan revision, which arrived when the run
  already held this evidence.
\<close>

theorem accepted_run_agreed:
  assumes "status (run_of L f is) = SAccepted"
  shows "\<exists>branch sha. let s = run_of L f is in
     integration_branch s = Some branch \<and> integration_sha s = Some sha
     \<and> accepted_result s = Some (result_of s branch sha)
     \<and> evidence_complete (required_test_commands s) (test_evidence s)
     \<and> list_all (\<lambda>e. te_exit_code e = 0) (test_evidence s)
     \<and> received L f is (approves_plan f (plan_approval_payload s))
     \<and> received L f is (reports_evidence L f (Some sha) (test_evidence s))
     \<and> received L f is (approves_result f s)"
proof -
  let ?s = "run_of L f is"
  have all: "?s = run_of L f is \<and> run_ok f ?s \<and> provenance L f is ?s" by (rule traced.always)
  then have prov: "provenance L f is ?s" by simp
  from all have int: "integration_ok ?s" and ev: "evidence_ok ?s" and acc: "acceptance_ok ?s"
    by (simp_all add: run_ok_def)
  from acc assms obtain branch sha where r:
    "integration_branch ?s = Some branch" "integration_sha ?s = Some sha"
    "accepted_result ?s = Some (result_of ?s branch sha)" "result_approved_sha ?s = Some sha"
    by (auto simp: acceptance_ok_def)
  with ev have e: "test_evidence ?s \<noteq> []" "\<not> some_failed (test_evidence ?s)"
    "evidence_complete (required_test_commands ?s) (test_evidence ?s)"
    by (auto simp: evidence_ok_def)
  have "list_all (\<lambda>e. te_exit_code e = 0) (test_evidence ?s)"
    using e(2) by (simp add: some_failed_def list_ex_iff list_all_iff)
  moreover have "plan_approved ?s" using int r by (simp add: integration_ok_def)
  ultimately show ?thesis using r e prov by (auto simp: provenance_def Let_def)
qed

theorem accepted_run_agreed_witness:
  "\<exists>branch sha. let is = example_inputs @ [AcceptRevalidated]; s = example_run is in
     integration_branch s = Some branch \<and> integration_sha s = Some sha
     \<and> accepted_result s = Some (result_of s branch sha)
     \<and> evidence_complete (required_test_commands s) (test_evidence s)
     \<and> list_all (\<lambda>e. te_exit_code e = 0) (test_evidence s)
     \<and> received example_libs example_facts is (approves_plan example_facts (plan_approval_payload s))
     \<and> received example_libs example_facts is
         (reports_evidence example_libs example_facts (Some sha) (test_evidence s))
     \<and> received example_libs example_facts is (approves_result example_facts s)"
proof -
  have "status (example_run (example_inputs @ [AcceptRevalidated])) = SAccepted"
    using accepted_example by (simp add: Let_def)
  from accepted_run_agreed [OF this] show ?thesis unfolding Let_def .
qed

text \<open>
  C4: An accepted run is final: no message, failure, cancellation, recovery or other operation of the
  daemon changes its stored state.
\<close>

theorem accepted_run_final:
  assumes "status (run_of L f is) = SAccepted"
  shows "run_of L f (is @ js) = run_of L f is"
  using accepted_final [OF run_ok_always assms] by (simp add: run_of_append)

theorem accepted_run_final_witness:
  "run_of example_libs example_facts ((example_inputs @ [AcceptRevalidated]) @ [Cancel, StepLimit])
     = run_of example_libs example_facts (example_inputs @ [AcceptRevalidated])"
  by (rule accepted_run_final) (use accepted_example in \<open>simp add: Let_def\<close>)


subsection \<open>Well-formed runs\<close>

text \<open>
  C3: In every stored run the pending action belongs to the phase, an integration is recorded as a
  whole and only under an approved plan, evidence is complete for the frozen commands, the approved
  SHA is the integration SHA, the limits and the facts are those the run started with, and the check
  of a persisted state succeeds.
\<close>

theorem stored_run_well_formed:
  "run_ok f (run_of L f is) \<and> validate_persisted (run_of L f is) = Inr ()"
  using run_ok_always run_ok_persistable by blast

text \<open>
  C31: Rounds and plan revisions of a stored run stay between 1 and the limit of 6, so the additions
  \<open>self.round += 1\<close> and \<open>revision + 1\<close> on \<open>u32\<close> never wrap around.
\<close>

theorem rounds_bounded:
  "1 \<le> unat (round (run_of L f is)) \<and> unat (round (run_of L f is)) \<le> 6
   \<and> pred_option (\<lambda>r. 1 \<le> unat r \<and> unat r \<le> 6) (plan_revision (run_of L f is))"
  using run_ok_always [of f L "is"]
  by (auto simp: run_ok_def rounds_ok_def fixed_fields_def DEFAULT_MAX_REVIEW_ROUNDS_def
      pred_option_def)

text \<open>
  C30: A message is applied in full or not at all: when \<open>apply_message\<close> fails, the state is the one
  before, although approving a plan changes the state before its last check.
\<close>

theorem failed_message_unchanged:
  assumes "apply_message L message s = (Inl e, s')"
  shows "s' = s"
  using atomic_apply_message [of s L message] assms by simp

theorem failed_message_unchanged_witness:
  "snd (apply_message example_libs plan_approval_message (new_run example_facts)) = new_run example_facts"
proof -
  have "\<exists>e s'. apply_message example_libs plan_approval_message (new_run example_facts) = (Inl e, s')"
  proof -
    have "\<not> is_ok (fst (apply_message example_libs plan_approval_message (new_run example_facts)))"
      by code_simp
    then show ?thesis
      by (cases "apply_message example_libs plan_approval_message (new_run example_facts)")
         (auto simp: is_ok_def split: sum.splits)
  qed
  then show ?thesis using failed_message_unchanged by fastforce
qed



subsection \<open>Progress\<close>

text \<open>
  C5: The reviews of a run are bounded. Without a recovery, at most 38 of the messages a run receives
  have any effect, whatever the participants answer and however often the run is paused, waits and
  resumes: two contracts, two messages in each of six rounds of plan review, four in each of six
  rounds of result review.
\<close>

theorem reviews_bounded:
  assumes "list_all (\<lambda>i. \<not> is_recovery i) is"
  shows "effective_messages L (new_run f) is \<le> 38"
proof -
  have "rank (new_run f) = 38"
    by (simp add: rank_def new_run_def DEFAULT_MAX_REVIEW_ROUNDS_def)
  with effective_messages_rank [OF run_ok_new assms, of L f] show ?thesis by simp
qed

theorem reviews_bounded_witness:
  "list_all (\<lambda>i. \<not> is_recovery i) example_inputs
   \<and> effective_messages example_libs (new_run example_facts) example_inputs \<le> 38"
  using reviews_bounded [of example_inputs example_libs example_facts]
  by (simp add: example_inputs_def planning_inputs_def)

text \<open>
  From any stored run, recovered ones included, the rank bounds the effective messages until the
  next recovery.
\<close>

theorem remaining_messages_bounded:
  assumes "list_all (\<lambda>i. \<not> is_recovery i) js"
  shows "effective_messages L (run_of L f is) js \<le> rank (run_of L f is)"
  by (rule effective_messages_rank [OF run_ok_always assms])

theorem remaining_messages_bounded_witness:
  "effective_messages example_libs (run_of example_libs example_facts rejected_inputs) [Message plan_message]
     \<le> rank (run_of example_libs example_facts rejected_inputs)"
  by (rule remaining_messages_bounded) simp

text \<open>
  A reviewer that raises the same issues against the same plan twice in a row stops the run: an
  applied CHANGES_REQUIRED ends in NO_PROGRESS exactly when its fingerprint is that of the last
  request, in ROUND_LIMIT when six rounds are used up, and otherwise opens the next round, in which a
  rejected plan has lost its approval and a rejected result goes back to integration.
\<close>

theorem changes_required_outcome:
  assumes "apply_message L message s = (Inr a, s')" and "s = run_of L f is"
    and "revalidate_message L message = Inr m" and "env_message_type (envelope m) = MChangesRequired"
  shows "if last_review_fingerprint s = Some (review_fingerprint L s (payload m)) then
           status s' = SBlocked \<and> reason_code s' = Some ''NO_PROGRESS''
         else if unat (round s) = 6 then status s' = SBlocked \<and> reason_code s' = Some ''ROUND_LIMIT''
         else status s' = SRunning \<and> unat (round s') = Suc (unat (round s))
           \<and> (if phase s = PlanReview
              then a = RequestPrimaryPlan \<and> \<not> plan_approved s' \<and> last_plan_feedback s' = Some (payload m)
                \<and> plan_revision s' = Some (round s')
              else a = RequestPrimaryIntegration \<and> result_approved_sha s' = None
                \<and> last_result_feedback s' = Some (payload m))"
proof -
  have c: "apply_changes_required L m s = (Inr a, s')" and running: "status s = SRunning"
    using assms(1,3,4) by (auto simp: apply_message_Inr apply_checked_message_def)
  have ok: "run_ok f s" using assms(2) run_ok_always by simp
  have counted: "review_counted s" unfolding assms(2) by (rule counted.always)
  have most: "unat (max_review_rounds s) = 6" and r: "unat (round s) \<le> 6"
    using ok by (auto simp: run_ok_def rounds_ok_def fixed_fields_def DEFAULT_MAX_REVIEW_ROUNDS_def)
  have rev: "phase s = PlanReview \<Longrightarrow> plan_revision s \<noteq> None \<Longrightarrow> plan_revision s = Some (round s)"
    using ok running review_integration(2) [of s] by (auto simp: run_ok_def rounds_ok_def)
  have some: "plan_revision s \<noteq> None"
    using c assms(3,4) by (auto simp: apply_changes_required_Inr validate_by_type_def
        validate_changes_required_def outcome dest!: revalidated_invariants validate_invariants_by_type)
  from c have s': "s' = changes_outcome L m s" "a = next_action s'"
    and ph: "phase s \<in> {PlanReview, ResultReview}" by (simp_all add: apply_changes_required_Inr)
  have stalled: "progress_stalled L m s \<longleftrightarrow>
      last_review_fingerprint s = Some (review_fingerprint L s (payload m))"
    by (rule progress_stalled_iff [OF ok counted])
  show ?thesis
  proof (cases rule: changes_outcome_cases [of L m s])
    case (no_progress fp)
    with stalled s' show ?thesis by (simp add: block_def)
  next
    case (round_limit fp)
    then have "unat (round s) = 6" using most r by (simp add: word_le_nat_alt)
    with round_limit stalled s' show ?thesis by (simp add: block_def)
  next
    case (plan_again fp)
    then have "unat (round s) \<noteq> 6" using most by (simp add: word_less_nat_alt)
    with plan_again stalled s' running rev some show ?thesis by (auto simp: unat_inc)
  next
    case (integrate_again fp)
    then have "unat (round s) \<noteq> 6" using most by (simp add: word_less_nat_alt)
    with integrate_again stalled s' running show ?thesis by (auto simp: unat_inc)
  qed
qed

theorem changes_required_outcome_witness:
  "\<exists>m s'. revalidate_message example_libs repeated_changes_message = Inr m
     \<and> snd (apply_message example_libs repeated_changes_message (run_of example_libs example_facts rejected_inputs)) = s'
     \<and> status s' = SBlocked \<and> reason_code s' = Some ''NO_PROGRESS''"
proof -
  let ?s = "run_of example_libs example_facts rejected_inputs"
  have "is_ok (fst (apply_message example_libs repeated_changes_message ?s))" by code_simp
  then obtain a s' where a: "apply_message example_libs repeated_changes_message ?s = (Inr a, s')"
    by (cases "apply_message example_libs repeated_changes_message ?s") (auto simp: is_ok_iff)
  then obtain m where m: "revalidate_message example_libs repeated_changes_message = Inr m"
    by (auto simp: apply_message_Inr)
  have "case revalidate_message example_libs repeated_changes_message of Inl _ \<Rightarrow> False
      | Inr m \<Rightarrow> env_message_type (envelope m) = MChangesRequired" by code_simp
  with m have t: "env_message_type (envelope m) = MChangesRequired" by simp
  have "last_review_fingerprint ?s = Some (review_fingerprint example_libs ?s (payload m))"
    using rejected_example
    by (simp add: Let_def review_fingerprint_def canonical_json_hash_def example_libs_def)
  with changes_required_outcome [OF a refl m t] m a show ?thesis by auto
qed

subsection \<open>Freezing\<close>

text \<open>
  Once an integration is recorded it stays recorded, and nothing later changes the facts, the
  target branch, the list of required test commands, the plan revision, the plan, its hash or its
  approval.
\<close>

theorem integration_freezes_agreement:
  assumes "integration_sha (run_of L f is) \<noteq> None"
  shows "integration_sha (run_of L f (is @ js)) \<noteq> None
     \<and> frozen_part (run_of L f (is @ js)) = frozen_part (run_of L f is)
     \<and> frozen_plan (run_of L f (is @ js)) = frozen_plan (run_of L f is)"
  using integration_freezes [OF run_ok_always assms] by (simp add: run_of_append)

theorem integration_freezes_agreement_witness:
  "frozen_part (run_of example_libs example_facts ((example_inputs @ [AcceptRevalidated]) @ [Cancel]))
     = frozen_part (run_of example_libs example_facts (example_inputs @ [AcceptRevalidated]))"
proof -
  have "integration_sha (run_of example_libs example_facts (example_inputs @ [AcceptRevalidated])) \<noteq> None"
    using accepted_example by (simp add: Let_def)
  from integration_freezes_agreement [OF this, of "[Cancel]"] show ?thesis by blast
qed

subsection \<open>Saving\<close>

text \<open>
  The store never refuses the result of an operation on a run that is not accepted: whatever the
  daemon does to it successfully, the state it then saves passes the check of a persisted state.
\<close>

theorem save_never_refused:
  assumes "status (run_of L f is) \<noteq> SAccepted" and "perform L i (run_of L f is) = (Inr (), s')"
  shows "validate_persisted s' = Inr () \<and> run_of L f (is @ [i]) = s'"
  using perform_persistable(2) [OF run_ok_always assms(2,1)] assms(2)
  by (simp add: run_step_def persist_def)

theorem save_never_refused_witness:
  "validate_persisted (cancel (run_of example_libs example_facts rejected_inputs)) = Inr ()"
proof -
  let ?s = "run_of example_libs example_facts rejected_inputs"
  have "status ?s \<noteq> SAccepted" using rejected_example by (simp add: Let_def)
  moreover have "perform example_libs Cancel ?s = (Inr (), cancel ?s)" by simp
  ultimately show ?thesis using save_never_refused by blast
qed

text \<open>
  The cancellation of an accepted run reports success in memory but cannot be saved: \<open>cancel\<close>
  leaves \<open>accepted_result\<close> in place, and the check of a persisted state refuses a state that is not
  accepted but has one. The caller gets INCOMPATIBLE_STATE and the run stays accepted.
\<close>

theorem cancel_accepted_refused:
  assumes "status (run_of L f is) = SAccepted"
  shows "perform L Cancel (run_of L f is) = (Inr (), cancel (run_of L f is))
     \<and> persist (run_of L f is) (perform L Cancel (run_of L f is))
       = (Inl (StateError ''INCOMPATIBLE_STATE''
                 ''persisted non-accepted state contains an accepted_result''), run_of L f is)"
proof -
  let ?s = "run_of L f is"
  have ok: "run_ok f ?s" by (rule run_ok_always)
  then have r: "accepted_result ?s \<noteq> None" and schema: "schema_version ?s = RUN_STATE_SCHEMA_VERSION"
    and ev: "test_evidence ?s \<noteq> [] \<longrightarrow> evidence_complete (required_test_commands ?s) (test_evidence ?s)"
    using assms by (auto simp: run_ok_def acceptance_ok_def fixed_fields_def evidence_ok_def)
  from r schema ev have "validate_persisted (cancel ?s)
      = Inl (StateError ''INCOMPATIBLE_STATE'' ''persisted non-accepted state contains an accepted_result'')"
    by (auto simp: validate_persisted_def validate_terminal_def cancel_def ensure_def
        validate_complete_test_evidence_def map_err_def attempt_def)
  then show ?thesis by (simp add: persist_def)
qed

theorem cancel_accepted_refused_witness:
  "fst (persist (run_of example_libs example_facts (example_inputs @ [AcceptRevalidated]))
     (perform example_libs Cancel (run_of example_libs example_facts (example_inputs @ [AcceptRevalidated]))))
   = Inl (StateError ''INCOMPATIBLE_STATE'' ''persisted non-accepted state contains an accepted_result'')"
proof -
  have "status (run_of example_libs example_facts (example_inputs @ [AcceptRevalidated])) = SAccepted"
    using accepted_example by (simp add: Let_def)
  from cancel_accepted_refused [OF this] show ?thesis by (metis fst_conv)
qed

subsection \<open>Recovery\<close>

text \<open>
  A recovery succeeds only on a blocked run and only at a place that fits what the run has
  recorded: before the integration only if none is recorded, at an integration turn only under an
  approved plan and without a result or with a verified but unaccepted one, at verification only
  without evidence, at the result review only with complete successful evidence. It reports the action
  at which it reopens the run, and the reopened state can be saved.
\<close>

theorem recovery_reopens_at_place:
  assumes "recover L k s = (Inr a, s')"
  shows "status s = SBlocked \<and> status s' = SRunning \<and> validate_persisted s' = Inr ()
     \<and> next_action s' = a \<and> action_phase a = Some (phase s') \<and> recovery_place s (phase s', a)"
proof -
  from assms obtain at where r: "status s = SBlocked" "recovery_place s at" "s' = reopened at s"
    "a = snd at" "validate_persisted s' = Inr ()" by (rule recover_Inr)
  have "action_phase (snd at) = Some (fst at)"
    using r(2) by (auto simp: recovery_place_def before_integration_def)
  with r show ?thesis by (simp add: reopened_def)
qed

theorem recovery_reopens_at_place_witness:
  "\<exists>s'. recover example_libs IntegrationExecutionToolUnavailable (run_of example_libs example_facts blocked_inputs)
        = (Inr RequestPrimaryIntegration, s')
     \<and> status s' = SRunning \<and> phase s' = Integrate"
proof -
  let ?s = "run_of example_libs example_facts blocked_inputs"
  obtain s' where r: "recover example_libs IntegrationExecutionToolUnavailable ?s = (Inr RequestPrimaryIntegration, s')"
    using blocked_example by (cases "recover example_libs IntegrationExecutionToolUnavailable ?s") (simp add: Let_def)
  from recovery_reopens_at_place [OF r] r show ?thesis by simp
qed

text \<open>
  No recovery, successful or not, changes what the run has agreed on: the facts, the round, the
  plan revision, the integration, the evidence, the required commands, the plan hash, the approvals,
  the accepted result or the count of unchanged reviews; and on a run that is not blocked it fails
  without any effect.
\<close>

theorem recovery_keeps_agreement:
  "let s' = snd (recover L k s) in
     frozen_part s' = frozen_part s \<and> frozen_plan s' = frozen_plan s \<and> round s' = round s
     \<and> integration_branch s' = integration_branch s \<and> integration_sha s' = integration_sha s
     \<and> test_evidence s' = test_evidence s \<and> result_approved_sha s' = result_approved_sha s
     \<and> accepted_result s' = accepted_result s \<and> unchanged_review_streak s' = unchanged_review_streak s
     \<and> (status s \<noteq> SBlocked \<longrightarrow> s' = s \<and> \<not> is_ok (fst (recover L k s)))"
proof -
  obtain r s' where r: "recover L k s = (r, s')" by fastforce
  then have o': "reopen (recovery_check L k s) s = (r, s')" by (simp add: recover_reopen)
  have "s' = s \<or> (\<exists>at. s' = reopened at s)"
    using o' by (rule every_recovery.reopen_cases) auto
  moreover have "status s \<noteq> SBlocked \<longrightarrow> s' = s \<and> \<not> is_ok r"
    using every_recovery.not_blocked_refused [of s L k] o' by (auto simp: is_ok_def)
  ultimately show ?thesis using r by (auto simp: reopened_def frozen_part_def frozen_plan_def)
qed

theorem recovery_keeps_agreement_witness:
  "integration_sha (snd (recover example_libs IntegrationExecutionToolUnavailable
       (run_of example_libs example_facts blocked_inputs)))
     = integration_sha (run_of example_libs example_facts blocked_inputs)
   \<and> snd (recover example_libs InvalidTestCommand (new_run example_facts)) = new_run example_facts"
proof -
  have "status (new_run example_facts) \<noteq> SBlocked" by (simp add: new_run_def)
  with recovery_keeps_agreement [where L = example_libs and k = InvalidTestCommand and s = "new_run example_facts"]
    recovery_keeps_agreement [where L = example_libs and k = IntegrationExecutionToolUnavailable
      and s = "run_of example_libs example_facts blocked_inputs"]
  show ?thesis by (simp only: Let_def) blast
qed

subsection \<open>Refinement\<close>

text \<open>
  C2: Every step of a stored run is a step of the consensus protocol of \<open>Run_Refinement\<close>, or changes
  nothing the protocol sees: turns are taken in the order of the protocol, rounds grow by one, and a
  run finishes only from an approved result.
\<close>

theorem run_refines_consensus:
  "abstraction (run_of L f (is @ [i])) = abstraction (run_of L f is)
   \<or> consensus_step 6 (abstraction (run_of L f is)) (abstraction (run_of L f (is @ [i])))"
proof -
  let ?s = "run_of L f is" and ?t = "run_step L i (run_of L f is)"
  have ok: "run_ok f ?s" by (rule run_ok_always)
  have most: "unat (max_review_rounds ?s) = 6"
    using ok by (simp add: run_ok_def fixed_fields_def DEFAULT_MAX_REVIEW_ROUNDS_def)
  have "refines_step ?s ?t"
  proof (cases "?t = ?s \<or> status ?s = SAccepted")
    case True
    then have "?t = ?s" using accepted_step [OF ok] by blast
    then show ?thesis unfolding refines_step_def by simp
  next
    case False
    then have "transition L i ?s ?t"
      using perform_transition by (cases rule: run_step_cases [of L i ?s]) auto
    with False show ?thesis using transition_refines [OF _ ok] by blast
  qed
  then show ?thesis using most by (simp add: refines_step_def)
qed

text \<open>
  An APPROVED_PLAN is applied by phase, round, revision and hash, not by the pending action: while
  the primary still owes a new plan after CHANGES_REQUIRED, an approval of the rejected plan, under the
  new round and revision, is accepted and opens the integration.
\<close>

theorem rejected_plan_can_be_approved:
  "next_action (run_of example_libs example_facts rejected_inputs) = RequestPrimaryPlan
   \<and> last_plan_feedback (run_of example_libs example_facts rejected_inputs)
       = Some (payload plan_changes_message)
   \<and> next_action (run_of example_libs example_facts (rejected_inputs @ [Message self_approval_message]))
       = RequestPrimaryIntegration
   \<and> current_plan_payload (run_of example_libs example_facts (rejected_inputs @ [Message self_approval_message]))
       = current_plan_payload (run_of example_libs example_facts planning_inputs)"
proof -
  have "next_action (run_of example_libs example_facts rejected_inputs) = RequestPrimaryPlan
     \<and> last_plan_feedback (run_of example_libs example_facts rejected_inputs)
         = Some (payload plan_changes_message)"
    using rejected_example by (simp add: Let_def)
  moreover have "let s = run_of example_libs example_facts (rejected_inputs @ [Message self_approval_message])
     in next_action s = RequestPrimaryIntegration
        \<and> current_plan_payload s = current_plan_payload (run_of example_libs example_facts planning_inputs)"
    by code_simp
  ultimately show ?thesis by (simp add: Let_def)
qed

end
