(* ===== verification/Path_Set.thy ===== *)
theory Path_Set
  imports Rust_Text
begin

text \<open>
  The order of paths and \<open>BTreeSet<PathBuf>\<close>: paths are compared by their components, so a set keeps
  one spelling of each path (the first one inserted) and is listed in increasing order.
\<close>

subsection \<open>The order of components\<close>

fun component_rank :: "component \<Rightarrow> nat" where
  "component_rank RootDir = 0"
| "component_rank CurDir = 1"
| "component_rank ParentDir = 2"
| "component_rank (Normal s) = 3"

fun component_text :: "component \<Rightarrow> string" where
  "component_text (Normal s) = s"
| "component_text _ = []"

lemma component_eq_iff:
  "c = d \<longleftrightarrow> component_rank c = component_rank d \<and> component_text c = component_text d"
  by (cases c; cases d) auto

instantiation component :: linorder
begin

definition less_component :: "component \<Rightarrow> component \<Rightarrow> bool" where
  "less_component c d \<longleftrightarrow> component_rank c < component_rank d
     \<or> component_rank c = component_rank d \<and> component_text c < component_text d"

definition less_eq_component :: "component \<Rightarrow> component \<Rightarrow> bool" where
  "less_eq_component c d \<longleftrightarrow> component_rank c < component_rank d
     \<or> component_rank c = component_rank d \<and> component_text c \<le> component_text d"

instance
  by standard (auto simp: less_component_def less_eq_component_def component_eq_iff)

end

subsection \<open>Sets of paths\<close>

fun path_insert :: "string \<Rightarrow> string list \<Rightarrow> string list" where
  "path_insert p [] = [p]"
| "path_insert p (q # qs) =
     (if components p < components q then p # q # qs
      else if components p = components q then q # qs
      else q # path_insert p qs)"

definition path_set :: "string list \<Rightarrow> string list" where
  "path_set ps = fold path_insert ps []"

definition path_set_eq :: "string list \<Rightarrow> string list \<Rightarrow> bool" where
  "path_set_eq ps qs \<longleftrightarrow> list_all2 path_eq ps qs"

lemma path_insert_components:
  "set (map components (path_insert p ps)) = insert (components p) (set (map components ps))"
  by (induction p ps rule: path_insert.induct) auto

lemma path_insert_sorted:
  "sorted_wrt (<) (map components ps) \<Longrightarrow> sorted_wrt (<) (map components (path_insert p ps))"
proof (induction p ps rule: path_insert.induct)
  case (2 p q qs)
  have keys: "components ` set (path_insert p qs) = insert (components p) (components ` set qs)"
    using path_insert_components [of p qs] by simp
  have "\<forall>y \<in> components ` set (path_insert p qs). components q < y"
    if "\<not> components p < components q" "components p \<noteq> components q"
    using that 2 by (auto simp: keys)
  with 2 show ?case by auto
qed simp

lemma fold_path_insert:
  "sorted_wrt (<) (map components qs) \<Longrightarrow>
     sorted_wrt (<) (map components (fold path_insert ps qs))
     \<and> set (map components (fold path_insert ps qs)) = set (map components ps) \<union> set (map components qs)"
proof (induction ps arbitrary: qs)
  case (Cons p ps)
  from Cons.IH [OF path_insert_sorted [OF Cons.prems], of p] show ?case
    using path_insert_components [of p qs] by auto
qed simp

lemma path_set_sorted: "sorted_wrt (<) (map components (path_set ps))"
  using fold_path_insert [of "[]" ps] by (simp add: path_set_def)

lemma path_set_components: "set (map components (path_set ps)) = set (map components ps)"
  using fold_path_insert [of "[]" ps] by (simp add: path_set_def)

lemma path_insert_subset: "set (path_insert p ps) \<subseteq> insert p (set ps)"
  by (induction p ps rule: path_insert.induct) auto

lemma path_set_subset: "set (path_set ps) \<subseteq> set ps"
proof -
  have "set (fold path_insert ps qs) \<subseteq> set ps \<union> set qs" for qs
  proof (induction ps arbitrary: qs)
    case (Cons p ps)
    show ?case using Cons.IH [of "path_insert p qs"] path_insert_subset [of p qs] by auto
  qed simp
  from this [of "[]"] show ?thesis by (simp add: path_set_def)
qed

lemma path_set_empty [simp]: "path_set ps = [] \<longleftrightarrow> ps = []"
proof
  assume "path_set ps = []"
  then have "set (map components ps) = {}" using path_set_components [of ps] by simp
  then show "ps = []" by simp
qed (simp add: path_set_def)

text \<open>Two sets of paths are equal exactly when they name the same places.\<close>

lemma path_set_eq_iff:
  "path_set_eq (path_set ps) (path_set qs) \<longleftrightarrow> components ` set ps = components ` set qs"
proof -
  have "list_all2 path_eq xs ys \<longleftrightarrow> map components xs = map components ys" for xs ys
    by (simp add: path_eq_def list_all2_conv_all_nth list_eq_iff_nth_eq) (metis nth_map)
  moreover have "map components (path_set ps) = map components (path_set qs)
      \<longleftrightarrow> components ` set ps = components ` set qs"
  proof
    assume "map components (path_set ps) = map components (path_set qs)"
    then have "set (map components (path_set ps)) = set (map components (path_set qs))" by (rule arg_cong)
    then show "components ` set ps = components ` set qs"
      using path_set_components [of ps] path_set_components [of qs] by simp
  next
    assume "components ` set ps = components ` set qs"
    then have "set (map components (path_set ps)) = set (map components (path_set qs))"
      using path_set_components [of ps] path_set_components [of qs] by simp
    then show "map components (path_set ps) = map components (path_set qs)"
      using path_set_sorted [of ps] path_set_sorted [of qs]
      by (intro sorted_distinct_set_unique) (simp_all only: strict_sorted_iff)
  qed
  ultimately show ?thesis by (simp add: path_set_eq_def)
qed

end
