(* ===== verification/Git_Text.thy ===== *)
theory Git_Text
  imports Path_Set
begin

text \<open>
  The checks of \<open>crates/core/src/git.rs\<close> that work on text and bytes: commit SHAs, branch names,
  changed paths, unmerged entries, the records of \<open>git worktree list\<close>, the allowlist of read-only
  commands, the limits of a controlled patch and the scan of a file for conflict markers. Paths are
  Unix paths. \<open>error_of\<close> is the text with which \<open>std::str::from_utf8\<close> rejects a byte string.
\<close>

datatype git_safety_error = GitSafetyError (ge_code: string) (ge_detail: string)

abbreviation git_error :: "string \<Rightarrow> string \<Rightarrow> git_safety_error" where
  "git_error code detail \<equiv> GitSafetyError code detail"

definition MAX_INTEGRATION_PATCH_BYTES :: nat where
  "MAX_INTEGRATION_PATCH_BYTES = 512 * 1024"

subsection \<open>Commit SHAs\<close>

definition is_sha :: "string \<Rightarrow> bool" where
  "is_sha value \<longleftrightarrow> length value = 40 \<and> list_all is_ascii_hexdigit value"

definition validate_sha :: "string \<Rightarrow> string \<Rightarrow> git_safety_error + unit" where
  "validate_sha value label =
     ensure (is_sha value)
       (git_error ''INVALID_GIT_OUTPUT'' (label @ '' is not a 40-character commit SHA''))"

lemma validate_sha_Inr [outcome]: "validate_sha v l = Inr u \<longleftrightarrow> is_sha v"
  by (simp add: validate_sha_def outcome)

subsection \<open>Branch names\<close>

text \<open>\<open>char::is_control\<close> on the UTF-8 bytes of a text: U+0000 to U+001F, U+007F, and U+0080 to
  U+009F, which are encoded as \<open>C2 80\<close> to \<open>C2 9F\<close>.\<close>

fun has_control :: "string \<Rightarrow> bool" where
  "has_control [] = False"
| "has_control (c # cs) =
     (byte c < 32 \<or> byte c = 127
      \<or> (byte c = 194 \<and> (case cs of [] \<Rightarrow> False | d # _ \<Rightarrow> 128 \<le> byte d \<and> byte d \<le> 159))
      \<or> has_control cs)"

definition starts_with_any :: "string \<Rightarrow> string \<Rightarrow> bool" where
  "starts_with_any cs s \<longleftrightarrow> (case s of [] \<Rightarrow> False | c # _ \<Rightarrow> c \<in> set cs)"

definition ends_with_any :: "string \<Rightarrow> string \<Rightarrow> bool" where
  "ends_with_any cs s \<longleftrightarrow> s \<noteq> [] \<and> last s \<in> set cs"

definition forbidden_in_branch :: string where
  "forbidden_in_branch = [CHR '' '', CHR ''~'', CHR ''^'', CHR '':'', CHR ''?'', CHR ''*'', CHR ''['', CHR 0x5C]"

definition branch_component_ok :: "string \<Rightarrow> bool" where
  "branch_component_ok component \<longleftrightarrow>
     component \<noteq> [] \<and> component \<noteq> ''.'' \<and> component \<noteq> ''..''
     \<and> \<not> starts_with_any ''.'' component \<and> \<not> ends_with_any ''.'' component
     \<and> \<not> suffix ''.lock'' component"

definition branch_ok :: "string \<Rightarrow> bool" where
  "branch_ok branch \<longleftrightarrow>
     branch \<noteq> []
     \<and> \<not> starts_with_any ''./-'' branch
     \<and> \<not> ends_with_any ''./'' branch
     \<and> \<not> suffix ''.lock'' branch
     \<and> \<not> contains branch ''..''
     \<and> \<not> contains branch ''//''
     \<and> \<not> contains branch [CHR ''@'', CHR ''{'']
     \<and> branch \<noteq> ''HEAD''
     \<and> \<not> has_control branch
     \<and> list_all (\<lambda>c. c \<notin> set forbidden_in_branch) branch
     \<and> branch \<noteq> ''@''
     \<and> list_all branch_component_ok (split_on (CHR ''/'') branch)"

definition strip_heads :: "string \<Rightarrow> string" where
  "strip_heads branch = (case strip_prefix ''refs/heads/'' branch of Some b \<Rightarrow> b | None \<Rightarrow> branch)"

definition normalize_branch_name :: "string \<Rightarrow> git_safety_error + string" where
  "normalize_branch_name branch =
     (let b = strip_heads branch
      in if branch_ok b then Inr b
         else Inl (git_error ''INVALID_BRANCH_NAME'' ''integration branch name is not a safe local branch ref''))"

subsection \<open>Changed paths and unmerged entries\<close>

fun is_normal :: "component \<Rightarrow> bool" where
  "is_normal (Normal _) = True"
| "is_normal _ = False"

definition validate_relative_changed_path :: "string \<Rightarrow> git_safety_error + string" where
  "validate_relative_changed_path path =
     (if path = [] \<or> is_absolute path \<or> \<not> list_all is_normal (components path) then
        Inl (git_error ''UNSAFE_CHANGED_PATH'' ''changed file paths must be normalized repository-relative paths'')
      else Inr path)"

definition split_records :: "string \<Rightarrow> string list" where
  "split_records bytes = filter (\<lambda>raw. raw \<noteq> []) (split_on (CHR 0x00) bytes)"

definition changed_path :: "(string \<Rightarrow> string) \<Rightarrow> string \<Rightarrow> git_safety_error + string" where
  "changed_path error_of raw =
     (if utf8 raw then validate_relative_changed_path raw
      else Inl (git_error ''INVALID_GIT_OUTPUT'' (''Git changed-file path is not UTF-8: '' @ error_of raw)))"

definition parse_changed_files :: "(string \<Rightarrow> string) \<Rightarrow> string \<Rightarrow> git_safety_error + string list" where
  "parse_changed_files error_of bytes =
     attempt (collect_results (changed_path error_of) (split_records bytes)) (\<lambda>paths. Inr (path_set paths))"

text \<open>\<open>lossy\<close> is \<open>String::from_utf8_lossy\<close>.\<close>

definition unmerged_path :: "(string \<Rightarrow> string) \<Rightarrow> string \<Rightarrow> string option" where
  "unmerged_path lossy entry = map_option (\<lambda>(_, path). lossy path) (split_once (CHR 0x09) entry)"

definition parse_unmerged_entries :: "(string \<Rightarrow> string) \<Rightarrow> string \<Rightarrow> string list" where
  "parse_unmerged_entries lossy bytes =
     sorted_list_of_set (set (List.map_filter (unmerged_path lossy) (split_records bytes)))"

subsection \<open>Worktree records\<close>

record source_ref =
  sr_name :: string
  sr_target_sha :: string

record worktree_record =
  wr_worktree :: string
  wr_head_sha :: "string option"
  wr_branch :: "string option"
  wr_bare :: bool

definition empty_record :: worktree_record where
  "empty_record = \<lparr>wr_worktree = [], wr_head_sha = None, wr_branch = None, wr_bare = False\<rparr>"

definition record_source_ref :: "worktree_record \<Rightarrow> source_ref option" where
  "record_source_ref r =
     Option.bind (wr_branch r) (\<lambda>name.
     Option.bind (wr_head_sha r) (\<lambda>sha. Some \<lparr>sr_name = name, sr_target_sha = sha\<rparr>))"

definition validate_worktree_record :: "worktree_record \<Rightarrow> git_safety_error + unit" where
  "validate_worktree_record r =
     attempt (ensure (is_absolute (wr_worktree r))
                (git_error ''INVALID_GIT_OUTPUT''
                   ''git worktree list returned a missing or non-absolute worktree path'')) (\<lambda>_.
     ensure (\<not> (wr_head_sha r = None \<and> \<not> wr_bare r))
       (git_error ''INVALID_GIT_OUTPUT'' ''git worktree list returned a non-bare entry without HEAD''))"

definition record_field ::
  "(string \<Rightarrow> string) \<Rightarrow> string \<Rightarrow> worktree_record \<Rightarrow> git_safety_error + worktree_record" where
  "record_field error_of raw r =
     (if \<not> utf8 raw then
        Inl (git_error ''INVALID_GIT_OUTPUT'' (''git worktree list returned non-UTF-8 data: '' @ error_of raw))
      else case strip_prefix ''worktree '' raw of
        Some path \<Rightarrow> Inr (r\<lparr>wr_worktree := path\<rparr>)
      | None \<Rightarrow> (case strip_prefix ''HEAD '' raw of
          Some head \<Rightarrow> attempt (validate_sha head ''registered worktree HEAD'') (\<lambda>_.
            Inr (r\<lparr>wr_head_sha := Some head\<rparr>))
        | None \<Rightarrow> (case strip_prefix ''branch '' raw of
            Some branch \<Rightarrow>
              if \<not> prefix ''refs/heads/'' branch then
                Inl (git_error ''INVALID_GIT_OUTPUT'' ''registered worktree branch is not a local branch ref'')
              else Inr (r\<lparr>wr_branch := Some branch\<rparr>)
          | None \<Rightarrow> if raw = ''bare'' then Inr (r\<lparr>wr_bare := True\<rparr>) else Inr r)))"

text \<open>The loop over the NUL-separated fields; \<open>done\<close> holds the finished records.\<close>

fun worktree_records ::
  "(string \<Rightarrow> string) \<Rightarrow> string list \<Rightarrow> worktree_record list \<Rightarrow> worktree_record \<Rightarrow> bool \<Rightarrow>
     git_safety_error + worktree_record list" where
  "worktree_records error_of [] records current has_fields =
     (if has_fields then
        attempt (validate_worktree_record current) (\<lambda>_. Inr (records @ [current]))
      else Inr records)"
| "worktree_records error_of (raw # raws) records current has_fields =
     (if raw = [] then
        (if has_fields then
           attempt (validate_worktree_record current) (\<lambda>_.
           worktree_records error_of raws (records @ [current]) empty_record False)
         else worktree_records error_of raws records current has_fields)
      else
        attempt (record_field error_of raw current) (\<lambda>r.
        worktree_records error_of raws records r True))"

definition parse_worktree_records ::
  "(string \<Rightarrow> string) \<Rightarrow> string \<Rightarrow> git_safety_error + worktree_record list" where
  "parse_worktree_records error_of bytes =
     worktree_records error_of (split_on (CHR 0x00) bytes) [] empty_record False"

subsection \<open>Commands and patches\<close>

definition read_only_command :: "string list \<Rightarrow> bool" where
  "read_only_command args =
     (case args of
        [cmd, a] \<Rightarrow> cmd = ''rev-parse'' \<and> a \<in> {''--show-toplevel'', ''--git-common-dir'', ''HEAD''}
      | [cmd, a, b] \<Rightarrow>
          cmd = ''status'' \<and> a = ''--porcelain=v1'' \<and> b = ''-z''
          \<or> cmd = ''symbolic-ref'' \<and> a = ''--quiet'' \<and> b = ''HEAD''
          \<or> cmd = ''ls-files'' \<and> a = ''-u'' \<and> b = ''-z''
      | [cmd, a, b, c] \<Rightarrow>
          cmd = ''worktree'' \<and> a = ''list'' \<and> b = ''--porcelain'' \<and> c = ''-z''
          \<or> cmd = ''show-ref'' \<and> a = ''--verify'' \<and> b \<in> {''--hash'', ''--quiet''} \<and> prefix ''refs/heads/'' c
          \<or> cmd = ''merge-base'' \<and> a = ''--is-ancestor'' \<and> is_sha b \<and> is_sha c
          \<or> cmd = ''diff'' \<and> a = ''--name-only'' \<and> b = ''-z'' \<and> c = ''--''
      | [cmd, a, b, c, d] \<Rightarrow>
          cmd = ''ls-files'' \<and> a = ''--others'' \<and> b = ''--exclude-standard'' \<and> c = ''-z'' \<and> d = ''--''
      | [cmd, a, b, c, d, e] \<Rightarrow>
          cmd = ''diff'' \<and> a = ''--name-only'' \<and> b = ''-z'' \<and> is_sha c \<and> is_sha d \<and> e = ''--''
      | _ \<Rightarrow> False)"

definition validate_read_only_command :: "string list \<Rightarrow> git_safety_error + unit" where
  "validate_read_only_command args =
     attempt (ensure (list_all utf8 args)
                (git_error ''UNSAFE_GIT_COMMAND'' ''Git arguments must be valid UTF-8'')) (\<lambda>_.
     ensure (read_only_command args)
       (git_error ''UNSAFE_GIT_COMMAND'' ''GitInspector refused a command outside its read-only allowlist''))"

definition validate_integration_patch :: "string \<Rightarrow> git_safety_error + unit" where
  "validate_integration_patch patch =
     attempt (ensure (\<not> blank patch)
                (git_error ''INVALID_PATCH'' ''controlled patch cannot be empty'')) (\<lambda>_.
     attempt (ensure (length patch \<le> MAX_INTEGRATION_PATCH_BYTES)
                (git_error ''PATCH_TOO_LARGE''
                   (''controlled patch exceeds the '' @ decimal MAX_INTEGRATION_PATCH_BYTES @ '' byte limit''))) (\<lambda>_.
     attempt (ensure (CHR 0x00 \<notin> set patch)
                (git_error ''INVALID_PATCH'' ''controlled patch cannot contain NUL bytes'')) (\<lambda>_.
     ensure (\<not> (contains patch ''GIT binary patch'' \<or> contains patch ''Binary files ''))
       (git_error ''BINARY_PATCH_FORBIDDEN'' ''controlled patch accepts text changes only''))))"

subsection \<open>Conflict markers\<close>

datatype stage = Outside | Ours | Separator

fun advance :: "stage \<Rightarrow> char option \<Rightarrow> nat \<Rightarrow> bool \<Rightarrow> stage \<times> bool" where
  "advance stage first n only_same =
     (if first = Some (CHR ''<'') \<and> 7 \<le> n then (Ours, False)
      else case stage of
        Ours \<Rightarrow>
          if first = Some (CHR ''='') \<and> 7 \<le> n \<and> only_same then (Separator, False) else (Ours, False)
      | Separator \<Rightarrow>
          if first = Some (CHR ''>'') \<and> 7 \<le> n then (Outside, True) else (Separator, False)
      | Outside \<Rightarrow> (Outside, False))"

record scanner =
  sc_stage :: stage
  sc_first :: "char option"
  sc_leading :: nat
  sc_only_same :: bool
  sc_binary :: bool
  sc_found :: bool

definition new_scanner :: scanner where
  "new_scanner = \<lparr>sc_stage = Outside, sc_first = None, sc_leading = 0, sc_only_same = True,
     sc_binary = False, sc_found = False\<rparr>"

definition end_line :: "scanner \<Rightarrow> scanner" where
  "end_line s =
     (let (next, matched) = advance (sc_stage s) (sc_first s) (sc_leading s) (sc_only_same s)
      in s\<lparr>sc_stage := next, sc_found := sc_found s \<or> matched, sc_first := None, sc_leading := 0,
           sc_only_same := True\<rparr>)"

definition scan_byte :: "char \<Rightarrow> scanner \<Rightarrow> scanner" where
  "scan_byte c s0 =
     (let s = (if c = CHR 0x00 then s0\<lparr>sc_binary := True\<rparr> else s0)
      in if c = CHR 0x0A then end_line s
         else if c = CHR 0x0D then s
         else case sc_first s of
           None \<Rightarrow> s\<lparr>sc_first := Some c, sc_leading := 1\<rparr>
         | Some v \<Rightarrow>
             if c = v \<and> sc_only_same s then s\<lparr>sc_leading := sc_leading s + 1\<rparr>
             else s\<lparr>sc_only_same := False\<rparr>)"

text \<open>The reads of a stream: each gives an error or a chunk, an empty chunk is the end.\<close>

fun scan_stream :: "('e + string) list \<Rightarrow> scanner \<Rightarrow> 'e + scanner" where
  "scan_stream [] s = Inr s"
| "scan_stream (Inl e # reads) s = Inl e"
| "scan_stream (Inr chunk # reads) s =
     (if chunk = [] then Inr s else scan_stream reads (fold scan_byte chunk s))"

definition stream_contains_conflict_markers :: "('e + string) list \<Rightarrow> 'e + bool" where
  "stream_contains_conflict_markers reads =
     attempt (scan_stream reads new_scanner) (\<lambda>s.
       let found = (if sc_first s \<noteq> None
                    then sc_found s \<or> snd (advance (sc_stage s) (sc_first s) (sc_leading s) (sc_only_same s))
                    else sc_found s)
       in Inr (found \<and> \<not> sc_binary s))"

end
