(* ===== verification/Git_Scan.thy ===== *)
theory Git_Scan
  imports Git_Text
begin

text \<open>
  The scan for conflict markers against its specification on lines: a file is flagged exactly when
  its lines, without carriage returns, contain an opening marker, later a separator, and later a
  closing marker with no opening marker after that separator, and the file has no NUL byte. The result does
  not depend on how the reads cut the file into chunks.
\<close>

subsection \<open>Lines\<close>

definition opens :: "string \<Rightarrow> bool" where
  "opens l \<longleftrightarrow> prefix (replicate 7 (CHR ''<'')) l"

definition separates :: "string \<Rightarrow> bool" where
  "separates l \<longleftrightarrow> 7 \<le> length l \<and> list_all (\<lambda>c. c = CHR ''='') l"

definition closes :: "string \<Rightarrow> bool" where
  "closes l \<longleftrightarrow> prefix (replicate 7 (CHR ''>'')) l"

definition text_lines :: "string \<Rightarrow> string list" where
  "text_lines bytes = map (filter (\<lambda>c. c \<noteq> CHR 0x0D)) (split_on (CHR 0x0A) bytes)"

definition has_conflict :: "string list \<Rightarrow> bool" where
  "has_conflict ls \<longleftrightarrow>
     (\<exists>a x b y c z d. ls = a @ x # b @ y # c @ z # d
        \<and> opens x \<and> separates y \<and> closes z \<and> list_all (\<lambda>l. \<not> opens l) c)"

lemma replicate_prefix_iff:
  "prefix (replicate n c) l \<longleftrightarrow> n \<le> length (takeWhile (\<lambda>x. x = c) l)"
proof (induction n arbitrary: l)
  case (Suc n)
  then show ?case by (cases l) auto
qed simp

lemma separates_iff: "separates l \<longleftrightarrow> prefix (replicate 7 (CHR ''='')) l \<and> list_all (\<lambda>c. c = CHR ''='') l"
proof -
  have "takeWhile (\<lambda>x. x = CHR ''='') l = l" if "list_all (\<lambda>c. c = CHR ''='') l"
    using that by (simp add: list_all_iff takeWhile_eq_all_conv)
  note all = this
  show ?thesis
  proof (cases "list_all (\<lambda>c. c = CHR ''='') l")
    case True
    show ?thesis unfolding separates_def replicate_prefix_iff all [OF True] by simp
  next
    case False
    then show ?thesis by (simp only: separates_def simp_thms)
  qed
qed

lemma marker_prefix_first:
  "prefix (replicate 7 c) l \<longleftrightarrow> (\<exists>cs. l = c # cs) \<and> 7 \<le> length (takeWhile (\<lambda>x. x = hd l) l)"
  unfolding replicate_prefix_iff by (cases l) auto

lemma markers_exclusive:
  "opens l \<Longrightarrow> \<not> separates l" "opens l \<Longrightarrow> \<not> closes l" "separates l \<Longrightarrow> \<not> closes l"
  by (auto simp: opens_def separates_iff closes_def marker_prefix_first)

subsection \<open>The automaton on lines\<close>

fun line_advance :: "stage \<Rightarrow> string \<Rightarrow> stage \<times> bool" where
  "line_advance st l =
     (if opens l then (Ours, False)
      else case st of
        Ours \<Rightarrow> if separates l then (Separator, False) else (Ours, False)
      | Separator \<Rightarrow> if closes l then (Outside, True) else (Separator, False)
      | Outside \<Rightarrow> (Outside, False))"

fun line_found :: "stage \<Rightarrow> string list \<Rightarrow> bool" where
  "line_found st [] = False"
| "line_found st (l # ls) = (snd (line_advance st l) \<or> line_found (fst (line_advance st l)) ls)"

definition closes_next :: "string list \<Rightarrow> bool" where
  "closes_next ls \<longleftrightarrow> (\<exists>c z d. ls = c @ z # d \<and> closes z \<and> list_all (\<lambda>l. \<not> opens l) c)"

definition separates_next :: "string list \<Rightarrow> bool" where
  "separates_next ls \<longleftrightarrow> (\<exists>b y r. ls = b @ y # r \<and> separates y \<and> closes_next r)"

lemma closes_next_simps [simp]:
  "closes_next [] \<longleftrightarrow> False"
  "closes_next (l # ls) \<longleftrightarrow> closes l \<or> \<not> opens l \<and> closes_next ls"
proof -
  show "closes_next [] \<longleftrightarrow> False" by (simp add: closes_next_def)
  show "closes_next (l # ls) \<longleftrightarrow> closes l \<or> \<not> opens l \<and> closes_next ls"
  proof
    assume "closes_next (l # ls)"
    then obtain c z d where c: "l # ls = c @ z # d" "closes z" "list_all (\<lambda>l. \<not> opens l) c"
      unfolding closes_next_def by blast
    show "closes l \<or> \<not> opens l \<and> closes_next ls"
    proof (cases c)
      case (Cons x xs)
      with c have "ls = xs @ z # d" "\<not> opens l" "list_all (\<lambda>l. \<not> opens l) xs" by simp_all
      with c(2) show ?thesis unfolding closes_next_def by blast
    qed (use c in simp)
  next
    assume "closes l \<or> \<not> opens l \<and> closes_next ls"
    then show "closes_next (l # ls)"
    proof
      assume "closes l"
      then have "l # ls = [] @ l # ls \<and> closes l \<and> list_all (\<lambda>l. \<not> opens l) []" by simp
      then show ?thesis unfolding closes_next_def by blast
    next
      assume l: "\<not> opens l \<and> closes_next ls"
      then obtain c z d where "ls = c @ z # d" "closes z" "list_all (\<lambda>l. \<not> opens l) c"
        unfolding closes_next_def by blast
      with l have "l # ls = (l # c) @ z # d \<and> closes z \<and> list_all (\<lambda>l. \<not> opens l) (l # c)" by simp
      then show ?thesis unfolding closes_next_def by blast
    qed
  qed
qed

lemma separates_next_simps [simp]:
  "separates_next [] \<longleftrightarrow> False"
  "separates_next (l # ls) \<longleftrightarrow> separates l \<and> closes_next ls \<or> separates_next ls"
proof -
  show "separates_next [] \<longleftrightarrow> False" by (simp add: separates_next_def)
  show "separates_next (l # ls) \<longleftrightarrow> separates l \<and> closes_next ls \<or> separates_next ls"
    unfolding separates_next_def by (subst Cons_eq_append_conv) blast
qed

lemma has_conflict_next: "has_conflict ls \<longleftrightarrow> (\<exists>a x r. ls = a @ x # r \<and> opens x \<and> separates_next r)"
proof
  assume "has_conflict ls"
  then obtain a x b y c z d where "ls = a @ x # b @ y # c @ z # d" "opens x" "separates y" "closes z"
    "list_all (\<lambda>l. \<not> opens l) c" unfolding has_conflict_def by blast
  moreover from this have "separates_next (b @ y # c @ z # d)"
    unfolding separates_next_def closes_next_def by blast
  ultimately show "\<exists>a x r. ls = a @ x # r \<and> opens x \<and> separates_next r" by blast
next
  assume "\<exists>a x r. ls = a @ x # r \<and> opens x \<and> separates_next r"
  then obtain a x r where r: "ls = a @ x # r" "opens x" "separates_next r" by blast
  then obtain b y c z d where "r = b @ y # c @ z # d" "separates y" "closes z"
    "list_all (\<lambda>l. \<not> opens l) c" unfolding separates_next_def closes_next_def by blast
  with r show "has_conflict ls" unfolding has_conflict_def by blast
qed

lemma has_conflict_simps [simp]:
  "has_conflict [] \<longleftrightarrow> False"
  "has_conflict (l # ls) \<longleftrightarrow> opens l \<and> separates_next ls \<or> has_conflict ls"
proof -
  show "has_conflict [] \<longleftrightarrow> False" by (simp add: has_conflict_def)
  show "has_conflict (l # ls) \<longleftrightarrow> opens l \<and> separates_next ls \<or> has_conflict ls"
    unfolding has_conflict_next by (subst Cons_eq_append_conv) blast
qed

lemma conflict_separates: "has_conflict ls \<Longrightarrow> separates_next ls"
  by (induction ls) auto

lemma separates_closes: "separates_next ls \<Longrightarrow> closes_next ls \<or> has_conflict ls"
  by (induction ls) (auto dest: markers_exclusive)

lemma line_found_iff:
  "line_found Outside ls \<longleftrightarrow> has_conflict ls"
  "line_found Ours ls \<longleftrightarrow> separates_next ls"
  "line_found Separator ls \<longleftrightarrow> closes_next ls \<or> has_conflict ls"
proof (induction ls)
  case (Cons l ls)
  {
    case 1
    show ?case using Cons conflict_separates by auto
  next
    case 2
    show ?case using Cons conflict_separates separates_closes markers_exclusive by auto
  next
    case 3
    show ?case using Cons conflict_separates markers_exclusive by auto
  }
qed simp_all

subsection \<open>The scanner on bytes\<close>

text \<open>\<open>line_state w s\<close>: the scanner has seen \<open>w\<close> on the current line.\<close>

definition line_state :: "string \<Rightarrow> scanner \<Rightarrow> bool" where
  "line_state w s \<longleftrightarrow>
     (case w of
        [] \<Rightarrow> sc_first s = None \<and> sc_leading s = 0 \<and> sc_only_same s
      | c # _ \<Rightarrow> sc_first s = Some c \<and> sc_leading s = length (takeWhile (\<lambda>x. x = c) w)
          \<and> sc_only_same s = list_all (\<lambda>x. x = c) w)"

lemma line_state_new: "line_state [] new_scanner"
  by (simp add: line_state_def new_scanner_def)

lemma line_state_advance:
  assumes "line_state w s"
  shows "advance st (sc_first s) (sc_leading s) (sc_only_same s) = line_advance st w"
proof (cases w)
  case Nil
  with assms show ?thesis
    by (cases st) (auto simp: line_state_def opens_def separates_def closes_def)
next
  case (Cons c cs)
  have "opens w \<longleftrightarrow> c = CHR ''<'' \<and> 7 \<le> sc_leading s" "closes w \<longleftrightarrow> c = CHR ''>'' \<and> 7 \<le> sc_leading s"
    "separates w \<longleftrightarrow> c = CHR ''='' \<and> 7 \<le> sc_leading s \<and> sc_only_same s"
    using assms Cons by (auto simp: opens_def closes_def separates_iff marker_prefix_first line_state_def)
  then show ?thesis using assms Cons by (cases st) (auto simp: line_state_def)
qed

lemma scan_byte_cases:
  "scan_byte (CHR 0x0D) s = s"
  "c \<noteq> CHR 0x0A \<Longrightarrow> c \<noteq> CHR 0x0D \<Longrightarrow> sc_first s = None \<Longrightarrow>
     scan_byte c s = s\<lparr>sc_binary := sc_binary s \<or> c = CHR 0x00, sc_first := Some c, sc_leading := 1\<rparr>"
  "c \<noteq> CHR 0x0A \<Longrightarrow> c \<noteq> CHR 0x0D \<Longrightarrow> sc_first s = Some v \<Longrightarrow> c = v \<Longrightarrow> sc_only_same s \<Longrightarrow>
     scan_byte c s = s\<lparr>sc_binary := sc_binary s \<or> c = CHR 0x00, sc_leading := sc_leading s + 1\<rparr>"
  "c \<noteq> CHR 0x0A \<Longrightarrow> c \<noteq> CHR 0x0D \<Longrightarrow> sc_first s = Some v \<Longrightarrow> \<not> (c = v \<and> sc_only_same s) \<Longrightarrow>
     scan_byte c s = s\<lparr>sc_binary := sc_binary s \<or> c = CHR 0x00, sc_only_same := False\<rparr>"
  by (simp_all add: scan_byte_def Let_def)

lemma scan_byte_line:
  assumes "line_state w s" and "c \<noteq> CHR 0x0A"
  shows "line_state (w @ filter (\<lambda>c. c \<noteq> CHR 0x0D) [c]) (scan_byte c s)
     \<and> sc_stage (scan_byte c s) = sc_stage s \<and> sc_found (scan_byte c s) = sc_found s
     \<and> sc_binary (scan_byte c s) = (sc_binary s \<or> c = CHR 0x00)"
proof (cases "c = CHR 0x0D")
  case True
  then show ?thesis using assms(1) by (simp add: scan_byte_cases(1))
next
  case cr: False
  show ?thesis
  proof (cases w)
    case Nil
    then show ?thesis using assms cr by (simp add: scan_byte_cases(2) line_state_def)
  next
    case (Cons d ds)
    then have f: "sc_first s = Some d" and n: "sc_leading s = length (takeWhile (\<lambda>x. x = d) w)"
      and o: "sc_only_same s = list_all (\<lambda>x. x = d) w"
      using assms(1) by (simp_all add: line_state_def)
    show ?thesis
    proof (cases "c = d \<and> sc_only_same s")
      case True
      then have "\<And>x. x \<in> set w \<Longrightarrow> x = d" using o by (simp add: list_all_iff)
      then have "takeWhile (\<lambda>x. x = d) (w @ [c]) = w @ [c]" "takeWhile (\<lambda>x. x = d) w = w"
        using True by (simp_all add: takeWhile_eq_all_conv)
      then show ?thesis
        using scan_byte_cases(3) [OF assms(2) cr f] True Cons n o cr f
        by (simp add: line_state_def list_all_iff takeWhile_eq_all_conv [THEN iffD2])
    next
      case False
      have "takeWhile (\<lambda>x. x = d) (w @ [c]) = takeWhile (\<lambda>x. x = d) w"
      proof (cases "sc_only_same s")
        case True
        then show ?thesis using False o by (simp add: list_all_iff takeWhile_append2 takeWhile_eq_all_conv [THEN iffD2])
      next
        case same: False
        then obtain y where "y \<in> set w" "y \<noteq> d" using o by (auto simp: list_all_iff)
        then show ?thesis by (rule takeWhile_append1)
      qed
      then show ?thesis
        using scan_byte_cases(4) [OF assms(2) cr f False] False Cons n o f cr by (auto simp: line_state_def)
    qed
  qed
qed

lemma scan_newline:
  assumes "line_state w s"
  shows "scan_byte (CHR 0x0A) s = s\<lparr>sc_stage := fst (line_advance (sc_stage s) w),
     sc_found := sc_found s \<or> snd (line_advance (sc_stage s) w), sc_first := None, sc_leading := 0,
     sc_only_same := True\<rparr>"
  using line_state_advance [OF assms]
  by (simp add: scan_byte_def end_line_def Let_def case_prod_unfold del: advance.simps line_advance.simps)

lemma scan_lines:
  assumes "line_state w s"
  shows "\<exists>w'. line_state w' (fold scan_byte bytes s)
     \<and> (sc_found (fold scan_byte bytes s)
         \<or> snd (line_advance (sc_stage (fold scan_byte bytes s)) w')
        \<longleftrightarrow> sc_found s \<or> line_found (sc_stage s)
             (case text_lines bytes of p # ps \<Rightarrow> (w @ p) # ps | [] \<Rightarrow> []))
     \<and> sc_binary (fold scan_byte bytes s) = (sc_binary s \<or> CHR 0x00 \<in> set bytes)"
  using assms
proof (induction bytes arbitrary: w s)
  case Nil
  then show ?case by (intro exI [of _ w]) (simp add: text_lines_def del: line_advance.simps)
next
  case (Cons c bytes)
  obtain p ps where split: "split_on (CHR 0x0A) bytes = p # ps" by (cases "split_on (CHR 0x0A) bytes") auto
  show ?case
  proof (cases "c = CHR 0x0A")
    case True
    let ?s = "scan_byte c s"
    have "line_state [] ?s" using scan_newline [OF Cons.prems] True by (simp add: line_state_def)
    from Cons.IH [OF this] show ?thesis
      using scan_newline [OF Cons.prems] True split
      by (simp add: text_lines_def disj_assoc del: line_advance.simps)
  next
    case False
    let ?w = "w @ filter (\<lambda>c. c \<noteq> CHR 0x0D) [c]"
    from scan_byte_line [OF Cons.prems False] have
      step: "line_state ?w (scan_byte c s)"
        "sc_stage (scan_byte c s) = sc_stage s" "sc_found (scan_byte c s) = sc_found s"
        "sc_binary (scan_byte c s) = (sc_binary s \<or> c = CHR 0x00)" by simp_all
    have lines: "(case text_lines (c # bytes) of p # ps \<Rightarrow> (w @ p) # ps | [] \<Rightarrow> [])
        = (case text_lines bytes of p # ps \<Rightarrow> (?w @ p) # ps | [] \<Rightarrow> [])"
      using False split by (simp add: text_lines_def)
    have zero: "(CHR 0x00 \<in> set (c # bytes)) = (c = CHR 0x00 \<or> CHR 0x00 \<in> set bytes)" by auto
    from Cons.IH [OF step(1)] show ?thesis
      unfolding lines zero fold_Cons comp_def step(2-4) disj_assoc .
  qed
qed

lemma scan_stream_chunks:
  assumes "list_all (\<lambda>c. c \<noteq> []) chunks"
  shows "scan_stream (map Inr chunks) s = Inr (fold scan_byte (concat chunks) s)"
  using assms by (induction chunks arbitrary: s) simp_all

text \<open>
  C37: The scan of a file for conflict markers is exact: read in any chunks, a file is flagged exactly
  when its lines (carriage returns removed) contain an opening marker of at least seven \<open><\<close>, later a
  line of at least seven \<open>=\<close> and nothing else, later a closing marker of at least seven \<open>>\<close> with
  no new opening marker in between, and the file contains no NUL byte.
\<close>

theorem conflict_scan_exact:
  assumes "list_all (\<lambda>c. c \<noteq> []) chunks"
  shows "stream_contains_conflict_markers (map Inr chunks)
    = Inr (has_conflict (text_lines (concat chunks)) \<and> CHR 0x00 \<notin> set (concat chunks))"
proof -
  let ?s = "fold scan_byte (concat chunks) new_scanner"
  obtain w' where w: "line_state w' ?s"
    and f: "sc_found ?s \<or> snd (line_advance (sc_stage ?s) w')
        \<longleftrightarrow> line_found Outside (text_lines (concat chunks))"
    and b: "sc_binary ?s = (CHR 0x00 \<in> set (concat chunks))"
  proof -
    obtain p ps where p: "text_lines (concat chunks) = p # ps"
      by (cases "split_on (CHR 0x0A) (concat chunks)") (auto simp: text_lines_def)
    from scan_lines [OF line_state_new, of "concat chunks"] p that show ?thesis
      by (auto simp: new_scanner_def simp del: line_advance.simps)
  qed
  have "sc_first ?s = None \<Longrightarrow> w' = []" using w by (auto simp: line_state_def split: list.splits)
  moreover have "\<not> snd (line_advance st [])" for st
    by (cases st) (simp_all add: opens_def closes_def separates_def)
  ultimately show ?thesis
    using f b line_state_advance [OF w] line_found_iff(1)
    by (auto simp: stream_contains_conflict_markers_def scan_stream_chunks [OF assms] Let_def
        simp del: line_advance.simps advance.simps)
qed

theorem conflict_scan_exact_witness:
  "stream_contains_conflict_markers
     (map Inr [''<<<<<<< a'' @ [CHR 0x0A] @ ''====='', ''=='' @ [CHR 0x0D, CHR 0x0A], ''>>>>>>>''] :: (unit + string) list)
   = Inr True"
proof -
  let ?chunks = "[''<<<<<<< a'' @ [CHR 0x0A] @ ''====='', ''=='' @ [CHR 0x0D, CHR 0x0A], ''>>>>>>>'']"
  have "has_conflict (text_lines (concat ?chunks)) \<and> CHR 0x00 \<notin> set (concat ?chunks)"
    by (simp add: text_lines_def opens_def separates_def closes_def numeral_eq_Suc)
  then show ?thesis using conflict_scan_exact [of ?chunks] by simp
qed

end
