(* ===== verification/Git_Safety.thy ===== *)
theory Git_Safety
  imports Git_Scan Run_State
begin

text \<open>
  The repository checks of \<open>crates/core/src/git.rs\<close> on snapshots of worktrees: the sources are still
  what was frozen, an integration result is what was reported, the reported changed files are those of
  the object diff.
\<close>

record worktree_snapshot =
  ws_worktree :: string
  ws_common_dir :: string
  ws_head_sha :: string
  ws_source_ref :: "source_ref option"
  ws_clean :: bool

record worktree_issue =
  wi_code :: string
  wi_detail :: string

record registered_worktree =
  rw_worktree :: string
  rw_common_dir :: string
  rw_head_sha :: "string option"
  rw_source_ref :: "source_ref option"
  rw_clean :: "bool option"
  rw_bare :: bool
  rw_issue :: "worktree_issue option"

record integration_snapshot =
  is_worktree :: worktree_snapshot
  is_branch :: string
  is_changed_files :: "string list"
  is_unmerged_entries :: "string list"
  is_conflict_marker_files :: "string list"
  is_primary_is_ancestor :: bool
  is_reviewer_is_ancestor :: bool
  is_primary_source_ref_target :: "string option"
  is_reviewer_source_ref_target :: "string option"

definition verify_same_repository ::
  "worktree_snapshot \<Rightarrow> worktree_snapshot \<Rightarrow> git_safety_error + unit" where
  "verify_same_repository primary reviewer =
     attempt (ensure (path_eq (ws_common_dir primary) (ws_common_dir reviewer))
                (git_error ''REPOSITORY_MISMATCH''
                   ''selected worktrees do not share one canonical Git common directory'')) (\<lambda>_.
     ensure (\<not> path_eq (ws_worktree primary) (ws_worktree reviewer))
       (git_error ''DUPLICATE_WORKTREE''
          ''primary and reviewer must use different canonical worktree paths''))"

definition verify_frozen_source ::
  "string \<Rightarrow> string \<Rightarrow> string option \<Rightarrow> worktree_snapshot \<Rightarrow> git_safety_error + unit" where
  "verify_frozen_source label expected_sha expected_ref snapshot =
     attempt (ensure (ws_head_sha snapshot = expected_sha)
                (git_error ''SOURCE_DRIFT'' (label @ '' HEAD changed after freeze''))) (\<lambda>_.
     ensure (case (expected_ref, ws_source_ref snapshot) of
               (Some expected, Some observed) \<Rightarrow>
                 sr_name observed = expected \<and> sr_target_sha observed = expected_sha
             | (None, None) \<Rightarrow> True
             | _ \<Rightarrow> False)
       (git_error ''SOURCE_DRIFT'' (label @ '' source ref changed after freeze'')))"

definition verify_source_ref_target ::
  "string \<Rightarrow> string option \<Rightarrow> string \<Rightarrow> string option \<Rightarrow> git_safety_error + unit" where
  "verify_source_ref_target label expected_ref expected_sha observed_target =
     ensure (case (expected_ref, observed_target) of
               (Some _, Some observed) \<Rightarrow> observed = expected_sha
             | (None, None) \<Rightarrow> True
             | _ \<Rightarrow> False)
       (git_error ''SOURCE_DRIFT'' (label @ '' source ref moved during integration''))"

definition verify_frozen_sources ::
  "run_facts \<Rightarrow> worktree_snapshot \<Rightarrow> worktree_snapshot \<Rightarrow> git_safety_error + unit" where
  "verify_frozen_sources f primary reviewer =
     attempt (verify_same_repository primary reviewer) (\<lambda>_.
     attempt (ensure (path_eq (ws_common_dir primary) (rf_git_common_dir f)
                      \<and> path_eq (ws_common_dir reviewer) (rf_git_common_dir f)
                      \<and> path_eq (ws_worktree primary) (rf_primary_worktree f)
                      \<and> path_eq (ws_worktree reviewer) (rf_reviewer_worktree f))
                (git_error ''SOURCE_DRIFT''
                   ''canonical repository or worktree identity changed after freeze'')) (\<lambda>_.
     attempt (ensure (ws_clean primary \<and> ws_clean reviewer)
                (git_error ''DIRTY_WORKTREE'' ''both frozen source worktrees must be clean'')) (\<lambda>_.
     attempt (verify_frozen_source ''primary'' (rf_primary_sha f) (rf_primary_ref f) primary) (\<lambda>_.
     attempt (verify_frozen_source ''reviewer'' (rf_reviewer_sha f) (rf_reviewer_ref f) reviewer) (\<lambda>_.
     Inr ())))))"

definition verify_integration_result ::
  "run_facts \<Rightarrow> integration_snapshot \<Rightarrow> string \<Rightarrow> string \<Rightarrow> git_safety_error + unit" where
  "verify_integration_result f integration expected_branch expected_sha =
     attempt (ensure (path_eq (ws_common_dir (is_worktree integration)) (rf_git_common_dir f)
                      \<and> path_eq (ws_worktree (is_worktree integration)) (rf_primary_worktree f))
                (git_error ''DIFFERENT_REPOSITORY''
                   ''integration result is not in the frozen primary repository and worktree'')) (\<lambda>_.
     attempt (ensure (ws_clean (is_worktree integration))
                (git_error ''DIRTY_WORKTREE'' ''integration worktree must be clean before result review'')) (\<lambda>_.
     attempt (normalize_branch_name expected_branch) (\<lambda>branch.
     attempt (ensure (is_branch integration = branch)
                (git_error ''UNEXPECTED_INTEGRATION_BRANCH'' ''integration result is on a different branch'')) (\<lambda>_.
     attempt (ensure (ws_head_sha (is_worktree integration) = expected_sha)
                (git_error ''STALE_INTEGRATION_SHA'' ''integration HEAD does not match the reported SHA'')) (\<lambda>_.
     attempt (ensure (is_unmerged_entries integration = [])
                (git_error ''UNRESOLVED_CONFLICTS'' ''integration index contains unresolved entries'')) (\<lambda>_.
     attempt (ensure (is_conflict_marker_files integration = [])
                (git_error ''CONFLICT_MARKERS'' ''changed text files contain unresolved conflict markers'')) (\<lambda>_.
     attempt (ensure (is_primary_is_ancestor integration \<and> is_reviewer_is_ancestor integration)
                (git_error ''MISSING_SOURCE_ANCESTRY''
                   ''integration HEAD does not contain both frozen source commits'')) (\<lambda>_.
     attempt (verify_source_ref_target ''primary'' (rf_primary_ref f) (rf_primary_sha f)
                (is_primary_source_ref_target integration)) (\<lambda>_.
     attempt (verify_source_ref_target ''reviewer'' (rf_reviewer_ref f) (rf_reviewer_sha f)
                (is_reviewer_source_ref_target integration)) (\<lambda>_.
     Inr ()))))))))))"

text \<open>\<open>BTreeSet\<close>s of paths are compared entry by entry.\<close>

definition verify_reported_changed_files ::
  "integration_snapshot \<Rightarrow> string list \<Rightarrow> git_safety_error + unit" where
  "verify_reported_changed_files integration reported =
     attempt (collect_results validate_relative_changed_path reported) (\<lambda>paths.
     ensure (path_set_eq (path_set paths) (path_set (is_changed_files integration)))
       (git_error ''CHANGED_FILES_MISMATCH''
          ''reported changed_files does not match the authoritative Git object diff''))"

subsection \<open>What the checks establish\<close>

lemma normalize_branch_name_Inr [outcome]:
  "normalize_branch_name b = Inr n \<longleftrightarrow> n = strip_heads b \<and> branch_ok n"
  by (auto simp: normalize_branch_name_def Let_def)

lemma verify_same_repository_Inr [outcome]:
  "verify_same_repository p r = Inr u \<longleftrightarrow>
     path_eq (ws_common_dir p) (ws_common_dir r) \<and> \<not> path_eq (ws_worktree p) (ws_worktree r)"
  by (simp add: verify_same_repository_def outcome)

text \<open>The source of one side: its HEAD is the frozen SHA, and it is on the frozen branch, at that
  SHA, or detached as it was.\<close>

definition source_as_frozen :: "string \<Rightarrow> string option \<Rightarrow> worktree_snapshot \<Rightarrow> bool" where
  "source_as_frozen sha ref snapshot \<longleftrightarrow>
     ws_head_sha snapshot = sha
     \<and> ws_source_ref snapshot = map_option (\<lambda>name. \<lparr>sr_name = name, sr_target_sha = sha\<rparr>) ref"

lemma verify_frozen_source_Inr [outcome]:
  "verify_frozen_source l sha ref snapshot = Inr u \<longleftrightarrow> source_as_frozen sha ref snapshot"
  by (cases ref; cases "ws_source_ref snapshot")
     (auto simp: verify_frozen_source_def source_as_frozen_def outcome)

lemma verify_source_ref_target_Inr [outcome]:
  "verify_source_ref_target l ref sha target = Inr u \<longleftrightarrow> target = map_option (\<lambda>_. sha) ref"
  by (cases ref; cases target) (auto simp: verify_source_ref_target_def outcome)

lemma validate_relative_changed_path_Inr [outcome]:
  "validate_relative_changed_path p = Inr q \<longleftrightarrow>
     q = p \<and> p \<noteq> [] \<and> \<not> is_absolute p \<and> list_all is_normal (components p)"
  by (auto simp: validate_relative_changed_path_def)

lemma validated_paths:
  "collect_results validate_relative_changed_path ps = Inr qs \<longleftrightarrow>
     qs = ps \<and> list_all (\<lambda>p. p \<noteq> [] \<and> \<not> is_absolute p \<and> list_all is_normal (components p)) ps"
  by (induction ps arbitrary: qs) (auto simp: outcome)

end
