(* ===== verification/Git_Inspector.thy ===== *)
theory Git_Inspector
  imports Git_Safety
begin

text \<open>
  \<open>GitInspector\<close> of \<open>crates/core/src/git.rs\<close>: snapshots of worktrees and integrations, read with Git
  commands. Git and the file system are the record \<open>git_env\<close>: the answers of \<open>git -C worktree args\<close>,
  of \<open>fs::canonicalize\<close>, of \<open>fs::symlink_metadata\<close> and of the reads of a file, and of \<open>git remote\<close> in a
  directory, with the error texts of the standard library.
  Every command goes through \<open>git_output_allow_status\<close>, which refuses what is not on the read-only
  allowlist. Verification clones are created in \<open>Git_Clone\<close>.
\<close>

record git_output_record =
  go_code :: "int option"
  go_stdout :: string
  go_stderr :: string

datatype metadata_answer = Present | NotFound | Unreadable string

record git_env =
  ge_canonicalize :: "string \<Rightarrow> string + string"
  ge_output :: "string \<Rightarrow> string list \<Rightarrow> string + git_output_record"
  ge_exists :: "string \<Rightarrow> bool"
  ge_is_file :: "string \<Rightarrow> string + bool"
  ge_open :: "string \<Rightarrow> string + (string + string) list"
  ge_utf8_error :: "string \<Rightarrow> string"
  ge_lossy :: "string \<Rightarrow> string"
  ge_symlink_metadata :: "string \<Rightarrow> metadata_answer"
  ge_remotes :: "string \<Rightarrow> string + git_output_record"

subsection \<open>Commands\<close>

text \<open>\<open>chars().take(n)\<close> on UTF-8 text, and the \<open>Debug\<close> text of an exit code.\<close>

fun take_chars :: "nat \<Rightarrow> string \<Rightarrow> string" where
  "take_chars n [] = []"
| "take_chars n (c # cs) =
     (if tail_byte (byte c) then c # take_chars n cs
      else case n of 0 \<Rightarrow> [] | Suc m \<Rightarrow> c # take_chars m cs)"

definition signed_decimal :: "int \<Rightarrow> string" where
  "signed_decimal i = (if i < 0 then CHR ''-'' # decimal (nat (- i)) else decimal (nat i))"

fun exit_code_debug :: "int option \<Rightarrow> string" where
  "exit_code_debug None = ''None''"
| "exit_code_debug (Some i) = ''Some('' @ signed_decimal i @ '')''"

definition command_failure :: "git_env \<Rightarrow> string \<Rightarrow> git_output_record \<Rightarrow> git_safety_error" where
  "command_failure e command out =
     git_error ''GIT_COMMAND_FAILED''
       (''git '' @ command @ '' failed with '' @ exit_code_debug (go_code out) @ '': ''
          @ take_chars 2000 (trim (ge_lossy e (go_stderr out))))"

definition output_text :: "git_env \<Rightarrow> string \<Rightarrow> git_output_record \<Rightarrow> git_safety_error + string" where
  "output_text e command out =
     (if utf8 (go_stdout out) then Inr (trim (go_stdout out))
      else Inl (git_error ''INVALID_GIT_OUTPUT''
                  (''git '' @ command @ '' returned non-UTF-8 output: '' @ ge_utf8_error e (go_stdout out))))"

definition git_output_allow_status ::
  "git_env \<Rightarrow> string \<Rightarrow> string list \<Rightarrow> git_safety_error + git_output_record" where
  "git_output_allow_status e worktree args =
     attempt (validate_read_only_command args) (\<lambda>_.
     map_err (\<lambda>t. git_error ''GIT_COMMAND_FAILED'' (''could not execute Git read command: '' @ t))
       (ge_output e worktree args))"

definition git_output :: "git_env \<Rightarrow> string \<Rightarrow> string list \<Rightarrow> git_safety_error + git_output_record" where
  "git_output e worktree args =
     attempt (git_output_allow_status e worktree args) (\<lambda>out.
     if go_code out = Some 0 then Inr out else Inl (command_failure e ''git'' out))"

definition git_text :: "git_env \<Rightarrow> string \<Rightarrow> string list \<Rightarrow> git_safety_error + string" where
  "git_text e worktree args =
     attempt (git_output e worktree args) (\<lambda>out.
     output_text e (case args of [] \<Rightarrow> ''git'' | command # _ \<Rightarrow> command) out)"

text \<open>\<open>Path::join\<close>\<close>

definition path_join :: "string \<Rightarrow> string \<Rightarrow> string" where
  "path_join base p =
     (if is_absolute p then p
      else if base = [] \<or> suffix ''/'' base then base @ p else base @ ''/'' @ p)"

definition canonical_git_path :: "git_env \<Rightarrow> string \<Rightarrow> string \<Rightarrow> git_safety_error + string" where
  "canonical_git_path e base raw =
     (let candidate = (if is_absolute raw then raw else path_join base raw)
      in map_err (\<lambda>t. git_error ''NOT_A_WORKTREE''
                        (''cannot canonicalize Git path '' @ ge_lossy e candidate @ '': '' @ t))
           (ge_canonicalize e candidate))"

definition ref_target :: "git_env \<Rightarrow> string \<Rightarrow> string \<Rightarrow> git_safety_error + string" where
  "ref_target e worktree reference =
     attempt (ensure (prefix ''refs/heads/'' reference)
                (git_error ''INVALID_REF'' ''only local branch refs are allowed'')) (\<lambda>_.
     attempt (git_output e worktree [''show-ref'', ''--verify'', ''--hash'', reference]) (\<lambda>out.
     attempt (output_text e ''show-ref'' out) (\<lambda>sha.
     attempt (validate_sha sha ''ref target'') (\<lambda>_. Inr sha))))"

definition optional_ref_target ::
  "git_env \<Rightarrow> string \<Rightarrow> string option \<Rightarrow> git_safety_error + string option" where
  "optional_ref_target e worktree reference =
     (case reference of None \<Rightarrow> Inr None
      | Some r \<Rightarrow> attempt (ref_target e worktree r) (\<lambda>sha. Inr (Some sha)))"

definition read_source_ref :: "git_env \<Rightarrow> string \<Rightarrow> git_safety_error + source_ref option" where
  "read_source_ref e worktree =
     attempt (git_output_allow_status e worktree [''symbolic-ref'', ''--quiet'', ''HEAD'']) (\<lambda>out.
     if go_code out = Some 0 then
       attempt (output_text e ''symbolic-ref'' out) (\<lambda>name.
       attempt (ensure (prefix ''refs/heads/'' name)
                  (git_error ''INVALID_REF'' ''source symbolic ref is not a local branch'')) (\<lambda>_.
       attempt (ref_target e worktree name) (\<lambda>sha.
       Inr (Some \<lparr>sr_name = name, sr_target_sha = sha\<rparr>))))
     else if go_code out = Some 1 then Inr None
     else Inl (command_failure e ''symbolic-ref'' out))"

definition is_ancestor :: "git_env \<Rightarrow> string \<Rightarrow> string \<Rightarrow> string \<Rightarrow> git_safety_error + bool" where
  "is_ancestor e worktree ancestor descendant =
     attempt (validate_sha ancestor ''ancestor'') (\<lambda>_.
     attempt (validate_sha descendant ''descendant'') (\<lambda>_.
     attempt (git_output_allow_status e worktree [''merge-base'', ''--is-ancestor'', ancestor, descendant]) (\<lambda>out.
     if go_code out = Some 0 then Inr True
     else if go_code out = Some 1 then Inr False
     else Inl (command_failure e ''merge-base'' out))))"

subsection \<open>Snapshots\<close>

definition inspect_worktree :: "git_env \<Rightarrow> string \<Rightarrow> git_safety_error + worktree_snapshot" where
  "inspect_worktree e path =
     attempt (map_err (\<lambda>t. git_error ''NOT_A_WORKTREE'' (''cannot canonicalize worktree path: '' @ t))
                (ge_canonicalize e path)) (\<lambda>requested.
     attempt (git_text e requested [''rev-parse'', ''--show-toplevel'']) (\<lambda>top_level.
     attempt (canonical_git_path e requested top_level) (\<lambda>worktree.
     attempt (git_text e worktree [''rev-parse'', ''--git-common-dir'']) (\<lambda>common_dir_raw.
     attempt (canonical_git_path e worktree common_dir_raw) (\<lambda>common_dir.
     attempt (git_text e worktree [''rev-parse'', ''HEAD'']) (\<lambda>head_sha.
     attempt (validate_sha head_sha ''HEAD'') (\<lambda>_.
     attempt (git_output e worktree [''status'', ''--porcelain=v1'', ''-z'']) (\<lambda>status.
     attempt (read_source_ref e worktree) (\<lambda>source_ref.
     Inr \<lparr>ws_worktree = worktree, ws_common_dir = common_dir, ws_head_sha = head_sha,
          ws_source_ref = source_ref, ws_clean = (go_stdout status = [])\<rparr>)))))))))"

definition verify_integration_branch_absent :: "git_env \<Rightarrow> string \<Rightarrow> string \<Rightarrow> git_safety_error + unit" where
  "verify_integration_branch_absent e repository branch =
     attempt (normalize_branch_name branch) (\<lambda>name.
     attempt (git_output_allow_status e repository
                [''show-ref'', ''--verify'', ''--quiet'', ''refs/heads/'' @ name]) (\<lambda>out.
     if go_code out = Some 0 then
       Inl (git_error ''INTEGRATION_BRANCH_EXISTS'' ''the requested integration branch already exists'')
     else if go_code out = Some 1 then Inr ()
     else Inl (command_failure e ''show-ref'' out)))"

definition changed_files :: "git_env \<Rightarrow> string \<Rightarrow> string \<Rightarrow> string \<Rightarrow> git_safety_error + string list" where
  "changed_files e worktree baseline integration =
     attempt (validate_sha baseline ''changed-file baseline'') (\<lambda>_.
     attempt (validate_sha integration ''changed-file integration SHA'') (\<lambda>_.
     attempt (git_output e worktree [''diff'', ''--name-only'', ''-z'', baseline, integration, ''--'']) (\<lambda>out.
     parse_changed_files (ge_utf8_error e) (go_stdout out))))"

definition unreadable :: "string \<Rightarrow> string \<Rightarrow> git_safety_error" where
  "unreadable what t = git_error ''UNREADABLE_CHANGED_FILE'' (what @ '' changed file: '' @ t)"

text \<open>One changed file: the canonical path if the file has conflict markers.\<close>

definition scan_changed_file :: "git_env \<Rightarrow> string \<Rightarrow> string \<Rightarrow> git_safety_error + string option" where
  "scan_changed_file e worktree changed =
     (let candidate = path_join worktree changed
      in if \<not> ge_exists e candidate then Inr None
         else
           attempt (map_err (\<lambda>t. git_error ''UNSAFE_CHANGED_PATH'' (''cannot canonicalize changed path: '' @ t))
                      (ge_canonicalize e candidate)) (\<lambda>canonical.
           attempt (ensure (path_starts_with canonical worktree)
                      (git_error ''UNSAFE_CHANGED_PATH'' ''changed path escapes the integration worktree'')) (\<lambda>_.
           attempt (map_err (unreadable ''cannot inspect'') (ge_is_file e canonical)) (\<lambda>is_file.
           if \<not> is_file then Inr None
           else
             attempt (map_err (unreadable ''cannot open'') (ge_open e canonical)) (\<lambda>reads.
             attempt (map_err (unreadable ''cannot scan'') (stream_contains_conflict_markers reads)) (\<lambda>found.
             Inr (if found then Some canonical else None)))))))"

definition scan_conflict_markers :: "git_env \<Rightarrow> string \<Rightarrow> string list \<Rightarrow> git_safety_error + string list" where
  "scan_conflict_markers e worktree changed =
     attempt (collect_results (scan_changed_file e worktree) changed) (\<lambda>found.
     Inr (path_set (List.map_filter id found)))"

definition inspect_integration :: "git_env \<Rightarrow> string \<Rightarrow> run_facts \<Rightarrow> git_safety_error + integration_snapshot" where
  "inspect_integration e path f =
     attempt (inspect_worktree e path) (\<lambda>w.
     attempt (ok_or (git_error ''DETACHED_INTEGRATION'' ''integration result must be attached to its new branch'')
                (ws_source_ref w)) (\<lambda>source_ref.
     attempt (ok_or (git_error ''INVALID_REF'' ''integration ref is not a local branch'')
                (strip_prefix ''refs/heads/'' (sr_name source_ref))) (\<lambda>branch.
     attempt (git_output e (ws_worktree w) [''ls-files'', ''-u'', ''-z'']) (\<lambda>unmerged.
     attempt (is_ancestor e (ws_worktree w) (rf_primary_sha f) (ws_head_sha w)) (\<lambda>primary_is_ancestor.
     attempt (is_ancestor e (ws_worktree w) (rf_reviewer_sha f) (ws_head_sha w)) (\<lambda>reviewer_is_ancestor.
     attempt (changed_files e (ws_worktree w) (rf_primary_sha f) (ws_head_sha w)) (\<lambda>changed.
     attempt (scan_conflict_markers e (ws_worktree w) changed) (\<lambda>markers.
     attempt (optional_ref_target e (ws_worktree w) (rf_primary_ref f)) (\<lambda>primary_target.
     attempt (optional_ref_target e (ws_worktree w) (rf_reviewer_ref f)) (\<lambda>reviewer_target.
     Inr \<lparr>is_worktree = w, is_branch = branch, is_changed_files = changed,
          is_unmerged_entries = parse_unmerged_entries (ge_lossy e) (go_stdout unmerged),
          is_conflict_marker_files = markers, is_primary_is_ancestor = primary_is_ancestor,
          is_reviewer_is_ancestor = reviewer_is_ancestor,
          is_primary_source_ref_target = primary_target,
          is_reviewer_source_ref_target = reviewer_target\<rparr>))))))))))"

definition verify_source_refs_unchanged :: "git_env \<Rightarrow> string \<Rightarrow> run_facts \<Rightarrow> git_safety_error + unit" where
  "verify_source_refs_unchanged e repository f =
     attempt (optional_ref_target e repository (rf_primary_ref f)) (\<lambda>primary.
     attempt (optional_ref_target e repository (rf_reviewer_ref f)) (\<lambda>reviewer.
     attempt (verify_source_ref_target ''primary'' (rf_primary_ref f) (rf_primary_sha f) primary) (\<lambda>_.
     verify_source_ref_target ''reviewer'' (rf_reviewer_ref f) (rf_reviewer_sha f) reviewer)))"

subsection \<open>Registered worktrees\<close>

definition registered_entry :: "git_env \<Rightarrow> worktree_snapshot \<Rightarrow> worktree_record \<Rightarrow> registered_worktree" where
  "registered_entry e anchor r =
     (if wr_bare r then
        \<lparr>rw_worktree = wr_worktree r, rw_common_dir = ws_common_dir anchor, rw_head_sha = wr_head_sha r,
         rw_source_ref = record_source_ref r, rw_clean = None, rw_bare = True, rw_issue = None\<rparr>
      else case inspect_worktree e (wr_worktree r) of
        Inr w \<Rightarrow>
          \<lparr>rw_worktree = ws_worktree w, rw_common_dir = ws_common_dir w, rw_head_sha = Some (ws_head_sha w),
           rw_source_ref = ws_source_ref w, rw_clean = Some (ws_clean w), rw_bare = False,
           rw_issue =
             (if path_eq (ws_common_dir w) (ws_common_dir anchor) then None
              else Some \<lparr>wi_code = ''REPOSITORY_MISMATCH'',
                wi_detail = ''registered entry resolved to a different Git common directory''\<rparr>)\<rparr>
      | Inl err \<Rightarrow>
          \<lparr>rw_worktree = wr_worktree r, rw_common_dir = ws_common_dir anchor, rw_head_sha = None,
           rw_source_ref = None, rw_clean = None, rw_bare = False,
           rw_issue = Some \<lparr>wi_code = ''WORKTREE_UNAVAILABLE'', wi_detail = ge_detail err\<rparr>\<rparr>)"

definition list_registered_worktrees :: "git_env \<Rightarrow> string \<Rightarrow> git_safety_error + registered_worktree list" where
  "list_registered_worktrees e repository =
     attempt (inspect_worktree e repository) (\<lambda>anchor.
     attempt (git_output e (ws_worktree anchor) [''worktree'', ''list'', ''--porcelain'', ''-z'']) (\<lambda>out.
     attempt (parse_worktree_records (ge_utf8_error e) (go_stdout out)) (\<lambda>records.
     Inr (sort_key (\<lambda>r. components (rw_worktree r)) (map (registered_entry e anchor) records)))))"

definition inspect_registered_worktree :: "git_env \<Rightarrow> string \<Rightarrow> git_safety_error + worktree_snapshot" where
  "inspect_registered_worktree e path =
     attempt (ensure (is_absolute path)
                (git_error ''UNREGISTERED_WORKTREE'' ''selected worktree path must be absolute'')) (\<lambda>_.
     attempt (map_err (\<lambda>t. git_error ''WORKTREE_UNAVAILABLE''
                             (''cannot access selected worktree '' @ ge_lossy e path @ '': '' @ t))
                (ge_canonicalize e path)) (\<lambda>canonical.
     attempt (map_err (\<lambda>err. git_error ''UNREGISTERED_WORKTREE''
                               (''selected path '' @ ge_lossy e path @ '' is not a registered worktree root: ''
                                  @ ge_detail err))
                (inspect_worktree e canonical)) (\<lambda>snapshot.
     attempt (ensure (path_eq canonical (ws_worktree snapshot))
                (git_error ''UNREGISTERED_WORKTREE''
                   ''selected path must be the registered worktree root, not a path inside it'')) (\<lambda>_.
     attempt (list_registered_worktrees e (ws_worktree snapshot)) (\<lambda>registered.
     attempt (ok_or (git_error ''UNREGISTERED_WORKTREE''
                       ''selected path is not present in git worktree list --porcelain'')
                (find (\<lambda>entry. path_eq (rw_worktree entry) (ws_worktree snapshot)) registered)) (\<lambda>entry.
     attempt (ensure (\<not> rw_bare entry)
                (git_error ''UNREGISTERED_WORKTREE''
                   ''bare repositories cannot be selected as source worktrees'')) (\<lambda>_.
     case rw_issue entry of
       Some issue \<Rightarrow>
         Inl (git_error ''WORKTREE_UNAVAILABLE'' (''registered worktree is unavailable: '' @ wi_detail issue))
     | None \<Rightarrow> Inr snapshot)))))))"

definition inspect_registered_pair ::
  "git_env \<Rightarrow> string \<Rightarrow> string \<Rightarrow> git_safety_error + worktree_snapshot \<times> worktree_snapshot" where
  "inspect_registered_pair e primary_path reviewer_path =
     attempt (inspect_registered_worktree e primary_path) (\<lambda>primary.
     attempt (inspect_registered_worktree e reviewer_path) (\<lambda>reviewer.
     attempt (verify_same_repository primary reviewer) (\<lambda>_.
     attempt (ensure (ws_clean primary \<and> ws_clean reviewer)
                (git_error ''DIRTY_WORKTREE'' ''both selected source worktrees must be clean'')) (\<lambda>_.
     Inr (primary, reviewer)))))"

subsection \<open>Verification clones\<close>

definition ensure_success :: "git_env \<Rightarrow> string \<Rightarrow> git_output_record \<Rightarrow> git_safety_error + unit" where
  "ensure_success e command out = ensure (go_code out = Some 0) (command_failure e command out)"

definition is_ascii_whitespace :: "char \<Rightarrow> bool" where
  "is_ascii_whitespace c \<longleftrightarrow> byte c \<in> {9, 10, 12, 13, 32}"

definition clone_failure :: "string \<Rightarrow> git_safety_error" where
  "clone_failure detail = git_error ''UNSAFE_VERIFICATION_WORKSPACE'' detail"

definition verify_verification_clone ::
  "git_env \<Rightarrow> string \<Rightarrow> string \<Rightarrow> string \<Rightarrow> bool \<Rightarrow> git_safety_error + string" where
  "verify_verification_clone e destination clone_sha source_common require_clean =
     attempt (inspect_worktree e destination) (\<lambda>snapshot.
     attempt (ensure (\<not> (path_eq (ws_common_dir snapshot) source_common
                      \<or> ws_head_sha snapshot \<noteq> clone_sha
                      \<or> ws_source_ref snapshot \<noteq> None
                      \<or> (require_clean \<and> \<not> ws_clean snapshot)))
                (clone_failure ''verification clone is not an isolated detached copy of the exact integration SHA in the required cleanliness state'')) (\<lambda>_.
     attempt (map_err (\<lambda>t. git_error ''VERIFICATION_WORKSPACE_FAILURE''
                             (''cannot inspect verification remotes: '' @ t))
                (ge_remotes e (ws_worktree snapshot))) (\<lambda>remotes.
     attempt (ensure_success e ''inspect verification remotes'' remotes) (\<lambda>_.
     attempt (ensure (list_all is_ascii_whitespace (go_stdout remotes))
                (clone_failure ''verification clone must not retain a Git remote'')) (\<lambda>_.
     Inr (ws_worktree snapshot))))))"

definition recover_verification_clone ::
  "git_env \<Rightarrow> string \<Rightarrow> string \<Rightarrow> string \<Rightarrow> git_safety_error + string" where
  "recover_verification_clone e destination clone_sha source_common_dir =
     attempt (validate_sha clone_sha ''verification integration SHA'') (\<lambda>_.
     attempt (map_err (\<lambda>t. git_error ''NOT_A_WORKTREE''
                             (''cannot canonicalize source Git common directory: '' @ t))
                (ge_canonicalize e source_common_dir)) (\<lambda>source_common.
     verify_verification_clone e destination clone_sha source_common False))"

subsection \<open>Controlled patches\<close>

text \<open>\<open>run e worktree patch check\<close> stands for \<open>git apply\<close>: its answer and the repository it leaves.\<close>

definition apply_checked_text_patch ::
  "(git_env \<Rightarrow> string \<Rightarrow> string \<Rightarrow> bool \<Rightarrow> (git_safety_error + unit) \<times> git_env) \<Rightarrow>
     string \<Rightarrow> string \<Rightarrow> string \<Rightarrow> git_env \<Rightarrow> (git_safety_error + string list) \<times> git_env" where
  "apply_checked_text_patch run worktree expected_head patch e =
     attempt_in e (validate_sha expected_head ''pre-patch integration HEAD'') (\<lambda>_.
     attempt_in e (validate_integration_patch patch) (\<lambda>_.
     attempt_in e (inspect_worktree e worktree) (\<lambda>earlier.
     attempt_in e (ensure (ws_head_sha earlier = expected_head)
                     (git_error ''STALE_INTEGRATION_SHA''
                        ''integration HEAD changed before the authorized patch was applied'')) (\<lambda>_.
     attempt_in e (ensure (ws_clean earlier)
                     (git_error ''DIRTY_WORKTREE''
                        ''the controlled patch requires a clean integration worktree'')) (\<lambda>_.
     let (checked, e1) = run e (ws_worktree earlier) patch True in
     attempt_in e1 checked (\<lambda>_.
     let (applied, e2) = run e1 (ws_worktree earlier) patch False in
     attempt_in e2 applied (\<lambda>_.
     attempt_in e2 (git_output e2 (ws_worktree earlier) [''diff'', ''--name-only'', ''-z'', ''--'']) (\<lambda>tracked.
     attempt_in e2 (git_output e2 (ws_worktree earlier)
                      [''ls-files'', ''--others'', ''--exclude-standard'', ''-z'', ''--'']) (\<lambda>untracked.
     attempt_in e2 (parse_changed_files (ge_utf8_error e2) (go_stdout tracked)) (\<lambda>changed.
     attempt_in e2 (parse_changed_files (ge_utf8_error e2) (go_stdout untracked)) (\<lambda>more.
     let all = fold path_insert more changed in
     if all = [] then
       (Inl (git_error ''PATCH_NO_CHANGES'' ''the controlled patch did not produce any worktree changes''), e2)
     else (Inr all, e2))))))))))))"

end
