(* ===== verification/Git_Clone.thy ===== *)
theory Git_Clone
  imports Git_Inspector
begin

text \<open>
  \<open>GitInspector::materialize_verification_clone\<close> of \<open>crates/core/src/git.rs\<close>, the one operation of the
  inspector that runs writing commands. What it does to the file system is the record \<open>clone_ops\<close>:
  \<open>fs::create_dir_all\<close>, \<open>fs::remove_dir_all\<close>, \<open>fs::rename\<close> and a Git command with the given arguments,
  each with its answer and the repository it leaves.
\<close>

record clone_ops =
  co_create_dir_all :: "string \<Rightarrow> git_env \<Rightarrow> (string + unit) \<times> git_env"
  co_remove_dir_all :: "string \<Rightarrow> git_env \<Rightarrow> (string + unit) \<times> git_env"
  co_rename :: "string \<Rightarrow> string \<Rightarrow> git_env \<Rightarrow> (string + unit) \<times> git_env"
  co_git :: "string list \<Rightarrow> git_env \<Rightarrow> (string + git_output_record) \<times> git_env"

subsection \<open>The parent and the name of a path\<close>

text \<open>\<open>Path::parent\<close> keeps the text in front of the last component, without the separators and the dots
  that end it; \<open>Path::file_name\<close> is the last component if it is a name.\<close>

definition strip_pieces :: "string list \<Rightarrow> string list" where
  "strip_pieces ps = rev (dropWhile (\<lambda>s. s = [] \<or> s = ''.'') (rev ps))"

fun join_pieces :: "string list \<Rightarrow> string" where
  "join_pieces [] = []"
| "join_pieces [p] = p"
| "join_pieces (p # ps) = p @ ''/'' @ join_pieces ps"

definition path_parent :: "string \<Rightarrow> string option" where
  "path_parent p =
     (let pieces = split_on (CHR ''/'') p;
          lead = (if is_absolute p \<or> hd pieces = ''.'' then [hd pieces] else []);
          body = strip_pieces (drop (length lead) pieces)
      in if body \<noteq> [] then
           (let front = strip_pieces (butlast body)
            in if is_absolute p \<and> front = [] then Some ''/'' else Some (join_pieces (lead @ front)))
         else if lead = [''.''] then Some [] else None)"

definition path_file_name :: "string \<Rightarrow> string option" where
  "path_file_name p =
     (if components p = [] then None
      else case last (components p) of Normal s \<Rightarrow> Some s | _ \<Rightarrow> None)"

subsection \<open>The clone\<close>

definition workspace_failure :: "string \<Rightarrow> string \<Rightarrow> git_safety_error" where
  "workspace_failure what t = git_error ''VERIFICATION_WORKSPACE_FAILURE'' (what @ '': '' @ t)"

definition clone_arguments :: "string \<Rightarrow> string \<Rightarrow> string list" where
  "clone_arguments source preparing =
     [''-c'', ''protocol.file.allow=always'', ''clone'', ''--no-local'', ''--no-hardlinks'', ''--no-checkout'',
      ''--quiet'', ''--config'', ''core.hooksPath=/dev/null'', ''--'', source, preparing]"

definition clone_steps :: "string \<Rightarrow> string \<Rightarrow> (string \<times> string list) list" where
  "clone_steps preparing sha =
     [(''remove verification origin'', [''-C'', preparing, ''remote'', ''remove'', ''origin'']),
      (''checkout verification SHA'',
       [''-C'', preparing, ''-c'', ''core.hooksPath=/dev/null'', ''checkout'', ''--detach'', ''--quiet'', sha])]"

fun run_clone_steps ::
  "clone_ops \<Rightarrow> (string \<times> string list) list \<Rightarrow> git_env \<Rightarrow> (git_safety_error + unit) \<times> git_env" where
  "run_clone_steps ops [] e = (Inr (), e)"
| "run_clone_steps ops ((label, args) # steps) e =
     (let (output, e1) = co_git ops args e in
      attempt_in e1 (map_err (workspace_failure (''cannot '' @ label)) output) (\<lambda>out.
      attempt_in e1 (ensure_success e1 label out) (\<lambda>_.
      run_clone_steps ops steps e1)))"

text \<open>The part that publishes a fresh clone at \<open>destination\<close>.\<close>

definition publish_clone ::
  "clone_ops \<Rightarrow> string \<Rightarrow> string \<Rightarrow> string \<Rightarrow> git_env \<Rightarrow> (git_safety_error + unit) \<times> git_env" where
  "publish_clone ops source destination sha e =
     attempt_in e (ok_or (git_error ''UNSAFE_VERIFICATION_WORKSPACE'' ''verification clone has no parent directory'')
                     (path_parent destination)) (\<lambda>parent.
     let (made, e1) = co_create_dir_all ops parent e in
     attempt_in e1 (map_err (workspace_failure ''cannot create verification parent'') made) (\<lambda>_.
     attempt_in e1 (ok_or (git_error ''UNSAFE_VERIFICATION_WORKSPACE'' ''verification clone name is not UTF-8'')
                      (Option.bind (path_file_name destination) path_to_str)) (\<lambda>name.
     let preparing = path_join parent (''.'' @ name @ ''.preparing'');
         (removed, e2) = (if ge_exists e1 preparing then co_remove_dir_all ops preparing e1 else (Inr (), e1)) in
     attempt_in e2 (map_err (workspace_failure ''cannot remove an interrupted verification clone'') removed) (\<lambda>_.
     let (cloned, e3) = co_git ops (clone_arguments source preparing) e2 in
     attempt_in e3 (map_err (workspace_failure ''cannot start isolated git clone'') cloned) (\<lambda>out.
     attempt_in e3 (ensure_success e3 ''clone verification workspace'' out) (\<lambda>_.
     let (prepared, e4) = run_clone_steps ops (clone_steps preparing sha) e3 in
     attempt_in e4 prepared (\<lambda>_.
     let (renamed, e5) = co_rename ops preparing destination e4 in
     (map_err (workspace_failure ''cannot publish verification clone'') renamed, e5))))))))"

definition materialize_verification_clone ::
  "clone_ops \<Rightarrow> string \<Rightarrow> string \<Rightarrow> string \<Rightarrow> string \<Rightarrow> git_env \<Rightarrow> (git_safety_error + string) \<times> git_env" where
  "materialize_verification_clone ops source_worktree destination sha source_common_dir e =
     attempt_in e (validate_sha sha ''verification integration SHA'') (\<lambda>_.
     attempt_in e (map_err (\<lambda>t. git_error ''NOT_A_WORKTREE'' (''cannot canonicalize verification source: '' @ t))
                     (ge_canonicalize e source_worktree)) (\<lambda>source.
     attempt_in e (map_err (\<lambda>t. git_error ''NOT_A_WORKTREE''
                                  (''cannot canonicalize source Git common directory: '' @ t))
                     (ge_canonicalize e source_common_dir)) (\<lambda>source_common.
     attempt_in e (ensure (\<not> (path_starts_with destination source \<or> path_starts_with destination source_common))
                     (clone_failure ''verification clone must be outside the source worktree and Git common directory'')) (\<lambda>_.
     if ge_exists e destination then (verify_verification_clone e destination sha source_common True, e)
     else
       let (published, e') = publish_clone ops source destination sha e in
       attempt_in e' published (\<lambda>_.
       (verify_verification_clone e' destination sha source_common True, e'))))))"

end
