(* ===== verification/Repository_Guard.thy ===== *)
theory Repository_Guard
  imports Git_Clone
begin

text \<open>
  \<open>GitRepositorySafety\<close> of \<open>crates/daemon/src/coordinator.rs\<close>: the checks the coordinator asks for
  around every turn, composed of the operations of the Git inspector. The trait \<open>RepositorySafety\<close>
  has default methods for other providers; this is the provider of the daemon, which overrides all of
  them.
\<close>

datatype safety_error = SafetyError (sf_code: string) (sf_detail: string)

definition of_git :: "git_safety_error \<Rightarrow> safety_error" where
  "of_git err = SafetyError (ge_code err) (ge_detail err)"

abbreviation git :: "git_safety_error + 'a \<Rightarrow> safety_error + 'a" where
  "git r \<equiv> map_err of_git r"

abbreviation source_drift :: "string \<Rightarrow> safety_error" where
  "source_drift \<equiv> SafetyError ''SOURCE_DRIFT''"

definition inspect_frozen_worktree ::
  "git_env \<Rightarrow> string \<Rightarrow> string \<Rightarrow> safety_error + worktree_snapshot" where
  "inspect_frozen_worktree e path role =
     attempt (map_err (\<lambda>t. SafetyError ''WORKTREE_UNAVAILABLE''
                             (role @ '' frozen worktree '' @ ge_lossy e path @ '' is unavailable: '' @ t))
                (ge_canonicalize e path)) (\<lambda>canonical.
     case ge_symlink_metadata e (path_join canonical ''.git'') of
       Present \<Rightarrow> git (inspect_worktree e path)
     | NotFound \<Rightarrow>
         Inl (source_drift (role @ '' frozen path '' @ ge_lossy e path @ '' no longer identifies a Git worktree''))
     | Unreadable t \<Rightarrow>
         Inl (SafetyError ''WORKTREE_UNAVAILABLE''
                (''cannot inspect '' @ role @ '' frozen worktree '' @ ge_lossy e path @ '': '' @ t)))"

definition verify_reviewer_frozen :: "run_facts \<Rightarrow> worktree_snapshot \<Rightarrow> safety_error + unit" where
  "verify_reviewer_frozen f reviewer =
     attempt (ensure (path_eq (ws_worktree reviewer) (rf_reviewer_worktree f)
                      \<and> path_eq (ws_common_dir reviewer) (rf_git_common_dir f)
                      \<and> ws_head_sha reviewer = rf_reviewer_sha f
                      \<and> ws_clean reviewer)
                (source_drift ''reviewer worktree changed after the run was frozen'')) (\<lambda>_.
     ensure (case (rf_reviewer_ref f, ws_source_ref reviewer) of
               (Some expected, Some observed) \<Rightarrow>
                 sr_name observed = expected \<and> sr_target_sha observed = rf_reviewer_sha f
             | (None, None) \<Rightarrow> True
             | _ \<Rightarrow> False)
       (source_drift ''reviewer source ref identity changed after freeze''))"

definition verify_frozen :: "git_env \<Rightarrow> run_facts \<Rightarrow> safety_error + unit" where
  "verify_frozen e f =
     attempt (inspect_frozen_worktree e (rf_primary_worktree f) ''primary'') (\<lambda>primary.
     attempt (inspect_frozen_worktree e (rf_reviewer_worktree f) ''reviewer'') (\<lambda>reviewer.
     attempt (git (verify_same_repository primary reviewer)) (\<lambda>_.
     git (verify_frozen_sources f primary reviewer))))"

definition verify_branch_absent :: "git_env \<Rightarrow> run_facts \<Rightarrow> string \<Rightarrow> safety_error + unit" where
  "verify_branch_absent e f branch =
     attempt (inspect_frozen_worktree e (rf_primary_worktree f) ''primary'') (\<lambda>_.
     git (verify_integration_branch_absent e (rf_primary_worktree f) branch))"

definition on_source_or_target ::
  "run_facts \<Rightarrow> string \<Rightarrow> source_ref option \<Rightarrow> bool" where
  "on_source_or_target f target_ref source =
     (case (source, rf_primary_ref f) of
        (Some current, Some original) \<Rightarrow>
          sr_name current = original \<and> sr_target_sha current = rf_primary_sha f
          \<or> sr_name current = target_ref
      | (Some current, None) \<Rightarrow> sr_name current = target_ref
      | (None, None) \<Rightarrow> True
      | (None, Some _) \<Rightarrow> False)"

definition verify_integration_in_progress ::
  "git_env \<Rightarrow> run_facts \<Rightarrow> string \<Rightarrow> safety_error + unit" where
  "verify_integration_in_progress e f target_branch =
     attempt (inspect_frozen_worktree e (rf_primary_worktree f) ''primary'') (\<lambda>primary.
     attempt (inspect_frozen_worktree e (rf_reviewer_worktree f) ''reviewer'') (\<lambda>reviewer.
     attempt (verify_reviewer_frozen f reviewer) (\<lambda>_.
     attempt (ensure (path_eq (ws_worktree primary) (rf_primary_worktree f)
                      \<and> path_eq (ws_common_dir primary) (rf_git_common_dir f))
                (source_drift ''primary task left its frozen repository during integration'')) (\<lambda>_.
     attempt (ensure (on_source_or_target f (''refs/heads/'' @ target_branch) (ws_source_ref primary))
                (source_drift ''primary task is neither on its frozen source nor the authorized integration branch'')) (\<lambda>_.
     git (verify_source_refs_unchanged e (rf_primary_worktree f) f))))))"

definition verify_integration_patch_ready ::
  "git_env \<Rightarrow> run_facts \<Rightarrow> string \<Rightarrow> safety_error + string" where
  "verify_integration_patch_ready e f target_branch =
     attempt (inspect_frozen_worktree e (rf_primary_worktree f) ''primary'') (\<lambda>primary.
     attempt (inspect_frozen_worktree e (rf_reviewer_worktree f) ''reviewer'') (\<lambda>reviewer.
     attempt (verify_reviewer_frozen f reviewer) (\<lambda>_.
     attempt (ensure (path_eq (ws_worktree primary) (rf_primary_worktree f)
                      \<and> path_eq (ws_common_dir primary) (rf_git_common_dir f) \<and> ws_clean primary)
                (SafetyError ''DIRTY_WORKTREE''
                   ''controlled patch requires the exact clean frozen primary worktree'')) (\<lambda>_.
     attempt (ensure (case ws_source_ref primary of None \<Rightarrow> False
                      | Some source \<Rightarrow> sr_name source = ''refs/heads/'' @ target_branch
                          \<and> sr_target_sha source = ws_head_sha primary)
                (SafetyError ''UNEXPECTED_INTEGRATION_BRANCH''
                   ''controlled patch is not on the exact authorized integration branch'')) (\<lambda>_.
     attempt (git (inspect_integration e (rf_primary_worktree f) f)) (\<lambda>integration.
     attempt (git (verify_integration_result f integration target_branch (ws_head_sha primary))) (\<lambda>_.
     Inr (ws_head_sha primary))))))))"

subsection \<open>Controlled patches\<close>

text \<open>\<open>run\<close> stands for \<open>git apply\<close>, see \<open>apply_checked_text_patch\<close>.\<close>

type_synonym git_apply =
  "git_env \<Rightarrow> string \<Rightarrow> string \<Rightarrow> bool \<Rightarrow> (git_safety_error + unit) \<times> git_env"

definition apply_integration_patch ::
  "git_apply \<Rightarrow> run_facts \<Rightarrow> string \<Rightarrow> string \<Rightarrow> git_env
     \<Rightarrow> (safety_error + string \<times> string list) \<times> git_env" where
  "apply_integration_patch run f target_branch patch e =
     attempt_in e (verify_integration_patch_ready e f target_branch) (\<lambda>base_sha.
     let (changed, e') = apply_checked_text_patch run (rf_primary_worktree f) base_sha patch e in
     attempt_in e' (git changed) (\<lambda>changed_files.
     attempt_in e' (git (verify_source_refs_unchanged e' (rf_primary_worktree f) f)) (\<lambda>_.
     (Inr (base_sha, changed_files), e'))))"

definition apply_corrective_integration_patch ::
  "git_apply \<Rightarrow> run_facts \<Rightarrow> string \<Rightarrow> string \<Rightarrow> string \<Rightarrow> git_env
     \<Rightarrow> (safety_error + string \<times> string list) \<times> git_env" where
  "apply_corrective_integration_patch run f target_branch expected_base_sha patch e =
     attempt_in e (verify_integration_patch_ready e f target_branch) (\<lambda>observed_base_sha.
     attempt_in e (ensure (observed_base_sha = expected_base_sha)
                     (SafetyError ''STALE_INTEGRATION_SHA''
                        ''corrective patch base does not match the persisted integration SHA'')) (\<lambda>_.
     let (changed, e') = apply_checked_text_patch run (rf_primary_worktree f) expected_base_sha patch e in
     attempt_in e' (git changed) (\<lambda>changed_files.
     attempt_in e' (git (verify_source_refs_unchanged e' (rf_primary_worktree f) f)) (\<lambda>_.
     (Inr (expected_base_sha, changed_files), e')))))"

subsection \<open>Integrations\<close>

definition verify_integration ::
  "git_env \<Rightarrow> run_facts \<Rightarrow> string \<Rightarrow> string \<Rightarrow> string list \<Rightarrow> safety_error + unit" where
  "verify_integration e f branch sha reported =
     attempt (inspect_frozen_worktree e (rf_primary_worktree f) ''primary'') (\<lambda>_.
     attempt (inspect_frozen_worktree e (rf_reviewer_worktree f) ''reviewer'') (\<lambda>reviewer.
     attempt (verify_reviewer_frozen f reviewer) (\<lambda>_.
     attempt (git (inspect_integration e (rf_primary_worktree f) f)) (\<lambda>integration.
     attempt (git (verify_reported_changed_files integration reported)) (\<lambda>_.
     git (verify_integration_result f integration branch sha))))))"

definition authoritative_integration_result ::
  "git_env \<Rightarrow> run_facts \<Rightarrow> string \<Rightarrow> safety_error + string \<times> string list" where
  "authoritative_integration_result e f target_branch =
     attempt (inspect_frozen_worktree e (rf_primary_worktree f) ''primary'') (\<lambda>_.
     attempt (inspect_frozen_worktree e (rf_reviewer_worktree f) ''reviewer'') (\<lambda>reviewer.
     attempt (verify_reviewer_frozen f reviewer) (\<lambda>_.
     attempt (git (inspect_integration e (rf_primary_worktree f) f)) (\<lambda>integration.
     attempt (git (verify_integration_result f integration target_branch
                     (ws_head_sha (is_worktree integration)))) (\<lambda>_.
     Inr (ws_head_sha (is_worktree integration), is_changed_files integration))))))"

definition prepare_verification_workspace ::
  "clone_ops \<Rightarrow> run_facts \<Rightarrow> string \<Rightarrow> string \<Rightarrow> git_env \<Rightarrow> (safety_error + string) \<times> git_env" where
  "prepare_verification_workspace ops f clone_sha destination e =
     attempt_in e (inspect_frozen_worktree e (rf_primary_worktree f) ''primary'') (\<lambda>_.
     let (made, e') = materialize_verification_clone ops (rf_primary_worktree f) destination clone_sha
                        (rf_git_common_dir f) e in
     (git made, e'))"

definition recover_verification_workspace ::
  "git_env \<Rightarrow> run_facts \<Rightarrow> string \<Rightarrow> string \<Rightarrow> safety_error + string" where
  "recover_verification_workspace e f clone_sha destination =
     git (recover_verification_clone e destination clone_sha (rf_git_common_dir f))"

end
