(* ===== verification/Guard_Example.thy ===== *)
theory Guard_Example
  imports Repository_Guard
begin

text \<open>
  A concrete repository on which the properties of the repository checks are evaluated: the worktrees
  \<open>/p\<close> and \<open>/r\<close>, frozen on \<open>main\<close> and \<open>dev\<close>, and an integration on the branch \<open>merge\<close> of \<open>/p\<close>.
\<close>

definition sha_of :: "char \<Rightarrow> string" where
  "sha_of c = replicate 40 c"

definition repository_facts :: run_facts where
  "repository_facts = \<lparr>rf_run_id = 1, rf_primary_thread_id = ''p'', rf_reviewer_thread_id = ''r'',
     rf_primary_worktree = ''/p'', rf_reviewer_worktree = ''/r'', rf_git_common_dir = ''/p/.git'',
     rf_primary_sha = sha_of (CHR ''a''), rf_reviewer_sha = sha_of (CHR ''b''),
     rf_primary_ref = Some ''refs/heads/main'', rf_reviewer_ref = Some ''refs/heads/dev''\<rparr>"

definition success :: "string \<Rightarrow> string + git_output_record" where
  "success text = Inr \<lparr>go_code = Some 0, go_stdout = text, go_stderr = []\<rparr>"

definition line :: "string \<Rightarrow> string + git_output_record" where
  "line text = success (text @ [CHR 0x0A])"

definition no_ref :: "string + git_output_record" where
  "no_ref = Inr \<lparr>go_code = Some 1, go_stdout = [], go_stderr = []\<rparr>"

definition nul_list :: "string list \<Rightarrow> string" where
  "nul_list xs = concat (map (\<lambda>x. x @ [CHR 0x00]) xs)"

text \<open>\<open>primary_head\<close> is the commit and \<open>primary_branch\<close> the branch of \<open>/p\<close>, \<open>changed\<close> the unstaged changes.\<close>

definition repository ::
  "string \<Rightarrow> string \<Rightarrow> string list \<Rightarrow> string \<Rightarrow> string list \<Rightarrow> string + git_output_record" where
  "repository primary_head primary_branch changed w args =
     (if args = [''rev-parse'', ''--show-toplevel''] then line w
      else if args = [''rev-parse'', ''--git-common-dir''] then line ''/p/.git''
      else if args = [''rev-parse'', ''HEAD''] then
        line (if w = ''/p'' then primary_head else sha_of (CHR ''b''))
      else if args = [''status'', ''--porcelain=v1'', ''-z''] then success (nul_list changed)
      else if args = [''symbolic-ref'', ''--quiet'', ''HEAD''] then
        line (''refs/heads/'' @ (if w = ''/p'' then primary_branch else ''dev''))
      else if args = [''show-ref'', ''--verify'', ''--hash'', ''refs/heads/main''] then line (sha_of (CHR ''a''))
      else if args = [''show-ref'', ''--verify'', ''--hash'', ''refs/heads/dev''] then line (sha_of (CHR ''b''))
      else if args = [''show-ref'', ''--verify'', ''--hash'', ''refs/heads/merge''] then line primary_head
      else if args = [''ls-files'', ''-u'', ''-z''] then success []
      else if take 2 args = [''merge-base'', ''--is-ancestor''] then success []
      else if args = [''diff'', ''--name-only'', ''-z'', sha_of (CHR ''a''), primary_head, ''--''] then
        success (nul_list [''src/x.rs''])
      else if args = [''diff'', ''--name-only'', ''-z'', ''--''] then success (nul_list changed)
      else if args = [''ls-files'', ''--others'', ''--exclude-standard'', ''-z'', ''--''] then success []
      else if args = [''worktree'', ''list'', ''--porcelain'', ''-z''] then
        success (nul_list [''worktree /p'', ''HEAD '' @ primary_head, ''branch refs/heads/'' @ primary_branch, [],
          ''worktree /r'', ''HEAD '' @ sha_of (CHR ''b''), ''branch refs/heads/dev'', []])
      else no_ref)"

definition with_git :: "(string \<Rightarrow> string list \<Rightarrow> string + git_output_record) \<Rightarrow> git_env" where
  "with_git output = \<lparr>ge_canonicalize = (\<lambda>p. Inr p), ge_output = output, ge_exists = (\<lambda>_. True),
     ge_is_file = (\<lambda>_. Inr True), ge_open = (\<lambda>_. Inr [Inr ''fn main() {}'']),
     ge_utf8_error = (\<lambda>_. []), ge_lossy = (\<lambda>s. s), ge_symlink_metadata = (\<lambda>_. Present),
     ge_remotes = (\<lambda>_. success [])\<rparr>"

text \<open>The frozen sources, the integration on \<open>merge\<close>, and the same with an unstaged change.\<close>

definition frozen_git :: git_env where
  "frozen_git = with_git (repository (sha_of (CHR ''a'')) ''main'' [])"

definition merged_git :: git_env where
  "merged_git = with_git (repository (sha_of (CHR ''c'')) ''merge'' [])"

definition patched_git :: git_env where
  "patched_git = with_git (repository (sha_of (CHR ''c'')) ''merge'' [''src/y.rs''])"

definition example_apply :: git_apply where
  "example_apply e w patch dry = (Inr (), if dry then e else patched_git)"

subsection \<open>Evaluation\<close>

text \<open>Commands are evaluated from the outside in: the continuation of \<open>attempt\<close> is left alone until
  the result before it is known.\<close>

lemma attempt_first: "r = r' \<Longrightarrow> attempt r k = attempt r' k"
  by simp

lemma lines_read:
  "list_all (\<lambda>s. utf8 (s @ [CHR 0x0A]) \<and> trim (s @ [CHR 0x0A]) = s)
     [''/p'', ''/r'', ''/p/.git'', sha_of (CHR ''a''), sha_of (CHR ''b''), sha_of (CHR ''c''),
      ''refs/heads/main'', ''refs/heads/dev'', ''refs/heads/merge'', ''/v'', ''/v/.git'']"
  by code_simp

lemma shas: "list_all is_sha [sha_of (CHR ''a''), sha_of (CHR ''b''), sha_of (CHR ''c'')]"
  by code_simp

lemma commands_allowed:
  "list_all (\<lambda>args. validate_read_only_command args = Inr ())
     [[''rev-parse'', ''--show-toplevel''], [''rev-parse'', ''--git-common-dir''], [''rev-parse'', ''HEAD''],
      [''status'', ''--porcelain=v1'', ''-z''], [''symbolic-ref'', ''--quiet'', ''HEAD''],
      [''show-ref'', ''--verify'', ''--hash'', ''refs/heads/main''],
      [''show-ref'', ''--verify'', ''--hash'', ''refs/heads/dev''],
      [''show-ref'', ''--verify'', ''--hash'', ''refs/heads/merge''],
      [''ls-files'', ''-u'', ''-z''], [''diff'', ''--name-only'', ''-z'', ''--''],
      [''ls-files'', ''--others'', ''--exclude-standard'', ''-z'', ''--''],
      [''worktree'', ''list'', ''--porcelain'', ''-z''],
      [''merge-base'', ''--is-ancestor'', sha_of (CHR ''a''), sha_of (CHR ''c'')],
      [''merge-base'', ''--is-ancestor'', sha_of (CHR ''b''), sha_of (CHR ''c'')],
      [''diff'', ''--name-only'', ''-z'', sha_of (CHR ''a''), sha_of (CHR ''c''), ''--'']]"
  by code_simp

lemmas evaluated = lines_read [simplified] shas [simplified] commands_allowed [simplified]

lemmas commands = git_text_def git_output_def git_output_allow_status_def output_text_def
  read_source_ref_def ref_target_def canonical_git_path_def is_absolute_def

lemmas repositories = repository_def line_def success_def no_ref_def with_git_def

lemma sha_distinct: "sha_of c = sha_of d \<longleftrightarrow> c = d"
  by (simp add: sha_of_def numeral_eq_Suc)

lemma inspect_primary:
  "inspect_worktree (with_git (repository h b ch)) ''/p'' = Inr
     \<lparr>ws_worktree = ''/p'', ws_common_dir = ''/p/.git'', ws_head_sha = h,
      ws_source_ref = Some \<lparr>sr_name = ''refs/heads/'' @ b, sr_target_sha = h\<rparr>, ws_clean = (nul_list ch = [])\<rparr>"
  if "h = sha_of (CHR ''a'') \<and> b = ''main'' \<or> h = sha_of (CHR ''c'') \<and> b = ''merge''"
  using that
  by (elim disjE conjE; hypsubst)
     (simp_all add: inspect_worktree_def commands repositories evaluated map_err_def validate_sha_def
       ensure_def Let_def sha_distinct cong: attempt_first)

lemma inspect_reviewer:
  "inspect_worktree (with_git (repository h b ch)) ''/r'' = Inr
     \<lparr>ws_worktree = ''/r'', ws_common_dir = ''/p/.git'', ws_head_sha = sha_of (CHR ''b''),
      ws_source_ref = Some \<lparr>sr_name = ''refs/heads/dev'', sr_target_sha = sha_of (CHR ''b'')\<rparr>,
      ws_clean = (nul_list ch = [])\<rparr>"
  by (simp add: inspect_worktree_def commands repositories evaluated map_err_def validate_sha_def
       ensure_def Let_def sha_distinct cong: attempt_first)

lemma repository_facts_simps [simp]:
  "rf_primary_worktree repository_facts = ''/p''" "rf_reviewer_worktree repository_facts = ''/r''"
  "rf_git_common_dir repository_facts = ''/p/.git''"
  "rf_primary_sha repository_facts = sha_of (CHR ''a'')" "rf_reviewer_sha repository_facts = sha_of (CHR ''b'')"
  "rf_primary_ref repository_facts = Some ''refs/heads/main''"
  "rf_reviewer_ref repository_facts = Some ''refs/heads/dev''"
  by (simp_all add: repository_facts_def)

lemma paths_differ: "\<not> path_eq ''/p'' ''/r''"
  by code_simp

lemma branch_merge: "normalize_branch_name ''merge'' = Inr ''merge''"
  by code_simp

lemma changed_x:
  "parse_changed_files (\<lambda>_. []) (nul_list [''src/x.rs'']) = Inr [''src/x.rs'']"
  "parse_changed_files (\<lambda>_. []) (nul_list [''src/y.rs'']) = Inr [''src/y.rs'']"
  "parse_changed_files (\<lambda>_. []) [] = Inr []"
  by code_simp+

lemma scan_x: "scan_changed_file (with_git output) ''/p'' ''src/x.rs'' = Inr None"
  by code_simp

lemma inspect_frozen:
  "inspect_frozen_worktree (with_git output) p role = git (inspect_worktree (with_git output) p)"
  by (simp add: inspect_frozen_worktree_def with_git_def map_err_def)

lemma inspect_merged:
  "inspect_integration (with_git (repository (sha_of (CHR ''c'')) ''merge'' ch)) ''/p'' repository_facts = Inr
     \<lparr>is_worktree = \<lparr>ws_worktree = ''/p'', ws_common_dir = ''/p/.git'', ws_head_sha = sha_of (CHR ''c''),
        ws_source_ref = Some \<lparr>sr_name = ''refs/heads/merge'', sr_target_sha = sha_of (CHR ''c'')\<rparr>,
        ws_clean = (nul_list ch = [])\<rparr>,
      is_branch = ''merge'', is_changed_files = [''src/x.rs''], is_unmerged_entries = [],
      is_conflict_marker_files = [], is_primary_is_ancestor = True, is_reviewer_is_ancestor = True,
      is_primary_source_ref_target = Some (sha_of (CHR ''a'')),
      is_reviewer_source_ref_target = Some (sha_of (CHR ''b''))\<rparr>"
proof -
  let ?e = "with_git (repository (sha_of (CHR ''c'')) ''merge'' ch)"
  have commands_of: "changed_files ?e ''/p'' (sha_of (CHR ''a'')) (sha_of (CHR ''c'')) = Inr [''src/x.rs'']"
    "is_ancestor ?e ''/p'' (sha_of (CHR ''a'')) (sha_of (CHR ''c'')) = Inr True"
    "is_ancestor ?e ''/p'' (sha_of (CHR ''b'')) (sha_of (CHR ''c'')) = Inr True"
    "optional_ref_target ?e ''/p'' (Some ''refs/heads/main'') = Inr (Some (sha_of (CHR ''a'')))"
    "optional_ref_target ?e ''/p'' (Some ''refs/heads/dev'') = Inr (Some (sha_of (CHR ''b'')))"
    "git_output ?e ''/p'' [''ls-files'', ''-u'', ''-z''] = Inr \<lparr>go_code = Some 0, go_stdout = [], go_stderr = []\<rparr>"
    by (simp_all add: changed_files_def is_ancestor_def optional_ref_target_def commands repositories evaluated
        map_err_def validate_sha_def ensure_def sha_distinct changed_x cong: attempt_first)
  have "parse_unmerged_entries (ge_lossy ?e) [] = []"
    by (simp add: parse_unmerged_entries_def split_records_def map_filter_simps)
  with inspect_primary [of "sha_of (CHR ''c'')" "''merge''" ch] commands_of show ?thesis
    by (simp add: inspect_integration_def ok_or_def scan_conflict_markers_def scan_x map_filter_simps
        cong: attempt_first)
qed

lemma reported_x:
  "is_changed_files i = [''src/x.rs''] \<Longrightarrow> verify_reported_changed_files i [''src//x.rs''] = Inr ()"
proof -
  have "collect_results validate_relative_changed_path [''src//x.rs''] = Inr [''src//x.rs'']"
    "path_set_eq (path_set [''src//x.rs'']) (path_set [''src/x.rs''])"
    by code_simp+
  then show "is_changed_files i = [''src/x.rs''] \<Longrightarrow> ?thesis"
    by (simp add: verify_reported_changed_files_def ensure_def)
qed

lemma frozen_example: "verify_frozen frozen_git repository_facts = Inr ()"
  using inspect_primary [of "sha_of (CHR ''a'')" "''main''" "[]"] inspect_reviewer [of "sha_of (CHR ''a'')" "''main''" "[]"]
  by (simp add: verify_frozen_def frozen_git_def inspect_frozen verify_frozen_sources_def
      verify_same_repository_def verify_frozen_source_def ensure_def map_err_def paths_differ nul_list_def)

lemma merged_example:
  "verify_integration merged_git repository_facts ''merge'' (sha_of (CHR ''c'')) [''src//x.rs''] = Inr ()"
  using inspect_primary [of "sha_of (CHR ''c'')" "''merge''" "[]"] inspect_reviewer [of "sha_of (CHR ''c'')" "''merge''" "[]"]
    inspect_merged [of "[]"]
  by (simp add: verify_integration_def merged_git_def inspect_frozen verify_reviewer_frozen_def
      verify_integration_result_def verify_source_ref_target_def ensure_def map_err_def nul_list_def branch_merge reported_x)

text \<open>The registered worktrees of the frozen repository, and a clone at \<open>/v\<close>.\<close>

definition listing :: string where
  "listing = nul_list [''worktree /p'', ''HEAD '' @ sha_of (CHR ''a''), ''branch refs/heads/main'', [],
     ''worktree /r'', ''HEAD '' @ sha_of (CHR ''b''), ''branch refs/heads/dev'', []]"

definition listed_worktrees :: "worktree_record list" where
  "listed_worktrees =
     [\<lparr>wr_worktree = ''/p'', wr_head_sha = Some (sha_of (CHR ''a'')), wr_branch = Some ''refs/heads/main'', wr_bare = False\<rparr>,
      \<lparr>wr_worktree = ''/r'', wr_head_sha = Some (sha_of (CHR ''b'')), wr_branch = Some ''refs/heads/dev'', wr_bare = False\<rparr>]"

lemma listing_parsed: "parse_worktree_records (\<lambda>_. []) listing = Inr listed_worktrees"
  by code_simp

lemma orders: "components ''/p'' < components ''/r''"
  by code_simp

lemma registered_list:
  "list_registered_worktrees frozen_git w =
     attempt (inspect_worktree frozen_git w) (\<lambda>anchor.
       Inr (sort_key (\<lambda>r. components (rw_worktree r)) (map (registered_entry frozen_git anchor) listed_worktrees)))"
proof -
  have "git_output frozen_git v [''worktree'', ''list'', ''--porcelain'', ''-z'']
      = Inr \<lparr>go_code = Some 0, go_stdout = listing, go_stderr = []\<rparr>" for v
    by (simp add: frozen_git_def listing_def commands repositories evaluated map_err_def cong: attempt_first)
  moreover have "ge_utf8_error frozen_git = (\<lambda>_. [])" by (simp add: frozen_git_def with_git_def)
  ultimately show ?thesis
    by (simp add: list_registered_worktrees_def listing_parsed)
qed

lemma registered_example: "\<exists>a b. inspect_registered_pair frozen_git ''/p'' ''/r'' = Inr (a, b) \<and> ws_head_sha a = sha_of (CHR ''a'')"
proof -
  note inspected = inspect_primary [of "sha_of (CHR ''a'')" "''main''" "[]", simplified]
    inspect_reviewer [of "sha_of (CHR ''a'')" "''main''" "[]", simplified]
  have canonical: "ge_canonicalize frozen_git p = Inr p" for p by (simp add: frozen_git_def with_git_def)
  have [simp]: "\<not> path_eq ''/r'' ''/p''" using paths_differ path_eq_sym by blast
  show ?thesis
    using inspected orders [THEN less_imp_le]
    by (simp add: inspect_registered_pair_def inspect_registered_worktree_def registered_list canonical
        frozen_git_def [symmetric] registered_entry_def listed_worktrees_def ensure_def map_err_def is_absolute_def
        verify_same_repository_def paths_differ nul_list_def ok_or_def sort_key_def)
qed

definition clone_git :: git_env where
  "clone_git = with_git (\<lambda>w args.
     if args = [''symbolic-ref'', ''--quiet'', ''HEAD''] then no_ref
     else if args = [''rev-parse'', ''--git-common-dir''] then line ''/v/.git''
     else if args = [''rev-parse'', ''HEAD''] then line (sha_of (CHR ''c''))
     else repository (sha_of (CHR ''c'')) ''merge'' [] w args)"

lemma clone_verified:
  "verify_verification_clone clone_git ''/v'' (sha_of (CHR ''c'')) ''/p/.git'' clean = Inr ''/v''"
proof -
  have "inspect_worktree clone_git ''/v'' = Inr \<lparr>ws_worktree = ''/v'', ws_common_dir = ''/v/.git'',
      ws_head_sha = sha_of (CHR ''c''), ws_source_ref = None, ws_clean = True\<rparr>"
    by (simp add: clone_git_def inspect_worktree_def commands repositories evaluated map_err_def validate_sha_def
        ensure_def Let_def sha_distinct nul_list_def cong: attempt_first)
  moreover have "\<not> path_eq ''/v/.git'' ''/p/.git''" by code_simp
  ultimately show ?thesis
    by (simp add: verify_verification_clone_def ensure_def ensure_success_def map_err_def)
       (simp add: clone_git_def with_git_def success_def map_err_def)
qed

lemma clone_example:
  "recover_verification_workspace clone_git repository_facts (sha_of (CHR ''c'')) ''/v'' = Inr ''/v''"
  by (simp add: recover_verification_workspace_def recover_verification_clone_def clone_verified
      validate_sha_def evaluated ensure_def map_err_def)
     (simp add: clone_git_def with_git_def clone_verified [unfolded clone_git_def with_git_def])

text \<open>A creation of the clone that does what it is asked.\<close>

definition example_clone_ops :: clone_ops where
  "example_clone_ops = \<lparr>co_create_dir_all = (\<lambda>_ e. (Inr (), e)), co_remove_dir_all = (\<lambda>_ e. (Inr (), e)),
     co_rename = (\<lambda>_ _ _. (Inr (), clone_git)), co_git = (\<lambda>_ e. (success [], e))\<rparr>"

definition no_clone_git :: git_env where
  "no_clone_git = merged_git\<lparr>ge_exists := \<lambda>_. False\<rparr>"

lemma prepared_example:
  "prepare_verification_workspace example_clone_ops repository_facts (sha_of (CHR ''c'')) ''/v'' no_clone_git
     = (Inr ''/v'', clone_git)"
proof -
  have fields: "ge_canonicalize no_clone_git = ge_canonicalize merged_git"
    "ge_output no_clone_git = ge_output merged_git" "ge_utf8_error no_clone_git = ge_utf8_error merged_git"
    "ge_lossy no_clone_git = ge_lossy merged_git"
    by (simp_all add: no_clone_git_def)
  have env: "inspect_worktree no_clone_git p = inspect_worktree merged_git p"
    "ge_canonicalize no_clone_git p = Inr p" "ge_symlink_metadata no_clone_git p = Present"
    "ge_exists no_clone_git p = False" for p
    by (simp only: inspect_worktree_def canonical_git_path_def read_source_ref_def ref_target_def
        git_text_def git_output_def git_output_allow_status_def output_text_def command_failure_def fields)
       (simp_all add: no_clone_git_def merged_git_def with_git_def)
  have paths: "\<not> path_starts_with ''/v'' ''/p''" "\<not> path_starts_with ''/v'' ''/p/.git''"
    "path_parent ''/v'' = Some ''/''" "path_file_name ''/v'' = Some ''v''" "path_to_str ''v'' = Some ''v''"
    by code_simp+
  have "publish_clone example_clone_ops ''/p'' ''/v'' (sha_of (CHR ''c'')) no_clone_git = (Inr (), clone_git)"
    by (simp add: publish_clone_def example_clone_ops_def paths env ok_or_def map_err_def Let_def success_def
        ensure_success_def ensure_def clone_steps_def)
  then show ?thesis
    using inspect_primary [of "sha_of (CHR ''c'')" "''merge''" "[]"]
    by (simp add: prepare_verification_workspace_def materialize_verification_clone_def inspect_frozen_worktree_def
        env merged_git_def paths map_err_def validate_sha_def evaluated ensure_def clone_verified Let_def)
qed

end
