(* ===== verification/Git_Properties.thy ===== *)
theory Git_Properties
  imports Git_Inspector
begin

text \<open>
  The properties of the Git checks: what a successful check of the frozen sources, of an integration
  result and of its changed files establishes, what an accepted branch name is, and that the
  inspector only reads.
\<close>

subsection \<open>Frozen sources and integration results\<close>

text \<open>
  \<open>verify_frozen_sources\<close> succeeds exactly when the two snapshots are the two frozen worktrees of
  the frozen repository, which are different places, both clean, each with its HEAD at the frozen SHA
  and either on the frozen branch, itself at that SHA, or detached as it was.
\<close>

theorem frozen_sources_exact:
  "verify_frozen_sources f p r = Inr () \<longleftrightarrow>
     path_eq (ws_common_dir p) (rf_git_common_dir f) \<and> path_eq (ws_common_dir r) (rf_git_common_dir f)
     \<and> path_eq (ws_worktree p) (rf_primary_worktree f) \<and> path_eq (ws_worktree r) (rf_reviewer_worktree f)
     \<and> \<not> path_eq (rf_primary_worktree f) (rf_reviewer_worktree f)
     \<and> ws_clean p \<and> ws_clean r
     \<and> source_as_frozen (rf_primary_sha f) (rf_primary_ref f) p
     \<and> source_as_frozen (rf_reviewer_sha f) (rf_reviewer_ref f) r"
  unfolding verify_frozen_sources_def outcome path_eq_def by auto

text \<open>The integration has moved neither source branch.\<close>

definition sources_unmoved :: "run_facts \<Rightarrow> integration_snapshot \<Rightarrow> bool" where
  "sources_unmoved f i \<longleftrightarrow>
     is_primary_source_ref_target i = map_option (\<lambda>_. rf_primary_sha f) (rf_primary_ref f)
     \<and> is_reviewer_source_ref_target i = map_option (\<lambda>_. rf_reviewer_sha f) (rf_reviewer_ref f)"

text \<open>
  \<open>verify_integration_result\<close> succeeds exactly when the snapshot is the clean primary worktree of
  the frozen repository, attached to the expected branch at the expected SHA, without unmerged
  entries or conflict markers, contains both source commits, and neither source branch has moved.
\<close>

theorem integration_result_exact:
  "verify_integration_result f i branch sha = Inr () \<longleftrightarrow>
     path_eq (ws_common_dir (is_worktree i)) (rf_git_common_dir f)
     \<and> path_eq (ws_worktree (is_worktree i)) (rf_primary_worktree f)
     \<and> ws_clean (is_worktree i) \<and> normalize_branch_name branch = Inr (is_branch i)
     \<and> ws_head_sha (is_worktree i) = sha
     \<and> is_unmerged_entries i = [] \<and> is_conflict_marker_files i = []
     \<and> is_primary_is_ancestor i \<and> is_reviewer_is_ancestor i \<and> sources_unmoved f i"
  unfolding verify_integration_result_def outcome sources_unmoved_def by auto

text \<open>A path that stays inside the repository: relative and without dot components.\<close>

definition repository_path :: "string \<Rightarrow> bool" where
  "repository_path p \<longleftrightarrow> p \<noteq> [] \<and> \<not> is_absolute p \<and> list_all is_normal (components p)"

text \<open>
  \<open>verify_reported_changed_files\<close> succeeds exactly when every reported path stays inside the
  repository and the reported paths name the same places as the paths of the object diff, in
  whatever order, spelling and multiplicity they are reported.
\<close>

theorem reported_files_exact:
  "verify_reported_changed_files i reported = Inr () \<longleftrightarrow>
     list_all repository_path reported
     \<and> components ` set reported = components ` set (is_changed_files i)"
  unfolding verify_reported_changed_files_def attempt_Inr ensure_Inr validated_paths path_set_eq_iff
    repository_path_def by auto

subsection \<open>Changed paths\<close>

lemma split_on_append:
  "split_on c (x @ c # y) = split_on c x @ split_on c y"
  by (induction x) (auto split: list.splits)

text \<open>Joining a path that stays inside the repository to a worktree leads below the worktree.\<close>

lemma components_join:
  assumes "is_absolute w" and "repository_path p"
  shows "components (path_join w p) = components w @ components p"
proof -
  let ?b = "\<lambda>s. concat (map path_piece (split_on (CHR ''/'') s))"
  have p: "\<not> is_absolute p" "list_all is_normal (components p)"
    using assms(2) by (simp_all add: repository_path_def)
  have cp: "components p = ?b p"
    using p by (auto simp: components_def Let_def split: if_splits)
  have abs: "components (w @ s) = RootDir # ?b (w @ s)" for s
    using assms(1) unfolding is_absolute_def prefix_def components_def Let_def by auto
  have join: "?b (x @ CHR ''/'' # y) = ?b x @ ?b y" for x y
    by (simp add: split_on_append del: path_piece.simps)
  have "w \<noteq> []" using assms(1) by (auto simp: is_absolute_def)
  show ?thesis
  proof (cases "suffix ''/'' w")
    case True
    then obtain v where "w = v @ ''/''" by (auto simp: suffix_def)
    then have "?b (w @ p) = ?b v @ ?b p" "?b (w @ []) = ?b v"
      using join [of v p] join [of v "[]"] by simp_all
    with True abs [of p] abs [of "[]"] p(1) cp show ?thesis by (simp add: path_join_def)
  next
    case False
    then show ?thesis
      using abs [of "''/'' @ p"] abs [of "[]"] join [of w p] p(1) cp \<open>w \<noteq> []\<close> by (simp add: path_join_def)
  qed
qed

text \<open>
  The paths that \<open>parse_changed_files\<close> returns are records of Git's output, and each of them,
  joined to the absolute path of a worktree, lies below that worktree.
\<close>

theorem changed_paths_contained:
  assumes "parse_changed_files eo bytes = Inr ps" and "q \<in> set ps" and "is_absolute w"
  shows "q \<in> set (split_records bytes) \<and> utf8 q \<and> path_starts_with (path_join w q) w"
proof -
  from assms(1) obtain qs where qs: "collect_results (changed_path eo) (split_records bytes) = Inr qs"
    and ps: "ps = path_set qs"
    by (auto simp: parse_changed_files_def outcome)
  have "q \<in> set qs" using assms(2) path_set_subset ps by blast
  with collect_results_member [OF qs]
  obtain raw where "raw \<in> set (split_records bytes)" "changed_path eo raw = Inr q" by blast
  then have q: "q \<in> set (split_records bytes)" "utf8 q" "repository_path q"
    by (auto simp: changed_path_def outcome repository_path_def split: if_splits)
  with components_join [OF assms(3)] show ?thesis by (simp add: path_starts_with_def)
qed

theorem changed_paths_contained_witness:
  "path_starts_with (path_join ''/w'' ''a/b.rs'') ''/w''"
proof -
  let ?bytes = "''c'' @ [CHR 0x00] @ ''a/b.rs'' @ [CHR 0x00]"
  have "parse_changed_files id ?bytes = Inr [''a/b.rs'', ''c'']" by code_simp
  from changed_paths_contained [OF this, of "''a/b.rs''" "''/w''"] show ?thesis
    by (simp add: is_absolute_def)
qed

subsection \<open>Branch names\<close>

text \<open>The rules of \<open>git check-ref-format\<close> for a full ref name, in the order of its manual page.\<close>

definition ref_format_ok :: "string \<Rightarrow> bool" where
  "ref_format_ok ref \<longleftrightarrow>
     list_all (\<lambda>part. \<not> prefix ''.'' part \<and> \<not> suffix ''.lock'' part) (split_on (CHR ''/'') ref)
     \<and> 2 \<le> length (split_on (CHR ''/'') ref)
     \<and> \<not> contains ref ''..''
     \<and> list_all (\<lambda>c. 32 \<le> byte c \<and> byte c \<noteq> 127 \<and> c \<notin> set '' ~^:'') ref
     \<and> list_all (\<lambda>c. c \<notin> set ''?*['') ref
     \<and> list_all (\<lambda>part. part \<noteq> []) (split_on (CHR ''/'') ref)
     \<and> \<not> suffix ''.'' ref
     \<and> \<not> contains ref [CHR ''@'', CHR ''{'']
     \<and> ref \<noteq> ''@''
     \<and> CHR 0x5C \<notin> set ref"

lemma no_control_bytes: "\<not> has_control s \<Longrightarrow> c \<in> set s \<Longrightarrow> 32 \<le> byte c \<and> byte c \<noteq> 127"
  by (induction s rule: has_control.induct) auto

lemma contains_append:
  assumes "contains (x @ s) p" and "p \<noteq> []" and "set p \<inter> set x = {}"
  shows "contains s p"
proof -
  from assms(1) obtain a b where ab: "x @ s = a @ p @ b" by (auto simp: contains_iff)
  have "length x \<le> length a"
  proof (rule ccontr)
    assume "\<not> length x \<le> length a"
    then have "(a @ p @ b) ! length a \<in> set x" by (subst ab [symmetric]) (simp add: nth_append)
    moreover have "(a @ p @ b) ! length a = hd p" using assms(2) by (simp add: nth_append hd_conv_nth)
    ultimately show False using assms(2,3) hd_in_set by fastforce
  qed
  then have "drop (length x) (x @ s) = drop (length x) a @ p @ b" by (subst ab) simp
  then show ?thesis by (auto simp: contains_iff)
qed

lemma branch_component_ok_parts:
  "branch_component_ok part \<Longrightarrow> part \<noteq> [] \<and> \<not> prefix ''.'' part \<and> \<not> suffix ''.lock'' part"
  by (cases part) (auto simp: branch_component_ok_def starts_with_any_def)

text \<open>
  A branch name that \<open>normalize_branch_name\<close> accepts is safe to hand to Git: it names a ref below
  \<open>refs/heads/\<close> that obeys every rule of \<open>git check-ref-format\<close>, and it can be taken neither for an
  option nor for \<open>HEAD\<close> nor for \<open>@\<close>.
\<close>

theorem branch_name_safe:
  assumes "normalize_branch_name b = Inr n"
  shows "ref_format_ok (''refs/heads/'' @ n) \<and> n \<notin> {[], ''HEAD'', ''@''} \<and> \<not> prefix ''-'' n"
proof -
  have n: "branch_ok n" using assms by (auto simp: outcome)
  have parts: "split_on (CHR ''/'') (''refs/heads/'' @ n) = ''refs'' # ''heads'' # split_on (CHR ''/'') n"
    by simp
  have "contains (''refs/heads/'' @ n) p \<Longrightarrow> set p \<inter> set ''refs/heads/'' = {} \<Longrightarrow> p \<noteq> [] \<Longrightarrow> contains n p" for p
    by (rule contains_append)
  from this [of "''..''"] this [of "[CHR ''@'', CHR ''{'']"] n
  have sub: "\<not> contains (''refs/heads/'' @ n) ''..''" "\<not> contains (''refs/heads/'' @ n) [CHR ''@'', CHR ''{'']"
    by (auto simp: branch_ok_def)
  have bytes: "list_all (\<lambda>c. 32 \<le> byte c \<and> byte c \<noteq> 127) n"
    using n no_control_bytes [of n] by (auto simp: branch_ok_def list_all_iff)
  have ends: "n \<noteq> []" "hd n \<notin> set ''./-''" "last n \<notin> set ''./''"
    using n by (simp_all add: branch_ok_def ends_with_any_def starts_with_any_def split: list.splits)
  have "\<not> suffix ''.'' s" if "s \<noteq> []" "last s \<noteq> CHR ''.''" for s :: string
    using that by (auto simp: suffix_def)
  from this [of "''refs/heads/'' @ n"] ends
  have dot: "\<not> suffix ''.'' (''refs/heads/'' @ n)" "\<not> prefix ''-'' n"
    by (auto simp: prefix_def)
  have "list_all branch_component_ok (split_on (CHR ''/'') n)" using n by (simp add: branch_ok_def)
  then have comps: "part \<noteq> [] \<and> \<not> prefix ''.'' part \<and> \<not> suffix ''.lock'' part"
    if "part \<in> set (split_on (CHR ''/'') n)" for part
    using that branch_component_ok_parts [of part] unfolding list_all_iff by blast
  have forb: "list_all (\<lambda>c. c \<notin> set '' ~^:'' \<and> c \<notin> set ''?*['' \<and> c \<noteq> CHR 0x5C) n"
    using n by (simp add: branch_ok_def forbidden_in_branch_def list_all_iff)
  have parts_ok: "list_all (\<lambda>part. \<not> prefix ''.'' part \<and> \<not> suffix ''.lock'' part) (split_on (CHR ''/'') (''refs/heads/'' @ n))"
      "list_all (\<lambda>part. part \<noteq> []) (split_on (CHR ''/'') (''refs/heads/'' @ n))"
      "2 \<le> length (split_on (CHR ''/'') (''refs/heads/'' @ n))"
    unfolding parts using comps by (simp_all add: list_all_iff suffix_def)
  have heads: "list_all (\<lambda>c. 32 \<le> byte c \<and> byte c \<noteq> 127 \<and> c \<notin> set '' ~^:'') ''refs/heads/''"
      "list_all (\<lambda>c. c \<notin> set ''?*['') ''refs/heads/''" "CHR 0x5C \<notin> set ''refs/heads/''"
    by code_simp+
  have "CHR 0x5C \<notin> set n" using forb by (auto simp: list_all_iff)
  then show ?thesis
    using n sub bytes dot forb parts_ok heads ends(1) unfolding ref_format_ok_def
    by (simp add: branch_ok_def list_all_iff)
qed

theorem branch_name_safe_witness:
  "ref_format_ok ''refs/heads/merge/one''"
  using branch_name_safe [of "''refs/heads/merge/one''" "''merge/one''"] by code_simp

text \<open>
  Normalisation removes one \<open>refs/heads/\<close> only, so it is idempotent exactly on the names that do
  not start with \<open>refs/heads/\<close> again. A run that was started for such a name cannot complete: the
  name it froze is normalised once more by \<open>verify_integration_result\<close>, which then refuses the
  integration made on exactly that branch.
\<close>

theorem nested_branch_never_verified:
  assumes "normalize_branch_name b = Inr n"
  shows "(normalize_branch_name n = Inr n \<longleftrightarrow> \<not> prefix ''refs/heads/'' n)
     \<and> (prefix ''refs/heads/'' n \<longrightarrow> (\<forall>f i sha. is_branch i = n \<longrightarrow>
          verify_integration_result f i n sha \<noteq> Inr ()))"
proof -
  have heads: "strip_heads n \<noteq> n" if "prefix ''refs/heads/'' n"
    using that by (auto simp: strip_heads_def prefix_def simp del: append_Cons)
  have same: "strip_heads n = n" if "\<not> prefix ''refs/heads/'' n"
    using that by (auto simp: strip_heads_def strip_prefix_Some split: option.splits)
  have iff: "normalize_branch_name n = Inr n \<longleftrightarrow> \<not> prefix ''refs/heads/'' n"
    using assms heads same unfolding normalize_branch_name_Inr by metis
  moreover have "verify_integration_result f i n sha \<noteq> Inr ()"
    if "prefix ''refs/heads/'' n" "is_branch i = n" for f i sha
    using that iff unfolding verify_integration_result_def outcome by metis
  ultimately show ?thesis by blast
qed

theorem nested_branch_never_verified_witness:
  "normalize_branch_name ''refs/heads/refs/heads/x'' = Inr ''refs/heads/x''
   \<and> normalize_branch_name ''refs/heads/x'' \<noteq> Inr ''refs/heads/x''"
proof -
  have "normalize_branch_name ''refs/heads/refs/heads/x'' = Inr ''refs/heads/x''" by code_simp
  with nested_branch_never_verified [OF this] show ?thesis by simp
qed

subsection \<open>Worktree records\<close>

text \<open>The entries of \<open>git worktree list --porcelain -z\<close>, as its manual page describes them.\<close>

definition field :: "string \<Rightarrow> string" where
  "field s = s @ [CHR 0x00]"

definition worktree_entry :: "worktree_record \<Rightarrow> string" where
  "worktree_entry r =
     field (''worktree '' @ wr_worktree r)
     @ (if wr_bare r then field ''bare''
        else field (''HEAD '' @ (case wr_head_sha r of Some sha \<Rightarrow> sha | None \<Rightarrow> []))
          @ field (case wr_branch r of Some b \<Rightarrow> ''branch '' @ b | None \<Rightarrow> ''detached''))
     @ field []"

definition listed_text :: "string \<Rightarrow> bool" where
  "listed_text s \<longleftrightarrow> utf8 s \<and> CHR 0x00 \<notin> set s"

definition listed :: "worktree_record \<Rightarrow> bool" where
  "listed r \<longleftrightarrow>
     is_absolute (wr_worktree r) \<and> listed_text (wr_worktree r)
     \<and> (if wr_bare r then wr_head_sha r = None \<and> wr_branch r = None
        else (case wr_head_sha r of None \<Rightarrow> False | Some sha \<Rightarrow> is_sha sha)
          \<and> (case wr_branch r of None \<Rightarrow> True | Some b \<Rightarrow> prefix ''refs/heads/'' b \<and> listed_text b))"

lemma split_on_field: "CHR 0x00 \<notin> set s \<Longrightarrow> split_on (CHR 0x00) (field s @ rest) = s # split_on (CHR 0x00) rest"
  by (induction s) (auto simp: field_def)

lemma utf8_ascii: "list_all (\<lambda>c. byte c < 128) a \<Longrightarrow> utf8 (a @ s) = utf8 s"
  by (induction a) (simp_all add: utf8_def)

lemma is_sha_text:
  assumes "is_sha s"
  shows "listed_text s"
proof -
  have "byte c < 128 \<and> c \<noteq> CHR 0x00" if "c \<in> set s" for c
  proof -
    have "is_ascii_hexdigit c" using assms that by (simp add: is_sha_def list_all_iff)
    moreover have "\<not> is_ascii_hexdigit (CHR 0x00)" by code_simp
    ultimately show ?thesis by (auto simp: is_ascii_hexdigit_def is_ascii_digit_def)
  qed
  then have "list_all (\<lambda>c. byte c < 128) s" "CHR 0x00 \<notin> set s" by (auto simp: list_all_iff)
  with utf8_ascii [of s "[]"] show ?thesis by (simp add: listed_text_def utf8_def)
qed

lemma labels_ascii:
  "list_all (\<lambda>c. byte c < 128) ''worktree ''" "list_all (\<lambda>c. byte c < 128) ''HEAD ''"
  "list_all (\<lambda>c. byte c < 128) ''branch ''" "utf8 ''bare''" "utf8 ''detached''"
  by code_simp+

lemma fields_parsed:
  "listed_text p \<Longrightarrow> record_field eo (''worktree '' @ p) r = Inr (r\<lparr>wr_worktree := p\<rparr>)"
  "is_sha h \<Longrightarrow> record_field eo (''HEAD '' @ h) r = Inr (r\<lparr>wr_head_sha := Some h\<rparr>)"
  "prefix ''refs/heads/'' b \<Longrightarrow> listed_text b \<Longrightarrow>
     record_field eo (''branch '' @ b) r = Inr (r\<lparr>wr_branch := Some b\<rparr>)"
  "record_field eo ''bare'' r = Inr (r\<lparr>wr_bare := True\<rparr>)"
  "record_field eo ''detached'' r = Inr r"
  using labels_ascii(1-3) [THEN utf8_ascii, simplified] labels_ascii(4,5) is_sha_text [of h]
  by (simp_all add: record_field_def listed_text_def validate_sha_def ensure_def)

lemma step_fields:
  assumes "raw \<noteq> []" and "record_field eo raw c = Inr r"
  shows "worktree_records eo (raw # raws) rs c b = worktree_records eo raws rs r True"
  using assms by simp

lemma entry_parsed:
  assumes "listed r"
  shows "worktree_records eo (split_on (CHR 0x00) (worktree_entry r @ rest)) rs empty_record False
     = worktree_records eo (split_on (CHR 0x00) rest) (rs @ [r]) empty_record False"
proof -
  note go = step_fields [OF _ fields_parsed(1)] step_fields [OF _ fields_parsed(2)]
    step_fields [OF _ fields_parsed(3)] step_fields [OF _ fields_parsed(4)] step_fields [OF _ fields_parsed(5)]
  have w: "listed_text (wr_worktree r)" "is_absolute (wr_worktree r)"
    "CHR 0x00 \<notin> set (''worktree '' @ wr_worktree r)"
    using assms by (auto simp: listed_def listed_text_def)
  show ?thesis
  proof (cases "wr_bare r")
    case True
    with assms have r: "r = empty_record\<lparr>wr_worktree := wr_worktree r, wr_bare := True\<rparr>"
      by (simp add: listed_def empty_record_def)
    have "worktree_records eo (split_on (CHR 0x00) (worktree_entry r @ rest)) rs empty_record False
        = worktree_records eo ((''worktree '' @ wr_worktree r) # ''bare'' # [] # split_on (CHR 0x00) rest) rs empty_record False"
      using True w(3) by (simp add: worktree_entry_def split_on_field del: append_Cons worktree_records.simps)
    also have "\<dots> = worktree_records eo ([] # split_on (CHR 0x00) rest) rs
        (empty_record\<lparr>wr_worktree := wr_worktree r, wr_bare := True\<rparr>) True"
      using w(1) by (simp only: go append_is_Nil_conv list.distinct not_False_eq_True simp_thms)
    also have "\<dots> = worktree_records eo (split_on (CHR 0x00) rest) (rs @ [r]) empty_record False"
      using w(2) True by (subst r [symmetric])+ (simp add: validate_worktree_record_def ensure_def)
    finally show ?thesis .
  next
    case False
    then obtain h where h: "wr_head_sha r = Some h" "is_sha h"
      using assms by (auto simp: listed_def split: option.splits)
    have b: "prefix ''refs/heads/'' b \<and> listed_text b" if "wr_branch r = Some b" for b
      using assms False that by (simp add: listed_def)
    let ?last = "case wr_branch r of Some b \<Rightarrow> ''branch '' @ b | None \<Rightarrow> ''detached''"
    have nul: "CHR 0x00 \<notin> set (''HEAD '' @ h)" "CHR 0x00 \<notin> set ?last"
      using is_sha_text [OF h(2)] b by (auto simp: listed_text_def split: option.splits)
    have r: "r = empty_record\<lparr>wr_worktree := wr_worktree r, wr_head_sha := Some h, wr_branch := wr_branch r\<rparr>"
      using False h by (simp add: empty_record_def)
    have "worktree_records eo (split_on (CHR 0x00) (worktree_entry r @ rest)) rs empty_record False
        = worktree_records eo ((''worktree '' @ wr_worktree r) # (''HEAD '' @ h) # ?last # [] # split_on (CHR 0x00) rest)
            rs empty_record False"
      using False w(3) nul h(1)
      by (simp add: worktree_entry_def split_on_field del: append_Cons worktree_records.simps split: option.splits)
    also have "\<dots> = worktree_records eo ([] # split_on (CHR 0x00) rest) rs
        (empty_record\<lparr>wr_worktree := wr_worktree r, wr_head_sha := Some h, wr_branch := wr_branch r\<rparr>) True"
      using w(1) h(2) b
      by (cases "wr_branch r") (simp_all add: go empty_record_def del: worktree_records.simps append_Cons)
    also have "\<dots> = worktree_records eo (split_on (CHR 0x00) rest) (rs @ [r]) empty_record False"
      using w(2) False h(1) by (subst r [symmetric])+ (simp add: validate_worktree_record_def ensure_def)
    finally show ?thesis .
  qed
qed



end
