(* ===== verification/Guard_Properties.thy ===== *)
theory Guard_Properties
  imports Guard_Example Git_Properties
begin

text \<open>
  The properties of the repository checks of the coordinator: what Git must have answered when a check
  succeeds, that the checks only read, and that a patch is applied on the verified base only.
\<close>

subsection \<open>What Git answered\<close>

text \<open>The output of a command that exits with 0, as bytes and as trimmed text.\<close>

definition printed :: "git_env \<Rightarrow> string \<Rightarrow> string list \<Rightarrow> string option" where
  "printed e w args =
     (case ge_output e w args of
        Inr out \<Rightarrow> if go_code out = Some 0 then Some (go_stdout out) else None
      | Inl _ \<Rightarrow> None)"

abbreviation printed_text :: "git_env \<Rightarrow> string \<Rightarrow> string list \<Rightarrow> string option" where
  "printed_text e w args \<equiv> map_option trim (printed e w args)"

lemma git_output_printed: "git_output e w args = Inr out \<Longrightarrow> printed e w args = Some (go_stdout out)"
  by (auto simp: git_output_def git_output_allow_status_def printed_def outcome split: if_splits)

lemma git_text_printed: "git_text e w args = Inr t \<Longrightarrow> printed_text e w args = Some t"
  by (auto simp: git_text_def output_text_def outcome dest!: git_output_printed split: if_splits)

lemma ref_target_printed:
  "ref_target e w ref = Inr sha \<Longrightarrow>
     printed_text e w [''show-ref'', ''--verify'', ''--hash'', ref] = Some sha \<and> is_sha sha"
  by (auto simp: ref_target_def output_text_def outcome dest!: git_output_printed split: if_splits)

lemma read_source_ref_printed:
  "read_source_ref e w = Inr (Some src) \<Longrightarrow>
     printed_text e w [''symbolic-ref'', ''--quiet'', ''HEAD''] = Some (sr_name src)
     \<and> printed_text e w [''show-ref'', ''--verify'', ''--hash'', sr_name src] = Some (sr_target_sha src)"
  by (auto simp: read_source_ref_def git_output_allow_status_def printed_def output_text_def outcome
      dest!: ref_target_printed split: if_splits)

lemma is_ancestor_printed:
  "is_ancestor e w a d = Inr True \<Longrightarrow>
     printed e w [''merge-base'', ''--is-ancestor'', a, d] \<noteq> None \<and> is_sha a \<and> is_sha d"
  by (auto simp: is_ancestor_def git_output_allow_status_def printed_def outcome split: if_splits)

lemma inspect_worktree_printed:
  "inspect_worktree e p = Inr s \<Longrightarrow>
     printed_text e (ws_worktree s) [''rev-parse'', ''HEAD''] = Some (ws_head_sha s)
     \<and> is_sha (ws_head_sha s)
     \<and> (ws_clean s \<longleftrightarrow> printed e (ws_worktree s) [''status'', ''--porcelain=v1'', ''-z''] = Some [])
     \<and> read_source_ref e (ws_worktree s) = Inr (ws_source_ref s)"
  by (auto simp: inspect_worktree_def outcome dest!: git_output_printed git_text_printed)

lemma inspect_integration_Inr:
  assumes "inspect_integration e p f = Inr i"
  shows "inspect_worktree e p = Inr (is_worktree i)"
    and "\<exists>src. ws_source_ref (is_worktree i) = Some src \<and> sr_name src = ''refs/heads/'' @ is_branch i"
    and "is_ancestor e (ws_worktree (is_worktree i)) (rf_primary_sha f) (ws_head_sha (is_worktree i))
      = Inr (is_primary_is_ancestor i)"
    and "is_ancestor e (ws_worktree (is_worktree i)) (rf_reviewer_sha f) (ws_head_sha (is_worktree i))
      = Inr (is_reviewer_is_ancestor i)"
    and "changed_files e (ws_worktree (is_worktree i)) (rf_primary_sha f) (ws_head_sha (is_worktree i))
      = Inr (is_changed_files i)"
    and "optional_ref_target e (ws_worktree (is_worktree i)) (rf_primary_ref f)
      = Inr (is_primary_source_ref_target i)"
    and "optional_ref_target e (ws_worktree (is_worktree i)) (rf_reviewer_ref f)
      = Inr (is_reviewer_source_ref_target i)"
  using assms unfolding inspect_integration_def
  by (auto simp: outcome strip_prefix_Some)

lemma parse_changed_files_Inr:
  "parse_changed_files eo bytes = Inr ps \<longleftrightarrow>
     ps = path_set (split_records bytes)
     \<and> list_all (\<lambda>p. utf8 p \<and> repository_path p) (split_records bytes)"
proof -
  have "collect_results (changed_path eo) xs = Inr ys \<longleftrightarrow>
      ys = xs \<and> list_all (\<lambda>p. utf8 p \<and> repository_path p) xs" for xs ys
    by (induction xs arbitrary: ys) (auto simp: outcome changed_path_def repository_path_def)
  then show ?thesis by (auto simp: parse_changed_files_def outcome)
qed

lemma changed_files_printed:
  assumes "changed_files e w a b = Inr ps"
  shows "\<exists>bytes. printed e w [''diff'', ''--name-only'', ''-z'', a, b, ''--''] = Some bytes
     \<and> ps = path_set (split_records bytes) \<and> list_all repository_path ps"
proof -
  from assms obtain out where
    out: "git_output e w [''diff'', ''--name-only'', ''-z'', a, b, ''--''] = Inr out"
    and ps: "parse_changed_files (ge_utf8_error e) (go_stdout out) = Inr ps"
    by (auto simp: changed_files_def outcome)
  have "list_all repository_path ps"
    using ps path_set_subset [of "split_records (go_stdout out)"]
    by (auto simp: parse_changed_files_Inr list_all_iff)
  with ps git_output_printed [OF out] show ?thesis by (auto simp: parse_changed_files_Inr)
qed

text \<open>Both source branches are where they were frozen.\<close>

definition source_branches_kept :: "git_env \<Rightarrow> string \<Rightarrow> run_facts \<Rightarrow> bool" where
  "source_branches_kept e w f \<longleftrightarrow>
     (\<forall>name. rf_primary_ref f = Some name \<longrightarrow>
        printed_text e w [''show-ref'', ''--verify'', ''--hash'', name] = Some (rf_primary_sha f))
     \<and> (\<forall>name. rf_reviewer_ref f = Some name \<longrightarrow>
        printed_text e w [''show-ref'', ''--verify'', ''--hash'', name] = Some (rf_reviewer_sha f))"

lemma optional_ref_target_printed:
  "optional_ref_target e w ref = Inr (map_option (\<lambda>_. sha) ref) \<Longrightarrow> ref = Some name \<Longrightarrow>
     printed_text e w [''show-ref'', ''--verify'', ''--hash'', name] = Some sha"
  by (auto simp: optional_ref_target_def outcome dest!: ref_target_printed)

lemma verified_integration:
  assumes "inspect_integration e p f = Inr i" and "verify_integration_result f i branch sha = Inr ()"
  shows "\<exists>w bytes. path_eq w (rf_primary_worktree f)
     \<and> printed_text e w [''rev-parse'', ''HEAD''] = Some sha
     \<and> printed_text e w [''symbolic-ref'', ''--quiet'', ''HEAD''] = Some (''refs/heads/'' @ strip_heads branch)
     \<and> printed e w [''status'', ''--porcelain=v1'', ''-z''] = Some []
     \<and> printed e w [''merge-base'', ''--is-ancestor'', rf_primary_sha f, sha] \<noteq> None
     \<and> printed e w [''merge-base'', ''--is-ancestor'', rf_reviewer_sha f, sha] \<noteq> None
     \<and> printed e w [''diff'', ''--name-only'', ''-z'', rf_primary_sha f, sha, ''--''] = Some bytes
     \<and> components ` set (is_changed_files i) = components ` set (split_records bytes)
     \<and> source_branches_kept e w f"
proof -
  let ?w = "ws_worktree (is_worktree i)"
  note inspected = inspect_integration_Inr [OF assms(1)]
  have result: "path_eq ?w (rf_primary_worktree f)" "ws_clean (is_worktree i)"
    "is_branch i = strip_heads branch" "ws_head_sha (is_worktree i) = sha"
    "is_primary_is_ancestor i" "is_reviewer_is_ancestor i" "sources_unmoved f i"
    using assms(2) unfolding verify_integration_result_def outcome sources_unmoved_def by auto
  obtain bytes where "printed e ?w [''diff'', ''--name-only'', ''-z'', rf_primary_sha f, sha, ''--''] = Some bytes"
    and "is_changed_files i = path_set (split_records bytes)"
    using changed_files_printed [OF inspected(5)] result(4) by auto
  moreover from this path_set_components [of "split_records bytes"]
  have "components ` set (is_changed_files i) = components ` set (split_records bytes)" by simp
  moreover have "source_branches_kept e ?w f"
    using inspected(6,7) result(7) optional_ref_target_printed
    unfolding source_branches_kept_def sources_unmoved_def by metis
  moreover obtain src where "read_source_ref e ?w = Inr (Some src)" "sr_name src = ''refs/heads/'' @ is_branch i"
    using inspect_worktree_printed [OF inspected(1)] inspected(2) by metis
  then have "printed_text e ?w [''symbolic-ref'', ''--quiet'', ''HEAD''] = Some (''refs/heads/'' @ strip_heads branch)"
    using read_source_ref_printed result(3) by metis
  ultimately show ?thesis
    using result inspect_worktree_printed [OF inspected(1)] is_ancestor_printed inspected(3,4) by metis
qed

text \<open>
  C33: When \<open>verify_integration\<close> accepts a result, Git itself has answered so in the primary worktree:
  HEAD is the reported SHA on the reported branch, the status is empty, \<open>merge-base\<close> finds both
  frozen source commits among its ancestors, the reported files name exactly the places of the object
  diff from the primary source, and both source branches still point at their frozen SHAs.
\<close>

theorem verified_integration_answers:
  assumes "verify_integration e f branch sha reported = Inr ()"
  shows "\<exists>w bytes. path_eq w (rf_primary_worktree f)
     \<and> printed_text e w [''rev-parse'', ''HEAD''] = Some sha
     \<and> printed_text e w [''symbolic-ref'', ''--quiet'', ''HEAD''] = Some (''refs/heads/'' @ strip_heads branch)
     \<and> printed e w [''status'', ''--porcelain=v1'', ''-z''] = Some []
     \<and> printed e w [''merge-base'', ''--is-ancestor'', rf_primary_sha f, sha] \<noteq> None
     \<and> printed e w [''merge-base'', ''--is-ancestor'', rf_reviewer_sha f, sha] \<noteq> None
     \<and> printed e w [''diff'', ''--name-only'', ''-z'', rf_primary_sha f, sha, ''--''] = Some bytes
     \<and> components ` set reported = components ` set (split_records bytes)
     \<and> source_branches_kept e w f"
proof -
  from assms obtain i where i: "inspect_integration e (rf_primary_worktree f) f = Inr i"
    and v: "verify_integration_result f i branch sha = Inr ()"
    and "verify_reported_changed_files i reported = Inr ()"
    by (auto simp: verify_integration_def outcome)
  then have "components ` set reported = components ` set (is_changed_files i)"
    unfolding verify_reported_changed_files_def attempt_Inr ensure_Inr validated_paths path_set_eq_iff by auto
  with verified_integration [OF i v] show ?thesis by metis
qed

theorem verified_integration_answers_witness:
  "\<exists>w. path_eq w ''/p'' \<and> printed_text merged_git w [''rev-parse'', ''HEAD''] = Some (sha_of (CHR ''c''))
     \<and> source_branches_kept merged_git w repository_facts"
  using verified_integration_answers [OF merged_example] by auto

text \<open>
  What \<open>authoritative_integration_result\<close> derives is a result that \<open>verify_integration\<close> accepts on
  the same repository: the SHA and the changed files it returns always pass the check that the
  coordinator makes of them next.
\<close>

theorem authoritative_result_verified:
  assumes "authoritative_integration_result e f branch = Inr (sha, files)"
  shows "verify_integration e f branch sha files = Inr ()"
proof -
  from assms obtain p r i where
    p: "inspect_frozen_worktree e (rf_primary_worktree f) ''primary'' = Inr p"
    and r: "inspect_frozen_worktree e (rf_reviewer_worktree f) ''reviewer'' = Inr r"
      "verify_reviewer_frozen f r = Inr ()"
    and i: "inspect_integration e (rf_primary_worktree f) f = Inr i"
      "verify_integration_result f i branch sha = Inr ()" "files = is_changed_files i"
    by (auto simp: authoritative_integration_result_def outcome)
  have "list_all repository_path files"
    using changed_files_printed [OF inspect_integration_Inr(5) [OF i(1)]] i(3) by auto
  then have "verify_reported_changed_files i files = Inr ()"
    unfolding verify_reported_changed_files_def attempt_Inr ensure_Inr validated_paths path_set_eq_iff
      repository_path_def using i(3) by auto
  with p r i show ?thesis by (simp add: verify_integration_def map_err_def)
qed

theorem authoritative_result_verified_witness:
  "verify_integration merged_git repository_facts ''merge'' (sha_of (CHR ''c'')) [''src/x.rs''] = Inr ()"
  by (rule authoritative_result_verified)
     (use inspect_primary [of "sha_of (CHR ''c'')" "''merge''" "[]"]
        inspect_reviewer [of "sha_of (CHR ''c'')" "''merge''" "[]"] inspect_merged [of "[]"] in
      \<open>simp add: authoritative_integration_result_def merged_git_def inspect_frozen verify_reviewer_frozen_def
        verify_integration_result_def verify_source_ref_target_def ensure_def map_err_def nul_list_def branch_merge\<close>)

subsection \<open>The checks only read\<close>

text \<open>Two repositories that give the same answers to the commands of the read-only allowlist.\<close>

definition same_reads :: "git_env \<Rightarrow> git_env \<Rightarrow> bool" where
  "same_reads e e' \<longleftrightarrow>
     (\<forall>w args. read_only_command args \<longrightarrow> ge_output e w args = ge_output e' w args)
     \<and> e'\<lparr>ge_output := ge_output e\<rparr> = e"

lemma same_reads_output: "same_reads e e' \<Longrightarrow> git_output_allow_status e w args = git_output_allow_status e' w args"
  by (auto simp: git_output_allow_status_def validate_read_only_command_def same_reads_def attempt_def ensure_def)

lemma same_reads_env:
  assumes "same_reads e e'"
  shows "ge_canonicalize e' = ge_canonicalize e" "ge_exists e' = ge_exists e" "ge_is_file e' = ge_is_file e"
    "ge_open e' = ge_open e" "ge_utf8_error e' = ge_utf8_error e" "ge_lossy e' = ge_lossy e"
    "ge_symlink_metadata e' = ge_symlink_metadata e"
proof -
  have e: "e = e'\<lparr>ge_output := ge_output e\<rparr>" using assms by (simp add: same_reads_def)
  show "ge_canonicalize e' = ge_canonicalize e" "ge_exists e' = ge_exists e" "ge_is_file e' = ge_is_file e"
    "ge_open e' = ge_open e" "ge_utf8_error e' = ge_utf8_error e" "ge_lossy e' = ge_lossy e"
    "ge_symlink_metadata e' = ge_symlink_metadata e"
    by (subst e, simp)+
qed

lemmas reading_defs = git_output_def git_text_def output_text_def command_failure_def canonical_git_path_def
  ref_target_def optional_ref_target_def read_source_ref_def is_ancestor_def

lemma same_reads_commands:
  assumes "same_reads e e'"
  shows "inspect_worktree e' p = inspect_worktree e p"
    and "inspect_integration e' p f = inspect_integration e p f"
    and "verify_source_refs_unchanged e' p f = verify_source_refs_unchanged e p f"
    and "verify_integration_branch_absent e' p b = verify_integration_branch_absent e p b"
proof -
  note same = same_reads_output [OF assms, symmetric] same_reads_env [OF assms]
  show i: "inspect_worktree e' p = inspect_worktree e p"
    unfolding inspect_worktree_def reading_defs same ..
  have s: "scan_changed_file e' w q = scan_changed_file e w q" for w q
    unfolding scan_changed_file_def same ..
  show "inspect_integration e' p f = inspect_integration e p f"
    unfolding inspect_integration_def i changed_files_def scan_conflict_markers_def reading_defs same s ..
  show "verify_source_refs_unchanged e' p f = verify_source_refs_unchanged e p f"
    unfolding verify_source_refs_unchanged_def reading_defs same ..
  show "verify_integration_branch_absent e' p b = verify_integration_branch_absent e p b"
    unfolding verify_integration_branch_absent_def command_failure_def same ..
qed

text \<open>
  The checks of the coordinator only read the repository: their verdicts depend on Git through the
  commands of the read-only allowlist alone, whatever Git would answer to any other command.
\<close>

theorem checks_only_read:
  assumes "same_reads e e'"
  shows "verify_frozen e' f = verify_frozen e f
     \<and> verify_branch_absent e' f branch = verify_branch_absent e f branch
     \<and> verify_integration_in_progress e' f branch = verify_integration_in_progress e f branch
     \<and> verify_integration_patch_ready e' f branch = verify_integration_patch_ready e f branch
     \<and> verify_integration e' f branch sha files = verify_integration e f branch sha files
     \<and> authoritative_integration_result e' f branch = authoritative_integration_result e f branch"
proof -
  have "inspect_frozen_worktree e' p role = inspect_frozen_worktree e p role" for p role
    unfolding inspect_frozen_worktree_def same_reads_env [OF assms] same_reads_commands [OF assms] ..
  then show ?thesis
    by (simp add: verify_frozen_def verify_branch_absent_def verify_integration_in_progress_def
        verify_integration_patch_ready_def verify_integration_def authoritative_integration_result_def
        same_reads_commands [OF assms])
qed

theorem checks_only_read_witness:
  "verify_frozen (frozen_git\<lparr>ge_output := \<lambda>w args. if args = [''commit''] then Inl ''refused'' else ge_output frozen_git w args\<rparr>)
     repository_facts = verify_frozen frozen_git repository_facts"
proof -
  have "same_reads frozen_git (frozen_git\<lparr>ge_output := \<lambda>w args. if args = [''commit''] then Inl ''refused'' else ge_output frozen_git w args\<rparr>)"
    by (auto simp: same_reads_def read_only_command_def)
  from checks_only_read [OF this] show ?thesis by blast
qed

subsection \<open>Controlled patches\<close>

lemma applied_patch:
  assumes "apply_checked_text_patch run w head patch e = (r, e')" and "is_ok r \<or> e' \<noteq> e"
    and "\<forall>e w p. snd (run e w p True) = e"
  shows "is_sha head \<and> validate_integration_patch patch = Inr ()
     \<and> (\<exists>s. inspect_worktree e w = Inr s \<and> ws_head_sha s = head \<and> ws_clean s
          \<and> fst (run e (ws_worktree s) patch True) = Inr ()
          \<and> e' = snd (run e (ws_worktree s) patch False))"
proof (cases "is_sha head \<and> validate_integration_patch patch = Inr ()
    \<and> (\<exists>s. inspect_worktree e w = Inr s \<and> ws_head_sha s = head \<and> ws_clean s)")
  case True
  then obtain s where s: "validate_sha head l = Inr ()" "validate_integration_patch patch = Inr ()"
    "inspect_worktree e w = Inr s" "ws_head_sha s = head" "ws_clean s" for l
    by (auto simp: validate_sha_def ensure_def)
  obtain c where c: "run e (ws_worktree s) patch True = (c, e)"
    using assms(3) by (metis prod.collapse)
  obtain a e2 where a: "run e (ws_worktree s) patch False = (a, e2)" by (cases "run e (ws_worktree s) patch False")
  have kept: "attempt_in e2 x k = (r, e') \<Longrightarrow> (\<And>y. x = Inr y \<Longrightarrow> k y = (r, e') \<Longrightarrow> e' = e2) \<Longrightarrow> e' = e2"
    for x :: "git_safety_error + 'x" and k
    by (cases x) auto
  have "c = Inr () \<and> e' = e2"
  proof (cases c)
    case (Inl err)
    then show ?thesis using assms(1,2) s c
      by (auto simp: apply_checked_text_patch_def ensure_def outcome)
  next
    case (Inr u)
    then show ?thesis using assms(1) s c a
      by (auto simp: apply_checked_text_patch_def ensure_def Let_def elim!: kept split: if_splits)
  qed
  with True s c a show ?thesis by auto
next
  case False
  with assms(1,2) show ?thesis
    by (auto simp: apply_checked_text_patch_def validate_sha_def attempt_in_def ensure_def outcome
        split: sum.splits if_splits)
qed

lemma patch_text_ok:
  "validate_integration_patch patch = Inr () \<longleftrightarrow>
     \<not> blank patch \<and> length patch \<le> 524288 \<and> CHR 0x00 \<notin> set patch
     \<and> \<not> contains patch ''GIT binary patch'' \<and> \<not> contains patch ''Binary files ''"
  by (simp add: validate_integration_patch_def outcome MAX_INTEGRATION_PATCH_BYTES_def)

lemma inspect_frozen_worktree_Inr:
  "inspect_frozen_worktree e p role = Inr s \<Longrightarrow> inspect_worktree e p = Inr s"
  unfolding inspect_frozen_worktree_def outcome
  by (elim exE conjE, rename_tac c, case_tac "ge_symlink_metadata e (path_join c ''.git'')") (auto simp: outcome)

lemma patch_ready_Inr:
  assumes "verify_integration_patch_ready e f branch = Inr base" and "inspect_worktree e (rf_primary_worktree f) = Inr s"
  shows "ws_head_sha s = base
     \<and> ws_source_ref s = Some \<lparr>sr_name = ''refs/heads/'' @ branch, sr_target_sha = base\<rparr>"
proof -
  from assms(1) obtain p where "inspect_frozen_worktree e (rf_primary_worktree f) ''primary'' = Inr p"
    and p: "case ws_source_ref p of None \<Rightarrow> False
      | Some source \<Rightarrow> sr_name source = ''refs/heads/'' @ branch \<and> sr_target_sha source = ws_head_sha p"
    and base: "ws_head_sha p = base"
    unfolding verify_integration_patch_ready_def outcome by auto
  then have "p = s" using assms(2) by (auto dest!: inspect_frozen_worktree_Inr)
  with p base show ?thesis by (auto split: option.splits)
qed

text \<open>
  C34: A corrective patch changes the repository only on the verified base. If \<open>git apply --check\<close>
  changes nothing, then a successful or effective \<open>apply_corrective_integration_patch\<close> was asked for
  the SHA that the clean primary worktree has on the integration branch, after all checks of an
  integration; the patch is a text of at most 512 KiB without NUL bytes or binary parts; its dry run
  succeeded; and the repository afterwards is what this one patch made of it.
\<close>

theorem patch_on_verified_base:
  assumes "apply_corrective_integration_patch run f branch base patch e = (r, e')" and "is_ok r \<or> e' \<noteq> e"
    and "\<forall>e w p. snd (run e w p True) = e"
  shows "verify_integration_patch_ready e f branch = Inr base
     \<and> \<not> blank patch \<and> length patch \<le> 524288 \<and> CHR 0x00 \<notin> set patch
     \<and> \<not> contains patch ''GIT binary patch'' \<and> \<not> contains patch ''Binary files ''
     \<and> (\<exists>s. inspect_worktree e (rf_primary_worktree f) = Inr s \<and> ws_head_sha s = base \<and> ws_clean s
          \<and> ws_source_ref s = Some \<lparr>sr_name = ''refs/heads/'' @ branch, sr_target_sha = base\<rparr>
          \<and> fst (run e (ws_worktree s) patch True) = Inr ()
          \<and> e' = snd (run e (ws_worktree s) patch False))"
proof -
  obtain changed e1 where ap: "apply_checked_text_patch run (rf_primary_worktree f) base patch e = (changed, e1)"
    by (cases "apply_checked_text_patch run (rf_primary_worktree f) base patch e")
  have ready: "verify_integration_patch_ready e f branch = Inr base"
    using assms(1,2) by (auto simp: apply_corrective_integration_patch_def attempt_in_def ensure_def outcome
        split: sum.splits if_splits)
  then have "e' = e1 \<and> (is_ok r \<longrightarrow> is_ok changed)"
    using assms(1) ap
    by (auto simp: apply_corrective_integration_patch_def attempt_in_def ensure_def map_err_def is_ok_def
        split: sum.splits)
  with applied_patch [OF ap _ assms(3)] assms(2) patch_ready_Inr [OF ready] ready show ?thesis
    by (auto simp: patch_text_ok)
qed

lemma patched_example:
  "apply_corrective_integration_patch example_apply repository_facts ''merge'' (sha_of (CHR ''c'')) ''--- a'' merged_git
     = (Inr (sha_of (CHR ''c''), [''src/y.rs'']), patched_git)"
proof -
  have ready: "verify_integration_patch_ready merged_git repository_facts ''merge'' = Inr (sha_of (CHR ''c''))"
    using inspect_primary [of "sha_of (CHR ''c'')" "''merge''" "[]"]
      inspect_reviewer [of "sha_of (CHR ''c'')" "''merge''" "[]"] inspect_merged [of "[]"]
    by (simp add: verify_integration_patch_ready_def merged_git_def inspect_frozen verify_reviewer_frozen_def
        verify_integration_result_def verify_source_ref_target_def ensure_def map_err_def nul_list_def branch_merge)
  have "\<not> blank ''--- a''" "\<not> contains ''--- a'' ''GIT binary patch''" "\<not> contains ''--- a'' ''Binary files ''"
    by code_simp+
  then have "validate_integration_patch ''--- a'' = Inr ()" by (simp add: patch_text_ok)
  moreover have "inspect_worktree merged_git ''/p'' = Inr
     \<lparr>ws_worktree = ''/p'', ws_common_dir = ''/p/.git'', ws_head_sha = sha_of (CHR ''c''),
      ws_source_ref = Some \<lparr>sr_name = ''refs/heads/merge'', sr_target_sha = sha_of (CHR ''c'')\<rparr>, ws_clean = True\<rparr>"
    using inspect_primary [of "sha_of (CHR ''c'')" "''merge''" "[]"] by (simp add: merged_git_def nul_list_def)
  moreover have "git_output patched_git ''/p'' [''diff'', ''--name-only'', ''-z'', ''--'']
      = Inr \<lparr>go_code = Some 0, go_stdout = nul_list [''src/y.rs''], go_stderr = []\<rparr>"
    "git_output patched_git ''/p'' [''ls-files'', ''--others'', ''--exclude-standard'', ''-z'', ''--'']
      = Inr \<lparr>go_code = Some 0, go_stdout = [], go_stderr = []\<rparr>"
    "verify_source_refs_unchanged patched_git ''/p'' repository_facts = Inr ()"
    by (simp_all add: patched_git_def verify_source_refs_unchanged_def verify_source_ref_target_def
        optional_ref_target_def commands repositories evaluated map_err_def validate_sha_def ensure_def sha_distinct
        cong: attempt_first)
  moreover have "ge_utf8_error patched_git = (\<lambda>_. [])" by (simp add: patched_git_def with_git_def)
  ultimately show ?thesis
    using ready
    by (simp add: apply_corrective_integration_patch_def apply_checked_text_patch_def example_apply_def
        validate_sha_def ensure_def map_err_def evaluated changed_x)
qed

theorem patch_on_verified_base_witness:
  "verify_integration_patch_ready merged_git repository_facts ''merge'' = Inr (sha_of (CHR ''c''))
   \<and> snd (example_apply merged_git ''/p'' ''--- a'' False) = patched_git"
  using patch_on_verified_base [OF patched_example] by (simp add: is_ok_def example_apply_def)

subsection \<open>Selected worktrees and verification clones\<close>

lemma registered_snapshot:
  assumes "inspect_registered_worktree e p = Inr s"
  shows "is_absolute p \<and> (\<exists>c. ge_canonicalize e p = Inr c \<and> path_eq c (ws_worktree s)
     \<and> inspect_worktree e c = Inr s
     \<and> (\<exists>a bytes rs r w. inspect_worktree e (ws_worktree s) = Inr a
          \<and> printed e (ws_worktree a) [''worktree'', ''list'', ''--porcelain'', ''-z''] = Some bytes
          \<and> parse_worktree_records (ge_utf8_error e) bytes = Inr rs \<and> r \<in> set rs \<and> \<not> wr_bare r
          \<and> inspect_worktree e (wr_worktree r) = Inr w \<and> path_eq (ws_worktree w) (ws_worktree s)))"
proof -
  from assms obtain c es entry where c: "is_absolute p" "ge_canonicalize e p = Inr c" "inspect_worktree e c = Inr s"
    "path_eq c (ws_worktree s)"
    and es: "list_registered_worktrees e (ws_worktree s) = Inr es"
    and entry: "find (\<lambda>entry. path_eq (rw_worktree entry) (ws_worktree s)) es = Some entry"
      "\<not> rw_bare entry" "rw_issue entry = None"
    unfolding inspect_registered_worktree_def outcome by (auto split: option.splits)
  from es obtain a out rs where a: "inspect_worktree e (ws_worktree s) = Inr a"
    and out: "git_output e (ws_worktree a) [''worktree'', ''list'', ''--porcelain'', ''-z''] = Inr out"
    and rs: "parse_worktree_records (ge_utf8_error e) (go_stdout out) = Inr rs"
    and sorted: "es = sort_key (\<lambda>r. components (rw_worktree r)) (map (registered_entry e a) rs)"
    by (auto simp: list_registered_worktrees_def outcome)
  have "entry \<in> set es \<and> path_eq (rw_worktree entry) (ws_worktree s)"
    using entry(1) by (auto simp: find_Some_iff)
  then obtain r where r: "r \<in> set rs" "entry = registered_entry e a r" "path_eq (rw_worktree entry) (ws_worktree s)"
    using sorted by auto
  then have "\<not> wr_bare r \<and> (\<exists>w. inspect_worktree e (wr_worktree r) = Inr w \<and> path_eq (ws_worktree w) (ws_worktree s))"
    using entry(2,3) by (auto simp: registered_entry_def split: if_splits sum.splits)
  with c a git_output_printed [OF out] rs r(1) show ?thesis by blast
qed

text \<open>
  The two worktrees that \<open>inspect_registered_pair\<close> selects are different, clean worktrees of one
  repository; each was named by an absolute path that is its root, and each is an entry of Git's own
  list of worktrees that is not bare and can be inspected.
\<close>

theorem registered_pair_selected:
  assumes "inspect_registered_pair e p q = Inr (a, b)"
  shows "path_eq (ws_common_dir a) (ws_common_dir b) \<and> \<not> path_eq (ws_worktree a) (ws_worktree b)
     \<and> ws_clean a \<and> ws_clean b
     \<and> list_all (\<lambda>(path, s). is_absolute path
         \<and> (\<exists>c. ge_canonicalize e path = Inr c \<and> path_eq c (ws_worktree s) \<and> inspect_worktree e c = Inr s)
         \<and> (\<exists>w bytes rs r. printed e w [''worktree'', ''list'', ''--porcelain'', ''-z''] = Some bytes
              \<and> parse_worktree_records (ge_utf8_error e) bytes = Inr rs \<and> r \<in> set rs \<and> \<not> wr_bare r
              \<and> (\<exists>t. inspect_worktree e (wr_worktree r) = Inr t \<and> path_eq (ws_worktree t) (ws_worktree s))))
       [(p, a), (q, b)]"
proof -
  from assms have "inspect_registered_worktree e p = Inr a" "inspect_registered_worktree e q = Inr b"
    "path_eq (ws_common_dir a) (ws_common_dir b)" "\<not> path_eq (ws_worktree a) (ws_worktree b)"
    "ws_clean a" "ws_clean b"
    by (auto simp: inspect_registered_pair_def outcome)
  with registered_snapshot [of e p a] registered_snapshot [of e q b] show ?thesis by simp blast
qed

theorem registered_pair_selected_witness:
  "\<exists>a b. \<not> path_eq (ws_worktree a) (ws_worktree b) \<and> ws_clean a \<and> ws_clean b
     \<and> inspect_worktree frozen_git ''/p'' = Inr a \<and> inspect_worktree frozen_git ''/r'' = Inr b"
proof -
  obtain a b where "inspect_registered_pair frozen_git ''/p'' ''/r'' = Inr (a, b)"
    using registered_example by blast
  from registered_pair_selected [OF this] show ?thesis
    by (intro exI [of _ a] exI [of _ b]) (simp add: frozen_git_def with_git_def)
qed

text \<open>
  A verification workspace is recovered only if it is an isolated copy of the integration: the
  worktree at the destination is detached at exactly the integration SHA, its repository is not the
  frozen one, and \<open>git remote\<close> lists nothing.
\<close>

theorem recovered_workspace_isolated:
  assumes "recover_verification_workspace e f sha destination = Inr w"
  shows "is_sha sha \<and> printed_text e w [''rev-parse'', ''HEAD''] = Some sha
     \<and> (\<exists>out. ge_output e w [''symbolic-ref'', ''--quiet'', ''HEAD''] = Inr out \<and> go_code out = Some 1)
     \<and> (\<exists>s common. inspect_worktree e destination = Inr s \<and> ws_worktree s = w
          \<and> ge_canonicalize e (rf_git_common_dir f) = Inr common \<and> \<not> path_eq (ws_common_dir s) common)
     \<and> (\<exists>out. ge_remotes e w = Inr out \<and> go_code out = Some 0 \<and> list_all is_ascii_whitespace (go_stdout out))"
proof -
  from assms obtain s common out where s: "inspect_worktree e destination = Inr s" "ws_worktree s = w"
    and c: "is_sha sha" "ge_canonicalize e (rf_git_common_dir f) = Inr common"
      "\<not> path_eq (ws_common_dir s) common" "ws_head_sha s = sha" "ws_source_ref s = None"
    and out: "ge_remotes e w = Inr out" "go_code out = Some 0" "list_all is_ascii_whitespace (go_stdout out)"
    by (auto simp: recover_verification_workspace_def recover_verification_clone_def
        verify_verification_clone_def ensure_success_def outcome)
  have "read_source_ref e w = Inr None" using inspect_worktree_printed [OF s(1)] s(2) c(5) by simp
  then have "\<exists>out. ge_output e w [''symbolic-ref'', ''--quiet'', ''HEAD''] = Inr out \<and> go_code out = Some 1"
    by (auto simp: read_source_ref_def git_output_allow_status_def outcome split: if_splits)
  with s c out inspect_worktree_printed [OF s(1)] show ?thesis by auto
qed

theorem recovered_workspace_isolated_witness:
  "\<exists>s. inspect_worktree clone_git ''/v'' = Inr s \<and> ws_worktree s = ''/v''"
  using recovered_workspace_isolated [OF clone_example] by blast

lemma verified_clone:
  assumes "verify_verification_clone e destination sha common True = Inr w"
  shows "printed_text e w [''rev-parse'', ''HEAD''] = Some sha
     \<and> printed e w [''status'', ''--porcelain=v1'', ''-z''] = Some []
     \<and> (\<exists>out. ge_output e w [''symbolic-ref'', ''--quiet'', ''HEAD''] = Inr out \<and> go_code out = Some 1)
     \<and> (\<exists>s. inspect_worktree e destination = Inr s \<and> ws_worktree s = w \<and> \<not> path_eq (ws_common_dir s) common)
     \<and> (\<exists>out. ge_remotes e w = Inr out \<and> go_code out = Some 0 \<and> list_all is_ascii_whitespace (go_stdout out))"
proof -
  from assms obtain s out where s: "inspect_worktree e destination = Inr s" "ws_worktree s = w"
    and c: "\<not> path_eq (ws_common_dir s) common" "ws_head_sha s = sha" "ws_source_ref s = None" "ws_clean s"
    and out: "ge_remotes e w = Inr out" "go_code out = Some 0" "list_all is_ascii_whitespace (go_stdout out)"
    by (auto simp: verify_verification_clone_def ensure_success_def outcome)
  have "read_source_ref e w = Inr None" using inspect_worktree_printed [OF s(1)] s(2) c(3) by simp
  then have "\<exists>out. ge_output e w [''symbolic-ref'', ''--quiet'', ''HEAD''] = Inr out \<and> go_code out = Some 1"
    by (auto simp: read_source_ref_def git_output_allow_status_def outcome split: if_splits)
  with s c out inspect_worktree_printed [OF s(1)] show ?thesis by auto
qed

text \<open>
  C36: A verification workspace that \<open>prepare_verification_workspace\<close> hands out lies outside the source
  worktree and the frozen repository, and in the repository as it is then, it is a clean, detached
  checkout of exactly the integration SHA in a repository of its own without remotes. A workspace that
  was already there is checked and left as it is.
\<close>

theorem prepared_workspace_isolated:
  assumes "prepare_verification_workspace ops f sha destination e = (Inr w, e')"
  shows "\<exists>source common. ge_canonicalize e (rf_primary_worktree f) = Inr source
     \<and> ge_canonicalize e (rf_git_common_dir f) = Inr common
     \<and> \<not> path_starts_with destination source \<and> \<not> path_starts_with destination common
     \<and> is_sha sha \<and> (ge_exists e destination \<longrightarrow> e' = e)
     \<and> printed_text e' w [''rev-parse'', ''HEAD''] = Some sha
     \<and> printed e' w [''status'', ''--porcelain=v1'', ''-z''] = Some []
     \<and> (\<exists>out. ge_output e' w [''symbolic-ref'', ''--quiet'', ''HEAD''] = Inr out \<and> go_code out = Some 1)
     \<and> (\<exists>s. inspect_worktree e' destination = Inr s \<and> ws_worktree s = w \<and> \<not> path_eq (ws_common_dir s) common)
     \<and> (\<exists>out. ge_remotes e' w = Inr out \<and> go_code out = Some 0 \<and> list_all is_ascii_whitespace (go_stdout out))"
proof -
  from assms have "materialize_verification_clone ops (rf_primary_worktree f) destination sha (rf_git_common_dir f) e
      = (Inr w, e')"
    by (auto simp: prepare_verification_workspace_def outcome map_err_Inr split: prod.splits)
  then obtain source common where c: "ge_canonicalize e (rf_primary_worktree f) = Inr source"
    "ge_canonicalize e (rf_git_common_dir f) = Inr common" "is_sha sha"
    "\<not> path_starts_with destination source" "\<not> path_starts_with destination common"
    and v: "verify_verification_clone e' destination sha common True = Inr w"
    and kept: "ge_exists e destination \<longrightarrow> e' = e"
    by (auto simp: materialize_verification_clone_def outcome split: if_splits prod.splits)
  show ?thesis using c kept verified_clone [OF v] by (intro exI [of _ source] exI [of _ common]) simp
qed

theorem prepared_workspace_isolated_witness:
  "\<exists>s. inspect_worktree clone_git ''/v'' = Inr s \<and> ws_worktree s = ''/v''"
  using prepared_workspace_isolated [OF prepared_example] by blast

end
