(* ===== verification/Command_Policy.thy ===== *)
theory Command_Policy
  imports Run_State
begin

text \<open>
  \<open>crates/daemon/src/policy.rs\<close>: which commands a participant may run, decided from the state of its
  run. The record \<open>policy_libs\<close> holds what the policy uses of other crates and of Unicode:
  \<open>shell_words::split\<close>, whether \<open>semver::Version::parse\<close> accepts a text, and \<open>char::is_alphanumeric\<close>
  on scalar values.
\<close>

record policy_libs =
  pl_split :: "string \<Rightarrow> string list option"
  pl_version :: "string \<Rightarrow> bool"
  pl_alphanumeric :: "nat \<Rightarrow> bool"

datatype approval_decision = Accept | Cancel

subsection \<open>Commands as text\<close>

text \<open>\<open>chars\<close> decodes UTF-8; what is not UTF-8 does not occur in a Rust string.\<close>

fun scalars :: "nat list \<Rightarrow> nat list" where
  "scalars [] = []"
| "scalars (a # as) =
     (if a < 128 then a # scalars as
      else case as of
        [] \<Rightarrow> []
      | b # bs \<Rightarrow>
          if a < 224 then ((a - 192) * 64 + (b - 128)) # scalars bs
          else (case bs of
            [] \<Rightarrow> []
          | c # cs \<Rightarrow>
              if a < 240 then ((a - 224) * 4096 + (b - 128) * 64 + (c - 128)) # scalars cs
              else (case cs of
                [] \<Rightarrow> []
              | d # ds \<Rightarrow>
                  ((a - 240) * 262144 + (b - 128) * 4096 + (c - 128) * 64 + (d - 128)) # scalars ds)))"

definition executable_name :: "string \<Rightarrow> string" where
  "executable_name token = rev (takeWhile (\<lambda>c. c \<noteq> CHR ''/'' \<and> c \<noteq> CHR 0x5C) (rev token))"

definition normalize_app_server_command :: "policy_libs \<Rightarrow> string \<Rightarrow> string option" where
  "normalize_app_server_command P command =
     (if blank command then None
      else Option.bind (pl_split P command) (\<lambda>tokens.
        case tokens of
          [shell, flag, script] \<Rightarrow>
            if executable_name shell \<in> {''sh'', ''bash'', ''dash'', ''zsh'', ''fish''} \<and> flag \<in> {''-c'', ''-lc''} then
              (if \<not> blank script then Some script else None)
            else Some command
        | _ \<Rightarrow> Some command))"

definition shell_control :: "char list" where
  "shell_control = '';&|><`$'' @ [CHR 0x0A, CHR 0x0D, CHR 0x00]"

definition contains_shell_control :: "policy_libs \<Rightarrow> string \<Rightarrow> bool" where
  "contains_shell_control P command =
     (case pl_split P command of
        None \<Rightarrow> True
      | Some tokens \<Rightarrow> list_ex (list_ex (\<lambda>c. c \<in> set shell_control)) tokens)"

definition contains_forbidden_git_operation :: "policy_libs \<Rightarrow> string \<Rightarrow> bool" where
  "contains_forbidden_git_operation P command =
     (case pl_split P command of
        None \<Rightarrow> True
      | Some tokens \<Rightarrow> list_ex (\<lambda>token. executable_name token = ''git'') tokens)"

definition launchers :: "string list" where
  "launchers = [''sh'', ''bash'', ''dash'', ''zsh'', ''fish'', ''cmd'', ''powershell'', ''pwsh'', ''python'',
     ''python3'', ''perl'', ''ruby'', ''node'']"

definition launch_flags :: "string list" where
  "launch_flags = [''-c'', ''--command'', ''-Command'', ''-EncodedCommand'', ''-e'']"

fun launches :: "string list \<Rightarrow> bool" where
  "launches [] = False"
| "launches (token # rest) =
     (executable_name token \<in> set launchers \<and> list_ex (\<lambda>a. a \<in> set launch_flags) rest \<or> launches rest)"

definition uses_dynamic_command_launcher :: "policy_libs \<Rightarrow> string \<Rightarrow> bool" where
  "uses_dynamic_command_launcher P command =
     (case pl_split P command of None \<Rightarrow> True | Some tokens \<Rightarrow> launches tokens)"

definition validate_test_command :: "policy_libs \<Rightarrow> string \<Rightarrow> bool" where
  "validate_test_command P command0 =
     (let command = trim command0
      in command \<noteq> [] \<and> \<not> contains_shell_control P command
         \<and> \<not> contains_forbidden_git_operation P command
         \<and> \<not> uses_dynamic_command_launcher P command)"

subsection \<open>Git commands\<close>

definition safe_read_only_git_argument :: "string \<Rightarrow> bool" where
  "safe_read_only_git_argument a \<longleftrightarrow>
     \<not> (a \<in> {''--no-index'', ''--ext-diff'', ''--textconv'', ''--output''}
        \<or> prefix ''--output='' a \<or> prefix ''/'' a \<or> a = ''..'' \<or> prefix ''../'' a
        \<or> suffix ''/..'' a \<or> contains a ''/../'')"

definition safe_read_only_git_arguments :: "string list \<Rightarrow> bool" where
  "safe_read_only_git_arguments arguments = list_all safe_read_only_git_argument arguments"

definition safe_commit_message :: "policy_libs \<Rightarrow> string \<Rightarrow> bool" where
  "safe_commit_message P message \<longleftrightarrow>
     message \<noteq> [] \<and> length message \<le> 120
     \<and> list_all (\<lambda>c. pl_alphanumeric P c \<or> c \<in> set (map byte ''-_.:'')) (scalars (map byte message))"

definition safe_show_ref_arguments :: "run_state \<Rightarrow> string list \<Rightarrow> bool" where
  "safe_show_ref_arguments s arguments =
     (case target_integration_branch s of
        None \<Rightarrow> False
      | Some branch \<Rightarrow>
          arguments = [''--verify'', ''refs/heads/'' @ branch]
          \<or> arguments = [''--verify'', ''--quiet'', ''refs/heads/'' @ branch])"

definition safe_branch_arguments :: "run_state \<Rightarrow> string list \<Rightarrow> bool" where
  "safe_branch_arguments s arguments =
     (if arguments = [''--show-current''] then target_integration_branch s \<noteq> None
      else case target_integration_branch s of
        None \<Rightarrow> False
      | Some branch \<Rightarrow> arguments = [''--list'', branch])"

definition is_allowed_read_only_git_invocation :: "run_state \<Rightarrow> string \<Rightarrow> string list \<Rightarrow> bool" where
  "is_allowed_read_only_git_invocation s subcommand arguments =
     (if subcommand \<in> {''status'', ''diff'', ''show'', ''log'', ''rev-parse'', ''merge-base'', ''ls-files'', ''grep''}
      then safe_read_only_git_arguments arguments
      else if subcommand = ''branch'' then safe_branch_arguments s arguments
      else if subcommand = ''show-ref'' then safe_show_ref_arguments s arguments
      else if subcommand = ''symbolic-ref'' then arguments = [''--short'', ''HEAD'']
      else False)"

definition corrective_integration :: "run_state \<Rightarrow> bool" where
  "corrective_integration s \<longleftrightarrow>
     integration_branch s \<noteq> None \<or> integration_sha s \<noteq> None \<or> current_integration_payload s \<noteq> None"

definition is_allowed_git_write :: "policy_libs \<Rightarrow> run_state \<Rightarrow> string \<Rightarrow> string list \<Rightarrow> bool" where
  "is_allowed_git_write P s subcommand rest =
     (if subcommand = ''switch'' then
        \<not> corrective_integration s
        \<and> (case rest of [c, branch, sha] \<Rightarrow>
              c = ''-c'' \<and> Some branch = target_integration_branch s \<and> sha = rf_primary_sha (facts s)
            | _ \<Rightarrow> False)
      else if subcommand = ''merge'' then
        \<not> corrective_integration s \<and> rest = [''--no-ff'', ''--no-edit'', rf_reviewer_sha (facts s)]
      else if subcommand = ''add'' then rest = [''-A''] \<or> rest = [''--all'']
      else if subcommand = ''commit'' then
        rest = [''--no-edit''] \<or> (case rest of [m, message] \<Rightarrow> m = ''-m'' \<and> safe_commit_message P message | _ \<Rightarrow> False)
      else False)"

definition is_allowed_git_command :: "policy_libs \<Rightarrow> run_state \<Rightarrow> string \<Rightarrow> bool" where
  "is_allowed_git_command P s command =
     (case pl_split P command of
        Some (git # subcommand # rest) \<Rightarrow>
          git = ''git'' \<and> (is_allowed_read_only_git_invocation s subcommand rest
                           \<or> is_allowed_git_write P s subcommand rest)
      | _ \<Rightarrow> False)"

definition is_allowed_read_only_git_command :: "policy_libs \<Rightarrow> run_state \<Rightarrow> string \<Rightarrow> bool" where
  "is_allowed_read_only_git_command P s command =
     (case pl_split P command of
        Some (git # subcommand # rest) \<Rightarrow> git = ''git'' \<and> is_allowed_read_only_git_invocation s subcommand rest
      | _ \<Rightarrow> False)"

subsection \<open>Other commands\<close>

definition is_allowed_instruction_discovery :: "policy_libs \<Rightarrow> string \<Rightarrow> bool" where
  "is_allowed_instruction_discovery P command \<longleftrightarrow>
     pl_split P command = Some [''rg'', ''--files'', ''-g'', ''AGENTS.md'']"

fun is_normal_component :: "component \<Rightarrow> bool" where
  "is_normal_component (Normal _) = True"
| "is_normal_component _ = False"

definition is_retry_safe_no_index_diff :: "policy_libs \<Rightarrow> string \<Rightarrow> bool" where
  "is_retry_safe_no_index_diff P command =
     (case pl_split P command of
        Some [git, diff, no_index, dashes, null, path] \<Rightarrow>
          [git, diff, no_index, dashes, null] = [''git'', ''diff'', ''--no-index'', ''--'', ''/dev/null'']
          \<and> \<not> (path = [] \<or> is_absolute path \<or> path_starts_with path ''.git'')
          \<and> list_all is_normal_component (components path)
      | _ \<Rightarrow> False)"

fun component_names :: "component list \<Rightarrow> string list" where
  "component_names [] = []"
| "component_names (Normal v # cs) = v # component_names cs"
| "component_names (_ # cs) = component_names cs"

definition is_retry_safe_stale_launcher_skill_read :: "policy_libs \<Rightarrow> string \<Rightarrow> bool" where
  "is_retry_safe_stale_launcher_skill_read P command =
     (case pl_split P command of
        Some [sed, n, lines, path] \<Rightarrow>
          [sed, n, lines] = [''sed'', ''-n'', ''1,240p'']
          \<and> is_absolute path \<and> list_all (\<lambda>c. c \<noteq> CurDir \<and> c \<noteq> ParentDir) (components path)
          \<and> (let names = component_names (components path) in
             8 \<le> length names
             \<and> (let tail = drop (length names - 8) names in
                tail ! 0 = ''plugins'' \<and> tail ! 1 = ''cache'' \<and> tail ! 2 = ''worktree-merge-consensus''
                \<and> tail ! 3 = ''worktree-merge-consensus'' \<and> pl_version P (tail ! 4)
                \<and> tail ! 5 = ''skills'' \<and> tail ! 6 = ''worktree-merge-consensus'' \<and> tail ! 7 = ''SKILL.md''))
      | _ \<Rightarrow> False)"

definition is_retry_safe_read_only_command_at ::
  "policy_libs \<Rightarrow> run_state \<Rightarrow> string \<Rightarrow> string \<Rightarrow> string \<Rightarrow> bool" where
  "is_retry_safe_read_only_command_at P s expected_cwd cwd command0 =
     (if path_to_str expected_cwd \<noteq> Some cwd then False
      else case normalize_app_server_command P command0 of
        None \<Rightarrow> False
      | Some command1 \<Rightarrow>
          let command = trim command1 in
          command \<noteq> [] \<and> \<not> contains_shell_control P command
          \<and> (is_allowed_read_only_git_command P s command
             \<or> is_allowed_instruction_discovery P command
             \<or> is_retry_safe_no_index_diff P command
             \<or> is_retry_safe_stale_launcher_skill_read P command))"

definition is_retry_safe_read_only_integration_command ::
  "policy_libs \<Rightarrow> run_state \<Rightarrow> string \<Rightarrow> string \<Rightarrow> bool" where
  "is_retry_safe_read_only_integration_command P s cwd command =
     is_retry_safe_read_only_command_at P s (rf_primary_worktree (facts s)) cwd command"

definition is_retry_safe_reviewer_regex_grep :: "policy_libs \<Rightarrow> run_state \<Rightarrow> string \<Rightarrow> bool" where
  "is_retry_safe_reviewer_regex_grep P s command =
     (case integration_sha s of
        None \<Rightarrow> False
      | Some sha \<Rightarrow>
          let quote = [CHR 0x27] in
          (case Option.bind (strip_prefix (''git grep -n -E '' @ quote) command)
                  (strip_suffix (quote @ '' '' @ sha @ '' -- src tests'')) of
             None \<Rightarrow> False
           | Some pattern \<Rightarrow>
               \<not> (pattern = [] \<or> 4096 < length pattern \<or> CHR ''|'' \<notin> set pattern
                  \<or> list_ex (\<lambda>c. c \<in> set pattern) [CHR 0x27, CHR 0x0A, CHR 0x0D, CHR 0x00])
               \<and> pl_split P command
                   = Some [''git'', ''grep'', ''-n'', ''-E'', pattern, sha, ''--'', ''src'', ''tests'']))"

definition is_retry_safe_read_only_reviewer_command ::
  "policy_libs \<Rightarrow> run_state \<Rightarrow> string \<Rightarrow> string \<Rightarrow> bool" where
  "is_retry_safe_read_only_reviewer_command P s cwd command =
     (if path_to_str (rf_reviewer_worktree (facts s)) \<noteq> Some cwd then False
      else if (case normalize_app_server_command P command of
                 None \<Rightarrow> False
               | Some c \<Rightarrow> is_retry_safe_reviewer_regex_grep P s (trim c)) then True
      else is_retry_safe_read_only_command_at P s (rf_reviewer_worktree (facts s)) cwd command)"

subsection \<open>The approval of a command\<close>

definition present :: "json \<Rightarrow> string \<Rightarrow> (json \<Rightarrow> bool) \<Rightarrow> bool" where
  "present params key p = (case get params key of None \<Rightarrow> False | Some v \<Rightarrow> v \<noteq> JNull \<and> p v)"

definition command_expected_cwd :: "run_state \<Rightarrow> string option" where
  "command_expected_cwd s =
     (case next_action s of
        RequestPrimaryIntegration \<Rightarrow> Some (rf_primary_worktree (facts s))
      | RequestPrimaryVerification \<Rightarrow> verification_worktree s
      | _ \<Rightarrow> None)"

definition command_in_allowlist :: "policy_libs \<Rightarrow> run_state \<Rightarrow> string \<Rightarrow> bool" where
  "command_in_allowlist P s command =
     (case next_action s of
        RequestPrimaryIntegration \<Rightarrow>
          is_allowed_git_command P s command \<or> is_allowed_instruction_discovery P command
      | RequestPrimaryVerification \<Rightarrow>
          list_ex (\<lambda>required. trim required = command \<and> validate_test_command P required)
            (required_test_commands s)
      | _ \<Rightarrow> False)"

definition command_approval_denial :: "policy_libs \<Rightarrow> run_state \<Rightarrow> json \<Rightarrow> string option" where
  "command_approval_denial P s params =
     (if str_field params ''cwd'' \<noteq> Option.bind (command_expected_cwd s) path_to_str then
        Some ''command cwd does not match the bound execution worktree''
      else if present params ''approvalId'' (\<lambda>_. True) then
        Some ''subcommand approval callbacks are outside the frozen command policy''
      else if present params ''environmentId'' (\<lambda>v. as_str v \<noteq> Some ''local'') then
        Some ''command targets a non-local execution environment''
      else if list_ex (\<lambda>key. present params key (\<lambda>_. True))
                [''additionalPermissions'', ''networkApprovalContext'', ''proposedNetworkPolicyAmendments''] then
        Some ''command requests additional filesystem or network permissions''
      else if present params ''availableDecisions''
                (\<lambda>v. case as_array v of None \<Rightarrow> True
                     | Some ds \<Rightarrow> \<not> list_ex (\<lambda>d. as_str d = Some ''accept'') ds) then
        Some ''one-time command acceptance is unavailable''
      else case Option.bind (str_field params ''command'') (normalize_app_server_command P) of
        None \<Rightarrow> Some ''command is absent or has an unsupported shell representation''
      | Some command0 \<Rightarrow>
          let command = trim command0 in
          if command = [] then Some ''command is empty''
          else if contains_shell_control P command then Some ''command contains shell control syntax''
          else if command_in_allowlist P s command then None
          else Some ''command is outside the frozen integration or verification allowlist'')"

definition decide_command_approval :: "policy_libs \<Rightarrow> run_state \<Rightarrow> json \<Rightarrow> approval_decision" where
  "decide_command_approval P s params =
     (if command_approval_denial P s params \<noteq> None then Cancel else Accept)"

end
