(* ===== verification/Policy_Properties.thy ===== *)
theory Policy_Properties
  imports Command_Policy Run_Operations
begin

text \<open>
  The properties of the command policy: exactly which commands are accepted at integration, that
  verification runs required tests only, and that the arguments of a read-only Git command stay inside
  the worktree.
\<close>

subsection \<open>What an accepted command is\<close>

text \<open>The command that a request asks for: unwrapped from \<open>sh -c\<close>, trimmed, and split into words
  without shell control characters.\<close>

definition requests :: "policy_libs \<Rightarrow> json \<Rightarrow> string \<Rightarrow> string list \<Rightarrow> bool" where
  "requests P params command tokens \<longleftrightarrow>
     (\<exists>raw c. get params ''command'' = Some (JStr raw) \<and> normalize_app_server_command P raw = Some c
        \<and> command = trim c)
     \<and> command \<noteq> [] \<and> pl_split P command = Some tokens
     \<and> (\<forall>token \<in> set tokens. set token \<inter> set shell_control = {})"

lemma requests_iff:
  "(\<exists>command tokens. requests P params command tokens \<and> Q command)
    \<longleftrightarrow> (\<exists>c. Option.bind (str_field params ''command'') (normalize_app_server_command P) = Some c
        \<and> trim c \<noteq> [] \<and> \<not> contains_shell_control P (trim c) \<and> Q (trim c))"
proof -
  have words: "\<not> contains_shell_control P c \<longleftrightarrow>
      (\<exists>ts. pl_split P c = Some ts \<and> (\<forall>t \<in> set ts. set t \<inter> set shell_control = {}))" for c
    by (auto simp: contains_shell_control_def list_ex_iff split: option.splits)
  show ?thesis unfolding words requests_def bind_eq_Some_conv str_field_Some by blast
qed

lemma denied_if: "(if c then Some a else x) = None \<longleftrightarrow> \<not> c \<and> x = None"
  by simp

lemma accept_denial: "decide_command_approval P s params = Accept \<longleftrightarrow> command_approval_denial P s params = None"
  by (simp add: decide_command_approval_def)

lemma last_checks:
  "(case x of None \<Rightarrow> Some a | Some command0 \<Rightarrow>
       let command = trim command0 in
       if command = [] then Some b else if contains_shell_control P command then Some d
       else if command_in_allowlist P s command then None else Some e) = None
     \<longleftrightarrow> (\<exists>c. x = Some c \<and> trim c \<noteq> [] \<and> \<not> contains_shell_control P (trim c) \<and> command_in_allowlist P s (trim c))"
  by (cases x) (auto simp: Let_def)

lemma approval_Accept:
  "decide_command_approval P s params = Accept \<longleftrightarrow>
     \<not> str_field params ''cwd'' \<noteq> Option.bind (command_expected_cwd s) path_to_str
     \<and> \<not> present params ''approvalId'' (\<lambda>_. True)
     \<and> \<not> present params ''environmentId'' (\<lambda>v. as_str v \<noteq> Some ''local'')
     \<and> \<not> list_ex (\<lambda>key. present params key (\<lambda>_. True))
          [''additionalPermissions'', ''networkApprovalContext'', ''proposedNetworkPolicyAmendments'']
     \<and> \<not> present params ''availableDecisions''
          (\<lambda>v. case as_array v of None \<Rightarrow> True | Some ds \<Rightarrow> \<not> list_ex (\<lambda>d. as_str d = Some ''accept'') ds)
     \<and> (\<exists>command tokens. requests P params command tokens \<and> command_in_allowlist P s command)"
  unfolding accept_denial command_approval_denial_def denied_if last_checks requests_iff ..

text \<open>
  While the primary is verifying, the policy accepts a command only in the verification worktree
  and only if it is, up to white space, one of the frozen test commands; none of its words is the Git
  executable, none contains shell control characters, no interpreter in it is given a program on the
  command line, and no further permissions are asked for.
\<close>

theorem verification_runs_required_tests:
  assumes "decide_command_approval P s params = Accept" and "next_action s = RequestPrimaryVerification"
    and "verification_worktree s = Some w" and "utf8 w"
  shows "\<exists>command tokens required. requests P params command tokens \<and> get params ''cwd'' = Some (JStr w)
     \<and> required \<in> set (required_test_commands s) \<and> trim required = command
     \<and> (\<forall>token \<in> set tokens. executable_name token \<noteq> ''git'') \<and> \<not> launches tokens
     \<and> \<not> present params ''additionalPermissions'' (\<lambda>_. True)
     \<and> \<not> present params ''networkApprovalContext'' (\<lambda>_. True)"
proof -
  from assms(1) obtain command tokens where r: "requests P params command tokens" "command_in_allowlist P s command"
    and cwd: "str_field params ''cwd'' = Option.bind (command_expected_cwd s) path_to_str"
    and more: "\<not> present params ''additionalPermissions'' (\<lambda>_. True)"
      "\<not> present params ''networkApprovalContext'' (\<lambda>_. True)"
    unfolding approval_Accept by auto
  from r(2) assms(2) obtain required where required: "required \<in> set (required_test_commands s)"
    "trim required = command" "validate_test_command P required"
    by (auto simp: command_in_allowlist_def list_ex_iff)
  have tokens: "pl_split P command = Some tokens" using r(1) by (simp add: requests_def)
  have test: "\<forall>token \<in> set tokens. executable_name token \<noteq> ''git''" "\<not> launches tokens"
    using required(3) tokens
    by (auto simp: validate_test_command_def required(2) contains_forbidden_git_operation_def
        uses_dynamic_command_launcher_def list_ex_iff)
  have "get params ''cwd'' = Some (JStr w)"
    using cwd assms(2-4) by (simp add: command_expected_cwd_def path_to_str_def flip: str_field_Some)
  with r(1) required(1,2) test more show ?thesis by blast
qed

subsection \<open>A concrete policy\<close>

text \<open>Words are separated by spaces, every version is one, and the letters are the ASCII letters.\<close>

definition example_policy :: policy_libs where
  "example_policy = \<lparr>pl_split = (\<lambda>s. Some (filter (\<lambda>w. w \<noteq> []) (split_on (CHR '' '') s))),
     pl_version = (\<lambda>_. True), pl_alphanumeric = (\<lambda>n. 48 \<le> n \<and> n \<le> 57 \<or> 97 \<le> n \<and> n \<le> 122)\<rparr>"

definition policy_facts :: run_facts where
  "policy_facts = \<lparr>rf_run_id = 1, rf_primary_thread_id = ''p'', rf_reviewer_thread_id = ''r'',
     rf_primary_worktree = ''/p'', rf_reviewer_worktree = ''/r'', rf_git_common_dir = ''/g'',
     rf_primary_sha = ''a'', rf_reviewer_sha = ''b'', rf_primary_ref = None, rf_reviewer_ref = None\<rparr>"

definition verifying_run :: run_state where
  "verifying_run = (new_run policy_facts)\<lparr>next_action := RequestPrimaryVerification,
     verification_worktree := Some ''/v'', required_test_commands := [''cargo test '']\<rparr>"

definition integrating_run :: run_state where
  "integrating_run = (new_run policy_facts)\<lparr>next_action := RequestPrimaryIntegration,
     target_integration_branch := Some ''m''\<rparr>"

definition request :: "string \<Rightarrow> string \<Rightarrow> json" where
  "request command w = JObj [(''command'', JStr command), (''cwd'', JStr w)]"

theorem verification_runs_required_tests_witness:
  "\<exists>command tokens. requests example_policy (request ''cargo test'' ''/v'') command tokens \<and> \<not> launches tokens"
proof -
  have "decide_command_approval example_policy verifying_run (request ''cargo test'' ''/v'') = Accept" "utf8 ''/v''"
    by code_simp+
  from verification_runs_required_tests [OF this(1) _ _ this(2)] show ?thesis
    by (auto simp: verifying_run_def)
qed

text \<open>The commands that write: they create the target branch, merge, stage and commit.\<close>

definition write_of_integration :: "policy_libs \<Rightarrow> run_state \<Rightarrow> string list \<Rightarrow> bool" where
  "write_of_integration P s tokens \<longleftrightarrow>
     \<not> corrective_integration s
       \<and> (\<exists>branch. target_integration_branch s = Some branch
            \<and> tokens = [''git'', ''switch'', ''-c'', branch, rf_primary_sha (facts s)])
     \<or> \<not> corrective_integration s
       \<and> tokens = [''git'', ''merge'', ''--no-ff'', ''--no-edit'', rf_reviewer_sha (facts s)]
     \<or> tokens \<in> {[''git'', ''add'', ''-A''], [''git'', ''add'', ''--all''], [''git'', ''commit'', ''--no-edit'']}
     \<or> (\<exists>message. tokens = [''git'', ''commit'', ''-m'', message] \<and> safe_commit_message P message)"

lemma case_two: "(case xs of [a, b] \<Rightarrow> Q a b | _ \<Rightarrow> False) \<longleftrightarrow> (\<exists>a b. xs = [a, b] \<and> Q a b)"
  by (auto split: list.splits)

lemma case_three: "(case xs of [a, b, c] \<Rightarrow> Q a b c | _ \<Rightarrow> False) \<longleftrightarrow> (\<exists>a b c. xs = [a, b, c] \<and> Q a b c)"
  by (auto split: list.splits)

lemma git_write_iff:
  "is_allowed_git_write P s sub rest \<longleftrightarrow> write_of_integration P s (''git'' # sub # rest)"
proof -
  consider "sub = ''switch''" | "sub = ''merge''" | "sub = ''add''" | "sub = ''commit''"
    | "sub \<notin> {''switch'', ''merge'', ''add'', ''commit''}" by blast
  then show ?thesis
    by cases (auto simp: is_allowed_git_write_def write_of_integration_def case_two case_three)
qed

lemma git_command_tokens:
  "pl_split P c = Some tokens \<Longrightarrow> is_allowed_git_command P s c \<longleftrightarrow>
     (\<exists>sub rest. tokens = ''git'' # sub # rest \<and> (is_allowed_read_only_git_invocation s sub rest
        \<or> is_allowed_git_write P s sub rest))"
  unfolding is_allowed_git_command_def by (cases tokens; cases "tl tokens") auto

lemma integration_write_git: "write_of_integration P s tokens \<Longrightarrow> \<exists>sub rest. tokens = ''git'' # sub # rest"
  unfolding write_of_integration_def by blast



subsection \<open>Arguments of read-only commands\<close>

fun glue :: "char \<Rightarrow> string list \<Rightarrow> string" where
  "glue c [] = []"
| "glue c [p] = p"
| "glue c (p # q # ps) = p @ c # glue c (q # ps)"

lemma glue_append: "ps \<noteq> [] \<Longrightarrow> qs \<noteq> [] \<Longrightarrow> glue c (ps @ qs) = glue c ps @ c # glue c qs"
proof (induction c ps rule: glue.induct)
  case (2 c p)
  then show ?case by (cases qs) auto
qed auto

lemma glue_split: "glue c (split_on c s) = s"
proof (induction s)
  case (Cons x s)
  obtain p ps where p: "split_on c s = p # ps" by (cases "split_on c s") auto
  then show ?case using Cons by (cases ps) auto
qed simp

lemma split_on_parts:
  assumes "c \<notin> set q"
  shows "q \<in> set (split_on c s) \<longleftrightarrow>
     s = q \<or> prefix (q @ [c]) s \<or> suffix (c # q) s \<or> contains s (c # q @ [c])"
proof
  assume "q \<in> set (split_on c s)"
  then obtain as bs where ab: "split_on c s = as @ q # bs" by (auto dest: split_list)
  then have s: "s = glue c (as @ q # bs)" using glue_split [of c s] by simp
  show "s = q \<or> prefix (q @ [c]) s \<or> suffix (c # q) s \<or> contains s (c # q @ [c])"
  proof (cases "as = []"; cases "bs = []")
    assume "as = []" "bs = []"
    with s show ?thesis by simp
  next
    assume "as = []" "bs \<noteq> []"
    then have "s = q @ c # glue c bs" using s glue_append [of "[q]" bs c] by simp
    then show ?thesis by (simp add: prefix_def)
  next
    assume "as \<noteq> []" "bs = []"
    then have "s = glue c as @ c # q" using s glue_append [of as "[q]" c] by simp
    then show ?thesis by (simp add: suffix_def)
  next
    assume "as \<noteq> []" "bs \<noteq> []"
    then have "s = glue c as @ c # q @ c # glue c bs"
      using s glue_append [of as "q # bs" c] glue_append [of "[q]" bs c] by simp
    then have "s = glue c as @ (c # q @ [c]) @ glue c bs" by simp
    then show ?thesis unfolding contains_iff by blast
  qed
next
  have parts: "split_on c (x @ c # y) = split_on c x @ split_on c y" for x y
    by (induction x) (auto split: list.splits)
  have single: "split_on c q = [q]"
    using assms by (induction q) auto
  assume "s = q \<or> prefix (q @ [c]) s \<or> suffix (c # q) s \<or> contains s (c # q @ [c])"
  then consider "s = q" | b where "s = q @ c # b" | a where "s = a @ c # q" | a b where "s = a @ c # q @ c # b"
    by (auto simp: prefix_def suffix_def contains_iff)
  then show "q \<in> set (split_on c s)"
    by cases (simp_all add: parts single)
qed

lemma parent_component: "ParentDir \<in> set (components a) \<longleftrightarrow> ''..'' \<in> set (split_on (CHR ''/'') a)"
  by (auto simp: components_def Let_def split: if_splits)

lemma argument_exact:
  "safe_read_only_git_argument a \<longleftrightarrow>
     \<not> is_absolute a \<and> ParentDir \<notin> set (components a)
     \<and> a \<notin> {''--no-index'', ''--ext-diff'', ''--textconv'', ''--output''} \<and> \<not> prefix ''--output='' a"
  using split_on_parts [of "CHR ''/''" "''..''" a]
  unfolding safe_read_only_git_argument_def is_absolute_def parent_component by auto

text \<open>
  The textual checks on an argument of a read-only Git command are exact: an argument passes
  precisely when it is neither an absolute path nor has a parent component, and is none of the four
  options that make Git read or write other files or run other programs.
\<close>

theorem read_only_argument_exact:
  "safe_read_only_git_argument a \<longleftrightarrow>
     \<not> is_absolute a \<and> ParentDir \<notin> set (components a)
     \<and> a \<notin> {''--no-index'', ''--ext-diff'', ''--textconv'', ''--output''} \<and> \<not> prefix ''--output='' a"
  by (rule argument_exact)

text \<open>
  The allowlist of read-only Git commands admits a command that runs another program: for any
  program that is not an absolute path, \<open>git grep --open-files-in-pager=<program> <pattern>\<close> passes the
  check for read-only commands, although Git then starts that program.
\<close>

theorem grep_pager_accepted:
  assumes "ParentDir \<notin> set (components (''--open-files-in-pager='' @ program))"
    and "safe_read_only_git_argument pattern"
  shows "is_allowed_read_only_git_invocation s ''grep'' [''--open-files-in-pager='' @ program, pattern]"
  using assms
  by (simp add: is_allowed_read_only_git_invocation_def safe_read_only_git_arguments_def argument_exact
      is_absolute_def)

theorem grep_pager_accepted_witness:
  "is_allowed_read_only_git_invocation integrating_run ''grep'' [''--open-files-in-pager=touch'', ''x'']"
proof -
  have "ParentDir \<notin> set (components (''--open-files-in-pager='' @ ''touch''))" "safe_read_only_git_argument ''x''"
    by code_simp+
  from grep_pager_accepted [OF this] show ?thesis by simp
qed

end
