(* ===== verification/Observation.thy ===== *)
theory Observation
  imports Run_State
begin

text \<open>
  \<open>crates/daemon/src/observation.rs\<close>: the public snapshot of a run and the event that is published for
  a step from one stored state to the next. Values are published only up to a size limit, diagnostics
  without their detail, and verification results without the output of commands. \<open>lossy\<close> is
  \<open>Path::to_string_lossy\<close>.
\<close>

definition OBSERVATION_SCHEMA_VERSION :: nat where
  "OBSERVATION_SCHEMA_VERSION = 1"

definition MAX_PUBLIC_ARTIFACT_BYTES :: nat where
  "MAX_PUBLIC_ARTIFACT_BYTES = 48 * 1024"

record public_source =
  ps_thread_id :: string
  ps_worktree :: string
  ps_source_ref :: "string option"
  ps_sha :: string

record progress =
  pg_index :: nat
  pg_total :: nat
  pg_name :: string

record consensus_artifacts =
  ca_primary_contract :: "json option"
  ca_reviewer_contract :: "json option"
  ca_current_plan :: "json option"
  ca_plan_feedback :: "json option"
  ca_plan_approval :: "json option"
  ca_integration_summary :: "json option"
  ca_result_feedback :: "json option"
  ca_required_tests :: json
  ca_test_evidence :: json
  ca_accepted_result :: "json option"

record public_run_snapshot =
  pr_schema_version :: nat
  pr_cursor :: int
  pr_run_id :: string
  pr_status :: run_status
  pr_phase :: phase
  pr_round :: "32 word"
  pr_max_review_rounds :: "32 word"
  pr_plan_revision :: "32 word option"
  pr_next_action :: next_action
  pr_active_role :: "role option"
  pr_progress :: progress
  pr_terminal :: bool
  pr_primary :: public_source
  pr_reviewer :: public_source
  pr_target_integration_branch :: "string option"
  pr_integration_branch :: "string option"
  pr_integration_sha :: "string option"
  pr_reason_code :: "string option"
  pr_diagnostic :: "json option"
  pr_artifacts :: consensus_artifacts

record run_progress_event =
  pe_schema_version :: nat
  pe_cursor :: int
  pe_run_id :: string
  pe_created_at :: int
  pe_kind :: string
  pe_summary :: string
  pe_status :: run_status
  pe_phase :: phase
  pe_round :: "32 word"
  pe_plan_revision :: "32 word option"
  pe_next_action :: next_action
  pe_active_role :: "role option"
  pe_progress :: progress
  pe_terminal :: bool
  pe_artifact :: "json option"

subsection \<open>Names\<close>

fun role_name :: "role \<Rightarrow> string" where
  "role_name Primary = ''PRIMARY''"
| "role_name Reviewer = ''REVIEWER''"

fun action_name :: "next_action \<Rightarrow> string" where
  "action_name RequestPrimaryContract = ''REQUEST_PRIMARY_CONTRACT''"
| "action_name RequestReviewerContract = ''REQUEST_REVIEWER_CONTRACT''"
| "action_name RequestPrimaryPlan = ''REQUEST_PRIMARY_PLAN''"
| "action_name RequestReviewerPlanVerdict = ''REQUEST_REVIEWER_PLAN_VERDICT''"
| "action_name RequestPrimaryIntegration = ''REQUEST_PRIMARY_INTEGRATION''"
| "action_name RequestPrimaryVerification = ''REQUEST_PRIMARY_VERIFICATION''"
| "action_name RequestReviewerResultVerdict = ''REQUEST_REVIEWER_RESULT_VERDICT''"
| "action_name RevalidateAndAccept = ''REVALIDATE_AND_ACCEPT''"
| "action_name WaitForUser = ''WAIT_FOR_USER''"
| "action_name Stop = ''STOP''"

fun terminal_status :: "run_status \<Rightarrow> bool" where
  "terminal_status SAccepted = True"
| "terminal_status SBlocked = True"
| "terminal_status SCancelled = True"
| "terminal_status SIncompatibleCodex = True"
| "terminal_status _ = False"

fun action_role :: "next_action \<Rightarrow> role option" where
  "action_role RequestPrimaryContract = Some Primary"
| "action_role RequestPrimaryPlan = Some Primary"
| "action_role RequestPrimaryIntegration = Some Primary"
| "action_role RequestPrimaryVerification = Some Primary"
| "action_role RequestReviewerContract = Some Reviewer"
| "action_role RequestReviewerPlanVerdict = Some Reviewer"
| "action_role RequestReviewerResultVerdict = Some Reviewer"
| "action_role _ = None"

fun stage_for_action :: "next_action \<Rightarrow> nat" where
  "stage_for_action RequestPrimaryContract = 2"
| "stage_for_action RequestReviewerContract = 2"
| "stage_for_action RequestPrimaryPlan = 3"
| "stage_for_action RequestReviewerPlanVerdict = 3"
| "stage_for_action RequestPrimaryIntegration = 4"
| "stage_for_action RequestPrimaryVerification = 5"
| "stage_for_action RequestReviewerResultVerdict = 6"
| "stage_for_action RevalidateAndAccept = 6"
| "stage_for_action _ = 1"

definition observable_phase :: "run_state \<Rightarrow> phase" where
  "observable_phase s = (if status s = SAccepted then Accepted else phase s)"

definition progress_stage :: "run_state \<Rightarrow> progress" where
  "progress_stage s =
     (let (index, name) =
        (case observable_phase s of
           Discover \<Rightarrow> (1, ''SOURCE_FREEZE'')
         | Freeze \<Rightarrow> (1, ''SOURCE_FREEZE'')
         | Contract \<Rightarrow> (2, ''CONTRACT'')
         | PlanReview \<Rightarrow> (3, ''PLAN_REVIEW'')
         | Integrate \<Rightarrow> (4, ''INTEGRATE'')
         | Verify \<Rightarrow> (5, ''VERIFY'')
         | ResultReview \<Rightarrow> (6, ''RESULT_REVIEW'')
         | Accepted \<Rightarrow> (6, ''ACCEPTED'')
         | PausedUserAction \<Rightarrow> (stage_for_action (next_action s), ''PAUSED_USER_ACTION'')
         | Blocked \<Rightarrow>
             (case last_error s of None \<Rightarrow> 1 | Some d \<Rightarrow> stage_for_action (rd_action d), ''BLOCKED'')
         | Cancelled \<Rightarrow> (stage_for_action (next_action s), ''CANCELLED''))
      in \<lparr>pg_index = index, pg_total = 6, pg_name = name\<rparr>)"

definition stage_name :: "run_state \<Rightarrow> string" where
  "stage_name s =
     (case observable_phase s of
        Discover \<Rightarrow> ''discovery'' | Freeze \<Rightarrow> ''source freeze'' | Contract \<Rightarrow> ''contract collection''
      | PlanReview \<Rightarrow> ''plan review'' | Integrate \<Rightarrow> ''integration'' | Verify \<Rightarrow> ''isolated verification''
      | ResultReview \<Rightarrow> ''result review'' | Accepted \<Rightarrow> ''acceptance'' | Blocked \<Rightarrow> ''blocked''
      | PausedUserAction \<Rightarrow> ''user action'' | Cancelled \<Rightarrow> ''cancelled'')"

fun role_label :: "role option \<Rightarrow> string" where
  "role_label (Some Primary) = ''Primary''"
| "role_label (Some Reviewer) = ''Reviewer''"
| "role_label None = ''the coordinator''"

fun action_label :: "next_action \<Rightarrow> string" where
  "action_label RequestPrimaryContract = ''collect the Primary contract''"
| "action_label RequestReviewerContract = ''collect the Reviewer contract''"
| "action_label RequestPrimaryPlan = ''request a complete integration plan''"
| "action_label RequestReviewerPlanVerdict = ''request the plan verdict''"
| "action_label RequestPrimaryIntegration = ''integrate on the new local branch''"
| "action_label RequestPrimaryVerification = ''prepare isolated verification''"
| "action_label RequestReviewerResultVerdict = ''request the final result verdict''"
| "action_label RevalidateAndAccept = ''revalidate sources and accept the exact result''"
| "action_label WaitForUser = ''wait for user action''"
| "action_label Stop = ''stop''"

subsection \<open>Bounded values\<close>

definition bounded_value :: "libs \<Rightarrow> string \<Rightarrow> json \<Rightarrow> json option" where
  "bounded_value L label v =
     (let bytes = length (to_vec L v) in
      if bytes \<le> MAX_PUBLIC_ARTIFACT_BYTES then Some v
      else Some (json_object
        [(''truncated'', JBool True), (''artifact'', JStr label), (''original_bytes'', JInt (int bytes)),
         (''message'', JStr (''The public artifact exceeded the live event limit; ''
            @ ''inspect consensus_status or the final report for the persisted value.''))]))"

definition bounded_optional :: "libs \<Rightarrow> string \<Rightarrow> json option \<Rightarrow> json option" where
  "bounded_optional L label v = Option.bind v (bounded_value L label)"

text \<open>\<open>serde_json::to_value\<close> fails on a path that is not UTF-8.\<close>

definition serialized_evidence :: "test_evidence list \<Rightarrow> json option" where
  "serialized_evidence ev =
     (if list_all (\<lambda>e. utf8 (te_cwd e)) ev then Some (JArr (map test_evidence_value ev)) else None)"

definition serialized_result :: "accepted_result \<Rightarrow> json option" where
  "serialized_result r =
     map_option (\<lambda>tests. json_object
       [(''integration_branch'', JStr (ar_integration_branch r)), (''integration_sha'', JStr (ar_integration_sha r)),
        (''primary_sha'', JStr (ar_primary_sha r)), (''reviewer_sha'', JStr (ar_reviewer_sha r)),
        (''tests'', tests), (''source_refs_unchanged'', JBool (ar_source_refs_unchanged r)),
        (''publication'', json_object
           [(''local_only'', JBool (pb_local_only (ar_publication r))),
            (''pushed'', JBool (pb_pushed (ar_publication r))),
            (''pull_request_created'', JBool (pb_pull_request_created (ar_publication r))),
            (''merged_into_existing_branch'', JBool (pb_merged_into_existing_branch (ar_publication r)))])])
       (serialized_evidence (ar_tests r))"

definition bounded_serializable :: "libs \<Rightarrow> string \<Rightarrow> json option \<Rightarrow> json option" where
  "bounded_serializable L label serialized = Option.bind serialized (bounded_value L label)"

definition public_diagnostic :: "libs \<Rightarrow> run_diagnostic \<Rightarrow> json option" where
  "public_diagnostic L d =
     bounded_value L ''diagnostic'' (json_object
       [(''code'', JStr (rd_code d)), (''operation'', opt_json JStr (rd_operation d)),
        (''action'', JStr (action_name (rd_action d))),
        (''role'', opt_json (\<lambda>r. JStr (role_name r)) (rd_role d)),
        (''thread_id'', opt_json JStr (rd_thread_id d)),
        (''source_thread_id'', opt_json JStr (rd_source_thread_id d)),
        (''effective_thread_id'', opt_json JStr (rd_effective_thread_id d)),
        (''participant_binding_generation'', opt_json word_json (rd_participant_binding_generation d)),
        (''participant_binding_mode'', opt_json JStr (rd_participant_binding_mode d)),
        (''participant_server'', opt_json JStr (rd_participant_server d)),
        (''detail'', JStr ''Detailed redacted diagnostics remain available through consensus_status.'')])"

subsection \<open>Outputs of commands\<close>

definition failure_keys :: "string list" where
  "failure_keys = [''verification_failures'', ''failed_tests'']"

definition output_keys :: "string list" where
  "output_keys = [''output'', ''stdout'', ''stderr'']"

fun drop_outputs :: "json \<Rightarrow> json" where
  "drop_outputs (JObj failure) = JObj (fold obj_remove output_keys failure)"
| "drop_outputs v = v"

fun drop_in_failures :: "string \<Rightarrow> json \<Rightarrow> json" where
  "drop_in_failures key (JArr failures) =
     JArr (if key \<in> set failure_keys then map drop_outputs failures else failures)"
| "drop_in_failures key v = v"

lemma size_obj_remove: "size_list f (obj_remove k es) \<le> size_list f es"
  by (induction es) (auto simp: obj_remove_def)

lemma size_drop_outputs: "size (drop_outputs v) \<le> size v"
proof (cases v)
  case (JObj es)
  have "size_list f (fold obj_remove ks es) \<le> size_list f es" for ks and f :: "string \<times> json \<Rightarrow> nat"
    by (induction ks arbitrary: es) (auto intro: le_trans [OF _ size_obj_remove])
  with JObj show ?thesis by simp
qed auto

lemma size_drop_in_failures: "size (drop_in_failures key v) \<le> size v"
proof (cases v)
  case (JArr vs)
  have "size_list size (map drop_outputs vs) \<le> size_list size vs"
    by (induction vs) (use size_drop_outputs in \<open>auto intro: add_mono\<close>)
  with JArr show ?thesis by simp
qed auto

function scrub_verification_outputs :: "json \<Rightarrow> json" where
  "scrub_verification_outputs (JArr vs) = JArr (map scrub_verification_outputs vs)"
| "scrub_verification_outputs (JObj es) =
     JObj (map (\<lambda>(key, v). (key, scrub_verification_outputs (drop_in_failures key v))) es)"
| "scrub_verification_outputs JNull = JNull"
| "scrub_verification_outputs (JBool b) = JBool b"
| "scrub_verification_outputs (JInt i) = JInt i"
| "scrub_verification_outputs (JFloat w) = JFloat w"
| "scrub_verification_outputs (JStr s) = JStr s"
  by pat_completeness auto

termination
proof (relation "measure size")
  fix vs :: "json list" and v
  assume "v \<in> set vs"
  then show "(v, JArr vs) \<in> measure size" by (induction vs) auto
next
  fix es :: "(string \<times> json) list" and x key v
  assume "x \<in> set es" "(key, v) = x"
  then have "size v < size (JObj es)" by (induction es) auto
  then show "(drop_in_failures key v, JObj es) \<in> measure size"
    using size_drop_in_failures [of key v] by simp
qed auto

definition public_verification_artifact :: "libs \<Rightarrow> string \<Rightarrow> json option \<Rightarrow> json option" where
  "public_verification_artifact L label v =
     Option.bind v (\<lambda>value. bounded_value L label (scrub_verification_outputs value))"

subsection \<open>Snapshots and events\<close>

definition public_snapshot :: "libs \<Rightarrow> (string \<Rightarrow> string) \<Rightarrow> run_state \<Rightarrow> int \<Rightarrow> public_run_snapshot" where
  "public_snapshot L lossy s cursor =
     \<lparr>pr_schema_version = OBSERVATION_SCHEMA_VERSION, pr_cursor = cursor,
      pr_run_id = uuid_text L (rf_run_id (facts s)), pr_status = status s, pr_phase = phase s,
      pr_round = round s, pr_max_review_rounds = max_review_rounds s, pr_plan_revision = plan_revision s,
      pr_next_action = next_action s, pr_active_role = action_role (next_action s),
      pr_progress = progress_stage s, pr_terminal = terminal_status (status s),
      pr_primary = \<lparr>ps_thread_id = rf_primary_thread_id (facts s),
        ps_worktree = lossy (rf_primary_worktree (facts s)),
        ps_source_ref = rf_primary_ref (facts s), ps_sha = rf_primary_sha (facts s)\<rparr>,
      pr_reviewer = \<lparr>ps_thread_id = rf_reviewer_thread_id (facts s),
        ps_worktree = lossy (rf_reviewer_worktree (facts s)),
        ps_source_ref = rf_reviewer_ref (facts s), ps_sha = rf_reviewer_sha (facts s)\<rparr>,
      pr_target_integration_branch = target_integration_branch s,
      pr_integration_branch = integration_branch s, pr_integration_sha = integration_sha s,
      pr_reason_code = reason_code s,
      pr_diagnostic = Option.bind (last_error s) (public_diagnostic L),
      pr_artifacts =
        \<lparr>ca_primary_contract = bounded_optional L ''primary_contract'' (primary_contract s),
         ca_reviewer_contract = bounded_optional L ''reviewer_contract'' (reviewer_contract s),
         ca_current_plan = bounded_optional L ''current_plan'' (current_plan_payload s),
         ca_plan_feedback = bounded_optional L ''plan_feedback'' (last_plan_feedback s),
         ca_plan_approval = bounded_optional L ''plan_approval'' (plan_approval_payload s),
         ca_integration_summary =
           public_verification_artifact L ''integration_summary'' (current_integration_payload s),
         ca_result_feedback = public_verification_artifact L ''result_feedback'' (last_result_feedback s),
         ca_required_tests =
           (case bounded_serializable L ''required_tests'' (Some (JArr (map JStr (required_test_commands s)))) of
              Some v \<Rightarrow> v | None \<Rightarrow> JArr []),
         ca_test_evidence =
           (case bounded_serializable L ''test_evidence'' (serialized_evidence (test_evidence s)) of
              Some v \<Rightarrow> v | None \<Rightarrow> JArr []),
         ca_accepted_result =
           Option.bind (accepted_result s) (\<lambda>r. bounded_serializable L ''accepted_result'' (serialized_result r))\<rparr>\<rparr>"

abbreviation text_or :: "string \<Rightarrow> string option \<Rightarrow> string" where
  "text_or alternative x \<equiv> (case x of Some t \<Rightarrow> t | None \<Rightarrow> alternative)"

definition word_text :: "'a::len word \<Rightarrow> string" where
  "word_text w = decimal (unat w)"

text \<open>Events that follow from the status of the new state alone.\<close>

definition status_event :: "libs \<Rightarrow> run_state \<Rightarrow> (string \<times> string \<times> json option) option" where
  "status_event L s =
     (case status s of
        SAccepted \<Rightarrow>
          Some (''accepted'',
            ''The reviewer approved the verified integration at '' @ text_or ''an unknown SHA'' (integration_sha s) @ ''.'',
            Option.bind (accepted_result s) (\<lambda>r. bounded_serializable L ''accepted_result'' (serialized_result r)))
      | SBlocked \<Rightarrow>
          Some (''blocked'', ''The run stopped fail-closed: '' @ text_or ''UNKNOWN'' (reason_code s) @ ''.'',
            Option.bind (last_error s) (public_diagnostic L))
      | SPausedUserAction \<Rightarrow>
          Some (''paused_user_action'',
            ''The run is paused for user action: '' @ text_or ''UNKNOWN'' (reason_code s) @ ''.'',
            Option.bind (last_error s) (public_diagnostic L))
      | SCancelled \<Rightarrow>
          Some (''cancelled'', ''The run was cancelled without deleting existing Git state.'', None)
      | SIncompatibleCodex \<Rightarrow>
          Some (''incompatible_codex'', ''The run stopped because the Codex App Server is incompatible.'',
            Option.bind (last_error s) (public_diagnostic L))
      | _ \<Rightarrow> None)"

definition verification_event :: "libs \<Rightarrow> run_state \<Rightarrow> string \<times> string \<times> json option" where
  "verification_event L s =
     (let failed = length (filter (\<lambda>e. te_exit_code e \<noteq> 0) (test_evidence s)) in
      (if failed = 0 then ''verification_passed'' else ''verification_failed'',
       if failed = 0 then ''All '' @ decimal (length (test_evidence s)) @ '' frozen verification commands passed.''
       else ''Verification completed with '' @ decimal failed
              @ '' failed command(s); Primary must revise the same integration branch.'',
       bounded_serializable L ''test_evidence'' (serialized_evidence (test_evidence s))))"

definition started_artifact :: "run_state \<Rightarrow> json" where
  "started_artifact s = json_object
     [(''primary_ref'', opt_json JStr (rf_primary_ref (facts s))), (''primary_sha'', JStr (rf_primary_sha (facts s))),
      (''reviewer_ref'', opt_json JStr (rf_reviewer_ref (facts s))), (''reviewer_sha'', JStr (rf_reviewer_sha (facts s))),
      (''target_integration_branch'', opt_json JStr (target_integration_branch s))]"

text \<open>Events that compare the new state with the one before, in the order of the comparisons.\<close>

definition step_event :: "libs \<Rightarrow> run_state \<Rightarrow> run_state \<Rightarrow> string \<times> string \<times> json option" where
  "step_event L previous s =
     (if primary_contract previous \<noteq> primary_contract s then
        (''primary_contract_ready'',
         ''Primary declared its goals, constraints, interfaces, edge cases, and tests.'',
         bounded_optional L ''primary_contract'' (primary_contract s))
      else if reviewer_contract previous \<noteq> reviewer_contract s then
        (''reviewer_contract_ready'',
         ''Reviewer declared the implementation details and behaviors it requires preserved.'',
         bounded_optional L ''reviewer_contract'' (reviewer_contract s))
      else if current_plan_payload previous \<noteq> current_plan_payload s then
        (''plan_proposed'',
         ''Primary submitted integration plan revision ''
           @ word_text (case plan_revision s of Some r \<Rightarrow> r | None \<Rightarrow> 1) @ '' for review.'',
         bounded_optional L ''current_plan'' (current_plan_payload s))
      else if last_plan_feedback previous \<noteq> last_plan_feedback s then
        (''plan_changes_required'',
         ''Reviewer requested changes to the integration plan; review round '' @ word_text (round s) @ '' is next.'',
         bounded_optional L ''plan_feedback'' (last_plan_feedback s))
      else if plan_approval_payload previous \<noteq> plan_approval_payload s then
        (''plan_approved'',
         ''Reviewer approved plan revision '' @ word_text (case plan_revision s of Some r \<Rightarrow> r | None \<Rightarrow> 1) @ ''.'',
         bounded_optional L ''plan_approval'' (plan_approval_payload s))
      else if integration_sha previous \<noteq> integration_sha s then
        (''integration_ready'',
         ''Primary produced integration commit '' @ text_or ''an unknown SHA'' (integration_sha s) @ '' on ''
           @ text_or (text_or ''the integration branch'' (target_integration_branch s)) (integration_branch s) @ ''.'',
         bounded_optional L ''integration_summary'' (current_integration_payload s))
      else if \<not> list_all2 evidence_eq (test_evidence previous) (test_evidence s) then verification_event L s
      else if last_result_feedback previous \<noteq> last_result_feedback s then
        (''result_changes_required'',
         ''Reviewer requested changes to the integrated result; review round '' @ word_text (round s) @ '' is next.'',
         bounded_optional L ''result_feedback'' (last_result_feedback s))
      else if next_action previous \<noteq> RevalidateAndAccept \<and> next_action s = RevalidateAndAccept then
        (''result_approved'',
         ''Reviewer approved the exact verified integration SHA; final source checks are running.'', None)
      else if status previous \<noteq> status s \<and> status s = SWaitingThread then
        (''waiting_for_task'',
         ''Waiting for '' @ role_label (action_role (next_action s)) @ '' to complete the current ''
           @ action_label (next_action s) @ '' action.'', None)
      else if status previous \<noteq> status s \<and> status s = SRunning then
        (''task_completed'',
         ''The participant turn completed; the coordinator is validating '' @ action_label (next_action s)
           @ '' evidence.'', None)
      else
        (''state_changed'',
         ''The run advanced to '' @ stage_name s @ '' and will '' @ action_label (next_action s) @ ''.'', None))"

definition classify_event :: "libs \<Rightarrow> run_state option \<Rightarrow> run_state \<Rightarrow> string \<times> string \<times> json option" where
  "classify_event L previous s =
     (case status_event L s of
        Some event \<Rightarrow> event
      | None \<Rightarrow>
          (case previous of
             None \<Rightarrow> (''run_started'', ''The source tasks, worktrees, refs, and commits were frozen.'',
                       Some (started_artifact s))
           | Some p \<Rightarrow> step_event L p s))"

definition progress_event :: "libs \<Rightarrow> run_state option \<Rightarrow> run_state \<Rightarrow> int \<Rightarrow> run_progress_event" where
  "progress_event L previous s created_at =
     (let (kind, summary, artifact) = classify_event L previous s in
      \<lparr>pe_schema_version = OBSERVATION_SCHEMA_VERSION, pe_cursor = 0, pe_run_id = uuid_text L (rf_run_id (facts s)),
       pe_created_at = created_at, pe_kind = kind, pe_summary = summary, pe_status = status s, pe_phase = phase s,
       pe_round = round s, pe_plan_revision = plan_revision s, pe_next_action = next_action s,
       pe_active_role = action_role (next_action s),
       pe_progress =
         (if previous = None then \<lparr>pg_index = 1, pg_total = 6, pg_name = ''SOURCE_FREEZE''\<rparr> else progress_stage s),
       pe_terminal = terminal_status (status s), pe_artifact = artifact\<rparr>)"

end
