(* ===== verification/Observation_Properties.thy ===== *)
theory Observation_Properties
  imports Observation Run_Properties
begin

text \<open>
  The properties of what is published of a run: no output of a command and no detail of a diagnostic,
  nothing above the size limit, and an event that names what happened.
\<close>

subsection \<open>Outputs of commands\<close>

text \<open>No element of a list of failures, at any depth, has an entry with the output of a command.\<close>

fun has_output :: "json \<Rightarrow> bool" where
  "has_output (JObj failure) = list_ex (\<lambda>e. fst e \<in> set output_keys) failure"
| "has_output _ = False"

fun failures_without_output :: "json \<Rightarrow> bool" where
  "failures_without_output (JArr failures) = list_all (\<lambda>v. \<not> has_output v) failures"
| "failures_without_output _ = True"

fun no_outputs :: "json \<Rightarrow> bool" where
  "no_outputs (JArr vs) = list_all no_outputs vs"
| "no_outputs (JObj es) =
     list_all (\<lambda>(key, v). (key \<in> set failure_keys \<longrightarrow> failures_without_output v) \<and> no_outputs v) es"
| "no_outputs _ = True"

lemma set_fold_obj_remove: "set (fold obj_remove ks es) = {e \<in> set es. fst e \<notin> set ks}"
  by (induction ks arbitrary: es) (auto simp: obj_remove_def)

lemma drop_outputs_none: "\<not> has_output (drop_outputs v)"
  by (cases v) (auto simp: list_ex_iff set_fold_obj_remove)

lemma drop_outputs_id: "\<not> has_output v \<Longrightarrow> drop_outputs v = v"
proof (cases v)
  case (JObj es)
  assume "\<not> has_output v"
  with JObj have "\<forall>k \<in> set output_keys. obj_remove k es = es"
    by (auto simp: list_ex_iff obj_remove_def intro!: filter_True)
  moreover have "(\<forall>k \<in> set ks. obj_remove k es = es) \<Longrightarrow> fold obj_remove ks es = es" for ks
    by (induction ks) auto
  ultimately show ?thesis using JObj by simp
qed auto

lemma scrub_has_output: "has_output (scrub_verification_outputs v) = has_output v"
  by (cases v) (force simp: list_ex_iff)+

lemma scrub_failures: "failures_without_output (scrub_verification_outputs v) = failures_without_output v"
  by (cases v) (auto simp: scrub_has_output list_all_iff)

lemma drop_in_failures_none: "key \<in> set failure_keys \<Longrightarrow> failures_without_output (drop_in_failures key v)"
  by (cases v) (auto simp: drop_outputs_none list_all_iff)

lemma scrub_no_outputs: "no_outputs (scrub_verification_outputs v)"
proof (induction v rule: scrub_verification_outputs.induct)
  case (2 es)
  then show ?case by (auto simp: list_all_iff scrub_failures drop_in_failures_none)
qed (auto simp: list_all_iff)

lemma drop_in_failures_id:
  "(key \<in> set failure_keys \<longrightarrow> failures_without_output v) \<Longrightarrow> drop_in_failures key v = v"
  by (cases v) (auto simp: list_all_iff drop_outputs_id intro: map_idI)

lemma scrub_id: "no_outputs v \<Longrightarrow> scrub_verification_outputs v = v"
proof (induction v rule: no_outputs.induct)
  case (2 es)
  then show ?case
    by (auto simp: list_all_iff drop_in_failures_id intro!: map_idI)
qed (auto simp: list_all_iff intro!: map_idI)

text \<open>
  \<open>scrub_verification_outputs\<close> removes exactly the outputs: afterwards no element of a list of
  failures at any depth has an \<open>output\<close>, \<open>stdout\<close> or \<open>stderr\<close>, and a value without them is unchanged.
\<close>

theorem scrub_exact:
  "no_outputs (scrub_verification_outputs v) \<and> (scrub_verification_outputs v = v \<longleftrightarrow> no_outputs v)"
  using scrub_no_outputs scrub_id by metis

text \<open>
  The public snapshot of a run does not depend on what it hides: two states that differ only in the
  detail of the recorded diagnostic and in the outputs of failed commands have the same snapshot.
\<close>

theorem snapshot_hides_details:
  assumes "map_option scrub_verification_outputs integration
      = map_option scrub_verification_outputs (current_integration_payload s)"
    and "map_option scrub_verification_outputs feedback
      = map_option scrub_verification_outputs (last_result_feedback s)"
  shows "public_snapshot L lossy
      (s\<lparr>last_error := map_option (\<lambda>d. d\<lparr>rd_detail := detail\<rparr>) (last_error s),
         current_integration_payload := integration, last_result_feedback := feedback\<rparr>) cursor
    = public_snapshot L lossy s cursor"
proof -
  have artifact: "public_verification_artifact L label v = Option.bind (map_option scrub_verification_outputs v) (bounded_value L label)"
    for label v by (cases v) (auto simp: public_verification_artifact_def)
  have diagnostic: "Option.bind (map_option (\<lambda>d. d\<lparr>rd_detail := detail\<rparr>) x) (public_diagnostic L) = Option.bind x (public_diagnostic L)"
    for x by (cases x) (simp_all add: public_diagnostic_def)
  have stage: "progress_stage (s\<lparr>last_error := map_option (\<lambda>d. d\<lparr>rd_detail := detail\<rparr>) (last_error s),
      current_integration_payload := integration, last_result_feedback := feedback\<rparr>) = progress_stage s"
    by (cases "last_error s") (simp_all add: progress_stage_def observable_phase_def split: phase.split)
  show ?thesis
    by (simp add: public_snapshot_def artifact diagnostic stage assms)
qed

definition secret_feedback :: "string \<Rightarrow> json" where
  "secret_feedback secret =
     JObj [(''failed_tests'', JArr [JObj [(''command'', JStr ''test''), (''output'', JStr secret)]])]"

lemma snapshot_hides_details_witness:
  "public_snapshot example_libs id
      (example_run blocked_inputs\<lparr>
         last_error := map_option (\<lambda>d. d\<lparr>rd_detail := ''x''\<rparr>) (last_error (example_run blocked_inputs)),
         current_integration_payload := None, last_result_feedback := Some (secret_feedback ''secret'')\<rparr>) 0
    = public_snapshot example_libs id
      (example_run blocked_inputs\<lparr>current_integration_payload := None,
         last_result_feedback := Some (secret_feedback '''')\<rparr>) 0"
  using snapshot_hides_details
    [where s = "example_run blocked_inputs\<lparr>current_integration_payload := None,
         last_result_feedback := Some (secret_feedback '''')\<rparr>" and integration = None
      and feedback = "Some (secret_feedback ''secret'')" and detail = "''x''" and L = example_libs
      and lossy = id and cursor = 0]
  by (simp add: secret_feedback_def failure_keys_def output_keys_def obj_remove_def)

subsection \<open>Events\<close>

text \<open>
  What the event of a message is about: the kind by the type of the message and the place of the run,
  unless the payload is the one the run has recorded already.
\<close>

definition already_recorded :: "run_state \<Rightarrow> protocol_message \<Rightarrow> bool" where
  "already_recorded s m \<longleftrightarrow>
     (case env_message_type (envelope m) of
        MPlanReady \<Rightarrow> current_plan_payload s = Some (payload m)
      | MChangesRequired \<Rightarrow>
          (if phase s = PlanReview then last_plan_feedback s else last_result_feedback s) = Some (payload m)
      | _ \<Rightarrow> False)"

definition message_kind :: "run_state \<Rightarrow> message_type \<Rightarrow> run_state \<Rightarrow> string" where
  "message_kind s t s' =
     (case t of
        MContractReady \<Rightarrow>
          (if next_action s = RequestPrimaryContract then ''primary_contract_ready'' else ''reviewer_contract_ready'')
      | MPlanReady \<Rightarrow> ''plan_proposed''
      | MApprovedPlan \<Rightarrow> ''plan_approved''
      | MChangesRequired \<Rightarrow>
          (if phase s = PlanReview then ''plan_changes_required'' else ''result_changes_required'')
      | MIntegrationReady \<Rightarrow>
          (if phase s = Integrate then ''integration_ready''
           else if some_failed (test_evidence s') then ''verification_failed'' else ''verification_passed'')
      | MApprovedResult \<Rightarrow> ''result_approved''
      | MBlocked \<Rightarrow> ''blocked'')"

definition nothing_ahead :: "run_state \<Rightarrow> bool" where
  "nothing_ahead s \<longleftrightarrow>
     (next_action s = RequestPrimaryContract \<longrightarrow> primary_contract s = None)
     \<and> (action_phase (next_action s) = Some Contract \<longrightarrow> reviewer_contract s = None)
     \<and> (action_phase (next_action s) \<in> {Some Contract, Some PlanReview} \<longrightarrow> plan_approval_payload s = None)
     \<and> (next_action s = RequestPrimaryVerification \<longrightarrow> test_evidence s = [])"

lemma nothing_ahead_step:
  assumes "transition L i s s'" and ok: "nothing_ahead s" and "\<not> is_recovery i"
  shows "nothing_ahead s'"
  using assms(1)
proof cases
  case (verification_ready message m ev)
  with ok show ?thesis
    by (cases rule: verification_outcome_cases [of ev s m]) (simp_all add: nothing_ahead_def block_def)
next
  case (changes_required message m)
  with ok show ?thesis
    by (cases rule: changes_outcome_cases [of L m s]) (simp_all add: nothing_ahead_def block_def)
qed (use ok assms(3) in \<open>simp_all add: nothing_ahead_def state_ops\<close>)

lemma nothing_ahead_new: "nothing_ahead (new_run f)"
  by (simp add: nothing_ahead_def new_run_def)

interpretation unrecovered: run_invariant L f
  "\<lambda>is s. (\<forall>i \<in> set is. \<not> is_recovery i) \<longrightarrow> nothing_ahead s" for L f
  by unfold_locales
    (auto simp: nothing_ahead_new dest!: perform_transition dest: nothing_ahead_step)

lemma evidence_refl [simp]: "list_all2 evidence_eq ev ev"
  by (simp add: list_all2_refl evidence_eq_def path_eq_def)

lemma blocked_event: "status s' = SBlocked \<Longrightarrow> fst (classify_event L (Some s) s') = ''blocked''"
  by (simp add: classify_event_def status_event_def)

lemma running_event: "status s' = SRunning \<Longrightarrow> classify_event L (Some s) s' = step_event L s s'"
  by (simp add: classify_event_def status_event_def)

lemma verification_kind:
  "fst (verification_event L s) =
     (if some_failed (test_evidence s) then ''verification_failed'' else ''verification_passed'')"
  by (simp add: verification_event_def some_failed_def Let_def filter_empty_conv list_ex_iff)

lemma message_event:
  assumes t: "transition L (Message message) s s'" and ok: "run_ok f s" "nothing_ahead s"
    and "s' \<noteq> s" and m: "revalidate_message L message = Inr m"
  shows "fst (classify_event L (Some s) s') =
    (if status s' = SBlocked then ''blocked'' else if already_recorded s m then ''state_changed''
     else message_kind s (env_message_type (envelope m)) s')"
  using t
proof cases
  case (verification_ready n ev)
  then have n: "n = m" using m by (simp add: current_message_def accepted_message_def)
  have running: "status s = SRunning" by (rule current_running) (rule verification_ready(2))
  with verification_ready have "next_action s = RequestPrimaryVerification"
    using running_action [of s] ok(1) by (auto simp: action_phase_simps run_ok_def)
  with ok(2) have before: "test_evidence s = []" by (simp add: nothing_ahead_def)
  have "ev \<noteq> []" using verification_ready evidence_complete_nonempty by blast
  with verification_ready n before running show ?thesis
    by (cases rule: verification_outcome_cases [of ev s m])
       (simp_all add: blocked_event running_event block_def step_event_def already_recorded_def
         message_kind_def verification_kind)
next
  case (changes_required n)
  then have n: "n = m" using m by (simp add: current_message_def accepted_message_def)
  have running: "status s = SRunning" by (rule current_running) (rule changes_required(2))
  with changes_required have "phase s = PlanReview \<Longrightarrow> plan_approval_payload s = None"
    using running_action [of s] ok by (auto simp: run_ok_def nothing_ahead_def)
  with changes_required n running show ?thesis
    by (cases rule: changes_outcome_cases [of L m s])
       (auto simp: blocked_event running_event block_def step_event_def already_recorded_def message_kind_def)
next
  case (result_approval n)
  then have n: "n = m" using m by (simp add: current_message_def accepted_message_def)
  have running: "status s = SRunning" by (rule current_running) (rule result_approval(2))
  have "next_action s \<noteq> RevalidateAndAccept"
    using assms(4) result_approval ok(1) by (auto simp: run_ok_def evidence_ok_def)
  with result_approval n running show ?thesis
    by (simp add: running_event step_event_def already_recorded_def message_kind_def)
next
  case (participant_blocked n)
  then show ?thesis by (simp add: blocked_event block_def)
next
  case (integration_ready n branch sha)
  then have n: "n = m" using m by (simp add: current_message_def accepted_message_def)
  have running: "status s = SRunning" by (rule current_running) (rule integration_ready(2))
  with integration_ready n show ?thesis
    by (simp add: running_event step_event_def already_recorded_def message_kind_def)
next
  case (plan_approval n h)
  then have n: "n = m" using m by (simp add: current_message_def accepted_message_def)
  have running: "status s = SRunning" by (rule current_running) (rule plan_approval(2))
  then have "plan_approval_payload s = None"
    using running_action [of s] ok plan_approval by (auto simp: run_ok_def nothing_ahead_def)
  with running plan_approval n show ?thesis
    by (simp add: running_event step_event_def already_recorded_def message_kind_def)
next
  case (plan_ready n commands)
  then have n: "n = m" using m by (simp add: current_message_def accepted_message_def)
  have running: "status s = SRunning" by (rule current_running) (rule plan_ready(2))
  with plan_ready n show ?thesis
    by (simp add: running_event step_event_def already_recorded_def message_kind_def)
next
  case (primary_contract_ready n contract tests)
  with m ok(2) show ?thesis
    by (auto simp: accepted_message_def running_event step_event_def already_recorded_def message_kind_def nothing_ahead_def)
next
  case (reviewer_contract_ready n contract tests)
  with m ok(2) show ?thesis
    by (auto simp: accepted_message_def running_event step_event_def already_recorded_def message_kind_def nothing_ahead_def)
qed

text \<open>
  The event of a message names what the message did. For every run without a recovery, when a
  message changes the stored state, the event is \<open>blocked\<close> if the run is blocked now; otherwise its kind
  is the one of the message type at the place where the run was, and a verification event is
  \<open>verification_passed\<close> exactly if no test failed. The one exception is a plan or a request for changes whose payload is the one
  already recorded: that is reported as \<open>state_changed\<close>.
\<close>

theorem event_names_message:
  assumes "\<forall>i \<in> set is. \<not> is_recovery i" and "revalidate_message L message = Inr m"
    and "run_step L (Message message) (run_of L f is) \<noteq> run_of L f is"
  shows "let s = run_of L f is; s' = run_step L (Message message) s in
    pe_kind (progress_event L (Some s) s' t) =
      (if status s' = SBlocked then ''blocked'' else if already_recorded s m then ''state_changed''
       else message_kind s (env_message_type (envelope m)) s')"
proof -
  let ?s = "run_of L f is"
  have "transition L (Message message) ?s (run_step L (Message message) ?s)"
    using assms(3) perform_transition by (cases rule: run_step_cases [of L "Message message" ?s]) blast+
  moreover have "nothing_ahead ?s" using unrecovered.always [of "is"] assms(1) by blast
  ultimately show ?thesis
    using message_event [OF _ run_ok_always _ assms(3,2)]
    by (simp add: progress_event_def Let_def split_beta)
qed

lemma event_names_message_witness:
  "let s = example_run planning_inputs; s' = run_step example_libs (Message plan_changes_message) s in
    pe_kind (progress_event example_libs (Some s) s' 0) = ''plan_changes_required''"
proof -
  let ?s = "example_run planning_inputs"
  have "revalidate_message example_libs plan_changes_message = Inr plan_changes_message" by code_simp
  moreover have "round (run_step example_libs (Message plan_changes_message) ?s) \<noteq> round ?s" by code_simp
  then have "run_step example_libs (Message plan_changes_message) ?s \<noteq> ?s" by auto
  moreover have "\<forall>i \<in> set planning_inputs. \<not> is_recovery i" by (simp add: planning_inputs_def)
  moreover have "status (run_step example_libs (Message plan_changes_message) ?s) \<noteq> SBlocked"
    "\<not> already_recorded ?s plan_changes_message" "phase ?s = PlanReview"
    "env_message_type (envelope plan_changes_message) = MChangesRequired" by code_simp+
  ultimately show ?thesis
    using event_names_message [of planning_inputs example_libs plan_changes_message plan_changes_message example_facts 0]
    by (simp add: Let_def message_kind_def)
qed

end
