(* ===== verification/Turn_Evidence.thy ===== *)
theory Turn_Evidence
  imports Command_Policy Participant
begin

text \<open>
  What the coordinator reads of a turn of a task (\<open>crates/daemon/src/coordinator.rs\<close>): the delivery
  marker that binds a user message to a request, the final answer, and the merge of the three sources
  of a completed turn into one canonical record. The record \<open>turn_libs\<close> adds to \<open>libs\<close> and
  \<open>policy_libs\<close> what is used of \<open>serde_json\<close> and of Rust's formatting: \<open>from_str\<close>, with the text of its
  error, \<open>to_string\<close>, \<open>to_string_pretty\<close>, \<open>{:?}\<close> of a string and the texts of errors of libraries. A panic of the thread is the error \<open>Panicked\<close>.
\<close>

record turn_libs =
  tl_core :: libs
  tl_policy :: policy_libs
  tl_parse :: "string \<Rightarrow> string + json"
  tl_print :: "json \<Rightarrow> string"
  tl_pretty :: "json \<Rightarrow> string"
  tl_debug :: "string \<Rightarrow> string"
  tl_library_text :: "string \<Rightarrow> string"

datatype coordinator_error =
    Operational string string "string option" "string option"
  | StoreFailure string string
  | Panicked string

definition operational :: "string \<Rightarrow> string \<Rightarrow> coordinator_error" where
  "operational code detail = Operational code detail None None"

definition app_server :: "string \<Rightarrow> string \<Rightarrow> string \<Rightarrow> string option \<Rightarrow> coordinator_error" where
  "app_server code detail operation thread_id = Operational code detail (Some operation) thread_id"

fun error_code :: "coordinator_error \<Rightarrow> string" where
  "error_code (Operational code _ _ _) = code"
| "error_code (StoreFailure code _) = code"
| "error_code (Panicked _) = ''''"

fun error_detail :: "coordinator_error \<Rightarrow> string" where
  "error_detail (Operational _ detail _ _) = detail"
| "error_detail (StoreFailure _ text) = text"
| "error_detail (Panicked text) = text"

fun error_operation :: "coordinator_error \<Rightarrow> string option" where
  "error_operation (Operational _ _ operation _) = operation"
| "error_operation _ = None"

fun error_thread_id :: "coordinator_error \<Rightarrow> string option" where
  "error_thread_id (Operational _ _ _ thread_id) = thread_id"
| "error_thread_id _ = None"

abbreviation history_unavailable :: "string \<Rightarrow> coordinator_error" where
  "history_unavailable detail \<equiv> operational ''HISTORY_UNAVAILABLE'' detail"

abbreviation invalid_response :: "string \<Rightarrow> coordinator_error" where
  "invalid_response detail \<equiv> operational ''INVALID_RESPONSE'' detail"

text \<open>A loop over a list that stops at the first error.\<close>

fun scan :: "('s \<Rightarrow> 'a \<Rightarrow> 'e + 's) \<Rightarrow> 's \<Rightarrow> 'a list \<Rightarrow> 'e + 's" where
  "scan step st [] = Inr st"
| "scan step st (x # xs) = attempt (step st x) (\<lambda>st'. scan step st' xs)"

subsection \<open>Tasks and turns\<close>

record thread_summary =
  th_id :: string
  th_status :: json

record thread_detail =
  td_summary :: thread_summary
  td_turns :: "json list"

datatype thread_runtime_status = NotLoaded | Idle | Active | SystemError

definition summary_runtime_status :: "thread_summary \<Rightarrow> string + thread_runtime_status" where
  "summary_runtime_status summary =
     (case str_field (th_status summary) ''type'' of
        None \<Rightarrow> Inl ''thread status is missing a string type''
      | Some t \<Rightarrow>
          if t = ''notLoaded'' then Inr NotLoaded
          else if t = ''idle'' then Inr Idle
          else if t = ''active'' then Inr Active
          else if t = ''systemError'' then Inr SystemError
          else Inl (''unsupported thread status: '' @ t))"

definition is_active :: "thread_summary \<Rightarrow> bool" where
  "is_active summary \<longleftrightarrow> summary_runtime_status summary = Inr Active"

definition unsupported_status :: "string \<Rightarrow> coordinator_error" where
  "unsupported_status detail = history_unavailable (''task has an unsupported runtime status: '' @ detail)"

definition runtime_status :: "thread_detail \<Rightarrow> coordinator_error + thread_runtime_status" where
  "runtime_status detail = map_err unsupported_status (summary_runtime_status (td_summary detail))"

definition require_idle_thread_summary :: "thread_summary \<Rightarrow> string \<Rightarrow> coordinator_error + unit" where
  "require_idle_thread_summary summary description =
     attempt (map_err unsupported_status (summary_runtime_status summary)) (\<lambda>status.
     ensure (status = Idle) (history_unavailable (description @ '' is not idle'')))"

definition require_idle_thread :: "thread_detail \<Rightarrow> string \<Rightarrow> coordinator_error + unit" where
  "require_idle_thread detail description =
     attempt (runtime_status detail) (\<lambda>status.
     ensure (status = Idle) (history_unavailable (description @ '' is not idle'')))"

definition verify_requested_thread_summary_identity :: "string \<Rightarrow> thread_summary \<Rightarrow> coordinator_error + unit" where
  "verify_requested_thread_summary_identity requested summary =
     ensure (th_id summary = requested)
       (operational ''AMBIGUOUS_THREAD'' ''App Server returned a different task than requested'')"

definition verify_requested_thread_identity :: "string \<Rightarrow> thread_detail \<Rightarrow> coordinator_error + unit" where
  "verify_requested_thread_identity requested detail =
     verify_requested_thread_summary_identity requested (td_summary detail)"

fun turn_ids_from :: "string \<Rightarrow> string set \<Rightarrow> json list \<Rightarrow> coordinator_error + string list" where
  "turn_ids_from description seen [] = Inr []"
| "turn_ids_from description seen (turn # turns) =
     attempt (ok_or (history_unavailable (description @ '' contains a turn without a canonical ID''))
                (case str_field turn ''id'' of Some t \<Rightarrow> if t \<noteq> [] then Some t else None | None \<Rightarrow> None)) (\<lambda>turn_id.
     if turn_id \<in> seen then
       Inl (history_unavailable (description @ '' contains duplicate turn ID '' @ turn_id))
     else
       attempt (turn_ids_from description (insert turn_id seen) turns) (\<lambda>rest.
       Inr (turn_id # rest)))"

definition canonical_turn_id_sequence :: "thread_detail \<Rightarrow> string \<Rightarrow> coordinator_error + string list" where
  "canonical_turn_id_sequence detail description = turn_ids_from description {} (td_turns detail)"

definition verify_full_history_fork :: "thread_detail \<Rightarrow> thread_detail \<Rightarrow> coordinator_error + unit" where
  "verify_full_history_fork source forked =
     attempt (canonical_turn_id_sequence source ''Source Primary'') (\<lambda>source_ids.
     attempt (canonical_turn_id_sequence forked ''ephemeral Primary fork'') (\<lambda>forked_ids.
     ensure (source_ids = forked_ids)
       (history_unavailable ''ephemeral Primary fork does not preserve the complete Source Primary turn history'')))"

definition source_history_fingerprint :: "libs \<Rightarrow> thread_detail \<Rightarrow> coordinator_error + string" where
  "source_history_fingerprint L source =
     attempt (canonical_turn_id_sequence source ''Source Primary'') (\<lambda>turn_ids.
     Inr (canonical_json_hash L (JArr (map JStr turn_ids))))"

definition find_turn :: "thread_detail \<Rightarrow> string \<Rightarrow> json option" where
  "find_turn detail turn_id = find (\<lambda>turn. str_field turn ''id'' = Some turn_id) (td_turns detail)"

definition thread_progress_fingerprint :: "libs \<Rightarrow> thread_detail \<Rightarrow> string" where
  "thread_progress_fingerprint L detail =
     canonical_json_hash L (json_object
       [(''status'', th_status (td_summary detail)), (''turns'', JArr (td_turns detail))])"

subsection \<open>Items of a turn\<close>

definition item_type :: "json \<Rightarrow> string option" where
  "item_type item = str_field item ''type''"

definition command_execution_items :: "json \<Rightarrow> coordinator_error + json list" where
  "command_execution_items turn =
     attempt (ok_or (history_unavailable ''completed turn has no canonical items'') (array_field turn ''items''))
       (\<lambda>items. Inr (filter (\<lambda>item. item_type item = Some ''commandExecution'') items))"

definition agent_message_ends_execution :: "json \<Rightarrow> bool" where
  "agent_message_ends_execution item \<longleftrightarrow> str_field item ''phase'' \<noteq> Some ''commentary''"

definition final_agent_item :: "json list \<Rightarrow> json option" where
  "final_agent_item items =
     (case find (\<lambda>item. item_type item = Some ''agentMessage'' \<and> str_field item ''phase'' = Some ''final_answer'')
             (rev items) of
        Some item \<Rightarrow> Some item
      | None \<Rightarrow> find (\<lambda>item. item_type item = Some ''agentMessage'') (rev items))"

definition final_agent_text :: "json \<Rightarrow> coordinator_error + string" where
  "final_agent_text turn =
     attempt (ok_or (history_unavailable ''completed turn has no canonical items'') (array_field turn ''items''))
       (\<lambda>items. ok_or (invalid_response ''completed turn has no final assistant response'')
          (Option.bind (final_agent_item items) (\<lambda>item. str_field item ''text'')))"

definition final_agent_json :: "turn_libs \<Rightarrow> json \<Rightarrow> coordinator_error + json" where
  "final_agent_json T turn =
     attempt (final_agent_text turn) (\<lambda>text. map_err invalid_response (tl_parse T (trim text)))"

subsection \<open>Delivery markers\<close>

definition DELIVERY_IDENTITY_HEADING :: string where
  "DELIVERY_IDENTITY_HEADING = ''Coordinator delivery identity for crash recovery:''"

abbreviation newline :: char where
  "newline \<equiv> CHR 0x0A"

definition marker_prefix :: string where
  "marker_prefix = DELIVERY_IDENTITY_HEADING @ newline # ''```json'' @ [newline]"

definition marker_suffix :: string where
  "marker_suffix = newline # ''```'' @ [newline]"

definition encoded_request_hash :: "turn_libs \<Rightarrow> string \<Rightarrow> string option" where
  "encoded_request_hash T encoded =
     (if encoded = [] \<or> newline \<in> set encoded \<or> CHR 0x0D \<in> set encoded then None
      else case tl_parse T encoded of
        Inl _ \<Rightarrow> None
      | Inr v \<Rightarrow>
          (case as_object v of
             None \<Rightarrow> None
           | Some es \<Rightarrow>
               if length es \<noteq> 1 then None
               else (case str_field v ''request_hash'' of
                  Some request_hash \<Rightarrow> if blank request_hash then None else Some request_hash
                | None \<Rightarrow> None)))"

text \<open>
  The slice of the marker between prefix and suffix panics when they overlap: a marker may start with
  the prefix and end with the suffix and yet be shorter than both together.
\<close>

definition parse_delivery_request_hash :: "turn_libs \<Rightarrow> string \<Rightarrow> coordinator_error + string option" where
  "parse_delivery_request_hash T text =
     (case match_indices DELIVERY_IDENTITY_HEADING text of
        [] \<Rightarrow> Inr None
      | start # _ \<Rightarrow>
          if 0 < start \<and> text ! (start - 1) \<noteq> newline then Inr None
          else
            (let marker = drop start text in
             if \<not> prefix marker_prefix marker \<or> \<not> suffix marker_suffix marker then Inr None
             else if length marker - length marker_suffix < length marker_prefix then
               Inl (Panicked ''slice index starts beyond its end'')
             else Inr (encoded_request_hash T
               (take (length marker - length marker_suffix - length marker_prefix)
                  (drop (length marker_prefix) marker)))))"

definition user_message_texts :: "json \<Rightarrow> string list" where
  "user_message_texts item =
     (case array_field item ''content'' of
        None \<Rightarrow> []
      | Some inputs \<Rightarrow> List.map_filter (\<lambda>input. str_field input ''text'') inputs)"

definition heading_count :: "string list \<Rightarrow> nat" where
  "heading_count texts = sum_list (map (\<lambda>text. length (match_indices DELIVERY_IDENTITY_HEADING text)) texts)"

definition user_message_delivery_request_hash :: "turn_libs \<Rightarrow> json \<Rightarrow> coordinator_error + string option" where
  "user_message_delivery_request_hash T item =
     (if item_type item \<noteq> Some ''userMessage'' then Inr None
      else if heading_count (user_message_texts item) \<noteq> 1 then Inr None
      else case find (\<lambda>text. contains text DELIVERY_IDENTITY_HEADING) (user_message_texts item) of
        None \<Rightarrow> Inr None
      | Some text \<Rightarrow> parse_delivery_request_hash T text)"

definition user_messages :: "json \<Rightarrow> json list" where
  "user_messages turn =
     (case array_field turn ''items'' of
        None \<Rightarrow> []
      | Some items \<Rightarrow> filter (\<lambda>item. item_type item = Some ''userMessage'') items)"

definition turn_delivery_request_hash :: "turn_libs \<Rightarrow> json \<Rightarrow> coordinator_error + string option" where
  "turn_delivery_request_hash T turn =
     attempt (collect_results (user_message_delivery_request_hash T) (user_messages turn)) (\<lambda>found.
     let delivery_hashes = List.map_filter id found in
     if heading_count (concat (map user_message_texts (user_messages turn))) \<noteq> 1
        \<or> length delivery_hashes \<noteq> 1 then Inr None
     else Inr (Some (hd delivery_hashes)))"

definition turn_contains_request_hash :: "turn_libs \<Rightarrow> json \<Rightarrow> string \<Rightarrow> coordinator_error + bool" where
  "turn_contains_request_hash T turn request_hash =
     attempt (turn_delivery_request_hash T turn) (\<lambda>found. Inr (found = Some request_hash))"

text \<open>The turns from the last to the first.\<close>

fun find_turn_from :: "turn_libs \<Rightarrow> string \<Rightarrow> string list \<Rightarrow> json list \<Rightarrow> coordinator_error + string option" where
  "find_turn_from T request_hash archived [] = Inr None"
| "find_turn_from T request_hash archived (turn # turns) =
     (case str_field turn ''id'' of
        None \<Rightarrow> find_turn_from T request_hash archived turns
      | Some turn_id \<Rightarrow>
          if turn_id \<in> set archived then find_turn_from T request_hash archived turns
          else attempt (turn_contains_request_hash T turn request_hash) (\<lambda>matched.
            if matched then Inr (Some turn_id) else find_turn_from T request_hash archived turns))"

definition find_turn_by_request_hash ::
  "turn_libs \<Rightarrow> thread_detail \<Rightarrow> string \<Rightarrow> string list \<Rightarrow> coordinator_error + string option" where
  "find_turn_by_request_hash T detail request_hash archived =
     find_turn_from T request_hash archived (rev (td_turns detail))"

subsection \<open>The canonical record of a completed turn\<close>

record merged_items =
  mi_ordered :: "json list"
  mi_hashes :: "string \<Rightarrow> string option"
  mi_deliveries :: "string \<Rightarrow> string option"

definition without_id :: "json \<Rightarrow> coordinator_error + json" where
  "without_id item =
     attempt (ok_or (history_unavailable ''delivery userMessage is not an object'') (as_object item))
       (\<lambda>es. Inr (JObj (obj_remove ''id'' es)))"

definition append_delivery ::
  "turn_libs \<Rightarrow> json \<Rightarrow> string \<Rightarrow> merged_items \<Rightarrow> coordinator_error + merged_items" where
  "append_delivery T item request_hash st =
     attempt (without_id item) (\<lambda>normalized.
     let normalized_hash = canonical_json_hash (tl_core T) normalized in
     case mi_deliveries st request_hash of
       Some existing \<Rightarrow>
         if existing \<noteq> normalized_hash then
           Inl (history_unavailable (''delivery request '' @ request_hash
                  @ '' has conflicting canonical userMessage copies''))
         else Inr st
     | None \<Rightarrow>
         Inr (st\<lparr>mi_deliveries := (mi_deliveries st)(request_hash \<mapsto> normalized_hash),
                 mi_ordered := mi_ordered st @ [item]\<rparr>))"

definition append_item :: "turn_libs \<Rightarrow> json \<Rightarrow> merged_items \<Rightarrow> coordinator_error + merged_items" where
  "append_item T item st =
     attempt (ok_or (history_unavailable ''completed turn evidence contains an item without a nonempty id'')
                (case str_field item ''id'' of Some t \<Rightarrow> if blank t then None else Some t | None \<Rightarrow> None)) (\<lambda>item_id.
     let item_hash = canonical_json_hash (tl_core T) item in
     case mi_hashes st item_id of
       Some existing \<Rightarrow>
         if existing \<noteq> item_hash then
           Inl (history_unavailable (''completed turn item '' @ item_id
                  @ '' has conflicting canonical representations''))
         else Inr st
     | None \<Rightarrow>
         (let st' = st\<lparr>mi_hashes := (mi_hashes st)(item_id \<mapsto> item_hash)\<rparr> in
          attempt (user_message_delivery_request_hash T item) (\<lambda>delivery.
          case delivery of
            Some request_hash \<Rightarrow> append_delivery T item request_hash st'
          | None \<Rightarrow> Inr (st'\<lparr>mi_ordered := mi_ordered st' @ [item]\<rparr>))))"

definition append_items :: "turn_libs \<Rightarrow> json list \<Rightarrow> merged_items \<Rightarrow> coordinator_error + merged_items" where
  "append_items T items st = scan (\<lambda>st item. append_item T item st) st items"

definition source_items :: "json \<Rightarrow> coordinator_error + json list" where
  "source_items source =
     ok_or (history_unavailable ''completed turn evidence has no canonical items'') (array_field source ''items'')"

definition message_kinds :: "json \<Rightarrow> nat" where
  "message_kinds item =
     (if item_type item = Some ''userMessage'' then 0 else if item_type item = Some ''agentMessage'' then 2 else 1)"

definition by_kind :: "json list \<Rightarrow> json list" where
  "by_kind items =
     filter (\<lambda>item. message_kinds item = 0) items @ filter (\<lambda>item. message_kinds item = 1) items
     @ filter (\<lambda>item. message_kinds item = 2) items"

definition nothing_merged :: merged_items where
  "nothing_merged = \<lparr>mi_ordered = [], mi_hashes = Map.empty, mi_deliveries = Map.empty\<rparr>"

definition merge_completed_turn_evidence ::
  "turn_libs \<Rightarrow> json \<Rightarrow> json \<Rightarrow> json list \<Rightarrow> coordinator_error + json" where
  "merge_completed_turn_evidence T persisted_turn event_turn completed_items =
     (if str_field persisted_turn ''id'' = None
         \<or> str_field persisted_turn ''id'' \<noteq> str_field event_turn ''id'' then
        Inl (history_unavailable ''persisted turn and turn/completed event identities differ'')
      else
        attempt (append_items T completed_items nothing_merged) (\<lambda>st1.
        attempt (source_items event_turn) (\<lambda>event_items.
        attempt (append_items T event_items st1) (\<lambda>st2.
        attempt (source_items persisted_turn) (\<lambda>persisted_items.
        attempt (append_items T persisted_items st2) (\<lambda>st3.
        attempt (ok_or (history_unavailable ''completed turn is not an object'') (as_object persisted_turn)) (\<lambda>es.
        Inr (JObj (obj_insert ''items'' (JArr (by_kind (mi_ordered st3))) es)))))))))"

end
