(* ===== verification/Turn_Audit.thy ===== *)
theory Turn_Audit
  imports Turn_Evidence
begin

text \<open>
  The audits of a turn (\<open>crates/daemon/src/coordinator.rs\<close>): before the answer of a turn is used, or the
  turn is repeated, every item of it is checked; a \<open>blocker\<close> is the first reason against it. An audit is
  a \<open>scan\<close> over the items with what it has seen so far, \<open>Inl\<close> being the blocker.
\<close>

definition PARTICIPANT_MCP_SERVER :: string where
  "PARTICIPANT_MCP_SERVER = ''worktreeMergeConsensusParticipant''"

definition PARTICIPANT_PATCH_TOOL :: string where
  "PARTICIPANT_PATCH_TOOL = ''consensus_apply_patch''"

definition CONSENSUS_PLUGIN :: string where
  "CONSENSUS_PLUGIN = ''worktree-merge-consensus@worktree-merge-consensus''"

definition blocker :: "string + 'a \<Rightarrow> string option" where
  "blocker r = (case r of Inl b \<Rightarrow> Some b | Inr _ \<Rightarrow> None)"

definition unblocked :: "string option \<Rightarrow> 's \<Rightarrow> string + 's" where
  "unblocked b st = (case b of Some t \<Rightarrow> Inl t | None \<Rightarrow> Inr st)"

definition nonempty_items :: "string \<Rightarrow> string \<Rightarrow> json \<Rightarrow> string + json list" where
  "nonempty_items unavailable none turn =
     attempt (ok_or unavailable (array_field turn ''items'')) (\<lambda>items.
     if items = [] then Inl none else Inr items)"

abbreviation canonical_items :: "json \<Rightarrow> string + json list" where
  "canonical_items \<equiv> nonempty_items ''canonical items are unavailable'' ''canonical items are empty''"

abbreviation type_of_item :: "json \<Rightarrow> string + string" where
  "type_of_item item \<equiv> ok_or ''canonical item has no type'' (item_type item)"

abbreviation side_effects :: "string \<Rightarrow> string + 's" where
  "side_effects t \<equiv> Inl (''canonical item type '' @ t @ '' may have side effects'')"

subsection \<open>Single items\<close>

definition context_compaction_retry_blocker :: "json \<Rightarrow> string option" where
  "context_compaction_retry_blocker item =
     (case as_object item of
        None \<Rightarrow> Some ''context compaction item is not an object''
      | Some es \<Rightarrow>
          if length es \<noteq> 2 \<or> map_of es ''id'' = None \<or> map_of es ''type'' = None then
            Some ''context compaction item has fields outside its frozen schema''
          else if str_field item ''type'' \<noteq> Some ''contextCompaction'' then
            Some ''context compaction item has an unexpected type''
          else if (case str_field item ''id'' of None \<Rightarrow> True | Some t \<Rightarrow> t = []) then
            Some ''context compaction item has no nonempty id''
          else None)"

definition carries_app_context :: "json \<Rightarrow> bool" where
  "carries_app_context item \<longleftrightarrow> (case get item ''appContext'' of None \<Rightarrow> False | Some v \<Rightarrow> v \<noteq> JNull)"

definition read_only_consensus_mcp_retry_blocker :: "json \<Rightarrow> string option" where
  "read_only_consensus_mcp_retry_blocker item =
     (if str_field item ''status'' \<noteq> Some ''completed'' then Some ''MCP tool call is not canonically completed''
      else if str_field item ''pluginId'' \<noteq> Some CONSENSUS_PLUGIN
              \<or> str_field item ''server'' \<noteq> Some ''worktreeMergeConsensus'' then
        Some ''MCP tool call is not owned by the consensus plugin''
      else if carries_app_context item then Some ''MCP tool call carries external app context''
      else if (case get item ''arguments'' of None \<Rightarrow> True | Some v \<Rightarrow> \<not> is_object v) then
        Some ''MCP tool call omits canonical object arguments''
      else case str_field item ''tool'' of
        Some tool \<Rightarrow>
          if tool \<in> {''consensus_list_threads'', ''consensus_list_worktrees'', ''consensus_status''} then None
          else Some (''consensus MCP tool '' @ tool @ '' is not a read-only retry-safe query'')
      | None \<Rightarrow> Some ''MCP tool call omits its canonical tool name'')"

definition patch_argument :: "json \<Rightarrow> string \<Rightarrow> string option" where
  "patch_argument item key = Option.bind (get item ''arguments'') (\<lambda>arguments. str_field arguments key)"

definition controlled_patch_mcp_identity_blocker_for_recovery ::
  "libs \<Rightarrow> run_state \<Rightarrow> json \<Rightarrow> string \<Rightarrow> bool \<Rightarrow> string option" where
  "controlled_patch_mcp_identity_blocker_for_recovery L s item request_hash allow_legacy_server =
     (let server = str_field item ''server'';
          server_matches = (server = Some PARTICIPANT_MCP_SERVER
            \<or> allow_legacy_server \<and> server = Some ''worktreeMergeConsensus'');
          plugin_matches = (str_field item ''pluginId'' = Some CONSENSUS_PLUGIN
            \<or> server = Some PARTICIPANT_MCP_SERVER \<and> get item ''pluginId'' = Some JNull)
      in if \<not> plugin_matches \<or> \<not> server_matches \<or> str_field item ''tool'' \<noteq> Some PARTICIPANT_PATCH_TOOL then
           Some ''integration turn invoked an MCP tool outside the exact controlled patch capability''
         else if carries_app_context item then Some ''controlled patch MCP call carries external app context''
         else if patch_argument item ''run_id'' \<noteq> Some (uuid_text L (rf_run_id (facts s)))
                 \<or> patch_argument item ''request_hash'' \<noteq> Some request_hash
                 \<or> (case patch_argument item ''patch'' of None \<Rightarrow> True | Some patch \<Rightarrow> blank patch) then
           Some ''controlled patch MCP arguments do not match the active run request''
         else None)"

definition controlled_patch_mcp_identity_blocker :: "libs \<Rightarrow> run_state \<Rightarrow> json \<Rightarrow> string \<Rightarrow> string option" where
  "controlled_patch_mcp_identity_blocker L s item request_hash =
     controlled_patch_mcp_identity_blocker_for_recovery L s item request_hash False"

definition recoverable_controlled_patch_mcp_identity_blocker ::
  "libs \<Rightarrow> run_state \<Rightarrow> json \<Rightarrow> string \<Rightarrow> string option" where
  "recoverable_controlled_patch_mcp_identity_blocker L s item request_hash =
     controlled_patch_mcp_identity_blocker_for_recovery L s item request_hash True"

text \<open>The patch of a call whose identity has been checked; the check ensures that it is there.\<close>

definition patch_hash_of :: "libs \<Rightarrow> json \<Rightarrow> string" where
  "patch_hash_of L item =
     canonical_json_hash L (json_object
       [(''patch'', JStr (case patch_argument item ''patch'' of Some patch \<Rightarrow> patch | None \<Rightarrow> []))])"

definition has_agent_initiated_command_source :: "json \<Rightarrow> bool" where
  "has_agent_initiated_command_source item \<longleftrightarrow>
     (case get item ''source'' of
        None \<Rightarrow> True
      | Some v \<Rightarrow> (case v of JStr source \<Rightarrow> source \<in> {''agent'', ''unifiedExecStartup''} | _ \<Rightarrow> False))"

definition exit_code_of :: "json \<Rightarrow> int option" where
  "exit_code_of item = Option.bind (get item ''exitCode'') as_i64"

definition terminal_shape :: "json \<Rightarrow> bool" where
  "terminal_shape item \<longleftrightarrow>
     (case str_field item ''status'' of
        None \<Rightarrow> False
      | Some word \<Rightarrow>
          if word = ''completed'' then exit_code_of item \<noteq> None
          else if word \<in> {''failed'', ''declined''} then
            (case get item ''exitCode'' of None \<Rightarrow> True | Some v \<Rightarrow> v = JNull \<or> as_i64 v \<noteq> None)
          else False)"

definition completed_with_zero :: "json \<Rightarrow> bool" where
  "completed_with_zero item \<longleftrightarrow> str_field item ''status'' = Some ''completed'' \<and> exit_code_of item = Some 0"

definition command_request :: "string \<Rightarrow> string \<Rightarrow> json" where
  "command_request cwd command =
     json_object [(''cwd'', JStr cwd), (''command'', JStr command),
                  (''availableDecisions'', JArr [JStr ''accept''])]"

definition integration_command_blocker :: "policy_libs \<Rightarrow> run_state \<Rightarrow> json \<Rightarrow> string option" where
  "integration_command_blocker P s item =
     (case str_field item ''command'' of
        None \<Rightarrow> Some ''integration command omits its canonical command''
      | Some command \<Rightarrow>
     (case str_field item ''cwd'' of
        None \<Rightarrow> Some ''integration command omits its canonical cwd''
      | Some cwd \<Rightarrow>
          if \<not> has_agent_initiated_command_source item then Some ''integration command has a non-agent source''
          else
            (let policy_state = s\<lparr>next_action := RequestPrimaryIntegration\<rparr>;
                 retry_safe_read_only = is_retry_safe_read_only_integration_command P policy_state cwd command;
                 live_policy_accepts =
                   (decide_command_approval P policy_state (command_request cwd command) = Accept)
             in if \<not> live_policy_accepts \<and> \<not> retry_safe_read_only then
                  Some ''integration command is outside the frozen execution policy''
                else if retry_safe_read_only then
                  (if terminal_shape item then None
                   else Some ''read-only integration command is not in a canonical terminal state'')
                else if \<not> completed_with_zero item then
                  Some ''integration command is not canonically completed with exit code zero''
                else None)))"

text \<open>A finished command that only reads, by the predicate \<open>retry_safe\<close> on its directory and text.\<close>

definition read_only_command_blocker ::
  "(string \<Rightarrow> string \<Rightarrow> bool) \<Rightarrow> string \<Rightarrow> string \<Rightarrow> string \<Rightarrow> string \<Rightarrow> json \<Rightarrow> string option" where
  "read_only_command_blocker retry_safe unfinished no_command no_cwd unsafe item =
     (if \<not> terminal_shape item then Some unfinished
      else case str_field item ''command'' of
        None \<Rightarrow> Some no_command
      | Some command \<Rightarrow>
     (case str_field item ''cwd'' of
        None \<Rightarrow> Some no_cwd
      | Some cwd \<Rightarrow>
          if \<not> has_agent_initiated_command_source item \<or> \<not> retry_safe cwd command then Some unsafe
          else None))"

subsection \<open>Turns that may be repeated\<close>

definition terminal_turn_step :: "unit \<Rightarrow> json \<Rightarrow> string + unit" where
  "terminal_turn_step st item =
     attempt (type_of_item item) (\<lambda>t.
     if t \<in> {''userMessage'', ''agentMessage'', ''reasoning''} then Inr st
     else if t = ''contextCompaction'' then unblocked (context_compaction_retry_blocker item) st
     else side_effects t)"

definition terminal_turn_retry_blocker :: "json \<Rightarrow> string option" where
  "terminal_turn_retry_blocker turn =
     blocker (attempt (canonical_items turn) (scan terminal_turn_step ()))"

definition interrupted_step :: "policy_libs \<Rightarrow> run_state \<Rightarrow> unit \<Rightarrow> json \<Rightarrow> string + unit" where
  "interrupted_step P s st item =
     attempt (type_of_item item) (\<lambda>t.
     if t \<in> {''userMessage'', ''agentMessage'', ''reasoning''} then Inr st
     else if t = ''contextCompaction'' then unblocked (context_compaction_retry_blocker item) st
     else if t = ''commandExecution'' then
       unblocked (read_only_command_blocker (is_retry_safe_read_only_integration_command P s)
         ''read-only command execution is not in a canonical terminal state''
         ''read-only command execution omits its canonical command''
         ''read-only command execution omits its canonical cwd''
         ''command execution is not an approved retry-safe read-only integration query'' item) st
     else side_effects t)"

definition interrupted_forbidden_operation_retry_blocker :: "policy_libs \<Rightarrow> run_state \<Rightarrow> json \<Rightarrow> string option" where
  "interrupted_forbidden_operation_retry_blocker P s turn =
     blocker (attempt (canonical_items turn) (scan (interrupted_step P s) ()))"

text \<open>The state of the next audits is whether a message of the agent has been seen.\<close>

definition read_only_turn_step :: "bool \<Rightarrow> json \<Rightarrow> string + bool" where
  "read_only_turn_step seen item =
     attempt (type_of_item item) (\<lambda>t.
     if t \<in> {''userMessage'', ''reasoning''} then Inr seen
     else if t = ''agentMessage'' then Inr True
     else if t = ''contextCompaction'' then unblocked (context_compaction_retry_blocker item) seen
     else if t = ''commandExecution'' then
       (if str_field item ''status'' \<noteq> Some ''completed'' then
          Inl ''command execution is not canonically completed''
        else if str_field item ''command'' = None then Inl ''command execution omits its canonical command''
        else Inr seen)
     else if t = ''mcpToolCall'' then unblocked (read_only_consensus_mcp_retry_blocker item) seen
     else Inl (''canonical item type '' @ t @ '' is not allowed in a read-only response retry''))"

definition requires_answer :: "string \<Rightarrow> bool \<Rightarrow> string + unit" where
  "requires_answer missing seen = ensure seen missing"

definition completed_read_only_turn_retry_blocker :: "json \<Rightarrow> string option" where
  "completed_read_only_turn_retry_blocker turn =
     blocker (attempt (canonical_items turn) (\<lambda>items.
              attempt (scan read_only_turn_step False items)
                (requires_answer ''canonical turn has no agent response'')))"

definition reviewer_replay_step :: "policy_libs \<Rightarrow> run_state \<Rightarrow> bool \<Rightarrow> json \<Rightarrow> string + bool" where
  "reviewer_replay_step P s seen item =
     attempt (ok_or ''canonical Reviewer item has no type'' (item_type item)) (\<lambda>t.
     if t \<in> {''userMessage'', ''reasoning''} then Inr seen
     else if t = ''agentMessage'' then Inr True
     else if t = ''contextCompaction'' then unblocked (context_compaction_retry_blocker item) seen
     else if t = ''commandExecution'' then
       unblocked (read_only_command_blocker (is_retry_safe_read_only_reviewer_command P s)
         ''Reviewer command execution is not in a canonical terminal state''
         ''Reviewer command execution omits its canonical command''
         ''Reviewer command execution omits its canonical cwd''
         ''Reviewer command is not an approved retry-safe read-only query'' item) seen
     else if t = ''mcpToolCall'' then unblocked (read_only_consensus_mcp_retry_blocker item) seen
     else Inl (''canonical Reviewer item type '' @ t @ '' may have side effects''))"

definition completed_reviewer_lifecycle_replay_blocker :: "policy_libs \<Rightarrow> run_state \<Rightarrow> json \<Rightarrow> string option" where
  "completed_reviewer_lifecycle_replay_blocker P s turn =
     blocker (attempt (nonempty_items ''canonical Reviewer items are unavailable''
                         ''canonical Reviewer items are empty'' turn) (\<lambda>items.
              attempt (scan (reviewer_replay_step P s) False items)
                (requires_answer ''canonical Reviewer turn has no final response'')))"

definition unexecuted_verification_step :: "bool \<Rightarrow> json \<Rightarrow> string + bool" where
  "unexecuted_verification_step seen item =
     attempt (ok_or ''canonical verification item has no type'' (item_type item)) (\<lambda>t.
     if t \<in> {''userMessage'', ''reasoning''} then Inr seen
     else if t = ''agentMessage'' then Inr True
     else if t = ''contextCompaction'' then unblocked (context_compaction_retry_blocker item) seen
     else if t = ''commandExecution'' then
       Inl ''verification retry is forbidden after any test command was executed''
     else Inl (''canonical verification item type '' @ t @ '' may have side effects''))"

definition verification_without_execution_retry_blocker :: "json \<Rightarrow> string option" where
  "verification_without_execution_retry_blocker turn =
     blocker (attempt (nonempty_items ''canonical verification items are unavailable''
                         ''canonical verification items are empty'' turn) (\<lambda>items.
              attempt (scan unexecuted_verification_step False items)
                (requires_answer ''canonical verification turn has no agent response'')))"

definition marker_only_item :: "unit \<Rightarrow> json \<Rightarrow> coordinator_error + unit" where
  "marker_only_item st item =
     attempt (ok_or (invalid_response ''canonical verification item has no type'') (item_type item)) (\<lambda>t.
     if t \<in> {''userMessage'', ''reasoning'', ''agentMessage''} then Inr st
     else if t = ''contextCompaction'' then
       map_err invalid_response (unblocked (context_compaction_retry_blocker item) st)
     else if t \<in> {''commandExecution'', ''fileChange'', ''mcpToolCall'', ''dynamicToolCall''} then
       Inl (operational ''FORBIDDEN_OPERATION''
              (''marker-only verification turn contains side-effect-capable item '' @ t))
     else Inl (invalid_response (''canonical verification item type '' @ t @ '' is not allowed'')))"

definition verify_marker_only_verification_turn :: "json \<Rightarrow> coordinator_error + unit" where
  "verify_marker_only_verification_turn turn =
     attempt (ok_or (history_unavailable ''completed verification turn has no canonical items'')
                (array_field turn ''items''))
       (scan marker_only_item ())"

subsection \<open>Turns with a controlled patch\<close>

definition waiting_on_approval :: "thread_summary option \<Rightarrow> bool" where
  "waiting_on_approval summary \<longleftrightarrow>
     (case Option.bind summary (\<lambda>th. array_field (th_status th) ''activeFlags'') of
        None \<Rightarrow> False
      | Some flags \<Rightarrow> list_ex (\<lambda>flag. as_str flag = Some ''waitingOnApproval'') flags)"

definition pending_approval_step ::
  "turn_libs \<Rightarrow> run_state \<Rightarrow> string \<Rightarrow> string list \<Rightarrow> nat \<Rightarrow> json \<Rightarrow> string + nat" where
  "pending_approval_step T s request_hash allowed_patch_statuses patch_calls item =
     attempt (type_of_item item) (\<lambda>t.
     if t \<in> {''userMessage'', ''agentMessage'', ''reasoning''} then Inr patch_calls
     else if t = ''contextCompaction'' then unblocked (context_compaction_retry_blocker item) patch_calls
     else if t = ''commandExecution'' then
       unblocked (integration_command_blocker (tl_policy T) s item) patch_calls
     else if t = ''mcpToolCall'' then
       (if (case str_field item ''status'' of None \<Rightarrow> True | Some word \<Rightarrow> word \<notin> set allowed_patch_statuses) then
          Inl ''controlled patch MCP call has an unexpected status''
        else unblocked (controlled_patch_mcp_identity_blocker (tl_core T) s item request_hash)
               (patch_calls + 1))
     else Inl (''canonical item type '' @ t @ '' is not allowed in a controlled patch approval retry''))"

definition pending_controlled_patch_approval_blocker ::
  "turn_libs \<Rightarrow> run_state \<Rightarrow> thread_summary option \<Rightarrow> json \<Rightarrow> string \<Rightarrow> string list \<Rightarrow> string option" where
  "pending_controlled_patch_approval_blocker T s summary turn request_hash allowed_patch_statuses =
     (if str_field turn ''status'' = Some ''inProgress'' \<and> \<not> waiting_on_approval summary then
        Some ''active controlled patch turn is not canonically waiting on approval''
      else
        blocker (attempt (canonical_items turn) (\<lambda>items.
                 attempt (scan (pending_approval_step T s request_hash allowed_patch_statuses) 0 items)
                   (\<lambda>patch_calls. ensure (patch_calls = 1)
                      ''controlled patch approval retry requires exactly one MCP call''))))"

text \<open>
  The items of a turn that may call the patch tool, with \<open>call\<close> for a call and \<open>seen\<close>, \<open>note\<close> for whether
  a final message of the agent has been seen.
\<close>

definition executing_step ::
  "policy_libs \<Rightarrow> run_state \<Rightarrow> ('s \<Rightarrow> bool) \<Rightarrow> (bool \<Rightarrow> 's \<Rightarrow> 's) \<Rightarrow> ('s \<Rightarrow> json \<Rightarrow> string + 's) \<Rightarrow> 's \<Rightarrow> json \<Rightarrow> string + 's" where
  "executing_step P s seen note call st item =
     attempt (type_of_item item) (\<lambda>t.
     if t \<in> {''userMessage'', ''reasoning''} then Inr st
     else if t = ''agentMessage'' then Inr (note (seen st \<or> agent_message_ends_execution item) st)
     else if t = ''contextCompaction'' then unblocked (context_compaction_retry_blocker item) st
     else if t = ''commandExecution'' then
       (if seen st then Inl ''integration command appears after the final agent response''
        else unblocked (integration_command_blocker P s item) st)
     else if t = ''mcpToolCall'' then
       (if seen st then Inl ''controlled patch call appears after the final agent response'' else call st item)
     else side_effects t)"

record rejected_patch =
  rp_calls :: nat
  rp_hash :: "string option"
  rp_surfaces :: "string set"
  rp_final_agent_seen :: bool

definition patch_rejection :: "json \<Rightarrow> bool" where
  "patch_rejection item \<longleftrightarrow>
     str_field item ''status'' = Some ''failed''
     \<and> (let content = Option.bind (get item ''result'') (\<lambda>r. get r ''structuredContent'') in
        Option.bind content (\<lambda>c. get c ''ok'') = Some (JBool False)
        \<and> Option.bind (Option.bind content (\<lambda>c. get c ''error'')) (\<lambda>e. str_field e ''code'')
            = Some ''PATCH_NOT_AUTHORIZED'')"

definition rejected_patch_call ::
  "turn_libs \<Rightarrow> run_state \<Rightarrow> string \<Rightarrow> rejected_patch \<Rightarrow> json \<Rightarrow> string + rejected_patch" where
  "rejected_patch_call T s request_hash st item =
     attempt (unblocked (recoverable_controlled_patch_mcp_identity_blocker (tl_core T) s item request_hash) ()) (\<lambda>_.
     attempt (ensure (patch_rejection item)
                ''controlled patch rejection lacks the exact PATCH_NOT_AUTHORIZED failure result'') (\<lambda>_.
     let current = patch_hash_of (tl_core T) item;
         server = (case str_field item ''server'' of Some t \<Rightarrow> t | None \<Rightarrow> [])
     in if (case rp_hash st of Some expected \<Rightarrow> expected \<noteq> current | None \<Rightarrow> False) then
          Inl ''controlled patch rejection contains different patch payloads''
        else if server \<in> rp_surfaces st then Inl ''controlled patch rejection repeats the same MCP surface''
        else if 2 < rp_calls st + 1 then
          Inl ''controlled patch rejection contains more than two failed compatibility calls''
        else Inr (st\<lparr>rp_hash := Some current, rp_surfaces := insert server (rp_surfaces st),
                     rp_calls := rp_calls st + 1\<rparr>)))"

definition rejected_patch_step ::
  "turn_libs \<Rightarrow> run_state \<Rightarrow> string \<Rightarrow> rejected_patch \<Rightarrow> json \<Rightarrow> string + rejected_patch" where
  "rejected_patch_step T s request_hash =
     executing_step (tl_policy T) s rp_final_agent_seen (\<lambda>seen st. st\<lparr>rp_final_agent_seen := seen\<rparr>)
       (rejected_patch_call T s request_hash)"

definition failed_patch_not_authorized_turn_blocker ::
  "turn_libs \<Rightarrow> run_state \<Rightarrow> json \<Rightarrow> string \<Rightarrow> string option" where
  "failed_patch_not_authorized_turn_blocker T s turn request_hash =
     blocker (attempt (canonical_items turn) (\<lambda>items.
              attempt (scan (rejected_patch_step T s request_hash)
                  \<lparr>rp_calls = 0, rp_hash = None, rp_surfaces = {}, rp_final_agent_seen = False\<rparr> items) (\<lambda>st.
              attempt (ensure (rp_calls st \<noteq> 0)
                         ''controlled patch rejection contains no failed controlled patch call'') (\<lambda>_.
              ensure (rp_final_agent_seen st) ''controlled patch rejection has no final agent response''))))"

record patched_turn =
  pt_completed :: nat
  pt_completed_seen :: bool
  pt_final_agent_seen :: bool

definition recorded_patch_call ::
  "turn_libs \<Rightarrow> run_state \<Rightarrow> string \<Rightarrow> string \<Rightarrow> bool \<Rightarrow> patched_turn \<Rightarrow> json \<Rightarrow> string + patched_turn" where
  "recorded_patch_call T s request_hash successful_patch_hash allow_legacy_server st item =
     attempt (unblocked
       (if allow_legacy_server
        then recoverable_controlled_patch_mcp_identity_blocker (tl_core T) s item request_hash
        else controlled_patch_mcp_identity_blocker (tl_core T) s item request_hash) ()) (\<lambda>_.
     let patch_hash = patch_hash_of (tl_core T) item in
     case str_field item ''status'' of
       None \<Rightarrow> Inl ''controlled patch MCP call omits status''
     | Some word \<Rightarrow>
         if word = ''failed'' then
           (if pt_completed_seen st then Inl ''failed patch preflight appears after the successful patch''
            else if patch_hash = successful_patch_hash then
              Inl ''failed patch preflight has the recorded successful patch hash''
            else Inr st)
         else if word = ''completed'' then
           (if pt_completed_seen st then Inl ''integration turn contains more than one completed patch''
            else if patch_hash \<noteq> successful_patch_hash then
              Inl ''completed controlled patch does not match the SQLite success record''
            else Inr (st\<lparr>pt_completed_seen := True, pt_completed := pt_completed st + 1\<rparr>))
         else Inl (''controlled patch MCP call has unexpected status '' @ word))"

definition patched_turn_step ::
  "turn_libs \<Rightarrow> run_state \<Rightarrow> string \<Rightarrow> string \<Rightarrow> bool \<Rightarrow> patched_turn \<Rightarrow> json \<Rightarrow> string + patched_turn" where
  "patched_turn_step T s request_hash successful_patch_hash allow_legacy_server =
     executing_step (tl_policy T) s pt_final_agent_seen (\<lambda>seen st. st\<lparr>pt_final_agent_seen := seen\<rparr>)
       (recorded_patch_call T s request_hash successful_patch_hash allow_legacy_server)"

definition recoverable_integration_turn_blocker ::
  "turn_libs \<Rightarrow> run_state \<Rightarrow> json \<Rightarrow> string \<Rightarrow> string \<Rightarrow> bool \<Rightarrow> string option" where
  "recoverable_integration_turn_blocker T s turn request_hash successful_patch_hash allow_legacy_server =
     blocker (attempt (canonical_items turn) (\<lambda>items.
              attempt (scan (patched_turn_step T s request_hash successful_patch_hash allow_legacy_server)
                  \<lparr>pt_completed = 0, pt_completed_seen = False, pt_final_agent_seen = False\<rparr> items) (\<lambda>st.
              ensure (pt_completed st = 1)
                (''integration invalid-response recovery requires exactly one recorded successful patch''))))"

definition confirmation_command :: "policy_libs \<Rightarrow> run_state \<Rightarrow> json \<Rightarrow> string \<Rightarrow> string \<Rightarrow> bool" where
  "confirmation_command P s item cwd command \<longleftrightarrow>
     completed_with_zero item \<and> is_retry_safe_read_only_integration_command P s cwd command"

definition confirmation_step :: "policy_libs \<Rightarrow> run_state \<Rightarrow> bool \<Rightarrow> json \<Rightarrow> string + bool" where
  "confirmation_step P s final_agent_seen item =
     attempt (ok_or ''canonical confirmation item has no type'' (item_type item)) (\<lambda>t.
     if t \<in> {''userMessage'', ''reasoning''} then Inr final_agent_seen
     else if t = ''agentMessage'' then Inr (final_agent_seen \<or> agent_message_ends_execution item)
     else if t = ''contextCompaction'' then unblocked (context_compaction_retry_blocker item) final_agent_seen
     else if t = ''commandExecution'' then
       (if final_agent_seen then
          Inl ''integration confirmation command appears after the final agent response''
        else
          attempt (ok_or ''integration confirmation command omits its command'' (str_field item ''command'')) (\<lambda>command.
          attempt (ok_or ''integration confirmation command omits its cwd'' (str_field item ''cwd'')) (\<lambda>cwd.
          if has_agent_initiated_command_source item \<and> confirmation_command P s item cwd command
          then Inr final_agent_seen
          else Inl (''patch-success confirmation executed a non-read-only command: '' @ command))))
     else Inl (''canonical confirmation item type '' @ t @ '' may have side effects''))"

definition recoverable_integration_confirmation_turn_blocker ::
  "policy_libs \<Rightarrow> run_state \<Rightarrow> json \<Rightarrow> string option" where
  "recoverable_integration_confirmation_turn_blocker P s turn =
     blocker (attempt (nonempty_items ''canonical confirmation items are unavailable''
                         ''canonical confirmation items are empty'' turn) (\<lambda>items.
              attempt (scan (confirmation_step P s) False items)
                (\<lambda>seen. ensure seen ''integration confirmation has no final agent response'')))"

subsection \<open>The turn of an integration\<close>

abbreviation forbidden_operation :: "string \<Rightarrow> coordinator_error" where
  "forbidden_operation detail \<equiv> operational ''FORBIDDEN_OPERATION'' detail"

definition executed_command :: "json \<Rightarrow> coordinator_error + string \<times> string" where
  "executed_command item =
     attempt (ok_or (invalid_response ''commandExecution item omits command'') (str_field item ''command'')) (\<lambda>command.
     attempt (ok_or (invalid_response ''commandExecution item omits cwd'') (str_field item ''cwd'')) (\<lambda>cwd.
     Inr (command, cwd)))"

definition confirmation_item :: "policy_libs \<Rightarrow> run_state \<Rightarrow> unit \<Rightarrow> json \<Rightarrow> coordinator_error + unit" where
  "confirmation_item P s st item =
     attempt (executed_command item) (\<lambda>(command, cwd).
     ensure (confirmation_command P s item cwd command)
       (forbidden_operation (''patch-success confirmation executed a non-read-only command: '' @ command)))"

definition approved_item :: "policy_libs \<Rightarrow> run_state \<Rightarrow> unit \<Rightarrow> json \<Rightarrow> coordinator_error + unit" where
  "approved_item P s st item =
     attempt (executed_command item) (\<lambda>(command, cwd).
     ensure (decide_command_approval P s (command_request cwd command) = Accept)
       (forbidden_operation (''integration turn executed a command outside policy: '' @ command)))"

definition mcp_calls :: "json \<Rightarrow> json list" where
  "mcp_calls turn =
     (case array_field turn ''items'' of
        None \<Rightarrow> [] | Some items \<Rightarrow> filter (\<lambda>item. item_type item = Some ''mcpToolCall'') items)"

definition verify_integration_execution_items ::
  "turn_libs \<Rightarrow> run_state \<Rightarrow> json \<Rightarrow> string \<Rightarrow> string option \<Rightarrow> bool \<Rightarrow> coordinator_error + unit" where
  "verify_integration_execution_items T s turn request_hash successful_patch_hash has_archived_attempt =
     attempt (command_execution_items turn) (\<lambda>command_items.
     case successful_patch_hash of
       Some patch_hash \<Rightarrow>
         if mcp_calls turn \<noteq> [] then
           map_err forbidden_operation
             (unblocked (recoverable_integration_turn_blocker T s turn request_hash patch_hash False) ())
         else if \<not> has_archived_attempt then
           Inl (forbidden_operation ''a patch-success confirmation turn has no archived originating attempt'')
         else scan (confirmation_item (tl_policy T) s) () command_items
     | None \<Rightarrow>
         if mcp_calls turn \<noteq> [] then
           Inl (forbidden_operation
             ''integration turn contains a controlled patch call without a SQLite success record'')
         else scan (approved_item (tl_policy T) s) () command_items)"

end
