(* ===== verification/Turn_Audit_Properties.thy ===== *)
theory Turn_Audit_Properties
  imports Turn_Audit Run_Example Policy_Properties
begin

text \<open>
  What an audit without a blocker says about the turn. The locales state what an audit keeps while it
  scans the items; they are interpreted on the steps of the audits.
\<close>

subsection \<open>Scans\<close>

locale scan_invariant =
  fixes step :: "'s \<Rightarrow> json \<Rightarrow> 'e + 's" and I :: "json list \<Rightarrow> 's \<Rightarrow> bool"
  assumes kept: "I xs st \<Longrightarrow> step st x = Inr st' \<Longrightarrow> I (xs @ [x]) st'"
begin

lemma scanned: "I xs st \<Longrightarrow> scan step st ys = Inr st' \<Longrightarrow> I (xs @ ys) st'"
proof (induction ys arbitrary: xs st)
  case (Cons y ys)
  then obtain st1 where "step st y = Inr st1" "scan step st1 ys = Inr st'" by (auto simp: outcome)
  with Cons.IH [of "xs @ [y]" st1] Cons.prems kept show ?case by auto
qed simp

lemma scanned_all: "I [] st \<Longrightarrow> scan step st ys = Inr st' \<Longrightarrow> I ys st'"
  using scanned [of "[]"] by simp

end

text \<open>An audit lets an item pass only if it is permitted.\<close>

locale item_audit =
  fixes step :: "'s \<Rightarrow> json \<Rightarrow> 'e + 's" and permitted :: "json \<Rightarrow> bool"
  assumes permits: "step st item = Inr st' \<Longrightarrow> permitted item"

sublocale item_audit \<subseteq> scan_invariant step "\<lambda>xs _. list_all permitted xs"
  by unfold_locales (auto dest: permits)

context item_audit begin

lemma all_permitted: "scan step st items = Inr st' \<Longrightarrow> list_all permitted items"
  by (rule scanned_all) simp_all

end

lemma blocker_None [outcome]: "blocker r = None \<longleftrightarrow> (\<exists>x. r = Inr x)"
  by (cases r) (simp_all add: blocker_def)

lemma unblocked_Inr [outcome]: "unblocked b st = Inr st' \<longleftrightarrow> b = None \<and> st' = st"
  by (cases b) (auto simp: unblocked_def)

lemma nonempty_items_Inr [outcome]:
  "nonempty_items a b turn = Inr items \<longleftrightarrow> array_field turn ''items'' = Some items \<and> items \<noteq> []"
  by (auto simp: nonempty_items_def outcome)

lemma requires_answer_Inr [outcome]: "requires_answer t seen = Inr u \<longleftrightarrow> seen"
  by (simp add: requires_answer_def outcome)

subsection \<open>Kinds of items\<close>

text \<open>Items by which a task did nothing outside the conversation.\<close>

definition inert :: "json \<Rightarrow> bool" where
  "inert item \<longleftrightarrow>
     item_type item \<in> {Some ''userMessage'', Some ''reasoning'', Some ''agentMessage''}
     \<or> item_type item = Some ''contextCompaction'' \<and> context_compaction_retry_blocker item = None"

definition runs_command :: "json \<Rightarrow> string \<Rightarrow> string \<Rightarrow> bool" where
  "runs_command item cwd command \<longleftrightarrow>
     item_type item = Some ''commandExecution'' \<and> str_field item ''cwd'' = Some cwd
     \<and> str_field item ''command'' = Some command \<and> has_agent_initiated_command_source item"

text \<open>A command of the agent that ended and that \<open>retry_safe\<close> knows to be a query.\<close>

definition finished_query :: "(string \<Rightarrow> string \<Rightarrow> bool) \<Rightarrow> json \<Rightarrow> bool" where
  "finished_query retry_safe item \<longleftrightarrow>
     terminal_shape item \<and> (\<exists>cwd command. runs_command item cwd command \<and> retry_safe cwd command)"

definition integration_query :: "policy_libs \<Rightarrow> run_state \<Rightarrow> json \<Rightarrow> bool" where
  "integration_query P s = finished_query (is_retry_safe_read_only_integration_command P s)"

definition consensus_query :: "json \<Rightarrow> bool" where
  "consensus_query item \<longleftrightarrow>
     item_type item = Some ''mcpToolCall'' \<and> str_field item ''status'' = Some ''completed''
     \<and> str_field item ''server'' = Some ''worktreeMergeConsensus''
     \<and> str_field item ''tool'' \<in>
         {Some ''consensus_list_threads'', Some ''consensus_list_worktrees'', Some ''consensus_status''}"

text \<open>A command the policy accepts while the primary integrates, and that succeeded.\<close>

definition integration_command :: "policy_libs \<Rightarrow> run_state \<Rightarrow> json \<Rightarrow> bool" where
  "integration_command P s item \<longleftrightarrow>
     (let integrating = s\<lparr>next_action := RequestPrimaryIntegration\<rparr> in
      integration_query P integrating item
      \<or> completed_with_zero item
        \<and> (\<exists>cwd command. runs_command item cwd command
             \<and> decide_command_approval P integrating (command_request cwd command) = Accept))"

text \<open>A call of the patch tool of the participant for exactly this run and this request.\<close>

definition patch_call :: "libs \<Rightarrow> run_state \<Rightarrow> string \<Rightarrow> bool \<Rightarrow> json \<Rightarrow> bool" where
  "patch_call L s request_hash legacy item \<longleftrightarrow>
     item_type item = Some ''mcpToolCall'' \<and> str_field item ''tool'' = Some PARTICIPANT_PATCH_TOOL
     \<and> (str_field item ''server'' = Some PARTICIPANT_MCP_SERVER
        \<or> legacy \<and> str_field item ''server'' = Some ''worktreeMergeConsensus'')
     \<and> patch_argument item ''run_id'' = Some (uuid_text L (rf_run_id (facts s)))
     \<and> patch_argument item ''request_hash'' = Some request_hash
     \<and> (\<exists>patch. patch_argument item ''patch'' = Some patch \<and> \<not> blank patch)"

lemma read_only_command_permits:
  "item_type item = Some ''commandExecution'' \<Longrightarrow> read_only_command_blocker f a b c d item = None \<Longrightarrow>
     finished_query f item"
  by (auto simp: read_only_command_blocker_def finished_query_def runs_command_def split: if_splits option.splits)

lemma consensus_query_permits:
  "item_type item = Some ''mcpToolCall'' \<Longrightarrow> read_only_consensus_mcp_retry_blocker item = None \<Longrightarrow>
     consensus_query item"
  by (auto simp: read_only_consensus_mcp_retry_blocker_def consensus_query_def split: if_splits option.splits)

lemma integration_command_permits:
  "item_type item = Some ''commandExecution'' \<Longrightarrow> integration_command_blocker P s item = None \<Longrightarrow>
     integration_command P s item"
  by (auto simp: integration_command_blocker_def integration_command_def integration_query_def
      finished_query_def runs_command_def Let_def split: if_splits option.splits)

lemma patch_identity_permits:
  "item_type item = Some ''mcpToolCall'' \<Longrightarrow>
     controlled_patch_mcp_identity_blocker_for_recovery L s item h legacy = None \<Longrightarrow>
     patch_call L s h legacy item"
  by (auto simp: controlled_patch_mcp_identity_blocker_for_recovery_def patch_call_def Let_def
      split: if_splits option.splits)

subsection \<open>Audits that look at single items\<close>

interpretation terminal: item_audit terminal_turn_step inert
  by unfold_locales (auto simp: terminal_turn_step_def inert_def outcome split: if_splits)

interpretation unexecuted: item_audit unexecuted_verification_step inert
  by unfold_locales (auto simp: unexecuted_verification_step_def inert_def outcome split: if_splits)

interpretation marker_only: item_audit marker_only_item inert
  by unfold_locales (auto simp: marker_only_item_def inert_def outcome split: if_splits)

interpretation interrupted: item_audit "interrupted_step P s" "\<lambda>item. inert item \<or> integration_query P s item" for P s
  by unfold_locales
    (auto simp: interrupted_step_def inert_def outcome integration_query_def
      intro: read_only_command_permits split: if_splits)

interpretation reviewer: item_audit "reviewer_replay_step P s"
  "\<lambda>item. inert item \<or> consensus_query item
     \<or> finished_query (is_retry_safe_read_only_reviewer_command P s) item" for P s
  by unfold_locales
    (auto simp: reviewer_replay_step_def inert_def outcome
      intro: read_only_command_permits consensus_query_permits split: if_splits)

lemma pending_approval_step_cases:
  "pending_approval_step T s h statuses st item = Inr st' \<Longrightarrow>
     inert item
     \<or> item_type item = Some ''commandExecution'' \<and> integration_command_blocker (tl_policy T) s item = None
     \<or> item_type item = Some ''mcpToolCall''
       \<and> controlled_patch_mcp_identity_blocker (tl_core T) s item h = None"
  by (auto simp: pending_approval_step_def inert_def outcome split: if_splits)

interpretation pending_approval: item_audit "pending_approval_step T s h statuses"
  "\<lambda>item. inert item \<or> integration_command (tl_policy T) s item \<or> patch_call (tl_core T) s h False item"
  for T s h statuses
  by unfold_locales
    (metis pending_approval_step_cases integration_command_permits patch_identity_permits
      controlled_patch_mcp_identity_blocker_def)

lemma marker_only_inert: "inert item \<Longrightarrow> marker_only_item st item = Inr ()"
  by (auto simp: marker_only_item_def inert_def ok_or_def unblocked_def map_err_def)

lemma marker_only_passes: "list_all inert items \<Longrightarrow> scan marker_only_item () items = Inr ()"
  by (induction items) (simp_all add: marker_only_inert)

text \<open>
  The turn of a verification is accepted exactly if it has items and each is inert: the participant
  only wrote, and executed nothing.
\<close>

theorem verification_turn_inert:
  "verify_marker_only_verification_turn turn = Inr () \<longleftrightarrow>
     (\<exists>items. array_field turn ''items'' = Some items \<and> list_all inert items)"
  unfolding verify_marker_only_verification_turn_def
  using marker_only.all_permitted marker_only_passes by (auto simp: outcome)

text \<open>
  A turn that is repeated has had no effect. If the audit has no blocker, then all items are inert
  (a turn that failed, and a verification without execution), or inert or a finished query in the
  worktree of the participant (an interrupted integration, a repeated review, where the queries of the
  consensus tools may occur too).
\<close>

theorem repeated_turn_only_read:
  "(terminal_turn_retry_blocker turn = None \<or> verification_without_execution_retry_blocker turn = None \<longrightarrow>
      (\<exists>items. array_field turn ''items'' = Some items \<and> items \<noteq> [] \<and> list_all inert items))
   \<and> (interrupted_forbidden_operation_retry_blocker P s turn = None \<longrightarrow>
      (\<exists>items. array_field turn ''items'' = Some items \<and> items \<noteq> []
         \<and> list_all (\<lambda>item. inert item \<or> integration_query P s item) items))
   \<and> (completed_reviewer_lifecycle_replay_blocker P s turn = None \<longrightarrow>
      (\<exists>items. array_field turn ''items'' = Some items \<and> items \<noteq> []
         \<and> list_all (\<lambda>item. inert item \<or> consensus_query item
              \<or> finished_query (is_retry_safe_read_only_reviewer_command P s) item) items))"
  using terminal.all_permitted unexecuted.all_permitted interrupted.all_permitted [of P s]
    reviewer.all_permitted [of P s]
  by (auto simp: terminal_turn_retry_blocker_def verification_without_execution_retry_blocker_def
      interrupted_forbidden_operation_retry_blocker_def completed_reviewer_lifecycle_replay_blocker_def
      outcome)

subsection \<open>The turn of an integration\<close>

definition final_message :: "json \<Rightarrow> bool" where
  "final_message item \<longleftrightarrow> item_type item = Some ''agentMessage'' \<and> agent_message_ends_execution item"

definition executes :: "json \<Rightarrow> bool" where
  "executes item \<longleftrightarrow> item_type item \<in> {Some ''commandExecution'', Some ''mcpToolCall''}"

definition is_call :: "json \<Rightarrow> bool" where
  "is_call item \<longleftrightarrow> item_type item = Some ''mcpToolCall''"

text \<open>Nothing is executed after a final message.\<close>

fun quiet_after_answer :: "json list \<Rightarrow> bool" where
  "quiet_after_answer [] = True"
| "quiet_after_answer (x # xs) =
     (if final_message x then \<not> list_ex executes xs else quiet_after_answer xs)"

lemma quiet_snoc:
  "quiet_after_answer (xs @ [x]) \<longleftrightarrow> quiet_after_answer xs \<and> (list_ex final_message xs \<longrightarrow> \<not> executes x)"
  by (induction xs) auto

lemma final_not_executes: "final_message x \<Longrightarrow> \<not> executes x"
  by (simp add: final_message_def executes_def)

text \<open>The calls of the patch tool: attempts that failed, then the one patch that was recorded.\<close>

definition failed_attempt :: "libs \<Rightarrow> string \<Rightarrow> json \<Rightarrow> bool" where
  "failed_attempt L patch_hash item \<longleftrightarrow>
     str_field item ''status'' = Some ''failed'' \<and> patch_hash_of L item \<noteq> patch_hash"

definition recorded_patch :: "libs \<Rightarrow> string \<Rightarrow> json \<Rightarrow> bool" where
  "recorded_patch L patch_hash item \<longleftrightarrow>
     str_field item ''status'' = Some ''completed'' \<and> patch_hash_of L item = patch_hash"

definition patched_so_far ::
  "turn_libs \<Rightarrow> run_state \<Rightarrow> string \<Rightarrow> string \<Rightarrow> bool \<Rightarrow> json list \<Rightarrow> patched_turn \<Rightarrow> bool" where
  "patched_so_far T s h p legacy xs st \<longleftrightarrow>
     list_all (\<lambda>item. inert item \<or> integration_command (tl_policy T) s item
                 \<or> patch_call (tl_core T) s h legacy item) xs
     \<and> pt_final_agent_seen st = list_ex final_message xs \<and> quiet_after_answer xs
     \<and> (\<exists>failed. list_all (failed_attempt (tl_core T) p) failed
          \<and> (if pt_completed_seen st
             then pt_completed st = 1
               \<and> (\<exists>patch. filter is_call xs = failed @ [patch] \<and> recorded_patch (tl_core T) p patch)
             else pt_completed st = 0 \<and> filter is_call xs = failed))"

lemma executing_step_cases:
  assumes "executing_step P s seen note call st item = Inr st'"
  obtains (message) "inert item" "\<not> executes item" "\<not> is_call item"
      "st' = (if item_type item = Some ''agentMessage'' then note (seen st \<or> final_message item) st else st)"
      "final_message item \<longrightarrow> item_type item = Some ''agentMessage''"
    | (command) "integration_command P s item" "\<not> final_message item" "\<not> is_call item" "\<not> seen st" "st' = st"
    | (call) "\<not> final_message item" "is_call item" "\<not> seen st" "call st item = Inr st'"
proof -
  obtain t where t: "item_type item = Some t"
    using assms by (auto simp: executing_step_def outcome)
  note d = executing_step_def executes_def is_call_def final_message_def inert_def t
  consider "t = ''commandExecution''" | "t = ''mcpToolCall''" | "t \<notin> {''commandExecution'', ''mcpToolCall''}"
    by blast
  then show thesis
  proof cases
    case 1
    then have "\<not> seen st \<and> integration_command_blocker P s item = None \<and> st' = st"
      using assms by (simp add: d ok_or_def outcome split: if_splits)
    with 1 t integration_command_permits [of item P s] show thesis by (intro command) (simp_all add: d)
  next
    case 2
    then have "\<not> seen st \<and> call st item = Inr st'"
      using assms by (simp add: d ok_or_def split: if_splits)
    with 2 t show thesis by (intro call) (simp_all add: d)
  next
    case 3
    with assms consider "t \<in> {''userMessage'', ''reasoning''}" "st' = st"
      | "t = ''agentMessage''" "st' = note (seen st \<or> agent_message_ends_execution item) st"
      | "t = ''contextCompaction''" "context_compaction_retry_blocker item = None" "st' = st"
      by (simp add: executing_step_def t ok_or_def outcome split: if_splits)
    then show thesis by cases (intro message; auto simp: d)+
  qed
qed

lemma recorded_patch_call_cases:
  assumes "recorded_patch_call T s h p legacy st item = Inr st'"
  shows "controlled_patch_mcp_identity_blocker_for_recovery (tl_core T) s item h legacy = None \<and>
    \<not> pt_completed_seen st \<and>
    (failed_attempt (tl_core T) p item \<and> st' = st
     \<or> recorded_patch (tl_core T) p item
       \<and> st' = st\<lparr>pt_completed_seen := True, pt_completed := pt_completed st + 1\<rparr>)"
  using assms
  by (auto simp: recorded_patch_call_def outcome Let_def failed_attempt_def recorded_patch_def
      controlled_patch_mcp_identity_blocker_def recoverable_controlled_patch_mcp_identity_blocker_def
      split: option.splits if_splits)

interpretation patched: scan_invariant "patched_turn_step T s h p legacy" "patched_so_far T s h p legacy"
  for T s h p legacy
proof
  fix xs st x st'
  assume I: "patched_so_far T s h p legacy xs st" and step: "patched_turn_step T s h p legacy st x = Inr st'"
  from step [unfolded patched_turn_step_def] show "patched_so_far T s h p legacy (xs @ [x]) st'"
  proof (cases rule: executing_step_cases)
    case message
    with I show ?thesis by (auto simp: patched_so_far_def quiet_snoc)
  next
    case command
    with I show ?thesis by (auto simp: patched_so_far_def quiet_snoc)
  next
    case call
    with recorded_patch_call_cases [OF call(4)] I patch_identity_permits [of x "tl_core T" s h legacy]
    show ?thesis by (auto simp: patched_so_far_def quiet_snoc is_call_def)
  qed
qed

text \<open>What the calls and commands of a turn with the recorded patch are.\<close>

definition patched_as_recorded :: "turn_libs \<Rightarrow> run_state \<Rightarrow> string \<Rightarrow> string \<Rightarrow> bool \<Rightarrow> json list \<Rightarrow> bool" where
  "patched_as_recorded T s h p legacy items \<longleftrightarrow>
     list_all (\<lambda>item. inert item \<or> integration_command (tl_policy T) s item
                 \<or> patch_call (tl_core T) s h legacy item) items
     \<and> quiet_after_answer items
     \<and> (\<exists>failed patch. filter is_call items = failed @ [patch]
          \<and> list_all (failed_attempt (tl_core T) p) failed \<and> recorded_patch (tl_core T) p patch)"

lemma recoverable_integration_turn:
  assumes "recoverable_integration_turn_blocker T s turn h p legacy = None"
  shows "\<exists>items. array_field turn ''items'' = Some items \<and> patched_as_recorded T s h p legacy items"
proof -
  let ?init = "\<lparr>pt_completed = 0, pt_completed_seen = False, pt_final_agent_seen = False\<rparr>"
  obtain items st where i: "array_field turn ''items'' = Some items"
    "scan (patched_turn_step T s h p legacy) ?init items = Inr st" "pt_completed st = 1"
    using assms by (auto simp: recoverable_integration_turn_blocker_def outcome)
  moreover have "patched_so_far T s h p legacy [] ?init" by (simp add: patched_so_far_def)
  ultimately have "patched_so_far T s h p legacy items st" by (blast intro: patched.scanned_all)
  with i show ?thesis
    by (auto simp: patched_so_far_def patched_as_recorded_def split: if_splits)
qed

interpretation confirmed: item_audit "confirmation_item P s"
  "\<lambda>item. \<exists>command cwd. executed_command item = Inr (command, cwd) \<and> confirmation_command P s item cwd command"
  for P s
  by unfold_locales (auto simp: confirmation_item_def outcome split_beta)

interpretation approved: item_audit "approved_item P s"
  "\<lambda>item. \<exists>command cwd. executed_command item = Inr (command, cwd)
     \<and> decide_command_approval P s (command_request cwd command) = Accept"
  for P s
  by unfold_locales (auto simp: approved_item_def outcome split_beta)

definition commands_satisfy :: "(json \<Rightarrow> string \<Rightarrow> string \<Rightarrow> bool) \<Rightarrow> json list \<Rightarrow> bool" where
  "commands_satisfy good items \<longleftrightarrow>
     (\<forall>item \<in> set items. item_type item = Some ''commandExecution'' \<longrightarrow>
        (\<exists>cwd command. str_field item ''cwd'' = Some cwd \<and> str_field item ''command'' = Some command
           \<and> good item cwd command))"

text \<open>
  C27: The result of an integration is used only after this audit of its turn. Without a recorded patch the
  turn has no tool call, and every command it executed is one the policy accepts. With a recorded patch
  and tool calls, every call is the patch tool of the participant with this run and this request, the
  last call is the one that completed, its patch has the recorded hash, all calls before it failed, the
  other commands succeeded under the policy or are finished queries, and nothing is executed after the
  final answer. With a recorded patch and no tool call there is an archived attempt, and every
  command is a successful query.
\<close>

theorem integration_turn_audited:
  assumes "verify_integration_execution_items T s turn request_hash recorded archived = Inr ()"
  shows "\<exists>items. array_field turn ''items'' = Some items \<and>
    (case recorded of
       None \<Rightarrow> \<not> list_ex is_call items
         \<and> commands_satisfy (\<lambda>item cwd command.
              decide_command_approval (tl_policy T) s (command_request cwd command) = Accept) items
     | Some patch_hash \<Rightarrow>
         if list_ex is_call items then patched_as_recorded T s request_hash patch_hash False items
         else archived \<and> commands_satisfy (\<lambda>item cwd command. completed_with_zero item
              \<and> is_retry_safe_read_only_integration_command (tl_policy T) s cwd command) items)"
proof -
  obtain items where items: "array_field turn ''items'' = Some items"
    using assms by (auto simp: verify_integration_execution_items_def command_execution_items_def outcome)
  then have calls: "mcp_calls turn \<noteq> [] \<longleftrightarrow> list_ex is_call items"
    unfolding mcp_calls_def by (simp add: is_call_def list_ex_iff filter_empty_conv del: array_field_Some)
  note d = verify_integration_execution_items_def command_execution_items_def items calls outcome
  have commands: "commands_satisfy good items"
    if "list_all (\<lambda>item. \<exists>command cwd. executed_command item = Inr (command, cwd) \<and> good item cwd command)
      (filter (\<lambda>item. item_type item = Some ''commandExecution'') items)" for good
    using that by (fastforce simp: commands_satisfy_def executed_command_def outcome list_all_iff)
  show ?thesis
  proof (cases recorded)
    case None
    with assms have "\<not> list_ex is_call items"
      "scan (approved_item (tl_policy T) s) () (filter (\<lambda>item. item_type item = Some ''commandExecution'') items) = Inr ()"
      by (auto simp: d split: if_splits)
    with None items commands [OF approved.all_permitted] show ?thesis by simp
  next
    case (Some p)
    show ?thesis
    proof (cases "list_ex is_call items")
      case True
      with assms Some have "recoverable_integration_turn_blocker T s turn request_hash p False = None"
        by (auto simp: d)
      from recoverable_integration_turn [OF this] items True Some show ?thesis by auto
    next
      case False
      with assms Some have "archived"
        "scan (confirmation_item (tl_policy T) s) () (filter (\<lambda>item. item_type item = Some ''commandExecution'') items) = Inr ()"
        by (auto simp: d split: if_splits)
      with Some False items commands [OF confirmed.all_permitted] show ?thesis
        by (simp add: confirmation_command_def)
    qed
  qed
qed

definition example_turn_libs :: turn_libs where
  "example_turn_libs = \<lparr>tl_core = example_libs, tl_policy = example_policy, tl_parse = (\<lambda>_. Inl ''''),
     tl_print = (\<lambda>_. ''''), tl_pretty = (\<lambda>_. ''''), tl_debug = id, tl_library_text = id\<rparr>"

definition example_patch_call :: "string \<Rightarrow> json \<Rightarrow> json" where
  "example_patch_call word result = json_object
     [(''type'', JStr ''mcpToolCall''), (''server'', JStr PARTICIPANT_MCP_SERVER), (''pluginId'', JNull),
      (''tool'', JStr PARTICIPANT_PATCH_TOOL), (''status'', JStr word), (''result'', result),
      (''arguments'', json_object
         [(''run_id'', JStr ''id''), (''request_hash'', JStr ''h''), (''patch'', JStr ''+'')])]"

definition example_answer :: json where
  "example_answer = json_object [(''type'', JStr ''agentMessage''), (''phase'', JStr ''final_answer'')]"

definition example_turn :: "json list \<Rightarrow> json" where
  "example_turn items = json_object [(''items'', JArr items)]"

theorem integration_turn_audited_witness:
  "\<exists>items. array_field (example_turn [example_patch_call ''completed'' JNull, example_answer]) ''items'' = Some items
     \<and> patched_as_recorded example_turn_libs (new_run example_facts) ''h'' example_digest False items"
proof -
  let ?turn = "example_turn [example_patch_call ''completed'' JNull, example_answer]"
  have "verify_integration_execution_items example_turn_libs (new_run example_facts) ?turn ''h''
      (Some example_digest) False = Inr ()"
    by code_simp
  from integration_turn_audited [OF this] show ?thesis by (auto split: if_splits)
qed

subsection \<open>A rejected patch\<close>

definition surface :: "json \<Rightarrow> string" where
  "surface item = (case str_field item ''server'' of Some t \<Rightarrow> t | None \<Rightarrow> [])"

definition rejected_so_far :: "turn_libs \<Rightarrow> run_state \<Rightarrow> string \<Rightarrow> json list \<Rightarrow> rejected_patch \<Rightarrow> bool" where
  "rejected_so_far T s h xs st \<longleftrightarrow>
     list_all (\<lambda>item. inert item \<or> integration_command (tl_policy T) s item
                 \<or> patch_call (tl_core T) s h True item) xs
     \<and> rp_final_agent_seen st = list_ex final_message xs \<and> quiet_after_answer xs
     \<and> rp_calls st = length (filter is_call xs) \<and> rp_calls st \<le> 2
     \<and> list_all (\<lambda>call. patch_rejection call \<and> rp_hash st = Some (patch_hash_of (tl_core T) call)) (filter is_call xs)
     \<and> (rp_hash st = None \<longleftrightarrow> filter is_call xs = [])
     \<and> rp_surfaces st = surface ` set (filter is_call xs) \<and> distinct (map surface (filter is_call xs))"

lemma rejected_patch_call_cases:
  assumes "rejected_patch_call T s h st item = Inr st'"
  shows "controlled_patch_mcp_identity_blocker_for_recovery (tl_core T) s item h True = None
    \<and> patch_rejection item \<and> surface item \<notin> rp_surfaces st \<and> rp_calls st < 2
    \<and> (rp_hash st = None \<or> rp_hash st = Some (patch_hash_of (tl_core T) item))
    \<and> st' = st\<lparr>rp_hash := Some (patch_hash_of (tl_core T) item),
        rp_surfaces := insert (surface item) (rp_surfaces st), rp_calls := rp_calls st + 1\<rparr>"
  using assms unfolding rejected_patch_call_def surface_def [symmetric]
  by (auto simp: outcome Let_def recoverable_controlled_patch_mcp_identity_blocker_def
      split: option.splits if_splits)

interpretation rejected: scan_invariant "rejected_patch_step T s h" "rejected_so_far T s h" for T s h
proof
  fix xs st x st'
  assume I: "rejected_so_far T s h xs st" and step: "rejected_patch_step T s h st x = Inr st'"
  from step [unfolded rejected_patch_step_def] show "rejected_so_far T s h (xs @ [x]) st'"
  proof (cases rule: executing_step_cases)
    case message
    with I show ?thesis by (auto simp: rejected_so_far_def quiet_snoc)
  next
    case command
    with I show ?thesis by (auto simp: rejected_so_far_def quiet_snoc)
  next
    case call
    with rejected_patch_call_cases [OF call(4)] I patch_identity_permits [of x "tl_core T" s h True]
    show ?thesis by (auto simp: rejected_so_far_def quiet_snoc is_call_def)
  qed
qed

text \<open>
  A turn whose patch was rejected changed nothing by the patch tool. If the audit has no blocker, then
  the turn called the tool once or twice, each time for this run and request, with the same patch and
  over another server; every call failed with PATCH_NOT_AUTHORIZED; and nothing was executed after the
  final answer, which exists.
\<close>

theorem rejected_patch_turn:
  assumes "failed_patch_not_authorized_turn_blocker T s turn h = None"
  shows "\<exists>items calls. array_field turn ''items'' = Some items \<and> calls = filter is_call items
    \<and> length calls \<in> {1, 2} \<and> distinct (map surface calls)
    \<and> (\<exists>patch_hash. list_all (\<lambda>call. patch_call (tl_core T) s h True call \<and> patch_rejection call
          \<and> patch_hash_of (tl_core T) call = patch_hash) calls)
    \<and> list_ex final_message items \<and> quiet_after_answer items"
proof -
  let ?init = "\<lparr>rp_calls = 0, rp_hash = None, rp_surfaces = {}, rp_final_agent_seen = False\<rparr>"
  obtain items st where i: "array_field turn ''items'' = Some items"
    "scan (rejected_patch_step T s h) ?init items = Inr st" "rp_calls st \<noteq> 0" "rp_final_agent_seen st"
    using assms by (auto simp: failed_patch_not_authorized_turn_blocker_def outcome)
  moreover have "rejected_so_far T s h [] ?init" by (simp add: rejected_so_far_def)
  ultimately have r: "rejected_so_far T s h items st" by (blast intro: rejected.scanned_all)
  then obtain p where p: "rp_hash st = Some p" using i(3) by (auto simp: rejected_so_far_def)
  have "patch_call (tl_core T) s h True call" if "call \<in> set items" "is_call call" for call
    using r that by (auto simp: rejected_so_far_def list_all_iff inert_def is_call_def
        integration_command_def integration_query_def finished_query_def runs_command_def Let_def)
  then have "list_all (\<lambda>call. patch_call (tl_core T) s h True call \<and> patch_rejection call
      \<and> patch_hash_of (tl_core T) call = p) (filter is_call items)"
    using r p by (auto simp: rejected_so_far_def list_all_iff)
  moreover have "rp_calls st = length (filter is_call items)" "rp_calls st \<le> 2"
    using r by (simp_all add: rejected_so_far_def)
  then have "length (filter is_call items) = 1 \<or> length (filter is_call items) = 2" using i(3) by linarith
  then have "length (filter is_call items) \<in> {1, 2}" by blast
  ultimately show ?thesis using r i by (auto simp: rejected_so_far_def)
qed

theorem rejected_patch_turn_witness:
  "\<exists>items calls. array_field (example_turn [example_patch_call ''failed'' (json_object
       [(''structuredContent'', json_object [(''ok'', JBool False),
          (''error'', json_object [(''code'', JStr ''PATCH_NOT_AUTHORIZED'')])])]), example_answer]) ''items'' = Some items
     \<and> calls = filter is_call items \<and> length calls \<in> {1, 2} \<and> quiet_after_answer items"
proof -
  let ?turn = "example_turn [example_patch_call ''failed'' (json_object
       [(''structuredContent'', json_object [(''ok'', JBool False),
          (''error'', json_object [(''code'', JStr ''PATCH_NOT_AUTHORIZED'')])])]), example_answer]"
  have "failed_patch_not_authorized_turn_blocker example_turn_libs (new_run example_facts) ?turn ''h'' = None"
    by code_simp
  from rejected_patch_turn [OF this] show ?thesis by blast
qed

end
