(* ===== verification/Store_Tables.thy ===== *)
theory Store_Tables
  imports Turn_Evidence Observation Run_Machine
begin

text \<open>
  The tables of \<open>crates/daemon/src/store.rs\<close> and the helpers its operations share. A table is the list
  of its rows in the order of their ids. A column with JSON text holds the value: what is written is
  read back as it was. A transaction is a function of the store that returns the error, and then
  nothing is committed, or the answer and the committed store. \<open>now\<close> is the time of the clock;
  \<open>lossy\<close> is \<open>to_string_lossy\<close> and \<open>display\<close> of a path. Failures of SQLite itself are not modelled,
  except violations of the constraints of the tables.
\<close>

definition LEGACY_PARTICIPANT_CAPABILITY_GENERATION :: string where
  "LEGACY_PARTICIPANT_CAPABILITY_GENERATION = ''participant-mcp-v1''"

definition PARTICIPANT_CAPABILITY_GENERATION :: string where
  "PARTICIPANT_CAPABILITY_GENERATION = ''participant-mcp-v2''"

datatype store_error =
    ActiveRunExists string
  | RunNotFound string
  | PendingSendNotFound string
  | TerminalTurnNotRetryable string
  | VerificationExecutionUncertain string
  | DatabaseConstraint
  | SerializationError
  | IncompatibleState string

fun store_error_code :: "store_error \<Rightarrow> string" where
  "store_error_code (ActiveRunExists _) = ''ACTIVE_RUN_EXISTS''"
| "store_error_code (RunNotFound _) = ''RUN_NOT_FOUND''"
| "store_error_code (PendingSendNotFound _) = ''PENDING_SEND_NOT_FOUND''"
| "store_error_code (TerminalTurnNotRetryable _) = ''TERMINAL_TURN_NOT_RETRYABLE''"
| "store_error_code (VerificationExecutionUncertain _) = ''VERIFICATION_EXECUTION_UNCERTAIN''"
| "store_error_code DatabaseConstraint = ''DATABASE_ERROR''"
| "store_error_code SerializationError = ''SERIALIZATION_ERROR''"
| "store_error_code (IncompatibleState _) = ''INCOMPATIBLE_STATE''"

subsection \<open>Rows\<close>

datatype delivery = PENDING | SENT | ACCEPTED

datatype binding_mode = Direct | EphemeralFork

record run_row =
  rn_id :: string
  rn_state :: run_state
  rn_primary_thread :: string
  rn_reviewer_thread :: string
  rn_updated_at :: int

record turn_row =
  tn_id :: nat
  tn_run :: string
  tn_role :: string
  tn_phase :: string
  tn_round :: "32 word"
  tn_hash :: string
  tn_response :: "string option"
  tn_delivery :: delivery
  tn_thread :: "string option"
  tn_turn :: "string option"
  tn_capability :: "string option"
  tn_binding :: "32 word option"
  tn_intent :: "int option"

record attempt_row =
  at_record :: nat
  at_run :: string
  at_hash :: string
  at_thread :: string
  at_turn :: string
  at_status :: string

datatype lifecycle = STARTED | COMPLETED

record item_row =
  im_record :: nat
  im_run :: string
  im_thread :: string
  im_turn :: string
  im_item :: string
  im_type :: string
  im_lifecycle :: lifecycle
  im_json :: json

record completion_row =
  cp_record :: nat
  cp_run :: string
  cp_thread :: string
  cp_turn :: string
  cp_json :: json

record patch_row =
  pa_run :: string
  pa_hash :: string
  pa_patch :: string
  pa_source :: "string option"
  pa_effective :: "string option"
  pa_binding :: "32 word option"

record verification_command_record =
  vc_run :: string
  vc_hash :: string
  vc_turn :: string
  vc_item :: string
  vc_index :: "32 word"
  vc_command :: string
  vc_cwd :: string
  vc_exit_code :: "32 word option"
  vc_stdout :: "string option"
  vc_stderr :: "string option"

record command_row =
  cm_record :: verification_command_record
  cm_status :: lifecycle

record primary_participant_binding =
  bi_run :: string
  bi_source :: string
  bi_effective :: string
  bi_mode :: binding_mode
  bi_generation :: "32 word"
  bi_server :: string
  bi_history :: "string option"
  bi_created_at :: int
  bi_verified_at :: int

record binding_row =
  br_binding :: primary_participant_binding
  br_active :: bool

record transition_row =
  tr_run :: string
  tr_from :: phase
  tr_to :: phase
  tr_status :: run_status
  tr_reason :: "string option"
  tr_response :: "string option"

record lock_row =
  lk_repository :: string
  lk_run :: string
  lk_worktree :: string

record event_row =
  ev_id :: int
  ev_run :: string
  ev_event :: run_progress_event

record store =
  st_root :: string
  st_runs :: "run_row list"
  st_turns :: "turn_row list"
  st_attempts :: "attempt_row list"
  st_items :: "item_row list"
  st_completions :: "completion_row list"
  st_archived :: "completion_row list"
  st_patches :: "patch_row list"
  st_commands :: "command_row list"
  st_bindings :: "binding_row list"
  st_transitions :: "transition_row list"
  st_locks :: "lock_row list"
  st_events :: "event_row list"

type_synonym 'a transaction = "store_error + 'a \<times> store"

definition empty_store :: "string \<Rightarrow> store" where
  "empty_store root = \<lparr>st_root = root, st_runs = [], st_turns = [], st_attempts = [], st_items = [],
     st_completions = [], st_archived = [], st_patches = [], st_commands = [], st_bindings = [],
     st_transitions = [], st_locks = [], st_events = []\<rparr>"

text \<open>\<open>ORDER BY id DESC LIMIT 1\<close>\<close>

definition last_row :: "('a \<Rightarrow> bool) \<Rightarrow> 'a list \<Rightarrow> 'a option" where
  "last_row p rows = find p (rev rows)"

text \<open>An \<open>UPDATE\<close>, with the number of rows it changes.\<close>

definition update_rows :: "('a \<Rightarrow> bool) \<Rightarrow> ('a \<Rightarrow> 'a) \<Rightarrow> 'a list \<Rightarrow> 'a list" where
  "update_rows p f rows = map (\<lambda>r. if p r then f r else r) rows"

definition count_rows :: "('a \<Rightarrow> bool) \<Rightarrow> 'a list \<Rightarrow> nat" where
  "count_rows p rows = length (filter p rows)"

text \<open>\<open>Option\<close> by cases, for evaluation.\<close>

lemma option_relations_code [code]:
  "pred_option p None = True" "pred_option p (Some x) = p x"
  "rel_option r None None = True" "rel_option r None (Some y) = False"
  "rel_option r (Some x) None = False" "rel_option r (Some x) (Some y) = r x y"
  by simp_all

subsection \<open>Runs\<close>

text \<open>Equality of \<open>RunState\<close>, where paths are compared by their components.\<close>

definition same_facts :: "run_facts \<Rightarrow> run_facts \<Rightarrow> bool" where
  "same_facts f g \<longleftrightarrow>
     path_eq (rf_primary_worktree f) (rf_primary_worktree g)
     \<and> path_eq (rf_reviewer_worktree f) (rf_reviewer_worktree g)
     \<and> path_eq (rf_git_common_dir f) (rf_git_common_dir g)
     \<and> f\<lparr>rf_primary_worktree := rf_primary_worktree g, rf_reviewer_worktree := rf_reviewer_worktree g,
         rf_git_common_dir := rf_git_common_dir g\<rparr> = g"

definition same_state :: "run_state \<Rightarrow> run_state \<Rightarrow> bool" where
  "same_state a b \<longleftrightarrow>
     same_facts (facts a) (facts b)
     \<and> rel_option path_eq (verification_worktree a) (verification_worktree b)
     \<and> list_all2 evidence_eq (test_evidence a) (test_evidence b)
     \<and> rel_option accepted_result_eq (accepted_result a) (accepted_result b)
     \<and> a\<lparr>facts := facts b, verification_worktree := verification_worktree b,
         test_evidence := test_evidence b, accepted_result := accepted_result b\<rparr> = b"

fun is_terminal :: "run_status \<Rightarrow> bool" where
  "is_terminal SAccepted = True"
| "is_terminal SBlocked = True"
| "is_terminal SCancelled = True"
| "is_terminal SIncompatibleCodex = True"
| "is_terminal _ = False"

text \<open>\<open>serde_json\<close> cannot write a path that is not UTF-8.\<close>

definition evidence_utf8 :: "test_evidence list \<Rightarrow> bool" where
  "evidence_utf8 ev = list_all (\<lambda>e. utf8 (te_cwd e)) ev"

definition paths_utf8 :: "run_state \<Rightarrow> bool" where
  "paths_utf8 s \<longleftrightarrow>
     utf8 (rf_primary_worktree (facts s)) \<and> utf8 (rf_reviewer_worktree (facts s))
     \<and> utf8 (rf_git_common_dir (facts s)) \<and> pred_option utf8 (verification_worktree s)
     \<and> evidence_utf8 (test_evidence s) \<and> pred_option (\<lambda>r. evidence_utf8 (ar_tests r)) (accepted_result s)"

fun state_error_text :: "state_error \<Rightarrow> string" where
  "state_error_text (StateError code detail) = code @ '': '' @ detail"

definition serialize_state :: "run_state \<Rightarrow> store_error + run_state" where
  "serialize_state s =
     attempt (map_err (\<lambda>err. IncompatibleState (state_error_text err)) (validate_persisted s)) (\<lambda>_.
     attempt (ensure (paths_utf8 s) SerializationError) (\<lambda>_. Inr s))"

definition deserialize_state :: "run_state \<Rightarrow> store_error + run_state" where
  "deserialize_state s =
     attempt (ensure (schema_version s = RUN_STATE_SCHEMA_VERSION)
                (IncompatibleState (''persisted state schema Some('' @ decimal (unat (schema_version s))
                   @ '') is unsupported''))) (\<lambda>_.
     attempt (map_err (\<lambda>err. IncompatibleState (state_error_text err)) (validate_persisted s)) (\<lambda>_. Inr s))"

definition run_row_of :: "store \<Rightarrow> string \<Rightarrow> run_row option" where
  "run_row_of st run_id = find (\<lambda>r. rn_id r = run_id) (st_runs st)"

definition ensure_run_exists :: "store \<Rightarrow> string \<Rightarrow> store_error + unit" where
  "ensure_run_exists st run_id = ensure (run_row_of st run_id \<noteq> None) (RunNotFound run_id)"

definition stored_state :: "store \<Rightarrow> string \<Rightarrow> store_error + run_state" where
  "stored_state st run_id =
     attempt (ok_or (RunNotFound run_id) (run_row_of st run_id)) (\<lambda>row. deserialize_state (rn_state row))"

definition insert_run_event :: "libs \<Rightarrow> int \<Rightarrow> run_state option \<Rightarrow> run_state \<Rightarrow> store \<Rightarrow> store" where
  "insert_run_event L now previous s st =
     st\<lparr>st_events := st_events st @ [\<lparr>ev_id = int (length (st_events st)) + 1,
          ev_run = uuid_text L (rf_run_id (facts s)), ev_event = progress_event L previous s now\<rparr>]\<rparr>"

definition update_run_row :: "libs \<Rightarrow> int \<Rightarrow> string \<Rightarrow> run_state \<Rightarrow> store \<Rightarrow> store_error + store" where
  "update_run_row L now run_id s st =
     attempt (stored_state st run_id) (\<lambda>previous.
     attempt (serialize_state s) (\<lambda>state_json.
     let st' = st\<lparr>st_runs := update_rows (\<lambda>r. rn_id r = run_id)
                    (\<lambda>r. r\<lparr>rn_state := state_json, rn_updated_at := now\<rparr>) (st_runs st)\<rparr>
     in Inr (if same_state previous s then st' else insert_run_event L now (Some previous) s st')))"

text \<open>A lock is unique by its repository, by its run and by its primary worktree.\<close>

definition acquire_lock :: "(string \<Rightarrow> string) \<Rightarrow> string \<Rightarrow> run_facts \<Rightarrow> store \<Rightarrow> store_error + store" where
  "acquire_lock lossy run_id f st =
     (let lock = \<lparr>lk_repository = lossy (rf_git_common_dir f), lk_run = run_id,
                  lk_worktree = lossy (rf_primary_worktree f)\<rparr>
      in if list_ex (\<lambda>l. lk_repository l = lk_repository lock \<or> lk_run l = lk_run lock
                        \<or> lk_worktree l = lk_worktree lock) (st_locks st)
         then Inl (ActiveRunExists (''repository '' @ lossy (rf_git_common_dir f) @ '' already has an active run''))
         else Inr (st\<lparr>st_locks := st_locks st @ [lock]\<rparr>))"

definition release_lock :: "string \<Rightarrow> store \<Rightarrow> store" where
  "release_lock run_id st = st\<lparr>st_locks := filter (\<lambda>l. lk_run l \<noteq> run_id) (st_locks st)\<rparr>"

definition insert_transition ::
  "string \<Rightarrow> phase \<Rightarrow> run_state \<Rightarrow> string option \<Rightarrow> string option \<Rightarrow> store \<Rightarrow> store" where
  "insert_transition run_id from s reason response st =
     st\<lparr>st_transitions := st_transitions st @ [\<lparr>tr_run = run_id, tr_from = from, tr_to = phase s,
          tr_status = status s, tr_reason = reason, tr_response = response\<rparr>]\<rparr>"

subsection \<open>Turns\<close>

definition open_turn :: "string \<Rightarrow> turn_row \<Rightarrow> bool" where
  "open_turn run_id t \<longleftrightarrow> tn_run t = run_id \<and> tn_delivery t \<in> {PENDING, SENT}"

definition pending_row :: "store \<Rightarrow> string \<Rightarrow> turn_row option" where
  "pending_row st run_id = last_row (open_turn run_id) (st_turns st)"

definition open_turn_count :: "store \<Rightarrow> string \<Rightarrow> nat" where
  "open_turn_count st run_id = count_rows (open_turn run_id) (st_turns st)"

definition active_turn_record_id :: "store \<Rightarrow> string \<Rightarrow> string \<Rightarrow> string \<Rightarrow> store_error + nat" where
  "active_turn_record_id st run_id thread_id turn_id =
     attempt (ok_or (PendingSendNotFound (''run '' @ run_id @ '' has no active turn '' @ turn_id @ '' on task ''
                @ thread_id))
       (find (\<lambda>t. tn_run t = run_id \<and> tn_thread t = Some thread_id \<and> tn_turn t = Some turn_id
                  \<and> tn_delivery t = SENT) (st_turns st)))
       (\<lambda>t. Inr (tn_id t))"

definition reset_turn :: "turn_row \<Rightarrow> turn_row" where
  "reset_turn t = t\<lparr>tn_delivery := PENDING, tn_thread := None, tn_turn := None, tn_response := None,
     tn_capability := Some PARTICIPANT_CAPABILITY_GENERATION, tn_intent := None\<rparr>"

text \<open>
  An attempt is unique by its turn record and its turn, an archived completion by its record and turn
  and by its run and turn.
\<close>

definition archive_and_reset_turn ::
  "string \<Rightarrow> string \<Rightarrow> string \<Rightarrow> string \<Rightarrow> delivery \<Rightarrow> string \<Rightarrow> store \<Rightarrow> store_error + store" where
  "archive_and_reset_turn run_id message_hash thread_id turn_id delivery_state observed_status st =
     attempt (ok_or (TerminalTurnNotRetryable (''turn '' @ turn_id
                @ '' is not the persisted pending attempt for run '' @ run_id))
       (find (\<lambda>t. tn_run t = run_id \<and> tn_hash t = message_hash \<and> tn_delivery t = delivery_state
                  \<and> tn_thread t = Some thread_id \<and> tn_turn t = Some turn_id) (st_turns st))) (\<lambda>t.
     attempt (ensure (\<not> list_ex (\<lambda>a. at_record a = tn_id t \<and> at_turn a = turn_id) (st_attempts st))
                DatabaseConstraint) (\<lambda>_.
     let moved = filter (\<lambda>c. cp_record c = tn_id t \<and> cp_turn c = turn_id) (st_completions st) in
     attempt (ensure (\<not> list_ex (\<lambda>c. list_ex (\<lambda>a. cp_turn a = cp_turn c
                  \<and> (cp_record a = cp_record c \<or> cp_run a = cp_run c)) (st_archived st)) moved)
                DatabaseConstraint) (\<lambda>_.
     Inr (st\<lparr>st_attempts := st_attempts st @ [\<lparr>at_record = tn_id t, at_run = run_id, at_hash = message_hash,
               at_thread = thread_id, at_turn = turn_id, at_status = observed_status\<rparr>],
             st_archived := st_archived st @ moved,
             st_completions := filter (\<lambda>c. \<not> (cp_record c = tn_id t \<and> cp_turn c = turn_id)) (st_completions st),
             st_turns := update_rows (\<lambda>r. tn_id r = tn_id t \<and> tn_delivery r = delivery_state
                 \<and> tn_thread r = Some thread_id \<and> tn_turn r = Some turn_id) reset_turn (st_turns st)\<rparr>))))"

subsection \<open>Bindings\<close>

fun as_database_value :: "binding_mode \<Rightarrow> string" where
  "as_database_value Direct = ''DIRECT''"
| "as_database_value EphemeralFork = ''EPHEMERAL_FORK''"

definition query_active_primary_binding :: "store \<Rightarrow> string \<Rightarrow> primary_participant_binding option" where
  "query_active_primary_binding st run_id =
     map_option br_binding (find (\<lambda>b. bi_run (br_binding b) = run_id \<and> br_active b) (st_bindings st))"

definition query_primary_binding :: "store \<Rightarrow> string \<Rightarrow> 32 word \<Rightarrow> primary_participant_binding option" where
  "query_primary_binding st run_id generation =
     map_option br_binding
       (find (\<lambda>b. bi_run (br_binding b) = run_id \<and> bi_generation (br_binding b) = generation) (st_bindings st))"

definition recorded_primary_thread_matches ::
  "store \<Rightarrow> string \<Rightarrow> string \<Rightarrow> string \<Rightarrow> 32 word option \<Rightarrow> bool" where
  "recorded_primary_thread_matches st run_id frozen_source recorded_thread generation =
     (case Option.bind generation (query_primary_binding st run_id) of
        None \<Rightarrow> False
      | Some b \<Rightarrow> bi_source b = frozen_source \<and> bi_effective b = recorded_thread
          \<and> bi_server b = ''worktreeMergeConsensusParticipant'')"

text \<open>\<open>COALESCE(MAX(generation), 0) + 1\<close>, read as \<open>u32\<close>.\<close>

definition next_generation :: "store \<Rightarrow> string \<Rightarrow> store_error + 32 word" where
  "next_generation st run_id =
     (let used = map (\<lambda>b. unat (bi_generation (br_binding b)))
                   (filter (\<lambda>b. bi_run (br_binding b) = run_id) (st_bindings st));
          n = fold max used 0 + 1
      in if n < 2 ^ 32 then Inr (of_nat n) else Inl DatabaseConstraint)"

end
