(* ===== verification/Store_Runs.thy ===== *)
theory Store_Runs
  imports Store_Tables
begin

text \<open>
  The operations of \<open>crates/daemon/src/store.rs\<close> that store the state of a run: its start, every later
  save, the acceptance of a response, and the reactivations of a blocked run. A run has the lock of its
  repository from its start until it reaches a terminal status, and again from a reactivation.
\<close>

record store_env =
  se_libs :: libs
  se_lossy :: "string \<Rightarrow> string"

abbreviation not_retryable_turn :: "string \<Rightarrow> store_error" where
  "not_retryable_turn t \<equiv> TerminalTurnNotRetryable t"

definition run_text :: "store_env \<Rightarrow> run_state \<Rightarrow> string" where
  "run_text E s = uuid_text (se_libs E) (rf_run_id (facts s))"

subsection \<open>Start, load and save\<close>

definition insert_run :: "store_env \<Rightarrow> int \<Rightarrow> run_state \<Rightarrow> store \<Rightarrow> unit transaction" where
  "insert_run E now s st =
     attempt (serialize_state s) (\<lambda>state_json.
     attempt (ensure (run_row_of st (run_text E s) = None) DatabaseConstraint) (\<lambda>_.
     let row = \<lparr>rn_id = run_text E s, rn_state = state_json,
                rn_primary_thread = rf_primary_thread_id (facts s),
                rn_reviewer_thread = rf_reviewer_thread_id (facts s), rn_updated_at = now\<rparr>
     in attempt (acquire_lock (se_lossy E) (run_text E s) (facts s) (st\<lparr>st_runs := st_runs st @ [row]\<rparr>)) (\<lambda>st'.
     Inr ((), insert_run_event (se_libs E) now None s st'))))"

definition load_run :: "store \<Rightarrow> string \<Rightarrow> store_error + run_state option" where
  "load_run st run_id =
     (case run_row_of st run_id of
        None \<Rightarrow> Inr None
      | Some row \<Rightarrow> attempt (deserialize_state (rn_state row)) (\<lambda>s. Inr (Some s)))"

definition release_if_terminal :: "string \<Rightarrow> run_state \<Rightarrow> store \<Rightarrow> store" where
  "release_if_terminal run_id s st = (if is_terminal (status s) then release_lock run_id st else st)"

definition save_state :: "store_env \<Rightarrow> int \<Rightarrow> run_state \<Rightarrow> store \<Rightarrow> unit transaction" where
  "save_state E now s st =
     attempt (ensure_run_exists st (run_text E s)) (\<lambda>_.
     attempt (update_run_row (se_libs E) now (run_text E s) s st) (\<lambda>st'.
     Inr ((), release_if_terminal (run_text E s) s st')))"

definition accept_turn :: "string \<Rightarrow> turn_row \<Rightarrow> turn_row" where
  "accept_turn response_hash t = t\<lparr>tn_delivery := ACCEPTED, tn_response := Some response_hash\<rparr>"

definition accept_response_and_advance ::
  "store_env \<Rightarrow> int \<Rightarrow> string \<Rightarrow> string \<Rightarrow> run_state \<Rightarrow> store \<Rightarrow> unit transaction" where
  "accept_response_and_advance E now run_id response_hash s st =
     attempt (ensure (run_text E s = run_id) (RunNotFound run_id)) (\<lambda>_.
     attempt (stored_state st run_id) (\<lambda>current.
     attempt (ok_or (PendingSendNotFound run_id) (pending_row st run_id)) (\<lambda>pending.
     attempt (update_run_row (se_libs E) now run_id s
       (st\<lparr>st_turns := update_rows (\<lambda>t. tn_id t = tn_id pending \<and> tn_delivery t \<in> {PENDING, SENT})
              (accept_turn response_hash) (st_turns st)\<rparr>)) (\<lambda>st'.
     Inr ((), release_if_terminal run_id s
       (insert_transition run_id (phase current) s (reason_code s) (Some response_hash) st'))))))"

subsection \<open>Events\<close>

definition latest_run_event_cursor :: "store \<Rightarrow> string \<Rightarrow> store_error + int" where
  "latest_run_event_cursor st run_id =
     (let cursor = fold max (map ev_id (filter (\<lambda>v. ev_run v = run_id) (st_events st))) 0
      in if cursor = 0 then attempt (ensure_run_exists st run_id) (\<lambda>_. Inr cursor) else Inr cursor)"

definition run_events_after :: "store \<Rightarrow> string \<Rightarrow> int \<Rightarrow> nat \<Rightarrow> store_error + run_progress_event list" where
  "run_events_after st run_id after_cursor limit =
     attempt (ensure_run_exists st run_id) (\<lambda>_.
     Inr (map (\<lambda>v. (ev_event v)\<lparr>pe_cursor := ev_id v\<rparr>)
       (take (max limit 1) (filter (\<lambda>v. ev_run v = run_id \<and> after_cursor < ev_id v) (st_events st)))))"

definition stored_public_snapshot :: "store_env \<Rightarrow> store \<Rightarrow> string \<Rightarrow> store_error + public_run_snapshot" where
  "stored_public_snapshot E st run_id =
     attempt (stored_state st run_id) (\<lambda>s.
     Inr (public_snapshot (se_libs E) (se_lossy E) s
       (fold max (map ev_id (filter (\<lambda>v. ev_run v = run_id) (st_events st))) 0)))"

subsection \<open>Reactivation of a blocked run\<close>

text \<open>The common end of the reactivations: the lock, then the turn, then the state.\<close>

definition unchanged_since :: "store \<Rightarrow> string \<Rightarrow> run_state \<Rightarrow> string \<Rightarrow> store_error + unit" where
  "unchanged_since st run_id blocked what =
     attempt (stored_state st run_id) (\<lambda>current.
     ensure (same_state current blocked)
       (not_retryable_turn (''run '' @ run_id @ '' changed while preparing '' @ what)))"

definition reactivated ::
  "store_env \<Rightarrow> int \<Rightarrow> run_state \<Rightarrow> (store \<Rightarrow> store_error + store) \<Rightarrow> store \<Rightarrow> store_error + store" where
  "reactivated E now resumed turn st =
     attempt (acquire_lock (se_lossy E) (run_text E resumed) (facts resumed) st) (\<lambda>st1.
     attempt (turn st1) (\<lambda>st2.
     update_run_row (se_libs E) now (run_text E resumed) resumed st2))"

definition with_transition :: "store_env \<Rightarrow> run_state \<Rightarrow> run_state \<Rightarrow> store_error + store \<Rightarrow> unit transaction" where
  "with_transition E blocked resumed r =
     attempt r (\<lambda>st. Inr ((), insert_transition (run_text E blocked) (phase blocked) resumed None None st))"

definition without_transition :: "store_error + store \<Rightarrow> unit transaction" where
  "without_transition r = attempt r (\<lambda>st. Inr ((), st))"

definition archive_sent ::
  "string \<Rightarrow> string \<Rightarrow> string \<Rightarrow> string \<Rightarrow> string \<Rightarrow> store \<Rightarrow> store_error + store" where
  "archive_sent run_id message_hash thread_id turn_id observed =
     archive_and_reset_turn run_id message_hash thread_id turn_id SENT observed"

definition reactivate_blocked_run_with_completed_turn_retry ::
  "store_env \<Rightarrow> int \<Rightarrow> run_state \<Rightarrow> run_state \<Rightarrow> string \<Rightarrow> string \<Rightarrow> string \<Rightarrow> string \<Rightarrow> store \<Rightarrow> unit transaction" where
  "reactivate_blocked_run_with_completed_turn_retry E now blocked resumed message_hash thread_id turn_id observed st =
     attempt (ensure (status blocked = SBlocked \<and> status resumed = SRunning
                        \<and> same_facts (facts blocked) (facts resumed) \<and> observed = ''completed'')
                (not_retryable_turn ''blocked-run reactivation identity or status is invalid'')) (\<lambda>_.
     attempt (unchanged_since st (run_text E blocked) blocked ''blocked model-response retry'') (\<lambda>_.
     without_transition (reactivated E now resumed
       (archive_sent (run_text E blocked) message_hash thread_id turn_id observed) st)))"

definition diagnosed :: "run_state \<Rightarrow> string \<Rightarrow> next_action \<Rightarrow> bool" where
  "diagnosed s code action \<longleftrightarrow>
     status s = SBlocked \<and> reason_code s = Some code
     \<and> (case last_error s of None \<Rightarrow> False
        | Some d \<Rightarrow> rd_code d = code \<and> rd_action d = action \<and> rd_role d = Some Primary)"

definition reactivate_blocked_run_with_verification_evidence_retry ::
  "store_env \<Rightarrow> int \<Rightarrow> run_state \<Rightarrow> run_state \<Rightarrow> string \<Rightarrow> string \<Rightarrow> string \<Rightarrow> string \<Rightarrow> store \<Rightarrow> unit transaction" where
  "reactivate_blocked_run_with_verification_evidence_retry E now blocked resumed message_hash thread_id turn_id observed st =
     attempt (ensure (diagnosed blocked ''TEST_FAILURE'' RequestPrimaryVerification
                        \<and> status resumed = SRunning \<and> phase resumed = Verify
                        \<and> next_action resumed = RequestPrimaryVerification
                        \<and> same_facts (facts blocked) (facts resumed) \<and> observed = ''completed'')
                (not_retryable_turn ''verification evidence retry identity or status is invalid'')) (\<lambda>_.
     attempt (unchanged_since st (run_text E blocked) blocked ''verification evidence recovery'') (\<lambda>_.
     attempt (ensure (\<not> list_ex (\<lambda>a. at_run a = run_text E blocked \<and> at_hash a = message_hash
                          \<and> at_status a = ''completed-evidence-unavailable'') (st_attempts st))
                (not_retryable_turn ''verification evidence compatibility recovery is limited to one retry'')) (\<lambda>_.
     without_transition (reactivated E now resumed
       (archive_sent (run_text E blocked) message_hash thread_id turn_id ''completed-evidence-unavailable'') st))))"

definition restored :: "next_action run_op \<Rightarrow> run_state \<Rightarrow> run_state \<Rightarrow> bool" where
  "restored retry blocked resumed \<longleftrightarrow>
     is_ok (fst (retry blocked)) \<and> same_state (snd (retry blocked)) resumed"

definition reactivate_blocked_run_with_unattended_verification_retry ::
  "store_env \<Rightarrow> int \<Rightarrow> run_state \<Rightarrow> run_state \<Rightarrow> string \<Rightarrow> string \<Rightarrow> string \<Rightarrow> string \<Rightarrow> store \<Rightarrow> unit transaction" where
  "reactivate_blocked_run_with_unattended_verification_retry E now blocked resumed message_hash thread_id turn_id observed st =
     attempt (ensure (restored retry_blocked_verification_without_execution blocked resumed
                        \<and> thread_id = rf_primary_thread_id (facts blocked) \<and> observed = ''completed'')
                (not_retryable_turn ''unattended verification migration identity or status is invalid'')) (\<lambda>_.
     attempt (unchanged_since st (run_text E blocked) blocked ''unattended verification migration'') (\<lambda>_.
     attempt (ensure
         (count_rows (\<lambda>a. at_run a = run_text E blocked \<and> at_hash a = message_hash
            \<and> at_status a = ''completed-evidence-unavailable'') (st_attempts st) = 1
          \<and> count_rows (\<lambda>a. at_run a = run_text E blocked
              \<and> at_status a = ''completed-unattended-verification-migration'') (st_attempts st) = 0)
         (not_retryable_turn (''unattended verification migration requires one prior evidence ''
            @ ''compatibility retry and no prior migration''))) (\<lambda>_.
     without_transition (reactivated E now resumed
       (archive_sent (run_text E blocked) message_hash thread_id turn_id
          ''completed-unattended-verification-migration'') st))))"

definition reactivate_blocked_run_with_interrupted_forbidden_operation_retry ::
  "store_env \<Rightarrow> int \<Rightarrow> run_state \<Rightarrow> run_state \<Rightarrow> string \<Rightarrow> string \<Rightarrow> string \<Rightarrow> string \<Rightarrow> store \<Rightarrow> unit transaction" where
  "reactivate_blocked_run_with_interrupted_forbidden_operation_retry E now blocked resumed message_hash thread_id turn_id observed st =
     attempt (ensure (diagnosed blocked ''FORBIDDEN_OPERATION'' RequestPrimaryIntegration
                        \<and> status resumed = SRunning \<and> same_facts (facts blocked) (facts resumed)
                        \<and> observed \<in> {''failed'', ''interrupted''})
                (not_retryable_turn ''blocked forbidden-operation retry identity or status is invalid'')) (\<lambda>_.
     attempt (unchanged_since st (run_text E blocked) blocked ''forbidden-operation recovery'') (\<lambda>_.
     with_transition E blocked resumed (reactivated E now resumed
       (archive_sent (run_text E blocked) message_hash thread_id turn_id observed) st)))"

record accepted_turn =
  ac_run :: string
  ac_role :: string
  ac_phase :: string
  ac_round :: "32 word"
  ac_hash :: string
  ac_response :: string
  ac_thread :: string
  ac_turn :: string
  ac_capability :: "string option"
  ac_binding :: "32 word option"

text \<open>The columns read as \<open>String\<close> must not be null.\<close>

definition accepted_of :: "turn_row \<Rightarrow> store_error + accepted_turn" where
  "accepted_of t =
     (case (tn_response t, tn_thread t, tn_turn t) of
        (Some response, Some thread_id, Some turn_id) \<Rightarrow>
          Inr \<lparr>ac_run = tn_run t, ac_role = tn_role t, ac_phase = tn_phase t, ac_round = tn_round t,
               ac_hash = tn_hash t, ac_response = response, ac_thread = thread_id, ac_turn = turn_id,
               ac_capability = tn_capability t, ac_binding = tn_binding t\<rparr>
      | _ \<Rightarrow> Inl DatabaseConstraint)"

definition latest_accepted_turn :: "store \<Rightarrow> string \<Rightarrow> store_error + accepted_turn option" where
  "latest_accepted_turn st run_id =
     (case last_row (\<lambda>t. tn_run t = run_id \<and> tn_delivery t = ACCEPTED) (st_turns st) of
        None \<Rightarrow> Inr None
      | Some t \<Rightarrow> attempt (accepted_of t) (\<lambda>a. Inr (Some a)))"

definition accepted_for :: "store_env \<Rightarrow> run_state \<Rightarrow> accepted_turn \<Rightarrow> string \<Rightarrow> bool" where
  "accepted_for E blocked accepted phase_text \<longleftrightarrow>
     ac_run accepted = run_text E blocked \<and> ac_role accepted = ''PRIMARY'' \<and> ac_phase accepted = phase_text
     \<and> ac_round accepted = round blocked"

definition archive_accepted :: "string \<Rightarrow> accepted_turn \<Rightarrow> string \<Rightarrow> store \<Rightarrow> store_error + store" where
  "archive_accepted run_id accepted observed =
     archive_and_reset_turn run_id (ac_hash accepted) (ac_thread accepted) (ac_turn accepted) ACCEPTED observed"

definition bound_primary :: "store_env \<Rightarrow> run_state \<Rightarrow> accepted_turn \<Rightarrow> store \<Rightarrow> bool" where
  "bound_primary E blocked accepted st =
     recorded_primary_thread_matches st (run_text E blocked) (rf_primary_thread_id (facts blocked))
       (ac_thread accepted) (ac_binding accepted)"

definition reactivate_blocked_run_with_accepted_execution_tool_retry ::
  "store_env \<Rightarrow> int \<Rightarrow> run_state \<Rightarrow> run_state \<Rightarrow> accepted_turn \<Rightarrow> string \<Rightarrow> store \<Rightarrow> unit transaction" where
  "reactivate_blocked_run_with_accepted_execution_tool_retry E now blocked resumed accepted observed st =
     attempt (ensure (status blocked = SBlocked \<and> reason_code blocked = Some ''EXECUTION_TOOL_UNAVAILABLE''
                        \<and> status resumed = SRunning \<and> same_facts (facts blocked) (facts resumed)
                        \<and> observed = ''completed'')
                (not_retryable_turn ''blocked execution-tool retry identity or status is invalid'')) (\<lambda>_.
     attempt (ensure (accepted_for E blocked accepted ''INTEGRATE'')
                (not_retryable_turn
                   ''accepted execution-tool blocker does not match the frozen integration action'')) (\<lambda>_.
     attempt (ensure (bound_primary E blocked accepted st)
                (not_retryable_turn
                   ''accepted execution-tool blocker does not match its historical Primary binding'')) (\<lambda>_.
     attempt (unchanged_since st (run_text E blocked) blocked ''execution-tool recovery'') (\<lambda>_.
     with_transition E blocked resumed
       (reactivated E now resumed (archive_accepted (run_text E blocked) accepted observed) st)))))"

definition reactivate_blocked_run_with_accepted_verification_environment_retry ::
  "store_env \<Rightarrow> int \<Rightarrow> run_state \<Rightarrow> run_state \<Rightarrow> accepted_turn \<Rightarrow> string \<Rightarrow> store \<Rightarrow> unit transaction" where
  "reactivate_blocked_run_with_accepted_verification_environment_retry E now blocked resumed accepted observed st =
     attempt (ensure (status blocked = SBlocked \<and> reason_code blocked = Some ''CARGO_UNAVAILABLE''
                        \<and> status resumed = SRunning \<and> phase resumed = Verify
                        \<and> next_action resumed = RequestPrimaryVerification
                        \<and> same_facts (facts blocked) (facts resumed) \<and> observed = ''completed'')
                (not_retryable_turn ''blocked verification environment retry identity or status is invalid'')) (\<lambda>_.
     attempt (ensure (accepted_for E blocked accepted ''VERIFY'')
                (not_retryable_turn
                   ''accepted verification environment blocker does not match the frozen request'')) (\<lambda>_.
     attempt (ensure (bound_primary E blocked accepted st)
                (not_retryable_turn (''accepted verification environment blocker does not match its ''
                   @ ''historical Primary binding''))) (\<lambda>_.
     attempt (unchanged_since st (run_text E blocked) blocked ''verification environment recovery'') (\<lambda>_.
     with_transition E blocked resumed
       (reactivated E now resumed (archive_accepted (run_text E blocked) accepted observed) st)))))"

definition corrective_retry :: "libs \<Rightarrow> run_state \<Rightarrow> store_error + run_state" where
  "corrective_retry L blocked =
     (if reason_code blocked = Some ''CONTROLLED_PATCH_TOOL_UNAVAILABLE'' then
        attempt (map_err (\<lambda>err. not_retryable_turn (''corrective patch-tool state is not retryable: ''
                    @ state_error_text err))
                  (fst (retry_blocked_corrective_patch_tool_unavailable L blocked)))
          (\<lambda>_. Inr (snd (retry_blocked_corrective_patch_tool_unavailable L blocked)))
      else if reason_code blocked = Some ''PATCH_NOT_AUTHORIZED'' then
        attempt (map_err (\<lambda>err. not_retryable_turn (''result-review patch rejection is not retryable: ''
                    @ state_error_text err))
                  (fst (retry_blocked_result_review_patch_not_authorized L blocked)))
          (\<lambda>_. Inr (snd (retry_blocked_result_review_patch_not_authorized L blocked)))
      else Inl (not_retryable_turn ''corrective patch retry has an unsupported blocked reason''))"

definition corrective_identity :: "store_env \<Rightarrow> run_state \<Rightarrow> accepted_turn \<Rightarrow> store \<Rightarrow> bool" where
  "corrective_identity E blocked accepted st =
     (let legacy = ac_thread accepted = rf_primary_thread_id (facts blocked) \<and> ac_binding accepted = None
            \<and> ac_capability accepted = Some LEGACY_PARTICIPANT_CAPABILITY_GENERATION
      in if reason_code blocked = Some ''PATCH_NOT_AUTHORIZED'' then bound_primary E blocked accepted st
         else if reason_code blocked = Some ''CONTROLLED_PATCH_TOOL_UNAVAILABLE'' then
           legacy \<or> bound_primary E blocked accepted st
         else False)"

definition reactivate_blocked_run_with_corrective_patch_tool_retry ::
  "store_env \<Rightarrow> int \<Rightarrow> run_state \<Rightarrow> run_state \<Rightarrow> accepted_turn \<Rightarrow> string \<Rightarrow> store \<Rightarrow> unit transaction" where
  "reactivate_blocked_run_with_corrective_patch_tool_retry E now blocked resumed accepted observed st =
     attempt (corrective_retry (se_libs E) blocked) (\<lambda>expected.
     attempt (ensure (same_state resumed expected \<and> observed = ''completed'')
                (not_retryable_turn ''corrective patch-tool retry state or terminal status is invalid'')) (\<lambda>_.
     attempt (ensure (accepted_for E blocked accepted ''INTEGRATE'' \<and> ac_hash accepted \<noteq> []
                        \<and> ac_response accepted \<noteq> [] \<and> ac_turn accepted \<noteq> [])
                (not_retryable_turn (''accepted corrective patch-tool blocker does not match the frozen ''
                   @ ''correction request''))) (\<lambda>_.
     attempt (unchanged_since st (run_text E blocked) blocked ''corrective patch-tool recovery'') (\<lambda>_.
     attempt (ensure (corrective_identity E blocked accepted st)
                (not_retryable_turn (''accepted corrective patch-tool blocker does not match its historical ''
                   @ ''Primary binding''))) (\<lambda>_.
     attempt (latest_accepted_turn st (run_text E blocked)) (\<lambda>latest.
     attempt (ensure (latest = Some accepted)
                (not_retryable_turn (''corrective patch-tool blocker is not the transaction-local latest ''
                   @ ''accepted turn''))) (\<lambda>_.
     attempt (ensure (\<not> list_ex (\<lambda>a. at_run a = run_text E blocked \<and> at_hash a = ac_hash accepted) (st_attempts st))
                (not_retryable_turn ''corrective patch-tool recovery is limited to one empty blocker attempt'')) (\<lambda>_.
     attempt (ensure (\<not> list_ex (\<lambda>p. pa_run p = run_text E blocked \<and> pa_hash p = ac_hash accepted) (st_patches st))
                (not_retryable_turn (''corrective patch-tool blocker request already has a successful patch ''
                   @ ''record''))) (\<lambda>_.
     with_transition E blocked resumed
       (reactivated E now resumed (archive_accepted (run_text E blocked) accepted observed) st))))))))))"

end
