(* ===== verification/Store_Turns.thy ===== *)
theory Store_Turns
  imports Store_Runs
begin

text \<open>
  The journal of turns in \<open>crates/daemon/src/store.rs\<close>: a request is recorded before it is sent, then the
  start of its turn, the items and the completion the App Server reports, and the successful patch of
  the request. A turn that is repeated moves to the attempts.
\<close>

subsection \<open>Requests and their turns\<close>

definition record_pending_send_with_binding ::
  "string \<Rightarrow> string \<Rightarrow> string \<Rightarrow> 32 word \<Rightarrow> string \<Rightarrow> 32 word option \<Rightarrow> store \<Rightarrow> unit transaction" where
  "record_pending_send_with_binding run_id role phase_text rnd message_hash generation st =
     attempt (ensure_run_exists st run_id) (\<lambda>_.
     if list_ex (\<lambda>t. tn_run t = run_id \<and> tn_role t = role \<and> tn_phase t = phase_text \<and> tn_round t = rnd
                     \<and> tn_hash t = message_hash) (st_turns st)
     then Inr ((), st)
     else Inr ((), st\<lparr>st_turns := st_turns st @ [\<lparr>tn_id = length (st_turns st) + 1, tn_run = run_id,
            tn_role = role, tn_phase = phase_text, tn_round = rnd, tn_hash = message_hash,
            tn_response = None, tn_delivery = PENDING, tn_thread = None, tn_turn = None,
            tn_capability = Some PARTICIPANT_CAPABILITY_GENERATION, tn_binding = generation,
            tn_intent = None\<rparr>]\<rparr>))"

definition record_pending_send ::
  "string \<Rightarrow> string \<Rightarrow> string \<Rightarrow> 32 word \<Rightarrow> string \<Rightarrow> store \<Rightarrow> unit transaction" where
  "record_pending_send run_id role phase_text rnd message_hash st =
     record_pending_send_with_binding run_id role phase_text rnd message_hash None st"

record pending_send =
  ps_run :: string
  ps_role :: string
  ps_phase :: string
  ps_round :: "32 word"
  ps_hash :: string
  ps_thread :: "string option"
  ps_turn :: "string option"
  ps_prompt :: "string option"
  ps_capability :: "string option"
  ps_binding :: "32 word option"
  ps_intent :: "int option"

definition pending_of :: "turn_row \<Rightarrow> pending_send" where
  "pending_of t = \<lparr>ps_run = tn_run t, ps_role = tn_role t, ps_phase = tn_phase t, ps_round = tn_round t,
     ps_hash = tn_hash t, ps_thread = tn_thread t, ps_turn = tn_turn t, ps_prompt = None,
     ps_capability = tn_capability t, ps_binding = tn_binding t, ps_intent = tn_intent t\<rparr>"

definition pending_request :: "store \<Rightarrow> string \<Rightarrow> pending_send option" where
  "pending_request st run_id = map_option pending_of (pending_row st run_id)"

text \<open>An \<open>UPDATE\<close> of turns that must change exactly one row.\<close>

definition update_one_turn ::
  "store_error \<Rightarrow> (turn_row \<Rightarrow> bool) \<Rightarrow> (turn_row \<Rightarrow> turn_row) \<Rightarrow> store \<Rightarrow> store_error + store" where
  "update_one_turn err p f st =
     attempt (ensure (count_rows p (st_turns st) = 1) err) (\<lambda>_.
     Inr (st\<lparr>st_turns := update_rows p f (st_turns st)\<rparr>))"

definition record_turn_start_intent :: "int \<Rightarrow> string \<Rightarrow> string \<Rightarrow> store \<Rightarrow> unit transaction" where
  "record_turn_start_intent now run_id message_hash st =
     without_transition (update_one_turn (PendingSendNotFound run_id)
       (\<lambda>t. open_turn run_id t \<and> tn_hash t = message_hash \<and> tn_thread t = None \<and> tn_turn t = None)
       (\<lambda>t. t\<lparr>tn_capability := Some PARTICIPANT_CAPABILITY_GENERATION,
              tn_intent := (case tn_intent t of None \<Rightarrow> Some now | Some i \<Rightarrow> Some i)\<rparr>) st)"

definition start_turn :: "string \<Rightarrow> string \<Rightarrow> bool \<Rightarrow> turn_row \<Rightarrow> turn_row" where
  "start_turn thread_id turn_id record_participant_generation t =
     t\<lparr>tn_delivery := SENT, tn_thread := Some thread_id, tn_turn := Some turn_id,
       tn_capability := (if record_participant_generation then Some PARTICIPANT_CAPABILITY_GENERATION
                         else tn_capability t)\<rparr>"

text \<open>
  The \<open>UPDATE\<close> of this operation stands outside a transaction: what it changed stays also when the
  number of changed rows is not one. The first component of the result is the answer.
\<close>

definition record_turn_started_with_generation ::
  "string \<Rightarrow> string \<Rightarrow> string \<Rightarrow> string \<Rightarrow> bool \<Rightarrow> store \<Rightarrow> (store_error + unit) \<times> store" where
  "record_turn_started_with_generation run_id message_hash thread_id turn_id record_participant_generation st =
     (let p = (\<lambda>t. open_turn run_id t \<and> tn_hash t = message_hash) in
      (ensure (count_rows p (st_turns st) = 1) (PendingSendNotFound run_id),
       st\<lparr>st_turns := update_rows p (start_turn thread_id turn_id record_participant_generation) (st_turns st)\<rparr>))"

definition record_turn_started ::
  "string \<Rightarrow> string \<Rightarrow> string \<Rightarrow> string \<Rightarrow> store \<Rightarrow> (store_error + unit) \<times> store" where
  "record_turn_started run_id message_hash thread_id turn_id st =
     record_turn_started_with_generation run_id message_hash thread_id turn_id True st"

definition record_recovered_turn_started ::
  "string \<Rightarrow> string \<Rightarrow> string \<Rightarrow> string \<Rightarrow> store \<Rightarrow> (store_error + unit) \<times> store" where
  "record_recovered_turn_started run_id message_hash thread_id turn_id st =
     record_turn_started_with_generation run_id message_hash thread_id turn_id False st"

subsection \<open>Events of a turn\<close>

definition nonblank_field :: "string \<Rightarrow> json \<Rightarrow> string \<Rightarrow> store_error + string" where
  "nonblank_field what item key =
     ok_or (IncompatibleState (''turn item event has no nonempty '' @ what))
       (case str_field item key of Some t \<Rightarrow> if blank t then None else Some t | None \<Rightarrow> None)"

definition lifecycle_of_method :: "string \<Rightarrow> store_error + lifecycle" where
  "lifecycle_of_method event_method =
     (if event_method = ''item/started'' then Inr STARTED
      else if event_method = ''item/completed'' then Inr COMPLETED
      else Inl (IncompatibleState (''unsupported turn item lifecycle event '' @ event_method)))"

definition item_row_is :: "nat \<Rightarrow> string \<Rightarrow> string \<Rightarrow> item_row \<Rightarrow> bool" where
  "item_row_is record_id turn_id item_id r \<longleftrightarrow>
     im_record r = record_id \<and> im_turn r = turn_id \<and> im_item r = item_id"

definition record_turn_item_event ::
  "string \<Rightarrow> string \<Rightarrow> string \<Rightarrow> string \<Rightarrow> json \<Rightarrow> store \<Rightarrow> unit transaction" where
  "record_turn_item_event run_id thread_id turn_id event_method item st =
     attempt (lifecycle_of_method event_method) (\<lambda>state.
     attempt (nonblank_field ''id'' item ''id'') (\<lambda>item_id.
     attempt (nonblank_field ''type'' item ''type'') (\<lambda>kind.
     attempt (active_turn_record_id st run_id thread_id turn_id) (\<lambda>record_id.
     case find (item_row_is record_id turn_id item_id) (st_items st) of
       None \<Rightarrow> Inr ((), st\<lparr>st_items := st_items st @ [\<lparr>im_record = record_id, im_run = run_id,
                 im_thread = thread_id, im_turn = turn_id, im_item = item_id, im_type = kind,
                 im_lifecycle = state, im_json = item\<rparr>]\<rparr>)
     | Some r \<Rightarrow>
         if im_type r \<noteq> kind then
           Inl (IncompatibleState (''turn item '' @ item_id @ '' changed type from '' @ im_type r @ '' to '' @ kind))
         else if im_lifecycle r = COMPLETED then
           attempt (ensure (state = COMPLETED \<longrightarrow> im_json r = item)
                      (IncompatibleState (''completed turn item '' @ item_id @ '' changed after persistence'')))
             (\<lambda>_. Inr ((), st))
         else Inr ((), st\<lparr>st_items := update_rows (item_row_is record_id turn_id item_id)
                 (\<lambda>r. r\<lparr>im_lifecycle := state, im_json := item\<rparr>) (st_items st)\<rparr>)))))"

text \<open>A completion is unique by its turn record, and by its run and turn.\<close>

definition record_turn_completed_event ::
  "string \<Rightarrow> string \<Rightarrow> string \<Rightarrow> json \<Rightarrow> store \<Rightarrow> unit transaction" where
  "record_turn_completed_event run_id thread_id turn_id turn st =
     attempt (ensure (str_field turn ''id'' = Some turn_id)
                (IncompatibleState ''turn/completed payload does not match its bound turn id'')) (\<lambda>_.
     attempt (active_turn_record_id st run_id thread_id turn_id) (\<lambda>record_id.
     case find (\<lambda>c. cp_record c = record_id \<and> cp_turn c = turn_id) (st_completions st) of
       Some c \<Rightarrow>
         attempt (ensure (cp_json c = turn)
                    (IncompatibleState (''completed turn event '' @ turn_id @ '' changed after persistence'')))
           (\<lambda>_. Inr ((), st))
     | None \<Rightarrow>
         attempt (ensure (\<not> list_ex (\<lambda>c. cp_record c = record_id \<or> cp_run c = run_id \<and> cp_turn c = turn_id)
                            (st_completions st)) DatabaseConstraint) (\<lambda>_.
         Inr ((), st\<lparr>st_completions := st_completions st @ [\<lparr>cp_record = record_id, cp_run = run_id,
                cp_thread = thread_id, cp_turn = turn_id, cp_json = turn\<rparr>]\<rparr>))))"

record turn_event_evidence =
  tv_completed_turn :: json
  tv_completed_items :: "json list"
  tv_ignored :: "string list"

definition completion_for :: "store \<Rightarrow> string \<Rightarrow> string \<Rightarrow> string \<Rightarrow> completion_row list \<Rightarrow> completion_row option" where
  "completion_for st run_id thread_id turn_id rows =
     find (\<lambda>c. cp_run c = run_id \<and> cp_thread c = thread_id \<and> cp_turn c = turn_id
               \<and> list_ex (\<lambda>t. tn_id t = cp_record c \<and> tn_run t = run_id) (st_turns st)) rows"

fun evidence_items :: "bool \<Rightarrow> string \<Rightarrow> item_row list \<Rightarrow> store_error + json list \<times> string list" where
  "evidence_items successful turn_id [] = Inr ([], [])"
| "evidence_items successful turn_id (r # rows) =
     (if im_lifecycle r \<noteq> COMPLETED then
        (if successful \<and> im_lifecycle r = STARTED \<and> im_type r = ''reasoning'' then
           attempt (evidence_items successful turn_id rows) (\<lambda>(done, ignored). Inr (done, im_item r # ignored))
         else Inl (IncompatibleState (''turn '' @ turn_id
                @ '' completed before all item lifecycle events were persisted'')))
      else attempt (evidence_items successful turn_id rows) (\<lambda>(done, ignored). Inr (im_json r # done, ignored)))"

definition turn_event_evidence_of ::
  "store \<Rightarrow> string \<Rightarrow> string \<Rightarrow> string \<Rightarrow> store_error + turn_event_evidence option" where
  "turn_event_evidence_of st run_id thread_id turn_id =
     (case (case completion_for st run_id thread_id turn_id (st_completions st) of
              Some c \<Rightarrow> Some c
            | None \<Rightarrow> completion_for st run_id thread_id turn_id (st_archived st)) of
        None \<Rightarrow> Inr None
      | Some c \<Rightarrow>
          attempt (evidence_items (str_field (cp_json c) ''status'' = Some ''completed'') turn_id
             (filter (\<lambda>r. im_run r = run_id \<and> im_thread r = thread_id \<and> im_turn r = turn_id) (st_items st)))
            (\<lambda>(done, ignored). Inr (Some \<lparr>tv_completed_turn = cp_json c, tv_completed_items = done,
                                         tv_ignored = ignored\<rparr>)))"

definition turn_event_item_count :: "store \<Rightarrow> string \<Rightarrow> string \<Rightarrow> string \<Rightarrow> nat" where
  "turn_event_item_count st run_id thread_id turn_id =
     count_rows (\<lambda>r. im_run r = run_id \<and> im_thread r = thread_id \<and> im_turn r = turn_id) (st_items st)"

subsection \<open>Turns that are repeated\<close>

definition reset_with_status ::
  "string list \<Rightarrow> string \<Rightarrow> string \<Rightarrow> string \<Rightarrow> string \<Rightarrow> string \<Rightarrow> string \<Rightarrow> store \<Rightarrow> unit transaction" where
  "reset_with_status allowed what run_id message_hash thread_id turn_id observed st =
     attempt (ensure (observed \<in> set allowed)
                (not_retryable_turn (''turn '' @ turn_id @ '' has '' @ what @ '' retry status '' @ observed))) (\<lambda>_.
     without_transition (archive_sent run_id message_hash thread_id turn_id observed st))"

definition reset_terminal_turn_for_retry ::
  "string \<Rightarrow> string \<Rightarrow> string \<Rightarrow> string \<Rightarrow> string \<Rightarrow> store \<Rightarrow> unit transaction" where
  "reset_terminal_turn_for_retry = reset_with_status [''failed'', ''interrupted''] ''non-terminal''"

definition reset_completed_read_only_turn_for_retry ::
  "string \<Rightarrow> string \<Rightarrow> string \<Rightarrow> string \<Rightarrow> string \<Rightarrow> store \<Rightarrow> unit transaction" where
  "reset_completed_read_only_turn_for_retry = reset_with_status [''completed''] ''non-completed model-response''"

definition reset_completed_integration_tool_failure_turn_for_retry ::
  "string \<Rightarrow> string \<Rightarrow> string \<Rightarrow> string \<Rightarrow> string \<Rightarrow> store \<Rightarrow> unit transaction" where
  "reset_completed_integration_tool_failure_turn_for_retry =
     reset_with_status [''completed''] ''non-completed integration-tool''"

definition EVENTLESS_RETRY_STATUS :: string where
  "EVENTLESS_RETRY_STATUS = ''completed-event-evidence-unavailable-after-patch''"

definition reset_eventless_successful_patch_turn_for_retry ::
  "string \<Rightarrow> string \<Rightarrow> string \<Rightarrow> string \<Rightarrow> store \<Rightarrow> unit transaction" where
  "reset_eventless_successful_patch_turn_for_retry run_id message_hash thread_id turn_id st =
     attempt (ensure
         (count_rows (\<lambda>p. pa_run p = run_id \<and> pa_hash p = message_hash) (st_patches st) = 1
          \<and> turn_event_item_count st run_id thread_id turn_id = 0
          \<and> count_rows (\<lambda>c. cp_run c = run_id \<and> cp_thread c = thread_id \<and> cp_turn c = turn_id)
              (st_completions st) = 0
          \<and> count_rows (\<lambda>a. at_run a = run_id \<and> at_hash a = message_hash \<and> at_status a = EVENTLESS_RETRY_STATUS)
              (st_attempts st) = 0)
         (not_retryable_turn (''turn '' @ turn_id @ '' is not the one eventless successful-patch attempt allowed for run ''
            @ run_id))) (\<lambda>_.
     without_transition (archive_sent run_id message_hash thread_id turn_id EVENTLESS_RETRY_STATUS st))"

definition attempts_of :: "store \<Rightarrow> string \<Rightarrow> string \<Rightarrow> attempt_row list" where
  "attempts_of st run_id message_hash =
     filter (\<lambda>a. at_run a = run_id \<and> at_hash a = message_hash) (st_attempts st)"

definition archived_turn_ids :: "store \<Rightarrow> string \<Rightarrow> string \<Rightarrow> string list" where
  "archived_turn_ids st run_id message_hash = map at_turn (attempts_of st run_id message_hash)"

definition archived_turn_attempts :: "store \<Rightarrow> string \<Rightarrow> string \<Rightarrow> (string \<times> string) list" where
  "archived_turn_attempts st run_id message_hash =
     map (\<lambda>a. (at_turn a, at_status a)) (attempts_of st run_id message_hash)"

definition completion_archived :: "store \<Rightarrow> attempt_row \<Rightarrow> bool" where
  "completion_archived st a \<longleftrightarrow>
     at_status a = ''completed''
     \<and> list_ex (\<lambda>c. cp_record c = at_record a \<and> cp_run c = at_run a \<and> cp_thread c = at_thread a
                     \<and> cp_turn c = at_turn a) (st_archived st)"

definition archived_completed_turn_with_evidence ::
  "store \<Rightarrow> string \<Rightarrow> string \<Rightarrow> (string \<times> string) option" where
  "archived_completed_turn_with_evidence st run_id message_hash =
     map_option (\<lambda>a. (at_thread a, at_turn a))
       (last_row (completion_archived st) (attempts_of st run_id message_hash))"

definition sent_as :: "string \<Rightarrow> string \<Rightarrow> turn_row \<Rightarrow> bool" where
  "sent_as thread_id turn_id t \<longleftrightarrow>
     tn_delivery t = SENT \<and> tn_thread t = Some thread_id \<and> tn_turn t = Some turn_id"

definition restore_archived_completed_turn_after_ephemeral_loss ::
  "string \<Rightarrow> string \<Rightarrow> string \<Rightarrow> string \<Rightarrow> string \<Rightarrow> string \<Rightarrow> store \<Rightarrow> unit transaction" where
  "restore_archived_completed_turn_after_ephemeral_loss run_id message_hash
       current_thread current_turn archived_thread archived_turn st =
     attempt (ok_or (not_retryable_turn (''turn '' @ current_turn
                @ '' is not the active lost ephemeral attempt for run '' @ run_id))
       (find (\<lambda>t. tn_run t = run_id \<and> tn_hash t = message_hash \<and> sent_as current_thread current_turn t)
          (st_turns st))) (\<lambda>t.
     attempt (ensure
         (count_rows (\<lambda>r. im_record r = tn_id t \<and> im_turn r = current_turn) (st_items st) = 0
          \<and> count_rows (\<lambda>c. cp_record c = tn_id t \<and> cp_turn c = current_turn) (st_completions st)
            + count_rows (\<lambda>c. cp_record c = tn_id t \<and> cp_turn c = current_turn) (st_archived st) = 0)
         (not_retryable_turn ''lost ephemeral attempt has durable event evidence and cannot be replaced'')) (\<lambda>_.
     attempt (ensure
         (list_ex (\<lambda>a. at_record a = tn_id t \<and> at_thread a = archived_thread \<and> at_turn a = archived_turn
                       \<and> completion_archived st a) (attempts_of st run_id message_hash))
         (not_retryable_turn ''archived completed attempt has no durable completion evidence'')) (\<lambda>_.
     attempt (ensure (\<not> list_ex (\<lambda>a. at_record a = tn_id t \<and> at_turn a = current_turn) (st_attempts st))
                DatabaseConstraint) (\<lambda>_.
     without_transition (update_one_turn
       (not_retryable_turn ''lost ephemeral attempt changed while restoring archived evidence'')
       (\<lambda>r. tn_id r = tn_id t \<and> sent_as current_thread current_turn r)
       (\<lambda>r. r\<lparr>tn_thread := Some archived_thread, tn_turn := Some archived_turn, tn_intent := None\<rparr>)
       (st\<lparr>st_attempts := st_attempts st @ [\<lparr>at_record = tn_id t, at_run = run_id, at_hash = message_hash,
             at_thread = current_thread, at_turn = current_turn, at_status = ''unavailable''\<rparr>]\<rparr>))))))"

definition has_patch_provenance_archived_attempt_on_thread :: "store \<Rightarrow> string \<Rightarrow> string \<Rightarrow> string \<Rightarrow> bool" where
  "has_patch_provenance_archived_attempt_on_thread st run_id message_hash thread_id \<longleftrightarrow>
     list_ex (\<lambda>a. at_thread a = thread_id \<and> at_status a \<in> {''completed'', EVENTLESS_RETRY_STATUS})
       (attempts_of st run_id message_hash)"

definition verification_evidence_retry_recorded :: "store \<Rightarrow> string \<Rightarrow> string \<Rightarrow> bool" where
  "verification_evidence_retry_recorded st run_id message_hash \<longleftrightarrow>
     list_ex (\<lambda>a. at_status a = ''completed-evidence-unavailable'') (attempts_of st run_id message_hash)"

subsection \<open>Successful patches\<close>

record successful_patch =
  sp_patch :: string
  sp_source :: "string option"
  sp_effective :: "string option"
  sp_binding :: "32 word option"

definition successful_patch_record :: "store \<Rightarrow> string \<Rightarrow> string \<Rightarrow> successful_patch option" where
  "successful_patch_record st run_id message_hash =
     map_option (\<lambda>p. \<lparr>sp_patch = pa_patch p, sp_source = pa_source p, sp_effective = pa_effective p,
                     sp_binding = pa_binding p\<rparr>)
       (find (\<lambda>p. pa_run p = run_id \<and> pa_hash p = message_hash) (st_patches st))"

definition successful_patch_recorded :: "store \<Rightarrow> string \<Rightarrow> string \<Rightarrow> bool" where
  "successful_patch_recorded st run_id message_hash \<longleftrightarrow>
     list_ex (\<lambda>p. pa_run p = run_id \<and> pa_hash p = message_hash) (st_patches st)"

definition successful_patch_hash :: "store \<Rightarrow> string \<Rightarrow> string \<Rightarrow> string option" where
  "successful_patch_hash st run_id message_hash =
     map_option sp_patch (successful_patch_record st run_id message_hash)"

definition provenance_matches ::
  "store \<Rightarrow> string \<Rightarrow> string option \<Rightarrow> string option \<Rightarrow> 32 word option \<Rightarrow> store_error + unit" where
  "provenance_matches st run_id source effective generation =
     (case (source, effective, generation) of
        (Some s, Some e, Some g) \<Rightarrow>
          attempt (ok_or (IncompatibleState (''run '' @ run_id @ '' has no Primary binding generation ''
                     @ decimal (unat g))) (query_primary_binding st run_id g)) (\<lambda>b.
          ensure (bi_source b = s \<and> bi_effective b = e)
            (IncompatibleState (''successful patch provenance does not match run '' @ run_id
               @ '' Primary binding generation '' @ decimal (unat g))))
      | _ \<Rightarrow> Inr ())"

definition record_successful_patch_with_provenance ::
  "string \<Rightarrow> string \<Rightarrow> string \<Rightarrow> string option \<Rightarrow> string option \<Rightarrow> 32 word option \<Rightarrow> store
   \<Rightarrow> successful_patch transaction" where
  "record_successful_patch_with_provenance run_id message_hash patch_hash source effective generation st =
     attempt (ensure ((source = None) = (effective = None) \<and> (effective = None) = (generation = None))
                (IncompatibleState
                   ''successful patch binding provenance must be entirely present or absent'')) (\<lambda>_.
     attempt (ensure_run_exists st run_id) (\<lambda>_.
     attempt (provenance_matches st run_id source effective generation) (\<lambda>_.
     if list_ex (\<lambda>p. pa_run p = run_id \<and> pa_hash p = message_hash) (st_patches st) then
       Inl (IncompatibleState (''run '' @ run_id
              @ '' already recorded a successful controlled patch for request '' @ message_hash))
     else Inr (\<lparr>sp_patch = patch_hash, sp_source = source, sp_effective = effective, sp_binding = generation\<rparr>,
               st\<lparr>st_patches := st_patches st @ [\<lparr>pa_run = run_id, pa_hash = message_hash,
                    pa_patch = patch_hash, pa_source = source, pa_effective = effective,
                    pa_binding = generation\<rparr>]\<rparr>))))"

definition record_successful_patch :: "string \<Rightarrow> string \<Rightarrow> string \<Rightarrow> store \<Rightarrow> unit transaction" where
  "record_successful_patch run_id message_hash patch_hash st =
     attempt (record_successful_patch_with_provenance run_id message_hash patch_hash None None None st)
       (\<lambda>(_, st'). Inr ((), st'))"

end
