(* ===== verification/Store_Commands.thy ===== *)
theory Store_Commands
  imports Store_Turns Git_Inspector
begin

text \<open>
  The commands of the verification of a result, \<open>begin_verification_command\<close> and
  \<open>complete_verification_command\<close> of \<open>crates/daemon/src/store.rs\<close>: a command of a request is claimed
  before it is executed and its result is stored after.
\<close>

datatype claim = Execute verification_command_record | Reuse verification_command_record

definition verification_path :: "store \<Rightarrow> string \<Rightarrow> string \<Rightarrow> string" where
  "verification_path st run_id sha =
     path_join (path_join (st_root st) ''verification'') (run_id @ ''-'' @ sha)"

definition verification_command_item_id :: "string \<Rightarrow> 32 word \<Rightarrow> string" where
  "verification_command_item_id message_hash command_index =
     ''coordinator-command/'' @ message_hash @ ''/'' @ decimal (unat command_index)"

text \<open>A row whose status and outputs disagree cannot be read.\<close>

definition verification_command_row_from_sql :: "command_row \<Rightarrow> store_error + command_row" where
  "verification_command_row_from_sql row =
     (let outputs_present = vc_exit_code (cm_record row) \<noteq> None \<or> vc_stdout (cm_record row) \<noteq> None
                            \<or> vc_stderr (cm_record row) \<noteq> None
      in if outputs_present = (cm_status row = COMPLETED) then Inr row else Inl DatabaseConstraint)"

definition verification_command_claim_matches ::
  "store \<Rightarrow> string \<Rightarrow> string \<Rightarrow> string \<Rightarrow> 32 word \<Rightarrow> store_error + command_row list" where
  "verification_command_claim_matches st run_id message_hash turn_id command_index =
     collect_results verification_command_row_from_sql
       (filter (\<lambda>r. vc_run (cm_record r) = run_id \<and> vc_index (cm_record r) = command_index
                    \<and> (vc_hash (cm_record r) = message_hash \<or> vc_turn (cm_record r) = turn_id))
          (st_commands st))"

definition command_is :: "string \<Rightarrow> string \<Rightarrow> 32 word \<Rightarrow> command_row \<Rightarrow> bool" where
  "command_is run_id message_hash command_index r \<longleftrightarrow>
     vc_run (cm_record r) = run_id \<and> vc_hash (cm_record r) = message_hash
     \<and> vc_index (cm_record r) = command_index"

definition verification_command_by_run_message_and_index ::
  "store \<Rightarrow> string \<Rightarrow> string \<Rightarrow> 32 word \<Rightarrow> store_error + command_row option" where
  "verification_command_by_run_message_and_index st run_id message_hash command_index =
     (case find (command_is run_id message_hash command_index) (st_commands st) of
        None \<Rightarrow> Inr None
      | Some r \<Rightarrow> attempt (verification_command_row_from_sql r) (\<lambda>row. Inr (Some row)))"

definition begin_verification_command ::
  "string \<Rightarrow> string \<Rightarrow> string \<Rightarrow> 32 word \<Rightarrow> string \<Rightarrow> string \<Rightarrow> store \<Rightarrow> claim transaction" where
  "begin_verification_command run_id message_hash turn_id command_index command cwd st =
     attempt (ensure (utf8 cwd)
       (IncompatibleState (''verification command cwd for run '' @ run_id @ '', turn '' @ turn_id @ '', index ''
          @ decimal (unat command_index) @ '' is not valid UTF-8''))) (\<lambda>_.
     attempt (ensure_run_exists st run_id) (\<lambda>_.
     let item_id = verification_command_item_id message_hash command_index in
     attempt (verification_command_claim_matches st run_id message_hash turn_id command_index) (\<lambda>matches.
     case matches of
       [] \<Rightarrow>
         (let claimed = \<lparr>vc_run = run_id, vc_hash = message_hash, vc_turn = turn_id, vc_item = item_id,
                vc_index = command_index, vc_command = command, vc_cwd = cwd, vc_exit_code = None,
                vc_stdout = None, vc_stderr = None\<rparr>
          in if list_ex (\<lambda>r. vc_run (cm_record r) = run_id \<and> vc_item (cm_record r) = item_id) (st_commands st)
             then Inl DatabaseConstraint
             else Inr (Execute claimed,
                    st\<lparr>st_commands := st_commands st @ [\<lparr>cm_record = claimed, cm_status = STARTED\<rparr>]\<rparr>))
     | [row] \<Rightarrow>
         (let found = cm_record row in
          if vc_hash found \<noteq> message_hash \<or> vc_turn found \<noteq> turn_id \<or> vc_item found \<noteq> item_id
             \<or> vc_index found \<noteq> command_index \<or> vc_command found \<noteq> command \<or> \<not> path_eq (vc_cwd found) cwd
          then Inl (IncompatibleState (''verification command identity mismatch for run '' @ run_id @ '', turn ''
                      @ turn_id @ '', item '' @ item_id))
          else case cm_status row of
            STARTED \<Rightarrow> Inl (VerificationExecutionUncertain (''verification command '' @ item_id @ '' for run ''
                             @ run_id @ '' was started but not completed''))
          | COMPLETED \<Rightarrow> Inr (Reuse found, st))
     | _ \<Rightarrow>
         Inl (IncompatibleState (''run '' @ run_id
                @ '' has conflicting persisted verification command identity for turn '' @ turn_id @ '' item ''
                @ item_id)))))"

definition complete_command :: "32 word \<Rightarrow> string \<Rightarrow> string \<Rightarrow> command_row \<Rightarrow> command_row" where
  "complete_command exit_code out err r =
     r\<lparr>cm_status := COMPLETED,
       cm_record := (cm_record r)\<lparr>vc_exit_code := Some exit_code, vc_stdout := Some out, vc_stderr := Some err\<rparr>\<rparr>"

definition complete_verification_command ::
  "string \<Rightarrow> string \<Rightarrow> 32 word \<Rightarrow> 32 word \<Rightarrow> string \<Rightarrow> string \<Rightarrow> store \<Rightarrow> verification_command_record transaction" where
  "complete_verification_command run_id message_hash command_index exit_code out err st =
     attempt (ensure_run_exists st run_id) (\<lambda>_.
     attempt (verification_command_by_run_message_and_index st run_id message_hash command_index) (\<lambda>found.
     attempt (ok_or (IncompatibleState (''run '' @ run_id
                @ '' has no started verification command for request '' @ message_hash @ '' index ''
                @ decimal (unat command_index))) found) (\<lambda>row.
     case cm_status row of
       STARTED \<Rightarrow>
         (let started = (\<lambda>r. command_is run_id message_hash command_index r \<and> cm_status r = STARTED) in
          attempt (ensure (count_rows started (st_commands st) = 1)
            (IncompatibleState (''verification command '' @ vc_item (cm_record row) @ '' for run '' @ run_id
               @ '' changed while completing''))) (\<lambda>_.
          Inr (cm_record (complete_command exit_code out err row),
               st\<lparr>st_commands := update_rows started (complete_command exit_code out err) (st_commands st)\<rparr>)))
     | COMPLETED \<Rightarrow>
         if vc_exit_code (cm_record row) = Some exit_code \<and> vc_stdout (cm_record row) = Some out
            \<and> vc_stderr (cm_record row) = Some err
         then Inr (cm_record row, st)
         else Inl (IncompatibleState (''verification command '' @ vc_item (cm_record row) @ '' for run '' @ run_id
                @ '' already completed with different output'')))))"

end
