(* ===== verification/Store_Recovery.thy ===== *)
theory Store_Recovery
  imports Store_Commands
begin

text \<open>
  The reactivations of \<open>crates/daemon/src/store.rs\<close> that look at more of the journal than the turn they
  repeat: an unsent request of a lost ephemeral fork, a completed verdict that is read again, and the
  completion collision of version 0.2.5.
\<close>

definition retried :: "next_action run_op \<Rightarrow> run_state \<Rightarrow> store_error + run_state" where
  "retried retry blocked =
     attempt (map_err (\<lambda>err. not_retryable_turn (state_error_text err)) (fst (retry blocked)))
       (\<lambda>_. Inr (snd (retry blocked)))"

definition unsent_boundary :: "store \<Rightarrow> string \<Rightarrow> 32 word \<Rightarrow> store_error + turn_row" where
  "unsent_boundary st run_id generation =
     attempt (ok_or (not_retryable_turn (''run '' @ run_id
                @ '' has no pending request for ephemeral recreation recovery'')) (pending_row st run_id)) (\<lambda>t.
     attempt (ensure (open_turn_count st run_id = 1 \<and> tn_role t = ''PRIMARY'' \<and> tn_phase t = ''INTEGRATE''
                        \<and> tn_delivery t = PENDING \<and> tn_thread t = None \<and> tn_turn t = None
                        \<and> tn_intent t = None \<and> tn_binding t = Some generation)
                (not_retryable_turn (''run '' @ run_id
                   @ '' pending request is not at the exact unsent ephemeral recovery boundary''))) (\<lambda>_.
     Inr t))"

definition ephemeral_binding_matches ::
  "string \<Rightarrow> 32 word \<Rightarrow> string \<Rightarrow> primary_participant_binding \<Rightarrow> bool" where
  "ephemeral_binding_matches source generation effective b \<longleftrightarrow>
     bi_generation b = generation \<and> bi_mode b = EphemeralFork \<and> bi_source b = source
     \<and> bi_effective b = effective \<and> bi_server b = ''worktreeMergeConsensusParticipant''
     \<and> bi_history b \<notin> {None, Some []}"

definition patched_on :: "store \<Rightarrow> string \<Rightarrow> string \<Rightarrow> string \<Rightarrow> string \<Rightarrow> 32 word \<Rightarrow> bool" where
  "patched_on st run_id message_hash source effective generation \<longleftrightarrow>
     list_ex (\<lambda>p. pa_run p = run_id \<and> pa_hash p = message_hash \<and> pa_source p = Some source
                  \<and> pa_effective p = Some effective \<and> pa_binding p = Some generation) (st_patches st)
     \<and> list_ex (\<lambda>a. at_run a = run_id \<and> at_hash a = message_hash \<and> at_thread a = effective
                    \<and> at_status a = ''completed'') (st_attempts st)"

definition reactivate_blocked_run_with_unsent_ephemeral_recreation_retry ::
  "store_env \<Rightarrow> int \<Rightarrow> run_state \<Rightarrow> run_state \<Rightarrow> store \<Rightarrow> unit transaction" where
  "reactivate_blocked_run_with_unsent_ephemeral_recreation_retry E now blocked resumed st =
     attempt (retried retry_blocked_unsent_ephemeral_source_recreation blocked) (\<lambda>expected.
     attempt (ensure (same_state expected resumed)
       (not_retryable_turn ''unsent ephemeral recreation recovery state is not the exact restored state'')) (\<lambda>_.
     attempt (ok_or (not_retryable_turn ''unsent ephemeral recreation recovery has no diagnostic'')
                (last_error blocked)) (\<lambda>diagnostic.
     attempt (ok_or (not_retryable_turn ''unsent ephemeral recreation recovery has no binding generation'')
                (rd_participant_binding_generation diagnostic)) (\<lambda>generation.
     attempt (ok_or (not_retryable_turn ''unsent ephemeral recreation recovery has no Effective Primary'')
                (rd_effective_thread_id diagnostic)) (\<lambda>effective.
     let run_id = run_text E blocked; source = rf_primary_thread_id (facts blocked) in
     attempt (unchanged_since st run_id blocked ''unsent ephemeral recreation recovery'') (\<lambda>_.
     attempt (unsent_boundary st run_id generation) (\<lambda>pending.
     attempt (ok_or (not_retryable_turn (''run '' @ run_id @ '' has no active ephemeral binding for recovery''))
                (query_active_primary_binding st run_id)) (\<lambda>b.
     attempt (ensure (ephemeral_binding_matches source generation effective b)
       (not_retryable_turn (''run '' @ run_id
          @ '' active binding does not match the blocked ephemeral recovery identity''))) (\<lambda>_.
     attempt (ensure (patched_on st run_id (tn_hash pending) source effective generation)
       (not_retryable_turn (''run '' @ run_id
          @ '' has no exact archived completed patch attempt for recovery''))) (\<lambda>_.
     with_transition E blocked resumed (reactivated E now resumed Inr st)))))))))))"

definition reviewer_verdict_boundary ::
  "store \<Rightarrow> string \<Rightarrow> string \<Rightarrow> string \<Rightarrow> string \<Rightarrow> 32 word \<Rightarrow> store_error + turn_row" where
  "reviewer_verdict_boundary st run_id message_hash thread_id turn_id rnd =
     attempt (ok_or (not_retryable_turn (''run '' @ run_id @ '' has no exact pending completed turn to replay''))
       (last_row (\<lambda>t. open_turn run_id t \<and> tn_hash t = message_hash) (st_turns st))) (\<lambda>t.
     attempt (ensure (tn_role t = ''REVIEWER'' \<and> tn_phase t = ''RESULT_REVIEW'' \<and> tn_round t = rnd
                        \<and> tn_delivery t = SENT \<and> tn_thread t = Some thread_id \<and> tn_turn t = Some turn_id
                        \<and> tn_binding t = None)
                (not_retryable_turn (''run '' @ run_id
                   @ '' pending turn is not the exact Reviewer verdict replay boundary''))) (\<lambda>_. Inr t))"

definition event_items_of :: "store \<Rightarrow> nat \<Rightarrow> string \<Rightarrow> string \<Rightarrow> string \<Rightarrow> item_row list" where
  "event_items_of st record_id run_id thread_id turn_id =
     filter (\<lambda>r. im_record r = record_id \<and> im_run r = run_id \<and> im_thread r = thread_id \<and> im_turn r = turn_id)
       (st_items st)"

definition stale_reasoning :: "item_row \<Rightarrow> bool" where
  "stale_reasoning r \<longleftrightarrow> im_lifecycle r = STARTED \<and> im_type r = ''reasoning''"

definition completed_successfully :: "json \<Rightarrow> string \<Rightarrow> bool" where
  "completed_successfully turn turn_id \<longleftrightarrow>
     str_field turn ''id'' = Some turn_id \<and> str_field turn ''status'' = Some ''completed''"

definition reactivate_blocked_run_with_completed_turn_replay ::
  "store_env \<Rightarrow> int \<Rightarrow> run_state \<Rightarrow> run_state \<Rightarrow> string \<Rightarrow> string \<Rightarrow> string \<Rightarrow> string \<Rightarrow> store \<Rightarrow> unit transaction" where
  "reactivate_blocked_run_with_completed_turn_replay E now blocked resumed message_hash thread_id turn_id observed st =
     attempt (retried retry_blocked_reviewer_reasoning_lifecycle_compatibility blocked) (\<lambda>expected.
     attempt (ensure (same_state expected resumed \<and> observed = ''completed'')
       (not_retryable_turn ''completed-turn replay state or status is invalid'')) (\<lambda>_.
     let run_id = run_text E blocked in
     attempt (unchanged_since st run_id blocked ''completed-turn replay'') (\<lambda>_.
     attempt (reviewer_verdict_boundary st run_id message_hash thread_id turn_id (round resumed)) (\<lambda>t.
     attempt (ok_or (not_retryable_turn (''turn '' @ turn_id @ '' has no durable completion event for replay''))
       (find (\<lambda>c. cp_record c = tn_id t \<and> cp_run c = run_id \<and> cp_thread c = thread_id \<and> cp_turn c = turn_id)
          (st_completions st))) (\<lambda>c.
     attempt (ensure (completed_successfully (cp_json c) turn_id)
       (not_retryable_turn (''turn '' @ turn_id @ '' has no successful canonical completion for replay''))) (\<lambda>_.
     let items = event_items_of st (tn_id t) run_id thread_id turn_id in
     attempt (ensure (count_rows stale_reasoning items \<noteq> 0
                      \<and> count_rows (\<lambda>r. im_lifecycle r \<noteq> COMPLETED \<and> \<not> stale_reasoning r) items = 0)
       (not_retryable_turn (''turn '' @ turn_id
          @ '' is not the exact stale-reasoning lifecycle compatibility case''))) (\<lambda>_.
     with_transition E blocked resumed (reactivated E now resumed Inr st))))))))"

subsection \<open>The completion collision of version 0.2.5\<close>

record collision =
  co_blocked :: run_state
  co_pending :: pending_send
  co_stale_turn :: string
  co_record :: nat

definition expected_statuses :: "string list" where
  "expected_statuses = [''completed'', ''completed'', ''completed-evidence-unavailable'',
     ''completed-unattended-verification-migration'']"

definition side_effect_types :: "string set" where
  "side_effect_types = {''commandExecution'', ''fileChange'', ''mcpToolCall'', ''dynamicToolCall''}"

definition stale_completion :: "store \<Rightarrow> string \<Rightarrow> string \<Rightarrow> turn_row \<Rightarrow> string \<Rightarrow> bool" where
  "stale_completion st run_id primary t stale \<longleftrightarrow>
     (case find (\<lambda>c. cp_record c = tn_id t) (st_completions st) of
        None \<Rightarrow> False
      | Some c \<Rightarrow> cp_run c = run_id \<and> cp_thread c = primary \<and> cp_turn c = stale
          \<and> completed_successfully (cp_json c) stale)"

definition only_answered :: "store \<Rightarrow> nat \<Rightarrow> string \<Rightarrow> bool" where
  "only_answered st record_id turn_id \<longleftrightarrow>
     (let items = filter (\<lambda>r. im_record r = record_id \<and> im_turn r = turn_id) (st_items st)
      in count_rows (\<lambda>r. im_type r = ''agentMessage'' \<and> im_lifecycle r = COMPLETED) items \<noteq> 0
         \<and> count_rows (\<lambda>r. im_type r \<in> side_effect_types) items = 0)"

definition nothing_executed :: "store \<Rightarrow> string \<Rightarrow> bool" where
  "nothing_executed st run_id \<longleftrightarrow>
     count_rows (\<lambda>r. vc_run (cm_record r) = run_id) (st_commands st) = 0
     \<and> count_rows (\<lambda>p. pa_run p = run_id) (st_patches st) = 1
     \<and> count_rows (\<lambda>l. lk_run l = run_id) (st_locks st) = 0"

definition collision_in :: "store \<Rightarrow> string \<Rightarrow> run_state \<Rightarrow> turn_row \<Rightarrow> string \<Rightarrow> string \<Rightarrow> collision option" where
  "collision_in st run_id blocked t thread_id turn_id =
     (let attempts = filter (\<lambda>a. at_record a = tn_id t) (st_attempts st);
          stale = at_turn (last attempts)
      in if tn_role t \<noteq> ''PRIMARY'' \<or> tn_phase t \<noteq> ''VERIFY'' \<or> tn_round t \<noteq> round blocked
            \<or> thread_id \<noteq> rf_primary_thread_id (facts blocked) then None
         else if map at_status attempts \<noteq> expected_statuses then None
         else if stale = turn_id then None
         else if count_rows (\<lambda>a. at_run a = run_id
                   \<and> at_status a = ''completed-unattended-verification-migration'') (st_attempts st) \<noteq> 1 then None
         else if \<not> stale_completion st run_id (rf_primary_thread_id (facts blocked)) t stale then None
         else if \<not> only_answered st (tn_id t) turn_id then None
         else if \<not> nothing_executed st run_id then None
         else Some \<lparr>co_blocked = blocked, co_pending = (pending_of t)\<lparr>ps_intent := None\<rparr>,
                    co_stale_turn = stale, co_record = tn_id t\<rparr>)"

definition v025_verification_completion_collision_candidate ::
  "store \<Rightarrow> string \<Rightarrow> store_error + collision option" where
  "v025_verification_completion_collision_candidate st run_id =
     (case run_row_of st run_id of
        None \<Rightarrow> Inr None
      | Some row \<Rightarrow>
          attempt (deserialize_state (rn_state row)) (\<lambda>blocked.
          if \<not> is_ok (fst (recover_v025_verification_completion_collision blocked)) then Inr None
          else case filter (\<lambda>t. tn_run t = run_id \<and> tn_delivery t = SENT) (st_turns st) of
            [t] \<Rightarrow>
              (case (tn_thread t, tn_turn t) of
                 (Some thread_id, Some turn_id) \<Rightarrow> Inr (collision_in st run_id blocked t thread_id turn_id)
               | _ \<Rightarrow> Inr None)
          | _ \<Rightarrow> Inr None))"

definition same_collision :: "collision \<Rightarrow> collision \<Rightarrow> bool" where
  "same_collision a b \<longleftrightarrow> same_state (co_blocked a) (co_blocked b) \<and> a\<lparr>co_blocked := co_blocked b\<rparr> = b"

definition recover_v025_verification_completion_collision_in_store ::
  "store_env \<Rightarrow> int \<Rightarrow> collision \<Rightarrow> run_state \<Rightarrow> store \<Rightarrow> unit transaction" where
  "recover_v025_verification_completion_collision_in_store E now candidate recovered st =
     attempt (ensure (restored recover_v025_verification_completion_collision
                        (co_blocked candidate) recovered)
       (not_retryable_turn ''v0.2.5 completion collision recovery state is invalid'')) (\<lambda>_.
     let run_id = run_text E (co_blocked candidate);
         stale = (\<lambda>c. cp_record c = co_record candidate \<and> cp_turn c = co_stale_turn candidate) in
     attempt (v025_verification_completion_collision_candidate st run_id) (\<lambda>current.
     attempt (ensure (rel_option same_collision current (Some candidate))
       (not_retryable_turn (''run '' @ run_id
          @ '' changed while preparing v0.2.5 completion collision recovery''))) (\<lambda>_.
     without_transition (reactivated E now recovered (\<lambda>st1.
       attempt (ensure (count_rows stale (st_completions st1) = 1)
         (not_retryable_turn ''v0.2.5 completion collision evidence changed during recovery'')) (\<lambda>_.
       Inr (st1\<lparr>st_items := filter (\<lambda>r. \<not> (im_record r = co_record candidate
                  \<and> im_turn r = co_stale_turn candidate)) (st_items st1),
                st_completions := filter (\<lambda>c. \<not> stale c) (st_completions st1)\<rparr>))) st))))"

end
