(* ===== verification/Store_Bindings.thy ===== *)
theory Store_Bindings
  imports Store_Turns
begin

text \<open>
  The bindings of the primary participant (\<open>crates/daemon/src/store.rs\<close>, \<open>participant_binding.rs\<close>): the
  task the primary works in, the source task itself or an ephemeral fork of it, by generation. At most
  one binding of a run is active, an index of the table sees to it.
\<close>

definition frozen_threads :: "store \<Rightarrow> string \<Rightarrow> store_error + string \<times> string" where
  "frozen_threads st run_id =
     attempt (ok_or DatabaseConstraint (run_row_of st run_id)) (\<lambda>r.
     Inr (rn_primary_thread r, rn_reviewer_thread r))"

abbreviation incompatible :: "string \<Rightarrow> string \<Rightarrow> store_error" where
  "incompatible run_id what \<equiv> IncompatibleState (''run '' @ run_id @ what)"

definition deactivate :: "(primary_participant_binding \<Rightarrow> bool) \<Rightarrow> store \<Rightarrow> store" where
  "deactivate p st =
     st\<lparr>st_bindings := update_rows (\<lambda>b. p (br_binding b) \<and> br_active b) (\<lambda>b. b\<lparr>br_active := False\<rparr>)
          (st_bindings st)\<rparr>"

text \<open>A binding is unique by run and generation, an active one by its run.\<close>

definition insert_binding :: "primary_participant_binding \<Rightarrow> store \<Rightarrow> store_error + store" where
  "insert_binding b st =
     attempt (ensure (\<not> list_ex (\<lambda>r. bi_run (br_binding r) = bi_run b
                \<and> (bi_generation (br_binding r) = bi_generation b \<or> br_active r)) (st_bindings st))
                DatabaseConstraint) (\<lambda>_.
     Inr (st\<lparr>st_bindings := st_bindings st @ [\<lparr>br_binding = b, br_active = True\<rparr>]\<rparr>))"

definition binding_shape ::
  "string \<Rightarrow> string \<Rightarrow> string \<Rightarrow> string \<Rightarrow> binding_mode \<Rightarrow> string option \<Rightarrow> store_error + unit" where
  "binding_shape run_id reviewer source effective mode history =
     (case mode of
        Direct \<Rightarrow>
          if effective \<noteq> source then
            Inl (incompatible run_id '' direct Primary binding must use the Source Primary task'')
          else ensure (history = None)
            (incompatible run_id '' direct Primary binding cannot carry an ephemeral source-history hash'')
      | EphemeralFork \<Rightarrow>
          if effective = source \<or> effective = reviewer then
            Inl (incompatible run_id '' ephemeral Primary binding must differ from both frozen source tasks'')
          else ensure (case history of None \<Rightarrow> False | Some h \<Rightarrow> \<not> blank h)
            (incompatible run_id '' ephemeral Primary binding requires a nonempty source-history hash''))"

text \<open>\<open>ORDER BY generation ASC LIMIT 1\<close>\<close>

definition first_history :: "store \<Rightarrow> string \<Rightarrow> string option" where
  "first_history st run_id =
     (case sort_key (\<lambda>b. unat (bi_generation b))
             (filter (\<lambda>b. bi_run b = run_id \<and> bi_mode b = EphemeralFork \<and> bi_history b \<noteq> None)
                (map br_binding (st_bindings st))) of
        [] \<Rightarrow> None
      | b # _ \<Rightarrow> bi_history b)"

definition history_kept :: "store \<Rightarrow> string \<Rightarrow> binding_mode \<Rightarrow> string option \<Rightarrow> bool" where
  "history_kept st run_id mode history \<longleftrightarrow>
     (mode = EphemeralFork \<longrightarrow> first_history st run_id \<in> {None, history})"

definition new_binding ::
  "int \<Rightarrow> string \<Rightarrow> string \<Rightarrow> string \<Rightarrow> binding_mode \<Rightarrow> string \<Rightarrow> string option \<Rightarrow> 32 word
   \<Rightarrow> primary_participant_binding" where
  "new_binding now run_id source effective mode server history generation =
     \<lparr>bi_run = run_id, bi_source = source, bi_effective = effective, bi_mode = mode,
      bi_generation = generation, bi_server = server, bi_history = history, bi_created_at = now,
      bi_verified_at = now\<rparr>"

definition same_binding ::
  "string \<Rightarrow> string \<Rightarrow> binding_mode \<Rightarrow> string \<Rightarrow> string option \<Rightarrow> primary_participant_binding \<Rightarrow> bool" where
  "same_binding source effective mode server history b \<longleftrightarrow>
     bi_source b = source \<and> bi_effective b = effective \<and> bi_mode b = mode \<and> bi_server b = server
     \<and> bi_history b = history"

definition activate_primary_binding ::
  "int \<Rightarrow> string \<Rightarrow> string \<Rightarrow> string \<Rightarrow> binding_mode \<Rightarrow> string \<Rightarrow> string option \<Rightarrow> store
   \<Rightarrow> primary_participant_binding transaction" where
  "activate_primary_binding now run_id source effective mode server history st =
     attempt (ensure (\<not> blank source \<and> \<not> blank effective \<and> \<not> blank server)
                (IncompatibleState ''primary participant binding identities must be nonempty'')) (\<lambda>_.
     attempt (ensure_run_exists st run_id) (\<lambda>_.
     attempt (frozen_threads st run_id) (\<lambda>(primary, reviewer).
     attempt (ensure (source = primary)
                (incompatible run_id '' primary binding source does not match frozen Primary task'')) (\<lambda>_.
     attempt (binding_shape run_id reviewer source effective mode history) (\<lambda>_.
     attempt (ensure (history_kept st run_id mode history)
                (incompatible run_id
                   '' Source Primary history changed between ephemeral binding generations'')) (\<lambda>_.
     attempt (ensure (open_turn_count st run_id = 0)
                (incompatible run_id
                   '' cannot change Primary binding while a turn is pending or sent'')) (\<lambda>_.
     let activate = (\<lambda>_. attempt (next_generation st run_id) (\<lambda>generation.
           let b = new_binding now run_id source effective mode server history generation in
           attempt (insert_binding b (deactivate (\<lambda>r. bi_run r = run_id) st)) (\<lambda>st'. Inr (b, st'))))
     in case query_active_primary_binding st run_id of
          None \<Rightarrow> activate ()
        | Some active \<Rightarrow>
            if same_binding source effective mode server history active then Inr (active, st)
            else activate ())))))))"

definition rotation_boundary :: "turn_row option \<Rightarrow> nat \<Rightarrow> 32 word \<Rightarrow> string \<Rightarrow> store_error + turn_row" where
  "rotation_boundary pending pending_count generation run_id =
     attempt (ok_or (incompatible run_id '' has no unsent Primary request to rebind'') pending) (\<lambda>t.
     attempt (ensure (pending_count = 1 \<and> tn_role t = ''PRIMARY'' \<and> tn_delivery t = PENDING
                        \<and> tn_thread t = None \<and> tn_turn t = None \<and> tn_intent t = None
                        \<and> tn_binding t = Some generation)
                (incompatible run_id
                   '' pending Primary request is not at a safe unsent binding boundary'')) (\<lambda>_. Inr t))"

definition rotate_ephemeral_primary_binding_for_unsent_pending ::
  "int \<Rightarrow> string \<Rightarrow> 32 word \<Rightarrow> string \<Rightarrow> string \<Rightarrow> string \<Rightarrow> string \<Rightarrow> store
   \<Rightarrow> primary_participant_binding transaction" where
  "rotate_ephemeral_primary_binding_for_unsent_pending now run_id expected source effective server history st =
     attempt (ensure (\<not> blank source \<and> \<not> blank effective \<and> \<not> blank server \<and> \<not> blank history)
                (IncompatibleState ''ephemeral binding rotation identities must be nonempty'')) (\<lambda>_.
     attempt (ensure_run_exists st run_id) (\<lambda>_.
     attempt (frozen_threads st run_id) (\<lambda>(primary, reviewer).
     attempt (ensure (source = primary \<and> effective \<noteq> primary \<and> effective \<noteq> reviewer)
                (incompatible run_id
                   '' ephemeral binding rotation does not match its frozen task identities'')) (\<lambda>_.
     attempt (ok_or (incompatible run_id '' has no active Primary binding to rotate'')
                (query_active_primary_binding st run_id)) (\<lambda>active.
     attempt (ensure (bi_generation active = expected \<and> bi_mode active = EphemeralFork
                        \<and> bi_source active = source \<and> bi_effective active \<noteq> effective
                        \<and> bi_server active = server \<and> bi_history active = Some history)
                (incompatible run_id '' active ephemeral binding changed before rotation'')) (\<lambda>_.
     attempt (rotation_boundary (pending_row st run_id) (open_turn_count st run_id) expected run_id) (\<lambda>pending.
     attempt (next_generation st run_id) (\<lambda>generation.
     let b = new_binding now run_id source effective EphemeralFork server (Some history) generation;
         old = (\<lambda>r. bi_run r = run_id \<and> bi_generation r = expected)
     in attempt (ensure (count_rows (\<lambda>r. old (br_binding r) \<and> br_active r) (st_bindings st) = 1)
                   (incompatible run_id '' active ephemeral binding changed during rotation'')) (\<lambda>_.
        attempt (insert_binding b (deactivate old st)) (\<lambda>st1.
        attempt (update_one_turn
            (incompatible run_id '' unsent Primary request changed during binding rotation'')
            (\<lambda>t. tn_id t = tn_id pending \<and> tn_run t = run_id \<and> tn_delivery t = PENDING
                 \<and> tn_thread t = None \<and> tn_turn t = None \<and> tn_intent t = None \<and> tn_binding t = Some expected)
            (\<lambda>t. t\<lparr>tn_binding := Some generation\<rparr>) st1) (\<lambda>st2. Inr (b, st2))))))))))))"

definition activate_initial_direct_binding_for_pending_send ::
  "int \<Rightarrow> string \<Rightarrow> string \<Rightarrow> string \<Rightarrow> store \<Rightarrow> primary_participant_binding transaction" where
  "activate_initial_direct_binding_for_pending_send now run_id source server st =
     attempt (ensure (\<not> blank source \<and> \<not> blank server)
                (IncompatibleState ''initial direct binding identities must be nonempty'')) (\<lambda>_.
     attempt (ensure_run_exists st run_id) (\<lambda>_.
     attempt (frozen_threads st run_id) (\<lambda>(primary, _).
     attempt (ensure (source = primary)
                (incompatible run_id '' initial direct binding does not match frozen Primary task'')) (\<lambda>_.
     attempt (ensure (query_active_primary_binding st run_id = None)
                (incompatible run_id '' already has an active Primary binding'')) (\<lambda>_.
     attempt (ok_or (incompatible run_id '' has no pending send for initial direct binding migration'')
                (pending_row st run_id)) (\<lambda>pending.
     attempt (ensure (open_turn_count st run_id = 1 \<and> tn_role pending = ''PRIMARY''
                        \<and> tn_thread pending \<in> {None, Some source} \<and> tn_binding pending = None)
                (incompatible run_id
                   '' pending send is not eligible for initial direct binding migration'')) (\<lambda>_.
     attempt (next_generation st run_id) (\<lambda>generation.
     let b = new_binding now run_id source source Direct server None generation
     in attempt (insert_binding b st) (\<lambda>st1.
        attempt (update_one_turn
            (incompatible run_id '' pending send changed during initial direct binding migration'')
            (\<lambda>t. open_turn run_id t \<and> tn_binding t = None) (\<lambda>t. t\<lparr>tn_binding := Some generation\<rparr>) st1) (\<lambda>st2.
        Inr (b, st2)))))))))))"

definition bind_unsent_primary_pending_to_active_binding :: "string \<Rightarrow> store \<Rightarrow> unit transaction" where
  "bind_unsent_primary_pending_to_active_binding run_id st =
     attempt (ok_or (incompatible run_id '' has no active Primary binding'')
                (query_active_primary_binding st run_id)) (\<lambda>b.
     case pending_row st run_id of
       None \<Rightarrow> Inr ((), st)
     | Some pending \<Rightarrow>
         attempt (ensure (tn_role pending = ''PRIMARY'')
                    (incompatible run_id '' pending send belongs to Reviewer, not Primary'')) (\<lambda>_.
         case tn_binding pending of
           Some generation \<Rightarrow>
             attempt (ensure (generation = bi_generation b)
                        (incompatible run_id '' pending send does not match the active Primary binding''))
               (\<lambda>_. Inr ((), st))
         | None \<Rightarrow>
             attempt (ensure (tn_thread pending = None \<and> tn_turn pending = None)
                        (incompatible run_id
                           '' cannot bind a sent or uncertain legacy turn to a new Primary binding'')) (\<lambda>_.
             without_transition (update_one_turn
                 (incompatible run_id '' unsent Primary pending changed while binding it'')
                 (\<lambda>t. tn_run t = run_id \<and> tn_delivery t = PENDING \<and> tn_thread t = None \<and> tn_turn t = None
                      \<and> tn_binding t = None)
                 (\<lambda>t. t\<lparr>tn_binding := Some (bi_generation b)\<rparr>) st))))"

end
