(* ===== verification/Store_Machine.thy ===== *)
theory Store_Machine
  imports Store_Recovery Store_Bindings
begin

text \<open>
  The life of the store. An operation of the daemon is one transaction; one that fails leaves the
  store as it was. A save loads the state of the run, performs an input of \<open>Run_Machine\<close> and stores the
  result; a reactivation does the same with a recovery. The locale \<open>store_invariant\<close> carries the proofs
  about all stores; the effect of every operation on the tables is stated once, below.
\<close>

datatype reactivation =
    CompletedTurnRetry string string string string
  | CompletedTurnReplay string string string string
  | VerificationEvidenceRetry string string string string
  | UnattendedVerificationRetry string string string string
  | InterruptedForbiddenOperationRetry string string string string
  | AcceptedExecutionToolRetry accepted_turn string
  | AcceptedVerificationEnvironmentRetry accepted_turn string
  | CorrectivePatchToolRetry accepted_turn string
  | UnsentEphemeralRecreationRetry

fun reactivate ::
  "store_env \<Rightarrow> int \<Rightarrow> reactivation \<Rightarrow> run_state \<Rightarrow> run_state \<Rightarrow> store \<Rightarrow> unit transaction" where
  "reactivate E now (CompletedTurnRetry h th t obs) b r =
     reactivate_blocked_run_with_completed_turn_retry E now b r h th t obs"
| "reactivate E now (CompletedTurnReplay h th t obs) b r =
     reactivate_blocked_run_with_completed_turn_replay E now b r h th t obs"
| "reactivate E now (VerificationEvidenceRetry h th t obs) b r =
     reactivate_blocked_run_with_verification_evidence_retry E now b r h th t obs"
| "reactivate E now (UnattendedVerificationRetry h th t obs) b r =
     reactivate_blocked_run_with_unattended_verification_retry E now b r h th t obs"
| "reactivate E now (InterruptedForbiddenOperationRetry h th t obs) b r =
     reactivate_blocked_run_with_interrupted_forbidden_operation_retry E now b r h th t obs"
| "reactivate E now (AcceptedExecutionToolRetry a obs) b r =
     reactivate_blocked_run_with_accepted_execution_tool_retry E now b r a obs"
| "reactivate E now (AcceptedVerificationEnvironmentRetry a obs) b r =
     reactivate_blocked_run_with_accepted_verification_environment_retry E now b r a obs"
| "reactivate E now (CorrectivePatchToolRetry a obs) b r =
     reactivate_blocked_run_with_corrective_patch_tool_retry E now b r a obs"
| "reactivate E now UnsentEphemeralRecreationRetry b r =
     reactivate_blocked_run_with_unsent_ephemeral_recreation_retry E now b r"

datatype store_op =
    StartRun run_facts string "string list"
  | Save string run_input
  | AcceptResponse string string run_input
  | Reactivate string recovery reactivation
  | RecoverCollision string
  | RecordPending string string string "32 word" string "32 word option"
  | StartIntent string string
  | StartTurn string string string string bool
  | ItemEvent string string string string json
  | CompletedEvent string string string json
  | ResetTerminal string string string string string
  | ResetReadOnly string string string string string
  | ResetToolFailure string string string string string
  | ResetEventless string string string string
  | RestoreArchived string string string string string string
  | RecordPatch string string string "string option" "string option" "32 word option"
  | BeginCommand string string string "32 word" string string
  | CompleteCommand string string "32 word" "32 word" string string
  | ActivateBinding string string string binding_mode string "string option"
  | RotateBinding string "32 word" string string string string
  | InitialBinding string string string
  | BindPending string

definition commit :: "store \<Rightarrow> 'a transaction \<Rightarrow> store" where
  "commit st r = (case r of Inl _ \<Rightarrow> st | Inr (_, st') \<Rightarrow> st')"

text \<open>A recovery is stored by its reactivation only, never by a save.\<close>

definition stepped :: "store_env \<Rightarrow> store \<Rightarrow> string \<Rightarrow> run_input \<Rightarrow> run_state option" where
  "stepped E st run_id i =
     (case load_run st run_id of
        Inr (Some s) \<Rightarrow>
          (case perform (se_libs E) i s of (Inr _, s') \<Rightarrow> if is_recovery i then None else Some s' | _ \<Rightarrow> None)
      | _ \<Rightarrow> None)"

definition reactivated_run ::
  "store_env \<Rightarrow> int \<Rightarrow> string \<Rightarrow> recovery \<Rightarrow> reactivation \<Rightarrow> store \<Rightarrow> store" where
  "reactivated_run E now run_id k how st =
     (case load_run st run_id of
        Inr (Some blocked) \<Rightarrow>
          (case recover (se_libs E) k blocked of
             (Inr _, resumed) \<Rightarrow> commit st (reactivate E now how blocked resumed st)
           | _ \<Rightarrow> st)
      | _ \<Rightarrow> st)"

text \<open>\<open>recover_startup_runs\<close> for one run\<close>

definition recovered_collision :: "store_env \<Rightarrow> int \<Rightarrow> string \<Rightarrow> store \<Rightarrow> store" where
  "recovered_collision E now run_id st =
     (case v025_verification_completion_collision_candidate st run_id of
        Inr (Some candidate) \<Rightarrow>
          commit st (recover_v025_verification_completion_collision_in_store E now candidate
            (snd (recover_v025_verification_completion_collision (co_blocked candidate))) st)
      | _ \<Rightarrow> st)"

definition started_run :: "run_facts \<Rightarrow> string \<Rightarrow> string list \<Rightarrow> run_state option" where
  "started_run f branch commands =
     (case configure_integration branch commands (new_run f) of (Inr _, s) \<Rightarrow> Some s | _ \<Rightarrow> None)"

fun store_step :: "store_env \<Rightarrow> int \<Rightarrow> store_op \<Rightarrow> store \<Rightarrow> store" where
  "store_step E now (StartRun f branch commands) st =
     (case started_run f branch commands of None \<Rightarrow> st | Some s \<Rightarrow> commit st (insert_run E now s st))"
| "store_step E now (Save run_id i) st =
     (case stepped E st run_id i of None \<Rightarrow> st | Some s \<Rightarrow> commit st (save_state E now s st))"
| "store_step E now (AcceptResponse run_id response i) st =
     (case stepped E st run_id i of None \<Rightarrow> st
      | Some s \<Rightarrow> commit st (accept_response_and_advance E now run_id response s st))"
| "store_step E now (Reactivate run_id k how) st = reactivated_run E now run_id k how st"
| "store_step E now (RecoverCollision run_id) st = recovered_collision E now run_id st"
| "store_step E now (RecordPending r role ph n h g) st =
     commit st (record_pending_send_with_binding r role ph n h g st)"
| "store_step E now (StartIntent r h) st = commit st (record_turn_start_intent now r h st)"
| "store_step E now (StartTurn r h th t fresh) st = snd (record_turn_started_with_generation r h th t fresh st)"
| "store_step E now (ItemEvent r th t method item) st = commit st (record_turn_item_event r th t method item st)"
| "store_step E now (CompletedEvent r th t turn) st = commit st (record_turn_completed_event r th t turn st)"
| "store_step E now (ResetTerminal r h th t obs) st = commit st (reset_terminal_turn_for_retry r h th t obs st)"
| "store_step E now (ResetReadOnly r h th t obs) st =
     commit st (reset_completed_read_only_turn_for_retry r h th t obs st)"
| "store_step E now (ResetToolFailure r h th t obs) st =
     commit st (reset_completed_integration_tool_failure_turn_for_retry r h th t obs st)"
| "store_step E now (ResetEventless r h th t) st =
     commit st (reset_eventless_successful_patch_turn_for_retry r h th t st)"
| "store_step E now (RestoreArchived r h th t th' t') st =
     commit st (restore_archived_completed_turn_after_ephemeral_loss r h th t th' t' st)"
| "store_step E now (RecordPatch r h p source effective g) st =
     commit st (record_successful_patch_with_provenance r h p source effective g st)"
| "store_step E now (BeginCommand r h t n c cwd) st = commit st (begin_verification_command r h t n c cwd st)"
| "store_step E now (CompleteCommand r h n code out err) st =
     commit st (complete_verification_command r h n code out err st)"
| "store_step E now (ActivateBinding r source effective mode server history) st =
     commit st (activate_primary_binding now r source effective mode server history st)"
| "store_step E now (RotateBinding r g source effective server history) st =
     commit st (rotate_ephemeral_primary_binding_for_unsent_pending now r g source effective server history st)"
| "store_step E now (InitialBinding r source server) st =
     commit st (activate_initial_direct_binding_for_pending_send now r source server st)"
| "store_step E now (BindPending r) st = commit st (bind_unsent_primary_pending_to_active_binding r st)"

definition store_after :: "store_env \<Rightarrow> string \<Rightarrow> (int \<times> store_op) list \<Rightarrow> store" where
  "store_after E root ops = fold (\<lambda>(now, op). store_step E now op) ops (empty_store root)"

lemma store_after_Nil [simp]: "store_after E root [] = empty_store root"
  by (simp add: store_after_def)

lemma store_after_snoc [simp]:
  "store_after E root (ops @ [(now, op)]) = store_step E now op (store_after E root ops)"
  by (simp add: store_after_def)

lemma store_after_append:
  "store_after E root (ops @ ops') = fold (\<lambda>(now, op). store_step E now op) ops' (store_after E root ops)"
  by (simp add: store_after_def)

subsection \<open>The tables an operation changes\<close>

lemma commit_rule: "P st \<Longrightarrow> (\<And>x st'. r = Inr (x, st') \<Longrightarrow> P st') \<Longrightarrow> P (commit st r)"
  by (auto simp: commit_def split: sum.splits)

lemma transition_outcome [outcome]:
  "without_transition r = Inr (x, st') \<longleftrightarrow> r = Inr st'"
  "with_transition E b s r = Inr (x, st') \<longleftrightarrow>
     (\<exists>st1. r = Inr st1 \<and> st' = insert_transition (run_text E b) (phase b) s None None st1)"
  by (auto simp: without_transition_def with_transition_def outcome)

lemma update_one_turn_Inr [outcome]:
  "update_one_turn err p f st = Inr st' \<longleftrightarrow>
     count_rows p (st_turns st) = 1 \<and> st' = st\<lparr>st_turns := update_rows p f (st_turns st)\<rparr>"
  by (auto simp: update_one_turn_def outcome)

lemma insert_binding_Inr [outcome]:
  "insert_binding b st = Inr st' \<longleftrightarrow>
     (\<forall>r \<in> set (st_bindings st). bi_run (br_binding r) = bi_run b \<longrightarrow>
        bi_generation (br_binding r) \<noteq> bi_generation b \<and> \<not> br_active r)
     \<and> st' = st\<lparr>st_bindings := st_bindings st @ [\<lparr>br_binding = b, br_active = True\<rparr>]\<rparr>"
  by (auto simp: insert_binding_def outcome list_ex_iff)

lemma insert_transition_tables [simp]:
  "st_runs (insert_transition r f s a b st) = st_runs st"
  "st_locks (insert_transition r f s a b st) = st_locks st"
  "st_turns (insert_transition r f s a b st) = st_turns st"
  "st_patches (insert_transition r f s a b st) = st_patches st"
  "st_commands (insert_transition r f s a b st) = st_commands st"
  "st_bindings (insert_transition r f s a b st) = st_bindings st"
  "st_events (insert_transition r f s a b st) = st_events st"
  "st_root (insert_transition r f s a b st) = st_root st"
  by (simp_all add: insert_transition_def)

lemma insert_run_event_tables [simp]:
  "st_runs (insert_run_event L now b s st) = st_runs st"
  "st_locks (insert_run_event L now b s st) = st_locks st"
  "st_turns (insert_run_event L now b s st) = st_turns st"
  "st_patches (insert_run_event L now b s st) = st_patches st"
  "st_commands (insert_run_event L now b s st) = st_commands st"
  "st_bindings (insert_run_event L now b s st) = st_bindings st"
  "st_root (insert_run_event L now b s st) = st_root st"
  by (simp_all add: insert_run_event_def)

lemma archive_and_reset_turn_tables:
  assumes "archive_and_reset_turn r h th t d obs st = Inr st'"
  obtains p attempts archived completions where
    "st' = st\<lparr>st_attempts := attempts, st_archived := archived, st_completions := completions,
              st_turns := update_rows p reset_turn (st_turns st)\<rparr>"
  using assms by (auto simp: archive_and_reset_turn_def outcome Let_def)

text \<open>What every reactivation does to the tables that its turn does not touch.\<close>

definition turn_tables_only :: "(store \<Rightarrow> store_error + store) \<Rightarrow> bool" where
  "turn_tables_only turn \<longleftrightarrow>
     (\<forall>st st'. turn st = Inr st' \<longrightarrow>
        (\<exists>p attempts archived completions items.
           st' = st\<lparr>st_attempts := attempts, st_archived := archived, st_completions := completions,
                    st_items := items, st_turns := update_rows p reset_turn (st_turns st)\<rparr>))"

lemma update_rows_none [simp]: "update_rows (\<lambda>_. False) f xs = xs"
  by (simp add: update_rows_def)

lemma turn_tables_only_Inr: "turn_tables_only Inr"
  unfolding turn_tables_only_def
proof (intro allI impI)
  fix st st' :: store assume "Inr st = Inr st'"
  then have "st' = st\<lparr>st_attempts := st_attempts st, st_archived := st_archived st,
    st_completions := st_completions st, st_items := st_items st,
    st_turns := update_rows (\<lambda>_. False) reset_turn (st_turns st)\<rparr>" by simp
  then show "\<exists>p attempts archived completions items.
           st' = st\<lparr>st_attempts := attempts, st_archived := archived, st_completions := completions,
                    st_items := items, st_turns := update_rows p reset_turn (st_turns st)\<rparr>"
    by blast
qed

lemma turn_tables_only_archive: "turn_tables_only (archive_and_reset_turn r h th t d obs)"
  unfolding turn_tables_only_def
proof (intro allI impI)
  fix st st' assume "archive_and_reset_turn r h th t d obs st = Inr st'"
  then obtain p attempts archived completions where
    "st' = st\<lparr>st_attempts := attempts, st_archived := archived, st_completions := completions,
              st_turns := update_rows p reset_turn (st_turns st)\<rparr>"
    by (rule archive_and_reset_turn_tables)
  then have "st' = st\<lparr>st_attempts := attempts, st_archived := archived, st_completions := completions,
              st_items := st_items st, st_turns := update_rows p reset_turn (st_turns st)\<rparr>"
    by simp
  then show "\<exists>p attempts archived completions items.
           st' = st\<lparr>st_attempts := attempts, st_archived := archived, st_completions := completions,
                    st_items := items, st_turns := update_rows p reset_turn (st_turns st)\<rparr>"
    by blast
qed

text \<open>A reactivation is one of the guarded calls of \<open>reactivated\<close>.\<close>

lemma reactivate_reactivated:
  assumes "reactivate E now how b s st = Inr (x, st')"
  obtains turn st1 where "turn_tables_only turn"
    "reactivated E now s turn st = Inr st1"
    "st' = st1 \<or> st' = insert_transition (run_text E b) (phase b) s None None st1"
  using assms
  by (cases how)
     (auto simp: outcome Let_def archive_sent_def archive_accepted_def
        reactivate_blocked_run_with_completed_turn_retry_def
        reactivate_blocked_run_with_completed_turn_replay_def
        reactivate_blocked_run_with_verification_evidence_retry_def
        reactivate_blocked_run_with_unattended_verification_retry_def
        reactivate_blocked_run_with_interrupted_forbidden_operation_retry_def
        reactivate_blocked_run_with_accepted_execution_tool_retry_def
        reactivate_blocked_run_with_accepted_verification_environment_retry_def
        reactivate_blocked_run_with_corrective_patch_tool_retry_def
        reactivate_blocked_run_with_unsent_ephemeral_recreation_retry_def
        intro: turn_tables_only_archive turn_tables_only_Inr)

lemma turn_tables_only_collision:
  "turn_tables_only (\<lambda>st. attempt (ensure (count_rows p (st_completions st) = Suc 0) err) (\<lambda>_.
     Inr (st\<lparr>st_items := filter q (st_items st), st_completions := filter q' (st_completions st)\<rparr>)))"
  unfolding turn_tables_only_def
proof (intro allI impI)
  fix st st' :: store
  assume "attempt (ensure (count_rows p (st_completions st) = Suc 0) err) (\<lambda>_.
    Inr (st\<lparr>st_items := filter q (st_items st), st_completions := filter q' (st_completions st)\<rparr>)) = Inr st'"
  then have "st' = st\<lparr>st_attempts := st_attempts st, st_archived := st_archived st,
    st_completions := filter q' (st_completions st), st_items := filter q (st_items st),
    st_turns := update_rows (\<lambda>_. False) reset_turn (st_turns st)\<rparr>" by (auto simp: outcome)
  then show "\<exists>p attempts archived completions items.
           st' = st\<lparr>st_attempts := attempts, st_archived := archived, st_completions := completions,
                    st_items := items, st_turns := update_rows p reset_turn (st_turns st)\<rparr>"
    by blast
qed

lemma collision_reactivated:
  assumes "recover_v025_verification_completion_collision_in_store E now candidate s st = Inr (x, st')"
  obtains turn where "turn_tables_only turn" "reactivated E now s turn st = Inr st'"
    "restored recover_v025_verification_completion_collision (co_blocked candidate) s"
  using assms that
  by (auto simp: recover_v025_verification_completion_collision_in_store_def outcome Let_def
      intro: turn_tables_only_collision)

lemma candidate_stored:
  assumes "v025_verification_completion_collision_candidate st run_id = Inr (Some c)"
  obtains row where "run_row_of st run_id = Some row" "deserialize_state (rn_state row) = Inr (co_blocked c)"
  using assms
  by (auto simp: v025_verification_completion_collision_candidate_def collision_in_def Let_def outcome
      split: option.splits if_splits list.splits prod.splits)

subsection \<open>The state of a run and its lock\<close>

lemma serialize_state_Inr [outcome]:
  "serialize_state s = Inr j \<longleftrightarrow> j = s \<and> validate_persisted s = Inr () \<and> paths_utf8 s"
  by (auto simp: serialize_state_def outcome)

lemma deserialize_state_Inr [outcome]:
  "deserialize_state s = Inr j \<longleftrightarrow>
     j = s \<and> schema_version s = RUN_STATE_SCHEMA_VERSION \<and> validate_persisted s = Inr ()"
  by (auto simp: deserialize_state_def outcome)

lemma stored_state_Inr [outcome]:
  "stored_state st run_id = Inr s \<longleftrightarrow>
     (\<exists>row. run_row_of st run_id = Some row \<and> rn_state row = s
        \<and> schema_version s = RUN_STATE_SCHEMA_VERSION \<and> validate_persisted s = Inr ())"
  by (auto simp: stored_state_def outcome)

lemma load_run_Inr [outcome]:
  "load_run st run_id = Inr (Some s) \<longleftrightarrow> stored_state st run_id = Inr s"
  by (auto simp: load_run_def outcome split: option.splits)

definition put_state :: "string \<Rightarrow> int \<Rightarrow> run_state \<Rightarrow> run_row list \<Rightarrow> run_row list" where
  "put_state run_id now s =
     update_rows (\<lambda>r. rn_id r = run_id) (\<lambda>r. r\<lparr>rn_state := s, rn_updated_at := now\<rparr>)"

lemma update_run_row_tables:
  assumes "update_run_row L now run_id s st = Inr st'"
  obtains events where "st' = st\<lparr>st_runs := put_state run_id now s (st_runs st), st_events := events\<rparr>"
    "validate_persisted s = Inr ()" "paths_utf8 s"
proof -
  from assms obtain previous where s: "validate_persisted s = Inr ()" "paths_utf8 s"
    and st': "st' = (let st1 = st\<lparr>st_runs := put_state run_id now s (st_runs st)\<rparr>
                     in if same_state previous s then st1 else insert_run_event L now (Some previous) s st1)"
    unfolding update_run_row_def attempt_Inr serialize_state_Inr put_state_def by (auto simp: Let_def)
  show ?thesis
  proof (rule that)
    show "st' = st\<lparr>st_runs := put_state run_id now s (st_runs st), st_events := st_events st'\<rparr>"
      unfolding st' by (simp add: Let_def insert_run_event_def)
  qed (use s in simp_all)
qed

lemma acquire_lock_Inr [outcome]:
  "acquire_lock lossy run_id f st = Inr st' \<longleftrightarrow>
     (\<forall>l \<in> set (st_locks st). lk_repository l \<noteq> lossy (rf_git_common_dir f) \<and> lk_run l \<noteq> run_id
        \<and> lk_worktree l \<noteq> lossy (rf_primary_worktree f))
     \<and> st' = st\<lparr>st_locks := st_locks st @ [\<lparr>lk_repository = lossy (rf_git_common_dir f), lk_run = run_id,
                 lk_worktree = lossy (rf_primary_worktree f)\<rparr>]\<rparr>"
  by (auto simp: acquire_lock_def Let_def list_ex_iff)

lemma release_if_terminal_tables:
  "release_if_terminal run_id s st = st\<lparr>st_locks :=
     (if is_terminal (status s) then filter (\<lambda>l. lk_run l \<noteq> run_id) (st_locks st) else st_locks st)\<rparr>"
  by (simp add: release_if_terminal_def release_lock_def)

end
