(* ===== verification/Store_Locks.thy ===== *)
theory Store_Locks
  imports Store_Machine Run_Invariants
begin

text \<open>
  The runs of the store and their locks. The locale \<open>run_tables\<close> is the contract of an invariant of the
  tables of runs and locks: it holds for empty tables, and a start, an input to a run and a recovery
  keep it; no other operation changes these tables. It is interpreted twice: every stored state is a
  state of the machine of \<open>Run_Machine\<close>, and the locks are those of the runs that have not ended.
\<close>

definition lock_for :: "store_env \<Rightarrow> string \<Rightarrow> run_facts \<Rightarrow> lock_row" where
  "lock_for E run_id f =
     \<lparr>lk_repository = se_lossy E (rf_git_common_dir f), lk_run = run_id,
      lk_worktree = se_lossy E (rf_primary_worktree f)\<rparr>"

definition lock_free :: "lock_row \<Rightarrow> lock_row list \<Rightarrow> bool" where
  "lock_free l locks \<longleftrightarrow>
     (\<forall>l' \<in> set locks. lk_repository l' \<noteq> lk_repository l \<and> lk_run l' \<noteq> lk_run l \<and> lk_worktree l' \<noteq> lk_worktree l)"

definition locks_after :: "string \<Rightarrow> run_state \<Rightarrow> lock_row list \<Rightarrow> lock_row list" where
  "locks_after run_id s locks =
     (if is_terminal (status s) then filter (\<lambda>l. lk_run l \<noteq> run_id) locks else locks)"

lemma acquire_lock_for:
  "acquire_lock (se_lossy E) run_id f st = Inr st' \<longleftrightarrow>
     lock_free (lock_for E run_id f) (st_locks st)
     \<and> st' = st\<lparr>st_locks := st_locks st @ [lock_for E run_id f]\<rparr>"
  by (auto simp: acquire_lock_Inr lock_free_def lock_for_def)

definition journal_kept :: "store \<Rightarrow> store \<Rightarrow> bool" where
  "journal_kept st st' \<longleftrightarrow>
     st_patches st' = st_patches st \<and> st_commands st' = st_commands st \<and> st_bindings st' = st_bindings st
     \<and> st_root st' = st_root st"

definition new_row :: "store_env \<Rightarrow> int \<Rightarrow> run_state \<Rightarrow> run_row" where
  "new_row E now s =
     \<lparr>rn_id = run_text E s, rn_state = s, rn_primary_thread = rf_primary_thread_id (facts s),
      rn_reviewer_thread = rf_reviewer_thread_id (facts s), rn_updated_at = now\<rparr>"

lemma insert_run_tables:
  assumes "insert_run E now s st = Inr (x, st')"
  shows "validate_persisted s = Inr ()" "run_text E s \<notin> rn_id ` set (st_runs st)"
    "lock_free (lock_for E (run_text E s) (facts s)) (st_locks st)"
    "st_runs st' = st_runs st @ [new_row E now s]"
    "st_locks st' = st_locks st @ [lock_for E (run_text E s) (facts s)]"
    "st_turns st' = st_turns st" "journal_kept st st'"
  using assms
  by (auto simp: insert_run_def outcome Let_def run_row_of_def find_None_iff acquire_lock_for
      journal_kept_def new_row_def simp del: acquire_lock_Inr)

lemma update_run_row_kept:
  assumes "update_run_row L now run_id s st = Inr st'"
  shows "validate_persisted s = Inr ()" "st_runs st' = put_state run_id now s (st_runs st)"
    "st_locks st' = st_locks st" "st_turns st' = st_turns st" "journal_kept st st'"
  by (rule update_run_row_tables [OF assms]; simp add: journal_kept_def)+

lemma release_if_terminal_kept [simp]:
  "st_runs (release_if_terminal r s st) = st_runs st"
  "st_locks (release_if_terminal r s st) = locks_after r s (st_locks st)"
  "st_turns (release_if_terminal r s st) = st_turns st"
  "st_patches (release_if_terminal r s st) = st_patches st"
  "st_commands (release_if_terminal r s st) = st_commands st"
  "st_bindings (release_if_terminal r s st) = st_bindings st"
  "st_root (release_if_terminal r s st) = st_root st"
  by (simp_all add: release_if_terminal_tables locks_after_def)

lemma save_state_tables:
  assumes "save_state E now s st = Inr (x, st')"
  shows "validate_persisted s = Inr ()" "st_runs st' = put_state (run_text E s) now s (st_runs st)"
    "st_locks st' = locks_after (run_text E s) s (st_locks st)" "st_turns st' = st_turns st"
    "journal_kept st st'"
proof -
  obtain st1 where "update_run_row (se_libs E) now (run_text E s) s st = Inr st1"
    and "st' = release_if_terminal (run_text E s) s st1"
    using assms by (auto simp: save_state_def outcome)
  then show "validate_persisted s = Inr ()" "st_runs st' = put_state (run_text E s) now s (st_runs st)"
    "st_locks st' = locks_after (run_text E s) s (st_locks st)" "st_turns st' = st_turns st"
    "journal_kept st st'"
    using update_run_row_kept [of "se_libs E" now "run_text E s" s st st1] by (simp_all add: journal_kept_def)
qed

lemma accept_response_tables:
  assumes "accept_response_and_advance E now run_id response s st = Inr (x, st')"
  shows "validate_persisted s = Inr ()" "st_runs st' = put_state (run_text E s) now s (st_runs st)"
    "st_locks st' = locks_after (run_text E s) s (st_locks st)"
    "\<exists>p. st_turns st' = update_rows p (accept_turn response) (st_turns st)" "journal_kept st st'"
proof -
  obtain p st1 where "update_run_row (se_libs E) now (run_text E s) s
      (st\<lparr>st_turns := update_rows p (accept_turn response) (st_turns st)\<rparr>) = Inr st1"
    and "run_text E s = run_id"
    and "\<exists>from. st' = release_if_terminal (run_text E s) s
      (insert_transition run_id from s (reason_code s) (Some response) st1)"
    using assms by (auto simp: accept_response_and_advance_def outcome)
  then show "validate_persisted s = Inr ()" "st_runs st' = put_state (run_text E s) now s (st_runs st)"
    "st_locks st' = locks_after (run_text E s) s (st_locks st)"
    "\<exists>p. st_turns st' = update_rows p (accept_turn response) (st_turns st)" "journal_kept st st'"
    using update_run_row_kept [of "se_libs E" now "run_text E s" s
        "st\<lparr>st_turns := update_rows p (accept_turn response) (st_turns st)\<rparr>" st1]
    by (auto simp: journal_kept_def)
qed

lemma reactivated_tables:
  assumes "reactivated E now s turn st = Inr st'" and turn: "turn_tables_only turn"
  shows "validate_persisted s = Inr ()" "lock_free (lock_for E (run_text E s) (facts s)) (st_locks st)"
    "st_runs st' = put_state (run_text E s) now s (st_runs st)"
    "st_locks st' = st_locks st @ [lock_for E (run_text E s) (facts s)]"
    "\<exists>p. st_turns st' = update_rows p reset_turn (st_turns st)" "journal_kept st st'"
proof -
  let ?st1 = "st\<lparr>st_locks := st_locks st @ [lock_for E (run_text E s) (facts s)]\<rparr>"
  obtain st2 where free: "lock_free (lock_for E (run_text E s) (facts s)) (st_locks st)"
    and st2: "turn ?st1 = Inr st2" and st': "update_run_row (se_libs E) now (run_text E s) s st2 = Inr st'"
    using assms(1) unfolding reactivated_def attempt_Inr acquire_lock_for by blast
  obtain p attempts archived completions items where eq:
    "st2 = ?st1\<lparr>st_attempts := attempts, st_archived := archived, st_completions := completions,
                st_items := items, st_turns := update_rows p reset_turn (st_turns ?st1)\<rparr>"
    using turn st2 unfolding turn_tables_only_def by blast
  show "validate_persisted s = Inr ()" "lock_free (lock_for E (run_text E s) (facts s)) (st_locks st)"
    "st_runs st' = put_state (run_text E s) now s (st_runs st)"
    "st_locks st' = st_locks st @ [lock_for E (run_text E s) (facts s)]"
    "\<exists>p. st_turns st' = update_rows p reset_turn (st_turns st)" "journal_kept st st'"
    using update_run_row_kept [OF st'] free by (auto simp: eq journal_kept_def)
qed

lemma reactivate_tables:
  assumes "reactivate E now how b s st = Inr (x, st')"
  shows "validate_persisted s = Inr ()" "lock_free (lock_for E (run_text E s) (facts s)) (st_locks st)"
    "st_runs st' = put_state (run_text E s) now s (st_runs st)"
    "st_locks st' = st_locks st @ [lock_for E (run_text E s) (facts s)]"
    "\<exists>p. st_turns st' = update_rows p reset_turn (st_turns st)" "journal_kept st st'"
proof -
  obtain turn st1 where "turn_tables_only turn" "reactivated E now s turn st = Inr st1"
    "st' = st1 \<or> st' = insert_transition (run_text E b) (phase b) s None None st1"
    using assms by (rule reactivate_reactivated)
  then show "validate_persisted s = Inr ()" "lock_free (lock_for E (run_text E s) (facts s)) (st_locks st)"
    "st_runs st' = put_state (run_text E s) now s (st_runs st)"
    "st_locks st' = st_locks st @ [lock_for E (run_text E s) (facts s)]"
    "\<exists>p. st_turns st' = update_rows p reset_turn (st_turns st)" "journal_kept st st'"
    using reactivated_tables [of E now s turn st st1] by (auto simp: journal_kept_def)
qed

subsection \<open>Invariants of the tables\<close>

lemma run_row_of_member: "run_row_of st run_id = Some row \<Longrightarrow> row \<in> set (st_runs st) \<and> rn_id row = run_id"
  by (auto simp: run_row_of_def find_Some_iff)

lemma stepped_step:
  assumes "stepped E st run_id i = Some s"
  obtains row where "row \<in> set (st_runs st)" "\<not> is_recovery i" "perform (se_libs E) i (rn_state row) = (Inr (), s)"
proof -
  obtain b where "load_run st run_id = Inr (Some b)" and p: "perform (se_libs E) i b = (Inr (), s)" "\<not> is_recovery i"
    using assms by (auto simp: stepped_def split: sum.splits option.splits if_splits prod.splits)
  then obtain row where "row \<in> set (st_runs st)" "rn_state row = b"
    by (auto simp: outcome dest: run_row_of_member)
  with p that show ?thesis by blast
qed

fun run_op :: "store_op \<Rightarrow> bool" where
  "run_op (StartRun _ _ _) = True"
| "run_op (Save _ _) = True"
| "run_op (AcceptResponse _ _ _) = True"
| "run_op (Reactivate _ _ _) = True"
| "run_op (RecoverCollision _) = True"
| "run_op _ = False"

definition runs_kept :: "store \<Rightarrow> store \<Rightarrow> bool" where
  "runs_kept st st' \<longleftrightarrow>
     st_runs st' = st_runs st \<and> st_locks st' = st_locks st \<and> st_events st' = st_events st"

definition turns_only :: "store \<Rightarrow> store \<Rightarrow> bool" where
  "turns_only st st' \<longleftrightarrow> runs_kept st st' \<and> journal_kept st st'"

lemmas kept_defs = turns_only_def runs_kept_def journal_kept_def

lemma turns_only_refl [simp]: "turns_only st st"
  by (simp add: kept_defs)

lemma turns_only_archive:
  assumes "archive_and_reset_turn r h th t d obs st = Inr st'"
  shows "turns_only st st'"
  by (rule archive_and_reset_turn_tables [OF assms]; simp add: kept_defs)

lemma turns_only_pending: "record_pending_send_with_binding r role ph n h g st = Inr (x, st') \<Longrightarrow> turns_only st st'"
  by (auto simp: record_pending_send_with_binding_def outcome kept_defs split: if_splits)

lemma turns_only_intent: "record_turn_start_intent now r h st = Inr (x, st') \<Longrightarrow> turns_only st st'"
  by (auto simp: record_turn_start_intent_def outcome kept_defs)

lemma turns_only_start: "turns_only st (snd (record_turn_started_with_generation r h th t fresh st))"
  by (simp add: record_turn_started_with_generation_def Let_def kept_defs)

lemma turns_only_item:
  assumes "record_turn_item_event r th t method item st = Inr (x, st')"
  shows "turns_only st st'"
proof -
  have "\<exists>items. st' = st\<lparr>st_items := items\<rparr> \<or> st' = st"
    using assms unfolding record_turn_item_event_def attempt_Inr
    by (elim exE conjE) (auto simp: outcome split: option.splits if_splits)
  then show ?thesis by (auto simp: kept_defs)
qed

lemma turns_only_completed:
  assumes "record_turn_completed_event r th t turn st = Inr (x, st')"
  shows "turns_only st st'"
proof -
  have "\<exists>completions. st' = st\<lparr>st_completions := completions\<rparr> \<or> st' = st"
    using assms unfolding record_turn_completed_event_def attempt_Inr
    by (elim exE conjE) (auto simp: outcome split: option.splits)
  then show ?thesis by (auto simp: kept_defs)
qed

lemma turns_only_reset: "reset_with_status ok what r h th t obs st = Inr (x, st') \<Longrightarrow> turns_only st st'"
  by (auto simp: reset_with_status_def archive_sent_def outcome dest: turns_only_archive)

lemma turns_only_eventless:
  "reset_eventless_successful_patch_turn_for_retry r h th t st = Inr (x, st') \<Longrightarrow> turns_only st st'"
  by (auto simp: reset_eventless_successful_patch_turn_for_retry_def archive_sent_def outcome
      dest: turns_only_archive)

lemma turns_only_restore:
  "restore_archived_completed_turn_after_ephemeral_loss r h th t th' t' st = Inr (x, st') \<Longrightarrow> turns_only st st'"
  unfolding restore_archived_completed_turn_after_ephemeral_loss_def attempt_Inr
  by (elim exE conjE) (simp add: outcome kept_defs)

text \<open>The operations that do not store the state of a run.\<close>

fun turn_op :: "store_op \<Rightarrow> bool" where
  "turn_op (RecordPending _ _ _ _ _ _) = True"
| "turn_op (StartIntent _ _) = True"
| "turn_op (StartTurn _ _ _ _ _) = True"
| "turn_op (ItemEvent _ _ _ _ _) = True"
| "turn_op (CompletedEvent _ _ _ _) = True"
| "turn_op (ResetTerminal _ _ _ _ _) = True"
| "turn_op (ResetReadOnly _ _ _ _ _) = True"
| "turn_op (ResetToolFailure _ _ _ _ _) = True"
| "turn_op (ResetEventless _ _ _ _) = True"
| "turn_op (RestoreArchived _ _ _ _ _ _) = True"
| "turn_op _ = False"

fun binding_op :: "store_op \<Rightarrow> bool" where
  "binding_op (ActivateBinding _ _ _ _ _ _) = True"
| "binding_op (RotateBinding _ _ _ _ _ _) = True"
| "binding_op (InitialBinding _ _ _) = True"
| "binding_op (BindPending _) = True"
| "binding_op _ = False"

lemma turns_only_commit: "(\<And>x st'. r = Inr (x, st') \<Longrightarrow> turns_only st st') \<Longrightarrow> turns_only st (commit st r)"
  by (rule commit_rule) simp_all

lemma turn_op_only: "turn_op op \<Longrightarrow> turns_only st (store_step E now op st)"
  by (cases op)
     (auto simp: turns_only_start reset_terminal_turn_for_retry_def reset_completed_read_only_turn_for_retry_def
        reset_completed_integration_tool_failure_turn_for_retry_def
        dest: turns_only_pending turns_only_intent turns_only_item turns_only_completed turns_only_reset
          turns_only_eventless turns_only_restore
        intro!: turns_only_commit)

lemma patch_step:
  assumes "record_successful_patch_with_provenance r h p source effective g st = Inr (x, st')"
  shows "\<not> list_ex (\<lambda>q. pa_run q = r \<and> pa_hash q = h) (st_patches st)"
    "st' = st\<lparr>st_patches := st_patches st @ [\<lparr>pa_run = r, pa_hash = h, pa_patch = p, pa_source = source,
                pa_effective = effective, pa_binding = g\<rparr>]\<rparr>"
  using assms
  by (auto simp: record_successful_patch_with_provenance_def outcome split: if_splits)

definition commands_only :: "store \<Rightarrow> store \<Rightarrow> bool" where
  "commands_only st st' \<longleftrightarrow> st' = st\<lparr>st_commands := st_commands st'\<rparr>"

definition bindings_only :: "store \<Rightarrow> store \<Rightarrow> bool" where
  "bindings_only st st' \<longleftrightarrow> st' = st\<lparr>st_bindings := st_bindings st', st_turns := st_turns st'\<rparr>"

lemma commands_only_begin: "begin_verification_command r h t n c cwd st = Inr (x, st') \<Longrightarrow> commands_only st st'"
  unfolding begin_verification_command_def attempt_Inr Let_def
  by (elim exE conjE) (auto simp: commands_only_def split: list.splits if_splits lifecycle.splits)

lemma commands_only_complete: "complete_verification_command r h n code out err st = Inr (x, st') \<Longrightarrow> commands_only st st'"
  unfolding complete_verification_command_def attempt_Inr Let_def
  by (elim exE conjE) (auto simp: outcome commands_only_def split: if_splits lifecycle.splits)

lemma bindings_only_activate:
  "activate_primary_binding now r source effective mode server history st = Inr (x, st') \<Longrightarrow> bindings_only st st'"
  unfolding activate_primary_binding_def attempt_Inr Let_def
  by (elim exE conjE)
     (auto simp: outcome deactivate_def bindings_only_def split: prod.splits option.splits if_splits)

lemma bindings_only_rotate:
  "rotate_ephemeral_primary_binding_for_unsent_pending now r g source effective server history st = Inr (x, st')
   \<Longrightarrow> bindings_only st st'"
  unfolding rotate_ephemeral_primary_binding_for_unsent_pending_def attempt_Inr Let_def
  by (elim exE conjE) (auto simp: outcome deactivate_def bindings_only_def split: prod.splits)

lemma bindings_only_initial:
  "activate_initial_direct_binding_for_pending_send now r source server st = Inr (x, st') \<Longrightarrow> bindings_only st st'"
  unfolding activate_initial_direct_binding_for_pending_send_def attempt_Inr Let_def
  by (elim exE conjE) (auto simp: outcome bindings_only_def split: prod.splits)

lemma bindings_only_bind:
  "bind_unsent_primary_pending_to_active_binding r st = Inr (x, st') \<Longrightarrow> bindings_only st st'"
  unfolding bind_unsent_primary_pending_to_active_binding_def attempt_Inr
  by (elim exE conjE) (auto simp: outcome bindings_only_def split: option.splits)

lemma commands_only_commit: "(\<And>x st'. r = Inr (x, st') \<Longrightarrow> commands_only st st') \<Longrightarrow> commands_only st (commit st r)"
  by (rule commit_rule) (simp_all add: commands_only_def)

lemma bindings_only_commit: "(\<And>x st'. r = Inr (x, st') \<Longrightarrow> bindings_only st st') \<Longrightarrow> bindings_only st (commit st r)"
  by (rule commit_rule) (simp_all add: bindings_only_def)

lemma binding_op_only: "binding_op op \<Longrightarrow> bindings_only st (store_step E now op st)"
  by (cases op)
     (auto dest: bindings_only_activate bindings_only_rotate bindings_only_initial bindings_only_bind
       intro!: bindings_only_commit)

lemma command_op_only:
  "commands_only st (store_step E now (BeginCommand r h t n c cwd) st)"
  "commands_only st (store_step E now (CompleteCommand r h n code out err) st)"
  by (auto dest: commands_only_begin commands_only_complete intro!: commands_only_commit)

lemma patch_op_only:
  "store_step E now (RecordPatch r h p source effective g) st
   = st\<lparr>st_patches := st_patches (store_step E now (RecordPatch r h p source effective g) st)\<rparr>"
  by (auto dest!: patch_step(2) intro!: commit_rule [where P = "\<lambda>st'. st' = st\<lparr>st_patches := st_patches st'\<rparr>"])

text \<open>Record updates in \<open>commands_only\<close> and the others, read table by table.\<close>

lemma only_runs:
  "commands_only st st' \<Longrightarrow> runs_kept st st'"
  "bindings_only st st' \<Longrightarrow> runs_kept st st'"
  "st' = st\<lparr>st_patches := st_patches st'\<rparr> \<Longrightarrow> runs_kept st st'"
  unfolding commands_only_def bindings_only_def runs_kept_def by (metis store.select_convs store.update_convs store.surjective)+

lemma journal_op_runs:
  assumes "\<not> run_op op"
  shows "runs_kept st (store_step E now op st)"
proof (cases "turn_op op \<or> binding_op op")
  case True
  then show ?thesis
    using turn_op_only [of op st E now] only_runs(2) [OF binding_op_only [of op st E now]]
    by (auto simp: turns_only_def)
next
  case False
  with assms show ?thesis
    using only_runs(1) [OF command_op_only(1) [of st E now]] only_runs(1) [OF command_op_only(2) [of st E now]]
      only_runs(3) [OF patch_op_only [of E now _ _ _ _ _ _ st]]
    by (cases op) (simp_all del: store_step.simps)
qed

locale run_tables =
  fixes E :: store_env and I :: "run_row list \<Rightarrow> lock_row list \<Rightarrow> bool"
  assumes empty: "I [] []"
    and started: "I runs locks \<Longrightarrow> started_run f branch commands = Some s \<Longrightarrow> validate_persisted s = Inr () \<Longrightarrow>
      run_text E s \<notin> rn_id ` set runs \<Longrightarrow>
      lock_free (lock_for E (run_text E s) (facts s)) locks \<Longrightarrow>
      I (runs @ [new_row E now s]) (locks @ [lock_for E (run_text E s) (facts s)])"
    and advanced: "I runs locks \<Longrightarrow> row \<in> set runs \<Longrightarrow> \<not> is_recovery i \<Longrightarrow>
      perform (se_libs E) i (rn_state row) = (Inr (), s) \<Longrightarrow> validate_persisted s = Inr () \<Longrightarrow>
      I (put_state (run_text E s) now s runs) (locks_after (run_text E s) s locks)"
    and recovered: "I runs locks \<Longrightarrow> row \<in> set runs \<Longrightarrow>
      perform (se_libs E) (Recover k) (rn_state row) = (Inr (), s) \<Longrightarrow> validate_persisted s = Inr () \<Longrightarrow>
      lock_free (lock_for E (run_text E s) (facts s)) locks \<Longrightarrow>
      I (put_state (run_text E s) now s runs) (locks @ [lock_for E (run_text E s) (facts s)])"
begin

definition holds :: "store \<Rightarrow> bool" where
  "holds st \<longleftrightarrow> I (st_runs st) (st_locks st)"

lemma holds_unchanged: "holds st \<Longrightarrow> st_runs st' = st_runs st \<Longrightarrow> st_locks st' = st_locks st \<Longrightarrow> holds st'"
  by (simp add: holds_def)

lemma start_holds:
  assumes "holds st"
  shows "holds (store_step E now (StartRun f branch commands) st)"
proof (cases "started_run f branch commands")
  case (Some s)
  have "holds st'" if "insert_run E now s st = Inr (x, st')" for x st'
    using insert_run_tables [OF that] started [OF assms [unfolded holds_def] Some] by (simp add: holds_def)
  with Some show ?thesis by (simp add: commit_rule assms)
qed (simp add: assms)

lemma advance_holds:
  assumes "holds st" "stepped E st run_id i = Some s" "validate_persisted s = Inr ()"
    "st_runs st' = put_state (run_text E s) now s (st_runs st)"
    "st_locks st' = locks_after (run_text E s) s (st_locks st)"
  shows "holds st'"
  using assms(2)
proof (rule stepped_step)
  fix row assume "row \<in> set (st_runs st)" "\<not> is_recovery i" "perform (se_libs E) i (rn_state row) = (Inr (), s)"
  then show ?thesis using advanced [OF assms(1) [unfolded holds_def]] assms(3-5) by (simp add: holds_def)
qed

lemma save_holds:
  assumes "holds st"
  shows "holds (store_step E now (Save run_id i) st)"
proof (cases "stepped E st run_id i")
  case (Some s)
  have "holds st'" if "save_state E now s st = Inr (x, st')" for x st'
    using save_state_tables [OF that] by (blast intro: advance_holds [OF assms Some])
  with Some show ?thesis by (simp add: commit_rule assms)
qed (simp add: assms)

lemma accept_holds:
  assumes "holds st"
  shows "holds (store_step E now (AcceptResponse run_id response i) st)"
proof (cases "stepped E st run_id i")
  case (Some s)
  have "holds st'" if "accept_response_and_advance E now run_id response s st = Inr (x, st')" for x st'
    using accept_response_tables [OF that] by (blast intro: advance_holds [OF assms Some])
  with Some show ?thesis by (simp add: commit_rule assms)
qed (simp add: assms)

lemma recover_holds:
  assumes "holds st" "stored_state st run_id = Inr b" "recover (se_libs E) k b = (Inr a, s)"
    "validate_persisted s = Inr ()" "lock_free (lock_for E (run_text E s) (facts s)) (st_locks st)"
    "st_runs st' = put_state (run_text E s) now s (st_runs st)"
    "st_locks st' = st_locks st @ [lock_for E (run_text E s) (facts s)]"
  shows "holds st'"
proof -
  obtain row where "row \<in> set (st_runs st)" "rn_state row = b"
    using assms(2) by (auto simp: stored_state_Inr dest: run_row_of_member)
  moreover have "perform (se_libs E) (Recover k) b = (Inr (), s)"
    using assms(3) by (auto simp: discard_Inr)
  ultimately show ?thesis
    using recovered [OF assms(1) [unfolded holds_def]] assms(4-) by (simp add: holds_def)
qed

lemma reactivate_holds:
  assumes "holds st"
  shows "holds (store_step E now (Reactivate run_id k how) st)"
proof (cases "\<exists>b a s. stored_state st run_id = Inr b \<and> recover (se_libs E) k b = (Inr a, s)")
  case True
  then obtain b a s where b: "stored_state st run_id = Inr b" "recover (se_libs E) k b = (Inr a, s)" by blast
  have "holds st'" if "reactivate E now how b s st = Inr (x, st')" for x st'
    using reactivate_tables [OF that] by (blast intro: recover_holds [OF assms b])
  with b show ?thesis
    by (simp add: reactivated_run_def load_run_Inr [THEN iffD2] commit_rule assms)
next
  case False
  then have "reactivated_run E now run_id k how st = st"
    by (auto simp: reactivated_run_def load_run_Inr split: sum.splits option.splits prod.splits)
  with assms show ?thesis by simp
qed

lemma collision_holds:
  assumes "holds st"
  shows "holds (store_step E now (RecoverCollision run_id) st)"
proof (cases "\<exists>c. v025_verification_completion_collision_candidate st run_id = Inr (Some c)")
  case True
  then obtain c where c: "v025_verification_completion_collision_candidate st run_id = Inr (Some c)" by blast
  let ?s = "snd (recover_v025_verification_completion_collision (co_blocked c))"
  have "holds st'"
    if "recover_v025_verification_completion_collision_in_store E now c ?s st = Inr (x, st')" for x st'
    using that
  proof (rule collision_reactivated)
    fix turn
    assume turn: "turn_tables_only turn" "reactivated E now ?s turn st = Inr st'"
      and "restored recover_v025_verification_completion_collision (co_blocked c) ?s"
    then obtain a where "recover (se_libs E) V025VerificationCompletionCollision (co_blocked c) = (Inr a, ?s)"
      by (cases "recover_v025_verification_completion_collision (co_blocked c)") (auto simp: restored_def outcome)
    moreover have "stored_state st run_id = Inr (co_blocked c)"
      by (rule candidate_stored [OF c]) (auto simp: stored_state_def ok_or_def)
    ultimately show ?thesis
      using reactivated_tables [OF turn(2,1)] by (blast intro: recover_holds [OF assms])
  qed
  with c show ?thesis by (simp add: recovered_collision_def commit_rule assms)
next
  case False
  then have "recovered_collision E now run_id st = st"
    by (auto simp: recovered_collision_def split: sum.splits option.splits)
  with assms show ?thesis by simp
qed

lemma step_holds: "holds st \<Longrightarrow> holds (store_step E now op st)"
proof (cases "run_op op")
  case True
  then show "holds st \<Longrightarrow> ?thesis"
    by (cases op) (simp_all add: start_holds save_holds accept_holds reactivate_holds collision_holds
        del: store_step.simps)
next
  case False
  then show "holds st \<Longrightarrow> ?thesis" by (meson holds_unchanged journal_op_runs runs_kept_def)
qed

lemma always: "holds (store_after E root ops)"
proof (induction ops rule: rev_induct)
  case Nil
  show ?case by (simp add: holds_def empty_store_def empty)
next
  case (snoc x ops)
  then show ?case by (cases x) (simp add: step_holds del: store_step.simps)
qed

end

end
