(* ===== verification/Store_Properties.thy ===== *)
theory Store_Properties
  imports Store_Locks Run_Properties
begin

text \<open>
  The properties of the store: what it holds of every run, which runs are active at a time, and what its
  journal keeps of commands, patches and bindings.
\<close>

subsection \<open>Stored runs are runs of the machine\<close>

lemma put_state_member:
  assumes "row \<in> set (put_state run_id now s runs)"
  obtains "row \<in> set runs" "rn_id row \<noteq> run_id" | old where "old \<in> set runs" "rn_id old = run_id"
    "row = old\<lparr>rn_state := s, rn_updated_at := now\<rparr>"
  using assms by (auto simp: put_state_def update_rows_def split: if_splits)

lemma put_state_ids [simp]: "map rn_id (put_state run_id now s runs) = map rn_id runs"
  by (auto simp: put_state_def update_rows_def)

definition is_run_of :: "store_env \<Rightarrow> run_row \<Rightarrow> bool" where
  "is_run_of E row \<longleftrightarrow>
     (\<exists>f is. rn_state row = run_of (se_libs E) f is \<and> rn_id row = uuid_text (se_libs E) (rf_run_id f))"

lemma run_of_facts: "facts (run_of L f is) = f"
  using run_ok_always [of f L "is"] by (simp add: run_ok_def fixed_fields_def)

lemma run_of_perform:
  assumes "perform L i (run_of L f is) = (Inr (), s)" "validate_persisted s = Inr ()"
  shows "s = run_of L f (is @ [i])"
  using assms by (simp add: run_step_def persist_def)

lemma is_run_of_step:
  assumes "is_run_of E row" "perform (se_libs E) i (rn_state row) = (Inr (), s)" "validate_persisted s = Inr ()"
  shows "facts s = facts (rn_state row)" "rn_id row = run_text E s"
    "rn_id row' = run_text E s \<Longrightarrow> rn_state row' = s \<Longrightarrow> is_run_of E row'"
proof -
  obtain f "is" where r: "rn_state row = run_of (se_libs E) f is" "rn_id row = uuid_text (se_libs E) (rf_run_id f)"
    using assms(1) by (auto simp: is_run_of_def)
  then have s: "s = run_of (se_libs E) f (is @ [i])" using assms(2,3) run_of_perform by metis
  then have f: "facts s = f" by (simp only: run_of_facts)
  show "facts s = facts (rn_state row)" using f r(1) by (simp add: run_of_facts)
  show "rn_id row = run_text E s" using f r(2) by (simp add: run_text_def)
  show "is_run_of E row'" if "rn_id row' = run_text E s" "rn_state row' = s"
    unfolding is_run_of_def using that s f by (intro exI [of _ f] exI [of _ "is @ [i]"]) (simp add: run_text_def)
qed

lemma started_run_of:
  assumes "started_run f branch commands = Some s" "validate_persisted s = Inr ()"
  shows "s = run_of L f [Configure branch commands]"
proof -
  have "perform L (Configure branch commands) (run_of L f []) = (Inr (), s)"
    using assms(1) by (auto simp: started_run_def split: prod.splits sum.splits)
  then show ?thesis using run_of_perform [of L _ f "[]"] assms(2) by simp
qed

lemma new_row_run_of:
  assumes "started_run f branch commands = Some s" "validate_persisted s = Inr ()"
  shows "is_run_of E (new_row E now s)"
proof -
  let ?L = "se_libs E"
  have s: "s = run_of ?L f [Configure branch commands]" by (rule started_run_of [OF assms])
  then have "facts s = f" by (simp only: run_of_facts)
  with s show ?thesis
    unfolding is_run_of_def by (intro exI [of _ f] exI [of _ "[Configure branch commands]"])
      (simp add: new_row_def run_text_def)
qed

lemma put_state_run_of:
  assumes "\<forall>row \<in> set runs. is_run_of E row" "row \<in> set runs"
    "perform (se_libs E) i (rn_state row) = (Inr (), s)" "validate_persisted s = Inr ()"
  shows "\<forall>row \<in> set (put_state (run_text E s) now s runs). is_run_of E row"
  using assms is_run_of_step(3) [of E row i s]
  by (auto simp del: perform.simps elim!: put_state_member)

interpretation stored_runs: run_tables E "\<lambda>runs locks. \<forall>row \<in> set runs. is_run_of E row" for E
  by unfold_locales (auto simp del: perform.simps intro: new_row_run_of put_state_run_of [THEN bspec])


subsection \<open>One active run for a repository\<close>

definition active_row :: "run_row \<Rightarrow> bool" where
  "active_row row \<longleftrightarrow> \<not> is_terminal (status (rn_state row))"

definition lock_of_row :: "store_env \<Rightarrow> run_row \<Rightarrow> lock_row" where
  "lock_of_row E row = lock_for E (rn_id row) (facts (rn_state row))"

text \<open>The locks are those of the runs that have not ended, and no two have a key in common.\<close>

definition locks_exact :: "store_env \<Rightarrow> run_row list \<Rightarrow> lock_row list \<Rightarrow> bool" where
  "locks_exact E runs locks \<longleftrightarrow>
     (\<forall>row \<in> set runs. is_run_of E row) \<and> distinct (map rn_id runs)
     \<and> distinct (map lk_repository locks) \<and> distinct (map lk_worktree locks)
     \<and> set locks = lock_of_row E ` {row \<in> set runs. active_row row}"

lemma facts_step:
  assumes "transition L i s s'"
  shows "facts s' = facts s"
  using assms
proof cases
  case (verification_ready message m ev)
  then show ?thesis by (cases rule: verification_outcome_cases [of ev s m]) (simp_all add: block_def)
next
  case (changes_required message m)
  then show ?thesis by (cases rule: changes_outcome_cases [of L m s]) (simp_all add: block_def)
qed (simp_all add: state_ops)

text \<open>Only a recovery makes a run that has ended go on.\<close>

lemma terminal_step:
  assumes "perform L i s = (Inr (), s')" "\<not> is_recovery i" "is_terminal (status s)"
  shows "is_terminal (status s')"
  using perform_transition [OF assms(1)]
proof
  assume "transition L i s s'"
  then show ?thesis
    using assms(2,3) by cases (auto simp: state_ops current_message_def accepted_message_def)
qed (simp add: assms(3))

lemma recovered_active:
  assumes "perform L (Recover k) s = (Inr (), s')"
  shows "status s = SBlocked" "status s' = SRunning"
  using assms by (auto simp: discard_Inr reopened_def elim!: recover_Inr)

lemma started_active: "started_run f branch commands = Some s \<Longrightarrow> status s = SRunning"
  by (auto simp: started_run_def configure_integration_Inr new_run_def split: prod.splits sum.splits)

lemma put_state_set:
  assumes "distinct (map rn_id runs)" "row \<in> set runs"
  shows "set (put_state (rn_id row) now s runs)
    = insert (row\<lparr>rn_state := s, rn_updated_at := now\<rparr>) {r \<in> set runs. rn_id r \<noteq> rn_id row}"
proof -
  have "r = row" if "r \<in> set runs" "rn_id r = rn_id row" for r
    using assms that by (auto simp: distinct_map inj_on_def)
  with assms(2) show ?thesis by (auto simp: put_state_def update_rows_def image_iff)
qed

lemma lock_of_row_run [simp]: "lk_run (lock_of_row E row) = rn_id row"
  by (simp add: lock_of_row_def lock_for_def)

lemma lock_of_row_put:
  assumes "facts s = facts (rn_state row)"
  shows "lock_of_row E (row\<lparr>rn_state := s, rn_updated_at := now\<rparr>) = lock_of_row E row"
  using assms by (simp add: lock_of_row_def)

lemma locks_started:
  assumes ok: "locks_exact E runs locks" and s: "started_run f branch commands = Some s"
    "validate_persisted s = Inr ()" "run_text E s \<notin> rn_id ` set runs"
    and free: "lock_free (lock_for E (run_text E s) (facts s)) locks"
  shows "locks_exact E (runs @ [new_row E now s]) (locks @ [lock_for E (run_text E s) (facts s)])"
proof -
  have "active_row (new_row E now s)"
    using started_active [OF s(1)] by (simp add: active_row_def new_row_def)
  moreover have "lock_of_row E (new_row E now s) = lock_for E (run_text E s) (facts s)"
    by (simp add: lock_of_row_def new_row_def)
  moreover have "rn_id (new_row E now s) = run_text E s" by (simp add: new_row_def)
  moreover have "{r \<in> set (runs @ [new_row E now s]). active_row r}
      = insert (new_row E now s) {r \<in> set runs. active_row r}"
    using \<open>active_row (new_row E now s)\<close> by auto
  ultimately show ?thesis
    using ok s(3) free new_row_run_of [OF s(1,2), of E now] unfolding locks_exact_def lock_free_def
    by (auto simp: image_iff)
qed

text \<open>The state of one run is replaced and its lock released or taken accordingly.\<close>

lemma locks_put:
  assumes ok: "locks_exact E runs locks" and row: "row \<in> set runs"
    and s: "facts s = facts (rn_state row)" "rn_id row = run_text E s"
    "\<forall>r \<in> set (put_state (run_text E s) now s runs). is_run_of E r"
    and keys: "distinct (map lk_repository locks')" "distinct (map lk_worktree locks')"
    and locks': "set locks' = {l \<in> set locks. lk_run l \<noteq> rn_id row}
      \<union> (if is_terminal (status s) then {} else {lock_of_row E row})"
  shows "locks_exact E (put_state (run_text E s) now s runs) locks'"
proof -
  let ?row = "row\<lparr>rn_state := s, rn_updated_at := now\<rparr>"
  have ids: "distinct (map rn_id runs)" and eq: "set locks = lock_of_row E ` {r \<in> set runs. active_row r}"
    using ok by (simp_all add: locks_exact_def)
  have "{r \<in> set (put_state (run_text E s) now s runs). active_row r}
      = {r \<in> set runs. active_row r \<and> rn_id r \<noteq> rn_id row} \<union> (if is_terminal (status s) then {} else {?row})"
    unfolding put_state_set [OF ids row, of now s, unfolded s(2)] s(2) by (auto simp: active_row_def)
  then have "lock_of_row E ` {r \<in> set (put_state (run_text E s) now s runs). active_row r} = set locks'"
    unfolding locks' eq using lock_of_row_put [OF s(1)] by auto
  with s(3) ids keys show ?thesis by (simp add: locks_exact_def)
qed

lemma locks_advanced:
  assumes ok: "locks_exact E runs locks" and row: "row \<in> set runs" and i: "\<not> is_recovery i"
    and p: "perform (se_libs E) i (rn_state row) = (Inr (), s)" "validate_persisted s = Inr ()"
  shows "locks_exact E (put_state (run_text E s) now s runs) (locks_after (run_text E s) s locks)"
proof (rule locks_put [OF ok row])
  have runs: "\<forall>row \<in> set runs. is_run_of E row" and eq: "set locks = lock_of_row E ` {r \<in> set runs. active_row r}"
    and ids: "distinct (map rn_id runs)"
    and keys: "distinct (map lk_repository locks)" "distinct (map lk_worktree locks)"
    using ok by (simp_all add: locks_exact_def)
  then show "facts s = facts (rn_state row)" and id: "rn_id row = run_text E s"
    using is_run_of_step(1,2) [OF _ p] row by simp_all
  show "\<forall>r \<in> set (put_state (run_text E s) now s runs). is_run_of E r"
    by (rule put_state_run_of [OF runs row p])
  show "distinct (map lk_repository (locks_after (run_text E s) s locks))"
    "distinct (map lk_worktree (locks_after (run_text E s) s locks))"
    using keys by (simp_all add: locks_after_def distinct_map_filter)
  have mem: "l \<in> set locks \<and> lk_run l = rn_id row \<longleftrightarrow> l = lock_of_row E row \<and> active_row row" for l
    unfolding eq using row ids by (auto simp: distinct_map inj_on_def)
  have "active_row row" if "\<not> is_terminal (status s)"
    using terminal_step [OF p(1) i] that by (auto simp: active_row_def)
  then show "set (locks_after (run_text E s) s locks) = {l \<in> set locks. lk_run l \<noteq> rn_id row}
      \<union> (if is_terminal (status s) then {} else {lock_of_row E row})"
    using mem id by (auto simp: locks_after_def)
qed

lemma locks_recovered:
  assumes ok: "locks_exact E runs locks" and row: "row \<in> set runs"
    and p: "perform (se_libs E) (Recover k) (rn_state row) = (Inr (), s)" "validate_persisted s = Inr ()"
    and free: "lock_free (lock_for E (run_text E s) (facts s)) locks"
  shows "locks_exact E (put_state (run_text E s) now s runs) (locks @ [lock_for E (run_text E s) (facts s)])"
proof (rule locks_put [OF ok row])
  have runs: "\<forall>row \<in> set runs. is_run_of E row"
    and keys: "distinct (map lk_repository locks)" "distinct (map lk_worktree locks)"
    using ok by (simp_all add: locks_exact_def)
  then show f: "facts s = facts (rn_state row)" and id: "rn_id row = run_text E s"
    using is_run_of_step(1,2) [OF _ p] row by simp_all
  show "\<forall>r \<in> set (put_state (run_text E s) now s runs). is_run_of E r"
    by (rule put_state_run_of [OF runs row p])
  show "distinct (map lk_repository (locks @ [lock_for E (run_text E s) (facts s)]))"
    "distinct (map lk_worktree (locks @ [lock_for E (run_text E s) (facts s)]))"
    using keys free by (auto simp: lock_free_def)
  have "lock_for E (run_text E s) (facts s) = lock_of_row E row" by (simp add: lock_of_row_def f id)
  moreover have "lk_run (lock_for E (run_text E s) (facts s)) = rn_id row" by (simp add: lock_for_def id)
  ultimately show "set (locks @ [lock_for E (run_text E s) (facts s)]) = {l \<in> set locks. lk_run l \<noteq> rn_id row}
      \<union> (if is_terminal (status s) then {} else {lock_of_row E row})"
    using free recovered_active(2) [OF p(1)] by (auto simp: lock_free_def)
qed

interpretation run_locks: run_tables E "locks_exact E" for E
  by unfold_locales (simp_all add: locks_exact_def [of _ "[]"] locks_started locks_advanced locks_recovered del: perform.simps)

lemma locks_always: "locks_exact E (st_runs (store_after E root ops)) (st_locks (store_after E root ops))"
  using run_locks.always [of E root ops] by (simp add: run_locks.holds_def)


end
