(* ===== verification/Store_Journal.thy ===== *)
theory Store_Journal
  imports Store_Properties
begin

text \<open>
  What the journal of the store keeps: claimed commands, patches and bindings are never forgotten or
  rewritten, whatever operations follow. The locale \<open>store_relation\<close> is the contract of a relation
  between a store and every later one; the claims are its interpretations.
\<close>

subsection \<open>Relations between a store and every later one\<close>

definition store_later :: "store_env \<Rightarrow> (int \<times> store_op) list \<Rightarrow> store \<Rightarrow> store" where
  "store_later E ops st = fold (\<lambda>(now, op). store_step E now op) ops st"

lemma store_later_Nil [simp]: "store_later E [] st = st"
  by (simp add: store_later_def)

lemma store_later_snoc [simp]: "store_later E (ops @ [(now, op)]) st = store_step E now op (store_later E ops st)"
  by (simp add: store_later_def)

lemma store_after_later: "store_after E root (ops @ ops') = store_later E ops' (store_after E root ops)"
  by (simp add: store_after_append store_later_def)

lemma run_op_journal:
  assumes "run_op op"
  shows "journal_kept st (store_step E now op st)"
proof -
  have refl: "journal_kept st st" by (simp add: journal_kept_def)
  note rule = commit_rule [where P = "journal_kept st", OF refl]
  show ?thesis
  proof (cases op)
    case (Reactivate run_id k how)
    then show ?thesis
      by (auto simp: reactivated_run_def refl dest: reactivate_tables(6) intro!: rule
          split: sum.split option.split prod.split)
  next
    case (RecoverCollision run_id)
    then show ?thesis
      by (auto simp: recovered_collision_def refl elim!: collision_reactivated dest: reactivated_tables(6)
          intro!: rule split: sum.split option.split)
  qed (use assms in \<open>auto simp: refl dest: insert_run_tables(7) save_state_tables(5) accept_response_tables(5)
      intro!: rule split: option.split\<close>)
qed

locale store_relation =
  fixes R :: "store \<Rightarrow> store \<Rightarrow> bool"
  assumes refl: "R st st"
    and trans: "R st st1 \<Longrightarrow> R st1 st2 \<Longrightarrow> R st st2"
    and step: "R st (store_step E now op st)"
begin

lemma later: "R st (store_later E ops st)"
proof (induction ops rule: rev_induct)
  case Nil
  show ?case by (simp add: refl)
next
  case (snoc x ops)
  then show ?case by (cases x) (auto simp del: store_step.simps intro: trans step)
qed

end

subsection \<open>Commands\<close>

definition command_key :: "command_row \<Rightarrow> string \<times> string \<times> 32 word" where
  "command_key r = (vc_run (cm_record r), vc_hash (cm_record r), vc_index (cm_record r))"

text \<open>A claimed command stays at its place, and with its result once it is completed.\<close>

definition commands_extend :: "store \<Rightarrow> store \<Rightarrow> bool" where
  "commands_extend st st' \<longleftrightarrow>
     length (st_commands st) \<le> length (st_commands st')
     \<and> (\<forall>n < length (st_commands st).
          command_key (st_commands st' ! n) = command_key (st_commands st ! n)
          \<and> (cm_status (st_commands st ! n) = COMPLETED \<longrightarrow> st_commands st' ! n = st_commands st ! n))"

lemma commands_extend_same: "st_commands st' = st_commands st \<Longrightarrow> commands_extend st st'"
  by (simp add: commands_extend_def)

lemma begin_extends:
  assumes "begin_verification_command r h t n c cwd st = Inr (x, st')"
  shows "commands_extend st st'"
proof -
  have "\<exists>rows. st_commands st' = st_commands st @ rows"
    using assms unfolding begin_verification_command_def attempt_Inr Let_def
    by (elim exE conjE) (auto split: list.splits if_splits lifecycle.splits)
  then show ?thesis by (auto simp: commands_extend_def nth_append)
qed

lemma complete_extends:
  assumes "complete_verification_command r h n code out err st = Inr (x, st')"
  shows "commands_extend st st'"
proof -
  have "st_commands st' = st_commands st \<or> st_commands st'
      = update_rows (\<lambda>row. command_is r h n row \<and> cm_status row = STARTED) (complete_command code out err) (st_commands st)"
    using assms unfolding complete_verification_command_def attempt_Inr Let_def
    by (elim exE conjE) (auto simp: outcome split: if_splits lifecycle.splits)
  then show ?thesis
    by (auto simp: commands_extend_def update_rows_def complete_command_def command_key_def)
qed

lemma patch_extends:
  "record_successful_patch_with_provenance r h p source effective g st = Inr (x, st') \<Longrightarrow> commands_extend st st'"
  by (frule patch_step(2)) (simp add: commands_extend_same)

lemma commands_commit: "(\<And>x st'. r = Inr (x, st') \<Longrightarrow> commands_extend st st') \<Longrightarrow> commands_extend st (commit st r)"
  by (rule commit_rule) (simp_all add: commands_extend_same)

lemma commands_step: "commands_extend st (store_step E now op st)"
proof (cases "run_op op \<or> turn_op op \<or> binding_op op")
  case True
  then have "st_commands (store_step E now op st) = st_commands st"
    using run_op_journal [of op st E now] turn_op_only [of op st E now]
      arg_cong [OF binding_op_only [of op st E now, unfolded bindings_only_def], of st_commands]
    by (auto simp: kept_defs simp del: store_step.simps)
  then show ?thesis by (rule commands_extend_same)
next
  case False
  then show ?thesis
    by (cases op) (auto dest: begin_extends complete_extends patch_extends intro!: commands_commit)
qed

interpretation commands: store_relation commands_extend
proof
  show "commands_extend st (store_step E now op st)" for st E now op by (rule commands_step)
qed (auto simp: commands_extend_def)

lemma claim_only_if_new:
  assumes "begin_verification_command r h t n c cwd st = Inr (Execute record, st')"
  shows "\<not> list_ex (\<lambda>row. command_key row = (r, h, n)) (st_commands st)"
    "list_ex (\<lambda>row. command_key row = (r, h, n)) (st_commands st')"
proof -
  show "list_ex (\<lambda>row. command_key row = (r, h, n)) (st_commands st')"
    using assms unfolding begin_verification_command_def attempt_Inr Let_def
    by (elim exE conjE) (auto simp: command_key_def split: list.splits if_splits lifecycle.splits)
  have "verification_command_claim_matches st r h t n = Inr []"
    using assms unfolding begin_verification_command_def attempt_Inr Let_def
    by (elim exE conjE) (auto split: list.splits if_splits lifecycle.splits)
  then have "filter (\<lambda>row. vc_run (cm_record row) = r \<and> vc_index (cm_record row) = n
      \<and> (vc_hash (cm_record row) = h \<or> vc_turn (cm_record row) = t)) (st_commands st) = []"
    unfolding verification_command_claim_matches_def using collect_results_length by fastforce
  then show "\<not> list_ex (\<lambda>row. command_key row = (r, h, n)) (st_commands st)"
    by (auto simp: command_key_def list_ex_iff filter_empty_conv)
qed

text \<open>
  C9: A verification command is given out for execution at most once: after a claim of a command of a request
  was answered with its execution, no claim of that command is, whatever happened in between.
\<close>

theorem command_executed_once:
  assumes "begin_verification_command r h t n c cwd st = Inr (Execute record, st')"
  shows "begin_verification_command r h t' n c' cwd' (store_later E ops st') \<noteq> Inr (Execute record', st'')"
proof
  assume again: "begin_verification_command r h t' n c' cwd' (store_later E ops st') = Inr (Execute record', st'')"
  obtain k where k: "k < length (st_commands st')" "command_key (st_commands st' ! k) = (r, h, n)"
    using claim_only_if_new(2) [OF assms] by (auto simp: list_ex_iff in_set_conv_nth)
  have "commands_extend st' (store_later E ops st')" by (rule commands.later)
  with k have "k < length (st_commands (store_later E ops st'))"
    "command_key (st_commands (store_later E ops st') ! k) = (r, h, n)"
    by (auto simp: commands_extend_def)
  then have "list_ex (\<lambda>row. command_key row = (r, h, n)) (st_commands (store_later E ops st'))"
    unfolding list_ex_iff by (metis nth_mem)
  with claim_only_if_new(1) [OF again] show False by blast
qed

lemma update_rows_member: "x \<in> set xs \<Longrightarrow> p x \<Longrightarrow> f x \<in> set (update_rows p f xs)"
  by (force simp: update_rows_def)

lemma complete_result:
  assumes "complete_verification_command r h n code out err st = Inr (record, st')"
  shows "\<exists>row \<in> set (st_commands st'). command_key row = (r, h, n) \<and> cm_status row = COMPLETED \<and> cm_record row = record"
    "vc_exit_code record = Some code" "vc_stdout record = Some out" "vc_stderr record = Some err"
proof -
  obtain row where row: "find (command_is r h n) (st_commands st) = Some row"
    and cases: "cm_status row = STARTED \<and> record = cm_record (complete_command code out err row)
        \<and> st_commands st' = update_rows (\<lambda>row. command_is r h n row \<and> cm_status row = STARTED)
             (complete_command code out err) (st_commands st)
      \<or> cm_status row = COMPLETED \<and> record = cm_record row \<and> st' = st
        \<and> vc_exit_code record = Some code \<and> vc_stdout record = Some out \<and> vc_stderr record = Some err"
    using assms
    unfolding complete_verification_command_def verification_command_by_run_message_and_index_def attempt_Inr Let_def
    by (elim exE conjE)
       (auto simp: outcome verification_command_row_from_sql_def split: if_splits lifecycle.splits option.splits)
  from row have row: "row \<in> set (st_commands st)" "command_is r h n row" by (auto simp: find_Some_iff)
  from cases show "\<exists>row \<in> set (st_commands st'). command_key row = (r, h, n) \<and> cm_status row = COMPLETED \<and> cm_record row = record"
  proof (elim disjE conjE)
    assume started: "cm_status row = STARTED" and answer: "record = cm_record (complete_command code out err row)"
      and st': "st_commands st' = update_rows (\<lambda>row. command_is r h n row \<and> cm_status row = STARTED)
         (complete_command code out err) (st_commands st)"
    have "complete_command code out err row \<in> set (st_commands st')"
      unfolding st' by (rule update_rows_member) (use row started in simp_all)
    with row(2) answer show ?thesis
      by (intro bexI [of _ "complete_command code out err row"])
         (simp_all add: command_key_def command_is_def complete_command_def)
  qed (use row in \<open>auto simp: command_key_def command_is_def\<close>)
  show "vc_exit_code record = Some code" "vc_stdout record = Some out" "vc_stderr record = Some err"
    using cases by (auto simp: complete_command_def)
qed

text \<open>
  A claim is answered by a stored result only if it is the one row of the command, with its identity.
\<close>

lemma reuse_row:
  assumes "begin_verification_command r h t n c cwd st = Inr (Reuse record, st')"
  obtains row where "cm_record row = record" "cm_status row = COMPLETED"
    "filter (\<lambda>row. vc_run (cm_record row) = r \<and> vc_index (cm_record row) = n
      \<and> (vc_hash (cm_record row) = h \<or> vc_turn (cm_record row) = t)) (st_commands st) = [row]"
proof -
  obtain row where "verification_command_claim_matches st r h t n = Inr [row]"
    and row: "cm_record row = record" "cm_status row = COMPLETED"
    using assms unfolding begin_verification_command_def attempt_Inr Let_def
    by (elim exE conjE) (auto split: list.splits if_splits lifecycle.splits)
  then have "filter (\<lambda>row. vc_run (cm_record row) = r \<and> vc_index (cm_record row) = n
      \<and> (vc_hash (cm_record row) = h \<or> vc_turn (cm_record row) = t)) (st_commands st) = [row]"
    by (auto simp: verification_command_claim_matches_def collect_results_Inr list_all2_Cons2
        verification_command_row_from_sql_def split: if_splits)
  with row that show ?thesis by blast
qed

text \<open>
  The result of a verification command is stored once: after a completion of the command, whatever
  happened in between, a claim of it is never answered with its execution, and if it is answered, then
  with exactly the stored result; and a second completion answers the same result or an error.
\<close>

theorem command_result_stable:
  assumes "complete_verification_command r h n code out err st = Inr (record, st')"
  shows "begin_verification_command r h t n c cwd (store_later E ops st') = Inr (answer, st'') \<Longrightarrow> answer = Reuse record"
proof -
  assume again: "begin_verification_command r h t n c cwd (store_later E ops st') = Inr (answer, st'')"
  let ?later = "store_later E ops st'"
  obtain row where row: "row \<in> set (st_commands st')" "command_key row = (r, h, n)" "cm_status row = COMPLETED"
    "cm_record row = record"
    using complete_result(1) [OF assms] by blast
  then obtain k where k: "k < length (st_commands st')" "st_commands st' ! k = row"
    by (auto simp: in_set_conv_nth)
  have "commands_extend st' ?later" by (rule commands.later)
  with k row have "k < length (st_commands ?later)" "st_commands ?later ! k = row"
    by (auto simp: commands_extend_def)
  then have row': "row \<in> set (st_commands ?later)" by (metis nth_mem)
  show ?thesis
  proof (cases answer)
    case (Execute x)
    with claim_only_if_new(1) [of r h t n c cwd ?later x st''] again row' row(2) show ?thesis
      by (auto simp: list_ex_iff)
  next
    case (Reuse x)
    with again obtain only where "cm_record only = x"
      "filter (\<lambda>row. vc_run (cm_record row) = r \<and> vc_index (cm_record row) = n
        \<and> (vc_hash (cm_record row) = h \<or> vc_turn (cm_record row) = t)) (st_commands ?later) = [only]"
      by (auto elim: reuse_row)
    moreover have "row \<in> set (filter (\<lambda>row. vc_run (cm_record row) = r \<and> vc_index (cm_record row) = n
        \<and> (vc_hash (cm_record row) = h \<or> vc_turn (cm_record row) = t)) (st_commands ?later))"
      using row' row(2) by (auto simp: command_key_def)
    ultimately show ?thesis using Reuse row(4) by simp
  qed
qed

subsection \<open>Patches\<close>

definition patches_extend :: "store \<Rightarrow> store \<Rightarrow> bool" where
  "patches_extend st st' \<longleftrightarrow> prefix (st_patches st) (st_patches st')"

lemma patches_commit: "(\<And>x st'. r = Inr (x, st') \<Longrightarrow> patches_extend st st') \<Longrightarrow> patches_extend st (commit st r)"
  by (rule commit_rule) (simp_all add: patches_extend_def)

lemma patch_recorded:
  "record_successful_patch_with_provenance r h p source effective g st = Inr (x, st') \<Longrightarrow> patches_extend st st'"
  by (frule patch_step(2)) (simp add: patches_extend_def)

lemma patches_step: "patches_extend st (store_step E now op st)"
proof (cases "\<exists>r h p source effective g. op = RecordPatch r h p source effective g")
  case True
  then show ?thesis by (auto dest: patch_recorded intro!: patches_commit)
next
  case False
  then have "st_patches (store_step E now op st) = st_patches st"
    using run_op_journal [of op st E now] turn_op_only [of op st E now]
      arg_cong [OF binding_op_only [of op st E now, unfolded bindings_only_def], of st_patches]
      arg_cong [OF command_op_only(1) [of st E now, unfolded commands_only_def], of st_patches]
      arg_cong [OF command_op_only(2) [of st E now, unfolded commands_only_def], of st_patches]
    by (cases op) (simp_all add: kept_defs del: store_step.simps)
  then show ?thesis by (simp add: patches_extend_def)
qed

interpretation patches: store_relation patches_extend
proof
  show "patches_extend st (store_step E now op st)" for st E now op by (rule patches_step)
qed (auto simp: patches_extend_def intro: prefix_order.trans)

lemma find_member: "find p xs = Some x \<Longrightarrow> x \<in> set xs \<and> p x"
  by (auto simp: find_Some_iff)

lemma find_append: "find p (xs @ ys) = (case find p xs of Some x \<Rightarrow> Some x | None \<Rightarrow> find p ys)"
  by (induction xs) auto

lemma successful_patch_extend:
  "patches_extend st st' \<Longrightarrow> successful_patch_record st r h = Some p \<Longrightarrow> successful_patch_record st' r h = Some p"
  by (auto simp: patches_extend_def successful_patch_record_def prefix_def find_append split: option.splits)

text \<open>
  C11: A request has one successful patch: once it is recorded its record stays, whatever happens afterwards,
  and no second patch of the request can be recorded.
\<close>

theorem one_patch_per_request:
  assumes "record_successful_patch_with_provenance r h p source effective g st = Inr (answer, st')"
  shows "successful_patch_record (store_later E ops st') r h
       = Some \<lparr>sp_patch = p, sp_source = source, sp_effective = effective, sp_binding = g\<rparr>
     \<and> record_successful_patch_with_provenance r h p' source' effective' g' (store_later E ops st') \<noteq> Inr (answer', st'')"
proof -
  have "successful_patch_record st' r h
      = Some \<lparr>sp_patch = p, sp_source = source, sp_effective = effective, sp_binding = g\<rparr>"
    using patch_step [OF assms]
    by (auto simp: successful_patch_record_def find_append list_ex_iff find_None_iff [THEN iffD2] split: option.split)
  then have stays: "successful_patch_record (store_later E ops st') r h
      = Some \<lparr>sp_patch = p, sp_source = source, sp_effective = effective, sp_binding = g\<rparr>"
    by (rule successful_patch_extend [OF patches.later])
  then have "list_ex (\<lambda>q. pa_run q = r \<and> pa_hash q = h) (st_patches (store_later E ops st'))"
    by (auto simp: successful_patch_record_def list_ex_iff find_Some_iff)
  with stays show ?thesis using patch_step(1) by blast
qed

subsection \<open>Bindings\<close>

definition threads_of :: "store \<Rightarrow> (string \<times> string \<times> string) set" where
  "threads_of st = (\<lambda>row. (rn_id row, rn_primary_thread row, rn_reviewer_thread row)) ` set (st_runs st)"

definition binding_ok :: "store \<Rightarrow> primary_participant_binding \<Rightarrow> bool" where
  "binding_ok st b \<longleftrightarrow>
     (\<exists>reviewer. (bi_run b, bi_source b, reviewer) \<in> threads_of st
        \<and> (case bi_mode b of
             Direct \<Rightarrow> bi_effective b = bi_source b \<and> bi_history b = None
           | EphemeralFork \<Rightarrow> bi_effective b \<noteq> bi_source b \<and> bi_effective b \<noteq> reviewer
               \<and> (\<exists>h. bi_history b = Some h \<and> \<not> blank h)))"

text \<open>
  Every binding is of the frozen source task of its run and has the shape of its mode; no two bindings of
  a run have the same generation or are both active; the ephemeral ones share the source history.
\<close>

definition bindings_coherent :: "binding_row list \<Rightarrow> bool" where
  "bindings_coherent rows \<longleftrightarrow>
     distinct (map (\<lambda>r. (bi_run (br_binding r), bi_generation (br_binding r))) rows)
     \<and> distinct (map (\<lambda>r. bi_run (br_binding r)) (filter br_active rows))
     \<and> (\<forall>a \<in> set rows. \<forall>b \<in> set rows. bi_run (br_binding a) = bi_run (br_binding b)
          \<and> bi_mode (br_binding a) = EphemeralFork \<and> bi_mode (br_binding b) = EphemeralFork
          \<longrightarrow> bi_history (br_binding a) = bi_history (br_binding b))"

definition bindings_ok :: "store \<Rightarrow> bool" where
  "bindings_ok st \<longleftrightarrow> (\<forall>r \<in> set (st_bindings st). binding_ok st (br_binding r)) \<and> bindings_coherent (st_bindings st)"

text \<open>A step that keeps the bindings but for their activity, and one that adds a binding.\<close>

lemma deactivate_bindings:
  "st_bindings (deactivate p st)
   = map (\<lambda>r. if p (br_binding r) \<and> br_active r then r\<lparr>br_active := False\<rparr> else r) (st_bindings st)"
  by (simp add: deactivate_def update_rows_def)

lemma deactivate_binding [simp]:
  "map br_binding (st_bindings (deactivate p st)) = map br_binding (st_bindings st)"
  by (simp add: deactivate_bindings)

lemma deactivate_turns [simp]: "st_turns (deactivate p st) = st_turns st"
  by (simp add: deactivate_def)

lemma deactivate_active:
  "filter br_active (st_bindings (deactivate p st)) = filter (\<lambda>r. br_active r \<and> \<not> p (br_binding r)) (st_bindings st)"
proof -
  have "filter br_active (map (\<lambda>r. if p (br_binding r) \<and> br_active r then r\<lparr>br_active := False\<rparr> else r) rows)
      = filter (\<lambda>r. br_active r \<and> \<not> p (br_binding r)) rows" for rows
    by (induction rows) auto
  then show ?thesis by (simp add: deactivate_bindings)
qed

definition histories :: "binding_row list \<Rightarrow> (string \<times> string option) set" where
  "histories rows = {(bi_run (br_binding r), bi_history (br_binding r)) |r. r \<in> set rows \<and> bi_mode (br_binding r) = EphemeralFork}"

lemma histories_binding:
  "histories rows = (\<lambda>b. (bi_run b, bi_history b)) ` {b \<in> set (map br_binding rows). bi_mode b = EphemeralFork}"
  unfolding histories_def by auto

lemma coherent_histories:
  "bindings_coherent rows \<longleftrightarrow>
     distinct (map (\<lambda>b. (bi_run b, bi_generation b)) (map br_binding rows))
     \<and> distinct (map (\<lambda>r. bi_run (br_binding r)) (filter br_active rows))
     \<and> (\<forall>run h h'. (run, h) \<in> histories rows \<and> (run, h') \<in> histories rows \<longrightarrow> h = h')"
  unfolding bindings_coherent_def histories_def map_map comp_def by blast

lemma coherent_deactivate:
  assumes "bindings_coherent (st_bindings st)"
  shows "bindings_coherent (st_bindings (deactivate p st))"
proof -
  have "distinct (map (\<lambda>r. bi_run (br_binding r)) (filter (\<lambda>r. br_active r \<and> \<not> p (br_binding r)) (st_bindings st)))"
    using assms distinct_map_filter [of "\<lambda>r. bi_run (br_binding r)" "filter br_active (st_bindings st)" "\<lambda>r. \<not> p (br_binding r)"]
    by (simp add: bindings_coherent_def conj_commute)
  with assms show ?thesis
    unfolding coherent_histories deactivate_active histories_binding deactivate_binding by blast
qed

lemma coherent_insert:
  assumes ok: "bindings_coherent (st_bindings st)" and "insert_binding b st = Inr st'"
    and h: "\<And>h. bi_mode b = EphemeralFork \<Longrightarrow> (bi_run b, h) \<in> histories (st_bindings st) \<Longrightarrow> h = bi_history b"
  shows "bindings_coherent (st_bindings st')"
proof -
  have st': "st_bindings st' = st_bindings st @ [\<lparr>br_binding = b, br_active = True\<rparr>]"
    and new: "\<forall>r \<in> set (st_bindings st). bi_run (br_binding r) = bi_run b \<longrightarrow>
      bi_generation (br_binding r) \<noteq> bi_generation b \<and> \<not> br_active r"
    using assms(2) by (auto simp: insert_binding_Inr)
  have hist: "histories (st_bindings st') = histories (st_bindings st)
      \<union> (if bi_mode b = EphemeralFork then {(bi_run b, bi_history b)} else {})"
    by (auto simp: histories_binding st')
  show ?thesis
    unfolding coherent_histories hist
  proof (intro conjI allI impI)
    show "distinct (map (\<lambda>b. (bi_run b, bi_generation b)) (map br_binding (st_bindings st')))"
      "distinct (map (\<lambda>r. bi_run (br_binding r)) (filter br_active (st_bindings st')))"
      using ok new by (auto simp: coherent_histories st')
    fix run k k'
    assume "(run, k) \<in> histories (st_bindings st) \<union> (if bi_mode b = EphemeralFork then {(bi_run b, bi_history b)} else {})
      \<and> (run, k') \<in> histories (st_bindings st) \<union> (if bi_mode b = EphemeralFork then {(bi_run b, bi_history b)} else {})"
    then show "k = k'"
      using ok h [of k] h [of k'] by (auto simp: coherent_histories split: if_splits)
  qed
qed

lemma insert_binding_ok:
  assumes ok: "bindings_ok st" and "insert_binding b (deactivate p st) = Inr st'" and b: "binding_ok st b"
    and h: "\<And>h. bi_mode b = EphemeralFork \<Longrightarrow> (bi_run b, h) \<in> histories (st_bindings st) \<Longrightarrow> h = bi_history b"
  shows "bindings_ok st'"
proof -
  have st': "st_bindings st' = st_bindings (deactivate p st) @ [\<lparr>br_binding = b, br_active = True\<rparr>]"
    and runs: "st_runs st' = st_runs st"
    using assms(2) by (auto simp: insert_binding_Inr deactivate_def)
  have same: "histories (st_bindings (deactivate p st)) = histories (st_bindings st)"
    by (simp add: histories_binding)
  have "bindings_coherent (st_bindings st')"
    by (rule coherent_insert [OF coherent_deactivate assms(2)])
       (use ok h in \<open>simp_all add: bindings_ok_def same\<close>)
  moreover have "binding_ok st' c = binding_ok st c" for c by (simp add: binding_ok_def threads_of_def runs)
  moreover have "\<forall>c \<in> set (map br_binding (st_bindings st')). binding_ok st c"
    unfolding st' map_append deactivate_binding using ok b by (auto simp: bindings_ok_def)
  ultimately show ?thesis by (auto simp: bindings_ok_def)
qed

lemma insert_binding_only_ok:
  assumes "bindings_ok st" "insert_binding b st = Inr st'" "binding_ok st b"
    "\<And>h. bi_mode b = EphemeralFork \<Longrightarrow> (bi_run b, h) \<in> histories (st_bindings st) \<Longrightarrow> h = bi_history b"
  shows "bindings_ok st'"
proof -
  have "deactivate (\<lambda>_. False) st = st" by (simp add: deactivate_def)
  then show ?thesis using insert_binding_ok [of st b "\<lambda>_. False" st'] assms by simp
qed

lemma bindings_ok_turns: "st_bindings st' = st_bindings st \<Longrightarrow> st_runs st' = st_runs st \<Longrightarrow> bindings_ok st' = bindings_ok st"
  by (simp add: bindings_ok_def binding_ok_def threads_of_def)

lemmas opened = attempt_Inr split_paired_Ex prod.case Let_def ensure_Inr ok_or_Inr update_one_turn_Inr

lemma frozen_threads_Inr:
  "frozen_threads st run_id = Inr (primary, reviewer) \<Longrightarrow> (run_id, primary, reviewer) \<in> threads_of st"
  by (auto simp: frozen_threads_def threads_of_def outcome image_iff dest!: run_row_of_member)

lemma member_cons: "x \<in> set xs \<Longrightarrow> \<exists>y ys. xs = y # ys"
  by (cases xs) simp_all

lemma first_history_all:
  assumes "bindings_coherent (st_bindings st)" "(run_id, h) \<in> histories (st_bindings st)" "h \<noteq> None"
  shows "first_history st run_id = h"
proof -
  let ?bs = "filter (\<lambda>b. bi_run b = run_id \<and> bi_mode b = EphemeralFork \<and> bi_history b \<noteq> None) (map br_binding (st_bindings st))"
  obtain r where "r \<in> set (st_bindings st)" "bi_run (br_binding r) = run_id" "bi_mode (br_binding r) = EphemeralFork"
    "bi_history (br_binding r) = h"
    using assms(2) by (auto simp: histories_def)
  then have "br_binding r \<in> set ?bs" using assms(3) by auto
  then have "br_binding r \<in> set (sort_key (\<lambda>b. unat (bi_generation b)) ?bs)" by (simp only: set_sort)
  then obtain b bs where sorted: "sort_key (\<lambda>b. unat (bi_generation b)) ?bs = b # bs"
    by (blast dest: member_cons)
  have "b \<in> set (sort_key (\<lambda>b. unat (bi_generation b)) ?bs)" unfolding sorted by simp
  then have "b \<in> set ?bs" by (simp only: set_sort)
  moreover from this have "(run_id, bi_history b) \<in> histories (st_bindings st)" by (auto simp: histories_def)
  ultimately have "bi_history b = h" using assms(1,2) unfolding coherent_histories by blast
  with sorted show ?thesis by (simp add: first_history_def)
qed

lemma history_some: "binding_ok st b \<Longrightarrow> bi_mode b = EphemeralFork \<Longrightarrow> bi_history b \<noteq> None"
  by (auto simp: binding_ok_def)

lemma histories_some: "bindings_ok st \<Longrightarrow> (run, h) \<in> histories (st_bindings st) \<Longrightarrow> h \<noteq> None"
  using history_some by (fastforce simp: histories_def bindings_ok_def)

lemma history_kept_same:
  assumes "bindings_ok st" "history_kept st run_id mode history" "mode = EphemeralFork"
    "(run_id, h) \<in> histories (st_bindings st)"
  shows "h = history"
proof -
  have "first_history st run_id = h" "h \<noteq> None"
    using assms(1,4) histories_some first_history_all by (auto simp: bindings_ok_def)
  with assms(2,3) show ?thesis by (auto simp: history_kept_def)
qed

lemma active_binding_history:
  assumes "bindings_ok st" "query_active_primary_binding st run_id = Some b" "bi_mode b = EphemeralFork"
    "(run_id, h) \<in> histories (st_bindings st)"
  shows "h = bi_history b"
proof -
  obtain r where "r \<in> set (st_bindings st)" "br_binding r = b" "bi_run b = run_id"
    using assms(2) by (auto simp: query_active_primary_binding_def dest: find_member)
  then have "(run_id, bi_history b) \<in> histories (st_bindings st)" using assms(3) by (auto simp: histories_def)
  with assms(1,4) show ?thesis unfolding bindings_ok_def coherent_histories by blast
qed

lemma activate_ok:
  assumes ok: "bindings_ok st"
    and "activate_primary_binding now r source effective mode server history st = Inr (x, st')"
  shows "bindings_ok st'"
proof -
  obtain primary reviewer where threads: "(r, source, reviewer) \<in> threads_of st"
    and shape: "binding_shape r reviewer source effective mode history = Inr ()"
    and kept: "history_kept st r mode history"
    and cases: "st' = st \<or> (\<exists>g. insert_binding (new_binding now r source effective mode server history g)
        (deactivate (\<lambda>b. bi_run b = r) st) = Inr st')"
    using assms(2) unfolding activate_primary_binding_def attempt_Inr Let_def
    by (elim exE conjE) (auto simp: outcome split: prod.splits option.splits if_splits dest: frozen_threads_Inr)
  from cases show ?thesis
  proof (elim disjE exE)
    fix g let ?b = "new_binding now r source effective mode server history g"
    assume "insert_binding ?b (deactivate (\<lambda>b. bi_run b = r) st) = Inr st'"
    then show ?thesis
    proof (rule insert_binding_ok [OF ok])
      show "binding_ok st ?b"
        unfolding binding_ok_def using threads shape
        by (intro exI [of _ reviewer])
           (auto simp: new_binding_def binding_shape_def outcome split: binding_mode.splits if_splits option.splits)
      show "h = bi_history ?b" if "bi_mode ?b = EphemeralFork" "(bi_run ?b, h) \<in> histories (st_bindings st)" for h
        using history_kept_same [OF ok kept] that by (simp add: new_binding_def)
    qed
  qed (simp add: ok)
qed

lemma rotate_ok:
  assumes ok: "bindings_ok st"
    and rot: "rotate_ephemeral_primary_binding_for_unsent_pending now r g source effective server history st = Inr (x, st')"
  shows "bindings_ok st'"
proof -
  note rot = rot [unfolded rotate_ephemeral_primary_binding_for_unsent_pending_def opened]
  obtain reviewer where threads: "frozen_threads st r = Inr (source, reviewer)"
    and ids: "effective \<noteq> source" "effective \<noteq> reviewer" "\<not> blank history"
    using rot by blast
  obtain active where active: "query_active_primary_binding st r = Some active" "bi_mode active = EphemeralFork"
      "bi_history active = Some history"
    using rot by blast
  obtain new st1 p f where
    ins: "insert_binding (new_binding now r source effective EphemeralFork server (Some history) new)
        (deactivate (\<lambda>b. bi_run b = r \<and> bi_generation b = g) st) = Inr st1"
    and st': "st' = st1\<lparr>st_turns := update_rows p f (st_turns st1)\<rparr>"
    using rot by blast
  let ?b = "new_binding now r source effective EphemeralFork server (Some history) new"
  from ins have "bindings_ok st1"
  proof (rule insert_binding_ok [OF ok])
    show "binding_ok st ?b"
      unfolding binding_ok_def using frozen_threads_Inr [OF threads] ids
      by (intro exI [of _ reviewer]) (simp add: new_binding_def)
    show "h = bi_history ?b" if "(bi_run ?b, h) \<in> histories (st_bindings st)" for h
      using active_binding_history [OF ok active(1,2)] active(3) that by (simp add: new_binding_def)
  qed
  then show ?thesis using bindings_ok_turns [of st' st1] by (simp add: st')
qed

lemma initial_ok:
  assumes ok: "bindings_ok st"
    and act: "activate_initial_direct_binding_for_pending_send now r source server st = Inr (x, st')"
  shows "bindings_ok st'"
proof -
  note act = act [unfolded activate_initial_direct_binding_for_pending_send_def opened]
  obtain reviewer where threads: "frozen_threads st r = Inr (source, reviewer)"
    using act by blast
  obtain new st1 p f where
    ins: "insert_binding (new_binding now r source source Direct server None new) st = Inr st1"
    and st': "st' = st1\<lparr>st_turns := update_rows p f (st_turns st1)\<rparr>"
    using act by blast
  from ins have "bindings_ok st1"
  proof (rule insert_binding_only_ok [OF ok])
    show "binding_ok st (new_binding now r source source Direct server None new)"
      unfolding binding_ok_def using frozen_threads_Inr [OF threads]
      by (intro exI [of _ reviewer]) (simp add: new_binding_def)
  qed (simp add: new_binding_def)
  then show ?thesis using bindings_ok_turns [of st' st1] by (simp add: st')
qed

lemma bind_ok:
  assumes ok: "bindings_ok st" and "bind_unsent_primary_pending_to_active_binding r st = Inr (x, st')"
  shows "bindings_ok st'"
proof -
  have "st' = st \<or> (\<exists>turns. st' = st\<lparr>st_turns := turns\<rparr>)"
    using assms(2) unfolding bind_unsent_primary_pending_to_active_binding_def attempt_Inr
    by (elim exE conjE) (auto simp: outcome split: option.splits)
  then have "st_bindings st' = st_bindings st" "st_runs st' = st_runs st" by auto
  then show ?thesis using ok bindings_ok_turns [of st' st] by blast
qed

lemma threads_put:
  assumes "st_runs st' = put_state i n s (st_runs st)"
  shows "threads_of st \<subseteq> threads_of st'"
proof -
  have "map (\<lambda>row. (rn_id row, rn_primary_thread row, rn_reviewer_thread row)) (put_state i n s rows)
      = map (\<lambda>row. (rn_id row, rn_primary_thread row, rn_reviewer_thread row)) rows" for rows
    by (simp add: put_state_def update_rows_def)
  from this [THEN arg_cong [of _ _ set], unfolded set_map] show ?thesis by (simp add: threads_of_def assms)
qed

lemma threads_insert: "st_runs st' = st_runs st @ rows \<Longrightarrow> threads_of st \<subseteq> threads_of st'"
  by (auto simp: threads_of_def)

lemma threads_commit:
  "(\<And>x st'. r = Inr (x, st') \<Longrightarrow> threads_of st \<subseteq> threads_of st') \<Longrightarrow> threads_of st \<subseteq> threads_of (commit st r)"
  by (rule commit_rule) simp_all

lemmas threads_rules =
  insert_run_tables(4) [THEN threads_insert] save_state_tables(2) [THEN threads_put]
  accept_response_tables(2) [THEN threads_put] reactivate_tables(3) [THEN threads_put]
  reactivated_tables(3) [THEN threads_put]

lemma threads_step: "threads_of st \<subseteq> threads_of (store_step E now op st)"
proof (cases "run_op op")
  case False
  then show ?thesis using journal_op_runs [OF False, of st E now] by (simp add: runs_kept_def threads_of_def)
next
  case True
  have collision: "threads_of st \<subseteq> threads_of (recovered_collision E now run_id st)" for run_id
    unfolding recovered_collision_def
    by (auto split: sum.split option.split intro!: threads_commit elim!: collision_reactivated dest: threads_rules(5) subsetD)
  have "threads_of st \<subseteq> threads_of (reactivated_run E now run_id k how st)" for run_id k how
    unfolding reactivated_run_def
    by (simp split: sum.split option.split prod.split) (intro allI impI threads_commit, elim exE, rule threads_rules(4))
  note rest = this collision
  show ?thesis
  proof (cases op)
    case (StartRun f branch commands)
    then show ?thesis
      by (cases "started_run f branch commands") (simp_all, intro threads_commit, erule threads_rules(1))
  next
    case (Save run_id i)
    then show ?thesis
      by (cases "stepped E st run_id i") (simp_all, intro threads_commit, erule threads_rules(2))
  next
    case (AcceptResponse run_id response i)
    then show ?thesis
      by (cases "stepped E st run_id i") (simp_all, intro threads_commit, erule threads_rules(3))
  qed (use True rest in simp_all)
qed

lemma bindings_ok_step:
  assumes ok: "bindings_ok st"
  shows "bindings_ok (store_step E now op st)"
proof (cases "binding_op op")
  case True
  then show ?thesis
    by (cases op) (auto simp: ok intro!: commit_rule [where P = bindings_ok]
        dest: activate_ok [OF ok] rotate_ok [OF ok] initial_ok [OF ok] bind_ok [OF ok])
next
  case False
  then have "st_bindings (store_step E now op st) = st_bindings st"
    using run_op_journal [of op st E now] turn_op_only [of op st E now]
      arg_cong [OF command_op_only(1) [of st E now, unfolded commands_only_def], of st_bindings]
      arg_cong [OF command_op_only(2) [of st E now, unfolded commands_only_def], of st_bindings]
      arg_cong [OF patch_op_only [of E now _ _ _ _ _ _ st], of st_bindings]
    by (cases op) (simp_all add: kept_defs del: store_step.simps)
  moreover have "binding_ok st b \<Longrightarrow> binding_ok (store_step E now op st) b" for b
    using threads_step [of st E now op] unfolding binding_ok_def by blast
  ultimately show ?thesis using ok by (simp add: bindings_ok_def)
qed

text \<open>
  C10: The bindings of a run are consistent in every store: each is of the frozen source task of its run, a
  direct one is that task and an ephemeral one is another task that carries a source history; at most
  one binding of a run is active, its generations differ, and all its ephemeral bindings were made from
  the same source history.
\<close>

theorem stored_bindings_ok: "bindings_ok (store_after E root ops)"
proof (induction ops rule: rev_induct)
  case Nil
  show ?case by (simp add: bindings_ok_def bindings_coherent_def empty_store_def)
next
  case (snoc x ops)
  then show ?case by (cases x) (simp add: bindings_ok_step del: store_step.simps)
qed

end
