(* ===== verification/Store_Example.thy ===== *)
theory Store_Example
  imports Store_Journal
begin

text \<open>
  A concrete store on which the properties of the store are evaluated: two runs of different
  repositories, a verification command, a patch and the bindings of a run; and the interleaving of a
  cancellation with the acceptance of a response.
\<close>

definition example_env :: store_env where
  "example_env = \<lparr>se_libs = example_libs\<lparr>uuid_text := (\<lambda>n. if n = 1 then ''r1'' else ''r2'')\<rparr>, se_lossy = id\<rparr>"

definition other_facts :: run_facts where
  "other_facts = example_facts\<lparr>rf_run_id := 2, rf_primary_worktree := ''/q'', rf_git_common_dir := ''/h''\<rparr>"

definition rival_facts :: run_facts where
  "rival_facts = example_facts\<lparr>rf_run_id := 2\<rparr>"

definition two_runs :: "(int \<times> store_op) list" where
  "two_runs = [(1, StartRun example_facts ''i'' [''t'']), (2, StartRun other_facts ''i'' [''t''])]"

lemma two_runs_active:
  "map (\<lambda>row. (rn_id row, status (rn_state row), rf_git_common_dir (facts (rn_state row))))
     (st_runs (store_after example_env ''/s'' two_runs)) = [(''r1'', SRunning, ''/g''), (''r2'', SRunning, ''/h'')]"
  by code_simp


text \<open>The claim of the first test command of a request, and its completion.\<close>

definition started_store :: store where
  "started_store = store_after example_env ''/s'' two_runs"

definition claimed :: "claim transaction" where
  "claimed = begin_verification_command ''r1'' ''hash'' ''turn'' 0 ''t'' ''/v'' started_store"

definition completed :: "verification_command_record transaction" where
  "completed = complete_verification_command ''r1'' ''hash'' 0 0 ''out'' ''err'' (commit started_store claimed)"

lemma claimed_example: "case claimed of Inr (Execute r, st) \<Rightarrow> vc_turn r = ''turn'' | _ \<Rightarrow> False"
  by code_simp

lemma completed_example: "case completed of Inr (r, st) \<Rightarrow> vc_exit_code r = Some 0 | _ \<Rightarrow> False"
  by code_simp

theorem command_executed_once_witness:
  "case claimed of Inr (Execute r, st) \<Rightarrow>
     (\<forall>record' st''. begin_verification_command ''r1'' ''hash'' ''other'' 0 ''t'' ''/v''
        (store_later example_env [(3, Save ''r1'' Cancel)] st) \<noteq> Inr (Execute record', st'')) | _ \<Rightarrow> False"
proof -
  obtain r st where c: "claimed = Inr (Execute r, st)"
    using claimed_example by (auto split: sum.splits prod.splits claim.splits)
  then show ?thesis using command_executed_once [OF c [unfolded claimed_def]] by (simp add: c)
qed

theorem command_result_stable_witness:
  "case completed of Inr (r, st) \<Rightarrow>
     map_sum id fst (begin_verification_command ''r1'' ''hash'' ''turn'' 0 ''t'' ''/v''
       (store_later example_env [(3, Save ''r1'' Cancel)] st)) = Inr (Reuse r) | _ \<Rightarrow> False"
proof -
  obtain r st where c: "completed = Inr (r, st)"
    using completed_example by (auto split: sum.splits prod.splits)
  have "case completed of Inr (r, st) \<Rightarrow> is_ok (begin_verification_command ''r1'' ''hash'' ''turn'' 0 ''t'' ''/v''
       (store_later example_env [(3, Save ''r1'' Cancel)] st)) | _ \<Rightarrow> False"
    by code_simp
  then have "is_ok (begin_verification_command ''r1'' ''hash'' ''turn'' 0 ''t'' ''/v''
       (store_later example_env [(3, Save ''r1'' Cancel)] st))"
    unfolding c by simp
  then obtain answer st'' where again: "begin_verification_command ''r1'' ''hash'' ''turn'' 0 ''t'' ''/v''
       (store_later example_env [(3, Save ''r1'' Cancel)] st) = Inr (answer, st'')"
    by (auto simp: is_ok_iff)
  from command_result_stable [OF c [unfolded completed_def] this] show ?thesis unfolding c by (simp add: again)
qed

definition patched :: "successful_patch transaction" where
  "patched = record_successful_patch_with_provenance ''r1'' ''hash'' ''p'' None None None started_store"

lemma recorded_example: "is_ok patched"
  by code_simp

theorem one_patch_per_request_witness:
  "case patched of Inr (_, st) \<Rightarrow>
     successful_patch_record (store_later example_env [(3, Save ''r1'' Cancel)] st) ''r1'' ''hash''
       = Some \<lparr>sp_patch = ''p'', sp_source = None, sp_effective = None, sp_binding = None\<rparr> | _ \<Rightarrow> False"
proof -
  obtain answer st where c: "patched = Inr (answer, st)"
    using recorded_example by (auto simp: is_ok_iff)
  then show ?thesis using one_patch_per_request [OF c [unfolded patched_def]] by (simp add: c)
qed

subsection \<open>A cancellation between a response and its acceptance\<close>

definition storable :: "run_state \<Rightarrow> bool" where
  "storable s \<longleftrightarrow>
     schema_version s = RUN_STATE_SCHEMA_VERSION \<and> validate_persisted s = Inr () \<and> paths_utf8 s"

lemma update_run_row_accepts:
  "stored_state st r = Inr s0 \<Longrightarrow> storable s \<Longrightarrow> is_ok (update_run_row L now r s st)"
  by (auto simp: update_run_row_def storable_def serialize_state_def ensure_def map_err_def is_ok_def Let_def)

lemma save_state_accepts:
  "stored_state st (run_text E s) = Inr s0 \<Longrightarrow> storable s \<Longrightarrow> is_ok (save_state E now s st)"
  using update_run_row_accepts [of st "run_text E s" s0 s "se_libs E" now]
  by (auto simp: save_state_def is_ok_iff outcome ensure_run_exists_def)

lemma stored_state_turns [simp]: "stored_state (st\<lparr>st_turns := turns\<rparr>) r = stored_state st r"
  by (simp add: stored_state_def run_row_of_def)

text \<open>An acceptance does not look at the stored status, so it can overwrite a cancellation.\<close>

lemma acceptance_accepts:
  assumes "stored_state st (run_text E s) = Inr s0" "pending_row st (run_text E s) \<noteq> None" "storable s"
  shows "is_ok (accept_response_and_advance E now (run_text E s) response s st)"
proof -
  obtain p where p: "pending_row st (run_text E s) = Some p" using assms(2) by blast
  let ?st = "st\<lparr>st_turns := update_rows (\<lambda>t. tn_id t = tn_id p \<and> tn_delivery t \<in> {PENDING, SENT})
      (accept_turn response) (st_turns st)\<rparr>"
  have "is_ok (update_run_row (se_libs E) now (run_text E s) s ?st)"
    using assms by (intro update_run_row_accepts) simp_all
  then show ?thesis
    using assms(1) p by (auto simp: accept_response_and_advance_def is_ok_iff outcome)
qed

lemma insert_run_accepts:
  assumes "storable s" "run_text E s \<notin> rn_id ` set (st_runs st)"
    "lock_free (lock_for E (run_text E s) (facts s)) (st_locks st)"
  shows "is_ok (insert_run E now s st)"
proof -
  let ?st = "st\<lparr>st_runs := st_runs st @ [new_row E now s]\<rparr>"
  have "run_row_of st (run_text E s) = None" using assms(2) by (force simp: run_row_of_def find_None_iff)
  moreover have "serialize_state s = Inr s" using assms(1) by (simp add: storable_def outcome)
  moreover have "acquire_lock (se_lossy E) (run_text E s) (facts s) ?st
      = Inr (?st\<lparr>st_locks := st_locks st @ [lock_for E (run_text E s) (facts s)]\<rparr>)"
    using assms(3) unfolding acquire_lock_for by simp
  ultimately show ?thesis
    by (simp add: insert_run_def is_ok_def ensure_def Let_def new_row_def del: acquire_lock_Inr)
qed

definition sent_store :: store where
  "sent_store = store_after example_env ''/s''
     [(1, StartRun example_facts ''i'' [''t'']),
      (2, RecordPending ''r1'' ''PRIMARY'' ''CONTRACT'' 1 ''hash'' None),
      (3, StartTurn ''r1'' ''hash'' ''p'' ''turn'' True)]"

definition sent_state :: run_state where
  "sent_state = example_run [Configure ''i'' [''t'']]"

text \<open>What the driver makes of the state it had loaded before the run was cancelled.\<close>

definition advanced_state :: run_state where
  "advanced_state = snd (perform (se_libs example_env) (Message contract_message) sent_state)"

definition cancelled_store :: store where
  "cancelled_store = store_step example_env 4 (Save ''r1'' Cancel) sent_store"

definition revived_store :: store where
  "revived_store = commit cancelled_store
     (accept_response_and_advance example_env 5 ''r1'' ''response'' advanced_state cancelled_store)"

lemma sent_example:
  "map (\<lambda>row. (rn_id row, rn_state row)) (st_runs sent_store) = [(''r1'', sent_state)]"
  "map lk_run (st_locks sent_store) = [''r1'']" "pending_row sent_store ''r1'' \<noteq> None"
  by code_simp+

lemma states_storable: "storable sent_state" "storable (cancel sent_state)" "storable advanced_state"
  "storable (the (started_run rival_facts ''i'' [''t'']))"
  by code_simp+

lemma states_example:
  "run_text example_env (cancel sent_state) = ''r1''" "run_text example_env advanced_state = ''r1''"
  "status advanced_state = SRunning" "started_run rival_facts ''i'' [''t''] \<noteq> None"
  "run_text example_env (the (started_run rival_facts ''i'' [''t''])) = ''r2''"
  "status (the (started_run rival_facts ''i'' [''t''])) = SRunning"
  "rf_git_common_dir (facts advanced_state) = rf_git_common_dir rival_facts"
  by code_simp+

lemma cancelled_example:
  "map (\<lambda>row. (rn_id row, rn_state row)) (st_runs cancelled_store) = [(''r1'', cancel sent_state)]"
  "st_locks cancelled_store = []" "pending_row cancelled_store ''r1'' \<noteq> None"
proof -
  obtain row where row: "st_runs sent_store = [row]" "rn_id row = ''r1''" "rn_state row = sent_state"
    using sent_example(1) by (auto simp: map_eq_Cons_conv)
  have stored: "stored_state sent_store ''r1'' = Inr sent_state"
    using states_storable(1) row by (simp add: outcome run_row_of_def storable_def)
  then have "stepped example_env sent_store ''r1'' Cancel = Some (cancel sent_state)"
    by (simp add: stepped_def load_run_Inr [THEN iffD2])
  then have c: "cancelled_store = commit sent_store (save_state example_env 4 (cancel sent_state) sent_store)"
    by (simp add: cancelled_store_def)
  have "is_ok (save_state example_env 4 (cancel sent_state) sent_store)"
    by (rule save_state_accepts) (simp_all add: states_example stored states_storable)
  then obtain x where save: "save_state example_env 4 (cancel sent_state) sent_store = Inr (x, cancelled_store)"
    using c by (auto simp: is_ok_iff commit_def)
  note tables = save_state_tables [OF save, unfolded states_example]
  show "map (\<lambda>row. (rn_id row, rn_state row)) (st_runs cancelled_store) = [(''r1'', cancel sent_state)]"
    using tables(2) row by (simp add: put_state_def update_rows_def)
  show "st_locks cancelled_store = []"
    using tables(3) sent_example(2) by (auto simp: locks_after_def cancel_def map_eq_Cons_conv)
  show "pending_row cancelled_store ''r1'' \<noteq> None"
    using tables(4) sent_example(3) by (simp add: pending_row_def)
qed

lemma revived_example:
  "map (\<lambda>row. (rn_id row, rn_state row)) (st_runs revived_store) = [(''r1'', advanced_state)]"
  "st_locks revived_store = []"
proof -
  obtain row where row: "st_runs cancelled_store = [row]" "rn_id row = ''r1''" "rn_state row = cancel sent_state"
    using cancelled_example(1) by (auto simp: map_eq_Cons_conv)
  have "stored_state cancelled_store ''r1'' = Inr (cancel sent_state)"
    using states_storable(2) row by (simp add: outcome run_row_of_def storable_def)
  then have "is_ok (accept_response_and_advance example_env 5 ''r1'' ''response'' advanced_state cancelled_store)"
    using acceptance_accepts [of cancelled_store example_env advanced_state "cancel sent_state" 5 "''response''"]
    by (simp add: states_example cancelled_example states_storable)
  then obtain x where accept: "accept_response_and_advance example_env 5 ''r1'' ''response'' advanced_state
      cancelled_store = Inr (x, revived_store)"
    by (auto simp: is_ok_iff commit_def revived_store_def)
  note tables = accept_response_tables [OF accept, unfolded states_example]
  show "map (\<lambda>row. (rn_id row, rn_state row)) (st_runs revived_store) = [(''r1'', advanced_state)]"
    using tables(2) row by (simp add: put_state_def update_rows_def)
  show "st_locks revived_store = []"
    using tables(3) cancelled_example(2) by (simp add: locks_after_def)
qed

text \<open>
  A cancellation can be lost: \<open>cancel\<close> does not wait for the driver, and the acceptance of a response
  stores the state the driver had loaded before without looking at the stored status. The cancelled run
  is running again and has no lock, and a second run of the same repository and worktree is started
  beside it.
\<close>

theorem cancelled_run_revived:
  "map (\<lambda>row. status (rn_state row)) (st_runs cancelled_store) = [SCancelled]
   \<and> map (\<lambda>row. status (rn_state row)) (st_runs revived_store) = [SRunning]
   \<and> st_locks revived_store = []
   \<and> map (\<lambda>row. (rn_id row, status (rn_state row)))
       (st_runs (store_step example_env 6 (StartRun rival_facts ''i'' [''t'']) revived_store))
     = [(''r1'', SRunning), (''r2'', SRunning)]
   \<and> rf_git_common_dir rival_facts = rf_git_common_dir (facts advanced_state)"
proof -
  let ?rival = "the (started_run rival_facts ''i'' [''t''])"
  obtain row where row: "st_runs revived_store = [row]" "rn_id row = ''r1''" "rn_state row = advanced_state"
    using revived_example(1) by (auto simp: map_eq_Cons_conv)
  have start: "started_run rival_facts ''i'' [''t''] = Some ?rival" using states_example(4) by simp
  have "is_ok (insert_run example_env 6 ?rival revived_store)"
    by (rule insert_run_accepts)
       (simp_all add: states_storable states_example row revived_example lock_free_def)
  then obtain x st where insert: "insert_run example_env 6 ?rival revived_store = Inr (x, st)"
    by (auto simp: is_ok_iff)
  have "st_runs (store_step example_env 6 (StartRun rival_facts ''i'' [''t'']) revived_store)
      = [row, new_row example_env 6 ?rival]"
    using insert_run_tables(4) [OF insert] insert row
    by (simp add: commit_def start [THEN arg_cong [of _ _ "case_option revived_store
         (\<lambda>s. commit revived_store (insert_run example_env 6 s revived_store))"]])
  moreover obtain row' where "st_runs cancelled_store = [row']" "rn_state row' = cancel sent_state"
    using cancelled_example(1) by (auto simp: map_eq_Cons_conv)
  ultimately show ?thesis
    using row revived_example(2) by (simp add: new_row_def states_example cancel_def)
qed

end
