(* ===== verification/Turn_Messages.thy ===== *)
theory Turn_Messages
  imports Turn_Audit Repository_Guard Store_Commands
begin

text \<open>
  From the answer of a participant to a message of the protocol, and from the state of a run to the
  payload of a request (\<open>crates/daemon/src/coordinator.rs\<close>): a marker response is turned into a message
  whose envelope the coordinator writes itself, the frozen test commands are executed through the store,
  and the evidence of a message is checked against the turn and the repository.
\<close>

subsection \<open>Errors of other components\<close>

datatype app_server_error =
    Rpc string
  | InvalidRequest string
  | InvalidAppResponse string
  | ProcessFailed string
  | ThreadNotLoaded string
  | IncompatibleCodex string

fun app_server_error_text :: "app_server_error \<Rightarrow> string" where
  "app_server_error_text (Rpc t) = t"
| "app_server_error_text (InvalidRequest t) = ''invalid App Server request: '' @ t"
| "app_server_error_text (InvalidAppResponse t) = ''invalid App Server response: '' @ t"
| "app_server_error_text (ProcessFailed t) = ''Codex process failed: '' @ t"
| "app_server_error_text (ThreadNotLoaded t) = ''thread not loaded: '' @ t"
| "app_server_error_text (IncompatibleCodex t) = ''INCOMPATIBLE_CODEX: '' @ t"

fun communication_error :: "string \<Rightarrow> string option \<Rightarrow> app_server_error \<Rightarrow> coordinator_error" where
  "communication_error operation thread_id (IncompatibleCodex detail) =
     app_server ''INCOMPATIBLE_CODEX'' detail operation thread_id"
| "communication_error operation thread_id err =
     app_server ''COMMUNICATION_FAILURE'' (app_server_error_text err) operation thread_id"

fun store_error_text :: "turn_libs \<Rightarrow> store_error \<Rightarrow> string" where
  "store_error_text T (ActiveRunExists t) = ''ACTIVE_RUN_EXISTS: '' @ t"
| "store_error_text T (RunNotFound t) = ''RUN_NOT_FOUND: '' @ t"
| "store_error_text T (PendingSendNotFound t) = ''PENDING_SEND_NOT_FOUND: '' @ t"
| "store_error_text T (TerminalTurnNotRetryable t) = ''TERMINAL_TURN_NOT_RETRYABLE: '' @ t"
| "store_error_text T (VerificationExecutionUncertain t) = ''VERIFICATION_EXECUTION_UNCERTAIN: '' @ t"
| "store_error_text T DatabaseConstraint = ''database error: '' @ tl_library_text T ''database''"
| "store_error_text T SerializationError = ''state serialization error: '' @ tl_library_text T ''serialization''"
| "store_error_text T (IncompatibleState t) = ''INCOMPATIBLE_STATE: '' @ t"

definition of_store :: "turn_libs \<Rightarrow> store_error \<Rightarrow> coordinator_error" where
  "of_store T err = StoreFailure (store_error_code err) (store_error_text T err)"

definition of_safety :: "safety_error \<Rightarrow> coordinator_error" where
  "of_safety err = operational (sf_code err) (sf_detail err)"

definition of_state :: "state_error \<Rightarrow> coordinator_error" where
  "of_state err = operational (se_code err) (se_detail err)"

abbreviation stored :: "turn_libs \<Rightarrow> store_error + 'a \<Rightarrow> coordinator_error + 'a" where
  "stored T r \<equiv> map_err (of_store T) r"

abbreviation guarded :: "safety_error + 'a \<Rightarrow> coordinator_error + 'a" where
  "guarded r \<equiv> map_err of_safety r"

abbreviation invalid_state :: "string \<Rightarrow> coordinator_error" where
  "invalid_state detail \<equiv> operational ''INVALID_STATE'' detail"

subsection \<open>The answer of a participant\<close>

definition allowed_participant_signals :: "next_action \<Rightarrow> participant_signal list" where
  "allowed_participant_signals action =
     (case action of
        RequestPrimaryContract \<Rightarrow> [ContractReady, SignalBlocked]
      | RequestReviewerContract \<Rightarrow> [ContractReady, SignalBlocked]
      | RequestPrimaryPlan \<Rightarrow> [PlanReady, SignalBlocked]
      | RequestReviewerPlanVerdict \<Rightarrow> [Approved, ChangesRequired, SignalBlocked]
      | RequestReviewerResultVerdict \<Rightarrow> [Approved, ChangesRequired, SignalBlocked]
      | RequestPrimaryIntegration \<Rightarrow> [IntegrationReady, SignalBlocked]
      | RequestPrimaryVerification \<Rightarrow> [VerificationReady, SignalBlocked]
      | _ \<Rightarrow> [])"

definition authoritative_envelope ::
  "run_state \<Rightarrow> message_type \<Rightarrow> string option \<Rightarrow> string option \<Rightarrow> string option \<Rightarrow> envelope" where
  "authoritative_envelope s message_type reason branch sha =
     \<lparr>env_protocol = PROTOCOL_V1, env_run_id = rf_run_id (facts s), env_message_type = message_type,
      env_phase = message_phase_of (phase s), env_round = round s, env_primary_sha = rf_primary_sha (facts s),
      env_reviewer_sha = rf_reviewer_sha (facts s), env_plan_revision = plan_revision s,
      env_integration_branch = branch, env_integration_sha = sha, env_reason_code = reason\<rparr>"

definition strip_fence :: "string \<Rightarrow> string \<Rightarrow> string option" where
  "strip_fence opening t = Option.bind (strip_prefix opening t) (\<lambda>value. strip_suffix ''```'' value)"

definition contract_candidate :: "string \<Rightarrow> string" where
  "contract_candidate trimmed =
     (case strip_fence ''```json'' trimmed of
        Some inner \<Rightarrow> trim inner
      | None \<Rightarrow> (case strip_fence ''```'' trimmed of Some inner \<Rightarrow> trim inner | None \<Rightarrow> trimmed))"

definition parse_contract_json :: "turn_libs \<Rightarrow> string \<Rightarrow> coordinator_error + json" where
  "parse_contract_json T body =
     attempt (map_err (\<lambda>err. invalid_response (''CONTRACT_READY body is not one JSON object: '' @ err))
                (tl_parse T (contract_candidate (trim body)))) (\<lambda>contract.
     attempt (ensure (is_object contract) (invalid_response ''CONTRACT_READY body must be a JSON object''))
       (\<lambda>_. Inr contract))"

definition require_free_markdown :: "string \<Rightarrow> string \<Rightarrow> coordinator_error + unit" where
  "require_free_markdown body detail = ensure (\<not> blank body) (invalid_response detail)"

definition feedback_payload :: "string \<Rightarrow> json" where
  "feedback_payload body = json_object [(''format'', JStr ''markdown''), (''feedback'', JStr body)]"

definition changes_required_message :: "run_state \<Rightarrow> string \<Rightarrow> bool \<Rightarrow> coordinator_error + protocol_message" where
  "changes_required_message s feedback result_review =
     attempt (require_free_markdown feedback ''CHANGES_REQUIRED requires nonempty free-form feedback'') (\<lambda>_.
     attempt
       (if result_review then
          attempt (ok_or (invalid_state ''result feedback has no current integration branch'')
                     (integration_branch s)) (\<lambda>branch.
          attempt (ok_or (invalid_state ''result feedback has no current integration SHA'')
                     (integration_sha s)) (\<lambda>sha. Inr (Some branch, Some sha)))
        else Inr (None, None)) (\<lambda>(branch, sha).
     Inr \<lparr>envelope = authoritative_envelope s MChangesRequired (Some ''REVIEW_CHANGES_REQUIRED'') branch sha,
          payload = feedback_payload feedback\<rparr>))"

definition current_integration :: "run_state \<Rightarrow> coordinator_error + json" where
  "current_integration s =
     ok_or (history_unavailable ''current integration evidence is absent from canonical persisted state'')
       (current_integration_payload s)"

text \<open>\<open>serde_json\<close> writes a path that is UTF-8; \<open>json!\<close> panics on another.\<close>

definition panics_unless :: "bool \<Rightarrow> 'a \<Rightarrow> coordinator_error + 'a" where
  "panics_unless ok v = (if ok then Inr v else Inl (Panicked ''path contains invalid UTF-8 characters''))"

definition text_array :: "string list \<Rightarrow> json" where
  "text_array ts = JArr (map JStr ts)"

definition contract_message_of ::
  "turn_libs \<Rightarrow> run_state \<Rightarrow> string \<Rightarrow> string \<Rightarrow> coordinator_error + protocol_message" where
  "contract_message_of T s role body =
     attempt (parse_contract_json T body) (\<lambda>contract.
     Inr \<lparr>envelope = authoritative_envelope s MContractReady None None None,
          payload = json_object [(''role'', JStr role), (''contract'', contract)]\<rparr>)"

definition plan_message_of :: "run_state \<Rightarrow> string \<Rightarrow> coordinator_error + protocol_message" where
  "plan_message_of s body =
     attempt (require_free_markdown body ''PLAN_READY requires a complete plan'') (\<lambda>_.
     attempt (ok_or (history_unavailable ''primary contract is unavailable while normalizing the plan'')
                (primary_contract s)) (\<lambda>primary.
     attempt (ok_or (history_unavailable ''reviewer contract is unavailable while normalizing the plan'')
                (reviewer_contract s)) (\<lambda>reviewer.
     Inr \<lparr>envelope = authoritative_envelope s MPlanReady None None None,
          payload = json_object
            [(''primary_contract'', primary), (''reviewer_contract'', reviewer),
             (''plan'', json_object [(''format'', JStr ''markdown''), (''content'', JStr body)]),
             (''coverage_matrix'', JArr []), (''test_commands'', text_array (required_test_commands s))]\<rparr>)))"

definition plan_approval_of :: "libs \<Rightarrow> run_state \<Rightarrow> string \<Rightarrow> coordinator_error + protocol_message" where
  "plan_approval_of L s body =
     attempt (ok_or (history_unavailable ''current plan hash is unavailable for approval'')
                (map_option (canonical_json_hash L) (current_plan_payload s))) (\<lambda>plan_hash.
     Inr \<lparr>envelope = authoritative_envelope s MApprovedPlan None None None,
          payload = json_object
            [(''approved_plan_revision'', opt_json word_json (plan_revision s)),
             (''approved_primary_sha'', JStr (rf_primary_sha (facts s))),
             (''approved_reviewer_sha'', JStr (rf_reviewer_sha (facts s))),
             (''approved_plan_hash'', JStr plan_hash), (''uncovered_items'', JArr []),
             (''review_markdown'', JStr body)]\<rparr>)"

definition integration_message_of :: "git_env \<Rightarrow> run_state \<Rightarrow> string \<Rightarrow> coordinator_error + protocol_message" where
  "integration_message_of e s body =
     attempt (ok_or (invalid_state ''authorized integration branch is unavailable'')
                (target_integration_branch s)) (\<lambda>branch.
     attempt (guarded (authoritative_integration_result e (facts s) branch)) (\<lambda>(sha, files).
     attempt (panics_unless (list_all utf8 files) (text_array files)) (\<lambda>changed.
     Inr \<lparr>envelope = authoritative_envelope s MIntegrationReady None (Some branch) (Some sha),
          payload = json_object
            [(''changed_files'', changed),
             (''integration_evidence'',
                json_object [(''format'', JStr ''markdown''), (''summary'', JStr body)])]\<rparr>)))"

definition verification_message_of :: "run_state \<Rightarrow> string \<Rightarrow> coordinator_error + protocol_message" where
  "verification_message_of s body =
     attempt (current_integration s) (\<lambda>p.
     attempt (ok_or (invalid_state ''canonical integration payload is not an object'') (as_object p)) (\<lambda>es.
     Inr \<lparr>envelope = authoritative_envelope s MIntegrationReady None (integration_branch s) (integration_sha s),
          payload = JObj (obj_insert ''verification_summary'' (JStr body) es)\<rparr>))"

definition result_approval_of :: "run_state \<Rightarrow> string \<Rightarrow> coordinator_error + protocol_message" where
  "result_approval_of s body =
     attempt (ok_or (invalid_state ''integration branch is unavailable for result approval'')
                (integration_branch s)) (\<lambda>branch.
     attempt (ok_or (invalid_state ''integration SHA is unavailable for result approval'')
                (integration_sha s)) (\<lambda>sha.
     Inr \<lparr>envelope = authoritative_envelope s MApprovedResult None (Some branch) (Some sha),
          payload = json_object
            [(''approved_plan_revision'', opt_json word_json (plan_revision s)),
             (''approved_primary_sha'', JStr (rf_primary_sha (facts s))),
             (''approved_reviewer_sha'', JStr (rf_reviewer_sha (facts s))),
             (''approved_integration_branch'', JStr branch), (''approved_integration_sha'', JStr sha),
             (''uncovered_items'', JArr []), (''review_markdown'', JStr body)]\<rparr>))"

definition blocked_message_of :: "run_state \<Rightarrow> participant_response \<Rightarrow> protocol_message" where
  "blocked_message_of s r =
     \<lparr>envelope = authoritative_envelope s MBlocked
        (Some (case resp_blocked_reason r of None \<Rightarrow> ''PARTICIPANT_BLOCKED'' | Some reason \<Rightarrow> reason))
        (integration_branch s) (integration_sha s),
      payload = feedback_payload (resp_body r)\<rparr>"

definition unmatched_marker :: "coordinator_error + protocol_message" where
  "unmatched_marker = Inl (invalid_response ''participant result marker does not match the pending action'')"

definition marker_message ::
  "turn_libs \<Rightarrow> git_env \<Rightarrow> run_state \<Rightarrow> next_action \<Rightarrow> participant_response \<Rightarrow> coordinator_error + protocol_message" where
  "marker_message T e s action r =
     (let body = resp_body r; signal = resp_signal r in
      case action of
        RequestPrimaryContract \<Rightarrow>
          if signal = ContractReady then contract_message_of T s ''PRIMARY'' body else unmatched_marker
      | RequestReviewerContract \<Rightarrow>
          if signal = ContractReady then contract_message_of T s ''REVIEWER'' body else unmatched_marker
      | RequestPrimaryPlan \<Rightarrow>
          if signal = PlanReady then plan_message_of s body else unmatched_marker
      | RequestReviewerPlanVerdict \<Rightarrow>
          if signal = Approved then plan_approval_of (tl_core T) s body
          else if signal = ChangesRequired then changes_required_message s body False
          else unmatched_marker
      | RequestPrimaryIntegration \<Rightarrow>
          if signal = IntegrationReady then integration_message_of e s body else unmatched_marker
      | RequestPrimaryVerification \<Rightarrow>
          if signal = VerificationReady then verification_message_of s body else unmatched_marker
      | RequestReviewerResultVerdict \<Rightarrow>
          if signal = Approved then result_approval_of s body
          else if signal = ChangesRequired then changes_required_message s body True
          else unmatched_marker
      | _ \<Rightarrow> unmatched_marker)"

definition checked_message :: "turn_libs \<Rightarrow> json \<Rightarrow> coordinator_error + protocol_message" where
  "checked_message T v =
     map_err (\<lambda>err. invalid_response (protocol_error_text err)) (validate_message (tl_core T) v)"

definition normalized_marker_message ::
  "turn_libs \<Rightarrow> git_env \<Rightarrow> run_state \<Rightarrow> next_action \<Rightarrow> participant_response \<Rightarrow> coordinator_error + protocol_message" where
  "normalized_marker_message T e s action r =
     (if resp_signal r = SignalBlocked then Inr (blocked_message_of s r)
      else attempt (marker_message T e s action r) (\<lambda>m. checked_message T (message_to_value (tl_core T) m)))"

definition promote_post_patch_limit_response ::
  "next_action \<Rightarrow> participant_response \<Rightarrow> bool \<Rightarrow> participant_response" where
  "promote_post_patch_limit_response action r patch_recorded =
     (if action \<noteq> RequestPrimaryIntegration \<or> resp_signal r \<noteq> SignalBlocked
         \<or> resp_blocked_reason r \<noteq> Some ''PATCH_LIMIT_REACHED'' \<or> \<not> patch_recorded
      then r
      else \<lparr>resp_signal = IntegrationReady, resp_blocked_reason = None,
        resp_body =
          (if blank (resp_body r) then
             ''The Primary reported that the request-bound patch allowance was exhausted after one successful ''
             @ ''patch. The clean committed result is being handed to coordinator-owned verification without ''
             @ ''repeating the patch.''
           else
             ''The Primary reported a known post-patch defect after exhausting this request''
             @ [CHR 0x27] @ ''s patch allowance. The clean committed result is being handed to ''
             @ ''coordinator-owned verification without repeating the patch.''
             @ [newline, newline] @ ''Known issue reported by Primary:'' @ [newline, newline] @ trim (resp_body r))\<rparr>)"

definition is_protocol_message :: "json \<Rightarrow> bool" where
  "is_protocol_message v \<longleftrightarrow> str_field v ''protocol'' = Some PROTOCOL_V1"

definition participant_error_text :: "string \<Rightarrow> string" where
  "participant_error_text detail = ''participant response marker is invalid: '' @ detail"

definition patch_recorded_for_pending :: "store \<Rightarrow> string \<Rightarrow> bool" where
  "patch_recorded_for_pending st run_id =
     (case pending_request st run_id of
        Some pending \<Rightarrow> successful_patch_recorded st run_id (ps_hash pending)
      | None \<Rightarrow> False)"

definition marker_response ::
  "turn_libs \<Rightarrow> git_env \<Rightarrow> store \<Rightarrow> run_state \<Rightarrow> next_action \<Rightarrow> string \<Rightarrow> coordinator_error + protocol_message" where
  "marker_response T e st s action text =
     attempt (map_err (\<lambda>detail. invalid_response (participant_error_text detail))
                (parse_participant_response (tl_debug T) text (allowed_participant_signals action))) (\<lambda>r.
     normalized_marker_message T e s action
       (promote_post_patch_limit_response action r
          (action = RequestPrimaryIntegration
             \<and> patch_recorded_for_pending st (uuid_text (tl_core T) (rf_run_id (facts s))))))"

definition normalize_model_response ::
  "turn_libs \<Rightarrow> git_env \<Rightarrow> store \<Rightarrow> run_state \<Rightarrow> next_action \<Rightarrow> string \<Rightarrow> coordinator_error + protocol_message" where
  "normalize_model_response T e st s action response_text =
     (let trimmed = trim response_text in
      case tl_parse T trimmed of
        Inr v \<Rightarrow> if is_protocol_message v then checked_message T v
                 else marker_response T e st s action trimmed
      | Inl _ \<Rightarrow> marker_response T e st s action trimmed)"

end
