(* ===== verification/Turn_Verification.thy ===== *)
theory Turn_Verification
  imports Turn_Messages
begin

text \<open>
  The request of a turn and the evidence of its answer (\<open>crates/daemon/src/coordinator.rs\<close>): the payload
  of a request, the execution of the frozen test commands through the store, the provenance of a
  recorded patch, and the check of a message before it is applied.
\<close>

subsection \<open>The payload of a request\<close>

abbreviation absent :: "string \<Rightarrow> 'a option \<Rightarrow> coordinator_error + 'a" where
  "absent what v \<equiv> ok_or (history_unavailable (what @ '' is absent from canonical persisted state'')) v"

definition get_or_null :: "json \<Rightarrow> string \<Rightarrow> json" where
  "get_or_null v k = (case get v k of None \<Rightarrow> JNull | Some x \<Rightarrow> x)"

definition opt_value :: "json option \<Rightarrow> json" where
  "opt_value v = (case v of None \<Rightarrow> JNull | Some x \<Rightarrow> x)"

definition plan_request :: "run_state \<Rightarrow> coordinator_error + json" where
  "plan_request s =
     attempt (absent ''primary contract'' (primary_contract s)) (\<lambda>primary.
     attempt (absent ''reviewer contract'' (reviewer_contract s)) (\<lambda>reviewer.
     Inr (json_object
       [(''primary_contract'', primary), (''reviewer_contract'', reviewer),
        (''previous_plan'', opt_value (current_plan_payload s)),
        (''review_feedback'', opt_value (last_plan_feedback s)),
        (''target_integration_branch'', opt_json JStr (target_integration_branch s)),
        (''required_test_commands'', text_array (required_test_commands s))])))"

definition plan_verdict_request :: "libs \<Rightarrow> run_state \<Rightarrow> coordinator_error + json" where
  "plan_verdict_request L s =
     attempt (absent ''current plan'' (current_plan_payload s)) (\<lambda>plan.
     attempt (ok_or (invalid_state ''canonical plan payload is not an object'') (as_object plan)) (\<lambda>es.
     Inr (JObj (obj_insert ''plan_hash'' (JStr (canonical_json_hash L plan)) es))))"

definition integration_request :: "run_state \<Rightarrow> coordinator_error + json" where
  "integration_request s =
     attempt (absent ''current plan'' (current_plan_payload s)) (\<lambda>plan.
     attempt (absent ''plan approval'' (plan_approval_payload s)) (\<lambda>approval.
     attempt (absent ''primary contract'' (primary_contract s)) (\<lambda>primary.
     attempt (absent ''reviewer contract'' (reviewer_contract s)) (\<lambda>reviewer.
     Inr (json_object
       [(''primary_contract'', primary), (''reviewer_contract'', reviewer),
        (''approved_plan'', get_or_null plan ''plan''),
        (''coverage_matrix'', get_or_null plan ''coverage_matrix''), (''approval'', approval),
        (''target_integration_branch'', opt_json JStr (target_integration_branch s)),
        (''previous_integration_sha'', opt_json JStr (integration_sha s)),
        (''result_feedback'', opt_value (last_result_feedback s))])))))"

definition verification_request :: "run_state \<Rightarrow> coordinator_error + json" where
  "verification_request s =
     attempt (current_integration s) (\<lambda>integration.
     panics_unless (pred_option utf8 (verification_worktree s)) (json_object
       [(''integration_evidence'', get_or_null integration ''integration_evidence''),
        (''changed_files'', get_or_null integration ''changed_files''),
        (''required_test_commands'', text_array (required_test_commands s)),
        (''verification_worktree'', opt_json JStr (verification_worktree s)),
        (''integration_branch'', opt_json JStr (integration_branch s)),
        (''integration_sha'', opt_json JStr (integration_sha s))]))"

definition result_verdict_request :: "run_state \<Rightarrow> coordinator_error + json" where
  "result_verdict_request s =
     attempt (absent ''current plan'' (current_plan_payload s)) (\<lambda>plan.
     attempt (current_integration s) (\<lambda>integration.
     attempt (absent ''primary contract'' (primary_contract s)) (\<lambda>primary.
     attempt (absent ''reviewer contract'' (reviewer_contract s)) (\<lambda>reviewer.
     Inr (json_object
       [(''primary_contract'', primary), (''reviewer_contract'', reviewer),
        (''approved_plan'', get_or_null plan ''plan''),
        (''coverage_matrix'', get_or_null plan ''coverage_matrix''),
        (''integration_evidence'', get_or_null integration ''integration_evidence''),
        (''test_evidence'', get_or_null integration ''test_evidence''),
        (''changed_files'', get_or_null integration ''changed_files''),
        (''integration_branch'', opt_json JStr (integration_branch s)),
        (''integration_sha'', opt_json JStr (integration_sha s))])))))"

definition build_action_payload :: "libs \<Rightarrow> run_state \<Rightarrow> next_action \<Rightarrow> coordinator_error + json" where
  "build_action_payload L s action =
     (case action of
        RequestPrimaryContract \<Rightarrow> Inr (json_object [(''task_context'',
          JStr ''derive the complete primary contract from this task and frozen SHA'')])
      | RequestReviewerContract \<Rightarrow> Inr (json_object [(''task_context'',
          JStr ''derive the complete reviewer contract from this task and frozen SHA'')])
      | RequestPrimaryPlan \<Rightarrow> plan_request s
      | RequestReviewerPlanVerdict \<Rightarrow> plan_verdict_request L s
      | RequestPrimaryIntegration \<Rightarrow> integration_request s
      | RequestPrimaryVerification \<Rightarrow> verification_request s
      | RequestReviewerResultVerdict \<Rightarrow> result_verdict_request s
      | _ \<Rightarrow> Inl (invalid_state ''action does not start a task turn''))"

subsection \<open>Verification commands\<close>

definition MAX_VERIFICATION_FAILURE_OUTPUT_BYTES :: nat where
  "MAX_VERIFICATION_FAILURE_OUTPUT_BYTES = 16384"

definition VERIFICATION_COMMAND_OUTPUT_CAP_BYTES :: nat where
  "VERIFICATION_COMMAND_OUTPUT_CAP_BYTES = 65536"

definition VERIFICATION_OUTPUT_TRUNCATION_MARKER :: string where
  "VERIFICATION_OUTPUT_TRUNCATION_MARKER = ''[earlier output truncated]'' @ [newline]"

text \<open>A byte that does not start a character.\<close>

definition continuation :: "char \<Rightarrow> bool" where
  "continuation c \<longleftrightarrow> tail_byte (byte c)"

definition bounded_verification_output :: "string \<Rightarrow> string" where
  "bounded_verification_output output =
     (if length output \<le> MAX_VERIFICATION_FAILURE_OUTPUT_BYTES then output
      else
        let retained = MAX_VERIFICATION_FAILURE_OUTPUT_BYTES - length VERIFICATION_OUTPUT_TRUNCATION_MARKER;
            start = length output - retained
        in VERIFICATION_OUTPUT_TRUNCATION_MARKER @ dropWhile continuation (drop start output))"

record authoritative_verification =
  av_evidence :: "test_evidence list"
  av_failures :: "json list"

definition missing_part :: "verification_command_record \<Rightarrow> string \<Rightarrow> coordinator_error" where
  "missing_part record what =
     invalid_state (''completed verification command '' @ vc_item record @ '' has no '' @ what)"

definition failure_of :: "verification_command_record \<Rightarrow> 32 word \<Rightarrow> string \<Rightarrow> string \<Rightarrow> json" where
  "failure_of record exit_code out err =
     (let separator = if out = [] \<or> err = [] then [] else [newline] in
      json_object
        [(''command'', JStr (vc_command record)), (''exit_code'', JInt (sint exit_code)),
         (''item_id'', JStr (vc_item record)),
         (''output'', JStr (bounded_verification_output (out @ separator @ err)))])"

definition append_verification_record ::
  "verification_command_record \<Rightarrow> authoritative_verification \<Rightarrow> coordinator_error + authoritative_verification" where
  "append_verification_record record av =
     attempt (ok_or (missing_part record ''exit code'') (vc_exit_code record)) (\<lambda>exit_code.
     attempt (ok_or (missing_part record ''stdout'') (vc_stdout record)) (\<lambda>out.
     attempt (ok_or (missing_part record ''stderr'') (vc_stderr record)) (\<lambda>err.
     Inr \<lparr>av_evidence = av_evidence av @ [\<lparr>te_command = vc_command record, te_exit_code = sint exit_code,
            te_turn_id = vc_turn record, te_item_id = vc_item record, te_cwd = vc_cwd record\<rparr>],
          av_failures = av_failures av
            @ (if exit_code \<noteq> 0 then [failure_of record exit_code out err] else [])\<rparr>)))"

record command_exec_request =
  ce_command :: "string list"
  ce_cwd :: string
  ce_timeout_ms :: nat
  ce_output_bytes_cap :: nat

record command_exec_result =
  cr_exit_code :: "32 word"
  cr_stdout :: string
  cr_stderr :: string

text \<open>
  The App Server executes a command; what it answers to the request at index \<open>n\<close> is the parameter
  \<open>exec n\<close>. The store is passed along, a command that fails leaves what the ones before it recorded.
\<close>

type_synonym executor = "nat \<Rightarrow> command_exec_request \<Rightarrow> app_server_error + command_exec_result"

definition command_argv :: "policy_libs \<Rightarrow> string \<Rightarrow> coordinator_error + string list" where
  "command_argv P command =
     attempt (ensure (validate_test_command P command)
       (operational ''INVALID_TEST_COMMAND'' (''frozen test command violates the execution policy: '' @ command))) (\<lambda>_.
     attempt (ok_or (operational ''INVALID_TEST_COMMAND'' ''frozen test command is not parseable'')
                (pl_split P command)) (\<lambda>argv.
     attempt (ensure (argv \<noteq> [])
                (operational ''INVALID_TEST_COMMAND'' ''frozen test command has no executable'')) (\<lambda>_.
     Inr argv)))"

definition execute_claimed ::
  "turn_libs \<Rightarrow> executor \<Rightarrow> nat \<Rightarrow> string \<Rightarrow> string \<Rightarrow> string \<Rightarrow> string list \<Rightarrow> nat \<Rightarrow> claim
   \<Rightarrow> store \<Rightarrow> (coordinator_error + verification_command_record) \<times> store" where
  "execute_claimed T exec timeout_ms run_id request_hash cwd argv n claim st =
     (case claim of
        Reuse record \<Rightarrow> (Inr record, st)
      | Execute _ \<Rightarrow>
          attempt_in st (map_err (communication_error ''command/exec'' None)
              (exec n \<lparr>ce_command = argv, ce_cwd = cwd, ce_timeout_ms = timeout_ms,
                       ce_output_bytes_cap = VERIFICATION_COMMAND_OUTPUT_CAP_BYTES\<rparr>)) (\<lambda>result.
          attempt_in st (stored T (complete_verification_command run_id request_hash (of_nat n)
              (cr_exit_code result) (cr_stdout result) (cr_stderr result) st)) (\<lambda>(record, st').
          (Inr record, st'))))"

fun execute_commands ::
  "turn_libs \<Rightarrow> executor \<Rightarrow> nat \<Rightarrow> string \<Rightarrow> string \<Rightarrow> string \<Rightarrow> string \<Rightarrow> nat \<Rightarrow> string list
   \<Rightarrow> authoritative_verification \<Rightarrow> store \<Rightarrow> (coordinator_error + authoritative_verification) \<times> store" where
  "execute_commands T exec timeout_ms run_id request_hash turn_id cwd n [] av st = (Inr av, st)"
| "execute_commands T exec timeout_ms run_id request_hash turn_id cwd n (command # commands) av st =
     attempt_in st (command_argv (tl_policy T) command) (\<lambda>argv.
     attempt_in st (ensure (n < 2 ^ 32) (invalid_state ''verification command index exceeds u32'')) (\<lambda>_.
     attempt_in st (stored T (begin_verification_command run_id request_hash turn_id (of_nat n) command cwd st))
       (\<lambda>(claim, st1).
     case execute_claimed T exec timeout_ms run_id request_hash cwd argv n claim st1 of
       (Inl err, st2) \<Rightarrow> (Inl err, st2)
     | (Inr record, st2) \<Rightarrow>
         attempt_in st2 (append_verification_record record av) (\<lambda>av'.
         execute_commands T exec timeout_ms run_id request_hash turn_id cwd (n + 1) commands av' st2))))"

definition execute_frozen_verification ::
  "turn_libs \<Rightarrow> executor \<Rightarrow> nat \<Rightarrow> run_state \<Rightarrow> string \<Rightarrow> string \<Rightarrow> store
   \<Rightarrow> (coordinator_error + authoritative_verification) \<times> store" where
  "execute_frozen_verification T exec wait_timeout_ms s request_hash turn_id st =
     attempt_in st (ok_or (invalid_state ''verification workspace is not persisted'') (verification_worktree s)) (\<lambda>cwd.
     attempt_in st (ensure (wait_timeout_ms < 2 ^ 64) (invalid_state ''verification timeout exceeds u64'')) (\<lambda>_.
     execute_commands T exec wait_timeout_ms (uuid_text (tl_core T) (rf_run_id (facts s))) request_hash turn_id
       cwd 0 (required_test_commands s) \<lparr>av_evidence = [], av_failures = []\<rparr> st))"

subsection \<open>The identity of a recorded turn\<close>

definition validate_recorded_role_thread ::
  "turn_libs \<Rightarrow> store \<Rightarrow> run_state \<Rightarrow> role \<Rightarrow> string \<Rightarrow> 32 word option \<Rightarrow> coordinator_error + unit" where
  "validate_recorded_role_thread T st s role thread_id generation =
     (case role of
        Reviewer \<Rightarrow>
          ensure (thread_id = rf_reviewer_thread_id (facts s) \<and> generation = None)
            (history_unavailable ''recorded Reviewer turn does not match the frozen Reviewer identity'')
      | Primary \<Rightarrow>
          attempt (ok_or (history_unavailable ''recorded Primary turn has no participant binding generation'')
                     generation) (\<lambda>g.
          attempt (ok_or (history_unavailable (''recorded Primary turn references unknown binding generation ''
                      @ decimal (unat g)))
             (query_primary_binding st (uuid_text (tl_core T) (rf_run_id (facts s))) g)) (\<lambda>b.
          ensure (bi_source b = rf_primary_thread_id (facts s) \<and> bi_effective b = thread_id
                  \<and> bi_server b = PARTICIPANT_MCP_SERVER)
            (history_unavailable ''recorded Primary turn does not match its historical participant binding''))))"

definition validate_legacy_source_primary_thread ::
  "run_state \<Rightarrow> string \<Rightarrow> string option \<Rightarrow> 32 word option \<Rightarrow> coordinator_error + unit" where
  "validate_legacy_source_primary_thread s thread_id capability generation =
     ensure (thread_id = rf_primary_thread_id (facts s)
             \<and> capability = Some LEGACY_PARTICIPANT_CAPABILITY_GENERATION \<and> generation = None)
       (history_unavailable ''legacy Primary turn does not match the release-bounded Source Primary identity'')"

definition same_lineage ::
  "primary_participant_binding \<Rightarrow> primary_participant_binding \<Rightarrow> primary_participant_binding \<Rightarrow> bool" where
  "same_lineage patch_binding pending_binding active_binding \<longleftrightarrow>
     bi_mode patch_binding = EphemeralFork \<and> bi_mode pending_binding = EphemeralFork
     \<and> bi_source patch_binding = bi_source pending_binding
     \<and> bi_server patch_binding = bi_server pending_binding
     \<and> bi_history patch_binding \<noteq> None \<and> bi_history patch_binding = bi_history pending_binding
     \<and> active_binding = pending_binding"

text \<open>A patch of another binding than that of the turn: only of an archived attempt in the same lineage.\<close>

definition retried_provenance ::
  "turn_libs \<Rightarrow> store \<Rightarrow> run_state \<Rightarrow> pending_send \<Rightarrow> bool \<Rightarrow> string \<Rightarrow> 32 word \<Rightarrow> coordinator_error + unit" where
  "retried_provenance T st s pending allow effective generation =
     (let run_id = uuid_text (tl_core T) (rf_run_id (facts s)) in
      attempt (ok_or (history_unavailable ''retried Primary turn has no effective task identity'')
                 (ps_thread pending)) (\<lambda>pending_effective.
      attempt (ok_or (history_unavailable ''retried Primary turn has no participant binding generation'')
                 (ps_binding pending)) (\<lambda>pending_generation.
      attempt (validate_recorded_role_thread T st s Primary pending_effective (Some pending_generation)) (\<lambda>_.
      attempt (ok_or (history_unavailable ''successful controlled patch references an unknown historical binding'')
                 (query_primary_binding st run_id generation)) (\<lambda>patch_binding.
      attempt (ok_or (history_unavailable ''retried Primary turn references an unknown binding'')
                 (query_primary_binding st run_id pending_generation)) (\<lambda>pending_binding.
      attempt (ok_or (history_unavailable ''retried Primary turn has no active binding'')
                 (query_active_primary_binding st run_id)) (\<lambda>active_binding.
      ensure (allow \<and> has_patch_provenance_archived_attempt_on_thread st run_id (ps_hash pending) effective
              \<and> same_lineage patch_binding pending_binding active_binding)
        (history_unavailable
           ''successful controlled patch provenance does not match the pending or archived Primary turn''))))))))"

definition validated_successful_patch_hash ::
  "turn_libs \<Rightarrow> store \<Rightarrow> run_state \<Rightarrow> pending_send \<Rightarrow> bool \<Rightarrow> coordinator_error + string option" where
  "validated_successful_patch_hash T st s pending allow =
     (case successful_patch_record st (uuid_text (tl_core T) (rf_run_id (facts s))) (ps_hash pending) of
        None \<Rightarrow> Inr None
      | Some record \<Rightarrow>
          attempt
            (case (sp_source record, sp_effective record, sp_binding record) of
               (Some source, Some effective, Some generation) \<Rightarrow>
                 attempt (validate_recorded_role_thread T st s Primary effective (Some generation)) (\<lambda>_.
                 attempt (ensure (source = rf_primary_thread_id (facts s)) (history_unavailable
                   ''successful controlled patch provenance does not match the frozen Source Primary'')) (\<lambda>_.
                 if ps_thread pending = Some effective \<and> ps_binding pending = Some generation then Inr ()
                 else retried_provenance T st s pending allow effective generation))
             | (source, effective, generation) \<Rightarrow>
                 ensure (source = None \<and> effective = None \<and> generation = None \<and> allow
                         \<and> ps_thread pending = Some (rf_primary_thread_id (facts s)))
                   (history_unavailable
                      ''successful controlled patch has missing or mixed Primary binding provenance''))
            (\<lambda>_. Inr (Some (sp_patch record))))"

subsection \<open>The evidence of a message\<close>

definition declared_values :: "protocol_message \<Rightarrow> json option" where
  "declared_values m =
     (case env_message_type (envelope m) of
        MContractReady \<Rightarrow> Option.bind (get (payload m) ''contract'') (\<lambda>contract. get contract ''tests'')
      | MPlanReady \<Rightarrow> get (payload m) ''test_commands''
      | _ \<Rightarrow> None)"

definition declared_test_commands :: "protocol_message \<Rightarrow> coordinator_error + string list" where
  "declared_test_commands m =
     (if env_message_type (envelope m) \<notin> {MContractReady, MPlanReady} then Inr []
      else
        attempt (ok_or (invalid_response ''declared tests must be a command array'')
                   (Option.bind (declared_values m) as_array))
          (collect_results (\<lambda>v. ok_or (invalid_response ''declared test commands must be strings'') (as_str v))))"

definition reported_changed_files :: "json \<Rightarrow> coordinator_error + string list" where
  "reported_changed_files p =
     attempt (ok_or (invalid_response ''integration evidence requires a changed_files array'')
                (array_field p ''changed_files''))
       (collect_results (\<lambda>v. ok_or (invalid_response ''changed_files entries must be strings'') (as_str v)))"

definition check_declared_commands :: "turn_libs \<Rightarrow> protocol_message \<Rightarrow> coordinator_error + unit" where
  "check_declared_commands T m =
     attempt (declared_test_commands m) (\<lambda>commands.
     scan (\<lambda>_ command. ensure (validate_test_command (tl_policy T) command)
         (operational ''INVALID_TEST_COMMAND''
            (''model-declared test command violates the execution policy: '' @ command))) () commands)"

text \<open>The turn of an integration is audited under the recorded patch of its request.\<close>

definition check_integration_turn ::
  "turn_libs \<Rightarrow> store \<Rightarrow> run_state \<Rightarrow> json \<Rightarrow> coordinator_error + unit" where
  "check_integration_turn T st s turn =
     (let run_id = uuid_text (tl_core T) (rf_run_id (facts s)) in
      attempt (ok_or (history_unavailable ''integration response has no exact pending request identity'')
                 (pending_request st run_id)) (\<lambda>pending.
      attempt (ok_or (history_unavailable ''integration response pending turn has no Effective Primary identity'')
                 (ps_thread pending)) (\<lambda>thread_id.
      attempt (validate_recorded_role_thread T st s Primary thread_id (ps_binding pending)) (\<lambda>_.
      let archived = archived_turn_ids st run_id (ps_hash pending) \<noteq> [] in
      attempt (validated_successful_patch_hash T st s pending archived) (\<lambda>patch_hash.
      verify_integration_execution_items T s turn (ps_hash pending) patch_hash archived)))))"

text \<open>The payload of a verified integration, with the evidence of the coordinator.\<close>

definition verified_payload ::
  "turn_libs \<Rightarrow> run_state \<Rightarrow> json \<Rightarrow> authoritative_verification option \<Rightarrow> coordinator_error + json" where
  "verified_payload T s p authoritative =
     attempt (ok_or (invalid_state ''coordinator verification evidence is absent'') authoritative) (\<lambda>av.
     attempt (current_integration s) (\<lambda>canonical.
     attempt (ok_or (invalid_state ''canonical integration payload is not an object'') (as_object canonical)) (\<lambda>es.
     attempt (ensure (list_all (\<lambda>ev. utf8 (te_cwd ev)) (av_evidence av))
                (operational ''SERIALIZATION_FAILURE'' ''path contains invalid UTF-8 characters'')) (\<lambda>_.
     let es1 = obj_insert ''test_evidence'' (JArr (map test_evidence_value (av_evidence av))) es;
         es2 = (if av_failures av = [] then obj_remove ''verification_failures'' es1
                else obj_insert ''verification_failures'' (JArr (av_failures av)) es1);
         es3 = (case get p ''verification_summary'' of
                  None \<Rightarrow> es2 | Some summary \<Rightarrow> obj_insert ''verification_summary'' summary es2)
     in Inr (JObj es3)))))"

definition check_integration_repository ::
  "git_env \<Rightarrow> run_state \<Rightarrow> protocol_message \<Rightarrow> coordinator_error + unit" where
  "check_integration_repository e s m =
     attempt (ok_or (invalid_response ''integration branch is missing'') (env_integration_branch (envelope m))) (\<lambda>branch.
     attempt (ok_or (invalid_response ''integration SHA is missing'') (env_integration_sha (envelope m))) (\<lambda>sha.
     attempt (reported_changed_files (payload m)) (\<lambda>files.
     guarded (verify_integration e (facts s) branch sha files))))"

text \<open>The message is changed in place; a failure is returned with the message reached.\<close>

definition verify_message_evidence ::
  "turn_libs \<Rightarrow> git_env \<Rightarrow> store \<Rightarrow> run_state \<Rightarrow> next_action \<Rightarrow> json \<Rightarrow> authoritative_verification option
   \<Rightarrow> protocol_message \<Rightarrow> (coordinator_error + unit) \<times> protocol_message" where
  "verify_message_evidence T e st s action turn authoritative m =
     (if env_message_type (envelope m) \<in> {MContractReady, MPlanReady} then (check_declared_commands T m, m)
      else if env_message_type (envelope m) \<noteq> MIntegrationReady then (Inr (), m)
      else if action = RequestPrimaryIntegration then
        attempt_in m (check_integration_turn T st s turn) (\<lambda>_. (check_integration_repository e s m, m))
      else if action = RequestPrimaryVerification then
        attempt_in m (verified_payload T s (payload m) authoritative) (\<lambda>p.
        (check_integration_repository e s (m\<lparr>payload := p\<rparr>), m\<lparr>payload := p\<rparr>))
      else (Inl (invalid_response ''INTEGRATION_READY arrived for a non-integration action''), m))"

subsection \<open>Checks around a turn\<close>

definition revalidate_integration :: "git_env \<Rightarrow> run_state \<Rightarrow> string \<Rightarrow> string \<Rightarrow> coordinator_error + unit" where
  "revalidate_integration e s branch sha =
     attempt (current_integration s) (\<lambda>p.
     attempt (reported_changed_files p) (\<lambda>files.
     guarded (verify_integration e (facts s) branch sha files)))"

definition revalidate_before_action ::
  "turn_libs \<Rightarrow> git_env \<Rightarrow> store \<Rightarrow> run_state \<Rightarrow> next_action \<Rightarrow> coordinator_error + unit" where
  "revalidate_before_action T e st s action =
     (let frozen_or_integrated =
        (case (integration_branch s, integration_sha s) of
           (Some branch, Some sha) \<Rightarrow> revalidate_integration e s branch sha
         | _ \<Rightarrow>
             if action = RequestPrimaryIntegration then
               attempt (ok_or (invalid_state ''target integration branch is missing'') (target_integration_branch s))
                 (\<lambda>branch.
               attempt (guarded (verify_frozen e (facts s))) (\<lambda>_.
               guarded (verify_branch_absent e (facts s) branch)))
             else guarded (verify_frozen e (facts s)))
      in
        if action = RequestPrimaryIntegration then
          attempt (ok_or (invalid_state ''target integration branch is missing'') (target_integration_branch s))
            (\<lambda>branch.
          if pending_request st (uuid_text (tl_core T) (rf_run_id (facts s))) \<noteq> None
          then guarded (verify_integration_in_progress e (facts s) branch)
          else frozen_or_integrated)
        else frozen_or_integrated)"

end
