(* ===== verification/Turn_Messages_Properties.thy ===== *)
theory Turn_Messages_Properties
  imports Turn_Verification Run_Properties Protocol_Properties
begin

text \<open>
  A marker response cannot name anything: the envelope of its message is that of the run, so it is
  current, and it takes effect on a stored run. The bounds of the recorded output of a failed command.
\<close>

subsection \<open>The message of a marker\<close>

lemma authoritative_envelope_simps [simp]:
  "env_protocol (authoritative_envelope s t r b sha) = PROTOCOL_V1"
  "env_run_id (authoritative_envelope s t r b sha) = rf_run_id (facts s)"
  "env_message_type (authoritative_envelope s t r b sha) = t"
  "env_phase (authoritative_envelope s t r b sha) = message_phase_of (phase s)"
  "env_round (authoritative_envelope s t r b sha) = round s"
  "env_primary_sha (authoritative_envelope s t r b sha) = rf_primary_sha (facts s)"
  "env_reviewer_sha (authoritative_envelope s t r b sha) = rf_reviewer_sha (facts s)"
  "env_plan_revision (authoritative_envelope s t r b sha) = plan_revision s"
  "env_integration_branch (authoritative_envelope s t r b sha) = b"
  "env_integration_sha (authoritative_envelope s t r b sha) = sha"
  "env_reason_code (authoritative_envelope s t r b sha) = r"
  by (simp_all add: authoritative_envelope_def)

text \<open>The type of the message, by the pending action and the signal.\<close>

definition marker_type :: "next_action \<Rightarrow> participant_signal \<Rightarrow> message_type option" where
  "marker_type action signal =
     (case signal of
        SignalBlocked \<Rightarrow> Some MBlocked
      | ContractReady \<Rightarrow> if action \<in> {RequestPrimaryContract, RequestReviewerContract} then Some MContractReady else None
      | PlanReady \<Rightarrow> if action = RequestPrimaryPlan then Some MPlanReady else None
      | IntegrationReady \<Rightarrow> if action = RequestPrimaryIntegration then Some MIntegrationReady else None
      | VerificationReady \<Rightarrow> if action = RequestPrimaryVerification then Some MIntegrationReady else None
      | Approved \<Rightarrow> if action = RequestReviewerPlanVerdict then Some MApprovedPlan
                   else if action = RequestReviewerResultVerdict then Some MApprovedResult else None
      | ChangesRequired \<Rightarrow> if action \<in> {RequestReviewerPlanVerdict, RequestReviewerResultVerdict}
                   then Some MChangesRequired else None)"

definition of_run :: "run_state \<Rightarrow> message_type \<Rightarrow> protocol_message \<Rightarrow> bool" where
  "of_run s t m \<longleftrightarrow> (\<exists>r b sha. envelope m = authoritative_envelope s t r b sha)"

lemma of_run_envelope [intro]: "of_run s t \<lparr>envelope = authoritative_envelope s t r b sha, payload = p\<rparr>"
  by (auto simp: of_run_def)

lemmas message_builders =
  contract_message_of_def plan_message_of_def plan_approval_of_def changes_required_message_def
  integration_message_of_def verification_message_of_def result_approval_of_def

lemma marker_message_of_run:
  assumes "marker_message T e s action r = Inr m" "resp_signal r \<noteq> SignalBlocked"
  shows "\<exists>t. marker_type action (resp_signal r) = Some t \<and> of_run s t m"
  using assms
  by (auto simp: marker_message_def unmatched_marker_def Let_def message_builders outcome marker_type_def
      split: next_action.splits if_splits prod.splits participant_signal.splits)

lemma checked_message_same:
  assumes "checked_message T (message_to_value (tl_core T) m) = Inr m'"
    and "uuid_parse (tl_core T) (uuid_text (tl_core T) (env_run_id (envelope m))) = Some (env_run_id (envelope m))"
  shows "m' = m" "validate_invariants m = Inr ()" "schema_errors (tl_core T) (message_to_value (tl_core T) m) = []"
  using assms decode_encode [of "tl_core T" m]
  by (auto simp: checked_message_def validate_message_def outcome split: if_splits)

lemma normalized_marker:
  assumes "normalized_marker_message T e s action r = Inr m"
    and "uuid_parse (tl_core T) (uuid_text (tl_core T) (rf_run_id (facts s))) = Some (rf_run_id (facts s))"
  shows "\<exists>t. marker_type action (resp_signal r) = Some t \<and> of_run s t m"
    and "resp_signal r \<noteq> SignalBlocked \<Longrightarrow> marker_message T e s action r = Inr m
      \<and> validate_invariants m = Inr () \<and> schema_errors (tl_core T) (message_to_value (tl_core T) m) = []"
proof -
  have built: "marker_message T e s action r = Inr m \<and> validate_invariants m = Inr ()
      \<and> schema_errors (tl_core T) (message_to_value (tl_core T) m) = []" if marker: "resp_signal r \<noteq> SignalBlocked"
  proof -
    obtain m0 where m0: "marker_message T e s action r = Inr m0"
      "checked_message T (message_to_value (tl_core T) m0) = Inr m"
      using assms(1) marker by (auto simp: normalized_marker_message_def outcome)
    then obtain t where "of_run s t m0" using marker_message_of_run [OF m0(1) marker] by blast
    then have "uuid_parse (tl_core T) (uuid_text (tl_core T) (env_run_id (envelope m0)))
        = Some (env_run_id (envelope m0))"
      using assms(2) by (auto simp: of_run_def)
    with checked_message_same [OF m0(2)] m0(1) show ?thesis by simp
  qed
  then show "resp_signal r \<noteq> SignalBlocked \<Longrightarrow> marker_message T e s action r = Inr m
      \<and> validate_invariants m = Inr () \<and> schema_errors (tl_core T) (message_to_value (tl_core T) m) = []" .
  show "\<exists>t. marker_type action (resp_signal r) = Some t \<and> of_run s t m"
  proof (cases "resp_signal r = SignalBlocked")
    case True
    then have "m = blocked_message_of s r" using assms(1) by (simp add: normalized_marker_message_def)
    with True show ?thesis by (auto simp: marker_type_def blocked_message_of_def of_run_def)
  next
    case False
    then show ?thesis using built marker_message_of_run [of T e s action r m] by blast
  qed
qed

text \<open>
  A marker response names nothing itself: the message the coordinator makes of it is of the type the
  pending action and the signal give, and its run, phase, round, revision and source SHAs are those of
  the run.
\<close>

theorem marker_response_current:
  assumes "marker_response T e st s action text = Inr m"
    and "uuid_parse (tl_core T) (uuid_text (tl_core T) (rf_run_id (facts s))) = Some (rf_run_id (facts s))"
  shows "\<exists>r. marker_type action (resp_signal r) = Some (env_message_type (envelope m))
    \<and> (\<exists>r'. parse_participant_response (tl_debug T) text (allowed_participant_signals action) = Inr r'
         \<and> (r = r' \<or> resp_signal r' = SignalBlocked \<and> resp_signal r = IntegrationReady
              \<and> resp_blocked_reason r' = Some ''PATCH_LIMIT_REACHED''
              \<and> patch_recorded_for_pending st (uuid_text (tl_core T) (rf_run_id (facts s)))))
    \<and> env_run_id (envelope m) = rf_run_id (facts s)
    \<and> env_phase (envelope m) = message_phase_of (phase s) \<and> env_round (envelope m) = round s
    \<and> env_plan_revision (envelope m) = plan_revision s
    \<and> env_primary_sha (envelope m) = rf_primary_sha (facts s)
    \<and> env_reviewer_sha (envelope m) = rf_reviewer_sha (facts s)"
proof -
  obtain r' where r': "parse_participant_response (tl_debug T) text (allowed_participant_signals action) = Inr r'"
    and m: "normalized_marker_message T e s action
      (promote_post_patch_limit_response action r' (action = RequestPrimaryIntegration
         \<and> patch_recorded_for_pending st (uuid_text (tl_core T) (rf_run_id (facts s))))) = Inr m"
    using assms(1) by (auto simp: marker_response_def outcome)
  let ?r = "promote_post_patch_limit_response action r' (action = RequestPrimaryIntegration
         \<and> patch_recorded_for_pending st (uuid_text (tl_core T) (rf_run_id (facts s))))"
  have "?r = r' \<or> resp_signal r' = SignalBlocked \<and> resp_signal ?r = IntegrationReady
      \<and> resp_blocked_reason r' = Some ''PATCH_LIMIT_REACHED''
      \<and> patch_recorded_for_pending st (uuid_text (tl_core T) (rf_run_id (facts s)))"
    by (auto simp: promote_post_patch_limit_response_def)
  with r' normalized_marker(1) [OF m assms(2)] show ?thesis
    by (intro exI [of _ ?r]) (auto simp: of_run_def)
qed

subsection \<open>A marker response takes effect\<close>

definition plan_hashed :: "libs \<Rightarrow> run_state \<Rightarrow> bool" where
  "plan_hashed L s \<longleftrightarrow> current_plan_hash s = map_option (canonical_json_hash L) (current_plan_payload s)"

lemma plan_hashed_changes: "plan_hashed L s \<Longrightarrow> plan_hashed L (changes_outcome L m s)"
  by (rule changes_outcome_cases [of L m s]) (simp_all add: plan_hashed_def block_def)

lemma plan_hashed_verification: "plan_hashed L s \<Longrightarrow> plan_hashed L (verification_outcome m ev s)"
  by (rule verification_outcome_cases [of ev s m]) (simp_all add: plan_hashed_def block_def)

lemma plan_hashed_step: "transition L i s s' \<Longrightarrow> plan_hashed L s \<Longrightarrow> plan_hashed L s'"
proof (induction rule: transition.induct)
  case (verification_ready message m s ev)
  then show ?case by (blast intro: plan_hashed_verification)
next
  case (changes_required message m s)
  then show ?case by (blast intro: plan_hashed_changes)
qed (simp_all add: plan_hashed_def state_ops result_of_def)

interpretation hashed_plan: run_invariant L f "\<lambda>_. plan_hashed L" for L f
proof unfold_locales
  show "plan_hashed L (new_run f)" by (simp add: plan_hashed_def new_run_def)
next
  fix "is" :: "run_input list" and s s' i
  assume "plan_hashed L s" "perform L i s = (Inr (), s')"
  then show "plan_hashed L s'" using perform_transition plan_hashed_step by blast
qed

lemma nonempty_strings_commands:
  assumes "require_nonempty_string_array p k = Inr ()"
  shows "is_ok (string_array_field p k)"
proof -
  obtain vs where vs: "array_field p k = Some vs" "vs \<noteq> []" "\<not> list_ex (\<lambda>v. \<not> nonblank_string v) vs"
    using assms by (auto simp: require_nonempty_string_array_def split: option.splits list.splits if_splits)
  have "\<not> list_ex (\<lambda>v. \<not> nonblank_string v) us \<Longrightarrow> \<exists>ys. collect_results (trimmed_command k) us = Inr ys" for us
    by (induction us) (auto simp: outcome trimmed_command_def nonblank_string_def blank_def split: option.splits)
  then have "\<exists>ys. collect_results (trimmed_command k) vs = Inr ys" using vs(3) .
  then show ?thesis
    using vs(2) unfolding string_array_field_def nonempty_array_field_def vs(1)
    by (auto simp: is_ok_iff outcome)
qed

lemma message_phase_eqs:
  "message_phase_of p = MPlanReview \<longleftrightarrow> p = PlanReview" "message_phase_of p = MResultReview \<longleftrightarrow> p = ResultReview"
  by (cases p; simp)+

lemmas valid_by_type = validate_invariants_by_type [THEN conjunct2]

text \<open>The message of a review or of a plan, as the coordinator makes it, is the one it applies.\<close>

lemma built_message_revalidated:
  assumes "validate_invariants m = Inr ()" "schema_errors L (message_to_value L m) = []"
    and "uuid_parse L (uuid_text L (env_run_id (envelope m))) = Some (env_run_id (envelope m))"
  shows "revalidate_message L m = Inr m"
  using revalidate_message_eq [OF assms(3,2)] assms(1) by (simp add: map_err_def)

lemma plan_message_applied:
  assumes "plan_message_of s body = Inr m" "validate_invariants m = Inr ()"
    and "status s = SRunning" "next_action s = RequestPrimaryPlan"
  shows "\<exists>a s'. apply_checked_message L m s = (Inr a, s')"
proof -
  have m: "of_run s MPlanReady m" "is_object (payload m)"
    using assms(1) by (auto simp: plan_message_of_def outcome json_object_def is_object_def)
  then have t: "env_message_type (envelope m) = MPlanReady" "env_round (envelope m) = round s"
    "env_plan_revision (envelope m) = plan_revision s" "env_phase (envelope m) = message_phase_of (phase s)"
    by (auto simp: of_run_def)
  then have "env_phase (envelope m) = MPlanReview" "require_nonempty_string_array (payload m) ''test_commands'' = Inr ()"
    using valid_by_type [OF assms(2)] by (auto simp: validate_by_type_def validate_plan_ready_def outcome)
  then have "phase s = PlanReview" "is_ok (string_array_field (payload m) ''test_commands'')"
    using t(4) nonempty_strings_commands by (auto simp: message_phase_eqs)
  then show ?thesis
    using t m assms(3,4)
    by (cases "get (payload m) ''test_commands''")
       (auto simp: apply_checked_message_def apply_plan_Inr record_plan_Inr is_ok_iff)
qed

lemma plan_approval_applied:
  assumes "plan_approval_of L s body = Inr m" "validate_invariants m = Inr ()"
    and "status s = SRunning" "plan_hashed L s"
  shows "\<exists>s'. apply_checked_message L m s = (Inr RequestPrimaryIntegration, s')"
proof -
  obtain plan where plan: "current_plan_payload s = Some plan" "of_run s MApprovedPlan m"
    "get (payload m) ''approved_plan_hash'' = Some (JStr (canonical_json_hash L plan))"
    using assms(1) by (auto simp: plan_approval_of_def outcome get_json_object intro!: that of_run_envelope)
  then have t: "env_message_type (envelope m) = MApprovedPlan" "env_round (envelope m) = round s"
    "env_plan_revision (envelope m) = plan_revision s" "env_phase (envelope m) = message_phase_of (phase s)"
    by (auto simp: of_run_def)
  then have "env_phase (envelope m) = MPlanReview"
    using valid_by_type [OF assms(2)] by (auto simp: validate_by_type_def validate_plan_approval_Inr)
  then have "phase s = PlanReview" using t(4) by (simp add: message_phase_eqs)
  then show ?thesis
    using t plan assms(3,4)
    by (auto simp: apply_checked_message_def apply_plan_approval_Inr plan_hashed_def)
qed

lemma result_approval_applied:
  assumes "result_approval_of s body = Inr m" "validate_invariants m = Inr ()"
  shows "\<exists>s'. apply_checked_message L m s = (Inr RevalidateAndAccept, s')"
proof -
  obtain branch sha where id: "integration_branch s = Some branch" "integration_sha s = Some sha"
    "envelope m = authoritative_envelope s MApprovedResult None (Some branch) (Some sha)"
    using assms(1) by (auto simp: result_approval_of_def outcome)
  then have "env_phase (envelope m) = MResultReview"
    using valid_by_type [OF assms(2)] by (auto simp: validate_by_type_def validate_result_approval_Inr)
  then have "phase s = ResultReview" using id(3) by (simp add: message_phase_eqs)
  then show ?thesis
    using id by (auto simp: apply_checked_message_def apply_result_approval_Inr)
qed

lemma changes_message_applied:
  assumes "changes_required_message s body result = Inr m" "validate_invariants m = Inr ()"
    and "result = (phase s = ResultReview)"
  shows "\<exists>a s'. apply_checked_message L m s = (Inr a, s')"
proof -
  have t: "of_run s MChangesRequired m" and id: "phase s = ResultReview \<Longrightarrow>
      env_integration_branch (envelope m) = integration_branch s \<and> env_integration_sha (envelope m) = integration_sha s"
    using assms(1,3) by (auto simp: changes_required_message_def outcome split: if_splits)
  then have "env_phase (envelope m) \<in> {MPlanReview, MResultReview}"
    using valid_by_type [OF assms(2)] t
    by (auto simp: of_run_def validate_by_type_def validate_changes_required_def outcome)
  then have "phase s \<in> {PlanReview, ResultReview}"
    using t by (auto simp: of_run_def message_phase_eqs)
  then show ?thesis
    using t id by (auto simp: of_run_def apply_checked_message_def apply_changes_required_Inr)
qed

text \<open>
  A plan, and every verdict of the reviewer, that is given as a marker response and made into a message
  takes effect: applying the message to the stored run succeeds, an approved plan leads to the
  integration and an approved result to its acceptance.
\<close>

theorem marker_verdict_applies:
  assumes "s = run_of L f inputs" "status s = SRunning" "tl_core T = L"
    and "next_action s \<in> {RequestPrimaryPlan, RequestReviewerPlanVerdict, RequestReviewerResultVerdict}"
    and "normalized_marker_message T e s (next_action s) r = Inr m" "resp_signal r \<noteq> SignalBlocked"
    and "uuid_parse L (uuid_text L (rf_run_id (facts s))) = Some (rf_run_id (facts s))"
  shows "\<exists>a s'. apply_message L m s = (Inr a, s')
    \<and> (resp_signal r = Approved \<longrightarrow>
         a = (if next_action s = RequestReviewerPlanVerdict then RequestPrimaryIntegration else RevalidateAndAccept))"
proof -
  have valid: "marker_message T e s (next_action s) r = Inr m" "validate_invariants m = Inr ()"
    "schema_errors L (message_to_value L m) = []"
    using normalized_marker(2) [OF assms(5)] assms(3,6,7) by auto
  obtain t where m: "of_run s t m" using marker_message_of_run [OF valid(1) assms(6)] by blast
  then have id: "env_run_id (envelope m) = rf_run_id (facts s)" by (auto simp: of_run_def)
  have revalidated: "revalidate_message L m = Inr m"
    using built_message_revalidated [of m L] valid(2,3) assms(7) id by simp
  have hashed: "plan_hashed L s" using hashed_plan.always [of L f inputs] assms(1) by simp
  have result: "next_action s = RequestReviewerResultVerdict \<Longrightarrow> phase s = ResultReview"
    "next_action s = RequestReviewerPlanVerdict \<Longrightarrow> phase s \<noteq> ResultReview"
    using well_formed.always [of f L inputs] assms(1,2)
    by (auto simp: run_ok_def phase_coherent_def active_def)
  have "\<exists>a s'. apply_checked_message L m s = (Inr a, s')
    \<and> (resp_signal r = Approved \<longrightarrow>
         a = (if next_action s = RequestReviewerPlanVerdict then RequestPrimaryIntegration else RevalidateAndAccept))"
  proof (cases "resp_signal r")
    case PlanReady
    then have "next_action s = RequestPrimaryPlan" "plan_message_of s (resp_body r) = Inr m"
      using valid(1) assms(4) by (auto simp: marker_message_def unmatched_marker_def Let_def)
    then show ?thesis using plan_message_applied [OF _ valid(2) assms(2)] PlanReady by auto
  next
    case Approved
    then consider "next_action s = RequestReviewerPlanVerdict" "plan_approval_of L s (resp_body r) = Inr m"
      | "next_action s = RequestReviewerResultVerdict" "result_approval_of s (resp_body r) = Inr m"
      using valid(1) assms(3,4) by (auto simp: marker_message_def unmatched_marker_def Let_def)
    then show ?thesis
    proof cases
      case 1
      from plan_approval_applied [OF 1(2) valid(2) assms(2) hashed] 1(1) show ?thesis by auto
    next
      case 2
      from result_approval_applied [OF 2(2) valid(2), of L] 2(1) show ?thesis by auto
    qed
  next
    case ChangesRequired
    then have "changes_required_message s (resp_body r) (phase s = ResultReview) = Inr m"
      using valid(1) assms(4) result by (auto simp: marker_message_def unmatched_marker_def Let_def)
    then show ?thesis using changes_message_applied [OF _ valid(2)] ChangesRequired by auto
  qed (use valid(1) assms(4,6) in \<open>auto simp: marker_message_def unmatched_marker_def Let_def\<close>)
  then show ?thesis
    using m revalidated assms(2) by (auto simp: apply_message_Inr of_run_def)
qed

subsection \<open>Bounded output\<close>

text \<open>
  The recorded output of a failed command has at most 16384 bytes and is UTF-8; an output that is cut
  keeps its end, from the start of a character on, and loses at most three bytes more than it must.
\<close>

theorem output_bounded:
  assumes "utf8 output"
  shows "utf8 (bounded_verification_output output)
    \<and> length (bounded_verification_output output) \<le> MAX_VERIFICATION_FAILURE_OUTPUT_BYTES
    \<and> (if length output \<le> MAX_VERIFICATION_FAILURE_OUTPUT_BYTES then bounded_verification_output output = output
       else \<exists>kept. bounded_verification_output output = VERIFICATION_OUTPUT_TRUNCATION_MARKER @ kept
         \<and> suffix kept output \<and> MAX_VERIFICATION_FAILURE_OUTPUT_BYTES
             \<le> length (bounded_verification_output output) + 3)"
proof (cases "length output \<le> MAX_VERIFICATION_FAILURE_OUTPUT_BYTES")
  case True
  with assms show ?thesis by (simp add: bounded_verification_output_def)
next
  case False
  let ?retained = "MAX_VERIFICATION_FAILURE_OUTPUT_BYTES - length VERIFICATION_OUTPUT_TRUNCATION_MARKER"
  define kept where "kept = dropWhile continuation (drop (length output - ?retained) output)"
  have b: "bounded_verification_output output = VERIFICATION_OUTPUT_TRUNCATION_MARKER @ kept"
    using False by (simp add: bounded_verification_output_def kept_def Let_def)
  have c: "continuation = (\<lambda>c. tail_byte (byte c))" by (simp add: fun_eq_iff continuation_def)
  have marker: "length VERIFICATION_OUTPUT_TRUNCATION_MARKER = 27"
    by (simp add: VERIFICATION_OUTPUT_TRUNCATION_MARKER_def)
  have ascii: "utf8 (VERIFICATION_OUTPUT_TRUNCATION_MARKER @ t) \<longleftrightarrow> utf8 t" for t
    by (simp add: VERIFICATION_OUTPUT_TRUNCATION_MARKER_def utf8_def byte_def)
  note cut = utf8_cut_dropped [OF assms, of "length output - ?retained", folded c, folded kept_def]
  have "suffix kept output"
    unfolding kept_def by (meson suffix_dropWhile suffix_drop suffix_order.trans)
  moreover have "length kept \<le> ?retained"
    using length_dropWhile_le [of continuation "drop (length output - ?retained) output"] False
    by (simp add: kept_def)
  moreover have "?retained \<le> length kept + 3" using cut(2) False marker by simp
  ultimately show ?thesis
    using False cut(1) ascii marker b by (simp add: MAX_VERIFICATION_FAILURE_OUTPUT_BYTES_def)
qed

end
