(* ===== verification/Turn_Verification_Properties.thy ===== *)
theory Turn_Verification_Properties
  imports Turn_Messages_Properties Store_Journal
begin

text \<open>
  The execution of the frozen test commands through the store gives complete evidence, and the evidence
  of a message that passed its check is that of the coordinator.
\<close>

subsection \<open>One command\<close>

definition record_matches :: "string \<Rightarrow> string \<Rightarrow> string \<Rightarrow> nat \<Rightarrow> string \<Rightarrow> verification_command_record \<Rightarrow> bool" where
  "record_matches h t cwd n c record \<longleftrightarrow>
     vc_command record = c \<and> vc_turn record = t \<and> path_eq (vc_cwd record) cwd
     \<and> vc_item record = verification_command_item_id h (of_nat n)"

lemma reused_matches:
  assumes "begin_verification_command r h t (of_nat n) c cwd st = Inr (Reuse record, st')"
  shows "record_matches h t cwd n c record"
  using assms unfolding begin_verification_command_def attempt_Inr Let_def
  by (elim exE conjE) (auto simp: record_matches_def split: list.splits if_splits lifecycle.splits)

lemma claimed_row:
  assumes "begin_verification_command r h t n c cwd st = Inr (Execute record, st')"
  shows "record = \<lparr>vc_run = r, vc_hash = h, vc_turn = t, vc_item = verification_command_item_id h n, vc_index = n,
      vc_command = c, vc_cwd = cwd, vc_exit_code = None, vc_stdout = None, vc_stderr = None\<rparr>"
    "st_commands st' = st_commands st @ [\<lparr>cm_record = record, cm_status = STARTED\<rparr>]"
  using assms unfolding begin_verification_command_def attempt_Inr Let_def
  by (elim exE conjE; auto split: list.splits if_splits lifecycle.splits)+

lemma executed_matches:
  assumes claim: "begin_verification_command r h t (of_nat n) c cwd st = Inr (Execute started, st1)"
    and "complete_verification_command r h (of_nat n) code out err st1 = Inr (record, st2)"
  shows "record_matches h t cwd n c record"
proof -
  have "find (command_is r h (of_nat n)) (st_commands st) = None"
    using claim_only_if_new(1) [OF claim]
    by (auto simp: find_None_iff list_ex_iff command_key_def command_is_def)
  then have "find (command_is r h (of_nat n)) (st_commands st1) = Some \<lparr>cm_record = started, cm_status = STARTED\<rparr>"
    using claimed_row [OF claim] by (simp add: find_append command_is_def)
  then have "record = cm_record (complete_command code out err \<lparr>cm_record = started, cm_status = STARTED\<rparr>)"
    using assms(2)
    unfolding complete_verification_command_def verification_command_by_run_message_and_index_def attempt_Inr Let_def
    by (elim exE conjE) (auto simp: outcome verification_command_row_from_sql_def split: if_splits)
  then show ?thesis using claimed_row(1) [OF claim] by (simp add: record_matches_def complete_command_def)
qed

subsection \<open>All commands\<close>

text \<open>The entry of the evidence for the command at an index.\<close>

definition entry_matches :: "policy_libs \<Rightarrow> string \<Rightarrow> string \<Rightarrow> string \<Rightarrow> nat \<times> string \<Rightarrow> test_evidence \<Rightarrow> bool" where
  "entry_matches P h t cwd at ev \<longleftrightarrow>
     te_command ev = snd at \<and> te_turn_id ev = t \<and> path_eq (te_cwd ev) cwd
     \<and> te_item_id ev = verification_command_item_id h (of_nat (fst at))
     \<and> validate_test_command P (snd at)"

definition failures_match :: "test_evidence list \<Rightarrow> json list \<Rightarrow> bool" where
  "failures_match ev failures \<longleftrightarrow>
     list_all2 (\<lambda>e f. str_field f ''command'' = Some (te_command e) \<and> get f ''exit_code'' = Some (JInt (te_exit_code e))
         \<and> str_field f ''item_id'' = Some (te_item_id e))
       (filter (\<lambda>e. te_exit_code e \<noteq> 0) ev) failures"

lemma failures_match_append:
  "failures_match ev fs \<Longrightarrow> failures_match ev' fs' \<Longrightarrow> failures_match (ev @ ev') (fs @ fs')"
  unfolding failures_match_def filter_append by (rule list_all2_appendI)

lemma appended_record:
  assumes "append_verification_record record av = Inr av'" "record_matches h t cwd n c record"
    and "validate_test_command P c"
  shows "\<exists>e fs. av_evidence av' = av_evidence av @ [e] \<and> entry_matches P h t cwd (n, c) e
    \<and> av_failures av' = av_failures av @ fs \<and> failures_match [e] fs"
  using assms
  by (auto simp: append_verification_record_def outcome entry_matches_def record_matches_def failures_match_def
      failure_of_def Let_def get_json_object sint_0 signed_eq_0_iff)

lemma commands_executed:
  "execute_commands T exec w r h t cwd n cs av st = (Inr av', st') \<Longrightarrow>
   \<exists>ev fs. av_evidence av' = av_evidence av @ ev \<and> list_all2 (entry_matches (tl_policy T) h t cwd) (enumerate n cs) ev
     \<and> av_failures av' = av_failures av @ fs \<and> failures_match ev fs"
proof (induction cs arbitrary: n av st)
  case Nil
  then show ?case by (simp add: failures_match_def)
next
  case (Cons c cs)
  obtain argv claim st1 where argv: "command_argv (tl_policy T) c = Inr argv"
    and claim: "begin_verification_command r h t (of_nat n) c cwd st = Inr (claim, st1)"
    and later: "(case execute_claimed T exec w r h cwd argv n claim st1 of
         (Inl err, st2) \<Rightarrow> (Inl err, st2)
       | (Inr rcd, st2) \<Rightarrow> attempt_in st2 (append_verification_record rcd av) (\<lambda>av'.
           execute_commands T exec w r h t cwd (n + 1) cs av' st2)) = (Inr av', st')"
    using Cons.prems by (auto simp: outcome)
  obtain rcd st2 av1 where exec: "execute_claimed T exec w r h cwd argv n claim st1 = (Inr rcd, st2)"
    and append: "append_verification_record rcd av = Inr av1"
    and rest: "execute_commands T exec w r h t cwd (n + 1) cs av1 st2 = (Inr av', st')"
    using later by (auto simp: outcome split: prod.splits sum.splits)
  have "record_matches h t cwd n c rcd"
  proof (cases claim)
    case (Execute started)
    then show ?thesis
      using exec executed_matches claim by (auto simp: execute_claimed_def outcome split: prod.splits)
  next
    case (Reuse found)
    then show ?thesis using exec reused_matches claim by (auto simp: execute_claimed_def)
  qed
  moreover have valid: "validate_test_command (tl_policy T) c"
    using argv by (auto simp: command_argv_def outcome)
  ultimately obtain e fs where e: "av_evidence av1 = av_evidence av @ [e]"
    "entry_matches (tl_policy T) h t cwd (n, c) e" "av_failures av1 = av_failures av @ fs" "failures_match [e] fs"
    using appended_record [OF append] by blast
  obtain ev fs' where "av_evidence av' = av_evidence av1 @ ev"
    "list_all2 (entry_matches (tl_policy T) h t cwd) (enumerate (n + 1) cs) ev"
    "av_failures av' = av_failures av1 @ fs'" "failures_match ev fs'"
    using Cons.IH [OF rest] by blast
  with e show ?case
    by (intro exI [of _ "e # ev"] exI [of _ "fs @ fs'"])
       (auto intro: failures_match_append [of "[e]" fs ev fs', simplified])
qed

lemma not_repeated:
  assumes "\<not> repeated_or_blank cs"
  shows "distinct cs" "c \<in> set cs \<Longrightarrow> \<not> blank c"
proof -
  have nth: "\<not> blank (cs ! i)" "cs ! i \<notin> set (take i cs)" if "i < length cs" for i
    using assms that by (auto simp: repeated_or_blank_def list_ex_iff)
  have before: "cs ! a \<noteq> cs ! b" if ab: "a < b" "b < length cs" for a b
  proof -
    have "take b cs ! a \<in> set (take b cs)" using ab by (intro nth_mem) simp
    then show ?thesis using nth(2) [OF ab(2)] ab(1) by auto
  qed
  show "distinct cs"
    unfolding distinct_conv_nth
  proof (intro allI impI)
    fix i j assume "i < length cs" "j < length cs" "i \<noteq> j"
    then show "cs ! i \<noteq> cs ! j" using before [of i j] before [of j i] by (cases "i < j") auto
  qed
  show "c \<in> set cs \<Longrightarrow> \<not> blank c" using nth(1) by (auto simp: in_set_conv_nth)
qed

lemma distinct_count_one: "distinct cs \<Longrightarrow> c \<in> set cs \<Longrightarrow> count_list cs c = 1"
  by (induction cs) (auto simp: count_list_0_iff)

lemma complete_entries:
  assumes "cs \<noteq> []" "\<not> repeated_or_blank cs" "\<not> blank t" "is_absolute cwd"
    and all: "list_all2 (entry_matches P h t cwd) (enumerate 0 cs) ev"
  shows "evidence_complete cs ev"
proof -
  have len: "length ev = length cs" using all by (auto dest: list_all2_lengthD)
  have "map te_command ev = map snd (enumerate 0 cs)"
    using all by (induction rule: list_all2_induct) (auto simp: entry_matches_def)
  then have cmds: "map te_command ev = cs" by simp
  have well: "\<not> malformed_evidence e" if e: "e \<in> set ev" for e
  proof -
    obtain i where i: "i < length ev" "e = ev ! i" using e by (auto simp: in_set_conv_nth)
    then have a: "entry_matches P h t cwd (enumerate 0 cs ! i) e"
      using all len by (auto simp: list_all2_conv_all_nth)
    have "te_command e \<in> set cs" using e cmds by force
    moreover have "\<not> blank (te_item_id e)"
      using a by (intro visible_not_blank [of "CHR ''/''"])
        (simp_all add: entry_matches_def verification_command_item_id_def white_space_def)
    ultimately show ?thesis
      using a assms(3,4) not_repeated(2) [OF assms(2)] path_eq_absolute [of "te_cwd e" cwd]
      by (auto simp: malformed_evidence_def entry_matches_def)
  qed
  have once: "length (filter (\<lambda>e. te_command e = c) ev) = 1" if c: "c \<in> set cs" for c
  proof -
    have "length (filter (\<lambda>e. te_command e = c) ev) = length (filter (\<lambda>x. x = c) (map te_command ev))"
      by (simp add: filter_map comp_def)
    also have "\<dots> = count_list cs c"
      unfolding cmds count_list_eq_length_filter by (rule arg_cong [of _ _ length], rule filter_cong) auto
    also have "\<dots> = 1" using not_repeated(1) [OF assms(2)] c by (simp add: distinct_count_one)
    finally show ?thesis .
  qed
  from len assms(1,2) well once show ?thesis
    unfolding evidence_complete_def list_ex_iff by blast
qed


subsection \<open>The evidence of a message\<close>

lemma checked_repository:
  assumes "check_integration_repository e s m = Inr ()"
  shows "\<exists>branch sha files. env_integration_branch (envelope m) = Some branch
    \<and> env_integration_sha (envelope m) = Some sha \<and> reported_changed_files (payload m) = Inr files
    \<and> verify_integration e (facts s) branch sha files = Inr ()"
  using assms by (auto simp: check_integration_repository_def outcome)

lemma verified_payload_fields:
  assumes "verified_payload T s p authoritative = Inr p'"
  shows "\<exists>av canonical. authoritative = Some av \<and> current_integration_payload s = Some canonical
    \<and> get p' ''test_evidence'' = Some (JArr (map test_evidence_value (av_evidence av)))
    \<and> get p' ''verification_failures'' = (if av_failures av = [] then None else Some (JArr (av_failures av)))
    \<and> (\<forall>k. k \<notin> {''test_evidence'', ''verification_failures'', ''verification_summary''} \<longrightarrow> get p' k = get canonical k)"
proof -
  obtain av es where "authoritative = Some av" "current_integration_payload s = Some (JObj es)"
    and "p' = (let es1 = obj_insert ''test_evidence'' (JArr (map test_evidence_value (av_evidence av))) es;
         es2 = (if av_failures av = [] then obj_remove ''verification_failures'' es1
                else obj_insert ''verification_failures'' (JArr (av_failures av)) es1)
       in JObj (case get p ''verification_summary'' of
                  None \<Rightarrow> es2 | Some summary \<Rightarrow> obj_insert ''verification_summary'' summary es2))"
    using assms unfolding verified_payload_def current_integration_def Let_def by (auto simp: outcome)
  then show ?thesis
    by (intro exI [of _ av] exI [of _ "JObj es"])
       (auto simp: Let_def map_of_obj_insert map_of_obj_remove split: option.splits)
qed

text \<open>
  C15: An integration message that passed the check of its evidence is true of the repository: the envelope is
  the one that was checked, Git verified its branch, SHA and changed files; the turn of an integration was
  audited under the recorded patch of its request; and the test evidence of a verification is the one the
  coordinator executed, whatever the participant wrote, with every other field as recorded before.
\<close>

theorem message_evidence_authoritative:
  assumes "verify_message_evidence T e st s action turn authoritative m = (Inr (), m')"
    and "env_message_type (envelope m) = MIntegrationReady"
  shows "envelope m' = envelope m
    \<and> (\<exists>branch sha files. env_integration_branch (envelope m) = Some branch
        \<and> env_integration_sha (envelope m) = Some sha \<and> reported_changed_files (payload m') = Inr files
        \<and> verify_integration e (facts s) branch sha files = Inr ())
    \<and> (action = RequestPrimaryIntegration \<and> m' = m
         \<and> (\<exists>pending patch_hash archived.
              pending_request st (uuid_text (tl_core T) (rf_run_id (facts s))) = Some pending
              \<and> validated_successful_patch_hash T st s pending archived = Inr patch_hash
              \<and> verify_integration_execution_items T s turn (ps_hash pending) patch_hash archived = Inr ())
       \<or> action = RequestPrimaryVerification
         \<and> (\<exists>av canonical. authoritative = Some av \<and> current_integration_payload s = Some canonical
              \<and> get (payload m') ''test_evidence'' = Some (JArr (map test_evidence_value (av_evidence av)))
              \<and> get (payload m') ''verification_failures''
                  = (if av_failures av = [] then None else Some (JArr (av_failures av)))
              \<and> (\<forall>k. k \<notin> {''test_evidence'', ''verification_failures'', ''verification_summary''}
                    \<longrightarrow> get (payload m') k = get canonical k)))"
proof (cases "action = RequestPrimaryIntegration")
  case True
  then have "check_integration_turn T st s turn = Inr ()" "check_integration_repository e s m = Inr ()" "m' = m"
    using assms by (auto simp: verify_message_evidence_def outcome)
  moreover from this(1) have "\<exists>pending patch_hash archived.
      pending_request st (uuid_text (tl_core T) (rf_run_id (facts s))) = Some pending
      \<and> validated_successful_patch_hash T st s pending archived = Inr patch_hash
      \<and> verify_integration_execution_items T s turn (ps_hash pending) patch_hash archived = Inr ()"
    unfolding check_integration_turn_def Let_def by (auto simp: outcome)
  ultimately show ?thesis using True checked_repository [of e s m] by blast
next
  case False
  then obtain p where p: "action = RequestPrimaryVerification" "verified_payload T s (payload m) authoritative = Inr p"
    "check_integration_repository e s (m\<lparr>payload := p\<rparr>) = Inr ()" "m' = m\<lparr>payload := p\<rparr>"
    using assms by (auto simp: verify_message_evidence_def outcome split: if_splits)
  then show ?thesis
    using checked_repository [OF p(3)] verified_payload_fields [OF p(2)] by simp
qed

end
