(* ===== verification/Turn_Retry.thy ===== *)
theory Turn_Retry
  imports Turn_Messages Run_Machine
begin

text \<open>
  Which action a stopped run repeats (\<open>crates/daemon/src/coordinator.rs\<close>): for every reason a run can be
  stopped for, a selector that answers with the action to repeat, with nothing if the reason is another,
  or with the error that keeps the run stopped; and the checks of the messages that reported a missing
  tool. A selector answers \<open>None\<close> without looking further if the reason code is not its own.
\<close>

abbreviation incompatible_run :: "string \<Rightarrow> coordinator_error" where
  "incompatible_run detail \<equiv> operational ''INCOMPATIBLE_STATE'' detail"

abbreviation response_retry_unsafe :: "string \<Rightarrow> coordinator_error" where
  "response_retry_unsafe detail \<equiv> operational ''MODEL_RESPONSE_RETRY_UNSAFE'' detail"

abbreviation turn_retry_unsafe :: "string \<Rightarrow> coordinator_error" where
  "turn_retry_unsafe detail \<equiv> operational ''TERMINAL_TURN_RETRY_UNSAFE'' detail"

type_synonym selected = "coordinator_error + next_action option"

definition for_reason :: "string \<Rightarrow> run_state \<Rightarrow> selected \<Rightarrow> selected" where
  "for_reason reason s r = (if reason_code s \<noteq> Some reason then Inr None else r)"

text \<open>The terminal metadata of a run that stopped.\<close>

definition stopped :: "run_state \<Rightarrow> bool" where
  "stopped s \<longleftrightarrow> status s = SBlocked \<and> next_action s = Stop \<and> phase s = Blocked"

definition selecting :: "bool \<Rightarrow> selected \<Rightarrow> selected" where
  "selecting b r = (if b then r else Inr None)"

definition phase_of_declaration :: "next_action \<Rightarrow> phase option" where
  "phase_of_declaration action =
     (case action of
        RequestPrimaryContract \<Rightarrow> Some Contract | RequestReviewerContract \<Rightarrow> Some Contract
      | RequestPrimaryPlan \<Rightarrow> Some PlanReview | _ \<Rightarrow> None)"

definition preintegration_read_only_phase :: "next_action \<Rightarrow> phase option" where
  "preintegration_read_only_phase action =
     (case action of
        RequestPrimaryContract \<Rightarrow> Some Contract | RequestReviewerContract \<Rightarrow> Some Contract
      | RequestPrimaryPlan \<Rightarrow> Some PlanReview | RequestReviewerPlanVerdict \<Rightarrow> Some PlanReview
      | _ \<Rightarrow> None)"

definition diagnostic_matches_primary_identity :: "run_state \<Rightarrow> run_diagnostic \<Rightarrow> bool" where
  "diagnostic_matches_primary_identity s d \<longleftrightarrow>
     (case rd_participant_binding_generation d of
        Some _ \<Rightarrow>
          rd_source_thread_id d = Some (rf_primary_thread_id (facts s))
          \<and> rd_effective_thread_id d = rd_thread_id d
          \<and> rd_participant_binding_mode d \<noteq> None
          \<and> rd_participant_server d = Some PARTICIPANT_MCP_SERVER
      | None \<Rightarrow>
          rd_thread_id d = Some (rf_primary_thread_id (facts s))
          \<and> rd_source_thread_id d = None \<and> rd_effective_thread_id d = None
          \<and> rd_participant_binding_mode d = None \<and> rd_participant_server d = None)"

definition invalid_test_retry_action :: "run_state \<Rightarrow> selected" where
  "invalid_test_retry_action s = for_reason ''INVALID_TEST_COMMAND'' s (
     attempt (ensure (status s \<in> {SPausedUserAction, SBlocked})
       (incompatible_run ''invalid test-command reason is attached to a non-retryable run status'')) (\<lambda>_.
     attempt (ok_or (incompatible_run ''invalid test-command state has no originating diagnostic'')
                (last_error s)) (\<lambda>d.
     attempt (ensure (rd_code d = ''INVALID_TEST_COMMAND'' \<and> is_test_declaration_action (rd_action d))
       (incompatible_run ''invalid test-command state has a mismatched originating action'')) (\<lambda>_.
     attempt (ensure (status s = SPausedUserAction \<longrightarrow>
                        next_action s = rd_action d \<and> phase_of_declaration (rd_action d) = Some (phase s))
       (incompatible_run ''paused invalid test-command state does not preserve its pending declaration'')) (\<lambda>_.
     attempt (ensure (status s = SBlocked \<longrightarrow> next_action s = Stop \<and> phase s = Blocked)
       (incompatible_run ''legacy blocked invalid test-command state has inconsistent terminal metadata'')) (\<lambda>_.
     Inr (Some (rd_action d))))))))"

definition integration_invalid_response_retry_action :: "run_state \<Rightarrow> selected" where
  "integration_invalid_response_retry_action s = for_reason ''INVALID_RESPONSE'' s (
     attempt (ensure (stopped s)
       (incompatible_run ''invalid-response reason is attached to inconsistent terminal metadata'')) (\<lambda>_.
     attempt (ok_or (incompatible_run ''invalid-response state has no originating diagnostic'') (last_error s)) (\<lambda>d.
     selecting (rd_code d = ''INVALID_RESPONSE'' \<and> rd_action d = RequestPrimaryIntegration
                \<and> rd_role d = Some Primary \<and> diagnostic_matches_primary_identity s d) (
     attempt (ensure (contains (rd_detail d) ''message requires an integration_branch''
                      \<or> contains (rd_detail d) ''message requires an integration_sha'')
       (response_retry_unsafe
          ''integration invalid-response recovery is limited to omitted top-level result identity'')) (\<lambda>_.
     attempt (ensure (\<not> result_recorded s)
       (response_retry_unsafe
          ''integration invalid-response recovery cannot replace accepted result state'')) (\<lambda>_.
     Inr (Some RequestPrimaryIntegration)))))))"

definition completed_integration_forbidden_detail_is_retryable ::
  "policy_libs \<Rightarrow> run_state \<Rightarrow> string \<Rightarrow> bool" where
  "completed_integration_forbidden_detail_is_retryable P s detail \<longleftrightarrow>
     detail \<in> {''integration command is not canonically completed with exit code zero'',
               ''integration command is outside the frozen execution policy'',
               ''controlled patch call appears after the final agent response''}
     \<or> (case strip_prefix ''patch-success confirmation executed a non-read-only command: '' detail of
          None \<Rightarrow> False
        | Some command \<Rightarrow>
            (case normalize_app_server_command P command of
               None \<Rightarrow> False
             | Some normalized \<Rightarrow>
                 trim normalized \<in> {''git symbolic-ref --short HEAD'', ''git branch --show-current''}
                 \<and> utf8 (rf_primary_worktree (facts s))
                 \<and> is_retry_safe_read_only_integration_command P s (rf_primary_worktree (facts s)) command))"

definition completed_integration_forbidden_operation_retry_action :: "policy_libs \<Rightarrow> run_state \<Rightarrow> selected" where
  "completed_integration_forbidden_operation_retry_action P s = for_reason ''FORBIDDEN_OPERATION'' s (
     attempt (ensure (stopped s)
       (incompatible_run ''forbidden-operation reason is attached to inconsistent terminal metadata'')) (\<lambda>_.
     attempt (ok_or (incompatible_run ''forbidden-operation state has no originating diagnostic'')
                (last_error s)) (\<lambda>d.
     selecting (rd_code d = ''FORBIDDEN_OPERATION'' \<and> rd_action d = RequestPrimaryIntegration
                \<and> rd_role d = Some Primary \<and> diagnostic_matches_primary_identity s d
                \<and> completed_integration_forbidden_detail_is_retryable P s (rd_detail d)) (
     attempt (ensure (\<not> result_recorded s)
       (response_retry_unsafe
          ''completed-integration command-audit recovery cannot replace accepted result state'')) (\<lambda>_.
     Inr (Some RequestPrimaryIntegration))))))"

definition verification_without_execution_retry_action :: "run_state \<Rightarrow> selected" where
  "verification_without_execution_retry_action s = for_reason ''TEST_FAILURE'' s (
     attempt (ensure (stopped s)
       (incompatible_run ''test-failure reason is attached to inconsistent terminal metadata'')) (\<lambda>_.
     attempt (ok_or (incompatible_run ''test-failure state has no originating diagnostic'') (last_error s)) (\<lambda>d.
     selecting (rd_code d = ''TEST_FAILURE'' \<and> rd_action d = RequestPrimaryVerification
                \<and> rd_role d = Some Primary \<and> diagnostic_matches_primary_identity s d
                \<and> rd_detail d = ''verification must execute each frozen command exactly once and no other command'')
       (Inr (Some RequestPrimaryVerification)))))"

definition retry_outcome :: "(state_error \<Rightarrow> coordinator_error) \<Rightarrow> (state_error + next_action) \<times> run_state
    \<Rightarrow> coordinator_error + next_action" where
  "retry_outcome f r = map_err f (fst r)"

definition reviewer_reasoning_lifecycle_compatibility_retry_action :: "run_state \<Rightarrow> selected" where
  "reviewer_reasoning_lifecycle_compatibility_retry_action s = for_reason ''INCOMPATIBLE_STATE'' s (
     case last_error s of
       None \<Rightarrow> Inr None
     | Some d \<Rightarrow>
         selecting (rd_code d = ''INCOMPATIBLE_STATE'' \<and> rd_action d = RequestReviewerResultVerdict
                    \<and> rd_role d = Some Reviewer
                    \<and> prefix ''INCOMPATIBLE_STATE: turn '' (rd_detail d)
                    \<and> suffix '' completed before all item lifecycle events were persisted'' (rd_detail d))
           (attempt (retry_outcome of_state (retry_blocked_reviewer_reasoning_lifecycle_compatibility s)) (\<lambda>action.
            Inr (Some action))))"

definition verification_environment_unavailable_retry_action :: "run_state \<Rightarrow> selected" where
  "verification_environment_unavailable_retry_action s = for_reason ''CARGO_UNAVAILABLE'' s (
     attempt (ensure (stopped s)
       (incompatible_run ''verification environment blocker is attached to inconsistent terminal metadata'')) (\<lambda>_.
     attempt (ensure (test_evidence s = [] \<and> integration_branch s \<noteq> None \<and> integration_sha s \<noteq> None
                      \<and> current_integration_payload s \<noteq> None \<and> verification_worktree s \<noteq> None
                      \<and> required_test_commands s \<noteq> [] \<and> accepted_result s = None)
       (response_retry_unsafe
          ''verification environment recovery requires an unchanged unaccepted integration result'')) (\<lambda>_.
     Inr (Some RequestPrimaryVerification))))"

definition invalid_response_retry_action :: "run_state \<Rightarrow> selected" where
  "invalid_response_retry_action s = for_reason ''INVALID_RESPONSE'' s (
     attempt (ensure (stopped s)
       (incompatible_run ''invalid-response reason is attached to inconsistent terminal metadata'')) (\<lambda>_.
     attempt (ok_or (incompatible_run ''invalid-response state has no originating diagnostic'') (last_error s)) (\<lambda>d.
     attempt (ensure (rd_code d = ''INVALID_RESPONSE'' \<and> preintegration_read_only_phase (rd_action d) \<noteq> None)
       (response_retry_unsafe
          ''invalid-response recovery is limited to a matching pre-integration read-only action'')) (\<lambda>_.
     attempt (ensure (\<not> integration_recorded s)
       (response_retry_unsafe ''invalid-response recovery cannot run after integration begins'')) (\<lambda>_.
     Inr (Some (rd_action d)))))))"

definition execution_tool_unavailable_retry_action :: "run_state \<Rightarrow> selected" where
  "execution_tool_unavailable_retry_action s = for_reason ''EXECUTION_TOOL_UNAVAILABLE'' s (
     attempt (ensure (stopped s \<and> last_error s = None)
       (incompatible_run ''execution-tool blocker has inconsistent terminal metadata'')) (\<lambda>_.
     attempt (ensure (\<not> result_recorded s)
       (response_retry_unsafe ''execution-tool recovery cannot run after integration side effects exist'')) (\<lambda>_.
     Inr (Some RequestPrimaryIntegration))))"

text \<open>The text of a \<open>StateError\<close> is its code and its detail.\<close>

definition unsafe_state :: "string \<Rightarrow> state_error \<Rightarrow> coordinator_error" where
  "unsafe_state what err = response_retry_unsafe (what @ se_code err @ '': '' @ se_detail err)"

definition corrective_patch_tool_unavailable_retry_action :: "libs \<Rightarrow> run_state \<Rightarrow> selected" where
  "corrective_patch_tool_unavailable_retry_action L s =
     (if reason_code s = Some ''CONTROLLED_PATCH_TOOL_UNAVAILABLE'' then
        attempt (retry_outcome (unsafe_state ''corrective patch-tool blocker is not retryable: '')
                   (retry_blocked_corrective_patch_tool_unavailable L s)) (\<lambda>_.
        Inr (Some RequestPrimaryIntegration))
      else if reason_code s = Some ''PATCH_NOT_AUTHORIZED'' then
        attempt (retry_outcome (unsafe_state ''result-review patch rejection is not retryable: '')
                   (retry_blocked_result_review_patch_not_authorized L s)) (\<lambda>_.
        Inr (Some RequestPrimaryIntegration))
      else Inr None)"

definition unsent_ephemeral_source_recreation_retry_action :: "run_state \<Rightarrow> selected" where
  "unsent_ephemeral_source_recreation_retry_action s = for_reason ''HISTORY_UNAVAILABLE'' s (
     case last_error s of
       None \<Rightarrow> Inr None
     | Some d \<Rightarrow>
         selecting (rd_code d = ''HISTORY_UNAVAILABLE''
                    \<and> rd_detail d = ''Source Primary before safe mirror recreation is not idle'')
           (attempt (retry_outcome (unsafe_state ''ephemeral Source recreation blocker is not retryable: '')
                       (retry_blocked_unsent_ephemeral_source_recreation s)) (\<lambda>_.
            Inr (Some RequestPrimaryIntegration))))"

definition active_corrective_patch_request :: "libs \<Rightarrow> run_state \<Rightarrow> bool" where
  "active_corrective_patch_request L s \<longleftrightarrow>
     status s = SRunning \<and> phase s = Integrate \<and> next_action s = RequestPrimaryIntegration
     \<and> (is_ok (fst (retry_blocked_corrective_patch_tool_unavailable L
                     (block ''CONTROLLED_PATCH_TOOL_UNAVAILABLE'' s)))
        \<or> is_ok (fst (retry_blocked_result_review_patch_not_authorized L (block ''PATCH_NOT_AUTHORIZED'' s))))"

definition forbidden_operation_retry_action :: "run_state \<Rightarrow> selected" where
  "forbidden_operation_retry_action s = for_reason ''FORBIDDEN_OPERATION'' s (
     attempt (ensure (stopped s)
       (incompatible_run ''forbidden-operation reason is attached to inconsistent terminal metadata'')) (\<lambda>_.
     attempt (ok_or (incompatible_run ''forbidden-operation blocker has no originating diagnostic'')
                (last_error s)) (\<lambda>d.
     attempt (ensure (rd_code d = ''FORBIDDEN_OPERATION'' \<and> rd_action d = RequestPrimaryIntegration
                      \<and> rd_role d = Some Primary \<and> diagnostic_matches_primary_identity s d)
       (turn_retry_unsafe ''forbidden-operation recovery is limited to the bound primary integration turn'')) (\<lambda>_.
     attempt (ensure (\<not> result_recorded s)
       (turn_retry_unsafe ''forbidden-operation recovery cannot run after integration side effects exist'')) (\<lambda>_.
     Inr (Some RequestPrimaryIntegration))))))"

subsection \<open>Messages that report a missing tool\<close>

text \<open>The envelope is that of the frozen integration action, for the given reason.\<close>

definition blocker_envelope :: "run_state \<Rightarrow> string \<Rightarrow> envelope \<Rightarrow> bool" where
  "blocker_envelope s reason e \<longleftrightarrow>
     env_message_type e = MBlocked \<and> env_phase e = MIntegrate \<and> env_run_id e = rf_run_id (facts s)
     \<and> env_round e = round s \<and> env_plan_revision e = plan_revision s
     \<and> env_primary_sha e = rf_primary_sha (facts s) \<and> env_reviewer_sha e = rf_reviewer_sha (facts s)
     \<and> env_integration_branch e = None \<and> env_integration_sha e = None
     \<and> env_reason_code e = Some reason"

definition text_or_empty :: "string option \<Rightarrow> string" where
  "text_or_empty t = (case t of None \<Rightarrow> [] | Some x \<Rightarrow> x)"

definition approved_hash :: "run_state \<Rightarrow> string" where
  "approved_hash s = text_or_empty (Option.bind (plan_approval_payload s) (\<lambda>v. str_field v ''approved_plan_hash''))"

definition exact_string :: "json \<Rightarrow> string \<Rightarrow> string \<Rightarrow> bool" where
  "exact_string p key expected \<longleftrightarrow> str_field p key = Some expected"

definition approved_identity :: "run_state \<Rightarrow> string \<Rightarrow> json \<Rightarrow> bool" where
  "approved_identity s request_hash p \<longleftrightarrow>
     exact_string p ''request_hash'' request_hash
     \<and> Option.bind (get p ''approved_plan_revision'') as_u64 = map_option uint (plan_revision s)
     \<and> exact_string p ''approved_primary_sha'' (rf_primary_sha (facts s))
     \<and> exact_string p ''approved_reviewer_sha'' (rf_reviewer_sha (facts s))
     \<and> exact_string p ''approved_plan_hash'' (approved_hash s)"

definition false_value :: "json \<Rightarrow> string \<Rightarrow> bool" where
  "false_value p key \<longleftrightarrow> get p key = Some (JBool False)"

definition nonempty_array :: "json \<Rightarrow> string \<Rightarrow> bool" where
  "nonempty_array p key \<longleftrightarrow> (case array_field p key of None \<Rightarrow> False | Some vs \<Rightarrow> vs \<noteq> [])"

definition validate_execution_tool_unavailable_blocker ::
  "run_state \<Rightarrow> string \<Rightarrow> protocol_message \<Rightarrow> coordinator_error + unit" where
  "validate_execution_tool_unavailable_blocker s accepted_hash m =
     attempt (ensure (blocker_envelope s ''EXECUTION_TOOL_UNAVAILABLE'' (envelope m))
       (response_retry_unsafe
          ''accepted execution-tool blocker envelope does not match the frozen integration action'')) (\<lambda>_.
     attempt (ensure (is_object (payload m))
       (response_retry_unsafe ''accepted execution-tool blocker payload is not an object'')) (\<lambda>_.
     let p = payload m in
     ensure (exact_string p ''role'' ''PRIMARY'' \<and> approved_identity s accepted_hash p
             \<and> exact_string p ''target_integration_branch'' (text_or_empty (target_integration_branch s))
             \<and> false_value p ''writes_performed'' \<and> false_value p ''branch_created''
             \<and> false_value p ''merge_performed''
             \<and> array_field p ''files_modified'' = Some [] \<and> array_field p ''tests_run'' = Some []
             \<and> nonempty_array p ''evidence'' \<and> nonempty_array p ''safety_state'')
       (response_retry_unsafe
          ''accepted execution-tool blocker does not prove a side-effect-free failed integration attempt'')))"

definition reported_sha :: "string \<Rightarrow> json \<Rightarrow> coordinator_error + string" where
  "reported_sha what p =
     ok_or (turn_retry_unsafe (what @ '' omits a valid resulting integration SHA''))
       (case str_field p ''resulting_integration_sha'' of
          None \<Rightarrow> None
        | Some sha \<Rightarrow> if length sha = 40 \<and> list_all is_ascii_hexdigit sha then Some sha else None)"

definition bwrap_failure :: "json \<Rightarrow> bool" where
  "bwrap_failure p \<longleftrightarrow>
     (case str_field p ''blocking_condition'' of
        None \<Rightarrow> False
      | Some condition \<Rightarrow> contains condition ''bwrap'' \<and> contains condition ''Permission denied''
          \<and> contains condition ''file-change'')"

definition validate_file_change_tool_unavailable_blocker ::
  "run_state \<Rightarrow> string \<Rightarrow> protocol_message \<Rightarrow> coordinator_error + string" where
  "validate_file_change_tool_unavailable_blocker s request_hash m =
     attempt (ensure (blocker_envelope s ''FILE_CHANGE_TOOL_UNAVAILABLE'' (envelope m))
       (turn_retry_unsafe ''file-change blocker envelope does not match the frozen integration action'')) (\<lambda>_.
     attempt (ensure (is_object (payload m))
       (turn_retry_unsafe ''file-change blocker payload is not an object'')) (\<lambda>_.
     let p = payload m in
     attempt (ensure (exact_string p ''role'' ''PRIMARY'' \<and> approved_identity s request_hash p
             \<and> exact_string p ''resulting_integration_branch'' (text_or_empty (target_integration_branch s))
             \<and> bwrap_failure p)
       (turn_retry_unsafe
          ''file-change blocker does not carry the exact approved identity and bwrap failure evidence'')) (\<lambda>_.
     reported_sha ''file-change blocker'' p)))"

definition validate_patch_not_authorized_blocker ::
  "run_state \<Rightarrow> string \<Rightarrow> protocol_message \<Rightarrow> coordinator_error + string" where
  "validate_patch_not_authorized_blocker s request_hash m =
     attempt (ensure (blocker_envelope s ''PATCH_NOT_AUTHORIZED'' (envelope m))
       (turn_retry_unsafe ''controlled-patch rejection envelope does not match the frozen integration action'')) (\<lambda>_.
     attempt (ensure (is_object (payload m))
       (turn_retry_unsafe ''controlled-patch rejection payload is not an object'')) (\<lambda>_.
     let p = payload m in
     attempt (ensure (approved_identity s request_hash p
             \<and> exact_string p ''resulting_integration_branch'' (text_or_empty (target_integration_branch s)))
       (turn_retry_unsafe
          ''controlled-patch rejection does not carry the exact machine-checkable approved identity'')) (\<lambda>_.
     reported_sha ''controlled-patch rejection'' p)))"

end
