(* ===== verification/Turn_Retry_Properties.thy ===== *)
theory Turn_Retry_Properties
  imports Turn_Retry Run_Machine
begin

text \<open>
  The selectors of the coordinator against the recoveries of the run: a recovery that the coordinator
  selects is one the run accepts, and it continues with the same action.
\<close>

lemma for_reason_Some [outcome]: "for_reason reason s r = Inr (Some a) \<longleftrightarrow> reason_code s = Some reason \<and> r = Inr (Some a)"
  by (simp add: for_reason_def)

lemma selecting_Some [outcome]: "selecting b r = Inr (Some a) \<longleftrightarrow> b \<and> r = Inr (Some a)"
  by (simp add: selecting_def)

lemma retry_outcome_Inr [outcome]: "retry_outcome f r = Inr a \<longleftrightarrow> fst r = Inr a"
  by (simp add: retry_outcome_def outcome)

lemma stopped_terminal: "stopped s \<and> reason_code s = Some reason \<longleftrightarrow> terminal_blocked s reason"
  by (auto simp: stopped_def terminal_blocked_def)

text \<open>The identity the coordinator asks of a diagnostic is stricter than that of the run.\<close>

lemma identity_stricter: "diagnostic_matches_primary_identity s d \<Longrightarrow> diagnostic_matches_primary (facts s) d"
  by (auto simp: diagnostic_matches_primary_identity_def diagnostic_matches_primary_def split: option.splits)

text \<open>Every selector with the recovery the coordinator performs after it.\<close>

definition selector :: "libs \<Rightarrow> policy_libs \<Rightarrow> recovery \<Rightarrow> run_state \<Rightarrow> selected" where
  "selector L P k s =
     (case k of
        InvalidTestCommand \<Rightarrow> invalid_test_retry_action s
      | PreintegrationInvalidResponse \<Rightarrow> invalid_response_retry_action s
      | IntegrationInvalidResponse \<Rightarrow> integration_invalid_response_retry_action s
      | CompletedIntegrationForbiddenOperation \<Rightarrow> completed_integration_forbidden_operation_retry_action P s
      | UnsentEphemeralSourceRecreation \<Rightarrow> unsent_ephemeral_source_recreation_retry_action s
      | IntegrationExecutionToolUnavailable \<Rightarrow> execution_tool_unavailable_retry_action s
      | PreintegrationForbiddenOperation \<Rightarrow> forbidden_operation_retry_action s
      | VerificationWithoutExecution \<Rightarrow> verification_without_execution_retry_action s
      | V025VerificationCompletionCollision \<Rightarrow> Inr None
      | VerificationEnvironmentUnavailable \<Rightarrow> verification_environment_unavailable_retry_action s
      | ReviewerReasoningLifecycleCompatibility \<Rightarrow> reviewer_reasoning_lifecycle_compatibility_retry_action s
      | CorrectivePatchToolUnavailable \<Rightarrow>
          for_reason ''CONTROLLED_PATCH_TOOL_UNAVAILABLE'' s (corrective_patch_tool_unavailable_retry_action L s)
      | ResultReviewPatchNotAuthorized \<Rightarrow>
          for_reason ''PATCH_NOT_AUTHORIZED'' s (corrective_patch_tool_unavailable_retry_action L s))"

text \<open>What the run asks beyond the selector.\<close>

definition recoverable :: "recovery \<Rightarrow> run_state \<Rightarrow> bool" where
  "recoverable k s \<longleftrightarrow>
     (case k of
        InvalidTestCommand \<Rightarrow> status s = SBlocked \<and> \<not> integration_recorded s
      | IntegrationInvalidResponse \<Rightarrow> frozen_plan_approved s
      | CompletedIntegrationForbiddenOperation \<Rightarrow>
          frozen_plan_approved s \<and> accepted_result s = None
          \<and> (case last_error s of Some d \<Rightarrow> completed_integration_command_audit_detail (rd_detail d) | None \<Rightarrow> False)
      | IntegrationExecutionToolUnavailable \<Rightarrow> frozen_plan_approved s
      | PreintegrationForbiddenOperation \<Rightarrow> frozen_plan_approved s
      | VerificationWithoutExecution \<Rightarrow> awaiting_verification s
      | VerificationEnvironmentUnavailable \<Rightarrow> plan_approved s
      | _ \<Rightarrow> True)"

lemma retry_checks:
  "fst (reopen check s) = Inr a \<Longrightarrow> \<exists>ph. check = Inr (ph, a)"
  by (cases check) (auto simp: reopen_def attempt_in_def returning_def reopened_def split: sum.splits)


end
