(* ===== verification/Turn_Example.thy ===== *)
theory Turn_Example
  imports Turn_Verification_Properties Turn_Retry_Properties Store_Example Guard_Example Turn_Audit_Properties
    Run_Example
begin

text \<open>Concrete turns: an approval as a marker, a verification, and a blocked run that is retried.\<close>

definition reviewed_run :: run_state where
  "reviewed_run = example_run planning_inputs"

definition approval_text :: string where
  "approval_text = ''looks good <consensus-result>APPROVED</consensus-result>''"

definition approval_response :: participant_response where
  "approval_response = \<lparr>resp_signal = Approved, resp_blocked_reason = None, resp_body = ''looks good''\<rparr>"

lemma approval_parsed:
  "parse_participant_response id approval_text (allowed_participant_signals RequestReviewerPlanVerdict)
   = Inr approval_response"
  by code_simp

lemma approval_normalized:
  "is_ok (normalized_marker_message example_turn_libs frozen_git reviewed_run RequestReviewerPlanVerdict approval_response)"
  "next_action reviewed_run = RequestReviewerPlanVerdict" "status reviewed_run = SRunning"
  by code_simp+

lemma approval_libs [simp]:
  "tl_core example_turn_libs = example_libs" "tl_debug example_turn_libs = id"
  "uuid_parse example_libs t = Some 1" "rf_run_id (facts reviewed_run) = 1"
  by (simp_all add: example_turn_libs_def example_libs_def, code_simp)

theorem marker_response_current_witness:
  "case marker_response example_turn_libs frozen_git (empty_store ''/s'') reviewed_run RequestReviewerPlanVerdict approval_text of
     Inr m \<Rightarrow> env_round (envelope m) = round reviewed_run \<and> env_plan_revision (envelope m) = plan_revision reviewed_run
       \<and> env_primary_sha (envelope m) = rf_primary_sha (facts reviewed_run)
   | Inl _ \<Rightarrow> False"
proof -
  obtain m where m: "marker_response example_turn_libs frozen_git (empty_store ''/s'') reviewed_run
      RequestReviewerPlanVerdict approval_text = Inr m"
    using approval_normalized(1) approval_parsed
    by (auto simp: marker_response_def is_ok_iff promote_post_patch_limit_response_def map_err_def)
  from marker_response_current [OF m] show ?thesis unfolding m by auto
qed

theorem marker_verdict_applies_witness:
  "case normalized_marker_message example_turn_libs frozen_git reviewed_run RequestReviewerPlanVerdict approval_response of
     Inr m \<Rightarrow> fst (apply_message example_libs m reviewed_run) = Inr RequestPrimaryIntegration
   | Inl _ \<Rightarrow> False"
proof -
  obtain m where m: "normalized_marker_message example_turn_libs frozen_git reviewed_run
      RequestReviewerPlanVerdict approval_response = Inr m"
    using approval_normalized(1) by (auto simp: is_ok_iff)
  have "\<exists>a s'. apply_message example_libs m reviewed_run = (Inr a, s')
      \<and> (resp_signal approval_response = Approved \<longrightarrow>
           a = (if next_action reviewed_run = RequestReviewerPlanVerdict then RequestPrimaryIntegration
                else RevalidateAndAccept))"
    by (rule marker_verdict_applies [of reviewed_run example_libs example_facts planning_inputs example_turn_libs frozen_git])
       (simp_all add: reviewed_run_def [symmetric] approval_normalized m, simp_all add: approval_response_def reviewed_run_def)
  then show ?thesis unfolding m by (auto simp: approval_response_def approval_normalized(2))
qed

lemma utf8_letters: "utf8 (replicate n (CHR ''a''))"
  by (induction n) (simp_all add: utf8_def byte_def)

theorem output_bounded_witness:
  "length (bounded_verification_output (replicate 20000 (CHR ''a''))) \<le> 16384"
  using output_bounded [OF utf8_letters, of 20000] by (simp add: MAX_VERIFICATION_FAILURE_OUTPUT_BYTES_def)

text \<open>A verification with one test command that fails.\<close>

definition verified_run :: run_state where
  "verified_run = (new_run example_facts)\<lparr>required_test_commands := [''t''], verification_worktree := Some ''/v''\<rparr>"

definition turn_libs_of_store :: turn_libs where
  "turn_libs_of_store = example_turn_libs\<lparr>tl_core := se_libs example_env\<rparr>"

definition failing_executor :: executor where
  "failing_executor n command = Inr \<lparr>cr_exit_code = 1, cr_stdout = ''out'', cr_stderr = ''err''\<rparr>"

definition failed_command :: "verification_command_record transaction" where
  "failed_command = complete_verification_command ''r1'' ''hash'' 0 1 ''out'' ''err'' (commit started_store claimed)"

lemma failed_command_example:
  "case failed_command of Inr (r, st) \<Rightarrow>
     vc_exit_code r = Some 1 \<and> vc_stdout r = Some ''out'' \<and> vc_stderr r = Some ''err'' | _ \<Rightarrow> False"
  "command_argv (tl_policy turn_libs_of_store) ''t'' = Inr [''t'']"
  "uuid_text (tl_core turn_libs_of_store) (rf_run_id (facts verified_run)) = ''r1''"
  by code_simp+

lemma verification_example:
  "is_ok (fst (execute_frozen_verification turn_libs_of_store failing_executor 1000 verified_run ''hash'' ''turn'' started_store))"
proof -
  obtain r st1 where c: "begin_verification_command ''r1'' ''hash'' ''turn'' 0 ''t'' ''/v'' started_store
      = Inr (Execute r, st1)"
    using claimed_example by (auto simp: claimed_def split: sum.splits prod.splits claim.splits)
  then have "commit started_store claimed = st1" by (simp add: claimed_def commit_def)
  then obtain r' st2 where d: "complete_verification_command ''r1'' ''hash'' 0 1 ''out'' ''err'' st1 = Inr (r', st2)"
    "vc_exit_code r' = Some 1" "vc_stdout r' = Some ''out''" "vc_stderr r' = Some ''err''"
    using failed_command_example(1) by (auto simp: failed_command_def split: sum.splits prod.splits)
  have "required_test_commands verified_run = [''t'']" "verification_worktree verified_run = Some ''/v''"
    by (simp_all add: verified_run_def)
  then show ?thesis
    by (simp add: execute_frozen_verification_def failed_command_example(2,3) c d execute_claimed_def
      failing_executor_def append_verification_record_def attempt_in_def ok_or_def ensure_def is_ok_def map_err_def)
qed


text \<open>The message of a verified integration in the repository of \<open>Guard_Example\<close>.\<close>

definition integrated_run :: run_state where
  "integrated_run = (new_run repository_facts)\<lparr>current_integration_payload :=
     Some (JObj [(''changed_files'', JArr [JStr ''src//x.rs''])])\<rparr>"

definition verified_message :: protocol_message where
  "verified_message = \<lparr>envelope = authoritative_envelope integrated_run MIntegrationReady None (Some ''merge'')
       (Some (sha_of (CHR ''c''))), payload = JObj []\<rparr>"

lemma verified_payload_example:
  "verified_payload example_turn_libs integrated_run (JObj []) (Some \<lparr>av_evidence = [], av_failures = []\<rparr>)
   = Inr (JObj [(''changed_files'', JArr [JStr ''src//x.rs'']), (''test_evidence'', JArr [])])"
  by code_simp

theorem message_evidence_authoritative_witness:
  "get (payload (snd (verify_message_evidence example_turn_libs merged_git (empty_store ''/s'') integrated_run
       RequestPrimaryVerification JNull (Some \<lparr>av_evidence = [], av_failures = []\<rparr>) verified_message))) ''test_evidence''
   = Some (JArr [])"
proof -
  let ?m = "verified_message\<lparr>payload := JObj [(''changed_files'', JArr [JStr ''src//x.rs'']), (''test_evidence'', JArr [])]\<rparr>"
  have facts: "facts integrated_run = repository_facts" by (simp add: integrated_run_def new_run_def)
  have files: "reported_changed_files (payload ?m) = Inr [''src//x.rs'']" by code_simp
  have "check_integration_repository merged_git integrated_run ?m = Inr ()"
    unfolding check_integration_repository_def files facts
    by (simp add: verified_message_def ok_or_def merged_example map_err_def)
  then have "verify_message_evidence example_turn_libs merged_git (empty_store ''/s'') integrated_run
      RequestPrimaryVerification JNull (Some \<lparr>av_evidence = [], av_failures = []\<rparr>) verified_message = (Inr (), ?m)"
    using verified_payload_example
    by (simp add: verify_message_evidence_def verified_message_def)
  from message_evidence_authoritative [OF this] this show ?thesis by (auto simp: verified_message_def)
qed

text \<open>A run that stopped because the participant had no tool to execute commands.\<close>

definition tool_blocked_run :: run_state where
  "tool_blocked_run = block ''EXECUTION_TOOL_UNAVAILABLE'' (example_run (planning_inputs @ [Message plan_approval_message]))"


end
