(* ===== verification/Conversation.thy ===== *)
theory Conversation
  imports Turn_Verification Store_Recovery Store_Bindings
begin

text \<open>
  The effects of the coordinator (\<open>crates/daemon/src/coordinator.rs\<close>): the store, the repository and the
  App Server. The App Server is a parameter: its answer to a call depends on the call and on the moment.
  A moment is the number of interactions so far; between two of them the other clients of the store and
  of the repository may act (\<open>co_others\<close>). \<open>co_clock\<close> is \<open>Instant::now\<close> and \<open>co_wall\<close> the time that is
  written to the store. An action is a function of the world; it answers \<open>None\<close> when a loop that waits
  did not end within \<open>co_patience\<close> rounds. The calls that change something outside are logged, with the
  store at that moment.
\<close>

datatype thread_resume_policy = ResumeDefault | ResumeParticipant string

datatype turn_execution_policy =
    ReadOnly string
  | PrimaryIntegration string string
  | PrimaryVerification string

record mcp_server_status =
  ms_name :: string
  ms_tools :: "(string \<times> json) list"

record app_event =
  ap_id :: "json option"
  ap_method :: string
  ap_params :: json

text \<open>\<open>next_event\<close> under a timeout: nothing in time, the end of the stream, or an event.\<close>

datatype poll = Silent | Closed | Event app_event

record server =
  sv_read_thread :: "nat \<Rightarrow> string \<Rightarrow> app_server_error + thread_detail"
  sv_read_thread_summary :: "nat \<Rightarrow> string \<Rightarrow> app_server_error + thread_summary"
  sv_resume_thread :: "nat \<Rightarrow> string \<Rightarrow> thread_resume_policy \<Rightarrow> app_server_error + thread_detail"
  sv_fork_thread :: "nat \<Rightarrow> string \<Rightarrow> string \<Rightarrow> app_server_error + thread_detail"
  sv_get_thread_goal :: "nat \<Rightarrow> string \<Rightarrow> app_server_error + json option"
  sv_list_mcp_server_status :: "nat \<Rightarrow> string \<Rightarrow> app_server_error + mcp_server_status list"
  sv_start_turn :: "nat \<Rightarrow> string \<Rightarrow> string \<Rightarrow> turn_execution_policy \<Rightarrow> app_server_error + string"
  sv_execute_command :: executor
  sv_respond_to_request :: "nat \<Rightarrow> json \<Rightarrow> json \<Rightarrow> app_server_error + unit"
  sv_refresh_connection :: "nat \<Rightarrow> app_server_error + unit"
  sv_next_event :: "nat \<Rightarrow> poll"
  sv_interrupt_turn :: "nat \<Rightarrow> string \<Rightarrow> string \<Rightarrow> app_server_error + unit"
  sv_approval_mode :: "nat \<Rightarrow> app_server_error + string option"

record coordinator =
  co_libs :: turn_libs
  co_env :: store_env
  co_clone :: clone_ops
  co_apply :: git_apply
  co_server :: server
  co_attempts :: nat
  co_wait_timeout :: nat
  co_participant :: string
  co_home :: "string option"
  co_clock :: "nat \<Rightarrow> nat"
  co_wall :: "nat \<Rightarrow> int"
  co_others :: "nat \<Rightarrow> store \<times> git_env \<Rightarrow> store \<times> git_env"
  co_patience :: nat

datatype effect =
    TurnSent string string turn_execution_policy
  | RequestAnswered app_event json
  | ConnectionRefreshed
  | ThreadForked string
  | TurnInterrupted string string

record world =
  wd_store :: store
  wd_git :: git_env
  wd_moment :: nat
  wd_log :: "(effect \<times> store) list"

type_synonym 'a action = "world \<Rightarrow> ((coordinator_error + 'a) \<times> world) option"

subsection \<open>Sequences of actions\<close>

definition of_result :: "coordinator_error + 'a \<Rightarrow> 'a action" where
  "of_result r w = Some (r, w)"

abbreviation answer :: "'a \<Rightarrow> 'a action" where
  "answer x \<equiv> of_result (Inr x)"

abbreviation refuse :: "coordinator_error \<Rightarrow> 'a action" where
  "refuse err \<equiv> of_result (Inl err)"

definition whatever :: "'a action \<Rightarrow> (coordinator_error + 'a \<Rightarrow> 'b action) \<Rightarrow> 'b action" where
  "whatever m f w = (case m w of None \<Rightarrow> None | Some (r, w') \<Rightarrow> f r w')"

definition and_then :: "'a action \<Rightarrow> ('a \<Rightarrow> 'b action) \<Rightarrow> 'b action" where
  "and_then m f = whatever m (\<lambda>r. case r of Inl err \<Rightarrow> refuse err | Inr x \<Rightarrow> f x)"

definition given_up :: "'a action" where
  "given_up w = None"

subsection \<open>The store, the repository and the clock\<close>

definition elapse :: "coordinator \<Rightarrow> world \<Rightarrow> world" where
  "elapse C w =
     (let (st, e) = co_others C (wd_moment w) (wd_store w, wd_git w) in
      w\<lparr>wd_store := st, wd_git := e, wd_moment := wd_moment w + 1\<rparr>)"

definition pause_for :: "coordinator \<Rightarrow> unit action" where
  "pause_for C w = Some (Inr (), elapse C w)"

definition read_store :: "coordinator \<Rightarrow> (store \<Rightarrow> coordinator_error + 'a) \<Rightarrow> 'a action" where
  "read_store C f w = (let w' = elapse C w in Some (f (wd_store w'), w'))"

text \<open>A transaction that fails leaves the store as it was.\<close>

definition transact :: "coordinator \<Rightarrow> (int \<Rightarrow> store \<Rightarrow> 'a transaction) \<Rightarrow> 'a action" where
  "transact C op w =
     (let w' = elapse C w in
      case op (co_wall C (wd_moment w')) (wd_store w') of
        Inl err \<Rightarrow> Some (Inl (of_store (co_libs C) err), w')
      | Inr (x, st) \<Rightarrow> Some (Inr x, w'\<lparr>wd_store := st\<rparr>))"

text \<open>The start of a turn is recorded partly even when it is refused.\<close>

definition transact_partly ::
  "coordinator \<Rightarrow> (store \<Rightarrow> (store_error + unit) \<times> store) \<Rightarrow> unit action" where
  "transact_partly C op w =
     (let w' = elapse C w; (r, st) = op (wd_store w') in
      Some (stored (co_libs C) r, w'\<lparr>wd_store := st\<rparr>))"

definition inspect :: "(git_env \<Rightarrow> coordinator_error + 'a) \<Rightarrow> 'a action" where
  "inspect f w = Some (f (wd_git w), w)"

definition instant :: "coordinator \<Rightarrow> nat action" where
  "instant C w = Some (Inr (co_clock C (wd_moment w)), w)"

subsection \<open>Calls of the App Server\<close>

definition ask :: "coordinator \<Rightarrow> (nat \<Rightarrow> 'a) \<Rightarrow> 'a action" where
  "ask C call w = Some (Inr (call (wd_moment w)), elapse C w)"

definition log_effect :: "effect \<Rightarrow> unit action" where
  "log_effect eff w = Some (Inr (), w\<lparr>wd_log := wd_log w @ [(eff, wd_store w)]\<rparr>)"

definition call_for :: "coordinator \<Rightarrow> effect \<Rightarrow> string \<Rightarrow> string option
   \<Rightarrow> (nat \<Rightarrow> app_server_error + 'a) \<Rightarrow> 'a action" where
  "call_for C eff operation thread_id call =
     and_then (log_effect eff) (\<lambda>_.
     and_then (ask C call) (\<lambda>r. of_result (map_err (communication_error operation thread_id) r)))"

text \<open>
  A call is tried \<open>communication_attempts\<close> times, at least once, with a pause in between; \<open>final\<close> is an
  error after which it is not tried again.
\<close>

fun attempts ::
  "coordinator \<Rightarrow> (app_server_error \<Rightarrow> coordinator_error option) \<Rightarrow> (app_server_error \<Rightarrow> coordinator_error)
   \<Rightarrow> (nat \<Rightarrow> app_server_error + 'a) \<Rightarrow> nat \<Rightarrow> app_server_error \<Rightarrow> 'a action" where
  "attempts C final failed call 0 previous = refuse (failed previous)"
| "attempts C final failed call (Suc n) previous =
     and_then (ask C call) (\<lambda>r.
     case r of
       Inr x \<Rightarrow> answer x
     | Inl err \<Rightarrow>
         (case final err of
            Some e \<Rightarrow> refuse e
          | None \<Rightarrow>
              and_then (if n = 0 then answer () else pause_for C) (\<lambda>_. attempts C final failed call n err)))"

definition with_retry ::
  "coordinator \<Rightarrow> string \<Rightarrow> string \<Rightarrow> string \<Rightarrow> (nat \<Rightarrow> app_server_error + 'a) \<Rightarrow> 'a action" where
  "with_retry C operation unexplained thread_id call =
     attempts C (\<lambda>_. None) (communication_error operation (Some thread_id)) call
       (max (co_attempts C) 1) (InvalidAppResponse unexplained)"

definition read_thread_with_retry :: "coordinator \<Rightarrow> string \<Rightarrow> thread_detail action" where
  "read_thread_with_retry C thread_id =
     with_retry C ''thread/read'' ''thread read failed without an error'' thread_id
       (\<lambda>n. sv_read_thread (co_server C) n thread_id)"

definition read_thread_summary_with_retry :: "coordinator \<Rightarrow> string \<Rightarrow> thread_summary action" where
  "read_thread_summary_with_retry C thread_id =
     with_retry C ''thread/read summary'' ''thread summary read failed without an error'' thread_id
       (\<lambda>n. sv_read_thread_summary (co_server C) n thread_id)"

definition resume_thread_with_retry :: "coordinator \<Rightarrow> string \<Rightarrow> thread_resume_policy \<Rightarrow> thread_detail action" where
  "resume_thread_with_retry C thread_id policy =
     with_retry C ''thread/resume'' ''thread resume failed without an error'' thread_id
       (\<lambda>n. sv_resume_thread (co_server C) n thread_id policy)"

definition get_thread_goal_with_retry :: "coordinator \<Rightarrow> string \<Rightarrow> json option action" where
  "get_thread_goal_with_retry C thread_id =
     with_retry C ''thread/goal/get'' ''thread goal read failed without an error'' thread_id
       (\<lambda>n. sv_get_thread_goal (co_server C) n thread_id)"

fun preflight_error :: "string \<Rightarrow> app_server_error \<Rightarrow> coordinator_error option" where
  "preflight_error thread_id (IncompatibleCodex detail) =
     Some (app_server ''INCOMPATIBLE_CODEX'' detail ''mcpServerStatus/list'' (Some thread_id))"
| "preflight_error thread_id (InvalidAppResponse detail) =
     Some (app_server ''PATCH_TOOL_UNAVAILABLE'' detail ''mcpServerStatus/list'' (Some thread_id))"
| "preflight_error thread_id _ = None"

definition list_mcp_server_status_for_preflight :: "coordinator \<Rightarrow> string \<Rightarrow> mcp_server_status list action" where
  "list_mcp_server_status_for_preflight C thread_id =
     attempts C (preflight_error thread_id) (communication_error ''mcpServerStatus/list'' (Some thread_id))
       (\<lambda>n. sv_list_mcp_server_status (co_server C) n thread_id) (max (co_attempts C) 1)
       (InvalidAppResponse ''MCP server status failed without an error'')"

subsection \<open>Runs in the store\<close>

definition run_id_of :: "coordinator \<Rightarrow> run_state \<Rightarrow> string" where
  "run_id_of C s = uuid_text (tl_core (co_libs C)) (rf_run_id (facts s))"

definition required_run :: "coordinator \<Rightarrow> string \<Rightarrow> run_state action" where
  "required_run C run_id =
     read_store C (\<lambda>st. stored (co_libs C)
       (attempt (load_run st run_id) (\<lambda>found. ok_or (RunNotFound run_id) found)))"

definition save :: "coordinator \<Rightarrow> run_state \<Rightarrow> unit action" where
  "save C s = transact C (\<lambda>now st. save_state (co_env C) now s st)"

definition pending_send_of :: "coordinator \<Rightarrow> string \<Rightarrow> pending_send option action" where
  "pending_send_of C run_id = read_store C (\<lambda>st. Inr (pending_request st run_id))"

text \<open>An operation of \<open>RunState\<close> on the state at hand.\<close>

definition change :: "unit run_op \<Rightarrow> run_state \<Rightarrow> run_state action" where
  "change op s = (case op s of (Inl err, _) \<Rightarrow> refuse (of_state err) | (Inr _, s') \<Rightarrow> answer s')"

end
