(* ===== verification/Prompts.thy ===== *)
theory Prompts
  imports Turn_Evidence Observation
begin

text \<open>
  The prompt of a turn (\<open>crates/core/src/prompts.rs\<close>): the checks of a request, the metadata of the run
  that the participant is told, and the text around them. \<open>pretty\<close> is \<open>serde_json::to_string_pretty\<close>.
  A path that is not UTF-8 makes \<open>json!\<close> panic, the value \<open>PromptPanic\<close>.
\<close>

datatype prompt_error =
    PromptInvalid string string
  | PromptPanic

fun prompt_error_code :: "prompt_error \<Rightarrow> string" where
  "prompt_error_code (PromptInvalid code _) = code"
| "prompt_error_code PromptPanic = ''''"

fun phase_name :: "phase \<Rightarrow> string" where
  "phase_name Discover = ''DISCOVER''"
| "phase_name Freeze = ''FREEZE''"
| "phase_name Contract = ''CONTRACT''"
| "phase_name PlanReview = ''PLAN_REVIEW''"
| "phase_name Integrate = ''INTEGRATE''"
| "phase_name Verify = ''VERIFY''"
| "phase_name ResultReview = ''RESULT_REVIEW''"
| "phase_name Accepted = ''ACCEPTED''"
| "phase_name Blocked = ''BLOCKED''"
| "phase_name PausedUserAction = ''PAUSED_USER_ACTION''"
| "phase_name Cancelled = ''CANCELLED''"

subsection \<open>The checks of a request\<close>

fun expected_role :: "next_action \<Rightarrow> role option" where
  "expected_role RequestPrimaryContract = Some Primary"
| "expected_role RequestPrimaryPlan = Some Primary"
| "expected_role RequestPrimaryIntegration = Some Primary"
| "expected_role RequestPrimaryVerification = Some Primary"
| "expected_role RequestReviewerContract = Some Reviewer"
| "expected_role RequestReviewerPlanVerdict = Some Reviewer"
| "expected_role RequestReviewerResultVerdict = Some Reviewer"
| "expected_role _ = None"

fun required_payload_fields :: "next_action \<Rightarrow> string list" where
  "required_payload_fields RequestPrimaryPlan = [''primary_contract'', ''reviewer_contract'']"
| "required_payload_fields RequestReviewerPlanVerdict =
     [''primary_contract'', ''reviewer_contract'', ''plan'', ''coverage_matrix'', ''test_commands'', ''plan_hash'']"
| "required_payload_fields RequestPrimaryIntegration =
     [''primary_contract'', ''reviewer_contract'', ''approved_plan'', ''coverage_matrix'', ''approval'',
      ''target_integration_branch'']"
| "required_payload_fields RequestPrimaryVerification =
     [''integration_evidence'', ''changed_files'', ''required_test_commands'', ''verification_worktree'',
      ''integration_branch'', ''integration_sha'']"
| "required_payload_fields RequestReviewerResultVerdict =
     [''primary_contract'', ''reviewer_contract'', ''approved_plan'', ''coverage_matrix'',
      ''integration_evidence'', ''test_evidence'', ''changed_files'', ''integration_branch'', ''integration_sha'']"
| "required_payload_fields _ = []"

fun require_fields :: "(string \<times> json) list \<Rightarrow> string list \<Rightarrow> prompt_error + unit" where
  "require_fields es [] = Inr ()"
| "require_fields es (key # keys) =
     (if map_of es key = None
      then Inl (PromptInvalid ''INCOMPLETE_PAYLOAD'' (''complete payload is missing '' @ key))
      else require_fields es keys)"

definition validate_request :: "role \<Rightarrow> next_action \<Rightarrow> run_state \<Rightarrow> json \<Rightarrow> prompt_error + unit" where
  "validate_request role action s body =
     attempt (ensure (status s = SRunning)
       (PromptInvalid ''RUN_NOT_ACTIVE'' ''a model turn cannot be built for a non-running run'')) (\<lambda>_.
     attempt (ensure (next_action s = action)
       (PromptInvalid ''STALE_ACTION'' ''requested prompt action does not match the state machine'')) (\<lambda>_.
     attempt (ensure (expected_role action = Some role)
       (PromptInvalid ''WRONG_ROLE'' ''requested role is not authorized for this action'')) (\<lambda>_.
     attempt (ok_or (PromptInvalid ''INCOMPLETE_PAYLOAD'' ''the complete turn payload must be a JSON object'')
       (as_object body)) (\<lambda>es.
     require_fields es (required_payload_fields action)))))"

subsection \<open>The metadata of a turn\<close>

fun bound_source :: "role \<Rightarrow> run_facts \<Rightarrow> string \<times> string option \<times> string" where
  "bound_source Primary f = (rf_primary_worktree f, rf_primary_ref f, rf_primary_sha f)"
| "bound_source Reviewer f = (rf_reviewer_worktree f, rf_reviewer_ref f, rf_reviewer_sha f)"

definition metadata_paths :: "run_facts \<Rightarrow> string list" where
  "metadata_paths f = [rf_primary_worktree f, rf_reviewer_worktree f, rf_git_common_dir f]"

definition turn_metadata :: "libs \<Rightarrow> role \<Rightarrow> next_action \<Rightarrow> run_state \<Rightarrow> json" where
  "turn_metadata L role action s =
     (let f = facts s; (worktree, source_ref, sha) = bound_source role f in
      json_object
        [(''participant_response_protocol'', JStr PARTICIPANT_PROTOCOL_V2),
         (''run_id'', JStr (uuid_text L (rf_run_id f))), (''role'', JStr (role_name role)),
         (''action'', JStr (action_name action)), (''phase'', JStr (phase_name (phase s))),
         (''round'', word_json (round s)), (''primary_thread_id'', JStr (rf_primary_thread_id f)),
         (''reviewer_thread_id'', JStr (rf_reviewer_thread_id f)),
         (''primary_worktree'', JStr (rf_primary_worktree f)),
         (''reviewer_worktree'', JStr (rf_reviewer_worktree f)),
         (''git_common_dir'', JStr (rf_git_common_dir f)), (''primary_sha'', JStr (rf_primary_sha f)),
         (''reviewer_sha'', JStr (rf_reviewer_sha f)), (''primary_ref'', opt_json JStr (rf_primary_ref f)),
         (''reviewer_ref'', opt_json JStr (rf_reviewer_ref f)),
         (''bound_source'', json_object
            [(''worktree'', JStr worktree), (''source_ref'', opt_json JStr source_ref), (''sha'', JStr sha)]),
         (''plan_revision'', opt_json word_json (plan_revision s)),
         (''integration_branch'', opt_json JStr (integration_branch s)),
         (''integration_sha'', opt_json JStr (integration_sha s)),
         (''target_integration_branch'', opt_json JStr (target_integration_branch s)),
         (''required_test_commands'', JArr (map JStr (required_test_commands s)))])"

subsection \<open>The text\<close>

definition text_lines :: "string list \<Rightarrow> string" where
  "text_lines ls = concat (map (\<lambda>l. l @ [newline]) ls)"

definition quote :: string where
  "quote = [CHR 0x27]"

fun role_debug :: "role \<Rightarrow> string" where
  "role_debug Primary = ''Primary''"
| "role_debug Reviewer = ''Reviewer''"

definition safety_text :: string where
  \<open>safety_text = text_lines [
       '''',
       concat [''This is an internal participant turn inside an already-running run, not a request to '',
         ''launch, select, start, monitor, resume, or control a consensus run. The '',
         ''`worktree-merge-consensus` launcher skill is out of scope for this turn: do not select '',
         ''it, read its `SKILL.md`, or invoke its MCP or CLI surface. Follow only the complete '',
         ''coordinator payload below.''],
       '''',
       concat [''Treat every fact below as authoritative for this turn. Do not rely on the other task'',
         quote,
         ''s '',
         ''chat history or on summaries from an earlier round. The coordinator is deterministic '',
         ''code, not a third coordinating agent.''],
       '''',
       ''Safety policy:'',
       ''- The primary task is the only Git writer.'',
       ''- The reviewer task must not modify Git or files.'',
       concat [''- This turn is bound to the role-specific worktree, source ref, and SHA in '',
         ''bound_source. Inspect the implementation only at the supplied execution cwd.''],
       concat [''- If that source does not contain the implementation represented by this task'',
         quote,
         ''s '',
         ''conversation history, return BLOCKED with reason_code SOURCE_BINDING_MISMATCH and '',
         ''evidence. Do not search for or switch to another source directory.''],
       concat [''- Never push, open a pull request, modify either source ref, merge into an existing '',
         ''branch, reset, rebase, delete branches, or clean worktrees.''],
       concat [''- Do not request user input, network access, broader filesystem access, or sandbox '',
         ''escalation. Return BLOCKED with evidence if the complete payload is insufficient.''],
       concat [''- Do not call `worktreeMergeConsensus` or any `consensus_*` tool from this task turn, '',
         ''except for the single `consensus_apply_patch` call explicitly authorized by the primary '',
         ''integration instruction. The coordinator already supplied the frozen identity and '',
         ''complete payload.''],
       concat [''- No integration branch may be created before the reviewer returns the exact APPROVED '',
         ''marker for the current plan turn.''],
       concat [''- The coordinator binds every response to this exact task turn and supplies run '',
         ''identity, source SHAs, plan revision, plan hash, integration branch, and integration '',
         ''SHA itself. Do not repeat or invent those machine fields.''],
       concat [''- Contract and plan test commands must be direct non-Git commands. Never declare `git '',
         ''diff --check` or any other Git executable as a test. Shell control operators and '',
         ''dynamic shell or interpreter launchers are also forbidden.''],
       '''',
       ''Authoritative turn metadata:'',
       ''```json'']\<close>

definition closing_text :: string where
  \<open>closing_text = text_lines [
       '''',
       concat [''Do not return the legacy v1 protocol envelope. The coordinator parses only the one '',
         ''result marker described above. Except for the CONTRACT_READY JSON body, all remaining '',
         ''response text is free-form Markdown: it is preserved and relayed verbatim but is not '',
         ''parsed into fields.'']]\<close>

definition contract_format :: string where
  \<open>contract_format = text_lines [
       ''Response format:'',
       concat [''- Include exactly one `<consensus-result>CONTRACT_READY</consensus-result>` marker, or '',
         ''`<consensus-result>BLOCKED:REASON_CODE</consensus-result>` when blocked.''],
       concat [''- For CONTRACT_READY, place exactly one JSON object after the marker. That object is '',
         ''the contract itself, not a protocol envelope. It must contain a nonempty `tests` array '',
         ''of exact direct commands; use ordinary JSON fields for goals, behavior, rationale, '',
         ''invariants, interfaces, edge cases, rejected alternatives, and relevant files.''],
       ''- For BLOCKED, write ordinary Markdown evidence after the marker; no JSON is required.'']\<close>

definition plan_format :: string where
  \<open>plan_format = text_lines [
       ''Response format:'',
       concat [''- Include exactly one `<consensus-result>PLAN_READY</consensus-result>` marker, or '',
         ''`<consensus-result>BLOCKED:REASON_CODE</consensus-result>` when blocked.''],
       concat [''- After PLAN_READY, write the complete proposed integration plan as free-form Markdown. '',
         ''Do not return JSON. Include all decisions and verification reasoning needed by the '',
         ''reviewer; never send only a delta.'']]\<close>

definition plan_verdict_format :: string where
  \<open>plan_verdict_format = text_lines [
       ''Response format:'',
       concat [''- Include exactly one of `<consensus-result>APPROVED</consensus-result>`, '',
         ''`<consensus-result>CHANGES_REQUIRED</consensus-result>`, or '',
         ''`<consensus-result>BLOCKED:REASON_CODE</consensus-result>`.''],
       concat [''- For CHANGES_REQUIRED, write concrete free-form Markdown feedback after the marker. '',
         ''For APPROVED, explanation is optional. Do not return JSON or repeat run, revision, '',
         ''hash, or SHA fields.'']]\<close>

definition integration_format :: string where
  \<open>integration_format = text_lines [
       ''Response format:'',
       concat [''- Include exactly one `<consensus-result>INTEGRATION_READY</consensus-result>` marker, '',
         ''or `<consensus-result>BLOCKED:REASON_CODE</consensus-result>` when blocked.''],
       concat [''- After INTEGRATION_READY, summarize decisions as free-form Markdown. Do not report '',
         ''branch, SHA, changed-file, or test fields: the coordinator derives those facts directly '',
         ''from Git.''],
       concat [''- Once one successful controlled patch has been committed, return INTEGRATION_READY '',
         ''even when a final read-only inspection finds a defect. Describe that known defect in '',
         ''the Markdown summary so coordinator-owned verification can preserve it and open a new '',
         ''request-bound correction round. Do not call a second patch and do not return '',
         ''BLOCKED:PATCH_LIMIT_REACHED for a clean committed result.'']]\<close>

definition verification_format :: string where
  \<open>verification_format = text_lines [
       ''Response format:'',
       concat [''- Include exactly one `<consensus-result>VERIFICATION_READY</consensus-result>` marker, '',
         ''or `<consensus-result>BLOCKED:REASON_CODE</consensus-result>` when blocked.''],
       concat [''- Any explanation after the marker is free-form Markdown. Do not report test result '',
         ''fields: the coordinator derives authoritative evidence itself.'']]\<close>

definition result_verdict_format :: string where
  \<open>result_verdict_format = text_lines [
       ''Response format:'',
       concat [''- Include exactly one of `<consensus-result>APPROVED</consensus-result>`, '',
         ''`<consensus-result>CHANGES_REQUIRED</consensus-result>`, or '',
         ''`<consensus-result>BLOCKED:REASON_CODE</consensus-result>`.''],
       concat [''- For CHANGES_REQUIRED, write concrete free-form Markdown feedback after the marker. '',
         ''For APPROVED, explanation is optional. Do not return JSON or repeat the integration '',
         ''branch or SHA; this turn is already bound to the exact result.'']]\<close>

fun action_output_contract :: \<open>next_action \<Rightarrow> string\<close> where
  \<open>action_output_contract RequestPrimaryContract = contract_format\<close>
| \<open>action_output_contract RequestReviewerContract = contract_format\<close>
| \<open>action_output_contract RequestPrimaryPlan = plan_format\<close>
| \<open>action_output_contract RequestReviewerPlanVerdict = plan_verdict_format\<close>
| \<open>action_output_contract RequestPrimaryIntegration = integration_format\<close>
| \<open>action_output_contract RequestPrimaryVerification = verification_format\<close>
| \<open>action_output_contract RequestReviewerResultVerdict = result_verdict_format\<close>
| \<open>action_output_contract _ = ''''\<close>

definition primary_contract_instruction :: string where
  \<open>primary_contract_instruction = concat [''Inspect your existing task context and frozen commit. Produce a complete implementation '',
       ''contract covering goals, user-visible behavior, rationale, invariants, interfaces, edge '',
       ''cases, rejected alternatives, relevant files, and tests. The contract JSON `tests` '',
       ''field must be a nonempty array of exact direct non-Git commands without shell control '',
       ''or dynamic launchers. Do not modify Git or files in this turn.'']\<close>

definition reviewer_contract_instruction :: string where
  \<open>reviewer_contract_instruction = concat [''Inspect your existing task context and frozen commit. Produce a complete implementation '',
       ''contract covering every behavior the integration must preserve, including rationale, '',
       ''invariants, interfaces, edge cases, relevant files, and tests. The contract JSON '',
       ''`tests` field must be a nonempty array of exact direct non-Git commands without shell '',
       ''control or dynamic launchers. Do not modify Git or files.'']\<close>

definition plan_instruction :: string where
  \<open>plan_instruction = concat [''Produce a complete integration plan for both contracts in free-form Markdown. Explain '',
       ''how every behavior is preserved, how conflicts will be resolved, and how the frozen '',
       ''contract and user test commands verify the result. The coordinator already owns the '',
       ''structured contracts and test list, so do not repeat them as JSON. Do not create or '',
       ''modify an integration branch.'']\<close>

definition plan_verdict_instruction :: string where
  \<open>plan_verdict_instruction = concat [''Audit the complete proposed plan against every item in both contracts. Return APPROVED '',
       ''only when nothing is uncovered; otherwise return CHANGES_REQUIRED and explain every '',
       ''concrete gap in free-form Markdown. The coordinator binds the verdict to the exact '',
       ''current plan automatically. Do not modify Git or files.'']\<close>

definition integration_instruction :: string where
  \<open>integration_instruction = concat [''Revalidate the frozen inputs, then create only the authorized new integration branch at '',
       ''primary_sha, merge reviewer_sha into it, resolve conflicts exactly according to the '',
       ''approved plan, and commit compatibility fixes. If the exact target branch already '',
       ''exists because this is a coordinator-authorized retry, do not recreate or re-merge it: '',
       ''verify that HEAD is attached to that target, both frozen SHAs are ancestors, the '',
       ''worktree is clean, and continue from that exact HEAD. The coordinator independently '',
       ''validates the current branch and HEAD before and after this turn; do not query them '',
       ''merely to report result identity. If retry reasoning still requires a current-branch '',
       ''query, prefer exactly `git branch --show-current`; `git symbolic-ref --short HEAD` is '',
       ''the only equivalent form, and either may have at most one `/bin/bash -lc` wrapper. A '',
       ''target-absence preflight may be exactly `git show-ref --verify refs/heads/TARGET` or '',
       ''`git show-ref --verify --quiet refs/heads/TARGET`; no other `show-ref` arguments are '',
       ''allowed. Do not run tests in this turn. Required repository-instruction discovery is '',
       ''allowed first as `rg --files -g AGENTS.md`. If `rg` is unavailable, use `git ls-files` '',
       ''to discover tracked `AGENTS.md` files. Perform every other repository inspection '',
       ''through the command gate'',
       quote,
       ''s read-only Git queries: use `git show REV:path` to read '',
       ''tracked content, `git ls-files` to list tracked paths, and `git diff` to inspect '',
       ''changes; do not invoke sed, cat, find, ls, head, tail, or another shell file reader. '',
       ''Never use `git diff --no-index`; stage new files with `git add -A` before inspecting '',
       ''them with `git diff --cached`. The command gate accepts branch creation only as `git '',
       ''switch -c TARGET PRIMARY_SHA`, merge only as `git merge --no-ff --no-edit '',
       ''REVIEWER_SHA`, staging only as `git add -A` or `git add --all`, and commits only as '',
       ''`git commit --no-edit` or `git commit -m ONE_SAFE_TOKEN`, where the token is at most '',
       ''120 UTF-8 bytes and contains only Unicode letters or numbers plus `-`, `_`, `.`, or '',
       ''`:`. Make all compatibility edits in one successful call to `consensus_apply_patch`, '',
       ''passing the authoritative run_id, the exact request_hash from Coordinator delivery '',
       ''identity, and one raw unified text patch. A failed patch preflight leaves the worktree '',
       ''clean and may be corrected; after one successful patch, no second patch is authorized. '',
       ''After that successful patch is committed, do not attempt to amend it in this request. '',
       ''If a final read-only inspection finds a compile, formatting, test, or semantic defect, '',
       ''return INTEGRATION_READY and describe the known defect in Markdown instead of returning '',
       ''BLOCKED:PATCH_LIMIT_REACHED. Coordinator-owned verification will test the exact commit, '',
       ''retain the defect evidence, and, when needed, issue a new request-bound correction '',
       ''round whose separate patch allowance may advance the integration SHA. Return BLOCKED '',
       ''only when no clean committed integration result can be handed to the coordinator. This '',
       ''is the only authorized `consensus_*` call; do not use the built-in file-change tool, '',
       ''and do not call start, status, resume, cancel, discovery, or another coordinator tool. '',
       ''The controlled patch is accepted only after the clean authorized merge. Use one shell '',
       ''command per tool call; shell chaining is forbidden. Return only the INTEGRATION_READY '',
       ''marker plus optional free-form summary; the coordinator reads the final branch, HEAD, '',
       ''and changed files directly from Git. Do not push or update either source ref.'']\<close>

definition verification_instruction :: string where
  \<open>verification_instruction = concat [''This is a marker-only handoff to coordinator-owned verification. Do not run Shell, Git, '',
       ''file, MCP, or patch tools in this turn. Return VERIFICATION_READY when ready; the '',
       ''coordinator will run every frozen command in the exact isolated clone and derive all '',
       ''evidence.'']\<close>

definition result_verdict_instruction :: string where
  \<open>result_verdict_instruction = concat [''Review the exact integration SHA and all complete evidence against both contracts and '',
       ''the approved plan. Return APPROVED only if every item is preserved; otherwise return '',
       ''CHANGES_REQUIRED with concrete free-form Markdown feedback. The coordinator binds the '',
       ''verdict to the exact current branch and SHA automatically. Do not modify Git or files.'']\<close>

fun action_instruction :: \<open>next_action \<Rightarrow> string\<close> where
  \<open>action_instruction RequestPrimaryContract = primary_contract_instruction\<close>
| \<open>action_instruction RequestReviewerContract = reviewer_contract_instruction\<close>
| \<open>action_instruction RequestPrimaryPlan = plan_instruction\<close>
| \<open>action_instruction RequestReviewerPlanVerdict = plan_verdict_instruction\<close>
| \<open>action_instruction RequestPrimaryIntegration = integration_instruction\<close>
| \<open>action_instruction RequestPrimaryVerification = verification_instruction\<close>
| \<open>action_instruction RequestReviewerResultVerdict = result_verdict_instruction\<close>
| \<open>action_instruction _ = ''No model turn is permitted for this coordinator-only action.''\<close>

definition prompt_text :: "string \<Rightarrow> string \<Rightarrow> string \<Rightarrow> string \<Rightarrow> string \<Rightarrow> string" where
  "prompt_text role_text metadata body instruction output_contract =
     ''You are the '' @ role_text @ '' task in an automated two-task worktree merge consensus run.'' @ [newline]
     @ safety_text @ metadata
     @ text_lines ['''', ''```'', '''',
         ''Complete current payload (this is the full state required for this turn, not a delta):'', ''```json'']
     @ body @ text_lines ['''', ''```'', '''', ''Required work:'']
     @ instruction @ [newline, newline] @ output_contract @ closing_text"

definition build_turn_prompt ::
  "libs \<Rightarrow> (json \<Rightarrow> string) \<Rightarrow> role \<Rightarrow> next_action \<Rightarrow> run_state \<Rightarrow> json \<Rightarrow> prompt_error + string" where
  "build_turn_prompt L pretty role action s body =
     attempt (validate_request role action s body) (\<lambda>_.
     attempt (ensure (list_all utf8 (metadata_paths (facts s))) PromptPanic) (\<lambda>_.
     Inr (prompt_text (role_debug role) (pretty (turn_metadata L role action s)) (pretty body)
            (action_instruction action) (action_output_contract action))))"

end
