(* ===== verification/Turn_Wait.thy ===== *)
theory Turn_Wait
  imports Conversation Prompts
begin

text \<open>
  Waiting for a task (\<open>crates/daemon/src/coordinator.rs\<close>): until it is idle, and until a turn has its
  response; the events of a turn, which are recorded before they are answered; the requests of a task
  for approval; and the recovery of a turn that patched the repository and left no events. The loops run
  while there is progress, at most \<open>co_patience\<close> rounds.
\<close>

abbreviation communication_failure :: "string \<Rightarrow> coordinator_error" where
  "communication_failure detail \<equiv> operational ''COMMUNICATION_FAILURE'' detail"

definition cancelled_meanwhile :: "coordinator \<Rightarrow> run_state \<Rightarrow> string \<Rightarrow> unit action" where
  "cancelled_meanwhile C s what =
     and_then (required_run C (run_id_of C s)) (\<lambda>persisted.
     of_result (ensure (status persisted \<noteq> SCancelled)
       (operational ''CANCELLED'' (''run was cancelled while '' @ what))))"

text \<open>The deadline moves when the fingerprint of what is waited for changes.\<close>

definition progressed ::
  "coordinator \<Rightarrow> string \<Rightarrow> string option \<times> nat \<Rightarrow> (string option \<times> nat) action" where
  "progressed C fingerprint latest =
     (if fst latest = Some fingerprint then answer latest
      else and_then (instant C) (\<lambda>now. answer (Some fingerprint, now + co_wait_timeout C)))"

definition before_deadline :: "coordinator \<Rightarrow> nat \<Rightarrow> string \<Rightarrow> unit action" where
  "before_deadline C deadline detail =
     and_then (instant C) (\<lambda>now. of_result (ensure (now < deadline) (communication_failure detail)))"

subsection \<open>An idle task\<close>

definition saved_change :: "coordinator \<Rightarrow> run_status \<Rightarrow> unit run_op \<Rightarrow> run_state \<Rightarrow> run_state action" where
  "saved_change C expected op s =
     (if status s = expected
      then and_then (change op s) (\<lambda>s'. and_then (save C s') (\<lambda>_. answer s'))
      else answer s)"

text \<open>
  One loop serves both kinds of reading: \<open>look\<close> reads and identifies the task, \<open>mark\<close> is the
  fingerprint of its progress.
\<close>

fun idle_loop ::
  "coordinator \<Rightarrow> 'd action \<Rightarrow> ('d \<Rightarrow> thread_summary) \<Rightarrow> ('d \<Rightarrow> string) \<Rightarrow> string \<Rightarrow> string
   \<Rightarrow> nat \<Rightarrow> string option \<times> nat \<Rightarrow> run_state \<Rightarrow> ('d \<times> run_state) action" where
  "idle_loop C look summary mark what late 0 latest s = given_up"
| "idle_loop C look summary mark what late (Suc n) latest s =
     and_then (cancelled_meanwhile C s what) (\<lambda>_.
     and_then look (\<lambda>d.
     and_then (progressed C (mark d) latest) (\<lambda>latest'.
     if \<not> is_active (summary d) then
       and_then (saved_change C SWaitingThread thread_became_idle s) (\<lambda>s'. answer (d, s'))
     else
       and_then (saved_change C SRunning wait_for_thread s) (\<lambda>s'.
       and_then (before_deadline C (snd latest') late) (\<lambda>_.
       and_then (pause_for C) (\<lambda>_.
       idle_loop C look summary mark what late n latest' s'))))))"

definition start_deadline :: "coordinator \<Rightarrow> (string option \<times> nat \<Rightarrow> 'a action) \<Rightarrow> 'a action" where
  "start_deadline C f = and_then (instant C) (\<lambda>now. f (None, now + co_wait_timeout C))"

definition read_identified :: "coordinator \<Rightarrow> string \<Rightarrow> thread_detail action" where
  "read_identified C thread_id =
     and_then (read_thread_with_retry C thread_id) (\<lambda>detail.
     and_then (of_result (verify_requested_thread_identity thread_id detail)) (\<lambda>_. answer detail))"

definition read_summary_identified :: "coordinator \<Rightarrow> string \<Rightarrow> thread_summary action" where
  "read_summary_identified C thread_id =
     and_then (read_thread_summary_with_retry C thread_id) (\<lambda>summary.
     and_then (of_result (verify_requested_thread_summary_identity thread_id summary)) (\<lambda>_. answer summary))"

definition wait_until_idle :: "coordinator \<Rightarrow> run_state \<Rightarrow> string \<Rightarrow> (thread_detail \<times> run_state) action" where
  "wait_until_idle C s thread_id = start_deadline C (\<lambda>latest.
     idle_loop C (read_identified C thread_id) td_summary
       (thread_progress_fingerprint (tl_core (co_libs C))) ''waiting for a task to become idle''
       ''task remained active without canonical progress beyond the bounded idle wait''
       (co_patience C) latest s)"

definition wait_until_idle_summary :: "coordinator \<Rightarrow> run_state \<Rightarrow> string \<Rightarrow> (thread_summary \<times> run_state) action" where
  "wait_until_idle_summary C s thread_id = start_deadline C (\<lambda>latest.
     idle_loop C (read_summary_identified C thread_id) id
       (\<lambda>summary. canonical_json_hash (tl_core (co_libs C)) (th_status summary))
       ''waiting for an ephemeral task to become idle''
       ''ephemeral task remained active without canonical status progress beyond the bounded idle wait''
       (co_patience C) latest s)"

subsection \<open>Requests for approval\<close>

definition event_matches_turn :: "app_event \<Rightarrow> string \<Rightarrow> string \<Rightarrow> bool" where
  "event_matches_turn ev thread_id turn_id \<longleftrightarrow>
     str_field (ap_params ev) ''threadId'' = Some thread_id
     \<and> (case str_field (ap_params ev) ''turnId'' of
          Some t \<Rightarrow> Some t
        | None \<Rightarrow> Option.bind (get (ap_params ev) ''turn'') (\<lambda>turn. str_field turn ''id'')) = Some turn_id"

definition user_action_event :: "app_event \<Rightarrow> string \<Rightarrow> string \<Rightarrow> bool" where
  "user_action_event ev thread_id turn_id \<longleftrightarrow>
     ap_id ev \<noteq> None
     \<and> (strip_suffix ''requestApproval'' (ap_method ev) \<noteq> None
        \<or> ap_method ev = ''item/tool/requestUserInput''
        \<or> ap_method ev = ''item/permissions/requestApproval'')
     \<and> event_matches_turn ev thread_id turn_id"

definition decision :: "string \<Rightarrow> json" where
  "decision d = json_object [(''decision'', JStr d)]"

definition no_permissions :: json where
  "no_permissions = json_object [(''permissions'', JObj []), (''scope'', JStr ''turn'')]"

definition forbidden_operation :: "string \<Rightarrow> coordinator_error" where
  "forbidden_operation detail = operational ''FORBIDDEN_OPERATION'' detail"

definition respond :: "coordinator \<Rightarrow> app_event \<Rightarrow> json \<Rightarrow> json \<Rightarrow> unit action" where
  "respond C ev key response =
     call_for C (RequestAnswered ev response) ''server/request-response'' None
       (\<lambda>n. sv_respond_to_request (co_server C) n key response)"

definition answer_command :: "coordinator \<Rightarrow> run_state \<Rightarrow> app_event \<Rightarrow> json \<Rightarrow> bool action" where
  "answer_command C s ev key =
     (let P = tl_policy (co_libs C); verdict = decide_command_approval P s (ap_params ev) in
      and_then (respond C ev key (decision (if verdict = approval_decision.Accept then ''accept'' else ''cancel''))) (\<lambda>_.
      if verdict = approval_decision.Cancel then
        refuse (forbidden_operation
          (''the task requested a command outside the frozen integration execution policy: ''
           @ (case command_approval_denial P s (ap_params ev) of
                Some denial \<Rightarrow> denial | None \<Rightarrow> ''command approval failed closed'')))
      else answer True))"

definition integration_write :: "run_state \<Rightarrow> app_event \<Rightarrow> bool" where
  "integration_write s ev \<longleftrightarrow>
     next_action s = RequestPrimaryIntegration \<and> \<not> present (ap_params ev) ''grantRoot'' (\<lambda>_. True)"

definition answer_file_change :: "coordinator \<Rightarrow> run_state \<Rightarrow> app_event \<Rightarrow> json \<Rightarrow> bool action" where
  "answer_file_change C s ev key =
     and_then (respond C ev key (decision (if integration_write s ev then ''accept'' else ''cancel''))) (\<lambda>_.
     if integration_write s ev then answer True
     else refuse (forbidden_operation
            ''a task requested a file change outside the fixed integration write roots''))"

definition handle_execution_request :: "coordinator \<Rightarrow> run_state \<Rightarrow> app_event \<Rightarrow> bool action" where
  "handle_execution_request C s ev =
     (case ap_id ev of
        None \<Rightarrow> answer False
      | Some key \<Rightarrow>
          if ap_method ev = ''item/commandExecution/requestApproval'' then answer_command C s ev key
          else if ap_method ev = ''item/fileChange/requestApproval'' then answer_file_change C s ev key
          else if ap_method ev = ''item/permissions/requestApproval'' then
            and_then (respond C ev key no_permissions) (\<lambda>_.
            refuse (forbidden_operation ''additional filesystem or network permissions are forbidden''))
          else answer False)"

subsection \<open>The events of a turn\<close>

definition record_event :: "coordinator \<Rightarrow> run_state \<Rightarrow> string \<Rightarrow> string \<Rightarrow> app_event \<Rightarrow> unit action" where
  "record_event C s thread_id turn_id ev =
     (if ap_method ev = ''item/started'' \<or> ap_method ev = ''item/completed'' then
        and_then (of_result (ok_or (history_unavailable (ap_method ev @ '' event omits its canonical item''))
                    (get (ap_params ev) ''item''))) (\<lambda>item.
        transact C (\<lambda>_. record_turn_item_event (run_id_of C s) thread_id turn_id (ap_method ev) item))
      else if ap_method ev = ''turn/completed'' then
        and_then (of_result (ok_or (history_unavailable ''turn/completed event omits its canonical turn'')
                    (get (ap_params ev) ''turn''))) (\<lambda>turn.
        transact C (\<lambda>_. record_turn_completed_event (run_id_of C s) thread_id turn_id turn))
      else answer ())"

definition consume_turn_event :: "coordinator \<Rightarrow> run_state \<Rightarrow> string \<Rightarrow> string \<Rightarrow> app_event \<Rightarrow> unit action" where
  "consume_turn_event C s thread_id turn_id ev =
     and_then (record_event C s thread_id turn_id ev) (\<lambda>_.
     and_then (handle_execution_request C s ev) (\<lambda>handled.
     if handled then answer ()
     else if user_action_event ev thread_id turn_id then
       and_then (change (pause ''PERMISSION_REQUIRED'') s) (\<lambda>s'.
       and_then (save C s') (\<lambda>_.
       refuse (operational ''PERMISSION_REQUIRED'' ''task turn is waiting for user approval or input'')))
     else answer ()))"

definition event_evidence :: "coordinator \<Rightarrow> run_state \<Rightarrow> string \<Rightarrow> string \<Rightarrow> turn_event_evidence option action" where
  "event_evidence C s thread_id turn_id =
     read_store C (\<lambda>st. stored (co_libs C) (turn_event_evidence_of st (run_id_of C s) thread_id turn_id))"

definition completed_turn_with_event_evidence ::
  "coordinator \<Rightarrow> run_state \<Rightarrow> string \<Rightarrow> string \<Rightarrow> json \<Rightarrow> json action" where
  "completed_turn_with_event_evidence C s thread_id turn_id persisted_turn =
     and_then (event_evidence C s thread_id turn_id) (\<lambda>found.
     case found of
       None \<Rightarrow> answer persisted_turn
     | Some ev \<Rightarrow> of_result (merge_completed_turn_evidence (co_libs C) persisted_turn
                    (tv_completed_turn ev) (tv_completed_items ev)))"

definition completed_turn_from_event_evidence ::
  "coordinator \<Rightarrow> run_state \<Rightarrow> string \<Rightarrow> string \<Rightarrow> json option action" where
  "completed_turn_from_event_evidence C s thread_id turn_id =
     and_then (event_evidence C s thread_id turn_id) (\<lambda>found.
     case found of
       None \<Rightarrow> answer None
     | Some ev \<Rightarrow>
         and_then (of_result (merge_completed_turn_evidence (co_libs C) (tv_completed_turn ev)
                     (tv_completed_turn ev) (tv_completed_items ev))) (\<lambda>turn. answer (Some turn)))"

definition next_event :: "coordinator \<Rightarrow> poll action" where
  "next_event C = ask C (sv_next_event (co_server C))"

fun drain_events :: "coordinator \<Rightarrow> run_state \<Rightarrow> string \<Rightarrow> string \<Rightarrow> nat \<Rightarrow> unit action" where
  "drain_events C s thread_id turn_id 0 = answer ()"
| "drain_events C s thread_id turn_id (Suc n) =
     and_then (next_event C) (\<lambda>p.
     case p of
       Event ev \<Rightarrow>
         and_then (if event_matches_turn ev thread_id turn_id
                   then consume_turn_event C s thread_id turn_id ev else answer ()) (\<lambda>_.
         if ap_method ev = ''turn/completed'' \<and> event_matches_turn ev thread_id turn_id then answer ()
         else drain_events C s thread_id turn_id n)
     | _ \<Rightarrow> answer ())"

definition drain_completed_turn_events :: "coordinator \<Rightarrow> run_state \<Rightarrow> string \<Rightarrow> string \<Rightarrow> unit action" where
  "drain_completed_turn_events C s thread_id turn_id =
     and_then (event_evidence C s thread_id turn_id) (\<lambda>found.
     if found \<noteq> None then answer () else drain_events C s thread_id turn_id 256)"

subsection \<open>A turn that patched the repository and left no events\<close>

definition eventless_successful_patch_turn_matches ::
  "coordinator \<Rightarrow> run_state \<Rightarrow> string \<Rightarrow> string \<Rightarrow> run_status \<Rightarrow> bool action" where
  "eventless_successful_patch_turn_matches C s thread_id turn_id expected_status =
     (if status s \<noteq> expected_status \<or> phase s \<noteq> Integrate \<or> next_action s \<noteq> RequestPrimaryIntegration
      then answer False
      else
        let run_id = run_id_of C s in
        read_store C (\<lambda>st.
          case pending_request st run_id of
            None \<Rightarrow> Inr False
          | Some p \<Rightarrow>
              if ps_role p = ''PRIMARY'' \<and> ps_phase p = ''INTEGRATE'' \<and> ps_round p = round s
                 \<and> ps_thread p = Some thread_id \<and> ps_turn p = Some turn_id
                 \<and> successful_patch_recorded st run_id (ps_hash p)
              then attempt (stored (co_libs C) (turn_event_evidence_of st run_id thread_id turn_id)) (\<lambda>found.
                     Inr (found = None \<and> turn_event_item_count st run_id thread_id turn_id = 0))
              else Inr False))"

definition recorded_role_thread_is_ephemeral ::
  "coordinator \<Rightarrow> run_state \<Rightarrow> role \<Rightarrow> 32 word option \<Rightarrow> string \<Rightarrow> bool action" where
  "recorded_role_thread_is_ephemeral C s role generation description =
     (if role \<noteq> Primary then answer False
      else
        and_then (of_result (ok_or (history_unavailable (description @ '' has no Primary binding generation''))
                    generation)) (\<lambda>g.
        read_store C (\<lambda>st.
          attempt (ok_or (history_unavailable (description @ '' references unknown Primary binding generation''))
                     (query_primary_binding st (run_id_of C s) g)) (\<lambda>b.
          Inr (bi_mode b = EphemeralFork)))))"

text \<open>What is checked of the store and the repository before the turn is sent again.\<close>

definition eventless_pending ::
  "coordinator \<Rightarrow> run_state \<Rightarrow> string \<Rightarrow> pending_send action" where
  "eventless_pending C s thread_id =
     and_then (read_store C (\<lambda>st. ok_or
         (history_unavailable ''eventless successful-patch recovery lost its pending request'')
         (pending_request st (run_id_of C s)))) (\<lambda>p.
     and_then (read_store C (\<lambda>st.
         validate_recorded_role_thread (co_libs C) st s Primary thread_id (ps_binding p))) (\<lambda>_.
     and_then (recorded_role_thread_is_ephemeral C s Primary (ps_binding p)
                 ''eventless successful-patch turn'') (\<lambda>ephemeral.
     and_then (of_result (ensure ephemeral (history_unavailable
                 ''eventless successful-patch recovery requires an ephemeral Primary binding''))) (\<lambda>_.
     and_then (read_store C (\<lambda>st.
         attempt (validated_successful_patch_hash (co_libs C) st s p False) (ok_or
           (history_unavailable ''eventless integration turn has no exact successful patch provenance''))))
       (\<lambda>_. answer p)))))"

definition new_patch_commit :: "run_state \<Rightarrow> unit action" where
  "new_patch_commit s =
     and_then (of_result (ok_or (invalid_state ''target integration branch is missing'')
                 (target_integration_branch s))) (\<lambda>target.
     inspect (\<lambda>e.
       attempt (guarded (verify_integration_patch_ready e (facts s) target)) (\<lambda>head.
       ensure (integration_sha s \<noteq> Some head)
         (operational ''STALE_INTEGRATION_SHA''
            ''eventless corrective patch did not produce the required new integration SHA''))))"

definition recover_eventless_successful_patch_turn_for_status ::
  "coordinator \<Rightarrow> run_state \<Rightarrow> string \<Rightarrow> string \<Rightarrow> run_status \<Rightarrow> unit action" where
  "recover_eventless_successful_patch_turn_for_status C s thread_id turn_id expected_status =
     and_then (eventless_successful_patch_turn_matches C s thread_id turn_id expected_status) (\<lambda>matches.
     and_then (of_result (ensure matches (history_unavailable
                 ''eventless successful-patch recovery boundary changed before retry''))) (\<lambda>_.
     and_then (eventless_pending C s thread_id) (\<lambda>p.
     and_then (new_patch_commit s) (\<lambda>_.
     and_then (call_for C ConnectionRefreshed ''app-server connection refresh'' (Some thread_id)
                 (sv_refresh_connection (co_server C))) (\<lambda>_.
     transact C (\<lambda>_. reset_eventless_successful_patch_turn_for_retry (run_id_of C s) (ps_hash p)
                        thread_id turn_id))))))"

subsection \<open>The response of a turn\<close>

datatype turn_wait_outcome =
    TurnCompleted string json
  | RetryAction

definition completed :: "json \<Rightarrow> turn_wait_outcome action" where
  "completed turn = of_result (attempt (final_agent_text turn) (\<lambda>response. Inr (TurnCompleted response turn)))"

fun turn_loop ::
  "coordinator \<Rightarrow> run_state \<Rightarrow> string \<Rightarrow> string \<Rightarrow> nat \<Rightarrow> string option \<times> nat \<Rightarrow> turn_wait_outcome action" where
  "turn_loop C s thread_id turn_id 0 latest = given_up"
| "turn_loop C s thread_id turn_id (Suc n) latest =
     and_then (cancelled_meanwhile C s ''its task turn was active'') (\<lambda>_.
     and_then (read_thread_with_retry C thread_id) (\<lambda>detail.
     and_then (case find_turn detail turn_id of
                 None \<Rightarrow> answer latest
               | Some turn \<Rightarrow> progressed C (canonical_json_hash (tl_core (co_libs C)) turn) latest) (\<lambda>latest'.
     let state = Option.bind (find_turn detail turn_id) (\<lambda>turn. str_field turn ''status'') in
     if state = Some ''completed'' then
       and_then (drain_completed_turn_events C s thread_id turn_id) (\<lambda>_.
       and_then (completed_turn_with_event_evidence C s thread_id turn_id (the (find_turn detail turn_id)))
         completed)
     else if state = Some ''failed'' \<or> state = Some ''interrupted'' then
       refuse (communication_failure ''task turn did not complete successfully'')
     else
       and_then (before_deadline C (snd latest')
                   ''task turn made no canonical progress within the bounded idle wait'') (\<lambda>_.
       and_then (next_event C) (\<lambda>p.
       case p of
         Event ev \<Rightarrow>
           if event_matches_turn ev thread_id turn_id then
             and_then (consume_turn_event C s thread_id turn_id ev) (\<lambda>_.
             and_then (instant C) (\<lambda>now.
             turn_loop C s thread_id turn_id n (fst latest', now + co_wait_timeout C)))
           else turn_loop C s thread_id turn_id n latest'
       | Closed \<Rightarrow> and_then (pause_for C) (\<lambda>_. turn_loop C s thread_id turn_id n latest')
       | Silent \<Rightarrow> turn_loop C s thread_id turn_id n latest')))))"

definition EPHEMERAL_IDLE_COMPLETION_GRACE :: nat where
  "EPHEMERAL_IDLE_COMPLETION_GRACE = 2000"

definition grace_period :: "coordinator \<Rightarrow> nat" where
  "grace_period C = min EPHEMERAL_IDLE_COMPLETION_GRACE (co_wait_timeout C div 2)"

definition ephemeral_response :: "json \<Rightarrow> turn_wait_outcome action" where
  "ephemeral_response turn =
     (let state = str_field turn ''status'' in
      if state = Some ''completed'' then completed turn
      else if state = Some ''failed'' \<or> state = Some ''interrupted'' then
        refuse (communication_failure ''ephemeral task turn did not complete successfully'')
      else refuse (history_unavailable ''ephemeral turn/completed evidence has no terminal status''))"

text \<open>
  The summary of the task after a silence: since when it is idle without evidence, or that the turn is
  to be sent again.
\<close>

definition idle_without_evidence ::
  "coordinator \<Rightarrow> run_state \<Rightarrow> string \<Rightarrow> string \<Rightarrow> thread_summary \<Rightarrow> nat option
   \<Rightarrow> (nat option \<times> bool) action" where
  "idle_without_evidence C s thread_id turn_id summary since =
     and_then (of_result (map_err history_unavailable (summary_runtime_status summary))) (\<lambda>runtime.
     if runtime = SystemError then
       refuse (history_unavailable ''ephemeral task entered systemError before durable turn completion'')
     else if runtime \<noteq> Idle then answer (None, False)
     else
       and_then (eventless_successful_patch_turn_matches C s thread_id turn_id SRunning) (\<lambda>candidate.
       if \<not> candidate then answer (None, False)
       else
         and_then (instant C) (\<lambda>now.
         let started = (case since of None \<Rightarrow> now | Some t \<Rightarrow> t) in
         if grace_period C \<le> now - started then
           and_then (recover_eventless_successful_patch_turn_for_status C s thread_id turn_id SRunning)
             (\<lambda>_. answer (Some started, True))
         else answer (Some started, False))))"

fun ephemeral_loop ::
  "coordinator \<Rightarrow> run_state \<Rightarrow> string \<Rightarrow> string \<Rightarrow> nat \<Rightarrow> string option \<times> nat \<Rightarrow> nat option
   \<Rightarrow> turn_wait_outcome action" where
  "ephemeral_loop C s thread_id turn_id 0 latest since = given_up"
| "ephemeral_loop C s thread_id turn_id (Suc n) latest since =
     and_then (cancelled_meanwhile C s ''its ephemeral task turn was active'') (\<lambda>_.
     and_then (completed_turn_from_event_evidence C s thread_id turn_id) (\<lambda>found.
     case found of
       Some turn \<Rightarrow> ephemeral_response turn
     | None \<Rightarrow>
         and_then (before_deadline C (snd latest)
                     ''ephemeral task turn produced no durable completion evidence within the bounded wait'') (\<lambda>_.
         and_then (next_event C) (\<lambda>p.
         case p of
           Event ev \<Rightarrow>
             if event_matches_turn ev thread_id turn_id then
               and_then (consume_turn_event C s thread_id turn_id ev) (\<lambda>_.
               and_then (instant C) (\<lambda>now.
               ephemeral_loop C s thread_id turn_id n (fst latest, now + co_wait_timeout C) since))
             else ephemeral_loop C s thread_id turn_id n latest since
         | _ \<Rightarrow>
             and_then (if p = Closed then pause_for C else answer ()) (\<lambda>_.
             and_then (read_summary_identified C thread_id) (\<lambda>summary.
             and_then (progressed C (canonical_json_hash (tl_core (co_libs C)) (th_status summary)) latest) (\<lambda>latest'.
             and_then (idle_without_evidence C s thread_id turn_id summary since) (\<lambda>(since', again).
             if again then answer RetryAction
             else ephemeral_loop C s thread_id turn_id n latest' since'))))))))"

definition wait_for_turn_response ::
  "coordinator \<Rightarrow> run_state \<Rightarrow> string \<Rightarrow> string \<Rightarrow> bool \<Rightarrow> turn_wait_outcome action" where
  "wait_for_turn_response C s thread_id turn_id ephemeral = start_deadline C (\<lambda>latest.
     if ephemeral then ephemeral_loop C s thread_id turn_id (co_patience C) latest None
     else turn_loop C s thread_id turn_id (co_patience C) latest)"

end
