(* ===== verification/Turn_Binding.thy ===== *)
theory Turn_Binding
  imports Turn_Wait
begin

text \<open>
  The task that acts for the Primary (\<open>crates/daemon/src/coordinator.rs\<close>): the Source Primary itself,
  once it offers the patch tool, or an ephemeral fork with its complete history; and the preparation of
  a task for the next turn.
\<close>

subsection \<open>The patch tool\<close>

definition participant_patch_capability_is_exact :: "mcp_server_status list \<Rightarrow> bool" where
  "participant_patch_capability_is_exact statuses =
     (case filter (\<lambda>entry. ms_name entry = PARTICIPANT_MCP_SERVER) statuses of
        [entry] \<Rightarrow>
          length (ms_tools entry) = 1
          \<and> (case map_of (ms_tools entry) PARTICIPANT_PATCH_TOOL of None \<Rightarrow> False | Some v \<Rightarrow> is_object v)
      | _ \<Rightarrow> False)"

definition verify_participant_patch_capability ::
  "string \<Rightarrow> mcp_server_status list \<Rightarrow> coordinator_error + unit" where
  "verify_participant_patch_capability thread_id statuses =
     ensure (participant_patch_capability_is_exact statuses)
       (app_server ''PATCH_TOOL_UNAVAILABLE''
          (''task MCP inventory must expose exactly '' @ PARTICIPANT_MCP_SERVER @ ''.'' @ PARTICIPANT_PATCH_TOOL)
          ''mcpServerStatus/list'' (Some thread_id))"

definition require_patch_tool :: "coordinator \<Rightarrow> string \<Rightarrow> unit action" where
  "require_patch_tool C thread_id =
     and_then (list_mcp_server_status_for_preflight C thread_id) (\<lambda>statuses.
     of_result (verify_participant_patch_capability thread_id statuses))"

subsection \<open>The identity of the source tasks\<close>

definition role_thread_id :: "run_state \<Rightarrow> role \<Rightarrow> string" where
  "role_thread_id s role =
     (case role of Primary \<Rightarrow> rf_primary_thread_id (facts s) | Reviewer \<Rightarrow> rf_reviewer_thread_id (facts s))"

definition verify_thread_identity :: "run_state \<Rightarrow> role \<Rightarrow> thread_detail \<Rightarrow> coordinator_error + unit" where
  "verify_thread_identity s role detail =
     ensure (th_id (td_summary detail) = role_thread_id s role)
       (operational ''AMBIGUOUS_THREAD'' ''App Server returned a different task than requested'')"

definition load_history :: "coordinator \<Rightarrow> run_state \<Rightarrow> unit action" where
  "load_history C s =
     and_then (read_thread_with_retry C (rf_primary_thread_id (facts s))) (\<lambda>primary.
     and_then (read_thread_with_retry C (rf_reviewer_thread_id (facts s))) (\<lambda>reviewer.
     and_then (of_result (verify_thread_identity s Primary primary)) (\<lambda>_.
     of_result (verify_thread_identity s Reviewer reviewer))))"

definition read_source :: "coordinator \<Rightarrow> run_state \<Rightarrow> thread_detail action" where
  "read_source C s =
     and_then (read_thread_with_retry C (rf_primary_thread_id (facts s))) (\<lambda>source.
     and_then (of_result (verify_thread_identity s Primary source)) (\<lambda>_. answer source))"

text \<open>A task that is resumed; one that is active then is waited for.\<close>

definition resumed_when_idle ::
  "coordinator \<Rightarrow> run_state \<Rightarrow> string \<Rightarrow> thread_resume_policy \<Rightarrow> (thread_detail \<times> run_state) action" where
  "resumed_when_idle C s thread_id policy =
     and_then (resume_thread_with_retry C thread_id policy) (\<lambda>resumed.
     and_then (of_result (verify_requested_thread_identity thread_id resumed)) (\<lambda>_.
     if is_active (td_summary resumed) then wait_until_idle C s thread_id else answer (resumed, s)))"

subsection \<open>A new binding\<close>

definition activate_direct_primary_binding ::
  "coordinator \<Rightarrow> string \<Rightarrow> string \<Rightarrow> primary_participant_binding action" where
  "activate_direct_primary_binding C run_id source =
     and_then (pending_send_of C run_id) (\<lambda>pending.
     if pending \<noteq> None then
       transact C (\<lambda>now. activate_initial_direct_binding_for_pending_send now run_id source PARTICIPANT_MCP_SERVER)
     else
       transact C (\<lambda>now. activate_primary_binding now run_id source source Direct PARTICIPANT_MCP_SERVER None))"

definition valid_fork :: "run_state \<Rightarrow> thread_detail \<Rightarrow> thread_detail \<Rightarrow> coordinator_error + unit" where
  "valid_fork s source forked =
     (let effective = th_id (td_summary forked) in
      attempt (ensure (\<not> blank effective \<and> effective \<noteq> rf_primary_thread_id (facts s)
                       \<and> effective \<noteq> rf_reviewer_thread_id (facts s))
        (operational ''AMBIGUOUS_THREAD'' ''ephemeral Primary fork returned an invalid task identity'')) (\<lambda>_.
      verify_full_history_fork source forked))"

definition create_ephemeral_primary_binding_with_pending_rotation ::
  "coordinator \<Rightarrow> run_state \<Rightarrow> thread_detail \<Rightarrow> 32 word option \<Rightarrow> primary_participant_binding action" where
  "create_ephemeral_primary_binding_with_pending_rotation C s source rotating =
     (let source_id = rf_primary_thread_id (facts s); run_id = run_id_of C s in
      and_then (of_result (verify_thread_identity s Primary source)) (\<lambda>_.
      and_then (of_result (require_idle_thread source ''Source Primary before participant fork'')) (\<lambda>_.
      and_then (get_thread_goal_with_retry C source_id) (\<lambda>goal.
      and_then (of_result (ensure (goal = None)
          (history_unavailable ''Source Primary has an active goal and cannot be forked safely''))) (\<lambda>_.
      and_then (call_for C (ThreadForked source_id) ''thread/fork'' (Some source_id)
          (\<lambda>n. sv_fork_thread (co_server C) n source_id (co_participant C))) (\<lambda>forked.
      let effective = th_id (td_summary forked) in
      and_then (of_result (valid_fork s source forked)) (\<lambda>_.
      and_then (of_result (source_history_fingerprint (tl_core (co_libs C)) source)) (\<lambda>history.
      and_then (of_result (require_idle_thread forked ''ephemeral Primary fork'')) (\<lambda>_.
      and_then (require_patch_tool C effective) (\<lambda>_.
      case rotating of
        Some expected \<Rightarrow>
          transact C (\<lambda>now. rotate_ephemeral_primary_binding_for_unsent_pending now run_id expected
            source_id effective PARTICIPANT_MCP_SERVER history)
      | None \<Rightarrow>
          transact C (\<lambda>now. activate_primary_binding now run_id source_id effective EphemeralFork
            PARTICIPANT_MCP_SERVER (Some history))))))))))))"

definition recreate_ephemeral_primary_binding_with_pending_rotation ::
  "coordinator \<Rightarrow> run_state \<Rightarrow> 32 word option \<Rightarrow> (primary_participant_binding \<times> run_state) action" where
  "recreate_ephemeral_primary_binding_with_pending_rotation C s rotating =
     (let source_id = rf_primary_thread_id (facts s) in
      and_then (read_source C s) (\<lambda>source.
      and_then (of_result (runtime_status source)) (\<lambda>runtime.
      and_then
        (case runtime of
           Active \<Rightarrow> wait_until_idle C s source_id
         | NotLoaded \<Rightarrow> resumed_when_idle C s source_id (ResumeParticipant (co_participant C))
         | Idle \<Rightarrow> answer (source, s)
         | SystemError \<Rightarrow> refuse (history_unavailable
             ''Source Primary is in systemError state before safe mirror recreation'')) (\<lambda>(source', s').
      and_then (of_result (require_idle_thread source' ''Source Primary before safe mirror recreation'')) (\<lambda>_.
      and_then (create_ephemeral_primary_binding_with_pending_rotation C s' source' rotating) (\<lambda>b.
      answer (b, s')))))))"

subsection \<open>The binding for the next turn\<close>

definition safely_unsent :: "pending_send \<Rightarrow> primary_participant_binding \<Rightarrow> bool" where
  "safely_unsent p b \<longleftrightarrow>
     ps_role p = ''PRIMARY'' \<and> ps_thread p = None \<and> ps_turn p = None \<and> ps_intent p = None
     \<and> ps_binding p = Some (bi_generation b)"

text \<open>
  An ephemeral binding whose task cannot be read is replaced when no turn of it was sent: the result is
  the generation to rotating, or that the binding holds.
\<close>

definition ephemeral_binding_state ::
  "coordinator \<Rightarrow> string \<Rightarrow> primary_participant_binding \<Rightarrow> (bool \<times> 32 word option) action" where
  "ephemeral_binding_state C run_id b =
     (if bi_history b \<noteq> None then
        whatever (read_thread_summary_with_retry C (bi_effective b)) (\<lambda>r.
        case r of
          Inr summary \<Rightarrow>
            and_then (of_result (verify_requested_thread_summary_identity (bi_effective b) summary))
              (\<lambda>_. answer (True, None))
        | Inl err \<Rightarrow>
            if error_code err \<noteq> ''COMMUNICATION_FAILURE'' then refuse err
            else
              and_then (pending_send_of C run_id) (\<lambda>pending.
              case pending of
                None \<Rightarrow> answer (False, None)
              | Some p \<Rightarrow> if safely_unsent p b then answer (False, Some (bi_generation b)) else refuse err))
      else
        and_then (pending_send_of C run_id) (\<lambda>pending.
        of_result (attempt (ensure (pending = None) (history_unavailable
          (''legacy ephemeral Primary binding has no frozen source-history fingerprint ''
           @ ''while a turn is pending''))) (\<lambda>_. Inr (False, None)))))"

definition continued_binding ::
  "coordinator \<Rightarrow> run_state \<Rightarrow> primary_participant_binding \<Rightarrow> (primary_participant_binding \<times> run_state) action" where
  "continued_binding C s b =
     (let run_id = run_id_of C s in
      and_then (of_result (ensure (bi_source b = rf_primary_thread_id (facts s)) (history_unavailable
          ''active Primary participant binding does not match the frozen Source Primary''))) (\<lambda>_.
      and_then (transact C (\<lambda>_. bind_unsent_primary_pending_to_active_binding run_id)) (\<lambda>_.
      if bi_mode b = Direct then
        and_then (read_identified C (bi_effective b)) (\<lambda>_. answer (b, s))
      else
        and_then (ephemeral_binding_state C run_id b) (\<lambda>(holds, rotating).
        if holds then answer (b, s)
        else recreate_ephemeral_primary_binding_with_pending_rotation C s rotating))))"

fun first_binding ::
  "coordinator \<Rightarrow> nat \<Rightarrow> run_state \<Rightarrow> (primary_participant_binding \<times> run_state) action" where
  "first_binding C 0 s = given_up"
| "first_binding C (Suc n) s =
     (let source_id = rf_primary_thread_id (facts s); run_id = run_id_of C s in
      and_then (read_source C s) (\<lambda>source.
      and_then (of_result (runtime_status source)) (\<lambda>runtime.
      case runtime of
        Active \<Rightarrow> and_then (wait_until_idle C s source_id) (\<lambda>(_, s'). first_binding C n s')
      | NotLoaded \<Rightarrow>
          and_then (resumed_when_idle C s source_id (ResumeParticipant (co_participant C))) (\<lambda>(ready, s').
          and_then (of_result (require_idle_thread ready ''configured Source Primary'')) (\<lambda>_.
          and_then (require_patch_tool C source_id) (\<lambda>_.
          and_then (activate_direct_primary_binding C run_id source_id) (\<lambda>b. answer (b, s')))))
      | Idle \<Rightarrow>
          and_then (list_mcp_server_status_for_preflight C source_id) (\<lambda>statuses.
          if participant_patch_capability_is_exact statuses then
            and_then (activate_direct_primary_binding C run_id source_id) (\<lambda>b. answer (b, s))
          else
            and_then (pending_send_of C run_id) (\<lambda>pending.
            if pending \<noteq> None then
              refuse (communication_failure
                (''cannot create an ephemeral Primary binding while a turn outcome is pending or uncertain''))
            else
              and_then (create_ephemeral_primary_binding_with_pending_rotation C s source None)
                (\<lambda>b. answer (b, s))))
      | SystemError \<Rightarrow> refuse (history_unavailable ''Source Primary is in systemError state''))))"

definition ensure_primary_participant_binding ::
  "coordinator \<Rightarrow> run_state \<Rightarrow> (primary_participant_binding \<times> run_state) action" where
  "ensure_primary_participant_binding C s =
     and_then (read_store C (\<lambda>st. Inr (query_active_primary_binding st (run_id_of C s)))) (\<lambda>active_binding.
     case active_binding of
       Some b \<Rightarrow> continued_binding C s b
     | None \<Rightarrow> first_binding C (co_patience C) s)"

subsection \<open>The task of the next turn\<close>

record prepared_action_thread =
  pt_thread :: string
  pt_binding :: "primary_participant_binding option"

definition ephemeral_mode :: "primary_participant_binding option \<Rightarrow> bool" where
  "ephemeral_mode b \<longleftrightarrow> (case b of None \<Rightarrow> False | Some x \<Rightarrow> bi_mode x = EphemeralFork)"

definition action_resume_policy ::
  "coordinator \<Rightarrow> role \<Rightarrow> thread_runtime_status \<Rightarrow> coordinator_error + thread_resume_policy" where
  "action_resume_policy C role runtime =
     (case runtime of
        NotLoaded \<Rightarrow> Inr (if role = Primary then ResumeParticipant (co_participant C) else ResumeDefault)
      | Idle \<Rightarrow> Inr ResumeDefault
      | Active \<Rightarrow> Inl (communication_failure ''task remained active after the bounded idle wait'')
      | SystemError \<Rightarrow> Inl (history_unavailable ''task is in systemError state''))"

definition prepare_stored_thread ::
  "coordinator \<Rightarrow> role \<Rightarrow> string \<Rightarrow> run_state \<Rightarrow> run_state action" where
  "prepare_stored_thread C role thread_id s =
     and_then (wait_until_idle C s thread_id) (\<lambda>(detail, s1).
     and_then (of_result (attempt (runtime_status detail) (action_resume_policy C role))) (\<lambda>policy.
     and_then (resumed_when_idle C s1 thread_id policy) (\<lambda>(ready, s2).
     and_then (of_result (require_idle_thread ready ''task prepared for coordinator action'')) (\<lambda>_.
     and_then (if role = Primary then require_patch_tool C thread_id else answer ()) (\<lambda>_. answer s2)))))"

definition prepare_ephemeral_thread :: "coordinator \<Rightarrow> string \<Rightarrow> run_state \<Rightarrow> run_state action" where
  "prepare_ephemeral_thread C thread_id s =
     and_then (wait_until_idle_summary C s thread_id) (\<lambda>(summary, s').
     and_then (of_result (require_idle_thread_summary summary
                 ''ephemeral task prepared for coordinator action'')) (\<lambda>_.
     and_then (require_patch_tool C thread_id) (\<lambda>_. answer s')))"

definition prepare_action_thread ::
  "coordinator \<Rightarrow> run_state \<Rightarrow> role \<Rightarrow> (prepared_action_thread \<times> run_state) action" where
  "prepare_action_thread C s role =
     and_then (if role = Primary
               then and_then (ensure_primary_participant_binding C s) (\<lambda>(b, s'). answer (Some b, s'))
               else answer (None, s)) (\<lambda>(binding, s1).
     let thread_id = (case binding of Some b \<Rightarrow> bi_effective b | None \<Rightarrow> rf_reviewer_thread_id (facts s1)) in
     and_then (if ephemeral_mode binding then prepare_ephemeral_thread C thread_id s1
               else prepare_stored_thread C role thread_id s1) (\<lambda>s2.
     answer (\<lparr>pt_thread = thread_id, pt_binding = binding\<rparr>, s2)))"

text \<open>A turn of the Primary that ended before the restart keeps the task it was sent to.\<close>

definition prepared_completed_pending_action_thread ::
  "coordinator \<Rightarrow> run_state \<Rightarrow> role \<Rightarrow> prepared_action_thread option action" where
  "prepared_completed_pending_action_thread C s role =
     (if role \<noteq> Primary then answer None
      else read_store C (\<lambda>st.
        let run_id = run_id_of C s in
        case pending_request st run_id of
          None \<Rightarrow> Inr None
        | Some p \<Rightarrow>
            (case (ps_thread p, ps_turn p, ps_binding p) of
               (Some thread_id, Some turn_id, Some generation) \<Rightarrow>
                 if ps_role p \<noteq> role_name role then Inr None
                 else
                   attempt (stored (co_libs C) (turn_event_evidence_of st run_id thread_id turn_id)) (\<lambda>found.
                   if found = None then Inr None
                   else
                     attempt (ok_or (history_unavailable
                         ''completed pending Primary turn references an unknown binding'')
                       (query_primary_binding st run_id generation)) (\<lambda>b.
                     attempt (ensure (bi_source b = rf_primary_thread_id (facts s) \<and> bi_effective b = thread_id
                                      \<and> bi_server b = PARTICIPANT_MCP_SERVER)
                       (history_unavailable
                         ''completed pending Primary turn does not match its historical binding'')) (\<lambda>_.
                     Inr (Some \<lparr>pt_thread = thread_id, pt_binding = Some b\<rparr>))))
             | _ \<Rightarrow> Inr None)))"

end
