(* ===== verification/Turn_Drive.thy ===== *)
theory Turn_Drive
  imports Turn_Binding Run_Machine
begin

text \<open>
  A step of a run (\<open>drive_model_action\<close> of \<open>crates/daemon/src/coordinator.rs\<close>) and the loop over the
  steps (\<open>drive\<close>): the task is prepared, the repository checked, the request built and recorded before
  it is sent, the response awaited, audited and applied; an error is recorded in the stored run.
\<close>

subsection \<open>The verification workspace\<close>

definition workspace_at ::
  "coordinator \<Rightarrow> run_state \<Rightarrow> string \<Rightarrow> string \<Rightarrow> bool \<Rightarrow> string action" where
  "workspace_at C s sha destination recovering w =
     (if recovering then
        Some (guarded (recover_verification_workspace (wd_git w) (facts s) sha destination), w)
      else
        (let (made, e') = prepare_verification_workspace (co_clone C) (facts s) sha destination (wd_git w)
         in Some (guarded made, w\<lparr>wd_git := e'\<rparr>)))"

definition prepared_workspace :: "coordinator \<Rightarrow> run_state \<Rightarrow> run_state action" where
  "prepared_workspace C s =
     and_then (of_result (ok_or (invalid_state ''verification requires an integration SHA'') (integration_sha s)))
       (\<lambda>sha.
     and_then (read_store C (\<lambda>st. Inr (verification_path st (run_id_of C s) sha))) (\<lambda>destination.
     and_then (of_result (ensure
         (case verification_worktree s of None \<Rightarrow> True | Some existing \<Rightarrow> path_eq existing destination)
         (invalid_state ''persisted verification workspace does not match the exact integration SHA''))) (\<lambda>_.
     and_then (pending_send_of C (run_id_of C s)) (\<lambda>pending.
     and_then (workspace_at C s sha destination (pending \<noteq> None \<and> verification_worktree s \<noteq> None)) (\<lambda>prepared.
     and_then (of_result (ensure (path_eq prepared destination) (operational ''UNSAFE_VERIFICATION_WORKSPACE''
         ''verification workspace provider returned a different path''))) (\<lambda>_.
     let s' = s\<lparr>verification_worktree := Some prepared\<rparr> in
     and_then (save C s') (\<lambda>_. answer s')))))))"

subsection \<open>The request\<close>

definition request_hash :: "libs \<Rightarrow> run_state \<Rightarrow> next_action \<Rightarrow> json \<Rightarrow> string" where
  "request_hash L s action p =
     canonical_json_hash L (json_object
       [(''run_id'', JStr (uuid_text L (rf_run_id (facts s)))), (''action'', JStr (action_name action)),
        (''phase'', JStr (phase_name (phase s))), (''round'', word_json (round s)),
        (''plan_revision'', opt_json word_json (plan_revision s)),
        (''integration_sha'', opt_json JStr (integration_sha s)), (''payload'', p)])"

fun of_prompt :: "prompt_error \<Rightarrow> coordinator_error" where
  "of_prompt (PromptInvalid code detail) = operational code (code @ '': '' @ detail)"
| "of_prompt PromptPanic = Panicked ''path contains invalid UTF-8 characters''"

definition fenced :: "string \<Rightarrow> string" where
  "fenced t = text_lines [''```json''] @ t @ text_lines ['''', ''```'']"

definition execution_identity :: "turn_libs \<Rightarrow> primary_participant_binding \<Rightarrow> string" where
  "execution_identity T b =
     text_lines ['''', ''Primary participant execution identity:'',
       ''The Effective Primary below represents the Source Primary and must preserve its complete ''
       @ ''implementation contract. It may write only to the coordinator-authorized integration worktree.'']
     @ fenced (tl_print T (json_object
         [(''source_primary_thread_id'', JStr (bi_source b)), (''effective_primary_thread_id'', JStr (bi_effective b)),
          (''binding_mode'', JStr (as_database_value (bi_mode b))),
          (''binding_generation'', word_json (bi_generation b))]))"

definition recovery_override :: string where
  "recovery_override = text_lines ['''', ''Coordinator recovery override:'',
     ''- The exact request-bound controlled patch and final commit already succeeded in an archived attempt.'',
     ''- Do not call consensus_apply_patch and do not edit, stage, commit, create, or merge anything.'',
     ''- Use only read-only Git queries in the authorized primary worktree to inspect the existing clean ''
     @ ''target branch.'',
     ''- Confirm repository instructions with a successful `git ls-files` query and use `git show REV:path` ''
     @ ''to read every tracked `AGENTS.md` that applies.'',
     ''- Return `<consensus-result>INTEGRATION_READY</consensus-result>` plus optional free-form Markdown. ''
     @ ''The coordinator derives branch, SHA, and changed files directly from Git.'']"

definition delivery_identity :: "turn_libs \<Rightarrow> string \<Rightarrow> string" where
  "delivery_identity T h =
     [newline] @ DELIVERY_IDENTITY_HEADING @ [newline]
     @ fenced (tl_print T (json_object [(''request_hash'', JStr h)]))"

definition turn_prompt ::
  "turn_libs \<Rightarrow> store \<Rightarrow> run_state \<Rightarrow> role \<Rightarrow> next_action \<Rightarrow> json \<Rightarrow> string
   \<Rightarrow> primary_participant_binding option \<Rightarrow> coordinator_error + string" where
  "turn_prompt T st s role action p h binding =
     attempt (map_err of_prompt (build_turn_prompt (tl_core T) (tl_pretty T) role action s p)) (\<lambda>prompt.
     Inr (prompt
       @ (case binding of None \<Rightarrow> [] | Some b \<Rightarrow> execution_identity T b)
       @ (if action = RequestPrimaryIntegration
             \<and> successful_patch_recorded st (uuid_text (tl_core T) (rf_run_id (facts s))) h
          then recovery_override else [])
       @ delivery_identity T h))"

definition turn_policy :: "run_state \<Rightarrow> next_action \<Rightarrow> role \<Rightarrow> coordinator_error + turn_execution_policy" where
  "turn_policy s action role =
     (if action = RequestPrimaryIntegration then
        Inr (PrimaryIntegration (rf_primary_worktree (facts s)) (rf_git_common_dir (facts s)))
      else if action = RequestPrimaryVerification then
        map_err Panicked (ok_or ''verification workspace is prepared before turn creation''
          (map_option PrimaryVerification (verification_worktree s)))
      else
        Inr (ReadOnly (case role of Primary \<Rightarrow> rf_primary_worktree (facts s)
                                  | Reviewer \<Rightarrow> rf_reviewer_worktree (facts s))))"

subsection \<open>Recording and sending\<close>

definition bound_generation :: "primary_participant_binding option \<Rightarrow> 32 word option" where
  "bound_generation b = map_option bi_generation b"

definition recorded_pending ::
  "coordinator \<Rightarrow> run_state \<Rightarrow> role \<Rightarrow> string \<Rightarrow> primary_participant_binding option \<Rightarrow> pending_send action" where
  "recorded_pending C s role h binding =
     (let run_id = run_id_of C s in
      and_then (pending_send_of C run_id) (\<lambda>existing.
      and_then
        (case existing of
           Some p \<Rightarrow> of_result (attempt (ensure (ps_hash p = h) (history_unavailable
               ''pending turn does not match the deterministic current request'')) (\<lambda>_. Inr existing))
         | None \<Rightarrow>
             and_then (transact C (\<lambda>_. record_pending_send_with_binding run_id (role_name role)
                 (phase_name (phase s)) (round s) h (bound_generation binding))) (\<lambda>_.
             pending_send_of C run_id)) (\<lambda>pending.
      and_then (of_result (ok_or (history_unavailable ''pending turn could not be reloaded'') pending)) (\<lambda>p.
      and_then (of_result (ensure (ps_binding p = bound_generation binding) (history_unavailable
          ''pending turn does not match the active Primary participant binding''))) (\<lambda>_.
      answer p)))))"

text \<open>The detail of a stored task, and the turn that already carries the request.\<close>

definition recovered_turn ::
  "coordinator \<Rightarrow> run_state \<Rightarrow> string \<Rightarrow> pending_send \<Rightarrow> bool \<Rightarrow> string
   \<Rightarrow> (thread_detail option \<times> string option) action" where
  "recovered_turn C s h p ephemeral thread_id =
     (if ephemeral then answer (None, ps_turn p)
      else
        and_then (read_thread_with_retry C thread_id) (\<lambda>detail.
        and_then (read_store C (\<lambda>st. Inr (archived_turn_ids st (run_id_of C s) h))) (\<lambda>archived.
        case ps_turn p of
          Some t \<Rightarrow> answer (Some detail, Some t)
        | None \<Rightarrow>
            and_then (of_result (find_turn_by_request_hash (co_libs C) detail h archived)) (\<lambda>found.
            answer (Some detail, found)))))"

definition task_is_active :: "coordinator \<Rightarrow> string \<Rightarrow> thread_detail option \<Rightarrow> bool action" where
  "task_is_active C thread_id detail =
     (case detail of
        Some d \<Rightarrow> answer (is_active (td_summary d))
      | None \<Rightarrow>
          and_then (read_summary_identified C thread_id) (\<lambda>summary. answer (is_active summary)))"

definition send_turn ::
  "coordinator \<Rightarrow> run_state \<Rightarrow> next_action \<Rightarrow> role \<Rightarrow> string \<Rightarrow> string \<Rightarrow> string \<Rightarrow> pending_send
   \<Rightarrow> thread_detail option \<Rightarrow> string action" where
  "send_turn C s action role h thread_id prompt p detail =
     (let run_id = run_id_of C s in
      and_then (of_result (ensure (\<not> (detail = None \<and> ps_intent p \<noteq> None)) (communication_failure
          (''ephemeral Primary turn delivery is uncertain after turn/start intent; ''
           @ ''automatic resend is forbidden'')))) (\<lambda>_.
      and_then (task_is_active C thread_id detail) (\<lambda>active_now.
      and_then (of_result (ensure (\<not> active_now) (history_unavailable
          ''task became active after pending-send without a recoverable request marker''))) (\<lambda>_.
      and_then (transact C (\<lambda>now. record_turn_start_intent now run_id h)) (\<lambda>_.
      and_then (of_result (turn_policy s action role)) (\<lambda>policy.
      and_then (call_for C (TurnSent thread_id prompt policy) ''turn/start'' (Some thread_id)
          (\<lambda>n. sv_start_turn (co_server C) n thread_id prompt policy)) (\<lambda>turn_id.
      and_then (transact_partly C (record_turn_started run_id h thread_id turn_id)) (\<lambda>_.
      answer turn_id))))))))"

definition started_turn ::
  "coordinator \<Rightarrow> run_state \<Rightarrow> next_action \<Rightarrow> role \<Rightarrow> string \<Rightarrow> string \<Rightarrow> string \<Rightarrow> pending_send
   \<Rightarrow> bool \<Rightarrow> string action" where
  "started_turn C s action role h thread_id prompt p ephemeral =
     and_then (recovered_turn C s h p ephemeral thread_id) (\<lambda>(detail, found).
     case found of
       Some turn_id \<Rightarrow>
         and_then (transact_partly C (record_recovered_turn_started (run_id_of C s) h thread_id turn_id))
           (\<lambda>_. answer turn_id)
     | None \<Rightarrow> send_turn C s action role h thread_id prompt p detail)"

subsection \<open>The response\<close>

text \<open>Nobody else acts while the test commands run; each one is a call of the App Server.\<close>

definition frozen_verification ::
  "coordinator \<Rightarrow> run_state \<Rightarrow> string \<Rightarrow> string \<Rightarrow> authoritative_verification action" where
  "frozen_verification C s h turn_id w =
     (let w1 = elapse C w;
          (r, st) = execute_frozen_verification (co_libs C)
                      (\<lambda>n. sv_execute_command (co_server C) (wd_moment w1 + n)) (co_wait_timeout C) s h turn_id
                      (wd_store w1)
      in Some (r, w1\<lparr>wd_store := st, wd_moment := wd_moment w1 + length (required_test_commands s)\<rparr>))"

definition audited_message ::
  "coordinator \<Rightarrow> run_state \<Rightarrow> next_action \<Rightarrow> string \<Rightarrow> string \<Rightarrow> string \<Rightarrow> json
   \<Rightarrow> protocol_message action" where
  "audited_message C s action h turn_id response turn =
     and_then (of_result (if action = RequestPrimaryVerification
                          then verify_marker_only_verification_turn turn else Inr ())) (\<lambda>_.
     and_then (\<lambda>w. read_store C (\<lambda>st. normalize_model_response (co_libs C) (wd_git (elapse C w)) st s action response) w)
       (\<lambda>m.
     and_then (if action = RequestPrimaryVerification \<and> env_message_type (envelope m) = MIntegrationReady
               then and_then (frozen_verification C s h turn_id) (\<lambda>av. answer (Some av)) else answer None) (\<lambda>av.
     \<lambda>w. read_store C (\<lambda>st.
       case verify_message_evidence (co_libs C) (wd_git (elapse C w)) st s action turn av m of
         (r, m') \<Rightarrow> attempt r (\<lambda>_. Inr m')) w)))"

definition applied_message ::
  "coordinator \<Rightarrow> run_state \<Rightarrow> protocol_message \<Rightarrow> run_state action" where
  "applied_message C s m =
     (let L = tl_core (co_libs C) in
      case apply_message L m s of
        (Inl err, _) \<Rightarrow> refuse (of_state err)
      | (Inr _, next) \<Rightarrow>
          and_then (transact C (\<lambda>now. accept_response_and_advance (co_env C) now (run_id_of C s)
            (canonical_json_hash L (message_to_value L m)) next)) (\<lambda>_. answer next))"

definition prepared_role_thread ::
  "coordinator \<Rightarrow> run_state \<Rightarrow> next_action \<Rightarrow> (role \<times> prepared_action_thread \<times> run_state) action" where
  "prepared_role_thread C s action =
     and_then (of_result (ok_or (invalid_state ''action has no task role'') (action_role action))) (\<lambda>role.
     and_then (prepared_completed_pending_action_thread C s role) (\<lambda>found.
     case found of
       Some prepared \<Rightarrow> answer (role, prepared, s)
     | None \<Rightarrow>
         and_then (prepare_action_thread C s role) (\<lambda>(prepared, s'). answer (role, prepared, s'))))"

definition driven_turn ::
  "coordinator \<Rightarrow> next_action \<Rightarrow> role \<Rightarrow> prepared_action_thread \<Rightarrow> run_state \<Rightarrow> run_state action" where
  "driven_turn C action role prepared s =
     (let thread_id = pt_thread prepared; binding = pt_binding prepared; ephemeral = ephemeral_mode binding in
      and_then (load_history C s) (\<lambda>_.
      and_then (\<lambda>w. read_store C (\<lambda>st. revalidate_before_action (co_libs C) (wd_git (elapse C w)) st s action) w)
        (\<lambda>_.
      and_then (of_result (build_action_payload (tl_core (co_libs C)) s action)) (\<lambda>p.
      let h = request_hash (tl_core (co_libs C)) s action p in
      and_then (read_store C (\<lambda>st. turn_prompt (co_libs C) st s role action p h binding)) (\<lambda>prompt.
      and_then (recorded_pending C s role h binding) (\<lambda>pending.
      and_then (started_turn C s action role h thread_id prompt pending ephemeral) (\<lambda>turn_id.
      and_then (wait_for_turn_response C s thread_id turn_id ephemeral) (\<lambda>outcome.
      case outcome of
        RetryAction \<Rightarrow> answer s
      | TurnCompleted response turn \<Rightarrow>
          and_then (audited_message C s action h turn_id response turn) (applied_message C s)))))))))"

definition drive_model_action :: "coordinator \<Rightarrow> run_state \<Rightarrow> next_action \<Rightarrow> run_state action" where
  "drive_model_action C s action =
     and_then (if action = RequestPrimaryVerification then prepared_workspace C s else answer s) (\<lambda>s1.
     and_then (prepared_role_thread C s1 action) (\<lambda>(role, prepared, s2). driven_turn C action role prepared s2))"

subsection \<open>The loop over the steps\<close>

definition revalidate_and_accept :: "coordinator \<Rightarrow> run_state \<Rightarrow> run_state action" where
  "revalidate_and_accept C s =
     and_then (load_history C s) (\<lambda>_.
     and_then (of_result (attempt (current_integration s) reported_changed_files)) (\<lambda>files.
     and_then (of_result (ok_or (invalid_state ''integration branch is missing'') (integration_branch s))) (\<lambda>branch.
     and_then (of_result (ok_or (invalid_state ''integration SHA is missing'') (integration_sha s))) (\<lambda>sha.
     and_then (inspect (\<lambda>e. guarded (verify_integration e (facts s) branch sha files))) (\<lambda>_.
     case accept_after_revalidation s of
       (Inl err, _) \<Rightarrow> refuse (of_state err)
     | (Inr _, s') \<Rightarrow> and_then (save C s') (\<lambda>_. answer s'))))))"

definition sensitive_markers :: "string list" where
  "sensitive_markers = [''authorization:'', ''api_key='', ''api-key='', ''secret='', ''token='', ''bearer '']"

definition ascii_lowercase :: "string \<Rightarrow> string" where
  "ascii_lowercase = map (\<lambda>c. if is_ascii_uppercase c then char_of (of_char c + (32 :: nat)) else c)"

function replace_from :: "string \<Rightarrow> string \<Rightarrow> string \<Rightarrow> string" where
  "replace_from pattern new [] = []"
| "replace_from pattern new (c # cs) =
     (if pattern \<noteq> [] \<and> prefix pattern (c # cs)
      then new @ replace_from pattern new (drop (length pattern) (c # cs))
      else c # replace_from pattern new cs)"
  by pat_completeness auto
termination by (relation "measure (\<lambda>(p, n, t). length t)") (auto simp: Suc_le_eq)

text \<open>An empty pattern is found before every character and at the end.\<close>

definition replace_text :: "string \<Rightarrow> string \<Rightarrow> string \<Rightarrow> string" where
  "replace_text pattern new t =
     (if pattern = [] then concat (map (\<lambda>c. if continuation c then [c] else new @ [c]) t) @ new
      else replace_from pattern new t)"

definition redact_diagnostic :: "string option \<Rightarrow> string \<Rightarrow> string" where
  "redact_diagnostic home value =
     (if list_ex (contains (ascii_lowercase value)) sensitive_markers
      then ''[redacted sensitive coordinator diagnostic]''
      else take_chars 2000 (case home of None \<Rightarrow> value | Some h \<Rightarrow> replace_text h ''~'' value))"

definition diagnosed_thread :: "run_state \<Rightarrow> role option \<Rightarrow> primary_participant_binding option \<Rightarrow> string option" where
  "diagnosed_thread s role binding =
     (case (role, binding) of
        (None, _) \<Rightarrow> None
      | (Some Primary, Some b) \<Rightarrow> Some (bi_effective b)
      | (Some r, _) \<Rightarrow> Some (role_thread_id s r))"

definition run_diagnostic ::
  "string option \<Rightarrow> run_state \<Rightarrow> next_action \<Rightarrow> coordinator_error \<Rightarrow> primary_participant_binding option
   \<Rightarrow> run_diagnostic" where
  "run_diagnostic home s action err active_binding =
     (let role = action_role action;
          b = (if role = Some Primary then active_binding else None) in
      \<lparr>rd_code = error_code err, rd_detail = redact_diagnostic home (error_detail err),
       rd_operation = error_operation err, rd_action = action, rd_role = role,
       rd_thread_id = (case error_thread_id err of Some t \<Rightarrow> Some t | None \<Rightarrow> diagnosed_thread s role b),
       rd_source_thread_id = map_option bi_source b, rd_effective_thread_id = map_option bi_effective b,
       rd_participant_binding_generation = map_option bi_generation b,
       rd_participant_binding_mode = map_option (\<lambda>x. as_database_value (bi_mode x)) b,
       rd_participant_server = map_option bi_server b\<rparr>)"

definition failed_step :: "coordinator \<Rightarrow> string \<Rightarrow> next_action \<Rightarrow> coordinator_error \<Rightarrow> run_state action" where
  "failed_step C run_id action err =
     and_then (required_run C run_id) (\<lambda>persisted.
     if status persisted \<in> {SPausedUserAction, SCancelled} then answer persisted
     else
       and_then (read_store C (\<lambda>st. Inr (query_active_primary_binding st run_id))) (\<lambda>b.
       and_then (change (drive_failure (run_diagnostic (co_home C) persisted action err b)) persisted) (\<lambda>s.
       and_then (save C s) (\<lambda>_. answer s))))"

definition MAX_DRIVER_STEPS :: nat where
  "MAX_DRIVER_STEPS = 128"

definition halted :: "run_state \<Rightarrow> bool" where
  "halted s \<longleftrightarrow> status s \<notin> {SRunning, SWaitingThread} \<or> next_action s \<in> {WaitForUser, Stop}"

text \<open>A panic ends the task of the driver; nothing is recorded.\<close>

fun drive_steps :: "coordinator \<Rightarrow> string \<Rightarrow> nat \<Rightarrow> run_state action" where
  "drive_steps C run_id 0 =
     and_then (required_run C run_id) (\<lambda>s.
     and_then (save C (block ''NO_PROGRESS'' s)) (\<lambda>_. answer (block ''NO_PROGRESS'' s)))"
| "drive_steps C run_id (Suc n) =
     and_then (required_run C run_id) (\<lambda>s.
     if halted s then answer s
     else
       whatever (if next_action s = RevalidateAndAccept then revalidate_and_accept C s
                 else drive_model_action C s (next_action s)) (\<lambda>r.
       case r of
         Inr _ \<Rightarrow> drive_steps C run_id n
       | Inl (Panicked t) \<Rightarrow> refuse (Panicked t)
       | Inl err \<Rightarrow> failed_step C run_id (next_action s) err))"

definition drive :: "coordinator \<Rightarrow> string \<Rightarrow> run_state action" where
  "drive C run_id = drive_steps C run_id MAX_DRIVER_STEPS"

end
