(* ===== verification/Conversation_Rules.thy ===== *)
theory Conversation_Rules
  imports Conversation
begin

text \<open>
  Rules for actions. \<open>ensures R P m\<close>: every run of \<open>m\<close> leads from a world to one that \<open>R\<close> relates to it,
  and an answer satisfies \<open>P\<close>. The locales say what \<open>R\<close> must be closed under; they are interpreted by
  the growth of the log, with a condition on every new effect.
\<close>

named_theorems conversation "rules for actions"

definition ensures :: "(world \<Rightarrow> world \<Rightarrow> bool) \<Rightarrow> ('a \<Rightarrow> bool) \<Rightarrow> 'a action \<Rightarrow> bool" where
  "ensures R P m \<longleftrightarrow> (\<forall>w r w'. m w = Some (r, w') \<longrightarrow> R w w' \<and> (\<forall>x. r = Inr x \<longrightarrow> P x))"

lemma ensuresD:
  assumes "ensures R P m" "m w = Some (r, w')"
  shows "R w w'" "r = Inr x \<Longrightarrow> P x"
  using assms unfolding ensures_def by blast+

lemma ensures_mono: "ensures R Q m \<Longrightarrow> (\<And>x. Q x \<Longrightarrow> P x) \<Longrightarrow> ensures R P m"
  unfolding ensures_def by blast

text \<open>The same from a world with the store \<open>st\<close>.\<close>

definition ensures_at :: "store \<Rightarrow> (world \<Rightarrow> world \<Rightarrow> bool) \<Rightarrow> ('a \<Rightarrow> bool) \<Rightarrow> 'a action \<Rightarrow> bool" where
  "ensures_at st R P m \<longleftrightarrow>
     (\<forall>w r w'. wd_store w = st \<longrightarrow> m w = Some (r, w') \<longrightarrow> R w w' \<and> (\<forall>x. r = Inr x \<longrightarrow> P x))"

subsection \<open>Outcomes\<close>

lemma of_result_outcome [simp]: "of_result r w = Some (r', w') \<longleftrightarrow> r' = r \<and> w' = w"
  by (auto simp: of_result_def)

lemma given_up_outcome [simp]: "given_up w = None"
  by (simp add: given_up_def)

lemma and_then_Inr [outcome]:
  "and_then m f w = Some (Inr y, w') \<longleftrightarrow> (\<exists>x w1. m w = Some (Inr x, w1) \<and> f x w1 = Some (Inr y, w'))"
  by (auto simp: and_then_def whatever_def split: option.splits prod.splits sum.splits)

lemma transact_Inr [outcome]:
  "transact C op w = Some (Inr x, w') \<longleftrightarrow>
     (\<exists>st. op (co_wall C (wd_moment (elapse C w))) (wd_store (elapse C w)) = Inr (x, st)
        \<and> w' = (elapse C w)\<lparr>wd_store := st\<rparr>)"
  by (auto simp: transact_def Let_def split: sum.splits)

lemma read_store_outcome [outcome]:
  "read_store C f w = Some (r, w') \<longleftrightarrow> w' = elapse C w \<and> f (wd_store w') = r"
  by (auto simp: read_store_def Let_def)

lemma change_Inr [outcome]: "change op s w = Some (Inr s', w') \<longleftrightarrow> (\<exists>u. op s = (Inr u, s')) \<and> w' = w"
  by (auto simp: change_def split: prod.splits sum.splits)

lemma elapse_log [simp]: "wd_log (elapse C w) = wd_log w"
  by (simp add: elapse_def Let_def split: prod.splits)

lemma elapse_moment [simp]: "wd_moment (elapse C w) = wd_moment w + 1"
  by (simp add: elapse_def Let_def split: prod.splits)

subsection \<open>Relations between worlds\<close>

locale world_relation =
  fixes R :: "world \<Rightarrow> world \<Rightarrow> bool"
  assumes refl: "R w w" and trans: "R w w' \<Longrightarrow> R w' w'' \<Longrightarrow> R w w''"
begin

lemma of_result: "(\<And>x. r = Inr x \<Longrightarrow> P x) \<Longrightarrow> ensures R P (of_result r)"
  unfolding ensures_def by (simp add: refl)

lemma given_up: "ensures R P given_up"
  by (simp add: ensures_def)

lemma whatever:
  assumes "ensures R Q m" "\<And>x. Q x \<Longrightarrow> ensures R P (f (Inr x))" "\<And>err. ensures R P (f (Inl err))"
  shows "ensures R P (whatever m f)"
  unfolding ensures_def
proof (intro allI impI)
  fix w r w' assume "whatever m f w = Some (r, w')"
  then obtain r1 w1 where m: "m w = Some (r1, w1)" and f: "f r1 w1 = Some (r, w')"
    by (auto simp: whatever_def split: option.splits prod.splits)
  have "ensures R P (f r1)" using assms(2,3) ensuresD(2) [OF assms(1) m] by (cases r1) auto
  then show "R w w' \<and> (\<forall>x. r = Inr x \<longrightarrow> P x)"
    using f ensuresD(1) [OF assms(1) m] unfolding ensures_def by (blast intro: trans)
qed

lemma refuse: "ensures R P (refuse err)"
  by (rule of_result) simp

lemma and_then:
  assumes "ensures R Q m" "\<And>x. Q x \<Longrightarrow> ensures R P (f x)"
  shows "ensures R P (and_then m f)"
  unfolding and_then_def using assms by (intro whatever [OF assms(1)]) (auto intro: refuse)

lemma result_at:
  "(\<And>x. r = Inr x \<Longrightarrow> ensures_at st R P (f x)) \<Longrightarrow> ensures_at st R P (and_then (of_result r) f)"
  by (cases r) (auto simp: ensures_at_def and_then_def whatever_def of_result_def refl)

lemma change: "(\<And>u s'. op s = (Inr u, s') \<Longrightarrow> P s') \<Longrightarrow> ensures R P (change op s)"
  unfolding change_def by (cases "op s"; cases "fst (op s)") (auto intro!: of_result)

lemma instant: "(\<And>n. P n) \<Longrightarrow> ensures R P (instant C)"
  by (simp add: ensures_def instant_def refl)

lemma inspect: "(\<And>e x. f e = Inr x \<Longrightarrow> P x) \<Longrightarrow> ensures R P (inspect f)"
  by (auto simp: ensures_def inspect_def refl)

end

locale observing = world_relation R for R +
  fixes C :: coordinator
  assumes elapsed: "R w (elapse C w)"
begin

lemma pause_for: "ensures R (\<lambda>_. True) (pause_for C)"
  by (simp add: ensures_def pause_for_def elapsed)

lemma read_store: "(\<And>st x. f st = Inr x \<Longrightarrow> P x) \<Longrightarrow> ensures R P (read_store C f)"
  by (auto simp: ensures_def read_store_def Let_def elapsed)

lemma read_world:
  "(\<And>w st x. f w st = Inr x \<Longrightarrow> P x) \<Longrightarrow> ensures R P (\<lambda>w. read_store C (f w) w)"
  by (auto simp: ensures_def read_store_def Let_def elapsed)

lemma ask: "(\<And>n. P (call n)) \<Longrightarrow> ensures R P (ask C call)"
  by (simp add: ensures_def ask_def elapsed)

lemma attempts: "ensures R (\<lambda>_. True) (attempts C final failed call n err)"
  by (induction n arbitrary: err)
     (auto intro!: and_then [where Q = "\<lambda>_. True"] ask refuse of_result pause_for split: sum.splits option.splits)

lemma required_run: "ensures R (\<lambda>_. True) (required_run C run_id)"
  unfolding required_run_def by (intro read_store) simp

lemma with_retry: "ensures R (\<lambda>_. True) (with_retry C operation unexplained thread_id call)"
  unfolding with_retry_def by (rule attempts)

lemma readings:
  "ensures R (\<lambda>_. True) (read_thread_with_retry C t)"
  "ensures R (\<lambda>_. True) (read_thread_summary_with_retry C t)"
  "ensures R (\<lambda>_. True) (resume_thread_with_retry C t policy)"
  "ensures R (\<lambda>_. True) (get_thread_goal_with_retry C t)"
  "ensures R (\<lambda>_. True) (list_mcp_server_status_for_preflight C t)"
  unfolding read_thread_with_retry_def read_thread_summary_with_retry_def resume_thread_with_retry_def
    get_thread_goal_with_retry_def list_mcp_server_status_for_preflight_def
  by (rule with_retry attempts)+

end

locale writing = observing R C for R C +
  assumes written: "R w (w\<lparr>wd_store := st\<rparr>)"
begin

lemma transact: "(\<And>now st x st'. op now st = Inr (x, st') \<Longrightarrow> P x) \<Longrightarrow> ensures R P (transact C op)"
  by (auto simp: ensures_def transact_def Let_def elapsed intro: trans [OF elapsed written] split: sum.splits)

lemma transact_at:
  assumes "\<And>now st x st'. op now st = Inr (x, st') \<Longrightarrow> ensures_at st' R P (f x)"
  shows "ensures R P (and_then (transact C op) f)"
  unfolding ensures_def
proof (intro allI impI)
  fix w r w' assume run: "and_then (transact C op) f w = Some (r, w')"
  show "R w w' \<and> (\<forall>x. r = Inr x \<longrightarrow> P x)"
  proof (cases "op (co_wall C (wd_moment (elapse C w))) (wd_store (elapse C w))")
    case (Inl err)
    with run show ?thesis by (auto simp: and_then_def whatever_def transact_def Let_def elapsed)
  next
    case (Inr a)
    then obtain x st where st: "op (co_wall C (wd_moment (elapse C w))) (wd_store (elapse C w)) = Inr (x, st)"
      by (cases a) auto
    then have "f x ((elapse C w)\<lparr>wd_store := st\<rparr>) = Some (r, w')"
      using run by (auto simp: and_then_def whatever_def transact_def Let_def)
    moreover have "wd_store ((elapse C w)\<lparr>wd_store := st\<rparr>) = st" by simp
    ultimately have "R ((elapse C w)\<lparr>wd_store := st\<rparr>) w' \<and> (\<forall>x. r = Inr x \<longrightarrow> P x)"
      using assms [OF st] unfolding ensures_at_def by blast
    then show ?thesis using trans [OF trans [OF elapsed written]] by blast
  qed
qed

lemma transact_partly: "ensures R (\<lambda>_. True) (transact_partly C op)"
  by (auto simp: ensures_def transact_partly_def Let_def intro: trans [OF elapsed written] split: prod.splits)

lemma save: "ensures R (\<lambda>_. True) (save C s)"
  unfolding save_def by (rule transact) simp

end

subsection \<open>The log\<close>

definition logs :: "(effect \<times> store \<Rightarrow> bool) \<Rightarrow> world \<Rightarrow> world \<Rightarrow> bool" where
  "logs Q w w' \<longleftrightarrow> (\<exists>new. wd_log w' = wd_log w @ new \<and> list_all Q new)"

interpretation logged: writing "logs Q" C for Q C
proof
  show "logs Q w w" for w by (simp add: logs_def)
  show "logs Q w w' \<Longrightarrow> logs Q w' w'' \<Longrightarrow> logs Q w w''" for w w' w''
    unfolding logs_def by (metis append.assoc list_all_append)
  show "logs Q w (elapse C w)" for w by (simp add: logs_def)
  show "logs Q w (w\<lparr>wd_store := st\<rparr>)" for w st by (simp add: logs_def)
qed

lemma logged_effect: "(\<And>st. Q (eff, st)) \<Longrightarrow> ensures (logs Q) (\<lambda>_. True) (log_effect eff)"
  by (auto simp: ensures_def log_effect_def logs_def)

lemma logged_call: "(\<And>st. Q (eff, st)) \<Longrightarrow> ensures (logs Q) (\<lambda>_. True) (call_for C eff operation t call)"
  unfolding call_for_def
  by (intro logged.and_then [OF logged_effect] logged.and_then [OF logged.ask] logged.of_result TrueI)

lemma logged_call_at:
  assumes "Q (eff, st)" "\<And>x. ensures (logs Q) P (f x)"
  shows "ensures_at st (logs Q) P (and_then (call_for C eff operation t call) f)"
  unfolding ensures_at_def
proof (intro allI impI)
  fix w r w'
  assume w: "wd_store w = st" and run: "and_then (call_for C eff operation t call) f w = Some (r, w')"
  let ?w = "w\<lparr>wd_log := wd_log w @ [(eff, st)]\<rparr>"
  let ?rest = "and_then (and_then (ask C call) (\<lambda>r. of_result (map_err (communication_error operation t) r))) f"
  have first: "logs Q w ?w" using assms(1) by (simp add: logs_def)
  have "ensures (logs Q) P ?rest"
    by (rule logged.and_then [where Q = "\<lambda>_. True"], rule logged.and_then [where Q = "\<lambda>_. True"])
       (auto intro: logged.ask logged.of_result assms(2))
  moreover have "?rest ?w = Some (r, w')"
    using run w by (simp add: and_then_def whatever_def call_for_def log_effect_def)
  ultimately show "logs Q w w' \<and> (\<forall>x. r = Inr x \<longrightarrow> P x)"
    using logged.trans [OF first] unfolding ensures_def by blast
qed

subsection \<open>Time\<close>

definition later :: "world \<Rightarrow> world \<Rightarrow> bool" where
  "later w w' \<longleftrightarrow> wd_moment w \<le> wd_moment w'"

interpretation clocked: writing later C for C
  by unfold_locales (simp_all add: later_def)

text \<open>An action that ends in every world.\<close>

definition returns :: "'a action \<Rightarrow> bool" where
  "returns m \<longleftrightarrow> (\<forall>w. \<exists>r w'. m w = Some (r, w'))"

named_theorems returning "actions that end"

lemma returnsE: "returns m \<Longrightarrow> (\<And>r w'. m w = Some (r, w') \<Longrightarrow> P) \<Longrightarrow> P"
  unfolding returns_def by blast

lemma steps_return [returning]:
  "returns (of_result r)" "returns (refuse err)" "returns (instant C)" "returns (pause_for C)"
  "returns (ask C call)" "returns (read_store C f)" "returns (transact C op)" "returns (required_run C run_id)"
  "returns (save C s)" "returns (change g s)"
  by (auto simp: returns_def of_result_def instant_def pause_for_def ask_def read_store_def Let_def
      transact_def required_run_def save_def change_def split: sum.split prod.split)

lemma and_then_runs: "m w = Some (Inr x, w1) \<Longrightarrow> and_then m f w = f x w1"
  by (simp add: and_then_def whatever_def)

lemma and_then_fails: "m w = Some (Inl err, w1) \<Longrightarrow> and_then m f w = Some (Inl err, w1)"
  by (simp add: and_then_def whatever_def of_result_def)

lemma and_then_returns [returning]:
  assumes "returns m" "\<And>x. returns (f x)"
  shows "returns (and_then m f)"
  unfolding returns_def
proof
  fix w
  obtain r w1 where m: "m w = Some (r, w1)" using assms(1) unfolding returns_def by blast
  show "\<exists>r w'. and_then m f w = Some (r, w')"
  proof (cases r)
    case (Inl err)
    with m show ?thesis by (simp add: and_then_fails)
  next
    case (Inr x)
    with m and_then_runs [of m w x w1 f] assms(2) show ?thesis unfolding returns_def by auto
  qed
qed

lemma attempts_return [returning]: "returns (attempts C final failed call n err)"
  by (induction n arbitrary: err) (auto intro!: returning split: sum.split option.split)

lemma readings_return [returning]:
  "returns (read_thread_with_retry C t)" "returns (read_thread_summary_with_retry C t)"
  unfolding read_thread_with_retry_def read_thread_summary_with_retry_def with_retry_def by (rule returning)+

end
