(* ===== verification/Turn_Drive_Properties.thy ===== *)
theory Turn_Drive_Properties
  imports Turn_Drive Conversation_Rules Store_Journal
begin

text \<open>
  Properties of a step of a run: what the coordinator grants to a task, what it records before it sends
  a turn, and what an accepted response does to the stored run. The locale \<open>effect_condition\<close> states
  which effects an action may have; it is interpreted by the effects that the frozen policy authorizes.
\<close>

subsection \<open>The state while a task is waited for\<close>

text \<open>Waiting changes nothing but the status.\<close>

definition resembles :: "run_state \<Rightarrow> run_state \<Rightarrow> bool" where
  "resembles s s' \<longleftrightarrow> (\<exists>x. s' = s\<lparr>status := x\<rparr>)"

lemma resembles_refl [simp]: "resembles s s"
  unfolding resembles_def by (rule exI [of _ "status s"]) simp

lemma resembles_trans: "resembles s s' \<Longrightarrow> resembles s' s'' \<Longrightarrow> resembles s s''"
  by (auto simp: resembles_def)

lemma resembles_fields:
  assumes "resembles s s'"
  shows "facts s' = facts s" "next_action s' = next_action s" "phase s' = phase s" "round s' = round s"
    "plan_revision s' = plan_revision s" "integration_sha s' = integration_sha s"
    "verification_worktree s' = verification_worktree s" "required_test_commands s' = required_test_commands s"
    "target_integration_branch s' = target_integration_branch s" "integration_branch s' = integration_branch s"
proof -
  obtain x where "s' = s\<lparr>status := x\<rparr>" using assms unfolding resembles_def by blast
  then show "facts s' = facts s" "next_action s' = next_action s" "phase s' = phase s" "round s' = round s"
    "plan_revision s' = plan_revision s" "integration_sha s' = integration_sha s"
    "verification_worktree s' = verification_worktree s" "required_test_commands s' = required_test_commands s"
    "target_integration_branch s' = target_integration_branch s" "integration_branch s' = integration_branch s"
    by simp_all
qed

lemma resembles_run_id: "resembles s s' \<Longrightarrow> run_id_of C s' = run_id_of C s"
  by (simp add: run_id_of_def resembles_fields)

lemma waiting_resembles:
  "wait_for_thread s = (Inr u, s') \<Longrightarrow> resembles s s'"
  "thread_became_idle s = (Inr u, s') \<Longrightarrow> resembles s s'"
  by (auto simp: wait_for_thread_def thread_became_idle_def fail_def outcome resembles_def split: if_splits)

subsection \<open>What a task may be granted\<close>

definition granted :: "turn_libs \<Rightarrow> run_state \<Rightarrow> app_event \<Rightarrow> bool" where
  "granted T s ev \<longleftrightarrow>
     ap_method ev = ''item/commandExecution/requestApproval''
       \<and> decide_command_approval (tl_policy T) s (ap_params ev) = approval_decision.Accept
     \<or> ap_method ev = ''item/fileChange/requestApproval'' \<and> integration_write s ev"

lemma policy_status:
  "is_allowed_read_only_git_invocation (s\<lparr>status := x\<rparr>) = is_allowed_read_only_git_invocation s"
  "corrective_integration (s\<lparr>status := x\<rparr>) = corrective_integration s"
  "command_expected_cwd (s\<lparr>status := x\<rparr>) = command_expected_cwd s"
  by (rule ext, rule ext, simp add: is_allowed_read_only_git_invocation_def safe_branch_arguments_def safe_show_ref_arguments_def)
     (simp_all add: corrective_integration_def command_expected_cwd_def cong: next_action.case_cong)

lemma git_write_status: "is_allowed_git_write P (s\<lparr>status := x\<rparr>) = is_allowed_git_write P s"
  by (rule ext, rule ext) (simp add: is_allowed_git_write_def policy_status cong: list.case_cong if_cong)

lemma allowlist_status: "command_in_allowlist P (s\<lparr>status := x\<rparr>) = command_in_allowlist P s"
  by (rule ext) (simp add: command_in_allowlist_def is_allowed_git_command_def git_write_status policy_status
      cong: next_action.case_cong option.case_cong list.case_cong)

lemma decision_status: "decide_command_approval P (s\<lparr>status := x\<rparr>) params = decide_command_approval P s params"
  unfolding decide_command_approval_def command_approval_denial_def allowlist_status policy_status by (rule refl)

lemma granted_resembles:
  assumes "resembles s s'"
  shows "granted T s' ev \<longleftrightarrow> granted T s ev"
proof -
  obtain x where "s' = s\<lparr>status := x\<rparr>" using assms unfolding resembles_def by blast
  then show ?thesis by (simp add: granted_def decision_status integration_write_def)
qed

definition announced :: "turn_libs \<Rightarrow> run_state \<Rightarrow> string \<Rightarrow> store \<Rightarrow> bool" where
  "announced T s prompt st \<longleftrightarrow>
     (\<exists>row \<in> set (st_turns st).
        open_turn (uuid_text (tl_core T) (rf_run_id (facts s))) row
        \<and> tn_intent row \<noteq> None \<and> tn_thread row = None \<and> tn_turn row = None
        \<and> suffix (delivery_identity T (tn_hash row)) prompt)"

fun authorized :: "turn_libs \<Rightarrow> run_state \<Rightarrow> effect \<times> store \<Rightarrow> bool" where
  "authorized T s (TurnSent thread_id prompt policy, st) \<longleftrightarrow>
     announced T s prompt st \<and> (\<exists>role. turn_policy s (next_action s) role = Inr policy)"
| "authorized T s (RequestAnswered ev response, st) \<longleftrightarrow> (response = decision ''accept'' \<longrightarrow> granted T s ev)"
| "authorized T s (ConnectionRefreshed, st) \<longleftrightarrow> next_action s = RequestPrimaryIntegration"
| "authorized T s (ThreadForked t, st) \<longleftrightarrow> t = rf_primary_thread_id (facts s)"
| "authorized T s (TurnInterrupted t u, st) \<longleftrightarrow> False"

locale task_effects =
  fixes C :: coordinator and s0 :: run_state and Q :: "effect \<times> store \<Rightarrow> bool"
  assumes refreshed: "next_action s0 = RequestPrimaryIntegration \<Longrightarrow> Q (ConnectionRefreshed, st)"
    and forked: "Q (ThreadForked (rf_primary_thread_id (facts s0)), st)"
begin

abbreviation allowed :: "('a \<Rightarrow> bool) \<Rightarrow> 'a action \<Rightarrow> bool" where
  "allowed P m \<equiv> ensures (logs Q) P m"

abbreviation harmless :: "'a action \<Rightarrow> bool" where
  "harmless m \<equiv> allowed (\<lambda>_. True) m"

lemma then_harmless: "harmless m \<Longrightarrow> (\<And>x. allowed P (f x)) \<Longrightarrow> allowed P (and_then m f)"
  by (rule logged.and_then [where Q = "\<lambda>_. True"])

lemmas harmless_steps = then_harmless logged.refuse logged.of_result logged.read_store logged.pause_for
  logged.readings logged.save logged.transact logged.transact_partly logged.instant logged.inspect
  logged.required_run logged.ask logged.change logged.given_up

lemma evidence_harmless:
  "harmless (event_evidence C s t u)"
  "harmless (completed_turn_with_event_evidence C s t u turn)"
  "harmless (completed_turn_from_event_evidence C s t u)"
  "harmless (eventless_successful_patch_turn_matches C s t u expected)"
  "harmless (recorded_role_thread_is_ephemeral C s role g d)"
  "harmless (cancelled_meanwhile C s what)"
  "harmless (progressed C f latest)"
  "harmless (before_deadline C n detail)"
  "harmless (read_identified C t)"
  "harmless (read_summary_identified C t)"
  "harmless (next_event C)"
  "harmless (completed turn)"
  "harmless (ephemeral_response turn)"
  "harmless (pending_send_of C r)"
  unfolding event_evidence_def completed_turn_with_event_evidence_def completed_turn_from_event_evidence_def
    eventless_successful_patch_turn_matches_def recorded_role_thread_is_ephemeral_def cancelled_meanwhile_def
    progressed_def before_deadline_def read_identified_def read_summary_identified_def next_event_def
    completed_def ephemeral_response_def Let_def pending_send_of_def
  by (auto intro!: harmless_steps split: option.splits)

lemma eventless_harmless:
  assumes "resembles s0 s"
  shows "harmless (recover_eventless_successful_patch_turn_for_status C s t u expected)"
proof (cases "next_action s = RequestPrimaryIntegration")
  case True
  with assms have "next_action s0 = RequestPrimaryIntegration" by (simp add: resembles_fields)
  then show ?thesis
    unfolding recover_eventless_successful_patch_turn_for_status_def eventless_pending_def new_patch_commit_def
    by (auto intro!: harmless_steps evidence_harmless logged_call refreshed)
next
  case False
  then have "allowed Not (eventless_successful_patch_turn_matches C s t u expected)"
    unfolding eventless_successful_patch_turn_matches_def by (auto intro!: logged.of_result)
  then show ?thesis
    unfolding recover_eventless_successful_patch_turn_for_status_def
    by (rule logged.and_then)
       (rule logged.and_then [where Q = "\<lambda>_. False"], auto intro!: logged.of_result simp: ensure_def)
qed

lemma saved_change_harmless:
  assumes "\<And>u s'. op s = (Inr u, s') \<Longrightarrow> resembles s s'"
  shows "allowed (resembles s) (saved_change C expected op s)"
proof -
  have "allowed (resembles s) (change op s)" by (rule logged.change) (rule assms)
  then show ?thesis
    unfolding saved_change_def
    by (auto intro!: logged.of_result intro: logged.and_then then_harmless [OF logged.save])
qed

lemma idle_loop_harmless:
  assumes "harmless look"
  shows "allowed (\<lambda>(d, s'). resembles s s') (idle_loop C look summary mark what late n latest s)"
proof (induction n arbitrary: latest s)
  case (Suc n)
  have "allowed (\<lambda>(d, s'). resembles s s') (idle_loop C look summary mark what late n latest' s')"
    if "resembles s s'" for latest' s'
    by (rule ensures_mono [OF Suc.IH]) (use that in \<open>auto intro: resembles_trans\<close>)
  then show ?case
    by (auto intro!: harmless_steps evidence_harmless assms
        logged.and_then [OF saved_change_harmless] simp: waiting_resembles)
qed (simp add: logged.given_up)

lemma idle_harmless:
  "allowed (\<lambda>(d, s'). resembles s s') (wait_until_idle C s t)"
  "allowed (\<lambda>(d, s'). resembles s s') (wait_until_idle_summary C s t)"
  unfolding wait_until_idle_def wait_until_idle_summary_def start_deadline_def
  by (intro then_harmless logged.instant idle_loop_harmless evidence_harmless TrueI)+

subsection \<open>Preparing the task\<close>

lemma resumed_harmless: "allowed (\<lambda>(d, s'). resembles s s') (resumed_when_idle C s t policy)"
  unfolding resumed_when_idle_def
  by (auto intro!: harmless_steps idle_harmless)

lemma tool_harmless: "harmless (require_patch_tool C t)" "harmless (load_history C s)" "harmless (read_source C s)"
  unfolding require_patch_tool_def load_history_def read_source_def
  by (auto intro!: harmless_steps)

lemma direct_harmless: "harmless (activate_direct_primary_binding C r source)"
  unfolding activate_direct_primary_binding_def
  by (auto intro!: harmless_steps evidence_harmless)

lemma fork_harmless:
  assumes "resembles s0 s"
  shows "harmless (create_ephemeral_primary_binding_with_pending_rotation C s source rotating)"
proof -
  have "rf_primary_thread_id (facts s) = rf_primary_thread_id (facts s0)" by (simp add: resembles_fields [OF assms])
  then show ?thesis
    unfolding create_ephemeral_primary_binding_with_pending_rotation_def Let_def
    by (auto intro!: harmless_steps tool_harmless logged_call forked split: option.splits)
qed

lemma recreate_harmless:
  assumes "resembles s0 s"
  shows "allowed (\<lambda>(b, s'). resembles s s') (recreate_ephemeral_primary_binding_with_pending_rotation C s rotating)"
proof -
  have rest: "allowed (\<lambda>(b, s'). resembles s s')
      (and_then (of_result (require_idle_thread source d)) (\<lambda>_.
       and_then (create_ephemeral_primary_binding_with_pending_rotation C s' source rotating) (\<lambda>b. answer (b, s'))))"
    if "resembles s s'" for s' source d
    using that resembles_trans [OF assms that]
    by (auto intro!: harmless_steps fork_harmless)
  have ready: "allowed (\<lambda>(b, s'). resembles s s')
      (case runtime of Active \<Rightarrow> wait_until_idle C s t | NotLoaded \<Rightarrow> resumed_when_idle C s t policy
       | Idle \<Rightarrow> answer (source, s) | SystemError \<Rightarrow> refuse e)" for runtime t policy source e
    by (auto intro!: idle_harmless resumed_harmless logged.refuse logged.of_result split: thread_runtime_status.splits)
  show ?thesis
    unfolding recreate_ephemeral_primary_binding_with_pending_rotation_def Let_def
    by (rule then_harmless [OF tool_harmless(3)], rule then_harmless [OF logged.of_result], simp,
        rule logged.and_then [OF ready]) (clarify, rule rest)
qed

lemma binding_state_harmless: "harmless (ephemeral_binding_state C r b)"
  unfolding ephemeral_binding_state_def
  by (auto intro!: harmless_steps evidence_harmless logged.whatever [where Q = "\<lambda>_. True"] split: option.splits)

lemma continued_harmless:
  assumes "resembles s0 s"
  shows "allowed (\<lambda>(b, s'). resembles s s') (continued_binding C s b)"
  unfolding continued_binding_def Let_def
  by (auto intro!: harmless_steps evidence_harmless binding_state_harmless recreate_harmless [OF assms])

lemma first_harmless:
  "resembles s0 s \<Longrightarrow> allowed (\<lambda>(b, s'). resembles s s') (first_binding C n s)"
proof (induction n arbitrary: s)
  case (Suc n)
  have again: "allowed (\<lambda>(b, s'). resembles s s') (first_binding C n s')" if "resembles s s'" for s'
    by (rule ensures_mono [OF Suc.IH [OF resembles_trans [OF Suc.prems that]]])
       (use that in \<open>auto intro: resembles_trans\<close>)
  show ?case
    unfolding first_binding.simps Let_def
    by (auto intro!: harmless_steps evidence_harmless tool_harmless direct_harmless fork_harmless [OF Suc.prems]
        logged.and_then [OF idle_harmless(1)] logged.and_then [OF resumed_harmless] again
        split: thread_runtime_status.splits)
qed (simp add: logged.given_up)

lemma binding_harmless:
  assumes "resembles s0 s"
  shows "allowed (\<lambda>(b, s'). resembles s s') (ensure_primary_participant_binding C s)"
  unfolding ensure_primary_participant_binding_def
  by (auto intro!: harmless_steps continued_harmless first_harmless assms split: option.splits)

lemma prepared_thread_harmless:
  "allowed (resembles s) (prepare_ephemeral_thread C t s)"
  "allowed (resembles s) (prepare_stored_thread C role t s)"
proof -
  show "allowed (resembles s) (prepare_ephemeral_thread C t s)"
    unfolding prepare_ephemeral_thread_def
    by (auto intro!: logged.and_then [OF idle_harmless(2)] harmless_steps tool_harmless)
  have "allowed (resembles s) (and_then (resumed_when_idle C s1 t policy) (\<lambda>(ready, s2).
      and_then (of_result (require_idle_thread ready d)) (\<lambda>_.
      and_then (if role = Primary then require_patch_tool C t else answer ()) (\<lambda>_. answer s2))))"
    if "resembles s s1" for s1 policy d
    using that
    by (auto intro!: logged.and_then [OF resumed_harmless] harmless_steps tool_harmless intro: resembles_trans)
  then show "allowed (resembles s) (prepare_stored_thread C role t s)"
    unfolding prepare_stored_thread_def
    by (auto intro!: logged.and_then [OF idle_harmless(1)] then_harmless [OF logged.of_result])
qed

lemma prepare_harmless:
  assumes "resembles s0 s"
  shows "allowed (\<lambda>(b, s'). resembles s s') (prepare_action_thread C s role)"
proof -
  have bound: "allowed (\<lambda>(b, s'). resembles s s')
      (if role = Primary
       then and_then (ensure_primary_participant_binding C s) (\<lambda>(b, s'). answer (Some b, s')) else answer (None, s))"
    by (auto intro!: logged.of_result logged.and_then [OF binding_harmless [OF assms]])
  have rest: "allowed (\<lambda>(b, s'). resembles s s')
      (and_then (if ephemeral then prepare_ephemeral_thread C t s1 else prepare_stored_thread C role t s1)
        (\<lambda>s2. answer (p, s2)))" if "resembles s s1" for s1 ephemeral t p
    using that
    by (auto intro!: logged.and_then [OF prepared_thread_harmless(1)] logged.and_then [OF prepared_thread_harmless(2)]
        logged.of_result intro: resembles_trans)
  show ?thesis
    unfolding prepare_action_thread_def Let_def
    by (rule logged.and_then [OF bound]) (clarify, rule rest)
qed

lemma recorded_harmless: "harmless (recorded_pending C s role h b)"
  unfolding recorded_pending_def Let_def
  by (auto intro!: harmless_steps evidence_harmless split: option.splits)

lemma recovered_turn_harmless: "harmless (recovered_turn C s h p ephemeral t)"
  unfolding recovered_turn_def
  by (auto intro!: harmless_steps split: option.splits)

lemma prepared_harmless:
  assumes "resembles s0 s"
  shows "allowed (\<lambda>(role, prepared, s'). resembles s s') (prepared_role_thread C s action)"
  unfolding prepared_role_thread_def prepared_completed_pending_action_thread_def
  by (auto intro!: harmless_steps logged.and_then [OF prepare_harmless [OF assms]] split: option.splits)

end

text \<open>A turn that is sent, and the requests its task makes.\<close>

locale effect_condition = task_effects C s0 Q
  for C :: coordinator and s0 :: run_state and Q :: "effect \<times> store \<Rightarrow> bool" +
  assumes accepted: "granted (co_libs C) s0 ev \<Longrightarrow> Q (RequestAnswered ev response, st)"
    and declined: "response \<noteq> decision ''accept'' \<Longrightarrow> Q (RequestAnswered ev response, st)"
    and sent: "announced (co_libs C) s0 prompt st \<Longrightarrow> turn_policy s0 (next_action s0) role = Inr policy
      \<Longrightarrow> Q (TurnSent thread_id prompt policy, st)"
begin

lemma respond_harmless: "(response = decision ''accept'' \<Longrightarrow> granted (co_libs C) s0 ev) \<Longrightarrow>
  harmless (respond C ev key response)"
  unfolding respond_def by (rule logged_call) (cases "response = decision ''accept''"; simp add: accepted declined)

lemma request_harmless:
  assumes "resembles s0 s"
  shows "harmless (handle_execution_request C s ev)"
proof -
  have g: "granted (co_libs C) s ev \<longleftrightarrow> granted (co_libs C) s0 ev" by (rule granted_resembles [OF assms])
  have d: "decision ''cancel'' \<noteq> decision ''accept''" "no_permissions \<noteq> decision ''accept''"
    by (simp_all add: decision_def no_permissions_def json_object_def obj_of_def)
  show ?thesis
    unfolding handle_execution_request_def answer_command_def answer_file_change_def Let_def
    using g d
    by (auto split: option.splits simp: granted_def
        intro!: then_harmless respond_harmless logged.refuse logged.of_result)
qed

lemma event_harmless:
  assumes "resembles s0 s"
  shows "harmless (consume_turn_event C s t u ev)"
  unfolding consume_turn_event_def record_event_def
  by (auto intro!: harmless_steps request_harmless [OF assms])

lemma drain_harmless: "resembles s0 s \<Longrightarrow> harmless (drain_events C s t u n)"
  by (induction n) (auto intro!: harmless_steps event_harmless evidence_harmless split: poll.splits)

lemma turn_loop_harmless: "resembles s0 s \<Longrightarrow> harmless (turn_loop C s t u n latest)"
  by (induction n arbitrary: latest)
     (auto intro!: harmless_steps event_harmless evidence_harmless drain_harmless
       simp: drain_completed_turn_events_def Let_def split: poll.splits option.splits)

lemma idle_without_evidence_harmless:
  "resembles s0 s \<Longrightarrow> harmless (idle_without_evidence C s t u summary since)"
  unfolding idle_without_evidence_def Let_def
  by (auto intro!: harmless_steps evidence_harmless eventless_harmless)

lemma ephemeral_loop_harmless: "resembles s0 s \<Longrightarrow> harmless (ephemeral_loop C s t u n latest since)"
  by (induction n arbitrary: latest since)
     (auto intro!: harmless_steps event_harmless evidence_harmless idle_without_evidence_harmless
       split: poll.splits option.splits)

lemma response_harmless: "resembles s0 s \<Longrightarrow> harmless (wait_for_turn_response C s t u ephemeral)"
  unfolding wait_for_turn_response_def start_deadline_def
  by (auto intro!: harmless_steps turn_loop_harmless ephemeral_loop_harmless)

lemma intent_announced:
  assumes s: "resembles s0 s" and prompt: "suffix (delivery_identity (co_libs C) h) prompt"
    and st: "record_turn_start_intent now (run_id_of C s) h st = Inr (u, st')"
  shows "announced (co_libs C) s0 prompt st'"
proof -
  let ?p = "\<lambda>t. open_turn (run_id_of C s0) t \<and> tn_hash t = h \<and> tn_thread t = None \<and> tn_turn t = None"
  let ?f = "\<lambda>t. t\<lparr>tn_capability := Some PARTICIPANT_CAPABILITY_GENERATION,
    tn_intent := (case tn_intent t of None \<Rightarrow> Some now | Some i \<Rightarrow> Some i)\<rparr>"
  have "count_rows ?p (st_turns st) = 1" and st': "st' = st\<lparr>st_turns := update_rows ?p ?f (st_turns st)\<rparr>"
    using st unfolding record_turn_start_intent_def resembles_run_id [OF s] by (simp_all add: outcome)
  then have "filter ?p (st_turns st) \<noteq> []" by (auto simp: count_rows_def)
  then obtain row where row: "row \<in> set (st_turns st)" "?p row" by (auto simp: filter_empty_conv)
  then have "?f row \<in> set (st_turns st')" using update_rows_member [of row "st_turns st" ?p ?f] by (simp add: st')
  moreover have "tn_intent (?f row) \<noteq> None" "open_turn (run_id_of C s0) (?f row)" "tn_hash (?f row) = h"
    "tn_thread (?f row) = None" "tn_turn (?f row) = None"
    using row(2) by (simp_all add: open_turn_def split: option.splits)
  ultimately show ?thesis
    using prompt unfolding announced_def run_id_of_def by metis
qed

lemma send_harmless:
  assumes s: "resembles s0 s" "action = next_action s0" and prompt: "suffix (delivery_identity (co_libs C) h) prompt"
  shows "harmless (send_turn C s action role h t prompt p detail)"
proof -
  have policy: "turn_policy s action role = turn_policy s0 (next_action s0) role"
    by (cases role) (simp_all add: turn_policy_def s(2) resembles_fields [OF s(1)])
  show ?thesis
    unfolding send_turn_def task_is_active_def Let_def policy
    by (auto intro!: then_harmless logged.of_result evidence_harmless logged.transact_at logged.result_at
        logged_call_at harmless_steps intro: sent [OF intent_announced [OF s(1) prompt]]
        split: option.splits)
qed

lemma prompt_suffix: "turn_prompt T st s role action p h b = Inr prompt \<Longrightarrow> suffix (delivery_identity T h) prompt"
  by (auto simp: turn_prompt_def outcome suffix_def)

lemma verification_harmless: "harmless (frozen_verification C s h u)"
  by (auto simp: ensures_def frozen_verification_def Let_def logs_def split: prod.splits)

lemma acceptance_harmless:
  "harmless (audited_message C s action h u response turn)" "harmless (applied_message C s m)"
  unfolding audited_message_def applied_message_def Let_def
  by (auto intro!: harmless_steps logged.read_world verification_harmless split: prod.splits sum.splits)

lemma driven_harmless:
  assumes s: "resembles s0 s" "action = next_action s0"
  shows "harmless (driven_turn C action role prepared s)"
proof -
  have started: "harmless (started_turn C s action role h t prompt p ephemeral)"
    if "suffix (delivery_identity (co_libs C) h) prompt" for h t prompt p ephemeral
    unfolding started_turn_def
    by (auto intro!: then_harmless recovered_turn_harmless send_harmless [OF s that] harmless_steps split: option.splits)
  have prompt: "allowed (suffix (delivery_identity (co_libs C) h))
      (read_store C (\<lambda>st. turn_prompt (co_libs C) st s role action p h b))" for h p b
    by (rule logged.read_store) (rule prompt_suffix)
  show ?thesis
    unfolding driven_turn_def Let_def
    by (auto intro!: then_harmless tool_harmless logged.read_world logged.of_result logged.and_then [OF prompt]
        recorded_harmless started response_harmless [OF s(1)] acceptance_harmless split: turn_wait_outcome.splits)
qed

end

text \<open>The worktree of a verification is prepared first; nothing is sent meanwhile.\<close>

definition authorized_for :: "turn_libs \<Rightarrow> run_state \<Rightarrow> effect \<times> store \<Rightarrow> bool" where
  "authorized_for T s e \<longleftrightarrow>
     (\<exists>v. (next_action s = RequestPrimaryVerification \<or> v = verification_worktree s)
        \<and> authorized T (s\<lparr>verification_worktree := v\<rparr>) e)"

interpretation authorization: effect_condition C s "authorized (co_libs C) s" for C s
  by unfold_locales auto

lemma authorized_weaker:
  "(next_action s = RequestPrimaryVerification \<or> v = verification_worktree s) \<Longrightarrow>
   authorized T (s\<lparr>verification_worktree := v\<rparr>) e \<Longrightarrow> authorized_for T s e"
  unfolding authorized_for_def by blast

lemma logs_weaker: "logs Q w w' \<Longrightarrow> (\<And>e. Q e \<Longrightarrow> Q' e) \<Longrightarrow> logs Q' w w'"
  by (auto simp: logs_def list_all_iff)

lemma logs_mono: "ensures (logs Q) P m \<Longrightarrow> (\<And>e. Q e \<Longrightarrow> Q' e) \<Longrightarrow> ensures (logs Q') P m"
  using logs_weaker [of Q _ _ Q'] unfolding ensures_def by blast

lemma workspace_harmless:
  "ensures (logs Q) (\<lambda>s1. \<exists>v. s1 = s\<lparr>verification_worktree := v\<rparr>) (prepared_workspace C s)"
proof -
  have "ensures (logs Q) (\<lambda>_. True) (workspace_at C s sha destination recovering)" for sha destination recovering
    by (auto simp: ensures_def workspace_at_def logs_def Let_def split: prod.splits)
  then show ?thesis
    unfolding prepared_workspace_def Let_def pending_send_of_def
    by (auto intro!: logged.and_then [where Q = "\<lambda>_. True"] logged.of_result logged.read_store logged.save)
qed

lemma step_authorized: "ensures (logs (authorized_for (co_libs C) s)) (\<lambda>_. True) (drive_model_action C s (next_action s))"
proof -
  let ?Q = "authorized_for (co_libs C) s"
  let ?ready = "\<lambda>s1. \<exists>v. s1 = s\<lparr>verification_worktree := v\<rparr>
      \<and> (next_action s = RequestPrimaryVerification \<or> v = verification_worktree s)"
  have "ensures (logs ?Q) ?ready
      (if next_action s = RequestPrimaryVerification then prepared_workspace C s else answer s)"
    by (auto intro!: logged.of_result ensures_mono [OF workspace_harmless] exI [of _ "verification_worktree s"])
  moreover have "ensures (logs ?Q) (\<lambda>_. True) (and_then (prepared_role_thread C s1 (next_action s))
      (\<lambda>(role, prepared, s2). driven_turn C (next_action s) role prepared s2))" if ready: "?ready s1" for s1
  proof -
    from ready obtain v where s1: "s1 = s\<lparr>verification_worktree := v\<rparr>"
      and v: "next_action s = RequestPrimaryVerification \<or> v = verification_worktree s" by blast
    have "next_action s1 = next_action s" by (simp add: s1)
    then have "ensures (logs (authorized (co_libs C) s1)) (\<lambda>_. True) (and_then (prepared_role_thread C s1 (next_action s))
      (\<lambda>(role, prepared, s2). driven_turn C (next_action s) role prepared s2))"
      by (auto intro!: logged.and_then [OF authorization.prepared_harmless] authorization.driven_harmless)
    then show ?thesis by (rule logs_mono) (use v in \<open>auto simp: s1 intro: authorized_weaker\<close>)
  qed
  ultimately show ?thesis unfolding drive_model_action_def by (rule logged.and_then)
qed

subsection \<open>What a step grants and sends\<close>

definition requested_command :: "turn_libs \<Rightarrow> app_event \<Rightarrow> string option" where
  "requested_command T ev =
     map_option trim (Option.bind (str_field (ap_params ev) ''command'') (normalize_app_server_command (tl_policy T)))"

lemma step_effects:
  assumes "drive_model_action C s (next_action s) w = Some (r, w')"
  shows "\<exists>new. wd_log w' = wd_log w @ new \<and> (\<forall>e \<in> set new. authorized_for (co_libs C) s e)"
  using ensuresD(1) [OF step_authorized assms] unfolding logs_def by (auto simp: list_all_iff)

definition integration_request_granted :: "turn_libs \<Rightarrow> run_state \<Rightarrow> app_event \<Rightarrow> bool" where
  "integration_request_granted T s ev \<longleftrightarrow>
     ap_method ev = ''item/fileChange/requestApproval'' \<and> \<not> present (ap_params ev) ''grantRoot'' (\<lambda>_. True)
     \<or> ap_method ev = ''item/commandExecution/requestApproval''
       \<and> str_field (ap_params ev) ''cwd'' = path_to_str (rf_primary_worktree (facts s))
       \<and> (\<exists>command. requested_command T ev = Some command \<and> \<not> contains_shell_control (tl_policy T) command
            \<and> (is_allowed_git_command (tl_policy T) s command \<or> is_allowed_instruction_discovery (tl_policy T) command))"

definition verification_request_granted :: "turn_libs \<Rightarrow> run_state \<Rightarrow> app_event \<Rightarrow> bool" where
  "verification_request_granted T s ev \<longleftrightarrow>
     ap_method ev = ''item/commandExecution/requestApproval''
     \<and> (\<exists>required \<in> set (required_test_commands s).
          requested_command T ev = Some (trim required) \<and> validate_test_command (tl_policy T) required)"

lemma granted_explicit:
  assumes "granted T s ev"
  shows "next_action s = RequestPrimaryIntegration \<and> integration_request_granted T s ev
    \<or> next_action s = RequestPrimaryVerification \<and> verification_request_granted T s ev"
proof -
  have "\<exists>command. requested_command T ev = Some command \<and> \<not> contains_shell_control (tl_policy T) command
      \<and> command_in_allowlist (tl_policy T) s command
      \<and> str_field (ap_params ev) ''cwd'' = Option.bind (command_expected_cwd s) path_to_str"
    if "decide_command_approval (tl_policy T) s (ap_params ev) = approval_decision.Accept"
    using that
    by (auto simp: decide_command_approval_def command_approval_denial_def requested_command_def Let_def
        split: if_splits option.splits)
  then show ?thesis
    using assms unfolding granted_def integration_request_granted_def verification_request_granted_def
    by (auto simp: integration_write_def command_in_allowlist_def command_expected_cwd_def list_ex_iff
        split: next_action.splits)
qed



end
