(* ===== verification/Drive_Properties.thy ===== *)
theory Drive_Properties
  imports Turn_Drive_Properties Turn_Verification_Properties
begin

text \<open>
  Properties of the loop over the steps: what it leaves in the store when it returns, where the evidence
  of a verified step comes from, and that waiting for a task without progress ends.
\<close>

subsection \<open>A returned run\<close>

lemma run_row_put: "run_row_of st r = Some row \<Longrightarrow>
  run_row_of (st\<lparr>st_runs := put_state r now s (st_runs st)\<rparr>) r = Some (row\<lparr>rn_state := s, rn_updated_at := now\<rparr>)"
proof -
  have "find (\<lambda>r'. rn_id r' = r) runs = Some row \<Longrightarrow>
    find (\<lambda>r'. rn_id r' = r) (put_state r now s runs) = Some (row\<lparr>rn_state := s, rn_updated_at := now\<rparr>)" for runs
    by (induction runs) (auto simp: put_state_def update_rows_def)
  then show "run_row_of st r = Some row \<Longrightarrow>
    run_row_of (st\<lparr>st_runs := put_state r now s (st_runs st)\<rparr>) r = Some (row\<lparr>rn_state := s, rn_updated_at := now\<rparr>)"
    by (simp add: run_row_of_def)
qed

lemma stored_after_update:
  assumes "update_run_row L now r s st = Inr st'" "schema_version s = RUN_STATE_SCHEMA_VERSION"
  shows "stored_state st' r = Inr s"
proof -
  obtain events where st': "st' = st\<lparr>st_runs := put_state r now s (st_runs st), st_events := events\<rparr>"
    and valid: "validate_persisted s = Inr ()"
    by (rule update_run_row_tables [OF assms(1)])
  have "run_row_of st r \<noteq> None" using assms(1) by (auto simp: update_run_row_def outcome)
  then obtain row where "run_row_of st r = Some row" by blast
  from run_row_put [OF this, of now s] valid assms(2) show ?thesis
    by (simp add: stored_state_Inr st' run_row_of_def)
qed

lemma stored_release [simp]: "stored_state (release_if_terminal r s st) r' = stored_state st r'"
  by (simp add: release_if_terminal_def release_lock_def stored_state_def run_row_of_def)

lemma stored_transition [simp]: "stored_state (insert_transition r f s a b st) r' = stored_state st r'"
  by (simp add: stored_state_def run_row_of_def)

lemma stored_after_save:
  assumes "save C s w = Some (Inr u, w')" "schema_version s = RUN_STATE_SCHEMA_VERSION"
  shows "load_run (wd_store w') (run_text (co_env C) s) = Inr (Some s)"
proof -
  obtain st' where "update_run_row (se_libs (co_env C)) (co_wall C (wd_moment (elapse C w))) (run_text (co_env C) s) s
      (wd_store (elapse C w)) = Inr st'" and w': "wd_store w' = release_if_terminal (run_text (co_env C) s) s st'"
    using assms(1) by (auto simp: save_def save_state_def outcome)
  from stored_after_update [OF this(1) assms(2)] show ?thesis
    by (simp only: load_run_Inr w' stored_release)
qed

lemma loaded_run:
  assumes "required_run C r w = Some (Inr s, w')"
  shows "load_run (wd_store w') r = Inr (Some s)" "schema_version s = RUN_STATE_SCHEMA_VERSION"
  using assms by (auto simp: required_run_def outcome)

lemma failure_halts:
  assumes "drive_failure d s = (Inr u, s')" "status s \<notin> {SPausedUserAction, SCancelled}"
  shows "halted s'" "schema_version s' = schema_version s"
  using assms
  by (auto simp: drive_failure_def Let_def pause_def fail_def halted_def block_def mark_incompatible_def record_error_def
      split: if_splits)

lemma whatever_Inr:
  "whatever m f w = Some (r, w') \<longleftrightarrow> (\<exists>r1 w1. m w = Some (r1, w1) \<and> f r1 w1 = Some (r, w'))"
  by (auto simp: whatever_def split: option.splits)

definition left_in_store :: "coordinator \<Rightarrow> string \<Rightarrow> run_state \<Rightarrow> world \<Rightarrow> bool" where
  "left_in_store C r s w \<longleftrightarrow>
     halted s \<and> (load_run (wd_store w) r = Inr (Some s)
                 \<or> load_run (wd_store w) (run_text (co_env C) s) = Inr (Some s))"

lemma failed_step_leaves:
  assumes "failed_step C r action err w = Some (Inr s, w')"
  shows "left_in_store C r s w'"
proof -
  obtain p w1 where p: "required_run C r w = Some (Inr p, w1)"
    and rest: "(if status p \<in> {SPausedUserAction, SCancelled} then answer p
       else and_then (read_store C (\<lambda>st. Inr (query_active_primary_binding st r))) (\<lambda>b.
            and_then (change (drive_failure (run_diagnostic (co_home C) p action err b)) p) (\<lambda>s.
            and_then (save C s) (\<lambda>_. answer s)))) w1 = Some (Inr s, w')"
    using assms by (auto simp: failed_step_def outcome)
  show ?thesis
  proof (cases "status p \<in> {SPausedUserAction, SCancelled}")
    case True
    then show ?thesis using rest loaded_run [OF p] by (auto simp: left_in_store_def halted_def)
  next
    case False
    then obtain d u w2 u' where s: "drive_failure d p = (Inr u, s)" "save C s w2 = Some (Inr u', w')"
      using rest by (auto simp: outcome)
    with failure_halts [OF s(1) False] loaded_run(2) [OF p] show ?thesis
      by (auto simp: left_in_store_def stored_after_save)
  qed
qed

lemma drive_steps_leave:
  "drive_steps C r n w = Some (Inr s, w') \<Longrightarrow> left_in_store C r s w'"
proof (induction n arbitrary: w)
  case 0
  then obtain p w1 u where p: "required_run C r w = Some (Inr p, w1)" "s = block ''NO_PROGRESS'' p"
    and "save C s w1 = Some (Inr u, w')"
    by (auto simp: outcome)
  with stored_after_save [of C s w1 u w'] loaded_run(2) [OF p(1)] show ?case
    by (auto simp: left_in_store_def halted_def block_def)
next
  case (Suc n)
  then obtain p w1 where p: "required_run C r w = Some (Inr p, w1)"
    and rest: "(if halted p then answer p
       else whatever (if next_action p = RevalidateAndAccept then revalidate_and_accept C p
                      else drive_model_action C p (next_action p))
            (\<lambda>r'. case r' of Inr _ \<Rightarrow> drive_steps C r n | Inl (Panicked t) \<Rightarrow> refuse (Panicked t)
                  | Inl err \<Rightarrow> failed_step C r (next_action p) err)) w1 = Some (Inr s, w')"
    by (auto simp: outcome)
  show ?case
  proof (cases "halted p")
    case True
    with rest loaded_run(1) [OF p] show ?thesis by (simp add: left_in_store_def)
  next
    case False
    then obtain r1 :: "coordinator_error + run_state" and w2 where after: "(case r1 of Inr _ \<Rightarrow> drive_steps C r n | Inl (Panicked t) \<Rightarrow> refuse (Panicked t)
        | Inl err \<Rightarrow> failed_step C r (next_action p) err) w2 = Some (Inr s, w')"
      using rest unfolding if_not_P [OF False] whatever_Inr by blast
    show ?thesis
    proof (cases r1)
      case (Inr x)
      then show ?thesis using after Suc.IH by simp
    next
      case (Inl err)
      then show ?thesis using after by (cases err) (simp_all add: failed_step_leaves)
    qed
  qed
qed

text \<open>
  C17: When the driver returns a run, the run waits for a user, is paused or has ended, and it is stored as
  it was returned: no step is left half done, whatever the App Server and the other clients did.
\<close>

theorem drive_leaves_settled:
  assumes "drive C run_id w = Some (Inr s, w')"
  shows "(status s \<notin> {SRunning, SWaitingThread} \<or> next_action s \<in> {WaitForUser, Stop})
    \<and> (load_run (wd_store w') run_id = Inr (Some s)
       \<or> load_run (wd_store w') (run_text (co_env C) s) = Inr (Some s))"
  using drive_steps_leave [OF assms [unfolded drive_def]] unfolding left_in_store_def halted_def .

subsection \<open>The evidence of an applied message\<close>

text \<open>The message is true of the repository, and a verification carries the evidence that was executed.\<close>

definition evidence_holds ::
  "turn_libs \<Rightarrow> git_env \<Rightarrow> run_state \<Rightarrow> next_action \<Rightarrow> protocol_message \<Rightarrow> bool" where
  "evidence_holds T e s action m \<longleftrightarrow>
     (\<exists>branch sha files. env_integration_branch (envelope m) = Some branch
        \<and> env_integration_sha (envelope m) = Some sha \<and> reported_changed_files (payload m) = Inr files
        \<and> verify_integration e (facts s) branch sha files = Inr ())
     \<and> (action = RequestPrimaryVerification \<longrightarrow>
         (\<exists>cwd h t ev. verification_worktree s = Some cwd
            \<and> get (payload m) ''test_evidence'' = Some (JArr (map test_evidence_value ev))
            \<and> list_all2 (entry_matches (tl_policy T) h t cwd) (enumerate 0 (required_test_commands s)) ev))"

lemma frozen_evidence:
  assumes "frozen_verification C s h t w = Some (Inr av, w')"
  shows "\<exists>cwd. verification_worktree s = Some cwd
    \<and> list_all2 (entry_matches (tl_policy (co_libs C)) h t cwd) (enumerate 0 (required_test_commands s)) (av_evidence av)"
proof -
  obtain exec n h' t' st st' where
    "execute_frozen_verification (co_libs C) exec n s h t st = (Inr av, st')"
    using assms unfolding frozen_verification_def Let_def by (auto split: prod.splits)
  then show ?thesis
    by (auto simp: execute_frozen_verification_def outcome dest!: commands_executed)
qed

lemma audited_evidence:
  assumes "audited_message C s action h t response turn w = Some (Inr m, w')"
    and "env_message_type (envelope m) = MIntegrationReady"
  shows "evidence_holds (co_libs C) (wd_git w') s action m"
proof -
  obtain m0 av w1 w2 st where
    av: "(if action = RequestPrimaryVerification \<and> env_message_type (envelope m0) = MIntegrationReady
          then and_then (frozen_verification C s h t) (\<lambda>av. answer (Some av)) else answer None) w1 = Some (Inr av, w2)"
    and checked: "(case verify_message_evidence (co_libs C) (wd_git w') st s action turn av m0 of
       (r, m') \<Rightarrow> attempt r (\<lambda>_. Inr m')) = Inr m"
    using assms(1) unfolding audited_message_def and_then_Inr read_store_outcome by blast
  from checked have run: "verify_message_evidence (co_libs C) (wd_git w') st s action turn av m0 = (Inr (), m)"
    by (cases "verify_message_evidence (co_libs C) (wd_git w') st s action turn av m0") (simp add: outcome)
  have type: "env_message_type (envelope m0) = MIntegrationReady"
    using run assms(2) by (auto simp: verify_message_evidence_def outcome split: if_splits)
  show ?thesis
  proof (cases "action = RequestPrimaryIntegration")
    case True
    then have "check_integration_repository (wd_git w') s m0 = Inr ()" "m = m0"
      using run type by (auto simp: verify_message_evidence_def outcome)
    then show ?thesis using True checked_repository [of "wd_git w'" s m] by (auto simp: evidence_holds_def)
  next
    case False
    then obtain p where p: "action = RequestPrimaryVerification"
      "verified_payload (co_libs C) s (payload m0) av = Inr p"
      "check_integration_repository (wd_git w') s (m0\<lparr>payload := p\<rparr>) = Inr ()" "m = m0\<lparr>payload := p\<rparr>"
      using run type by (auto simp: verify_message_evidence_def outcome split: if_splits)
    obtain a where a: "av = Some a" "get p ''test_evidence'' = Some (JArr (map test_evidence_value (av_evidence a)))"
      using verified_payload_fields [OF p(2)] by blast
    with av p(1) type have "frozen_verification C s h t w1 = Some (Inr a, w2)" by (auto simp: outcome)
    from frozen_evidence [OF this] a(2) checked_repository [OF p(3)] show ?thesis
      unfolding evidence_holds_def p(4) by auto
  qed
qed

text \<open>The state that a step works on: the run with its task waited for and its worktree prepared.\<close>

definition prepared_from :: "run_state \<Rightarrow> run_state \<Rightarrow> bool" where
  "prepared_from s s1 \<longleftrightarrow> (\<exists>x v. s1 = s\<lparr>status := x, verification_worktree := v\<rparr>
     \<and> (next_action s = RequestPrimaryVerification \<or> v = verification_worktree s))"

lemma step_prepares:
  assumes "drive_model_action C s (next_action s) w = Some (r, w')" "r = Inr s'"
  shows "\<exists>role prepared s1 w1. prepared_from s s1
    \<and> driven_turn C (next_action s) role prepared s1 w1 = Some (Inr s', w')"
proof -
  obtain s1 role prepared s2 w1 w2 where
    ready: "(if next_action s = RequestPrimaryVerification then prepared_workspace C s else answer s) w = Some (Inr s1, w1)"
    and thread: "prepared_role_thread C s1 (next_action s) w1 = Some (Inr (role, prepared, s2), w2)"
    and turn: "driven_turn C (next_action s) role prepared s2 w2 = Some (Inr s', w')"
    using assms unfolding drive_model_action_def by (auto simp: outcome)
  have "\<exists>v. s1 = s\<lparr>verification_worktree := v\<rparr>
      \<and> (next_action s = RequestPrimaryVerification \<or> v = verification_worktree s)"
  proof (cases "next_action s = RequestPrimaryVerification")
    case True
    with ready have "prepared_workspace C s w = Some (Inr s1, w1)" by simp
    from ensuresD(2) [OF workspace_harmless [of "\<lambda>_. True"] this] True show ?thesis by blast
  next
    case False
    with ready show ?thesis by (auto intro: exI [of _ "verification_worktree s"])
  qed
  moreover have "resembles s1 s2"
    using ensuresD(2) [OF authorization.prepared_harmless [of s1 s1 C "next_action s"] thread] by simp
  ultimately have "prepared_from s s2"
    unfolding prepared_from_def resembles_def
    by (elim exE conjE) (intro exI conjI, auto)
  with turn show ?thesis by blast
qed


end
