(* ===== verification/Turn_Wait_Properties.thy ===== *)
theory Turn_Wait_Properties
  imports Turn_Wait Conversation_Rules
begin

text \<open>
  Waiting for a task ends: a task that makes no progress is given up at the deadline, however long it
  stays active. \<open>co_patience\<close> rounds are enough for that, so the bound of the model is not reached.
\<close>

lemma parts_return [returning]:
  "returns (cancelled_meanwhile C s what)" "returns (progressed C mark latest)"
  "returns (before_deadline C deadline detail)" "returns (read_identified C t)"
  "returns (read_summary_identified C t)"
  "returns (saved_change C expected op s)"
  unfolding cancelled_meanwhile_def progressed_def before_deadline_def read_identified_def
    read_summary_identified_def saved_change_def
  by (auto intro!: returning)

lemma parts_later:
  "ensures later (\<lambda>_. True) (cancelled_meanwhile C s what)"
  "ensures later (\<lambda>_. True) (read_identified C t)"
  "ensures later (\<lambda>_. True) (read_summary_identified C t)"
  "ensures later (\<lambda>_. True) (saved_change C expected op s)"
  unfolding cancelled_meanwhile_def read_identified_def read_summary_identified_def saved_change_def
  by (auto intro!: clocked.and_then [where Q = "\<lambda>_. True"] clocked.required_run clocked.of_result clocked.readings
      clocked.change clocked.save)

lemma ended: "and_then m f w = None \<Longrightarrow> returns m \<Longrightarrow>
  (\<And>x w1. m w = Some (Inr x, w1) \<Longrightarrow> f x w1 = None \<Longrightarrow> P) \<Longrightarrow> P"
  by (erule returnsE [of m w]) (auto simp: and_then_def whatever_def of_result_def split: sum.splits)

text \<open>One round that does not end the wait.\<close>

lemma idle_round:
  assumes loop: "idle_loop C look summary mark what late (Suc n) latest s w = None"
    and look: "returns look" "ensures later (\<lambda>d. mark d = f) look"
  shows "\<exists>wa wb wc s' d. later w wa \<and> later wa wb \<and> wd_moment wc = wd_moment wb + 1
    \<and> d = (if fst latest = Some f then snd latest else co_clock C (wd_moment wa) + co_wait_timeout C)
    \<and> co_clock C (wd_moment wb) < d \<and> idle_loop C look summary mark what late n (Some f, d) s' wc = None"
proof -
  obtain w1 x where c: "cancelled_meanwhile C s what w = Some (Inr x, w1)"
    and after: "and_then look (\<lambda>d. and_then (progressed C (mark d) latest) (\<lambda>latest'.
     if \<not> is_active (summary d) then
       and_then (saved_change C SWaitingThread thread_became_idle s) (\<lambda>s'. answer (d, s'))
     else
       and_then (saved_change C SRunning wait_for_thread s) (\<lambda>s'.
       and_then (before_deadline C (snd latest') late) (\<lambda>_.
       and_then (pause_for C) (\<lambda>_. idle_loop C look summary mark what late n latest' s'))))) w1 = None"
    using loop unfolding idle_loop.simps by (rule ended) (rule returning)
  from after obtain d wa where d: "look w1 = Some (Inr d, wa)"
    and after: "and_then (progressed C (mark d) latest) (\<lambda>latest'.
     if \<not> is_active (summary d) then
       and_then (saved_change C SWaitingThread thread_became_idle s) (\<lambda>s'. answer (d, s'))
     else
       and_then (saved_change C SRunning wait_for_thread s) (\<lambda>s'.
       and_then (before_deadline C (snd latest') late) (\<lambda>_.
       and_then (pause_for C) (\<lambda>_. idle_loop C look summary mark what late n latest' s')))) wa = None"
    by (rule ended) (rule look)
  have mark: "mark d = f" "later w1 wa" using ensuresD [OF look(2) d] by simp_all
  define dl where "dl = (if fst latest = Some f then snd latest else co_clock C (wd_moment wa) + co_wait_timeout C)"
  have p: "progressed C (mark d) latest wa = Some (Inr (Some f, dl), wa)"
    by (cases latest) (simp add: progressed_def mark and_then_def whatever_def instant_def of_result_def dl_def)
  have "(if \<not> is_active (summary d) then
       and_then (saved_change C SWaitingThread thread_became_idle s) (\<lambda>s'. answer (d, s'))
     else
       and_then (saved_change C SRunning wait_for_thread s) (\<lambda>s'.
       and_then (before_deadline C dl late) (\<lambda>_.
       and_then (pause_for C) (\<lambda>_. idle_loop C look summary mark what late n (Some f, dl) s')))) wa = None"
    using after unfolding and_then_runs [where m = "progressed C (mark d) latest", OF p] snd_conv .
  moreover have "and_then (saved_change C SWaitingThread thread_became_idle s) (\<lambda>s'. answer (d, s')) wa \<noteq> None"
    using and_then_returns [OF parts_return(6) steps_return(1)] unfolding returns_def by fastforce
  ultimately have "and_then (saved_change C SRunning wait_for_thread s) (\<lambda>s'.
       and_then (before_deadline C dl late) (\<lambda>_.
       and_then (pause_for C) (\<lambda>_. idle_loop C look summary mark what late n (Some f, dl) s'))) wa = None"
    by (cases "is_active (summary d)") (simp_all only: not_True_eq_False not_False_eq_True if_True if_False)
  then obtain s' wb where s': "saved_change C SRunning wait_for_thread s wa = Some (Inr s', wb)"
    and after: "and_then (before_deadline C dl late) (\<lambda>_.
       and_then (pause_for C) (\<lambda>_. idle_loop C look summary mark what late n (Some f, dl) s')) wb = None"
    by (rule ended) (rule returning)
  have last: "co_clock C (wd_moment wb) < dl \<and> idle_loop C look summary mark what late n (Some f, dl) s' (elapse C wb) = None"
    using after by (auto simp: before_deadline_def and_then_def whatever_def instant_def of_result_def pause_for_def ensure_def
      split: if_splits)
  have "later w wa" "later wa wb"
    using clocked.trans [OF ensuresD(1) [OF parts_later(1) c] mark(2)] ensuresD(1) [OF parts_later(4) s'] by simp_all
  with last show ?thesis
    by (intro exI [of _ wa] exI [of _ wb] exI [of _ "elapse C wb"] exI [of _ s'] exI [of _ dl]) (simp add: dl_def)
qed

lemma timed_out:
  assumes "strict_mono (co_clock C)" "returns look" "ensures later (\<lambda>d. mark d = f) look"
  shows "0 < n \<Longrightarrow> d < co_clock C (wd_moment w) + n \<Longrightarrow> idle_loop C look summary mark what late n (Some f, d) s w \<noteq> None"
proof (induction n arbitrary: s w)
  case (Suc n)
  show ?case
  proof
    assume "idle_loop C look summary mark what late (Suc n) (Some f, d) s w = None"
    from idle_round [OF this assms(2,3)] obtain wa wb wc s' d' where
      later: "later w wa" "later wa wb" and w: "wd_moment wc = wd_moment wb + 1" "d' = (if fst (Some f, d) = Some f
        then snd (Some f, d) else co_clock C (wd_moment wa) + co_wait_timeout C)" "co_clock C (wd_moment wb) < d'"
      and rest: "idle_loop C look summary mark what late n (Some f, d') s' wc = None"
      by blast
    then have d: "d' = d" by simp
    have "co_clock C (wd_moment w) \<le> co_clock C (wd_moment wb)"
      using later strict_mono_mono [OF assms(1)] by (auto simp: later_def intro: monoD)
    moreover have "co_clock C (wd_moment wb) < co_clock C (wd_moment wc)"
      using w(1) strict_monoD [OF assms(1)] by simp
    ultimately have "0 < n" "d < co_clock C (wd_moment wc) + n" using Suc.prems(2) w(3) d by linarith+
    from Suc.IH [OF this] rest show False unfolding d by blast
  qed
qed simp

lemma idle_loop_ends:
  assumes "strict_mono (co_clock C)" "returns look" "ensures later (\<lambda>d. mark d = f) look"
    and "co_wait_timeout C + 2 \<le> n" "fst latest = None"
  shows "idle_loop C look summary mark what late n latest s w \<noteq> None"
proof
  assume none: "idle_loop C look summary mark what late n latest s w = None"
  obtain k where n: "n = Suc k" "co_wait_timeout C + 1 \<le> k" using assms(4) by (cases n) auto
  from idle_round [OF none [unfolded n(1)] assms(2,3)] obtain wa wb wc s' d where
    later: "later wa wb" and w: "wd_moment wc = wd_moment wb + 1" "d = (if fst latest = Some f
      then snd latest else co_clock C (wd_moment wa) + co_wait_timeout C)"
    and rest: "idle_loop C look summary mark what late k (Some f, d) s' wc = None"
    by blast
  have "co_clock C (wd_moment wa) < co_clock C (wd_moment wc)"
    using later w(1) strict_monoD [OF assms(1)] by (simp add: later_def)
  then have "d < co_clock C (wd_moment wc) + k" "0 < k" using n(2) w(2) assms(5) by simp_all
  from timed_out [OF assms(1-3) this(2,1)] rest show False by blast
qed

lemma attempts_ensure:
  assumes "\<And>n x. call n = Inr x \<Longrightarrow> P x"
  shows "ensures later P (attempts C final failed call n err)"
proof (induction n arbitrary: err)
  case (Suc n)
  have again: "ensures later P (and_then (if n = 0 then answer () else pause_for C) (\<lambda>_. attempts C final failed call n err))"
    for err
    by (rule clocked.and_then [where Q = "\<lambda>_. True"]) (auto intro!: clocked.of_result clocked.pause_for Suc.IH)
  have "ensures later P (case r of Inr x \<Rightarrow> answer x | Inl err \<Rightarrow> (case final err of Some e \<Rightarrow> refuse e
      | None \<Rightarrow> and_then (if n = 0 then answer () else pause_for C) (\<lambda>_. attempts C final failed call n err)))"
    if "\<forall>x. r = Inr x \<longrightarrow> P x" for r
    using that again by (auto intro!: clocked.of_result split: sum.split option.split)
  then show ?case
    unfolding attempts.simps
    by (intro clocked.and_then [OF clocked.ask [where P = "\<lambda>r. \<forall>x. r = Inr x \<longrightarrow> P x"]]) (simp_all add: assms)
qed (simp add: clocked.refuse)

text \<open>
  C29: Waiting for a task ends in every world: if the task shows the same canonical progress in every reading
  and the clock advances with every moment, then the coordinator gives up at the deadline at the latest,
  within \<open>co_wait_timeout + 2\<close> rounds.
\<close>

theorem stalled_wait_ends:
  assumes "strict_mono (co_clock C)" "co_wait_timeout C + 2 \<le> co_patience C"
    and "\<And>n d. sv_read_thread (co_server C) n thread_id = Inr d
      \<Longrightarrow> thread_progress_fingerprint (tl_core (co_libs C)) d = f"
  shows "\<exists>r w'. wait_until_idle C s thread_id w = Some (r, w')"
proof -
  have "ensures later (\<lambda>d. thread_progress_fingerprint (tl_core (co_libs C)) d = f) (read_identified C thread_id)"
    unfolding read_identified_def read_thread_with_retry_def with_retry_def
    by (rule clocked.and_then [OF attempts_ensure [OF assms(3)]])
       (auto intro!: clocked.and_then [where Q = "\<lambda>_. True"] clocked.of_result)
  from idle_loop_ends [OF assms(1) parts_return(4) this assms(2)] show ?thesis
    by (auto simp: wait_until_idle_def start_deadline_def and_then_def whatever_def instant_def split_paired_Ex)
qed

end
