(* ===== verification/Drive_Setting.thy ===== *)
theory Drive_Setting
  imports Drive_Properties Turn_Wait_Properties Turn_Example
begin

text \<open>
  The concrete setting of the examples of steps and requests: a server whose tasks are idle, a coordinator
  with it, and a run that waits for the contract of the Reviewer in a repository as it was frozen.
\<close>

definition idle_task :: "string \<Rightarrow> thread_summary" where
  "idle_task t = \<lparr>th_id = t, th_status = json_object [(''type'', JStr ''idle'')]\<rparr>"

definition idle_detail :: "json list \<Rightarrow> string \<Rightarrow> thread_detail" where
  "idle_detail ts t = \<lparr>td_summary = idle_task t, td_turns = ts\<rparr>"

definition permissions_event :: app_event where
  "permissions_event = \<lparr>ap_id = Some (JInt 7), ap_method = ''item/permissions/requestApproval'',
     ap_params = json_object [(''threadId'', JStr ''r''), (''turnId'', JStr ''u'')]\<rparr>"

definition idle_server :: "json list \<Rightarrow> poll \<Rightarrow> server" where
  "idle_server ts p = \<lparr>sv_read_thread = (\<lambda>n t. Inr (idle_detail ts t)), sv_read_thread_summary = (\<lambda>n t. Inr (idle_task t)),
     sv_resume_thread = (\<lambda>n t q. Inr (idle_detail ts t)), sv_fork_thread = (\<lambda>n t d. Inl (InvalidAppResponse [])),
     sv_get_thread_goal = (\<lambda>n t. Inr None), sv_list_mcp_server_status = (\<lambda>n t. Inr []),
     sv_start_turn = (\<lambda>n t p policy. Inr ''u''), sv_execute_command = (\<lambda>n c. Inl (InvalidAppResponse [])),
     sv_respond_to_request = (\<lambda>n k r. Inr ()), sv_refresh_connection = (\<lambda>n. Inr ()),
     sv_next_event = (\<lambda>n. p), sv_interrupt_turn = (\<lambda>n t u. Inr ()), sv_approval_mode = (\<lambda>n. Inr (Some ''approve''))\<rparr>"

definition idle_clone :: clone_ops where
  "idle_clone = \<lparr>co_create_dir_all = (\<lambda>p e. (Inr (), e)), co_remove_dir_all = (\<lambda>p e. (Inr (), e)),
     co_rename = (\<lambda>p q e. (Inr (), e)), co_git = (\<lambda>args e. (Inl [], e))\<rparr>"

definition idle_coordinator :: "json list \<Rightarrow> poll \<Rightarrow> coordinator" where
  "idle_coordinator ts p = \<lparr>co_libs = example_turn_libs, co_env = \<lparr>se_libs = example_libs, se_lossy = id\<rparr>,
     co_clone = idle_clone, co_apply = example_apply, co_server = idle_server ts p, co_attempts = 1, co_wait_timeout = 5, co_participant = [],
     co_home = None, co_clock = id, co_wall = int, co_others = (\<lambda>n x. x), co_patience = 7\<rparr>"

definition contract_run :: run_state where
  "contract_run = (new_run repository_facts)\<lparr>next_action := RequestReviewerContract\<rparr>"

definition contract_store :: store where
  "contract_store = (empty_store [])\<lparr>st_runs := [\<lparr>rn_id = ''id'', rn_state = contract_run,
     rn_primary_thread = ''p'', rn_reviewer_thread = ''r'', rn_updated_at = 0\<rparr>]\<rparr>"

definition world_at :: "nat \<Rightarrow> world" where
  "world_at n = \<lparr>wd_store = contract_store, wd_git = frozen_git, wd_moment = n, wd_log = []\<rparr>"

lemma stored_run: "load_run contract_store ''id'' = Inr (Some contract_run)"
proof -
  have "deserialize_state contract_run = Inr contract_run" 
    by (simp add: deserialize_state_def) code_simp
  then show ?thesis by (simp add: load_run_def run_row_of_def contract_store_def)
qed

lemma coordinator_simps [simp]:
  "co_attempts (idle_coordinator ts p) = 1" "co_wait_timeout (idle_coordinator ts p) = 5" "co_patience (idle_coordinator ts p) = 7"
  "co_clock (idle_coordinator ts p) = id" "tl_core (co_libs (idle_coordinator ts p)) = example_libs" "uuid_text example_libs n = ''id''"
  "co_server (idle_coordinator ts p) = (idle_server ts p)"
  by (simp_all add: idle_coordinator_def example_turn_libs_def example_libs_def)

lemma server_simps [simp]:
  "sv_read_thread (idle_server ts p) n t = Inr (idle_detail ts t)" "sv_resume_thread (idle_server ts p) n t q = Inr (idle_detail ts t)"
  by (simp_all add: idle_server_def)

lemma task_simps [simp]:
  "td_summary (idle_detail ts t) = idle_task t" "th_id (idle_task t) = t" "\<not> is_active (idle_task t)"
  "runtime_status (idle_detail ts t) = Inr Idle"
  by (simp_all add: idle_detail_def idle_task_def is_active_def runtime_status_def summary_runtime_status_def
     map_err_def str_field_def get_json_object)

lemma run_simps [simp]:
  "facts contract_run = repository_facts" "status contract_run = SRunning" "next_action contract_run = RequestReviewerContract"
  "integration_branch contract_run = None"
  by (simp_all add: contract_run_def new_run_def)

lemma elapse_at [simp]: "elapse (idle_coordinator ts p) (world_at n) = world_at (n + 1)"
  by (simp add: elapse_def idle_coordinator_def world_at_def)

lemma world_simps [simp]: "wd_store (world_at n) = contract_store" "wd_git (world_at n) = frozen_git" "wd_moment (world_at n) = n"
  by (simp_all add: world_at_def)

lemma required [simp]: "required_run (idle_coordinator ts p) ''id'' (world_at n) = Some (Inr contract_run, world_at (Suc n))"
  by (simp add: required_run_def read_store_def stored_run map_err_def ok_or_def)

lemma readings_at [simp]:
  "read_thread_with_retry (idle_coordinator ts p) t (world_at n) = Some (Inr (idle_detail ts t), world_at (Suc n))"
  "resume_thread_with_retry (idle_coordinator ts p) t q (world_at n) = Some (Inr (idle_detail ts t), world_at (Suc n))"
  by (simp_all add: read_thread_with_retry_def resume_thread_with_retry_def with_retry_def and_then_def whatever_def
      ask_def of_result_def)

end
