(* ===== verification/Drive_Example.thy ===== *)
theory Drive_Example
  imports Drive_Setting
begin

text \<open>
  A concrete step of a run: the contract of the Reviewer is requested from a server whose tasks are idle.
  In one example the task asks for permissions, in the other it answers that it is blocked. The text of
  the prompt is a variable where the rest is evaluated.
\<close>

lemma prepared_at: "prepared_role_thread (idle_coordinator ts p) contract_run RequestReviewerContract (world_at n)
    = Some (Inr (Reviewer, \<lparr>pt_thread = ''r'', pt_binding = None\<rparr>, contract_run), world_at (n + 3))"
  by (simp add: prepared_role_thread_def prepared_completed_pending_action_thread_def prepare_action_thread_def
     prepare_stored_thread_def wait_until_idle_def resumed_when_idle_def start_deadline_def
     idle_loop.simps numeral_eq_Suc cancelled_meanwhile_def read_identified_def progressed_def saved_change_def
     and_then_def whatever_def of_result_def instant_def ensure_def ok_or_def
     verify_requested_thread_identity_def verify_requested_thread_summary_identity_def run_id_of_def
     action_resume_policy_def require_idle_thread_def ephemeral_mode_def Let_def repository_facts_def)

lemma prompt_at: "\<exists>prompt. turn_prompt (co_libs (idle_coordinator ts p)) st contract_run Reviewer RequestReviewerContract (JObj es) h None = Inr prompt"
proof -
  have "list_all utf8 (metadata_paths repository_facts)" by code_simp
  then show ?thesis
    by (simp add: turn_prompt_def build_turn_prompt_def validate_request_def ensure_def ok_or_def map_err_def)
qed

lemma payload_at: "\<exists>es. build_action_payload example_libs contract_run RequestReviewerContract = Inr (JObj es)"
  by (simp add: build_action_payload_def json_object_def)

definition sending :: "json list \<Rightarrow> poll \<Rightarrow> string \<Rightarrow> run_state action" where
  "sending ts p prompt =
     and_then (recorded_pending (idle_coordinator ts p) contract_run Reviewer example_digest None) (\<lambda>pending.
     and_then (started_turn (idle_coordinator ts p) contract_run RequestReviewerContract Reviewer example_digest ''r'' prompt pending False) (\<lambda>turn_id.
     and_then (wait_for_turn_response (idle_coordinator ts p) contract_run ''r'' turn_id False) (\<lambda>outcome.
      case outcome of
        RetryAction \<Rightarrow> answer contract_run
      | TurnCompleted response turn \<Rightarrow>
          and_then (audited_message (idle_coordinator ts p) contract_run RequestReviewerContract example_digest turn_id response turn)
            (applied_message (idle_coordinator ts p) contract_run))))"

lemma turn_at:
  "\<exists>prompt. drive_model_action (idle_coordinator ts p) contract_run RequestReviewerContract (world_at n) = sending ts p prompt (world_at (n + 7))"
proof -
  obtain es where body: "build_action_payload example_libs contract_run RequestReviewerContract = Inr (JObj es)"
    using payload_at by blast
  obtain prompt where q: "turn_prompt (co_libs (idle_coordinator ts p)) contract_store contract_run Reviewer RequestReviewerContract (JObj es) example_digest None = Inr prompt"
    using prompt_at by blast
  have h: "request_hash example_libs s a v = example_digest" for s a v
    by (simp add: request_hash_def canonical_json_hash_def example_libs_def)
  have g: "revalidate_before_action (co_libs (idle_coordinator ts p)) frozen_git contract_store contract_run RequestReviewerContract = Inr ()"
    by (simp add: revalidate_before_action_def frozen_example map_err_def)
  have l: "load_history (idle_coordinator ts p) contract_run (world_at m) = Some (Inr (), world_at (Suc (Suc m)))" for m
    by (simp add: load_history_def and_then_def whatever_def of_result_def verify_thread_identity_def role_thread_id_def
        ensure_def repository_facts_def)
  note ready = and_then_runs [where m = "prepared_role_thread (idle_coordinator ts p) contract_run RequestReviewerContract", OF prepared_at]
    and_then_runs [where m = "load_history (idle_coordinator ts p) contract_run", OF l]
  have answered: "and_then (answer x) k w = k x w" for x :: 'x and k :: "'x \<Rightarrow> run_state action" and w
    by (rule and_then_runs) (simp add: of_result_def)
  have seen: "and_then (\<lambda>w. read_store (idle_coordinator ts p) (look w) w) k (world_at m) = k x (world_at (m + 1))"
    if "look (world_at m) contract_store = Inr x" for x :: 'x and k :: "'x \<Rightarrow> run_state action" and look m
    by (rule and_then_runs) (simp add: read_store_def that)
  show ?thesis
    by (rule exI [of _ prompt])
       (simp add: eval_nat_numeral drive_model_action_def driven_turn_def ready answered sending_def seen g body q h Let_def ephemeral_mode_def)
qed

text \<open>The task asks for permissions: it is refused, and the step fails.\<close>

fun sends :: "effect \<Rightarrow> bool" where
  "sends (TurnSent t prompt policy) = True"
| "sends eff = False"

lemma refused_example:
  "case sending [] (Event permissions_event) prompt (world_at 7) of None \<Rightarrow> False
   | Some (r, w) \<Rightarrow> map (sends \<circ> fst) (wd_log w) = [True, False]"
  by code_simp

lemma refused_step:
  obtains r w' where "drive_model_action (idle_coordinator [] (Event permissions_event)) contract_run
      RequestReviewerContract (world_at 0) = Some (r, w')" "map (sends \<circ> fst) (wd_log w') = [True, False]"
proof -
  obtain prompt where "drive_model_action (idle_coordinator [] (Event permissions_event)) contract_run
      RequestReviewerContract (world_at 0) = sending [] (Event permissions_event) prompt (world_at 7)"
    using turn_at [of "[]" "Event permissions_event" 0] by auto
  then show thesis using that refused_example [of prompt] by (auto split: option.splits prod.splits)
qed

definition blocked_turn :: json where
  "blocked_turn = json_object [(''id'', JStr ''u''), (''status'', JStr ''completed''),
     (''items'', JArr [json_object [(''type'', JStr ''agentMessage''), (''phase'', JStr ''final_answer''),
        (''text'', JStr ''<consensus-result>BLOCKED:NO_INPUT</consensus-result> why'')]])]"

lemma blocked_step_example:
  "case sending [blocked_turn] Silent prompt (world_at 7) of None \<Rightarrow> False
   | Some (r, w) \<Rightarrow> (case r of Inl err \<Rightarrow> False | Inr s \<Rightarrow> reason_code s = Some ''NO_INPUT'')"
  by code_simp


text \<open>The driver records the refusal in the stored run and returns it.\<close>

lemma driven_example:
  "case whatever (sending [] (Event permissions_event) prompt) (\<lambda>r. case r of
        Inr _ \<Rightarrow> drive_steps (idle_coordinator [] (Event permissions_event)) ''id'' 127
      | Inl (Panicked t) \<Rightarrow> refuse (Panicked t)
      | Inl err \<Rightarrow> failed_step (idle_coordinator [] (Event permissions_event)) ''id'' RequestReviewerContract err)
      (world_at 8) of None \<Rightarrow> False
   | Some (r, w) \<Rightarrow> (case r of Inl err \<Rightarrow> False | Inr s \<Rightarrow> reason_code s = Some ''FORBIDDEN_OPERATION'')"
  by code_simp




theorem drive_leaves_settled_witness:
  "\<exists>s w'. drive (idle_coordinator [] (Event permissions_event)) ''id'' (world_at 0) = Some (Inr s, w')
    \<and> reason_code s = Some ''FORBIDDEN_OPERATION'' \<and> load_run (wd_store w') ''id'' = Inr (Some s)"
proof -
  let ?C = "idle_coordinator [] (Event permissions_event)"
  obtain prompt where "drive_model_action ?C contract_run RequestReviewerContract (world_at 1)
      = sending [] (Event permissions_event) prompt (world_at 8)"
    using turn_at [of "[]" "Event permissions_event" 1] by auto
  then have "drive_steps ?C ''id'' (Suc 127) (world_at 0)
      = whatever (sending [] (Event permissions_event) prompt) (\<lambda>r. case r of
        Inr _ \<Rightarrow> drive_steps ?C ''id'' 127
      | Inl (Panicked t) \<Rightarrow> refuse (Panicked t)
      | Inl err \<Rightarrow> failed_step ?C ''id'' RequestReviewerContract err) (world_at 8)"
    unfolding drive_steps.simps(2) and_then_runs [where m = "required_run ?C ''id''", OF required]
    by (simp add: halted_def whatever_def)
  then obtain s w' where run: "drive ?C ''id'' (world_at 0) = Some (Inr s, w')"
    and reason: "reason_code s = Some ''FORBIDDEN_OPERATION''"
    using driven_example [of prompt] by (auto simp: drive_def MAX_DRIVER_STEPS_def split: option.splits prod.splits sum.splits)
  have "run_text (co_env ?C) s = ''id''" by (simp add: run_text_def idle_coordinator_def example_libs_def)
  with drive_leaves_settled [OF run] reason show ?thesis using run by auto
qed

definition busy_coordinator :: coordinator where
  "busy_coordinator = (idle_coordinator [] Silent)\<lparr>co_server := (idle_server [] Silent)\<lparr>sv_read_thread :=
     (\<lambda>n t. Inr \<lparr>td_summary = \<lparr>th_id = t, th_status = json_object [(''type'', JStr ''active'')]\<rparr>, td_turns = []\<rparr>)\<rparr>\<rparr>"

theorem stalled_wait_ends_witness:
  "\<exists>r w'. wait_until_idle busy_coordinator contract_run ''r'' (world_at 0) = Some (r, w')"
  by (rule stalled_wait_ends [where f = example_digest])
     (auto simp: busy_coordinator_def thread_progress_fingerprint_def canonical_json_hash_def example_libs_def
       strict_mono_def idle_coordinator_def example_turn_libs_def)

end
