(* ===== verification/Turn_Inspection.thy ===== *)
theory Turn_Inspection
  imports Turn_Binding Turn_Retry
begin

text \<open>
  The inspection of the turn that stopped a run (\<open>crates/daemon/src/coordinator.rs\<close>): before a turn is
  repeated, the store, the repository and the canonical record of the turn are asked whether it is the
  exact turn of the request and left nothing behind. An inspection answers with what the store needs to
  archive the turn, with nothing if another recovery applies, or with the error that keeps the run
  stopped. It changes neither the store nor the repository and calls nothing that is logged.
\<close>

record retryable_turn =
  rt_hash :: string
  rt_thread :: string
  rt_turn :: string
  rt_observed :: string

datatype verification_retry_kind = EmptyTurn | EventEvidenceCompatibility | UnattendedVerificationMigration

subsection \<open>Steps of an inspection\<close>

definition refused_if :: "(string \<Rightarrow> coordinator_error) \<Rightarrow> string option \<Rightarrow> coordinator_error + unit" where
  "refused_if err found = (case found of None \<Rightarrow> Inr () | Some t \<Rightarrow> Inl (err t))"

text \<open>\<open>let (Some(thread_id), Some(turn_id)) = ...\<close>\<close>

definition turn_identity :: "pending_send \<Rightarrow> (string \<times> string) option" where
  "turn_identity p =
     (case (ps_thread p, ps_turn p) of (Some thread_id, Some turn_id) \<Rightarrow> Some (thread_id, turn_id) | _ \<Rightarrow> None)"

definition identified_pending ::
  "coordinator \<Rightarrow> run_state \<Rightarrow> string \<Rightarrow> (pending_send \<times> string \<times> string) action" where
  "identified_pending C s what =
     and_then (pending_send_of C (run_id_of C s)) (\<lambda>found.
     of_result (attempt (ok_or (history_unavailable (what @ '' has no persisted pending turn'')) found) (\<lambda>p.
       attempt (ok_or (history_unavailable (what @ '' has no exact persisted turn identity''))
                  (turn_identity p)) (\<lambda>(thread_id, turn_id). Inr (p, thread_id, turn_id)))))"

definition sent_for :: "pending_send \<Rightarrow> string \<Rightarrow> string \<Rightarrow> run_state \<Rightarrow> bool" where
  "sent_for p role_text phase_text s \<longleftrightarrow>
     ps_role p = role_text \<and> ps_phase p = phase_text \<and> ps_round p = round s"

definition recorded_role :: "coordinator \<Rightarrow> run_state \<Rightarrow> role \<Rightarrow> string \<Rightarrow> 32 word option \<Rightarrow> unit action" where
  "recorded_role C s role thread_id generation =
     read_store C (\<lambda>st. validate_recorded_role_thread (co_libs C) st s role thread_id generation)"

definition canonical_turn :: "thread_detail \<Rightarrow> string \<Rightarrow> string \<Rightarrow> coordinator_error + json" where
  "canonical_turn detail turn_id what =
     ok_or (history_unavailable (what @ '' is absent from canonical task history'')) (find_turn detail turn_id)"

definition canonical_status :: "json \<Rightarrow> string \<Rightarrow> coordinator_error + string" where
  "canonical_status turn what =
     ok_or (history_unavailable (what @ '' has no canonical status'')) (str_field turn ''status'')"

definition carries_request :: "coordinator \<Rightarrow> json \<Rightarrow> string \<Rightarrow> coordinator_error \<Rightarrow> coordinator_error + unit" where
  "carries_request C turn h err =
     attempt (turn_contains_request_hash (co_libs C) turn h) (\<lambda>carried. ensure carried err)"

definition completed_request ::
  "coordinator \<Rightarrow> json \<Rightarrow> string \<Rightarrow> string \<Rightarrow> coordinator_error \<Rightarrow> coordinator_error + unit" where
  "completed_request C turn state h err =
     attempt (ensure (state = ''completed'') err) (\<lambda>_. carries_request C turn h err)"

definition recorded_completed_turn ::
  "coordinator \<Rightarrow> run_state \<Rightarrow> role \<Rightarrow> string \<Rightarrow> string \<Rightarrow> 32 word option \<Rightarrow> string \<Rightarrow> json action" where
  "recorded_completed_turn C s role thread_id turn_id generation what =
     and_then (recorded_role_thread_is_ephemeral C s role generation what) (\<lambda>ephemeral.
     if ephemeral then
       and_then (completed_turn_from_event_evidence C s thread_id turn_id) (\<lambda>found.
       of_result (ok_or (history_unavailable (what @ '' has no durable ephemeral completion evidence'')) found))
     else
       and_then (read_identified C thread_id) (\<lambda>detail.
       and_then (of_result (canonical_turn detail turn_id what)) (\<lambda>turn.
       completed_turn_with_event_evidence C s thread_id turn_id turn)))"

definition marker_of ::
  "coordinator \<Rightarrow> json \<Rightarrow> next_action \<Rightarrow> (string \<Rightarrow> coordinator_error) \<Rightarrow> coordinator_error + participant_response" where
  "marker_of C turn action err =
     attempt (final_agent_text turn) (\<lambda>t.
     map_err (\<lambda>detail. err (participant_error_text detail))
       (parse_participant_response (tl_debug (co_libs C)) (trim t) (allowed_participant_signals action)))"

definition message_of :: "coordinator \<Rightarrow> json \<Rightarrow> coordinator_error + protocol_message" where
  "message_of C turn = attempt (final_agent_json (co_libs C) turn) (checked_message (co_libs C))"

definition blocked_because :: "participant_response \<Rightarrow> string \<Rightarrow> bool" where
  "blocked_because r reason \<longleftrightarrow> resp_signal r = SignalBlocked \<and> resp_blocked_reason r = Some reason"

definition authorized_target :: "run_state \<Rightarrow> coordinator_error + string" where
  "authorized_target s =
     ok_or (invalid_state ''target integration branch is missing'') (target_integration_branch s)"

definition patch_recorded :: "coordinator \<Rightarrow> run_state \<Rightarrow> string \<Rightarrow> bool action" where
  "patch_recorded C s h = read_store C (\<lambda>st. Inr (successful_patch_recorded st (run_id_of C s) h))"

definition retryable :: "pending_send \<Rightarrow> string \<Rightarrow> string \<Rightarrow> string \<Rightarrow> retryable_turn" where
  "retryable p thread_id turn_id observed =
     \<lparr>rt_hash = ps_hash p, rt_thread = thread_id, rt_turn = turn_id, rt_observed = observed\<rparr>"

definition paused_integration :: "run_state \<Rightarrow> bool" where
  "paused_integration s \<longleftrightarrow>
     status s = SPausedUserAction \<and> reason_code s = Some ''COMMUNICATION_FAILURE''
     \<and> phase s = Integrate \<and> next_action s = RequestPrimaryIntegration"

subsection \<open>A paused integration\<close>

text \<open>The repository is where the message says it is.\<close>

definition reported_head :: "run_state \<Rightarrow> string \<Rightarrow> string action" where
  "reported_head s reported =
     and_then (of_result (authorized_target s)) (\<lambda>target.
     inspect (\<lambda>e.
       attempt (guarded (verify_integration_patch_ready e (facts s) target)) (\<lambda>authoritative.
       attempt (ensure (authoritative = reported) (turn_retry_unsafe
         ''reported clean integration HEAD does not match the authoritative target branch'')) (\<lambda>_.
       Inr authoritative))))"

definition verify_patch_not_authorized_retry_turn ::
  "coordinator \<Rightarrow> run_state \<Rightarrow> thread_summary option \<Rightarrow> json \<Rightarrow> string \<Rightarrow> string action" where
  "verify_patch_not_authorized_retry_turn C s summary turn h =
     and_then (patch_recorded C s h) (\<lambda>recorded.
     and_then (of_result (ensure (\<not> recorded) (turn_retry_unsafe
         ''controlled patch was recorded as successful before PATCH_NOT_AUTHORIZED''))) (\<lambda>_.
     and_then (of_result (refused_if
         (\<lambda>t. turn_retry_unsafe (''controlled-patch blocker cannot be retried: '' @ t))
         (pending_controlled_patch_approval_blocker (co_libs C) s summary turn h [''failed'']))) (\<lambda>_.
     and_then (of_result (attempt (message_of C turn) (validate_patch_not_authorized_blocker s h)))
       (reported_head s))))"

text \<open>The pending turn of a paused integration whose last message is read: nothing if there is none.\<close>

definition paused_blocker_turn ::
  "coordinator \<Rightarrow> run_state \<Rightarrow> string \<Rightarrow> (retryable_turn \<times> json) option action" where
  "paused_blocker_turn C s what =
     (if \<not> paused_integration s \<or> integration_recorded s then answer None
      else
        and_then (pending_send_of C (run_id_of C s)) (\<lambda>found.
        case found of
          None \<Rightarrow> answer None
        | Some p \<Rightarrow>
            and_then (patch_recorded C s (ps_hash p)) (\<lambda>recorded.
            if recorded then answer None
            else
              (case turn_identity p of
                 None \<Rightarrow> answer None
               | Some (thread_id, turn_id) \<Rightarrow>
                   if \<not> sent_for p ''PRIMARY'' ''INTEGRATE'' s then answer None
                   else
                     and_then (recorded_role C s Primary thread_id (ps_binding p)) (\<lambda>_.
                     and_then (recorded_completed_turn C s Primary thread_id turn_id (ps_binding p) what) (\<lambda>turn.
                     and_then (of_result (canonical_status turn what)) (\<lambda>state.
                     if state \<noteq> ''completed'' then answer None
                     else
                       and_then (of_result (carries_request C turn (ps_hash p) (history_unavailable
                           (what @ '' lacks its deterministic request marker'')))) (\<lambda>_.
                       answer (Some (retryable p thread_id turn_id state, turn))))))))))"

definition inspect_completed_patch_not_authorized_retry ::
  "coordinator \<Rightarrow> run_state \<Rightarrow> retryable_turn option action" where
  "inspect_completed_patch_not_authorized_retry C s =
     and_then (paused_blocker_turn C s ''completed controlled-patch blocker'') (\<lambda>found.
     case found of
       None \<Rightarrow> answer None
     | Some (retry, turn) \<Rightarrow>
         and_then (of_result (message_of C turn)) (\<lambda>m.
         if env_reason_code (envelope m) \<noteq> Some ''PATCH_NOT_AUTHORIZED'' then answer None
         else
           and_then (verify_patch_not_authorized_retry_turn C s None turn (rt_hash retry)) (\<lambda>_.
           answer (Some retry))))"

definition inspect_completed_file_change_tool_unavailable_retry ::
  "coordinator \<Rightarrow> run_state \<Rightarrow> retryable_turn option action" where
  "inspect_completed_file_change_tool_unavailable_retry C s =
     and_then (paused_blocker_turn C s ''completed file-change blocker'') (\<lambda>found.
     case found of
       None \<Rightarrow> answer None
     | Some (retry, turn) \<Rightarrow>
         and_then (of_result (message_of C turn)) (\<lambda>m.
         if env_reason_code (envelope m) \<noteq> Some ''FILE_CHANGE_TOOL_UNAVAILABLE'' then answer None
         else
           and_then (of_result (refused_if
               (\<lambda>t. turn_retry_unsafe (''completed file-change blocker cannot be retried: '' @ t))
               (terminal_turn_retry_blocker turn))) (\<lambda>_.
           and_then (of_result (validate_file_change_tool_unavailable_blocker s (rt_hash retry) m)) (\<lambda>reported.
           and_then (reported_head s reported) (\<lambda>_. answer (Some retry))))))"

subsection \<open>The response of an integration\<close>

text \<open>A turn of a database that knew no bindings is read from the source task itself.\<close>

definition legacy_pre_binding :: "run_state \<Rightarrow> pending_send \<Rightarrow> string \<Rightarrow> bool" where
  "legacy_pre_binding s p thread_id \<longleftrightarrow>
     ps_capability p = None \<and> ps_binding p = None \<and> thread_id = rf_primary_thread_id (facts s)"

definition integration_response_turn ::
  "coordinator \<Rightarrow> run_state \<Rightarrow> pending_send \<Rightarrow> string \<Rightarrow> string \<Rightarrow> json action" where
  "integration_response_turn C s p thread_id turn_id =
     (if legacy_pre_binding s p thread_id then
        and_then (read_identified C thread_id) (\<lambda>detail.
        of_result (canonical_turn detail turn_id ''integration invalid-response turn''))
      else
        and_then (recorded_role C s Primary thread_id (ps_binding p)) (\<lambda>_.
        recorded_completed_turn C s Primary thread_id turn_id (ps_binding p)
          ''integration invalid-response turn''))"

definition legacy_server_allowed :: "pending_send \<Rightarrow> coordinator_error + bool" where
  "legacy_server_allowed p =
     (case ps_capability p of
        None \<Rightarrow> Inr True
      | Some generation \<Rightarrow>
          if generation = PARTICIPANT_CAPABILITY_GENERATION then Inr False
          else Inl (response_retry_unsafe
            (''integration invalid-response turn has malformed capability generation '' @ generation)))"

definition integration_response_blocker ::
  "coordinator \<Rightarrow> run_state \<Rightarrow> json \<Rightarrow> string \<Rightarrow> string \<Rightarrow> bool \<Rightarrow> bool \<Rightarrow> string option" where
  "integration_response_blocker C s turn h patch_hash legacy archived =
     (if mcp_calls turn \<noteq> [] then recoverable_integration_turn_blocker (co_libs C) s turn h patch_hash legacy
      else if archived then recoverable_integration_confirmation_turn_blocker (tl_policy (co_libs C)) s turn
      else Some ''integration invalid-response recovery requires exactly one recorded successful patch'')"

definition integrated_result :: "run_state \<Rightarrow> unit action" where
  "integrated_result s =
     and_then (of_result (ok_or
         (invalid_state ''integration invalid-response recovery has no authorized target branch'')
         (target_integration_branch s))) (\<lambda>target.
     inspect (\<lambda>e.
       attempt (guarded (authoritative_integration_result e (facts s) target)) (\<lambda>(sha, files).
       guarded (verify_integration e (facts s) target sha files))))"

definition inspect_completed_integration_invalid_response_retry ::
  "coordinator \<Rightarrow> run_state \<Rightarrow> next_action \<Rightarrow> retryable_turn action" where
  "inspect_completed_integration_invalid_response_retry C s action =
     and_then (of_result (ensure (action = RequestPrimaryIntegration \<and> \<not> result_recorded s)
         (response_retry_unsafe
            ''integration invalid-response recovery requires an unaccepted first result''))) (\<lambda>_.
     and_then (identified_pending C s ''integration invalid response'') (\<lambda>(p, thread_id, turn_id).
     and_then (of_result (ensure (sent_for p ''PRIMARY'' ''INTEGRATE'' s) (history_unavailable
         ''integration invalid-response turn does not match the bound primary request''))) (\<lambda>_.
     and_then (integration_response_turn C s p thread_id turn_id) (\<lambda>turn.
     and_then (of_result (canonical_status turn ''integration invalid-response turn'')) (\<lambda>state.
     and_then (of_result (completed_request C turn state (ps_hash p) (response_retry_unsafe
         ''integration invalid-response recovery requires the exact completed request turn''))) (\<lambda>_.
     and_then (read_store C (\<lambda>st.
         attempt (validated_successful_patch_hash (co_libs C) st s p True) (ok_or (response_retry_unsafe
           ''integration invalid-response turn has no successful controlled patch record'')))) (\<lambda>patch_hash.
     and_then (of_result (legacy_server_allowed p)) (\<lambda>legacy.
     and_then (read_store C (\<lambda>st. Inr (archived_turn_ids st (run_id_of C s) (ps_hash p)))) (\<lambda>archived.
     and_then (of_result (refused_if response_retry_unsafe
         (integration_response_blocker C s turn (ps_hash p) patch_hash legacy (archived \<noteq> [])))) (\<lambda>_.
     and_then (integrated_result s) (\<lambda>_.
     answer (retryable p thread_id turn_id state))))))))))))"

end
