(* ===== verification/Turn_Blockers.thy ===== *)
theory Turn_Blockers
  imports Turn_Inspection
begin

text \<open>
  The inspections of blocked runs (\<open>crates/daemon/src/coordinator.rs\<close>): of a pending turn whose response
  was refused, was interrupted or was given before its verification, and of an accepted turn whose message
  reported a missing tool or environment. Those of an accepted turn also compare the hash of its response
  with the one that was accepted.
\<close>

text \<open>An operation of \<open>RunState\<close> that restores an action, on a copy of the state.\<close>

definition reopening :: "next_action run_op \<Rightarrow> run_state \<Rightarrow> coordinator_error + next_action \<times> run_state" where
  "reopening op s = (case op s of (Inl err, _) \<Rightarrow> Inl (of_state err) | (Inr action, s') \<Rightarrow> Inr (action, s'))"

subsection \<open>Responses before the integration\<close>

definition inspect_completed_read_only_model_response_retry ::
  "coordinator \<Rightarrow> run_state \<Rightarrow> next_action \<Rightarrow> retryable_turn action" where
  "inspect_completed_read_only_model_response_retry C s action =
     and_then (of_result (ensure (preintegration_read_only_phase action \<noteq> None \<and> \<not> integration_recorded s)
         (response_retry_unsafe ''model-response retry is limited to pre-integration read-only turns''))) (\<lambda>_.
     and_then (identified_pending C s ''invalid model response'') (\<lambda>(p, thread_id, turn_id).
     and_then (of_result (ok_or (incompatible_run ''invalid model-response diagnostic has no task role'')
         (action_role action))) (\<lambda>role.
     and_then (of_result (ok_or
         (incompatible_run ''invalid model-response diagnostic is not a pre-integration read-only action'')
         (preintegration_read_only_phase action))) (\<lambda>expected_phase.
     and_then (of_result (ensure (sent_for p (role_name role) (phase_name expected_phase) s) (history_unavailable
         ''invalid model response does not match the deterministic pending action''))) (\<lambda>_.
     and_then (recorded_role C s role thread_id (ps_binding p)) (\<lambda>_.
     and_then (recorded_completed_turn C s role thread_id turn_id (ps_binding p)
         ''persisted invalid model-response turn'') (\<lambda>turn.
     and_then (of_result (canonical_status turn ''persisted invalid model-response turn'')) (\<lambda>state.
     and_then (of_result (ensure (state = ''completed'') (response_retry_unsafe
         (''invalid model-response turn has unexpected status '' @ state)))) (\<lambda>_.
     and_then (of_result (carries_request C turn (ps_hash p) (history_unavailable
         ''persisted invalid model-response turn lacks its deterministic request marker''))) (\<lambda>_.
     and_then (of_result (refused_if (\<lambda>t. response_retry_unsafe
         (''completed pre-integration turn '' @ turn_id @ '' cannot be retried: '' @ t))
         (completed_read_only_turn_retry_blocker turn))) (\<lambda>_.
     answer (retryable p thread_id turn_id state))))))))))))"

subsection \<open>A forbidden operation\<close>

definition inspect_interrupted_forbidden_operation_retry ::
  "coordinator \<Rightarrow> run_state \<Rightarrow> next_action \<Rightarrow> retryable_turn action" where
  "inspect_interrupted_forbidden_operation_retry C s action =
     and_then (of_result (ensure (action = RequestPrimaryIntegration \<and> \<not> result_recorded s)
         (turn_retry_unsafe ''forbidden-operation recovery is limited to the first integration turn''))) (\<lambda>_.
     and_then (identified_pending C s ''forbidden-operation blocker'') (\<lambda>(p, thread_id, turn_id).
     and_then (of_result (ensure (sent_for p ''PRIMARY'' ''INTEGRATE'' s) (history_unavailable
         ''forbidden-operation blocker does not match the frozen integration action''))) (\<lambda>_.
     and_then (recorded_role C s Primary thread_id (ps_binding p)) (\<lambda>_.
     and_then (recorded_completed_turn C s Primary thread_id turn_id (ps_binding p)
         ''forbidden-operation turn'') (\<lambda>turn.
     and_then (of_result (canonical_status turn ''forbidden-operation turn'')) (\<lambda>state.
     and_then (of_result (ensure (state \<in> {''failed'', ''interrupted''}) (turn_retry_unsafe
         (''forbidden-operation turn has unexpected status '' @ state)))) (\<lambda>_.
     and_then (of_result (carries_request C turn (ps_hash p) (history_unavailable
         ''forbidden-operation turn lacks its deterministic request marker''))) (\<lambda>_.
     and_then (of_result (refused_if
         (\<lambda>t. turn_retry_unsafe (''forbidden-operation turn cannot be retried: '' @ t))
         (interrupted_forbidden_operation_retry_blocker (tl_policy (co_libs C)) s turn))) (\<lambda>_.
     answer (retryable p thread_id turn_id state))))))))))"

subsection \<open>The verdict of the reviewer\<close>

definition verified_unaccepted :: "run_state \<Rightarrow> bool" where
  "verified_unaccepted s \<longleftrightarrow>
     integration_branch s \<noteq> None \<and> integration_sha s \<noteq> None \<and> current_integration_payload s \<noteq> None
     \<and> verification_worktree s \<noteq> None \<and> test_evidence s \<noteq> [] \<and> accepted_result s = None"

definition normalized_response :: "coordinator \<Rightarrow> run_state \<Rightarrow> next_action \<Rightarrow> string \<Rightarrow> protocol_message action" where
  "normalized_response C s action t w =
     read_store C (\<lambda>st. normalize_model_response (co_libs C) (wd_git (elapse C w)) st s action t) w"

definition names_pending_turn :: "run_state \<Rightarrow> string \<Rightarrow> bool" where
  "names_pending_turn s turn_id \<longleftrightarrow>
     map_option rd_detail (last_error s)
       = Some (''INCOMPATIBLE_STATE: turn '' @ turn_id @ '' completed before all item lifecycle events were persisted'')"

text \<open>The verdict is applied to a copy of the run, to see that it applies.\<close>

definition replayed_verdict :: "coordinator \<Rightarrow> run_state \<Rightarrow> next_action \<Rightarrow> json \<Rightarrow> unit action" where
  "replayed_verdict C s action turn =
     and_then (of_result (reopening retry_blocked_reviewer_reasoning_lifecycle_compatibility s)) (\<lambda>(_, replay).
     and_then (of_result (final_agent_text turn)) (\<lambda>t.
     and_then (normalized_response C replay action (trim t)) (\<lambda>m.
     of_result (attempt (reopening (apply_message (tl_core (co_libs C)) m) replay) (\<lambda>_. Inr ())))))"

definition stale_reasoning_evidence :: "coordinator \<Rightarrow> run_state \<Rightarrow> string \<Rightarrow> string \<Rightarrow> unit action" where
  "stale_reasoning_evidence C s thread_id turn_id =
     and_then (event_evidence C s thread_id turn_id) (\<lambda>found.
     of_result (attempt (ok_or
         (history_unavailable ''Reviewer lifecycle blocker has no durable completion event'') found) (\<lambda>ev.
       ensure (tv_ignored ev \<noteq> []) (response_retry_unsafe
         ''Reviewer lifecycle replay requires at least one exact stale reasoning item''))))"

definition inspect_completed_reviewer_reasoning_lifecycle_replay ::
  "coordinator \<Rightarrow> run_state \<Rightarrow> next_action \<Rightarrow> retryable_turn action" where
  "inspect_completed_reviewer_reasoning_lifecycle_replay C s action =
     and_then (of_result (ensure (action = RequestReviewerResultVerdict \<and> verified_unaccepted s)
         (response_retry_unsafe
            (''Reviewer lifecycle replay requires an unchanged, verified, unaccepted integration result'')))) (\<lambda>_.
     and_then (identified_pending C s ''Reviewer lifecycle blocker'') (\<lambda>(p, thread_id, turn_id).
     and_then (of_result (ensure (sent_for p (role_name Reviewer) (phase_name ResultReview) s
           \<and> thread_id = rf_reviewer_thread_id (facts s) \<and> ps_binding p = None) (history_unavailable
         ''Reviewer lifecycle blocker does not match the deterministic final-verdict request''))) (\<lambda>_.
     and_then (of_result (ensure (names_pending_turn s turn_id) (response_retry_unsafe
         ''Reviewer lifecycle blocker does not name its exact pending turn''))) (\<lambda>_.
     and_then (stale_reasoning_evidence C s thread_id turn_id) (\<lambda>_.
     and_then (recorded_role C s Reviewer thread_id None) (\<lambda>_.
     and_then (recorded_completed_turn C s Reviewer thread_id turn_id None
         ''persisted Reviewer lifecycle-compatibility turn'') (\<lambda>turn.
     and_then (of_result (canonical_status turn ''persisted Reviewer lifecycle-compatibility turn'')) (\<lambda>state.
     and_then (of_result (completed_request C turn state (ps_hash p) (history_unavailable
         ''Reviewer lifecycle replay requires the exact completed request turn''))) (\<lambda>_.
     and_then (of_result (refused_if
         (\<lambda>t. response_retry_unsafe (''Reviewer lifecycle turn cannot be replayed: '' @ t))
         (completed_reviewer_lifecycle_replay_blocker (tl_policy (co_libs C)) s turn))) (\<lambda>_.
     and_then (replayed_verdict C s action turn) (\<lambda>_.
     answer (retryable p thread_id turn_id state))))))))))))"

subsection \<open>A verification without execution\<close>

definition unverified :: "run_state \<Rightarrow> bool" where
  "unverified s \<longleftrightarrow>
     integration_branch s \<noteq> None \<and> integration_sha s \<noteq> None \<and> current_integration_payload s \<noteq> None
     \<and> verification_worktree s \<noteq> None \<and> required_test_commands s \<noteq> [] \<and> test_evidence s = []
     \<and> accepted_result s = None"

definition archived_verdict :: "participant_response \<Rightarrow> coordinator_error + string" where
  "archived_verdict r =
     (if resp_signal r = VerificationReady then Inr ''ready''
      else if blocked_because r ''CARGO_UNAVAILABLE'' then Inr ''cargo-unavailable''
      else Inl (response_retry_unsafe
        ''archived verification history is outside the bounded evidence-recovery sequence''))"

text \<open>The verdicts of the archived attempts, each with its terminal status.\<close>

fun archived_sequence ::
  "coordinator \<Rightarrow> run_state \<Rightarrow> pending_send \<Rightarrow> string \<Rightarrow> (string \<times> string) list \<Rightarrow> (string \<times> string) list action" where
  "archived_sequence C s p thread_id [] = answer []"
| "archived_sequence C s p thread_id ((turn_id, ended_as) # rows) =
     and_then (recorded_completed_turn C s Primary thread_id turn_id (ps_binding p)
         ''archived verification turn'') (\<lambda>turn.
     and_then (of_result (carries_request C turn (ps_hash p) (history_unavailable
         (''archived verification turn '' @ turn_id @ '' lacks its deterministic request marker'')))) (\<lambda>_.
     and_then (of_result (refused_if (\<lambda>t. response_retry_unsafe
         (''archived verification attempt '' @ turn_id @ '' cannot precede an evidence retry: '' @ t))
         (terminal_turn_retry_blocker turn))) (\<lambda>_.
     and_then (of_result (attempt (marker_of C turn RequestPrimaryVerification history_unavailable)
         archived_verdict)) (\<lambda>verdict.
     and_then (archived_sequence C s p thread_id rows) (\<lambda>rest.
     answer ((verdict, ended_as) # rest))))))"

definition retry_kind :: "(string \<times> string) list \<Rightarrow> coordinator_error + verification_retry_kind" where
  "retry_kind verdicts =
     (if verdicts = [] then Inr EmptyTurn
      else if verdicts = [(''ready'', ''completed''), (''cargo-unavailable'', ''completed''),
                          (''ready'', ''completed-evidence-unavailable'')] then
        Inr UnattendedVerificationMigration
      else if ''ready'' \<in> set (map fst verdicts) \<and> ''cargo-unavailable'' \<in> set (map fst verdicts)
              \<and> list_all (\<lambda>v. snd v = ''completed'') verdicts then
        Inr EventEvidenceCompatibility
      else Inl (response_retry_unsafe
        (''verification evidence compatibility recovery requires exact archived verification history ''
         @ ''and is limited to one retry'')))"

definition verification_ready :: "coordinator \<Rightarrow> json \<Rightarrow> coordinator_error + unit" where
  "verification_ready C turn =
     attempt (marker_of C turn RequestPrimaryVerification history_unavailable) (\<lambda>r.
     ensure (resp_signal r = VerificationReady) (response_retry_unsafe
       ''verification migration requires the final VERIFICATION_READY marker''))"

definition archived_retry_kind ::
  "coordinator \<Rightarrow> run_state \<Rightarrow> pending_send \<Rightarrow> string \<Rightarrow> verification_retry_kind action" where
  "archived_retry_kind C s p thread_id =
     and_then (read_store C (\<lambda>st. Inr (archived_turn_attempts st (run_id_of C s) (ps_hash p)))) (\<lambda>rows.
     and_then (of_result (ensure (length rows \<noteq> 1) (response_retry_unsafe
         ''verification-without-execution recovery is limited to one retry''))) (\<lambda>_.
     and_then (archived_sequence C s p thread_id rows) (\<lambda>verdicts. of_result (retry_kind verdicts))))"

definition inspect_completed_verification_without_execution_retry ::
  "coordinator \<Rightarrow> run_state \<Rightarrow> next_action \<Rightarrow> (retryable_turn \<times> verification_retry_kind) action" where
  "inspect_completed_verification_without_execution_retry C s action =
     and_then (of_result (ensure (action = RequestPrimaryVerification \<and> unverified s) (response_retry_unsafe
         ''verification retry requires an unchanged unaccepted integration result''))) (\<lambda>_.
     and_then (identified_pending C s ''verification failure'') (\<lambda>(p, thread_id, turn_id).
     and_then (of_result (ensure (sent_for p ''PRIMARY'' ''VERIFY'' s) (history_unavailable
         ''verification failure does not match the bound primary request''))) (\<lambda>_.
     and_then (recorded_role C s Primary thread_id (ps_binding p)) (\<lambda>_.
     and_then (archived_retry_kind C s p thread_id) (\<lambda>kind.
     and_then (recorded_completed_turn C s Primary thread_id turn_id (ps_binding p)
         ''persisted verification turn'') (\<lambda>turn.
     and_then (of_result (canonical_status turn ''persisted verification turn'')) (\<lambda>state.
     and_then (of_result (completed_request C turn state (ps_hash p) (response_retry_unsafe
         ''verification recovery requires the exact completed request turn''))) (\<lambda>_.
     and_then (of_result (refused_if response_retry_unsafe (verification_without_execution_retry_blocker turn)))
       (\<lambda>_.
     and_then (of_result (verification_ready C turn)) (\<lambda>_.
     answer (retryable p thread_id turn_id state, kind)))))))))))"

subsection \<open>Accepted blockers\<close>

definition accepted_blocker :: "coordinator \<Rightarrow> run_state \<Rightarrow> string \<Rightarrow> accepted_turn action" where
  "accepted_blocker C s what =
     read_store C (\<lambda>st. attempt (stored (co_libs C) (latest_accepted_turn st (run_id_of C s)))
       (ok_or (history_unavailable (what @ '' has no accepted turn record''))))"

definition accepted_in :: "accepted_turn \<Rightarrow> string \<Rightarrow> run_state \<Rightarrow> bool" where
  "accepted_in a phase_text s \<longleftrightarrow> ac_role a = ''PRIMARY'' \<and> ac_phase a = phase_text \<and> ac_round a = round s"

definition accepted_turn_record ::
  "coordinator \<Rightarrow> run_state \<Rightarrow> accepted_turn \<Rightarrow> string \<Rightarrow> string \<Rightarrow> json action" where
  "accepted_turn_record C s a turn_id what =
     recorded_completed_turn C s Primary (ac_thread a) turn_id (ac_binding a) what"

text \<open>The response of the turn, normalised as it was then, has the hash that was accepted.\<close>

definition accepted_response ::
  "coordinator \<Rightarrow> run_state \<Rightarrow> next_action \<Rightarrow> participant_response \<Rightarrow> accepted_turn \<Rightarrow> string \<Rightarrow> unit action" where
  "accepted_response C s action r a what =
     inspect (\<lambda>e.
       attempt (normalized_marker_message (co_libs C) e s action r) (\<lambda>m.
       ensure (canonical_json_hash (tl_core (co_libs C)) (message_to_value (tl_core (co_libs C)) m) = ac_response a)
         (history_unavailable (what @ '' response hash does not match canonical task history''))))"

fun cargo_not_retried ::
  "coordinator \<Rightarrow> run_state \<Rightarrow> accepted_turn \<Rightarrow> string list \<Rightarrow> unit action" where
  "cargo_not_retried C s a [] = answer ()"
| "cargo_not_retried C s a (turn_id # archived) =
     and_then (accepted_turn_record C s a turn_id ''archived verification turn'') (\<lambda>turn.
     and_then (of_result (marker_of C turn RequestPrimaryVerification history_unavailable)) (\<lambda>r.
     if blocked_because r ''CARGO_UNAVAILABLE'' then
       refuse (response_retry_unsafe ''verification CARGO_UNAVAILABLE recovery is limited to one retry'')
     else cargo_not_retried C s a archived))"

definition inspect_completed_verification_environment_unavailable_retry ::
  "coordinator \<Rightarrow> run_state \<Rightarrow> next_action \<Rightarrow> (accepted_turn \<times> string) action" where
  "inspect_completed_verification_environment_unavailable_retry C s action =
     and_then (of_result (ensure (action = RequestPrimaryVerification
           \<and> reason_code s = Some ''CARGO_UNAVAILABLE'' \<and> unverified s) (response_retry_unsafe
         ''verification environment retry requires an unchanged CARGO_UNAVAILABLE result''))) (\<lambda>_.
     and_then (accepted_blocker C s ''verification environment blocker'') (\<lambda>a.
     and_then (of_result (ensure (accepted_in a ''VERIFY'' s) (history_unavailable
         ''verification environment blocker does not match the frozen primary request''))) (\<lambda>_.
     and_then (recorded_role C s Primary (ac_thread a) (ac_binding a)) (\<lambda>_.
     and_then (read_store C (\<lambda>st. Inr (archived_turn_ids st (run_id_of C s) (ac_hash a)))) (\<lambda>archived.
     and_then (cargo_not_retried C s a archived) (\<lambda>_.
     and_then (accepted_turn_record C s a (ac_turn a) ''accepted verification environment blocker'') (\<lambda>turn.
     and_then (of_result (canonical_status turn ''verification environment blocker'')) (\<lambda>state.
     and_then (of_result (completed_request C turn state (ac_hash a) (response_retry_unsafe
         ''verification environment recovery requires the exact completed request turn''))) (\<lambda>_.
     and_then (of_result (refused_if
         (\<lambda>t. response_retry_unsafe (''verification environment blocker cannot be retried: '' @ t))
         (terminal_turn_retry_blocker turn))) (\<lambda>_.
     and_then (of_result (marker_of C turn RequestPrimaryVerification invalid_response)) (\<lambda>r.
     and_then (of_result (ensure (blocked_because r ''CARGO_UNAVAILABLE'') (response_retry_unsafe
         ''accepted verification blocker is not exactly CARGO_UNAVAILABLE''))) (\<lambda>_.
     and_then (of_result (reopening retry_blocked_verification_environment_unavailable s)) (\<lambda>(_, copy).
     and_then (accepted_response C copy RequestPrimaryVerification r a ''verification environment'') (\<lambda>_.
     answer (a, state)))))))))))))))"

definition inspect_completed_execution_tool_unavailable_retry ::
  "coordinator \<Rightarrow> run_state \<Rightarrow> next_action \<Rightarrow> (accepted_turn \<times> string) action" where
  "inspect_completed_execution_tool_unavailable_retry C s action =
     and_then (of_result (ensure (action = RequestPrimaryIntegration \<and> \<not> integration_recorded s)
         (response_retry_unsafe ''execution-tool recovery is limited to the first integration turn''))) (\<lambda>_.
     and_then (accepted_blocker C s ''execution-tool blocker'') (\<lambda>a.
     and_then (of_result (ensure (accepted_in a ''INTEGRATE'' s) (history_unavailable
         ''accepted execution-tool blocker does not match the frozen integration action''))) (\<lambda>_.
     and_then (recorded_role C s Primary (ac_thread a) (ac_binding a)) (\<lambda>_.
     and_then (accepted_turn_record C s a (ac_turn a) ''accepted execution-tool blocker'') (\<lambda>turn.
     and_then (of_result (canonical_status turn ''accepted execution-tool blocker'')) (\<lambda>state.
     and_then (of_result (ensure (state = ''completed'') (response_retry_unsafe
         (''execution-tool blocker has unexpected status '' @ state)))) (\<lambda>_.
     and_then (of_result (carries_request C turn (ac_hash a) (history_unavailable
         ''accepted execution-tool blocker lacks its deterministic request marker''))) (\<lambda>_.
     and_then (of_result (refused_if
         (\<lambda>t. response_retry_unsafe (''accepted execution-tool blocker cannot be retried: '' @ t))
         (terminal_turn_retry_blocker turn))) (\<lambda>_.
     and_then (of_result (final_agent_json (co_libs C) turn)) (\<lambda>raw.
     and_then (of_result (ensure (canonical_json_hash (tl_core (co_libs C)) raw = ac_response a)
         (history_unavailable
            ''accepted execution-tool response hash does not match canonical task history''))) (\<lambda>_.
     and_then (of_result (attempt (checked_message (co_libs C) raw)
         (validate_execution_tool_unavailable_blocker s (ac_hash a)))) (\<lambda>_.
     answer (a, state)))))))))))))"

subsection \<open>A correction\<close>

definition corrective_turn :: "coordinator \<Rightarrow> run_state \<Rightarrow> accepted_turn \<Rightarrow> bool \<Rightarrow> json action" where
  "corrective_turn C s a rejection =
     (if rejection then
        accepted_turn_record C s a (ac_turn a) ''accepted result-review controlled-patch rejection''
      else
        and_then (read_identified C (ac_thread a)) (\<lambda>detail.
        and_then (of_result (canonical_turn detail (ac_turn a) ''accepted corrective patch-tool blocker'')) (\<lambda>turn.
        completed_turn_with_event_evidence C s (ac_thread a) (ac_turn a) turn)))"

definition corrective_blocker :: "coordinator \<Rightarrow> run_state \<Rightarrow> json \<Rightarrow> string \<Rightarrow> bool \<Rightarrow> string option" where
  "corrective_blocker C s turn h rejection =
     (if rejection then failed_patch_not_authorized_turn_blocker (co_libs C) s turn h
      else terminal_turn_retry_blocker turn)"

definition corrective_reason :: "bool \<Rightarrow> string" where
  "corrective_reason rejection =
     (if rejection then ''PATCH_NOT_AUTHORIZED'' else ''CONTROLLED_PATCH_TOOL_UNAVAILABLE'')"

definition correction_op :: "coordinator \<Rightarrow> bool \<Rightarrow> next_action run_op" where
  "correction_op C rejection =
     (if rejection then retry_blocked_result_review_patch_not_authorized (tl_core (co_libs C))
      else retry_blocked_corrective_patch_tool_unavailable (tl_core (co_libs C)))"

definition corrective_accepted :: "coordinator \<Rightarrow> run_state \<Rightarrow> bool \<Rightarrow> accepted_turn action" where
  "corrective_accepted C s rejection =
     and_then (accepted_blocker C s ''corrective patch-tool blocker'') (\<lambda>a.
     and_then (of_result (ensure (accepted_in a ''INTEGRATE'' s) (history_unavailable
         ''accepted corrective patch-tool blocker does not match the frozen correction request''))) (\<lambda>_.
     and_then (if rejection then recorded_role C s Primary (ac_thread a) (ac_binding a)
               else of_result (validate_legacy_source_primary_thread s (ac_thread a) (ac_capability a)
                                 (ac_binding a))) (\<lambda>_.
     and_then (patch_recorded C s (ac_hash a)) (\<lambda>recorded.
     and_then (of_result (ensure (\<not> recorded) (response_retry_unsafe
         ''corrective patch-tool blocker request already has a successful patch record''))) (\<lambda>_.
     answer a)))))"

definition inspect_completed_corrective_patch_tool_unavailable_retry ::
  "coordinator \<Rightarrow> run_state \<Rightarrow> next_action \<Rightarrow> (accepted_turn \<times> string) action" where
  "inspect_completed_corrective_patch_tool_unavailable_retry C s action =
     (let rejection = (reason_code s = Some ''PATCH_NOT_AUTHORIZED'') in
      and_then (of_result (ensure (action = RequestPrimaryIntegration) (response_retry_unsafe
          ''corrective patch-tool recovery is limited to the primary correction action''))) (\<lambda>_.
      and_then (corrective_accepted C s rejection) (\<lambda>a.
      and_then (corrective_turn C s a rejection) (\<lambda>turn.
      and_then (of_result (canonical_status turn ''corrective patch-tool blocker'')) (\<lambda>state.
      and_then (of_result (ensure (state = ''completed'') (response_retry_unsafe
          (''corrective patch-tool blocker has unexpected status '' @ state)))) (\<lambda>_.
      and_then (of_result (carries_request C turn (ac_hash a) (history_unavailable
          ''accepted corrective patch-tool blocker lacks its deterministic request marker''))) (\<lambda>_.
      and_then (of_result (refused_if
          (\<lambda>t. response_retry_unsafe (''corrective patch-tool blocker cannot be retried: '' @ t))
          (corrective_blocker C s turn (ac_hash a) rejection))) (\<lambda>_.
      and_then (of_result (marker_of C turn RequestPrimaryIntegration invalid_response)) (\<lambda>r.
      and_then (of_result (ensure (blocked_because r (corrective_reason rejection)) (response_retry_unsafe
          (''accepted correction blocker is not exactly '' @ corrective_reason rejection)))) (\<lambda>_.
      and_then (of_result (reopening (correction_op C rejection) s)) (\<lambda>(_, copy).
      and_then (accepted_response C copy RequestPrimaryIntegration r a ''corrective patch-tool'') (\<lambda>_.
      answer (a, state)))))))))))))"

end
