(* ===== verification/Turn_Restart.thy ===== *)
theory Turn_Restart
  imports Turn_Blockers
begin

text \<open>
  A run that is paused because its task could not be reached (\<open>crates/daemon/src/coordinator.rs\<close>): its
  pending turn is looked up and, if it ended or can be ended, archived so that the request is sent again.
  A turn that waits for the approval of a controlled patch is interrupted first.
\<close>

subsection \<open>An archived turn that is restored\<close>

definition lost_turn :: "coordinator \<Rightarrow> run_state \<Rightarrow> pending_send \<Rightarrow> string \<Rightarrow> string \<Rightarrow> bool action" where
  "lost_turn C s p thread_id turn_id =
     (let run_id = run_id_of C s in
      if \<not> sent_for p ''PRIMARY'' ''INTEGRATE'' s then answer False
      else
        and_then (patch_recorded C s (ps_hash p)) (\<lambda>recorded.
        if \<not> recorded then answer False
        else
          and_then (event_evidence C s thread_id turn_id) (\<lambda>found.
          if found \<noteq> None then answer False
          else read_store C (\<lambda>st. Inr (turn_event_item_count st run_id thread_id turn_id = 0)))))"

definition archived_integration_ready :: "coordinator \<Rightarrow> run_state \<Rightarrow> pending_send \<Rightarrow> json \<Rightarrow> unit action" where
  "archived_integration_ready C s p turn =
     and_then (of_result (attempt (ensure (str_field turn ''status'' = Some ''completed'')
           (history_unavailable ''archived integration attempt does not match its deterministic completed request''))
         (\<lambda>_. carries_request C turn (ps_hash p)
           (history_unavailable ''archived integration attempt does not match its deterministic completed request''))))
       (\<lambda>_.
     and_then (of_result (marker_of C turn RequestPrimaryIntegration invalid_response)) (\<lambda>r.
     and_then (of_result (ensure (resp_signal r = IntegrationReady) (response_retry_unsafe
         ''archived integration attempt did not finish with INTEGRATION_READY''))) (\<lambda>_.
     and_then (read_store C (\<lambda>st.
         attempt (validated_successful_patch_hash (co_libs C) st s p True) (ok_or (history_unavailable
           ''archived integration attempt has no successful controlled patch record'')))) (\<lambda>patch_hash.
     and_then (of_result (verify_integration_execution_items (co_libs C) s turn (ps_hash p) (Some patch_hash) True))
       (\<lambda>_.
     and_then (of_result (authorized_target s)) (\<lambda>target.
     inspect (\<lambda>e. guarded (verify_integration_in_progress e (facts s) target))))))))"

definition restored_archived_turn ::
  "coordinator \<Rightarrow> run_state \<Rightarrow> pending_send \<Rightarrow> string \<Rightarrow> string \<Rightarrow> bool action" where
  "restored_archived_turn C s p current_thread current_turn =
     (let run_id = run_id_of C s in
      and_then (read_store C (\<lambda>st. Inr (archived_completed_turn_with_evidence st run_id (ps_hash p)))) (\<lambda>archived.
      case archived of
        None \<Rightarrow> answer False
      | Some (archived_thread, archived_turn) \<Rightarrow>
          and_then (completed_turn_from_event_evidence C s archived_thread archived_turn) (\<lambda>found.
          and_then (of_result (ok_or (history_unavailable
              ''archived integration attempt lost its durable completion evidence'') found)) (\<lambda>turn.
          and_then (archived_integration_ready C s p turn) (\<lambda>_.
          and_then (transact C (\<lambda>_. restore_archived_completed_turn_after_ephemeral_loss run_id (ps_hash p)
              current_thread current_turn archived_thread archived_turn)) (\<lambda>_.
          answer True))))))"

definition restore_archived_integration_turn_after_ephemeral_loss :: "coordinator \<Rightarrow> run_state \<Rightarrow> bool action" where
  "restore_archived_integration_turn_after_ephemeral_loss C s =
     (if \<not> paused_integration s \<or> integration_recorded s then answer False
      else
        and_then (pending_send_of C (run_id_of C s)) (\<lambda>found.
        case found of
          None \<Rightarrow> answer False
        | Some p \<Rightarrow>
            (case turn_identity p of
               None \<Rightarrow> answer False
             | Some (thread_id, turn_id) \<Rightarrow>
                 and_then (lost_turn C s p thread_id turn_id) (\<lambda>lost.
                 if \<not> lost then answer False
                 else
                   and_then (recorded_role C s Primary thread_id (ps_binding p)) (\<lambda>_.
                   restored_archived_turn C s p thread_id turn_id)))))"

subsection \<open>A paused turn without events\<close>

text \<open>A task that is not loaded answers the reading of its summary with an error that names it.\<close>

definition summary_status ::
  "coordinator \<Rightarrow> string \<Rightarrow> nat \<Rightarrow> app_server_error + (coordinator_error + thread_runtime_status)" where
  "summary_status C thread_id n =
     (case sv_read_thread_summary (co_server C) n thread_id of
        Inr summary \<Rightarrow> Inr (attempt (verify_requested_thread_summary_identity thread_id summary)
          (\<lambda>_. map_err history_unavailable (summary_runtime_status summary)))
      | Inl (ThreadNotLoaded reported) \<Rightarrow>
          Inr (if reported = thread_id then Inr NotLoaded
               else Inl (history_unavailable ''App Server reported a different unloaded task identity''))
      | Inl err \<Rightarrow> Inl err)"

definition eventless_successful_patch_thread_runtime_status ::
  "coordinator \<Rightarrow> string \<Rightarrow> thread_runtime_status action" where
  "eventless_successful_patch_thread_runtime_status C thread_id =
     and_then (with_retry C ''thread/read summary'' ''ephemeral thread status failed without an error'' thread_id
       (summary_status C thread_id)) of_result"

definition recovered_eventless_turn :: "coordinator \<Rightarrow> run_state \<Rightarrow> string \<Rightarrow> string \<Rightarrow> bool action" where
  "recovered_eventless_turn C s thread_id turn_id =
     and_then (eventless_successful_patch_thread_runtime_status C thread_id) (\<lambda>runtime.
     if runtime = SystemError then
       refuse (history_unavailable
         ''ephemeral task entered systemError before paused successful-patch recovery'')
     else if runtime = Active then answer False
     else
       and_then (recover_eventless_successful_patch_turn_for_status C s thread_id turn_id SPausedUserAction)
         (\<lambda>_. answer True))"

definition prepare_paused_eventless_successful_patch_turn_retry :: "coordinator \<Rightarrow> run_state \<Rightarrow> bool action" where
  "prepare_paused_eventless_successful_patch_turn_retry C s =
     (if \<not> paused_integration s then answer False
      else
        and_then (pending_send_of C (run_id_of C s)) (\<lambda>found.
        case Option.bind found (\<lambda>p. map_option (Pair p) (turn_identity p)) of
          None \<Rightarrow> answer False
        | Some (p, thread_id, turn_id) \<Rightarrow>
            and_then (eventless_successful_patch_turn_matches C s thread_id turn_id SPausedUserAction) (\<lambda>matches.
            if \<not> matches then answer False
            else
              and_then (recorded_role C s Primary thread_id (ps_binding p)) (\<lambda>_.
              and_then (recorded_role_thread_is_ephemeral C s Primary (ps_binding p)
                  ''paused eventless successful-patch turn'') (\<lambda>ephemeral.
              if \<not> ephemeral then answer False else recovered_eventless_turn C s thread_id turn_id)))))"

subsection \<open>A turn that waits for the approval of a patch\<close>

definition TURN_INTERRUPT_TIMEOUT :: nat where
  "TURN_INTERRUPT_TIMEOUT = 10000"

definition approval_blocker ::
  "coordinator \<Rightarrow> run_state \<Rightarrow> thread_detail \<Rightarrow> json \<Rightarrow> string \<Rightarrow> string list \<Rightarrow> string option" where
  "approval_blocker C s detail turn h statuses =
     pending_controlled_patch_approval_blocker (co_libs C) s (Some (td_summary detail)) turn h statuses"

definition answered_by_agent :: "json \<Rightarrow> bool" where
  "answered_by_agent turn \<longleftrightarrow>
     (case array_field turn ''items'' of
        None \<Rightarrow> False | Some items \<Rightarrow> list_ex (\<lambda>item. item_type item = Some ''agentMessage'') items)"

definition verify_failed_controlled_patch_retry_turn ::
  "coordinator \<Rightarrow> run_state \<Rightarrow> thread_detail \<Rightarrow> json \<Rightarrow> string \<Rightarrow> string action" where
  "verify_failed_controlled_patch_retry_turn C s detail turn h =
     and_then (patch_recorded C s h) (\<lambda>recorded.
     and_then (of_result (ensure (\<not> recorded) (turn_retry_unsafe
         ''controlled patch was recorded as successful before its failed retry''))) (\<lambda>_.
     and_then (of_result (refused_if
         (\<lambda>t. turn_retry_unsafe (''failed controlled-patch turn cannot be retried: '' @ t))
         (approval_blocker C s detail turn h [''failed'']))) (\<lambda>_.
     if answered_by_agent turn then
       verify_patch_not_authorized_retry_turn C s (Some (td_summary detail)) turn h
     else
       and_then (of_result (authorized_target s)) (\<lambda>target.
       inspect (\<lambda>e. guarded (verify_integration_patch_ready e (facts s) target))))))"

text \<open>The commit a failed patch must leave as it is; nothing if the patch only waits.\<close>

definition failed_patch_head ::
  "coordinator \<Rightarrow> run_state \<Rightarrow> thread_detail \<Rightarrow> json \<Rightarrow> string \<Rightarrow> string option action" where
  "failed_patch_head C s detail turn h =
     (case approval_blocker C s detail turn h [''inProgress''] of
        None \<Rightarrow> answer None
      | Some t \<Rightarrow>
          if approval_blocker C s detail turn h [''failed''] \<noteq> None then refuse (turn_retry_unsafe t)
          else and_then (verify_failed_controlled_patch_retry_turn C s detail turn h) (\<lambda>sha. answer (Some sha)))"

definition unchanged_head ::
  "coordinator \<Rightarrow> run_state \<Rightarrow> thread_detail \<Rightarrow> json \<Rightarrow> string \<Rightarrow> string \<Rightarrow> unit action" where
  "unchanged_head C s detail turn h expected =
     and_then (verify_failed_controlled_patch_retry_turn C s detail turn h) (\<lambda>sha.
     of_result (ensure (sha = expected) (turn_retry_unsafe
       ''authorized integration HEAD changed while the failed controlled-patch turn was interrupted'')))"

definition completed_meanwhile ::
  "coordinator \<Rightarrow> run_state \<Rightarrow> thread_detail \<Rightarrow> json \<Rightarrow> string \<Rightarrow> string \<Rightarrow> string \<Rightarrow> string option \<Rightarrow> unit action" where
  "completed_meanwhile C s detail turn h thread_id turn_id expected =
     (case expected of
        None \<Rightarrow> answer ()
      | Some sha \<Rightarrow>
          and_then (unchanged_head C s detail turn h sha) (\<lambda>_.
          transact C (\<lambda>_. reset_completed_integration_tool_failure_turn_for_retry (run_id_of C s) h
            thread_id turn_id ''completed'')))"

definition ended_by_interrupt ::
  "coordinator \<Rightarrow> run_state \<Rightarrow> thread_detail \<Rightarrow> json \<Rightarrow> string \<Rightarrow> string \<Rightarrow> string \<Rightarrow> string option \<Rightarrow> string
   \<Rightarrow> unit action" where
  "ended_by_interrupt C s detail turn h thread_id turn_id expected state =
     and_then (case expected of
         Some sha \<Rightarrow> unchanged_head C s detail turn h sha
       | None \<Rightarrow> of_result (refused_if turn_retry_unsafe
           (approval_blocker C s detail turn h [''inProgress'', ''failed'', ''declined'', ''interrupted'']))) (\<lambda>_.
     and_then (patch_recorded C s h) (\<lambda>recorded.
     and_then (of_result (ensure (\<not> recorded) (turn_retry_unsafe
         ''controlled patch completed while its approval turn was interrupted''))) (\<lambda>_.
     and_then (of_result (authorized_target s)) (\<lambda>target.
     and_then (inspect (\<lambda>e. guarded (verify_integration_in_progress e (facts s) target))) (\<lambda>_.
     transact C (\<lambda>_. reset_terminal_turn_for_retry (run_id_of C s) h thread_id turn_id state))))))"

fun interrupt_loop ::
  "coordinator \<Rightarrow> run_state \<Rightarrow> string \<Rightarrow> string \<Rightarrow> string \<Rightarrow> string option \<Rightarrow> string option \<Rightarrow> nat
   \<Rightarrow> nat \<Rightarrow> unit action" where
  "interrupt_loop C s h thread_id turn_id expected failed deadline 0 = given_up"
| "interrupt_loop C s h thread_id turn_id expected failed deadline (Suc n) =
     and_then (read_identified C thread_id) (\<lambda>detail.
     and_then (of_result (ok_or (history_unavailable
         ''interrupted controlled patch turn disappeared from canonical history'')
         (find_turn detail turn_id))) (\<lambda>turn.
     and_then (of_result (canonical_status turn ''interrupted controlled patch turn'')) (\<lambda>state.
     if state = ''completed'' then completed_meanwhile C s detail turn h thread_id turn_id expected
     else if state \<in> {''failed'', ''interrupted''} then
       ended_by_interrupt C s detail turn h thread_id turn_id expected state
     else if state \<noteq> ''inProgress'' then
       refuse (turn_retry_unsafe (''controlled patch approval turn entered unsupported status '' @ state))
     else
       and_then (before_deadline C deadline
         (case failed of Some t \<Rightarrow> t | None \<Rightarrow> ''turn remained in progress after interruption'')) (\<lambda>_.
       and_then (pause_for C) (\<lambda>_.
       interrupt_loop C s h thread_id turn_id expected failed deadline n)))))"

text \<open>The interruption may fail: the turn is watched all the same, and the failure is reported at the deadline.\<close>

definition interrupted_turn ::
  "coordinator \<Rightarrow> run_state \<Rightarrow> string \<Rightarrow> string \<Rightarrow> string \<Rightarrow> string option \<Rightarrow> unit action" where
  "interrupted_turn C s h thread_id turn_id expected =
     and_then (log_effect (TurnInterrupted thread_id turn_id)) (\<lambda>_.
     and_then (ask C (\<lambda>n. sv_interrupt_turn (co_server C) n thread_id turn_id)) (\<lambda>r.
     and_then (instant C) (\<lambda>now.
     interrupt_loop C s h thread_id turn_id expected
       (case r of Inl err \<Rightarrow> Some (app_server_error_text err) | Inr _ \<Rightarrow> None)
       (now + min (co_wait_timeout C) TURN_INTERRUPT_TIMEOUT) (co_patience C))))"

definition prepare_pending_controlled_patch_approval_retry ::
  "coordinator \<Rightarrow> run_state \<Rightarrow> string \<Rightarrow> string \<Rightarrow> string \<Rightarrow> thread_detail \<Rightarrow> json \<Rightarrow> bool action" where
  "prepare_pending_controlled_patch_approval_retry C s h thread_id turn_id detail turn =
     (if \<not> paused_integration s \<or> integration_recorded s \<or> mcp_calls turn = [] then answer False
      else
        and_then (patch_recorded C s h) (\<lambda>recorded.
        and_then (of_result (ensure (\<not> recorded) (turn_retry_unsafe
            ''an in-progress approval turn already has a successful controlled patch record''))) (\<lambda>_.
        and_then (failed_patch_head C s detail turn h) (\<lambda>expected.
        and_then (interrupted_turn C s h thread_id turn_id expected) (\<lambda>_. answer True)))))"

subsection \<open>The turn of a paused run\<close>

definition pending_turn_record ::
  "coordinator \<Rightarrow> run_state \<Rightarrow> role \<Rightarrow> pending_send \<Rightarrow> string \<Rightarrow> string \<Rightarrow> (thread_detail option \<times> json) action" where
  "pending_turn_record C s role p thread_id turn_id =
     and_then (recorded_role_thread_is_ephemeral C s role (ps_binding p) ''persisted pending turn'') (\<lambda>ephemeral.
     if ephemeral then
       and_then (completed_turn_from_event_evidence C s thread_id turn_id) (\<lambda>found.
       and_then (of_result (ok_or (history_unavailable
           (''ephemeral pending turn has no durable terminal event evidence; automatic resend is unsafe'')) found))
         (\<lambda>turn. answer (None, turn)))
     else
       and_then (read_identified C thread_id) (\<lambda>detail.
       and_then (of_result (canonical_turn detail turn_id ''persisted pending turn'')) (\<lambda>turn.
       answer (Some detail, turn))))"

definition interrupted_if_active ::
  "coordinator \<Rightarrow> run_state \<Rightarrow> pending_send \<Rightarrow> string \<Rightarrow> string \<Rightarrow> thread_detail option \<Rightarrow> json \<Rightarrow> string
   \<Rightarrow> bool action" where
  "interrupted_if_active C s p thread_id turn_id detail turn state =
     (if state \<noteq> ''inProgress'' then answer False
      else
        and_then (of_result (ok_or (history_unavailable
            (''ephemeral in-progress turn cannot be recovered without durable terminal event evidence'')) detail))
          (\<lambda>d. prepare_pending_controlled_patch_approval_retry C s (ps_hash p) thread_id turn_id d turn))"

definition prepare_terminal_turn ::
  "coordinator \<Rightarrow> run_state \<Rightarrow> pending_send \<Rightarrow> string \<Rightarrow> string \<Rightarrow> unit action" where
  "prepare_terminal_turn C s p thread_id turn_id =
     and_then (of_result (ok_or (invalid_state ''paused communication action has no task role'')
         (action_role (next_action s)))) (\<lambda>role.
     and_then (of_result (ensure (ps_role p = role_name role) (history_unavailable
         ''pending turn identity does not match the deterministic current action''))) (\<lambda>_.
     and_then (recorded_role C s role thread_id (ps_binding p)) (\<lambda>_.
     and_then (pending_turn_record C s role p thread_id turn_id) (\<lambda>(detail, turn).
     and_then (of_result (canonical_status turn ''persisted pending turn'')) (\<lambda>state.
     and_then (of_result (carries_request C turn (ps_hash p) (history_unavailable
         ''persisted pending turn lacks its deterministic request marker''))) (\<lambda>_.
     and_then (interrupted_if_active C s p thread_id turn_id detail turn state) (\<lambda>interrupted.
     if interrupted \<or> state \<notin> {''failed'', ''interrupted''} then answer ()
     else
       and_then (of_result (refused_if
           (\<lambda>t. turn_retry_unsafe (''terminal turn '' @ turn_id @ '' cannot be retried automatically: '' @ t))
           (terminal_turn_retry_blocker turn))) (\<lambda>_.
       transact C (\<lambda>_. reset_terminal_turn_for_retry (run_id_of C s) (ps_hash p) thread_id turn_id state)))))))))"

definition prepare_terminal_turn_retry :: "coordinator \<Rightarrow> run_state \<Rightarrow> unit action" where
  "prepare_terminal_turn_retry C s =
     and_then (pending_send_of C (run_id_of C s)) (\<lambda>found.
     case found of
       None \<Rightarrow> answer ()
     | Some p \<Rightarrow>
         (case (ps_thread p, ps_turn p) of
            (Some thread_id, Some turn_id) \<Rightarrow> prepare_terminal_turn C s p thread_id turn_id
          | (None, None) \<Rightarrow> answer ()
          | _ \<Rightarrow> refuse (history_unavailable ''pending turn has only one of thread_id and turn_id'')))"

text \<open>The recoveries of a paused run, in the order they are tried.\<close>

definition tool_failure_retry :: "coordinator \<Rightarrow> run_state \<Rightarrow> retryable_turn option action" where
  "tool_failure_retry C s =
     and_then (inspect_completed_patch_not_authorized_retry C s) (\<lambda>found.
     if found \<noteq> None then answer found else inspect_completed_file_change_tool_unavailable_retry C s)"

definition prepare_paused_turn :: "coordinator \<Rightarrow> string \<Rightarrow> run_state \<Rightarrow> unit action" where
  "prepare_paused_turn C run_id s =
     and_then (restore_archived_integration_turn_after_ephemeral_loss C s) (\<lambda>restored.
     and_then (if restored then answer True else prepare_paused_eventless_successful_patch_turn_retry C s) (\<lambda>settled.
     if settled then answer ()
     else
       and_then (tool_failure_retry C s) (\<lambda>found.
       case found of
         Some retry \<Rightarrow> transact C (\<lambda>_. reset_completed_integration_tool_failure_turn_for_retry run_id
             (rt_hash retry) (rt_thread retry) (rt_turn retry) (rt_observed retry))
       | None \<Rightarrow> prepare_terminal_turn_retry C s)))"

end
