(* ===== verification/Turn_Resume.thy ===== *)
theory Turn_Resume
  imports Turn_Restart Turn_Drive
begin

text \<open>
  The requests to the coordinator (\<open>crates/daemon/src/coordinator.rs\<close>): to start a run, to apply a
  controlled patch, to resume a run that stopped, to cancel one, and the recovery of runs when the daemon
  starts.
\<close>

definition CONTROLLED_PATCH_APPROVAL_KEY :: string where
  "CONTROLLED_PATCH_APPROVAL_KEY = ''plugins.worktree-merge-consensus.mcp_servers.worktreeMergeConsensus''
     @ ''.tools.consensus_apply_patch.approval_mode''"

definition CONTROLLED_PATCH_APPROVAL_MODE :: string where
  "CONTROLLED_PATCH_APPROVAL_MODE = ''approve''"

definition ensure_controlled_patch_approval :: "coordinator \<Rightarrow> unit action" where
  "ensure_controlled_patch_approval C =
     and_then (ask C (sv_approval_mode (co_server C))) (\<lambda>r.
     of_result (attempt (map_err (communication_error ''config/read'' None) r) (\<lambda>mode.
       ensure (mode = Some CONTROLLED_PATCH_APPROVAL_MODE) (operational ''APPROVAL_CONFIGURATION_REQUIRED''
         (CONTROLLED_PATCH_APPROVAL_KEY @ '' must equal '' @ CONTROLLED_PATCH_APPROVAL_MODE
          @ ''; run `codex-consensus configure` once, then retry the same run'')))))"

subsection \<open>Start and cancellation\<close>

record start_request =
  rq_branch :: "string option"
  rq_tests :: "string list"

definition start_run :: "coordinator \<Rightarrow> run_state \<Rightarrow> start_request \<Rightarrow> run_state action" where
  "start_run C s request =
     and_then (of_result (ensure (rf_primary_thread_id (facts s) \<noteq> rf_reviewer_thread_id (facts s))
         (operational ''AMBIGUOUS_THREAD'' ''primary and reviewer task IDs must differ''))) (\<lambda>_.
     and_then (ensure_controlled_patch_approval C) (\<lambda>_.
     let requested = (case rq_branch request of Some b \<Rightarrow> b | None \<Rightarrow> ''consensus/'' @ run_id_of C s) in
     and_then (of_result (guarded (git (normalize_branch_name requested)))) (\<lambda>branch.
     and_then (of_result (ensure (list_all (validate_test_command (tl_policy (co_libs C))) (rq_tests request))
         (operational ''INVALID_TEST_COMMAND''
            (''test commands must be nonempty, single commands without publication or destructive ''
             @ ''Git operations'')))) (\<lambda>_.
     and_then (change (configure_integration branch (rq_tests request)) s) (\<lambda>s'.
     and_then (load_history C s') (\<lambda>_.
     and_then (inspect (\<lambda>e. guarded (verify_frozen e (facts s')))) (\<lambda>_.
     and_then (inspect (\<lambda>e. guarded (verify_branch_absent e (facts s') branch))) (\<lambda>_.
     and_then (transact C (\<lambda>now. insert_run (co_env C) now s')) (\<lambda>_.
     answer s')))))))))"

definition cancel_run :: "coordinator \<Rightarrow> string \<Rightarrow> run_state action" where
  "cancel_run C run_id =
     and_then (required_run C run_id) (\<lambda>s.
     and_then (save C (cancel s)) (\<lambda>_. answer (cancel s)))"

subsection \<open>Controlled patches\<close>

record integration_patch_result =
  ip_run :: string
  ip_branch :: string
  ip_base :: string
  ip_changed :: "string list"

abbreviation patch_not_authorized :: "string \<Rightarrow> coordinator_error" where
  "patch_not_authorized detail \<equiv> operational ''PATCH_NOT_AUTHORIZED'' detail"

definition awaits_patch :: "coordinator \<Rightarrow> run_state \<Rightarrow> bool" where
  "awaits_patch C s \<longleftrightarrow>
     status s = SRunning \<and> phase s = Integrate \<and> next_action s = RequestPrimaryIntegration
     \<and> (\<not> integration_recorded s \<or> active_corrective_patch_request (tl_core (co_libs C)) s)"

definition patch_matches :: "run_state \<Rightarrow> string \<Rightarrow> pending_send \<Rightarrow> primary_participant_binding \<Rightarrow> bool" where
  "patch_matches s h p b \<longleftrightarrow>
     \<not> blank h \<and> ps_hash p = h \<and> sent_for p ''PRIMARY'' ''INTEGRATE'' s
     \<and> bi_source b = rf_primary_thread_id (facts s) \<and> ps_thread p = Some (bi_effective b)
     \<and> ps_binding p = Some (bi_generation b) \<and> ps_turn p \<notin> {None, Some []}"

definition patch_binding ::
  "coordinator \<Rightarrow> run_state \<Rightarrow> string \<Rightarrow> string \<Rightarrow> primary_participant_binding action" where
  "patch_binding C s run_id h =
     and_then (pending_send_of C run_id) (\<lambda>pending.
     and_then (of_result (ok_or (patch_not_authorized
         ''controlled patch requires an exact persisted primary integration turn'') pending)) (\<lambda>p.
     and_then (read_store C (\<lambda>st. ok_or (patch_not_authorized
         ''controlled patch requires an active Primary participant binding'')
         (query_active_primary_binding st run_id))) (\<lambda>b.
     and_then (of_result (ensure (patch_matches s h p b) (patch_not_authorized
         (''controlled patch identity does not match the exact active primary integration request'')))) (\<lambda>_.
     and_then (read_store C (\<lambda>st. ensure (\<not> successful_patch_recorded st run_id h)
         (operational ''PATCH_ALREADY_APPLIED''
            (''the active primary integration request already used its one successful controlled patch'')))) (\<lambda>_.
     answer b)))))"

definition patched_by ::
  "(git_env \<Rightarrow> (safety_error + 'a) \<times> git_env) \<Rightarrow> 'a action" where
  "patched_by op w = (let (r, e') = op (wd_git w) in Some (guarded r, w\<lparr>wd_git := e'\<rparr>))"

definition patched_repository ::
  "coordinator \<Rightarrow> run_state \<Rightarrow> string \<Rightarrow> string \<Rightarrow> (string \<times> string list) action" where
  "patched_repository C s target patch =
     (if active_corrective_patch_request (tl_core (co_libs C)) s then
        and_then (of_result (ok_or (invalid_state ''corrective patch requires the persisted integration SHA'')
            (integration_sha s))) (\<lambda>expected.
        patched_by (apply_corrective_integration_patch (co_apply C) (facts s) target expected patch))
      else patched_by (apply_integration_patch (co_apply C) (facts s) target patch))"

definition patch_hash_text :: "libs \<Rightarrow> string \<Rightarrow> string" where
  "patch_hash_text L patch = canonical_json_hash L (json_object [(''patch'', JStr patch)])"

definition apply_patch :: "coordinator \<Rightarrow> string \<Rightarrow> string \<Rightarrow> string \<Rightarrow> integration_patch_result action" where
  "apply_patch C run_id h patch =
     and_then (required_run C run_id) (\<lambda>s.
     and_then (of_result (ensure (awaits_patch C s) (patch_not_authorized
         ''controlled patch is limited to an exact active primary integration request''))) (\<lambda>_.
     and_then (patch_binding C s run_id h) (\<lambda>b.
     and_then (of_result (authorized_target s)) (\<lambda>target.
     and_then (patched_repository C s target patch) (\<lambda>(base, changed).
     and_then (transact C (\<lambda>_. record_successful_patch_with_provenance run_id h
         (patch_hash_text (tl_core (co_libs C)) patch) (Some (bi_source b)) (Some (bi_effective b))
         (Some (bi_generation b)))) (\<lambda>_.
     answer \<lparr>ip_run = run_id, ip_branch = target, ip_base = base, ip_changed = changed\<rparr>))))))"

subsection \<open>The action of a resumed run\<close>

record resume_plan =
  rp_invalid_test :: "next_action option"
  rp_integration_response :: "next_action option"
  rp_unexecuted :: "next_action option"
  rp_lifecycle :: "next_action option"
  rp_environment :: "next_action option"
  rp_recreation :: "next_action option"
  rp_response :: "next_action option"
  rp_correction :: "next_action option"
  rp_execution_tool :: "next_action option"
  rp_completed_forbidden :: "next_action option"
  rp_forbidden :: "next_action option"

definition or_else :: "'a option \<Rightarrow> 'a option \<Rightarrow> 'a option" where
  "or_else a b = (if a = None then b else a)"

definition resume_plan_of :: "coordinator \<Rightarrow> run_state \<Rightarrow> coordinator_error + resume_plan" where
  "resume_plan_of C s =
     (let L = tl_core (co_libs C); P = tl_policy (co_libs C) in
      attempt (invalid_test_retry_action s) (\<lambda>invalid_test.
      attempt (integration_invalid_response_retry_action s) (\<lambda>integration_response.
      attempt (verification_without_execution_retry_action s) (\<lambda>unexecuted.
      attempt (reviewer_reasoning_lifecycle_compatibility_retry_action s) (\<lambda>lifecycle.
      attempt (verification_environment_unavailable_retry_action s) (\<lambda>environment.
      attempt (unsent_ephemeral_source_recreation_retry_action s) (\<lambda>recreation.
      attempt (if integration_response = None then invalid_response_retry_action s else Inr None) (\<lambda>response.
      attempt (corrective_patch_tool_unavailable_retry_action L s) (\<lambda>correction.
      attempt (execution_tool_unavailable_retry_action s) (\<lambda>execution_tool.
      attempt (completed_integration_forbidden_operation_retry_action P s) (\<lambda>completed_forbidden.
      attempt (if completed_forbidden = None then forbidden_operation_retry_action s else Inr None) (\<lambda>forbidden.
      Inr \<lparr>rp_invalid_test = invalid_test, rp_integration_response = integration_response,
           rp_unexecuted = unexecuted, rp_lifecycle = lifecycle, rp_environment = environment,
           rp_recreation = recreation, rp_response = response, rp_correction = correction,
           rp_execution_tool = execution_tool, rp_completed_forbidden = completed_forbidden,
           rp_forbidden = forbidden\<rparr>))))))))))))"

definition completed_response_action :: "resume_plan \<Rightarrow> next_action option" where
  "completed_response_action r = or_else (rp_invalid_test r) (rp_response r)"

definition effective_action :: "run_state \<Rightarrow> resume_plan \<Rightarrow> next_action" where
  "effective_action s r =
     (case fold (\<lambda>b a. or_else a b)
        [rp_correction r, rp_execution_tool r, rp_completed_forbidden r, rp_forbidden r,
         rp_integration_response r, rp_unexecuted r, rp_lifecycle r, rp_environment r, rp_recreation r,
         completed_response_action r] None of
        Some action \<Rightarrow> action
      | None \<Rightarrow> next_action s)"

subsection \<open>The repository of a resumed run\<close>

definition revalidate_current_repository :: "coordinator \<Rightarrow> run_state \<Rightarrow> unit action" where
  "revalidate_current_repository C s =
     (case (integration_branch s, integration_sha s) of
        (Some branch, Some sha) \<Rightarrow>
          and_then (load_history C s) (\<lambda>_.
          and_then (of_result (attempt (current_integration s) reported_changed_files)) (\<lambda>files.
          inspect (\<lambda>e. guarded (verify_integration e (facts s) branch sha files))))
      | _ \<Rightarrow> inspect (\<lambda>e. guarded (verify_frozen e (facts s))))"

definition corrected_repository :: "run_state \<Rightarrow> unit action" where
  "corrected_repository s =
     and_then (of_result (ok_or (invalid_state ''corrective patch-tool recovery has no integration branch'')
         (integration_branch s))) (\<lambda>branch.
     and_then (of_result (ok_or (invalid_state ''corrective patch-tool recovery has no integration SHA'')
         (integration_sha s))) (\<lambda>sha.
     and_then (of_result (attempt (current_integration s) reported_changed_files)) (\<lambda>files.
     inspect (\<lambda>e. guarded (verify_integration e (facts s) branch sha files)))))"

definition integrating_repository :: "run_state \<Rightarrow> unit action" where
  "integrating_repository s =
     and_then (of_result (authorized_target s)) (\<lambda>target.
     inspect (\<lambda>e. guarded (verify_integration_in_progress e (facts s) target)))"

definition untouched_repository :: "run_state \<Rightarrow> unit action" where
  "untouched_repository s =
     and_then (of_result (authorized_target s)) (\<lambda>target.
     and_then (inspect (\<lambda>e. guarded (verify_frozen e (facts s)))) (\<lambda>_.
     inspect (\<lambda>e. guarded (verify_branch_absent e (facts s) target))))"

definition resumable_repository :: "coordinator \<Rightarrow> run_state \<Rightarrow> resume_plan \<Rightarrow> unit action" where
  "resumable_repository C s r =
     (if rp_correction r \<noteq> None then corrected_repository s
      else if rp_completed_forbidden r \<noteq> None then integrating_repository s
      else if rp_execution_tool r \<noteq> None \<or> rp_forbidden r \<noteq> None then untouched_repository s
      else if effective_action s r = RequestPrimaryIntegration then integrating_repository s
      else revalidate_current_repository C s)"

subsection \<open>The resumption\<close>

definition restored_run :: "next_action run_op \<Rightarrow> next_action \<Rightarrow> string \<Rightarrow> run_state \<Rightarrow> run_state action" where
  "restored_run op action mismatch s =
     of_result (attempt (reopening op s) (\<lambda>(restored, s').
       attempt (ensure (restored = action) (incompatible_run mismatch)) (\<lambda>_. Inr s')))"

type_synonym turn_retry_op =
  "store_env \<Rightarrow> int \<Rightarrow> run_state \<Rightarrow> run_state \<Rightarrow> string \<Rightarrow> string \<Rightarrow> string \<Rightarrow> string \<Rightarrow> store \<Rightarrow> unit transaction"

type_synonym accepted_retry_op =
  "store_env \<Rightarrow> int \<Rightarrow> run_state \<Rightarrow> run_state \<Rightarrow> accepted_turn \<Rightarrow> string \<Rightarrow> store \<Rightarrow> unit transaction"

definition reactivated_by ::
  "coordinator \<Rightarrow> turn_retry_op \<Rightarrow> run_state \<Rightarrow> retryable_turn \<Rightarrow> run_state \<Rightarrow> run_state action" where
  "reactivated_by C op blocked retry s =
     and_then (transact C (\<lambda>now. op (co_env C) now blocked s (rt_hash retry) (rt_thread retry) (rt_turn retry)
       (rt_observed retry))) (\<lambda>_. answer s)"

definition reactivated_after ::
  "coordinator \<Rightarrow> accepted_retry_op \<Rightarrow> run_state \<Rightarrow> accepted_turn \<times> string \<Rightarrow> run_state \<Rightarrow> run_state action" where
  "reactivated_after C op blocked retry s =
     and_then (transact C (\<lambda>now. op (co_env C) now blocked s (fst retry) (snd retry))) (\<lambda>_. answer s)"

definition resume_forbidden :: "coordinator \<Rightarrow> run_state \<Rightarrow> next_action \<Rightarrow> run_state action" where
  "resume_forbidden C s action =
     and_then (inspect_interrupted_forbidden_operation_retry C s action) (\<lambda>retry.
     and_then (restored_run retry_blocked_preintegration_forbidden_operation action
         ''restored forbidden-operation action does not match its interrupted turn'' s)
       (reactivated_by C reactivate_blocked_run_with_interrupted_forbidden_operation_retry s retry))"

definition resume_recreation :: "coordinator \<Rightarrow> run_state \<Rightarrow> next_action \<Rightarrow> run_state action" where
  "resume_recreation C s action =
     and_then (restored_run retry_blocked_unsent_ephemeral_source_recreation action
         ''restored ephemeral Source recreation action does not match its diagnostic'' s) (\<lambda>s'.
     and_then (transact C (\<lambda>now.
         reactivate_blocked_run_with_unsent_ephemeral_recreation_retry (co_env C) now s s')) (\<lambda>_. answer s'))"

definition resume_completed_forbidden :: "coordinator \<Rightarrow> run_state \<Rightarrow> next_action \<Rightarrow> run_state action" where
  "resume_completed_forbidden C s action =
     and_then (inspect_completed_integration_invalid_response_retry C s action) (\<lambda>retry.
     and_then (restored_run retry_blocked_completed_integration_forbidden_operation action
         ''restored completed-integration command-audit action does not match its diagnostic'' s)
       (reactivated_by C reactivate_blocked_run_with_completed_turn_retry s retry))"

definition resume_correction :: "coordinator \<Rightarrow> run_state \<Rightarrow> next_action \<Rightarrow> run_state action" where
  "resume_correction C s action =
     and_then (inspect_completed_corrective_patch_tool_unavailable_retry C s action) (\<lambda>retry.
     and_then (of_result (ensure
         (reason_code s \<in> {Some ''CONTROLLED_PATCH_TOOL_UNAVAILABLE'', Some ''PATCH_NOT_AUTHORIZED''})
         (incompatible_run ''corrective patch recovery reason changed after inspection''))) (\<lambda>_.
     and_then (restored_run (correction_op C (reason_code s = Some ''PATCH_NOT_AUTHORIZED'')) action
         ''restored corrective patch-tool action does not match its accepted blocker'' s) (\<lambda>s'.
     and_then (reactivated_after C reactivate_blocked_run_with_corrective_patch_tool_retry s retry s') (\<lambda>_.
     and_then (ensure_primary_participant_binding C s') (\<lambda>(_, s''). answer s'')))))"

definition resume_execution_tool :: "coordinator \<Rightarrow> run_state \<Rightarrow> next_action \<Rightarrow> run_state action" where
  "resume_execution_tool C s action =
     and_then (inspect_completed_execution_tool_unavailable_retry C s action) (\<lambda>retry.
     and_then (restored_run retry_blocked_integration_execution_tool_unavailable action
         ''restored execution-tool action does not match its accepted blocker'' s)
       (reactivated_after C reactivate_blocked_run_with_accepted_execution_tool_retry s retry))"

definition resume_integration_response :: "coordinator \<Rightarrow> run_state \<Rightarrow> next_action \<Rightarrow> run_state action" where
  "resume_integration_response C s action =
     and_then (inspect_completed_integration_invalid_response_retry C s action) (\<lambda>retry.
     and_then (restored_run retry_blocked_integration_invalid_response action
         ''restored integration invalid-response action does not match its diagnostic'' s)
       (reactivated_by C reactivate_blocked_run_with_completed_turn_retry s retry))"

definition verification_retry_op :: "verification_retry_kind \<Rightarrow> turn_retry_op" where
  "verification_retry_op kind =
     (case kind of
        EmptyTurn \<Rightarrow> reactivate_blocked_run_with_completed_turn_retry
      | EventEvidenceCompatibility \<Rightarrow> reactivate_blocked_run_with_verification_evidence_retry
      | UnattendedVerificationMigration \<Rightarrow> reactivate_blocked_run_with_unattended_verification_retry)"

definition resume_unexecuted :: "coordinator \<Rightarrow> run_state \<Rightarrow> next_action \<Rightarrow> run_state action" where
  "resume_unexecuted C s action =
     and_then (inspect_completed_verification_without_execution_retry C s action) (\<lambda>(retry, kind).
     and_then (restored_run retry_blocked_verification_without_execution action
         ''restored verification action does not match its failed turn'' s)
       (reactivated_by C (verification_retry_op kind) s retry))"

definition resume_lifecycle :: "coordinator \<Rightarrow> run_state \<Rightarrow> next_action \<Rightarrow> run_state action" where
  "resume_lifecycle C s action =
     and_then (inspect_completed_reviewer_reasoning_lifecycle_replay C s action) (\<lambda>retry.
     and_then (restored_run retry_blocked_reviewer_reasoning_lifecycle_compatibility action
         ''restored Reviewer lifecycle action does not match its completed turn'' s)
       (reactivated_by C reactivate_blocked_run_with_completed_turn_replay s retry))"

definition resume_environment :: "coordinator \<Rightarrow> run_state \<Rightarrow> next_action \<Rightarrow> run_state action" where
  "resume_environment C s action =
     and_then (inspect_completed_verification_environment_unavailable_retry C s action) (\<lambda>retry.
     and_then (restored_run retry_blocked_verification_environment_unavailable action
         ''restored verification action does not match its environment-blocked turn'' s)
       (reactivated_after C reactivate_blocked_run_with_accepted_verification_environment_retry s retry))"

definition resume_paused :: "coordinator \<Rightarrow> run_state \<Rightarrow> run_state action" where
  "resume_paused C s =
     and_then (of_result (reopening resume s)) (\<lambda>(_, s').
     and_then (save C s') (\<lambda>_. answer s'))"

definition blocked_response_op :: "run_state \<Rightarrow> coordinator_error + next_action run_op" where
  "blocked_response_op s =
     (if reason_code s = Some ''INVALID_TEST_COMMAND'' then Inr retry_blocked_invalid_test_command
      else if reason_code s = Some ''INVALID_RESPONSE'' then Inr retry_blocked_preintegration_invalid_response
      else Inl (incompatible_run ''completed model-response retry has an unsupported blocked reason''))"

definition resume_response :: "coordinator \<Rightarrow> string \<Rightarrow> run_state \<Rightarrow> next_action \<Rightarrow> run_state action" where
  "resume_response C run_id s action =
     and_then (inspect_completed_read_only_model_response_retry C s action) (\<lambda>retry.
     if status s = SBlocked then
       and_then (of_result (blocked_response_op s)) (\<lambda>op.
       and_then (restored_run op action ''restored model-response action does not match its diagnostic'' s)
         (reactivated_by C reactivate_blocked_run_with_completed_turn_retry s retry))
     else
       and_then (transact C (\<lambda>_. reset_completed_read_only_turn_for_retry run_id (rt_hash retry)
           (rt_thread retry) (rt_turn retry) (rt_observed retry))) (\<lambda>_. resume_paused C s))"

text \<open>The first selector that found an action decides.\<close>

fun first_selected :: "(next_action option \<times> (next_action \<Rightarrow> 'a action)) list \<Rightarrow> 'a action \<Rightarrow> 'a action" where
  "first_selected [] rest = rest"
| "first_selected ((Some action, f) # cases) rest = f action"
| "first_selected ((None, f) # cases) rest = first_selected cases rest"

definition resume_selected :: "coordinator \<Rightarrow> string \<Rightarrow> run_state \<Rightarrow> resume_plan \<Rightarrow> run_state action" where
  "resume_selected C run_id s r =
     first_selected
       [(rp_forbidden r, resume_forbidden C s), (rp_recreation r, resume_recreation C s),
        (rp_completed_forbidden r, resume_completed_forbidden C s), (rp_correction r, resume_correction C s),
        (rp_execution_tool r, resume_execution_tool C s),
        (rp_integration_response r, resume_integration_response C s), (rp_unexecuted r, resume_unexecuted C s),
        (rp_lifecycle r, resume_lifecycle C s), (rp_environment r, resume_environment C s),
        (completed_response_action r, resume_response C run_id s)]
       (resume_paused C s)"

definition prepare_resume :: "coordinator \<Rightarrow> string \<Rightarrow> run_state action" where
  "prepare_resume C run_id =
     and_then (required_run C run_id) (\<lambda>s.
     and_then (of_result (resume_plan_of C s)) (\<lambda>r.
     and_then (if effective_action s r = RequestPrimaryIntegration
               then ensure_controlled_patch_approval C else answer ()) (\<lambda>_.
     and_then (resumable_repository C s r) (\<lambda>_.
     and_then (if reason_code s = Some ''COMMUNICATION_FAILURE''
               then prepare_paused_turn C run_id s else answer ()) (\<lambda>_.
     resume_selected C run_id s r)))))"

definition resume_run :: "coordinator \<Rightarrow> string \<Rightarrow> run_state action" where
  "resume_run C run_id = and_then (prepare_resume C run_id) (\<lambda>_. drive C run_id)"

subsection \<open>Runs at startup\<close>

record run_summary =
  rm_run :: string
  rm_status :: run_status
  rm_phase :: phase
  rm_round :: "32 word"
  rm_branch :: "string option"
  rm_sha :: "string option"
  rm_reason :: "string option"
  rm_updated_at :: int

definition summary_of :: "run_row \<Rightarrow> run_summary" where
  "summary_of row = (let s = rn_state row in
     \<lparr>rm_run = rn_id row, rm_status = status s, rm_phase = phase s, rm_round = round s,
      rm_branch = integration_branch s, rm_sha = integration_sha s, rm_reason = reason_code s,
      rm_updated_at = rn_updated_at row\<rparr>)"

text \<open>The latest run first; runs of one time in the order of their names.\<close>

definition list_runs :: "store \<Rightarrow> run_summary list" where
  "list_runs st = sort_key (\<lambda>m. - rm_updated_at m) (sort_key rm_run (map summary_of (st_runs st)))"

definition collision_turn :: "collision \<Rightarrow> coordinator_error + string \<times> string" where
  "collision_turn c =
     attempt (ok_or (history_unavailable ''v0.2.5 completion collision has no bound primary task'')
       (ps_thread (co_pending c))) (\<lambda>thread_id.
     attempt (ok_or (history_unavailable ''v0.2.5 completion collision has no bound verification turn'')
       (ps_turn (co_pending c))) (\<lambda>turn_id. Inr (thread_id, turn_id)))"

definition collision_answered :: "coordinator \<Rightarrow> collision \<Rightarrow> json \<Rightarrow> coordinator_error + unit" where
  "collision_answered C c turn =
     attempt (ensure (str_field turn ''status'' = Some ''completed'') (history_unavailable
         ''v0.2.5 completion recovery requires the exact completed request turn'')) (\<lambda>_.
     attempt (carries_request C turn (ps_hash (co_pending c)) (history_unavailable
         ''v0.2.5 completion recovery requires the exact completed request turn'')) (\<lambda>_.
     attempt (refused_if
         (\<lambda>t. response_retry_unsafe (''v0.2.5 completion-collision turn cannot be recovered: '' @ t))
         (verification_without_execution_retry_blocker turn)) (\<lambda>_.
     attempt (marker_of C turn RequestPrimaryVerification history_unavailable) (\<lambda>r.
     ensure (resp_signal r = VerificationReady) (response_retry_unsafe
       ''v0.2.5 completion recovery requires the final VERIFICATION_READY marker'')))))"

definition startup_collision :: "coordinator \<Rightarrow> collision \<Rightarrow> run_state action" where
  "startup_collision C c =
     (let s = co_blocked c in
      and_then (revalidate_current_repository C s) (\<lambda>_.
      and_then (of_result (collision_turn c)) (\<lambda>(thread_id, turn_id).
      and_then (read_thread_with_retry C thread_id) (\<lambda>detail.
      and_then (of_result (verify_thread_identity s Primary detail)) (\<lambda>_.
      and_then (of_result (canonical_turn detail turn_id ''v0.2.5 completion-collision turn'')) (\<lambda>turn.
      and_then (of_result (collision_answered C c turn)) (\<lambda>_.
      and_then (revalidate_current_repository C s) (\<lambda>_.
      and_then (of_result (reopening recover_v025_verification_completion_collision s)) (\<lambda>(_, s').
      and_then (transact C (\<lambda>now. recover_v025_verification_completion_collision_in_store (co_env C) now c s'))
        (\<lambda>_. answer s'))))))))))"

fun recover_each :: "coordinator \<Rightarrow> run_summary list \<Rightarrow> run_state list action" where
  "recover_each C [] = answer []"
| "recover_each C (m # ms) =
     (if rm_status m = SBlocked \<and> rm_reason m = Some ''DATABASE_ERROR'' then
        and_then (read_store C (\<lambda>st. stored (co_libs C)
            (v025_verification_completion_collision_candidate st (rm_run m)))) (\<lambda>candidate.
        case candidate of
          None \<Rightarrow> recover_each C ms
        | Some c \<Rightarrow>
            and_then (startup_collision C c) (\<lambda>s.
            and_then (recover_each C ms) (\<lambda>rest. answer (s # rest))))
      else recover_each C ms)"

definition recover_startup_runs :: "coordinator \<Rightarrow> run_state list action" where
  "recover_startup_runs C = and_then (read_store C (\<lambda>st. Inr (list_runs st))) (recover_each C)"

end
