(* ===== verification/Turn_Resume_Properties.thy ===== *)
theory Turn_Resume_Properties
  imports Turn_Resume Drive_Properties Turn_Retry_Properties
begin

text \<open>
  Properties of the requests to the coordinator.
\<close>

subsection \<open>Start\<close>

lemma stored_event [simp]: "stored_state (insert_run_event L now previous s st) r = stored_state st r"
  by (simp add: insert_run_event_def stored_state_def run_row_of_def)

lemma find_new: "x \<notin> rn_id ` set rows \<Longrightarrow> find (\<lambda>r. rn_id r = x) (rows @ [row]) = (if rn_id row = x then Some row else None)"
  by (induction rows) auto

lemma valid_schema: "validate_persisted s = Inr () \<Longrightarrow> schema_version s = RUN_STATE_SCHEMA_VERSION"
  by (auto simp: validate_persisted_def outcome)

lemma stored_after_insert:
  assumes "insert_run E now s st = Inr (u, st')"
  shows "load_run st' (run_text E s) = Inr (Some s)"
proof -
  have "run_row_of st' (run_text E s) = Some (new_row E now s)"
    using insert_run_tables(2,4) [OF assms(1)] by (simp add: run_row_of_def find_new new_row_def)
  then show ?thesis
    using insert_run_tables(1) [OF assms(1)] by (simp add: load_run_Inr stored_state_Inr new_row_def valid_schema)
qed

lemma inspect_Inr [outcome]: "inspect f w = Some (Inr x, w') \<longleftrightarrow> f (wd_git w) = Inr x \<and> w' = w"
  by (auto simp: inspect_def)

lemma of_result_Inr [outcome]: "of_result r w = Some (Inr x, w') \<longleftrightarrow> r = Inr x \<and> w' = w"
  by auto

definition requested_branch :: "coordinator \<Rightarrow> run_state \<Rightarrow> start_request \<Rightarrow> string" where
  "requested_branch C s request =
     (case rq_branch request of Some b \<Rightarrow> b | None \<Rightarrow> ''consensus/'' @ run_id_of C s)"


subsection \<open>Controlled patches\<close>

text \<open>What the other clients leave alone while a patch is applied: the run, its turn and its binding.\<close>

definition undisturbed :: "coordinator \<Rightarrow> string \<Rightarrow> string \<Rightarrow> bool" where
  "undisturbed C r h \<longleftrightarrow>
     (\<forall>n st e. let st' = fst (co_others C n (st, e)) in
        load_run st' r = load_run st r \<and> pending_request st' r = pending_request st r
        \<and> query_active_primary_binding st' r = query_active_primary_binding st r
        \<and> successful_patch_recorded st' r h = successful_patch_recorded st r h)"

lemma undisturbed_elapse:
  assumes "undisturbed C r h"
  shows "load_run (wd_store (elapse C w)) r = load_run (wd_store w) r"
    "pending_request (wd_store (elapse C w)) r = pending_request (wd_store w) r"
    "query_active_primary_binding (wd_store (elapse C w)) r = query_active_primary_binding (wd_store w) r"
    "successful_patch_recorded (wd_store (elapse C w)) r h = successful_patch_recorded (wd_store w) r h"
  using assms [unfolded undisturbed_def Let_def, rule_format, of "wd_moment w" "wd_store w" "wd_git w"]
  by (simp_all add: elapse_def case_prod_beta Let_def)

lemma patched_by_Inr [outcome]:
  "patched_by op w = Some (Inr x, w') \<longleftrightarrow>
     (\<exists>e'. op (wd_git w) = (Inr x, e') \<and> w' = w\<lparr>wd_git := e'\<rparr>)"
  by (auto simp: patched_by_def outcome split: prod.splits)

lemma patch_base:
  assumes "patched_repository C s target patch w = Some (Inr (base, changed), w')"
  shows "verify_integration_patch_ready (wd_git w) (facts s) target = Inr base"
    "active_corrective_patch_request (tl_core (co_libs C)) s \<Longrightarrow> integration_sha s = Some base"
    "wd_store w' = wd_store w"
  using assms
  by (auto simp: patched_repository_def apply_integration_patch_def apply_corrective_integration_patch_def outcome
      Let_def case_prod_beta simp del: of_result_outcome split: if_splits)

lemma patch_is_recorded:
  "record_successful_patch_with_provenance r h p source effective g st = Inr (x, st') \<Longrightarrow>
     successful_patch_recorded st' r h"
  by (auto simp: record_successful_patch_with_provenance_def successful_patch_recorded_def outcome split: if_splits)


subsection \<open>What a resumption does outside\<close>

text \<open>Nothing is sent and nothing is granted.\<close>

fun resumption_effect :: "run_state \<Rightarrow> effect \<times> store \<Rightarrow> bool" where
  "resumption_effect s (TurnSent t prompt policy, st) \<longleftrightarrow> False"
| "resumption_effect s (RequestAnswered ev response, st) \<longleftrightarrow> False"
| "resumption_effect s (ConnectionRefreshed, st) \<longleftrightarrow> True"
| "resumption_effect s (ThreadForked t, st) \<longleftrightarrow>
     t = rf_primary_thread_id (facts s)
     \<and> reason_code s \<in> {Some ''CONTROLLED_PATCH_TOOL_UNAVAILABLE'', Some ''PATCH_NOT_AUTHORIZED''}"
| "resumption_effect s (TurnInterrupted t u, st) \<longleftrightarrow> paused_integration s"

locale resumption = observing "logs Q" C
  for C :: coordinator and Q :: "effect \<times> store \<Rightarrow> bool" +
  fixes s :: run_state
  assumes reconnected: "Q (ConnectionRefreshed, st)"
    and interrupted: "paused_integration s \<Longrightarrow> Q (TurnInterrupted t u, st)"
    and forked: "reason_code s \<in> {Some ''CONTROLLED_PATCH_TOOL_UNAVAILABLE'', Some ''PATCH_NOT_AUTHORIZED''} \<Longrightarrow>
      Q (ThreadForked (rf_primary_thread_id (facts s)), st)"
begin

abbreviation quiet :: "'a action \<Rightarrow> bool" where
  "quiet m \<equiv> ensures (logs Q) (\<lambda>_. True) m"

lemma then_quiet: "quiet m \<Longrightarrow> (\<And>x. quiet (f x)) \<Longrightarrow> quiet (and_then m f)"
  by (rule and_then [where Q = "\<lambda>_. True"])

lemma steps_quiet: "quiet (of_result r)" "quiet (instant C)" "quiet (inspect f)"
    "quiet (read_store C g)" "quiet (ask C call)" "quiet (transact C op)" "quiet (with_retry C o1 o2 t k)"
    "quiet (change h x)" "quiet (save C x)"
  by (auto intro: of_result instant inspect read_store ask with_retry logged.transact change logged.save)

lemmas quiet_steps = then_quiet steps_quiet readings pause_for required_run given_up

lemma reads_quiet:
  "quiet (pending_send_of C r)" "quiet (event_evidence C x t u)"
  "quiet (completed_turn_with_event_evidence C x t u turn)"
  "quiet (completed_turn_from_event_evidence C x t u)"
  "quiet (eventless_successful_patch_turn_matches C x t u expected)"
  "quiet (recorded_role_thread_is_ephemeral C x role g d)"
  "quiet (before_deadline C n detail)" "quiet (read_identified C t)"
  "quiet (load_history C x)"
  unfolding event_evidence_def completed_turn_with_event_evidence_def completed_turn_from_event_evidence_def
    eventless_successful_patch_turn_matches_def recorded_role_thread_is_ephemeral_def before_deadline_def
    read_identified_def pending_send_of_def load_history_def Let_def
  by (auto intro!: quiet_steps split: option.splits)

lemma record_quiet:
  "quiet (recorded_completed_turn C x role t u g what)" "quiet (identified_pending C x what)"
  "quiet (recorded_role C x role t g)" "quiet (patch_recorded C x h)" "quiet (reported_head x reported)"
  "quiet (accepted_blocker C x what)" "quiet (normalized_response C x action text)"
  unfolding recorded_completed_turn_def identified_pending_def recorded_role_def patch_recorded_def
    reported_head_def accepted_blocker_def normalized_response_def
  by (auto intro!: quiet_steps reads_quiet read_world split: option.splits)

lemmas quiet_reads = quiet_steps reads_quiet record_quiet

lemma blocker_quiet:
  "quiet (verify_patch_not_authorized_retry_turn C x summary turn h)" "quiet (paused_blocker_turn C x what)"
  unfolding verify_patch_not_authorized_retry_turn_def paused_blocker_turn_def
  by (auto intro!: quiet_reads split: option.splits)

lemma inspections_quiet:
  "quiet (inspect_completed_patch_not_authorized_retry C x)"
  "quiet (inspect_completed_file_change_tool_unavailable_retry C x)"
  "quiet (inspect_completed_integration_invalid_response_retry C x action)"
  "quiet (inspect_completed_read_only_model_response_retry C x action)"
  "quiet (inspect_interrupted_forbidden_operation_retry C x action)"
  "quiet (inspect_completed_execution_tool_unavailable_retry C x action)"
  unfolding inspect_completed_patch_not_authorized_retry_def inspect_completed_file_change_tool_unavailable_retry_def
    inspect_completed_integration_invalid_response_retry_def integration_response_turn_def integrated_result_def
    inspect_completed_read_only_model_response_retry_def inspect_interrupted_forbidden_operation_retry_def
    inspect_completed_execution_tool_unavailable_retry_def accepted_turn_record_def
  by (auto intro!: quiet_reads blocker_quiet split: option.splits)

lemma sequence_quiet: "quiet (archived_sequence C x p t rows)"
  by (induction rows) (auto intro!: quiet_reads)

lemma cargo_quiet: "quiet (cargo_not_retried C x a archived)"
  by (induction archived) (auto intro!: quiet_reads simp: accepted_turn_record_def)

lemma verdicts_quiet:
  "quiet (inspect_completed_reviewer_reasoning_lifecycle_replay C x action)"
  "quiet (inspect_completed_verification_without_execution_retry C x action)"
  "quiet (inspect_completed_verification_environment_unavailable_retry C x action)"
  "quiet (inspect_completed_corrective_patch_tool_unavailable_retry C x action)"
  unfolding inspect_completed_reviewer_reasoning_lifecycle_replay_def stale_reasoning_evidence_def replayed_verdict_def
    inspect_completed_verification_without_execution_retry_def archived_retry_kind_def
    inspect_completed_verification_environment_unavailable_retry_def accepted_turn_record_def accepted_response_def
    inspect_completed_corrective_patch_tool_unavailable_retry_def corrective_accepted_def corrective_turn_def Let_def
  by (auto intro!: quiet_reads sequence_quiet cargo_quiet split: option.splits)

subsection \<open>A paused run\<close>

lemma eventless_quiet: "quiet (recover_eventless_successful_patch_turn_for_status C x t u expected)"
  unfolding recover_eventless_successful_patch_turn_for_status_def eventless_pending_def new_patch_commit_def
  by (auto intro!: quiet_reads logged_call reconnected)

lemma restart_quiet:
  "quiet (restore_archived_integration_turn_after_ephemeral_loss C x)"
  "quiet (prepare_paused_eventless_successful_patch_turn_retry C x)"
  unfolding restore_archived_integration_turn_after_ephemeral_loss_def lost_turn_def restored_archived_turn_def
    archived_integration_ready_def prepare_paused_eventless_successful_patch_turn_retry_def
    recovered_eventless_turn_def eventless_successful_patch_thread_runtime_status_def Let_def
  by (auto intro!: quiet_reads eventless_quiet split: option.splits)

lemma failed_patch_quiet:
  "quiet (verify_failed_controlled_patch_retry_turn C x detail turn h)"
  "quiet (failed_patch_head C x detail turn h)"
  "quiet (unchanged_head C x detail turn h sha)"
  unfolding failed_patch_head_def unchanged_head_def verify_failed_controlled_patch_retry_turn_def
  by (auto intro!: quiet_reads blocker_quiet split: option.splits)

lemma interrupt_loop_quiet: "quiet (interrupt_loop C x h t u expected failed deadline n)"
proof (induction n)
  case (Suc n)
  then show ?case
    by (auto intro!: quiet_reads failed_patch_quiet simp: completed_meanwhile_def ended_by_interrupt_def
       split: option.splits)
qed (simp add: ensures_def)

lemma approval_quiet: "quiet (prepare_pending_controlled_patch_approval_retry C s h t u detail turn)"
  unfolding prepare_pending_controlled_patch_approval_retry_def interrupted_turn_def
  by (auto intro!: quiet_reads failed_patch_quiet interrupt_loop_quiet logged_effect interrupted)

lemma paused_quiet: "quiet (prepare_paused_turn C r s)"
  unfolding prepare_paused_turn_def tool_failure_retry_def prepare_terminal_turn_retry_def prepare_terminal_turn_def
    pending_turn_record_def interrupted_if_active_def
  by (auto intro!: quiet_reads restart_quiet inspections_quiet approval_quiet split: option.splits)

subsection \<open>The selected recovery\<close>

lemma restored_quiet:
  "quiet (restored_run op action mismatch x)" "quiet (reactivated_by C g b retry x)"
  "quiet (reactivated_after C k b retry' x)" "quiet (resume_paused C x)"
  unfolding restored_run_def reactivated_by_def reactivated_after_def resume_paused_def
  by (auto intro!: quiet_steps)

lemma correction_quiet:
  assumes "reason_code s \<in> {Some ''CONTROLLED_PATCH_TOOL_UNAVAILABLE'', Some ''PATCH_NOT_AUTHORIZED''}"
  shows "quiet (resume_correction C s action)"
proof -
  have rebound: "quiet (ensure_primary_participant_binding C s')" if "facts s' = facts s" for s'
  proof -
    have "task_effects s' Q" by unfold_locales (simp_all add: reconnected forked [OF assms] that)
    from task_effects.binding_harmless [OF this resembles_refl] show ?thesis by (rule ensures_mono) simp
  qed
  have "facts s' = facts s" if "correction_op C rejection s = (Inr a, s')" for rejection a s'
    using that
    by (auto simp: correction_op_def retry_blocked_result_review_patch_not_authorized_def reopen_def
        retry_blocked_corrective_patch_tool_unavailable_def outcome reopened_def split: if_splits)
  then have "ensures (logs Q) (\<lambda>s'. facts s' = facts s) (restored_run (correction_op C rejection) action mismatch s)"
    for rejection mismatch
    unfolding restored_run_def
    by (intro of_result) (auto simp: reopening_def outcome split: prod.splits sum.splits)
  then show ?thesis
    unfolding resume_correction_def
    by (intro then_quiet verdicts_quiet steps_quiet and_then [where Q = "\<lambda>s'. facts s' = facts s"])
       (auto intro!: then_quiet restored_quiet rebound steps_quiet)
qed

lemma recovery_quiet:
  "quiet (resume_forbidden C x action)" "quiet (resume_recreation C x action)"
  "quiet (resume_completed_forbidden C x action)" "quiet (resume_execution_tool C x action)"
  "quiet (resume_integration_response C x action)" "quiet (resume_unexecuted C x action)"
  "quiet (resume_lifecycle C x action)" "quiet (resume_environment C x action)"
  "quiet (resume_response C r x action)"
  unfolding resume_forbidden_def resume_recreation_def resume_completed_forbidden_def resume_execution_tool_def
    resume_integration_response_def resume_unexecuted_def resume_lifecycle_def resume_environment_def
    resume_response_def
  by (auto intro!: quiet_steps restored_quiet inspections_quiet verdicts_quiet)

lemma repository_quiet: "quiet (resumable_repository C x r)" "quiet (ensure_controlled_patch_approval C)"
  unfolding resumable_repository_def corrected_repository_def integrating_repository_def untouched_repository_def
    revalidate_current_repository_def ensure_controlled_patch_approval_def
  by (auto intro!: quiet_reads split: option.splits)

end

interpretation resuming: resumption C "resumption_effect s" s for C s
  by unfold_locales auto

subsection \<open>The selected action\<close>

text \<open>Every selector looks for a reason of its own, so at most one of them finds an action.\<close>

lemma selected_reason:
  "invalid_test_retry_action s = Inr (Some a) \<Longrightarrow> reason_code s = Some ''INVALID_TEST_COMMAND''"
  "integration_invalid_response_retry_action s = Inr (Some a) \<Longrightarrow> reason_code s = Some ''INVALID_RESPONSE''"
  "verification_without_execution_retry_action s = Inr (Some a) \<Longrightarrow> reason_code s = Some ''TEST_FAILURE''"
  "reviewer_reasoning_lifecycle_compatibility_retry_action s = Inr (Some a) \<Longrightarrow>
     reason_code s = Some ''INCOMPATIBLE_STATE''"
  "verification_environment_unavailable_retry_action s = Inr (Some a) \<Longrightarrow> reason_code s = Some ''CARGO_UNAVAILABLE''"
  "unsent_ephemeral_source_recreation_retry_action s = Inr (Some a) \<Longrightarrow> reason_code s = Some ''HISTORY_UNAVAILABLE''"
  "invalid_response_retry_action s = Inr (Some a) \<Longrightarrow> reason_code s = Some ''INVALID_RESPONSE''"
  "execution_tool_unavailable_retry_action s = Inr (Some a) \<Longrightarrow> reason_code s = Some ''EXECUTION_TOOL_UNAVAILABLE''"
  "completed_integration_forbidden_operation_retry_action P s = Inr (Some a) \<Longrightarrow>
     reason_code s = Some ''FORBIDDEN_OPERATION''"
  "forbidden_operation_retry_action s = Inr (Some a) \<Longrightarrow> reason_code s = Some ''FORBIDDEN_OPERATION''"
  "corrective_patch_tool_unavailable_retry_action L s = Inr (Some a) \<Longrightarrow>
     reason_code s \<in> {Some ''CONTROLLED_PATCH_TOOL_UNAVAILABLE'', Some ''PATCH_NOT_AUTHORIZED''}"
  by (simp_all add: for_reason_Some invalid_test_retry_action_def integration_invalid_response_retry_action_def
      verification_without_execution_retry_action_def reviewer_reasoning_lifecycle_compatibility_retry_action_def
      verification_environment_unavailable_retry_action_def unsent_ephemeral_source_recreation_retry_action_def
      invalid_response_retry_action_def corrective_patch_tool_unavailable_retry_action_def
      execution_tool_unavailable_retry_action_def completed_integration_forbidden_operation_retry_action_def
      forbidden_operation_retry_action_def split: if_splits)

lemma planned:
  assumes "resume_plan_of C s = Inr plan"
  shows "invalid_test_retry_action s = Inr (rp_invalid_test plan)"
    "integration_invalid_response_retry_action s = Inr (rp_integration_response plan)"
    "verification_without_execution_retry_action s = Inr (rp_unexecuted plan)"
    "reviewer_reasoning_lifecycle_compatibility_retry_action s = Inr (rp_lifecycle plan)"
    "verification_environment_unavailable_retry_action s = Inr (rp_environment plan)"
    "unsent_ephemeral_source_recreation_retry_action s = Inr (rp_recreation plan)"
    "(if rp_integration_response plan = None then invalid_response_retry_action s else Inr None) = Inr (rp_response plan)"
    "corrective_patch_tool_unavailable_retry_action (tl_core (co_libs C)) s = Inr (rp_correction plan)"
    "execution_tool_unavailable_retry_action s = Inr (rp_execution_tool plan)"
    "completed_integration_forbidden_operation_retry_action (tl_policy (co_libs C)) s = Inr (rp_completed_forbidden plan)"
    "(if rp_completed_forbidden plan = None then forbidden_operation_retry_action s else Inr None) = Inr (rp_forbidden plan)"
  using assms unfolding resume_plan_of_def Let_def attempt_Inr
  by - (elim exE conjE, simp only: sum.inject, drule sym, simp only: resume_plan.simps)+

lemma plan_reasons:
  assumes "resume_plan_of C s = Inr plan"
  shows "rp_invalid_test plan = Some a \<Longrightarrow> reason_code s = Some ''INVALID_TEST_COMMAND''"
    "rp_integration_response plan = Some a \<Longrightarrow> reason_code s = Some ''INVALID_RESPONSE'' \<and> rp_response plan = None"
    "rp_unexecuted plan = Some a \<Longrightarrow> reason_code s = Some ''TEST_FAILURE''"
    "rp_lifecycle plan = Some a \<Longrightarrow> reason_code s = Some ''INCOMPATIBLE_STATE''"
    "rp_environment plan = Some a \<Longrightarrow> reason_code s = Some ''CARGO_UNAVAILABLE''"
    "rp_recreation plan = Some a \<Longrightarrow> reason_code s = Some ''HISTORY_UNAVAILABLE''"
    "rp_response plan = Some a \<Longrightarrow> reason_code s = Some ''INVALID_RESPONSE''"
    "rp_correction plan = Some a \<Longrightarrow>
       reason_code s \<in> {Some ''CONTROLLED_PATCH_TOOL_UNAVAILABLE'', Some ''PATCH_NOT_AUTHORIZED''}"
    "rp_execution_tool plan = Some a \<Longrightarrow> reason_code s = Some ''EXECUTION_TOOL_UNAVAILABLE''"
    "rp_completed_forbidden plan = Some a \<Longrightarrow> reason_code s = Some ''FORBIDDEN_OPERATION'' \<and> rp_forbidden plan = None"
    "rp_forbidden plan = Some a \<Longrightarrow> reason_code s = Some ''FORBIDDEN_OPERATION''"
  using planned [OF assms] by (auto dest: selected_reason split: if_splits)

lemma plan_none:
  assumes "resume_plan_of C s = Inr plan"
  shows "reason_code s \<noteq> Some ''INVALID_TEST_COMMAND'' \<Longrightarrow> rp_invalid_test plan = None"
    "reason_code s \<noteq> Some ''INVALID_RESPONSE'' \<Longrightarrow> rp_integration_response plan = None"
    "reason_code s \<noteq> Some ''TEST_FAILURE'' \<Longrightarrow> rp_unexecuted plan = None"
    "reason_code s \<noteq> Some ''INCOMPATIBLE_STATE'' \<Longrightarrow> rp_lifecycle plan = None"
    "reason_code s \<noteq> Some ''CARGO_UNAVAILABLE'' \<Longrightarrow> rp_environment plan = None"
    "reason_code s \<noteq> Some ''HISTORY_UNAVAILABLE'' \<Longrightarrow> rp_recreation plan = None"
    "reason_code s \<noteq> Some ''INVALID_RESPONSE'' \<Longrightarrow> rp_response plan = None"
    "reason_code s \<noteq> Some ''CONTROLLED_PATCH_TOOL_UNAVAILABLE'' \<Longrightarrow>
       reason_code s \<noteq> Some ''PATCH_NOT_AUTHORIZED'' \<Longrightarrow> rp_correction plan = None"
    "reason_code s \<noteq> Some ''EXECUTION_TOOL_UNAVAILABLE'' \<Longrightarrow> rp_execution_tool plan = None"
    "reason_code s \<noteq> Some ''FORBIDDEN_OPERATION'' \<Longrightarrow> rp_completed_forbidden plan = None"
    "reason_code s \<noteq> Some ''FORBIDDEN_OPERATION'' \<Longrightarrow> rp_forbidden plan = None"
  using plan_reasons [OF assms] by (fastforce intro: option.exhaust)+

lemma effective_selected:
  assumes "resume_plan_of C s = Inr plan"
  shows "rp_forbidden plan = Some a \<Longrightarrow> effective_action s plan = a"
    "rp_recreation plan = Some a \<Longrightarrow> effective_action s plan = a"
    "rp_completed_forbidden plan = Some a \<Longrightarrow> effective_action s plan = a"
    "rp_correction plan = Some a \<Longrightarrow> effective_action s plan = a"
    "rp_execution_tool plan = Some a \<Longrightarrow> effective_action s plan = a"
    "rp_integration_response plan = Some a \<Longrightarrow> effective_action s plan = a"
    "rp_unexecuted plan = Some a \<Longrightarrow> effective_action s plan = a"
    "rp_lifecycle plan = Some a \<Longrightarrow> effective_action s plan = a"
    "rp_environment plan = Some a \<Longrightarrow> effective_action s plan = a"
    "completed_response_action plan = Some a \<Longrightarrow> effective_action s plan = a"
proof -
  note reasons = plan_reasons [OF assms]
  note effective = effective_action_def completed_response_action_def or_else_def plan_none [OF assms]
  show "effective_action s plan = a" if "rp_forbidden plan = Some a"
  proof -
    have "rp_completed_forbidden plan = None"
      using reasons(10) that by (cases "rp_completed_forbidden plan") auto
    with that reasons(11) [OF that] show ?thesis by (simp add: effective)
  qed
  show "effective_action s plan = a" if "completed_response_action plan = Some a"
  proof (cases "rp_invalid_test plan")
    case None
    then have response: "rp_response plan = Some a" using that by (simp add: completed_response_action_def or_else_def)
    then have "rp_integration_response plan = None"
      using reasons(2) by (cases "rp_integration_response plan") auto
    with None response reasons(7) [OF response] show ?thesis by (simp add: effective)
  next
    case (Some b)
    with that have "rp_invalid_test plan = Some a" by (simp add: completed_response_action_def or_else_def)
    with reasons(1) [OF this] show ?thesis by (simp add: effective)
  qed
  show "effective_action s plan = a" if "rp_recreation plan = Some a"
    using that reasons(6) [OF that] by (auto simp: effective)
  show "effective_action s plan = a" if "rp_execution_tool plan = Some a"
    using that reasons(9) [OF that] by (auto simp: effective)
  show "effective_action s plan = a" if "rp_unexecuted plan = Some a"
    using that reasons(3) [OF that] by (auto simp: effective)
  show "effective_action s plan = a" if "rp_lifecycle plan = Some a"
    using that reasons(4) [OF that] by (auto simp: effective)
  show "effective_action s plan = a" if "rp_environment plan = Some a"
    using that reasons(5) [OF that] by (auto simp: effective)
  show "effective_action s plan = a" if "rp_correction plan = Some a"
    using that reasons(8) [OF that] by (auto simp: effective)
  show "effective_action s plan = a" if "rp_completed_forbidden plan = Some a"
    using that reasons(10) [OF that] by (auto simp: effective)
  show "effective_action s plan = a" if "rp_integration_response plan = Some a"
    using that reasons(2) [OF that] by (auto simp: effective)
qed

subsection \<open>A resumption\<close>

definition resumption_of :: "coordinator \<Rightarrow> string \<Rightarrow> run_state \<Rightarrow> run_state action" where
  "resumption_of C r s =
     and_then (of_result (resume_plan_of C s)) (\<lambda>plan.
     and_then (if effective_action s plan = RequestPrimaryIntegration
               then ensure_controlled_patch_approval C else answer ()) (\<lambda>_.
     and_then (resumable_repository C s plan) (\<lambda>_.
     and_then (if reason_code s = Some ''COMMUNICATION_FAILURE''
               then prepare_paused_turn C r s else answer ()) (\<lambda>_.
     resume_selected C r s plan))))"

lemma prepare_resume_split: "prepare_resume C r = and_then (required_run C r) (resumption_of C r)"
  unfolding prepare_resume_def resumption_of_def [abs_def] by (rule refl)

lemma first_selected_quiet:
  assumes "\<And>a f. (Some a, f) \<in> set cases \<Longrightarrow> ensures R P (f a)" "ensures R P rest"
  shows "ensures R P (first_selected cases rest)"
  using assms by (induction cases rest rule: first_selected.induct) auto

lemma resumption_quiet: "ensures (logs (resumption_effect s)) (\<lambda>_. True) (resumption_of C r s)"
proof -
  have selected: "ensures (logs (resumption_effect s)) (\<lambda>_. True) (resume_selected C r s plan)"
    if "resume_plan_of C s = Inr plan" for plan
    unfolding resume_selected_def
    by (rule first_selected_quiet)
       (auto intro: resuming.recovery_quiet resuming.restored_quiet
         resuming.correction_quiet [OF plan_reasons(8) [OF that sym]])
  show ?thesis
    unfolding resumption_of_def
    by (rule logged.and_then [where Q = "\<lambda>plan. resume_plan_of C s = Inr plan"])
       (auto intro!: resuming.then_quiet resuming.repository_quiet resuming.paused_quiet logged.of_result selected)
qed

text \<open>
  C19: \<open>prepare_resume\<close> logs only effects that the loaded run calls for: no turn is sent and no request is
  answered; a turn is interrupted only in a paused integration, and only the Primary's task is forked, for the
  recovery of a corrective patch.
\<close>

theorem resume_sends_nothing:
  assumes "prepare_resume C r w = Some (res, w')"
  shows "\<exists>new. wd_log w' = wd_log w @ new
    \<and> (\<forall>e \<in> set new. \<exists>s. load_run (wd_store (elapse C w)) r = Inr (Some s) \<and> resumption_effect s e)"
proof (cases "\<exists>s. required_run C r w = Some (Inr s, elapse C w)")
  case True
  then obtain s where s: "required_run C r w = Some (Inr s, elapse C w)" by blast
  then have "resumption_of C r s (elapse C w) = Some (res, w')"
    using assms by (simp add: prepare_resume_split and_then_runs)
  from ensuresD(1) [OF resumption_quiet this] loaded_run(1) [OF s] show ?thesis
    by (auto simp: logs_def list_all_iff)
next
  case False
  then obtain err where "required_run C r w = Some (Inl err, elapse C w)"
    unfolding required_run_def read_store_outcome by (metis sum.exhaust)
  then have "w' = elapse C w" using assms by (simp add: prepare_resume_split and_then_fails)
  then show ?thesis by simp
qed

subsection \<open>The run that continues\<close>

definition resumes :: "coordinator \<Rightarrow> run_state \<Rightarrow> next_action \<Rightarrow> run_state \<Rightarrow> store \<Rightarrow> bool" where
  "resumes C s a s' st \<longleftrightarrow>
     status s \<in> {SBlocked, SPausedUserAction} \<and> (\<exists>ph. s' = reopened (ph, a) s)
     \<and> load_run st (run_text (co_env C) s') = Inr (Some s')"

lemma restored_run_Inr [outcome]:
  "restored_run op a mismatch s w = Some (Inr s', w') \<longleftrightarrow> op s = (Inr a, s') \<and> w' = w"
  by (auto simp: restored_run_def reopening_def outcome simp del: of_result_outcome split: prod.splits sum.splits)

lemma stored_after_reactivation:
  assumes "reactivate E now how s s' st = Inr (u, st')"
  shows "load_run st' (run_text E s') = Inr (Some s')"
proof -
  obtain turn st1 where "reactivated E now s' turn st = Inr st1"
    and st': "st' = st1 \<or> st' = insert_transition (run_text E s) (phase s) s' None None st1"
    by (rule reactivate_reactivated [OF assms])
  then obtain st2 where update: "update_run_row (se_libs E) now (run_text E s') s' st2 = Inr st1"
    by (auto simp: reactivated_def outcome)
  then have "schema_version s' = RUN_STATE_SCHEMA_VERSION"
    by (rule update_run_row_tables) (rule valid_schema)
  from stored_after_update [OF update this] st' show ?thesis by (auto simp: load_run_Inr)
qed

lemma resumed_by:
  assumes "recover L k s = (Inr a, s')" "reactivate (co_env C) now how s s' st = Inr (u, st')"
  shows "resumes C s a s' st'"
  using recover_Inr [OF assms(1)] stored_after_reactivation [OF assms(2)]
  unfolding resumes_def by (metis insertI1 prod.collapse)

lemmas resumed_turn =
  resumed_by [where k = PreintegrationForbiddenOperation and how = "InterruptedForbiddenOperationRetry h t u x"
    for h t u x, unfolded recover.simps reactivate.simps]
  resumed_by [where k = CompletedIntegrationForbiddenOperation and how = "CompletedTurnRetry h t u x"
    for h t u x, unfolded recover.simps reactivate.simps]
  resumed_by [where k = IntegrationInvalidResponse and how = "CompletedTurnRetry h t u x"
    for h t u x, unfolded recover.simps reactivate.simps]
  resumed_by [where k = InvalidTestCommand and how = "CompletedTurnRetry h t u x"
    for h t u x, unfolded recover.simps reactivate.simps]
  resumed_by [where k = PreintegrationInvalidResponse and how = "CompletedTurnRetry h t u x"
    for h t u x, unfolded recover.simps reactivate.simps]
  resumed_by [where k = ReviewerReasoningLifecycleCompatibility and how = "CompletedTurnReplay h t u x"
    for h t u x, unfolded recover.simps reactivate.simps]

lemmas resumed_verification =
  resumed_by [where k = VerificationWithoutExecution and how = "CompletedTurnRetry h t u x"
    for h t u x, unfolded recover.simps reactivate.simps]
  resumed_by [where k = VerificationWithoutExecution and how = "VerificationEvidenceRetry h t u x"
    for h t u x, unfolded recover.simps reactivate.simps]
  resumed_by [where k = VerificationWithoutExecution and how = "UnattendedVerificationRetry h t u x"
    for h t u x, unfolded recover.simps reactivate.simps]

lemmas resumed_accepted =
  resumed_by [where k = UnsentEphemeralSourceRecreation and how = UnsentEphemeralRecreationRetry,
    unfolded recover.simps reactivate.simps]
  resumed_by [where k = IntegrationExecutionToolUnavailable and how = "AcceptedExecutionToolRetry a x"
    for a x, unfolded recover.simps reactivate.simps]
  resumed_by [where k = VerificationEnvironmentUnavailable and how = "AcceptedVerificationEnvironmentRetry a x"
    for a x, unfolded recover.simps reactivate.simps]
  resumed_by [where k = CorrectivePatchToolUnavailable and how = "CorrectivePatchToolRetry a x"
    for a x, unfolded recover.simps reactivate.simps]
  resumed_by [where k = ResultReviewPatchNotAuthorized and how = "CorrectivePatchToolRetry a x"
    for a x, unfolded recover.simps reactivate.simps]

lemma resume_paused_resumes:
  assumes "resume_paused C s w = Some (Inr s', w')" "schema_version s = RUN_STATE_SCHEMA_VERSION"
  shows "resumes C s (next_action s) s' (wd_store w')"
proof -
  obtain a w1 u where "resume s = (Inr a, s')" and saved: "save C s' w1 = Some (Inr u, w')"
    using assms(1) unfolding resume_paused_def
    by (auto simp: outcome reopening_def simp del: of_result_outcome split: prod.splits sum.splits)
  then have "status s = SPausedUserAction" "s' = s\<lparr>status := SRunning, reason_code := None, last_error := None\<rparr>"
    by (auto simp: resume_def split: if_splits)
  moreover have "s\<lparr>status := SRunning, reason_code := None, last_error := None\<rparr> = reopened (phase s, next_action s) s"
    by (simp add: reopened_def)
  moreover have "schema_version (reopened (phase s, next_action s) s) = RUN_STATE_SCHEMA_VERSION"
    using assms(2) by (simp add: reopened_def)
  ultimately show ?thesis
    using stored_after_save [OF saved] unfolding resumes_def by auto
qed

lemma recovery_resumes:
  "resume_forbidden C s a w = Some (Inr s', w') \<Longrightarrow> resumes C s a s' (wd_store w')"
  "resume_recreation C s a w = Some (Inr s', w') \<Longrightarrow> resumes C s a s' (wd_store w')"
  "resume_completed_forbidden C s a w = Some (Inr s', w') \<Longrightarrow> resumes C s a s' (wd_store w')"
  "resume_execution_tool C s a w = Some (Inr s', w') \<Longrightarrow> resumes C s a s' (wd_store w')"
  "resume_integration_response C s a w = Some (Inr s', w') \<Longrightarrow> resumes C s a s' (wd_store w')"
  "resume_lifecycle C s a w = Some (Inr s', w') \<Longrightarrow> resumes C s a s' (wd_store w')"
  "resume_environment C s a w = Some (Inr s', w') \<Longrightarrow> resumes C s a s' (wd_store w')"
  unfolding resume_forbidden_def resume_recreation_def resume_completed_forbidden_def resume_execution_tool_def
    resume_integration_response_def resume_lifecycle_def resume_environment_def reactivated_by_def reactivated_after_def
  by (auto simp: outcome simp del: of_result_outcome dest: resumed_turn resumed_accepted)

lemma unexecuted_resumes:
  assumes "resume_unexecuted C s a w = Some (Inr s', w')"
  shows "resumes C s a s' (wd_store w')"
proof -
  obtain kind and retry :: retryable_turn and now st u where "retry_blocked_verification_without_execution s = (Inr a, s')"
    "verification_retry_op kind (co_env C) now s s' (rt_hash retry) (rt_thread retry) (rt_turn retry) (rt_observed retry)
       st = Inr (u, wd_store w')"
    using assms unfolding resume_unexecuted_def reactivated_by_def
    by (auto simp: outcome simp del: of_result_outcome)
  then show ?thesis
    by (cases kind) (auto simp: verification_retry_op_def dest: resumed_verification)
qed

lemma response_resumes:
  assumes "resume_response C r s a w = Some (Inr s', w')" "schema_version s = RUN_STATE_SCHEMA_VERSION"
    "status s \<noteq> SBlocked \<Longrightarrow> next_action s = a"
  shows "resumes C s a s' (wd_store w')"
proof (cases "status s = SBlocked")
  case True
  with assms(1) show ?thesis
    unfolding resume_response_def reactivated_by_def blocked_response_op_def
    by (auto simp: outcome simp del: of_result_outcome dest: resumed_turn split: if_splits)
next
  case False
  with assms(1) obtain w1 where "resume_paused C s w1 = Some (Inr s', w')"
    unfolding resume_response_def by (auto simp: outcome simp del: of_result_outcome)
  from resume_paused_resumes [OF this assms(2)] False assms(3) show ?thesis by simp
qed

lemma correction_resumes:
  assumes "resume_correction C s a w = Some (Inr s', w')"
  shows "\<exists>s1 st. resumes C s a s1 st \<and> resembles s1 s'"
proof -
  obtain retry s1 now st u st' b w1 where
    corrected: "correction_op C (reason_code s = Some ''PATCH_NOT_AUTHORIZED'') s = (Inr a, s1)"
    and reactivated: "reactivate_blocked_run_with_corrective_patch_tool_retry (co_env C) now s s1 (fst retry) (snd retry)
        st = Inr (u, st')"
    and bound: "ensure_primary_participant_binding C s1 w1 = Some (Inr (b, s'), w')"
    using assms unfolding resume_correction_def reactivated_after_def
    by (auto simp: outcome simp del: of_result_outcome)
  have "task_effects s1 (\<lambda>_. True)" by unfold_locales simp_all
  from ensuresD(2) [OF task_effects.binding_harmless [OF this resembles_refl] bound]
  have "resembles s1 s'" by simp
  moreover have "resumes C s a s1 st'"
    using corrected reactivated
    by (auto simp: correction_op_def dest: resumed_accepted split: if_splits)
  ultimately show ?thesis by blast
qed

lemma first_selected_cases:
  assumes "first_selected ((c, f) # cases) rest w = Some x"
  obtains (selected) a where "c = Some a" "f a w = Some x" | (other) "c = None" "first_selected cases rest w = Some x"
  using assms by (cases c) auto

lemma paused_response_action:
  assumes "resume_plan_of C s = Inr plan" "completed_response_action plan = Some a" "status s \<noteq> SBlocked"
  shows "next_action s = a"
proof (cases "rp_invalid_test plan")
  case None
  then have "rp_response plan = Some a" using assms(2) by (simp add: completed_response_action_def or_else_def)
  with planned(7) [OF assms(1)] assms(3) show ?thesis
    by (auto simp: invalid_response_retry_action_def stopped_def outcome split: if_splits)
next
  case (Some b)
  then have "rp_invalid_test plan = Some a" using assms(2) by (simp add: completed_response_action_def or_else_def)
  with planned(1) [OF assms(1)] assms(3) show ?thesis
    by (auto simp: invalid_test_retry_action_def outcome)
qed

lemma selected_resumes:
  assumes "resume_selected C r s plan w = Some (Inr s', w')" and plan: "resume_plan_of C s = Inr plan"
    and schema: "schema_version s = RUN_STATE_SCHEMA_VERSION"
  shows "\<exists>s1 st. resumes C s (effective_action s plan) s1 st \<and> resembles s1 s'
    \<and> (rp_correction plan = None \<longrightarrow> s1 = s' \<and> st = wd_store w')"
proof -
  note actions = effective_selected [OF plan]
  have direct: ?thesis if "effective_action s plan = a" "resumes C s a s' (wd_store w')" for a
    using that resembles_refl by blast
  show ?thesis
    using assms(1) unfolding resume_selected_def
  proof (elim first_selected_cases)
    fix a assume "rp_forbidden plan = Some a" "resume_forbidden C s a w = Some (Inr s', w')"
    then show ?thesis by (intro direct actions(1) recovery_resumes(1))
  next
    fix a assume "rp_recreation plan = Some a" "resume_recreation C s a w = Some (Inr s', w')"
    then show ?thesis by (intro direct actions(2) recovery_resumes(2))
  next
    fix a assume "rp_completed_forbidden plan = Some a" "resume_completed_forbidden C s a w = Some (Inr s', w')"
    then show ?thesis by (intro direct actions(3) recovery_resumes(3))
  next
    fix a assume "rp_execution_tool plan = Some a" "resume_execution_tool C s a w = Some (Inr s', w')"
    then show ?thesis by (intro direct actions(5) recovery_resumes(4))
  next
    fix a assume "rp_integration_response plan = Some a" "resume_integration_response C s a w = Some (Inr s', w')"
    then show ?thesis by (intro direct actions(6) recovery_resumes(5))
  next
    fix a assume "rp_unexecuted plan = Some a" "resume_unexecuted C s a w = Some (Inr s', w')"
    then show ?thesis by (intro direct actions(7) unexecuted_resumes)
  next
    fix a assume "rp_lifecycle plan = Some a" "resume_lifecycle C s a w = Some (Inr s', w')"
    then show ?thesis by (intro direct actions(8) recovery_resumes(6))
  next
    fix a assume "rp_environment plan = Some a" "resume_environment C s a w = Some (Inr s', w')"
    then show ?thesis by (intro direct actions(9) recovery_resumes(7))
  next
    fix a assume a: "rp_correction plan = Some a" "resume_correction C s a w = Some (Inr s', w')"
    from correction_resumes [OF a(2)] actions(4) [OF a(1)] a(1) show ?thesis by auto
  next
    fix a assume a: "completed_response_action plan = Some a" "resume_response C r s a w = Some (Inr s', w')"
    have "resumes C s a s' (wd_store w')"
      by (rule response_resumes [OF a(2) schema]) (rule paused_response_action [OF plan a(1)])
    with actions(10) [OF a(1)] show ?thesis by (rule direct)
  next
    assume none: "rp_forbidden plan = None" "rp_recreation plan = None" "rp_completed_forbidden plan = None"
        "rp_correction plan = None" "rp_execution_tool plan = None" "rp_integration_response plan = None"
        "rp_unexecuted plan = None" "rp_lifecycle plan = None" "rp_environment plan = None"
        "completed_response_action plan = None"
      and "first_selected [] (resume_paused C s) w = Some (Inr s', w')"
    then have "resume_paused C s w = Some (Inr s', w')" by simp
    then show ?thesis
      using none by (intro direct [of "next_action s"] resume_paused_resumes schema)
        (simp_all add: effective_action_def or_else_def)
  qed
qed

text \<open>
  C20: When \<open>prepare_resume\<close> returns a run, the stored run had stopped, and the result is this run, reopened at the
  effective action of its plan, without diagnostic; it is stored as returned. After the recovery of a corrective
  patch the binding of the Primary follows, and the result is the reopened run up to what that can change.
\<close>

theorem resumed_run_continues:
  assumes "prepare_resume C r w = Some (Inr s', w')"
  shows "\<exists>s plan s1. load_run (wd_store (elapse C w)) r = Inr (Some s) \<and> resume_plan_of C s = Inr plan
    \<and> status s \<in> {SBlocked, SPausedUserAction}
    \<and> (\<exists>ph. s1 = reopened (ph, effective_action s plan) s) \<and> resembles s1 s'
    \<and> (rp_correction plan = None \<longrightarrow> s' = s1 \<and> load_run (wd_store w') (run_text (co_env C) s') = Inr (Some s'))"
proof -
  obtain s w0 where s: "required_run C r w = Some (Inr s, w0)" and "resumption_of C r s w0 = Some (Inr s', w')"
    using assms unfolding prepare_resume_split and_then_Inr by blast
  then obtain plan w1 where plan: "resume_plan_of C s = Inr plan"
    and selected: "resume_selected C r s plan w1 = Some (Inr s', w')"
    unfolding resumption_of_def and_then_Inr of_result_Inr by blast
  have "w0 = elapse C w" using s by (simp add: required_run_def read_store_outcome)
  note load = loaded_run [OF s]
  obtain s1 st where resumed: "resumes C s (effective_action s plan) s1 st" "resembles s1 s'"
    "rp_correction plan = None \<longrightarrow> s1 = s' \<and> st = wd_store w'"
    using selected_resumes [OF selected plan load(2)] by (elim exE conjE) (rule that)
  show ?thesis
    by (rule exI [of _ s], rule exI [of _ plan], rule exI [of _ s1])
       (use load(1) plan resumed \<open>w0 = elapse C w\<close> in \<open>auto simp: resumes_def\<close>)
qed

end
