(* ===== verification/Resume_Example.thy ===== *)
theory Resume_Example
  imports Drive_Setting Turn_Resume_Properties Store_Example Guard_Properties
begin

text \<open>
  Concrete requests to the coordinator: a run that is started, a patch that is applied, and a paused run
  that is resumed.
\<close>

definition scene :: "store \<Rightarrow> git_env \<Rightarrow> nat \<Rightarrow> world" where
  "scene st e n = \<lparr>wd_store = st, wd_git = e, wd_moment = n, wd_log = []\<rparr>"

abbreviation idle :: coordinator where
  "idle \<equiv> idle_coordinator [] Silent"

lemma scene_simps [simp]:
  "wd_store (scene st e n) = st" "wd_git (scene st e n) = e" "wd_moment (scene st e n) = n" "wd_log (scene st e n) = []"
  "elapse idle (scene st e n) = scene st e (Suc n)" "(scene st e n)\<lparr>wd_store := st'\<rparr> = scene st' e n"
  "(scene st e n)\<lparr>wd_git := e'\<rparr> = scene st e' n"
  by (simp_all add: scene_def elapse_def idle_coordinator_def)

lemma readings_in_scene:
  "read_store idle f (scene st e n) = Some (f st, scene st e (Suc n))"
  "inspect g (scene st e n) = Some (g e, scene st e n)"
  "load_run st r = Inr (Some s) \<Longrightarrow> required_run idle r (scene st e n) = Some (Inr s, scene st e (Suc n))"
  by (simp_all add: read_store_def inspect_def required_run_def map_err_def ok_or_def)

lemma transaction_in_scene:
  "op (co_wall idle (Suc n)) st = Inr (x, st') \<Longrightarrow> transact idle op (scene st e n) = Some (Inr x, scene st' e (Suc n))"
  by (simp add: transact_def)

lemma answer_runs: "and_then (answer x) f w = f x w"
  by (simp add: and_then_runs of_result_def)

lemma history_in_scene:
  assumes "facts s = repository_facts"
  shows "load_history idle s (scene st e n) = Some (Inr (), scene st e (Suc (Suc n)))"
proof -
  have "read_thread_with_retry idle t (scene st e m) = Some (Inr (idle_detail [] t), scene st e (Suc m))" for t m
    by (simp add: read_thread_with_retry_def with_retry_def and_then_def whatever_def ask_def of_result_def)
  then show ?thesis
    by (simp add: load_history_def and_then_runs verify_thread_identity_def role_thread_id_def ensure_def assms
        of_result_def repository_facts_def)
qed

lemma approval_in_scene: "ensure_controlled_patch_approval idle (scene st e n) = Some (Inr (), scene st e (Suc n))"
  by (simp add: ensure_controlled_patch_approval_def and_then_def whatever_def ask_def of_result_def idle_server_def
      CONTROLLED_PATCH_APPROVAL_MODE_def map_err_def ensure_def)

lemmas scenes = and_then_runs readings_in_scene answer_runs approval_in_scene

subsection \<open>Start\<close>

lemma absent_example: "verify_branch_absent frozen_git repository_facts ''topic'' = Inr ()"
proof -
  have "validate_read_only_command [''show-ref'', ''--verify'', ''--quiet'', ''refs/heads/topic''] = Inr ()"
    "normalize_branch_name ''topic'' = Inr ''topic''"
    by code_simp+
  then have "verify_integration_branch_absent frozen_git ''/p'' ''topic'' = Inr ()"
    by (simp add: frozen_git_def verify_integration_branch_absent_def git_output_allow_status_def repositories map_err_def)
  moreover have "rf_primary_worktree repository_facts = ''/p''" by (simp add: repository_facts_def)
  ultimately show ?thesis
    using inspect_primary [of "sha_of (CHR ''a'')" "''main''" "[]"]
    by (simp add: verify_branch_absent_def frozen_git_def inspect_frozen map_err_def)
qed

definition topic_request :: start_request where
  "topic_request = \<lparr>rq_branch = Some ''topic'', rq_tests = []\<rparr>"

definition topic_run :: run_state where
  "topic_run = snd (configure_integration ''topic'' [] (new_run repository_facts))"

lemma topic_example:
  "configure_integration ''topic'' [] (new_run repository_facts) = (Inr (), topic_run)"
  "facts (new_run repository_facts) = repository_facts"
  "rf_primary_thread_id repository_facts \<noteq> rf_reviewer_thread_id repository_facts"
  "facts topic_run = repository_facts" "storable topic_run" "normalize_branch_name ''topic'' = Inr ''topic''"
  by code_simp+

lemma started_example:
  "\<exists>st. start_run idle (new_run repository_facts) topic_request (scene (empty_store []) frozen_git 0)
     = Some (Inr topic_run, scene st frozen_git 4)"
proof -
  have "is_ok (insert_run (co_env idle) 4 topic_run (empty_store []))"
    by (rule insert_run_accepts) (simp_all add: topic_example empty_store_def lock_free_def)
  then obtain st where inserted: "insert_run (co_env idle) 4 topic_run (empty_store []) = Inr ((), st)"
    by (auto simp: is_ok_iff)
  have "transact idle (\<lambda>now. insert_run (co_env idle) now topic_run) (scene (empty_store []) frozen_git 3)
      = Some (Inr (), scene st frozen_git 4)"
    using transaction_in_scene [of "\<lambda>now. insert_run (co_env idle) now topic_run" 3 "empty_store []" "()" st frozen_git]
      inserted by (simp add: idle_coordinator_def)
  then show ?thesis
    by (intro exI [of _ st]) (simp add: start_run_def scenes topic_request_def topic_example change_def
        history_in_scene frozen_example absent_example of_result_def ensure_def map_err_def numeral_eq_Suc)
qed


subsection \<open>A controlled patch\<close>

definition patch_run :: run_state where
  "patch_run = (new_run repository_facts)\<lparr>phase := Integrate, next_action := RequestPrimaryIntegration,
     target_integration_branch := Some ''merge''\<rparr>"

definition patch_turn :: turn_row where
  "patch_turn = \<lparr>tn_id = 1, tn_run = ''id'', tn_role = ''PRIMARY'', tn_phase = ''INTEGRATE'', tn_round = round patch_run,
     tn_hash = ''hash'', tn_response = None, tn_delivery = SENT, tn_thread = Some ''e'', tn_turn = Some ''u'',
     tn_capability = None, tn_binding = Some 1, tn_intent = None\<rparr>"

definition patch_participant :: primary_participant_binding where
  "patch_participant = \<lparr>bi_run = ''id'', bi_source = ''p'', bi_effective = ''e'', bi_mode = EphemeralFork, bi_generation = 1,
     bi_server = ''s'', bi_history = None, bi_created_at = 0, bi_verified_at = 0\<rparr>"

definition patch_store :: store where
  "patch_store = (empty_store [])\<lparr>st_runs := [\<lparr>rn_id = ''id'', rn_state = patch_run, rn_primary_thread = ''p'',
       rn_reviewer_thread = ''r'', rn_updated_at = 0\<rparr>],
     st_turns := [patch_turn], st_bindings := [\<lparr>br_binding = patch_participant, br_active = True\<rparr>]\<rparr>"

lemma patch_example:
  "load_run patch_store ''id'' = Inr (Some patch_run)"
  "pending_request patch_store ''id'' = Some (pending_of patch_turn)"
  "query_active_primary_binding patch_store ''id'' = Some patch_participant"
  "\<not> successful_patch_recorded patch_store ''id'' ''hash''"
proof -
  have "deserialize_state patch_run = Inr patch_run" by (simp add: deserialize_state_def) code_simp
  then show "load_run patch_store ''id'' = Inr (Some patch_run)"
    by (simp add: load_run_def run_row_of_def patch_store_def)
  show "pending_request patch_store ''id'' = Some (pending_of patch_turn)"
    by (simp add: pending_request_def pending_row_def last_row_def open_turn_def patch_store_def patch_turn_def)
  show "query_active_primary_binding patch_store ''id'' = Some patch_participant"
    by (simp add: query_active_primary_binding_def patch_store_def patch_participant_def)
  show "\<not> successful_patch_recorded patch_store ''id'' ''hash''"
    by (simp add: successful_patch_recorded_def patch_store_def empty_store_def)
qed

lemma request_example:
  "awaits_patch idle patch_run" "patch_matches patch_run ''hash'' (pending_of patch_turn) patch_participant"
  "\<not> active_corrective_patch_request example_libs patch_run"
  "target_integration_branch patch_run = Some ''merge''" "facts patch_run = repository_facts"
  by code_simp+

lemma applied_example:
  "apply_integration_patch example_apply repository_facts ''merge'' ''--- a'' merged_git
     = (Inr (sha_of (CHR ''c''), [''src/y.rs'']), patched_git)"
proof -
  have "verify_integration_patch_ready merged_git repository_facts ''merge'' = Inr (sha_of (CHR ''c''))"
    using patched_example
    by (auto simp: apply_corrective_integration_patch_def Let_def case_prod_beta outcome)
  then show ?thesis
    using patched_example by (simp add: apply_integration_patch_def apply_corrective_integration_patch_def ensure_def Let_def)
qed

lemma patch_applied:
  "\<exists>st. apply_patch idle ''id'' ''hash'' ''--- a'' (scene patch_store merged_git 0) = Some (Inr \<lparr>ip_run = ''id'',
     ip_branch = ''merge'', ip_base = sha_of (CHR ''c''), ip_changed = [''src/y.rs'']\<rparr>, scene st patched_git 5)"
proof -
  let ?put = "record_successful_patch_with_provenance ''id'' ''hash''
    (patch_hash_text (tl_core (co_libs idle)) ''--- a'') (Some ''p'') (Some ''e'') (Some 1)"
  have applier: "co_apply idle = example_apply" by (simp add: idle_coordinator_def)
  have bound: "bi_source patch_participant = ''p''" "bi_effective patch_participant = ''e''" "bi_generation patch_participant = 1"
    by (simp_all add: patch_participant_def)
  have "is_ok (?put patch_store)"
    using patch_example(4)
    by (simp add: record_successful_patch_with_provenance_def ensure_run_exists_def run_row_of_def provenance_matches_def
        query_primary_binding_def successful_patch_recorded_def ensure_def ok_or_def patch_store_def patch_participant_def
        is_ok_def)
  then obtain x st where "?put patch_store = Inr (x, st)" by (auto simp: is_ok_iff)
  then have "transact idle (\<lambda>_. ?put) (scene patch_store patched_git 4) = Some (Inr x, scene st patched_git 5)"
    using transaction_in_scene [of "\<lambda>_. ?put" 4 patch_store x st patched_git] by (simp add: numeral_eq_Suc)
  then show ?thesis
    by (intro exI [of _ st])
      (simp add: apply_patch_def scenes patch_example request_example patch_binding_def pending_send_of_def of_result_def
        ensure_def ok_or_def authorized_target_def patched_repository_def patched_by_def applied_example bound applier
        map_err_def numeral_eq_Suc)
qed


subsection \<open>A paused run\<close>

definition paused_run :: run_state where
  "paused_run = contract_run\<lparr>status := SPausedUserAction, reason_code := Some ''PERMISSION_REQUIRED''\<rparr>"

definition paused_store :: store where
  "paused_store = (empty_store [])\<lparr>st_runs := [\<lparr>rn_id = ''id'', rn_state = paused_run,
     rn_primary_thread = ''p'', rn_reviewer_thread = ''r'', rn_updated_at = 0\<rparr>]\<rparr>"

lemma paused_example:
  "load_run paused_store ''id'' = Inr (Some paused_run)"
  "\<exists>plan. resume_plan_of idle paused_run = Inr plan \<and> effective_action paused_run plan = RequestReviewerContract
     \<and> rp_forbidden plan = None \<and> rp_recreation plan = None \<and> rp_completed_forbidden plan = None
     \<and> rp_correction plan = None \<and> rp_execution_tool plan = None \<and> rp_integration_response plan = None
     \<and> rp_unexecuted plan = None \<and> rp_lifecycle plan = None \<and> rp_environment plan = None
     \<and> completed_response_action plan = None"
proof -
  have "deserialize_state paused_run = Inr paused_run" by (simp add: deserialize_state_def) code_simp
  then show "load_run paused_store ''id'' = Inr (Some paused_run)"
    by (simp add: load_run_def run_row_of_def paused_store_def)
  show "\<exists>plan. resume_plan_of idle paused_run = Inr plan \<and> effective_action paused_run plan = RequestReviewerContract
     \<and> rp_forbidden plan = None \<and> rp_recreation plan = None \<and> rp_completed_forbidden plan = None
     \<and> rp_correction plan = None \<and> rp_execution_tool plan = None \<and> rp_integration_response plan = None
     \<and> rp_unexecuted plan = None \<and> rp_lifecycle plan = None \<and> rp_environment plan = None
     \<and> completed_response_action plan = None"
    by (simp add: resume_plan_of_def Let_def invalid_test_retry_action_def integration_invalid_response_retry_action_def
      verification_without_execution_retry_action_def reviewer_reasoning_lifecycle_compatibility_retry_action_def
      verification_environment_unavailable_retry_action_def unsent_ephemeral_source_recreation_retry_action_def
      invalid_response_retry_action_def corrective_patch_tool_unavailable_retry_action_def
      execution_tool_unavailable_retry_action_def completed_integration_forbidden_operation_retry_action_def
      forbidden_operation_retry_action_def for_reason_def paused_run_def effective_action_def or_else_def
      completed_response_action_def)
qed

lemma paused_saved:
  "\<exists>st. save_state (co_env idle) now (reopened (Contract, RequestReviewerContract) paused_run) paused_store = Inr ((), st)"
proof -
  have "storable (reopened (Contract, RequestReviewerContract) paused_run)" by code_simp
  moreover have "run_text (co_env idle) (reopened (Contract, RequestReviewerContract) paused_run) = ''id''"
    by (simp add: run_text_def idle_coordinator_def example_libs_def)
  moreover have "stored_state paused_store ''id'' = Inr paused_run"
    using paused_example(1) by (simp add: load_run_Inr)
  ultimately have "is_ok (save_state (co_env idle) now (reopened (Contract, RequestReviewerContract) paused_run) paused_store)"
    by (intro save_state_accepts) simp_all
  then show ?thesis by (auto simp: is_ok_iff)
qed

lemma resumed_example:
  "\<exists>st. prepare_resume idle ''id'' (scene paused_store frozen_git 0)
     = Some (Inr (reopened (Contract, RequestReviewerContract) paused_run), scene st frozen_git 2)"
proof -
  let ?s' = "reopened (Contract, RequestReviewerContract) paused_run"
  obtain st where saved: "save_state (co_env idle) 2 ?s' paused_store = Inr ((), st)"
    using paused_saved by blast
  obtain plan where plan: "resume_plan_of idle paused_run = Inr plan" "effective_action paused_run plan = RequestReviewerContract"
    "rp_forbidden plan = None" "rp_recreation plan = None" "rp_completed_forbidden plan = None" "rp_correction plan = None"
    "rp_execution_tool plan = None" "rp_integration_response plan = None" "rp_unexecuted plan = None"
    "rp_lifecycle plan = None" "rp_environment plan = None" "completed_response_action plan = None"
    using paused_example(2) by blast
  have run: "facts paused_run = repository_facts" "integration_branch paused_run = None"
    "reason_code paused_run = Some ''PERMISSION_REQUIRED''" "resume paused_run = (Inr RequestReviewerContract, ?s')"
    by code_simp+
  have "save idle ?s' (scene paused_store frozen_git 1) = Some (Inr (), scene st frozen_git 2)"
    using transaction_in_scene [of "\<lambda>now. save_state (co_env idle) now ?s'" 1 paused_store "()" st frozen_git] saved
    by (simp add: save_def idle_coordinator_def numeral_eq_Suc)
  then have "resume_paused idle paused_run (scene paused_store frozen_git 1) = Some (Inr ?s', scene st frozen_git 2)"
    by (simp add: resume_paused_def reopening_def run scenes of_result_def)
  then show ?thesis
    by (intro exI [of _ st]) (simp add: prepare_resume_def scenes paused_example plan resumable_repository_def
        revalidate_current_repository_def run frozen_example resume_selected_def of_result_def map_err_def)
qed

theorem resume_sends_nothing_witness:
  "\<exists>s' w'. prepare_resume idle ''id'' (scene paused_store frozen_git 0) = Some (Inr s', w')
     \<and> (\<forall>e \<in> set (wd_log w'). resumption_effect paused_run e)"
proof -
  obtain st where resumed: "prepare_resume idle ''id'' (scene paused_store frozen_git 0)
     = Some (Inr (reopened (Contract, RequestReviewerContract) paused_run), scene st frozen_git 2)"
    using resumed_example by blast
  have "\<forall>e \<in> set (wd_log (scene st frozen_git 2)). resumption_effect paused_run e"
    using resume_sends_nothing [OF resumed] by (auto simp: paused_example(1))
  with resumed show ?thesis by blast
qed

theorem resumed_run_continues_witness:
  "\<exists>s' st. load_run st ''id'' = Inr (Some s') \<and> status s' = SRunning \<and> next_action s' = RequestReviewerContract"
proof -
  obtain st where resumed: "prepare_resume idle ''id'' (scene paused_store frozen_git 0)
     = Some (Inr (reopened (Contract, RequestReviewerContract) paused_run), scene st frozen_git 2)"
    using resumed_example by blast
  have "run_text (co_env idle) (reopened (Contract, RequestReviewerContract) paused_run) = ''id''"
    by (simp add: run_text_def idle_coordinator_def example_libs_def)
  with resumed_run_continues [OF resumed] paused_example show ?thesis
    by (intro exI [of _ "reopened (Contract, RequestReviewerContract) paused_run"] exI [of _ st])
       (auto simp: reopened_def)
qed

end
