(* ===== verification/Task_Selection.thy ===== *)
theory Task_Selection
  imports Turn_Messages Git_Inspector
begin

text \<open>
  The choice of the two tasks and the two worktrees of a run (\<open>crates/cli/src/select.rs\<close> and the selection
  in \<open>main.rs\<close>). The person at the terminal is a parameter, the record \<open>selector\<close>: each question is answered
  depending on a state that the questions change. A dialogue answers \<open>None\<close> when the question for a valid
  pair of worktrees was asked more often than the bound allows.
\<close>

record cli_error =
  ce_code :: string
  ce_message :: string

definition cli_error :: "string \<Rightarrow> string \<Rightarrow> cli_error" where
  "cli_error code message = \<lparr>ce_code = code, ce_message = message\<rparr>"

definition git_safety_text :: "git_safety_error \<Rightarrow> string" where
  "git_safety_text err = ge_code err @ '': '' @ ge_detail err"

definition git_failure :: "git_safety_error \<Rightarrow> cli_error" where
  "git_failure err = cli_error (ge_code err) (git_safety_text err)"

fun app_server_failure :: "app_server_error \<Rightarrow> cli_error" where
  "app_server_failure (IncompatibleCodex t) =
     cli_error ''INCOMPATIBLE_CODEX'' (app_server_error_text (IncompatibleCodex t))"
| "app_server_failure err = cli_error ''APP_SERVER_FAILURE'' (app_server_error_text err)"

subsection \<open>Dialogues\<close>

type_synonym ('s, 'e, 'a) dialogue = "'s \<Rightarrow> (('e + 'a) \<times> 's) option"

definition settled :: "'e + 'a \<Rightarrow> ('s, 'e, 'a) dialogue" where
  "settled r s = Some (r, s)"

definition proceed :: "('s, 'e, 'a) dialogue \<Rightarrow> ('a \<Rightarrow> ('s, 'e, 'b) dialogue) \<Rightarrow> ('s, 'e, 'b) dialogue" where
  "proceed m f s = (case m s of None \<Rightarrow> None | Some (Inl err, s') \<Rightarrow> Some (Inl err, s') | Some (Inr x, s') \<Rightarrow> f x s')"

definition reported :: "('e \<Rightarrow> 'f) \<Rightarrow> ('s, 'e, 'a) dialogue \<Rightarrow> ('s, 'f, 'a) dialogue" where
  "reported f m s = map_option (\<lambda>(r, s'). (map_err f r, s')) (m s)"

datatype selection_error =
    NoTasks
  | NoReviewer
  | NoWorktrees
  | SelectionCancelled
  | TerminalFailed string
  | GitRefused git_safety_error

fun selection_error_text :: "selection_error \<Rightarrow> string" where
  "selection_error_text NoTasks = ''no Codex tasks are available''"
| "selection_error_text NoReviewer = ''no different Codex task is available for review''"
| "selection_error_text NoWorktrees = ''fewer than two registered worktree entries can be selected''"
| "selection_error_text SelectionCancelled = ''task selection was cancelled''"
| "selection_error_text (TerminalFailed t) = ''terminal selection failed: '' @ t"
| "selection_error_text (GitRefused err) = git_safety_text err"

record 's selector =
  sl_primary :: "string list \<Rightarrow> ('s, selection_error, nat) dialogue"
  sl_reviewer :: "string list \<Rightarrow> ('s, selection_error, nat) dialogue"
  sl_primary_worktree :: "string list \<Rightarrow> ('s, selection_error, nat) dialogue"
  sl_reviewer_worktree :: "string list \<Rightarrow> ('s, selection_error, nat) dialogue"
  sl_repository :: "('s, selection_error, string) dialogue"
  sl_confirm :: "string \<Rightarrow> ('s, selection_error, bool) dialogue"
  sl_report :: "git_safety_error \<Rightarrow> 's \<Rightarrow> 's"

definition item_at :: "'a list \<Rightarrow> nat \<Rightarrow> 'a option" where
  "item_at xs n = (if n < length xs then Some (xs ! n) else None)"

subsection \<open>Labels\<close>

record thread_entry = thread_summary +
  te_cwd :: string
  te_name :: "string option"
  te_preview :: string
  te_updated_at :: int

text \<open>\<open>str::get(..n)\<close>: nothing if the text is shorter, or if \<open>n\<close> is inside a character.\<close>

definition prefix_or_all :: "nat \<Rightarrow> string \<Rightarrow> string" where
  "prefix_or_all n t =
     (if n < length t \<and> \<not> tail_byte (byte (t ! n)) then take n t else t)"

definition task_label :: "(string \<Rightarrow> string) \<Rightarrow> thread_entry \<Rightarrow> string" where
  "task_label lossy t =
     (let title = (case te_name t of Some name \<Rightarrow> name
            | None \<Rightarrow> if te_preview t = [] then ''Untitled task'' else te_preview t);
          state = (case str_field (th_status t) ''type'' of Some ty \<Rightarrow> ty | None \<Rightarrow> ''unknown'') in
      title @ '' | '' @ state @ '' | updated:'' @ signed_decimal (te_updated_at t) @ '' | '' @ lossy (te_cwd t)
      @ '' | '' @ prefix_or_all 8 (th_id t))"

definition source_label :: "source_ref option \<Rightarrow> string" where
  "source_label source = (case source of Some r \<Rightarrow> sr_name r | None \<Rightarrow> ''detached'')"

definition worktree_label :: "(string \<Rightarrow> string) \<Rightarrow> registered_worktree \<Rightarrow> string" where
  "worktree_label lossy entry =
     (let head = (case rw_head_sha entry of Some sha \<Rightarrow> prefix_or_all 12 sha | None \<Rightarrow> ''unknown'');
          state = (case rw_issue entry of
              Some issue \<Rightarrow> wi_code issue
            | None \<Rightarrow> (case rw_clean entry of
                  Some True \<Rightarrow> ''clean''
                | Some False \<Rightarrow> ''dirty''
                | None \<Rightarrow> if rw_bare entry then ''bare'' else ''unknown'')) in
      lossy (rw_worktree entry) @ '' | '' @ source_label (rw_source_ref entry) @ '' | '' @ head @ '' | '' @ state)"

subsection \<open>Tasks and worktrees\<close>

record selected_tasks =
  sk_primary :: thread_summary
  sk_reviewer :: thread_summary

definition summary_entry :: "thread_entry \<Rightarrow> thread_summary" where
  "summary_entry t = \<lparr>th_id = th_id t, th_status = th_status t\<rparr>"

definition select_tasks ::
  "(string \<Rightarrow> string) \<Rightarrow> 's selector \<Rightarrow> thread_entry list \<Rightarrow> ('s, selection_error, selected_tasks) dialogue" where
  "select_tasks lossy sel threads =
     (if threads = [] then settled (Inl NoTasks)
      else
        proceed (sl_primary sel (map (task_label lossy) threads)) (\<lambda>i.
        proceed (settled (ok_or (TerminalFailed ''invalid primary selection index'') (item_at threads i))) (\<lambda>primary.
        let candidates = filter (\<lambda>t. th_id t \<noteq> th_id primary) threads in
        if candidates = [] then settled (Inl NoReviewer)
        else
          proceed (sl_reviewer sel (map (task_label lossy) candidates)) (\<lambda>j.
          proceed (settled (ok_or (TerminalFailed ''invalid reviewer selection index'') (item_at candidates j)))
            (\<lambda>reviewer.
          settled (Inr \<lparr>sk_primary = summary_entry primary, sk_reviewer = summary_entry reviewer\<rparr>))))))"

definition select_worktrees ::
  "(string \<Rightarrow> string) \<Rightarrow> 's selector \<Rightarrow> registered_worktree list \<Rightarrow> ('s, selection_error, string \<times> string) dialogue" where
  "select_worktrees lossy sel entries =
     (if length entries < 2 then settled (Inl NoWorktrees)
      else
        proceed (sl_primary_worktree sel (map (worktree_label lossy) entries)) (\<lambda>i.
        proceed (settled (ok_or (TerminalFailed ''invalid primary worktree index'') (item_at entries i))) (\<lambda>primary.
        let candidates = filter (\<lambda>t. \<not> path_eq (rw_worktree t) (rw_worktree primary)) entries in
        proceed (sl_reviewer_worktree sel (map (worktree_label lossy) candidates)) (\<lambda>j.
        proceed (settled (ok_or (TerminalFailed ''invalid reviewer worktree index'') (item_at candidates j)))
          (\<lambda>reviewer.
        settled (Inr (rw_worktree primary, rw_worktree reviewer)))))))"

fun select_valid_worktrees ::
  "git_env \<Rightarrow> 's selector \<Rightarrow> registered_worktree list \<Rightarrow> nat
   \<Rightarrow> ('s, selection_error, worktree_snapshot \<times> worktree_snapshot) dialogue" where
  "select_valid_worktrees e sel entries 0 s = None"
| "select_valid_worktrees e sel entries (Suc n) s =
     proceed (select_worktrees (ge_lossy e) sel entries) (\<lambda>(primary, reviewer) s'.
       case inspect_registered_pair e primary reviewer of
         Inr pair \<Rightarrow> settled (Inr pair) s'
       | Inl err \<Rightarrow>
           if ge_code err \<in> {''UNREGISTERED_WORKTREE'', ''DUPLICATE_WORKTREE'', ''REPOSITORY_MISMATCH'',
               ''DIRTY_WORKTREE'', ''WORKTREE_UNAVAILABLE''}
           then select_valid_worktrees e sel entries n (sl_report sel err s')
           else settled (Inl (GitRefused err)) s') s"

record selected_binding =
  sb_tasks :: selected_tasks
  sb_primary :: worktree_snapshot
  sb_reviewer :: worktree_snapshot

definition binding_line :: "string \<Rightarrow> string \<Rightarrow> string" where
  "binding_line name value = [CHR 0x0A] @ name @ '': '' @ value"

definition binding_summary :: "(string \<Rightarrow> string) \<Rightarrow> selected_binding \<Rightarrow> string" where
  "binding_summary lossy b =
     (let of_source = (\<lambda>role task snapshot.
            binding_line (role @ '' task'') (th_id task)
            @ binding_line ''  worktree'' (lossy (ws_worktree snapshot))
            @ binding_line ''  source ref'' (source_label (ws_source_ref snapshot))
            @ binding_line ''  HEAD SHA'' (ws_head_sha snapshot)) in
      ''Confirm exact binding?'' @ of_source ''PRIMARY'' (sk_primary (sb_tasks b)) (sb_primary b)
      @ of_source ''REVIEWER'' (sk_reviewer (sb_tasks b)) (sb_reviewer b)
      @ binding_line ''Git common directory'' (lossy (ws_common_dir (sb_primary b))))"

definition confirm_binding ::
  "(string \<Rightarrow> string) \<Rightarrow> 's selector \<Rightarrow> selected_binding \<Rightarrow> ('s, selection_error, unit) dialogue" where
  "confirm_binding lossy sel b =
     proceed (sl_confirm sel (binding_summary lossy b)) (\<lambda>yes. settled (ensure yes SelectionCancelled))"

subsection \<open>The frozen facts\<close>

definition freeze_selected :: "uuid \<Rightarrow> selected_binding \<Rightarrow> cli_error + run_facts" where
  "freeze_selected run_id b =
     (let f = \<lparr>rf_run_id = run_id,
            rf_primary_thread_id = th_id (sk_primary (sb_tasks b)),
            rf_reviewer_thread_id = th_id (sk_reviewer (sb_tasks b)),
            rf_primary_worktree = ws_worktree (sb_primary b),
            rf_reviewer_worktree = ws_worktree (sb_reviewer b),
            rf_git_common_dir = ws_common_dir (sb_primary b),
            rf_primary_sha = ws_head_sha (sb_primary b),
            rf_reviewer_sha = ws_head_sha (sb_reviewer b),
            rf_primary_ref = map_option sr_name (ws_source_ref (sb_primary b)),
            rf_reviewer_ref = map_option sr_name (ws_source_ref (sb_reviewer b))\<rparr> in
      attempt (map_err git_failure (verify_frozen_sources f (sb_primary b) (sb_reviewer b))) (\<lambda>_. Inr f))"

end
