(* ===== verification/Daemon_Requests.thy ===== *)
theory Daemon_Requests
  imports Turn_Resume
begin

text \<open>
  The requests to the daemon (\<open>crates/daemon/src/server.rs\<close>, \<open>wire.rs\<close>): what each of them does, the waiting
  for events of a run, the runs that are driven in the background, and the service of one connection. A value
  in a response is the one before its serialization; the parser of a line is a parameter. The process may be
  without a controller: then only the store answers. The socket and its file are not modelled.
\<close>

subsection \<open>Batches of events\<close>

definition MAX_EVENT_BATCH :: nat where
  "MAX_EVENT_BATCH = 6"

definition MAX_WAIT_TIMEOUT_MS :: nat where
  "MAX_WAIT_TIMEOUT_MS = 30000"

definition MAX_REQUEST_BYTES :: nat where
  "MAX_REQUEST_BYTES = 1024 * 1024"

record run_observation_batch =
  ob_schema_version :: nat
  ob_run_id :: string
  ob_after_cursor :: int
  ob_next_cursor :: int
  ob_latest_cursor :: int
  ob_timed_out :: bool
  ob_has_more :: bool
  ob_terminal :: bool
  ob_paused :: bool
  ob_events :: "run_progress_event list"
  ob_snapshot :: "public_run_snapshot option"

definition observation_batch ::
  "string \<Rightarrow> int \<Rightarrow> bool \<Rightarrow> run_progress_event list \<Rightarrow> public_run_snapshot \<Rightarrow> run_observation_batch" where
  "observation_batch run_id after_cursor timed_out events snapshot =
     (let next_cursor = (if events = [] then after_cursor else pe_cursor (last events));
          has_more = next_cursor < pr_cursor snapshot;
          paused = pr_status snapshot = SPausedUserAction in
      \<lparr>ob_schema_version = OBSERVATION_SCHEMA_VERSION, ob_run_id = run_id, ob_after_cursor = after_cursor,
       ob_next_cursor = next_cursor, ob_latest_cursor = pr_cursor snapshot, ob_timed_out = timed_out,
       ob_has_more = has_more, ob_terminal = pr_terminal snapshot, ob_paused = paused, ob_events = events,
       ob_snapshot = (if \<not> has_more \<and> (pr_terminal snapshot \<or> paused) then Some snapshot else None)\<rparr>)"

text \<open>One reading of the events and of the state, one after the other: a batch, or nothing yet.\<close>

definition observe ::
  "coordinator \<Rightarrow> string \<Rightarrow> int \<Rightarrow> nat \<Rightarrow> nat \<Rightarrow> run_observation_batch option action" where
  "observe C run_id after_cursor timeout_ms deadline =
     and_then (read_store C (\<lambda>st. stored (co_libs C) (run_events_after st run_id after_cursor MAX_EVENT_BATCH))) (\<lambda>events.
     and_then (read_store C (\<lambda>st. stored (co_libs C) (stored_public_snapshot (co_env C) st run_id))) (\<lambda>snapshot.
     and_then (of_result (ensure (after_cursor \<le> pr_cursor snapshot) (of_store (co_libs C) (IncompatibleState
         (''event cursor '' @ decimal (nat after_cursor) @ '' is ahead of run '' @ run_id @ '' cursor ''
          @ decimal (nat (pr_cursor snapshot))))))) (\<lambda>_.
     and_then (instant C) (\<lambda>now.
     let timed_out = (events = [] \<and> \<not> pr_terminal snapshot \<and> deadline \<le> now) in
     answer (if events \<noteq> [] \<or> pr_terminal snapshot \<or> timed_out \<or> timeout_ms = 0
       then Some (observation_batch run_id after_cursor timed_out events snapshot) else None)))))"

fun wait_loop ::
  "coordinator \<Rightarrow> string \<Rightarrow> int \<Rightarrow> nat \<Rightarrow> nat \<Rightarrow> nat \<Rightarrow> run_observation_batch action" where
  "wait_loop C run_id after_cursor timeout_ms deadline 0 = given_up"
| "wait_loop C run_id after_cursor timeout_ms deadline (Suc n) =
     and_then (observe C run_id after_cursor timeout_ms deadline) (\<lambda>r.
     case r of
       Some batch \<Rightarrow> answer batch
     | None \<Rightarrow> and_then (pause_for C) (\<lambda>_. wait_loop C run_id after_cursor timeout_ms deadline n))"

definition wait_for_run_events :: "coordinator \<Rightarrow> string \<Rightarrow> int \<Rightarrow> nat \<Rightarrow> run_observation_batch action" where
  "wait_for_run_events C run_id after_cursor timeout_ms =
     and_then (instant C) (\<lambda>now.
     wait_loop C run_id after_cursor timeout_ms (now + timeout_ms) (co_patience C))"

subsection \<open>Requests and responses\<close>

datatype daemon_request =
    PingRequest
  | HealthRequest
  | StatusRequest "string option"
  | WaitRequest string int nat
  | StartRequest run_state start_request
  | ResumeRequest string
  | ApplyPatchRequest string string string
  | CancelRequest string

datatype daemon_value =
    PingResult
  | Reachable
  | StateValue run_state
  | RunsValue "run_summary list"
  | BatchValue run_observation_batch
  | StartedValue string run_status
  | InsertedValue string
  | ResumedValue string next_action run_state
  | PatchValue integration_patch_result

record daemon_response =
  dr_ok :: bool
  dr_result :: "daemon_value option"
  dr_error :: "(string \<times> string) option"

definition response_success :: "daemon_value \<Rightarrow> daemon_response" where
  "response_success v = \<lparr>dr_ok = True, dr_result = Some v, dr_error = None\<rparr>"

definition response_failure :: "string \<Rightarrow> string \<Rightarrow> daemon_response" where
  "response_failure code message = \<lparr>dr_ok = False, dr_result = None, dr_error = Some (code, message)\<rparr>"

text \<open>A state with a path that is not UTF-8 has no JSON text.\<close>

definition serialize_success :: "coordinator \<Rightarrow> run_state \<Rightarrow> daemon_response" where
  "serialize_success C s =
     (if paths_utf8 s then response_success (StateValue s)
      else response_failure ''SERIALIZATION_ERROR'' (tl_library_text (co_libs C) ''serialization''))"

fun coordinator_error_text :: "coordinator_error \<Rightarrow> string" where
  "coordinator_error_text (Operational code detail _ _) = code @ '': '' @ detail"
| "coordinator_error_text (StoreFailure _ t) = t"
| "coordinator_error_text (Panicked t) = t"

text \<open>The failure of a request; a panic ends the connection without a response.\<close>

fun coordinator_failure :: "coordinator_error \<Rightarrow> (daemon_response \<times> string list) action" where
  "coordinator_failure (Panicked t) = refuse (Panicked t)"
| "coordinator_failure err = answer (response_failure (error_code err) (coordinator_error_text err), [])"

definition responding ::
  "'a action \<Rightarrow> ('a \<Rightarrow> daemon_response \<times> string list) \<Rightarrow> (daemon_response \<times> string list) action" where
  "responding m f = whatever m (\<lambda>r. case r of Inl err \<Rightarrow> coordinator_failure err | Inr x \<Rightarrow> answer (f x))"

record daemon =
  dm_coordinator :: coordinator
  dm_controlled :: bool
  dm_list_threads :: "nat \<Rightarrow> app_server_error + unit"

definition check_app_server :: "daemon \<Rightarrow> unit action" where
  "check_app_server D =
     and_then (ask (dm_coordinator D) (dm_list_threads D)) (\<lambda>r.
     of_result (map_err (communication_error ''thread/list'' None) r))"

definition existing_run :: "coordinator \<Rightarrow> string \<Rightarrow> run_state action" where
  "existing_run C run_id =
     read_store C (\<lambda>st. attempt (stored (co_libs C) (load_run st run_id)) (\<lambda>found.
       ok_or (StoreFailure ''RUN_NOT_FOUND'' ''run does not exist'') found))"

subsection \<open>The requests\<close>

definition status_request :: "coordinator \<Rightarrow> string option \<Rightarrow> (daemon_response \<times> string list) action" where
  "status_request C run =
     (case run of
        Some run_id \<Rightarrow> responding (existing_run C run_id) (\<lambda>s. (serialize_success C s, []))
      | None \<Rightarrow> responding (read_store C (\<lambda>st. Inr (list_runs st))) (\<lambda>ms. (response_success (RunsValue ms), [])))"

definition wait_request :: "coordinator \<Rightarrow> string \<Rightarrow> int \<Rightarrow> nat \<Rightarrow> (daemon_response \<times> string list) action" where
  "wait_request C run_id after_cursor timeout_ms =
     (if after_cursor < 0 then answer (response_failure ''INVALID_CURSOR'' ''after_cursor cannot be negative'', [])
      else if MAX_WAIT_TIMEOUT_MS < timeout_ms then
        answer (response_failure ''INVALID_TIMEOUT'' (''timeout_ms cannot exceed '' @ decimal MAX_WAIT_TIMEOUT_MS), [])
      else responding (wait_for_run_events C run_id after_cursor timeout_ms) (\<lambda>b. (response_success (BatchValue b), [])))"

definition start_request_of :: "daemon \<Rightarrow> run_state \<Rightarrow> start_request \<Rightarrow> (daemon_response \<times> string list) action" where
  "start_request_of D s request =
     (let C = dm_coordinator D; run_id = run_id_of C s in
      if dm_controlled D then
        responding (start_run C s request) (\<lambda>s'. (response_success (StartedValue run_id (status s')), [run_id]))
      else responding (transact C (\<lambda>now. insert_run (co_env C) now s)) (\<lambda>_. (response_success (InsertedValue run_id), [])))"

definition resume_request :: "daemon \<Rightarrow> string \<Rightarrow> (daemon_response \<times> string list) action" where
  "resume_request D run_id =
     (let C = dm_coordinator D in
      if dm_controlled D then
        responding (prepare_resume C run_id) (\<lambda>s. (serialize_success C s, [run_id]))
      else responding
        (and_then (existing_run C run_id) (\<lambda>s.
         and_then (of_result (reopening resume s)) (\<lambda>(action, s').
         and_then (save C s') (\<lambda>_. answer (action, s')))))
        (\<lambda>(action, s'). (response_success (ResumedValue run_id action s'), [])))"

definition apply_patch_request :: "daemon \<Rightarrow> string \<Rightarrow> string \<Rightarrow> string \<Rightarrow> (daemon_response \<times> string list) action" where
  "apply_patch_request D run_id h patch =
     (if dm_controlled D then
        responding (apply_patch (dm_coordinator D) run_id h patch) (\<lambda>r. (response_success (PatchValue r), []))
      else answer (response_failure ''DAEMON_UNAVAILABLE'' ''daemon has no repository safety controller'', []))"

definition cancel_request :: "daemon \<Rightarrow> string \<Rightarrow> (daemon_response \<times> string list) action" where
  "cancel_request D run_id =
     (let C = dm_coordinator D in
      responding
        (if dm_controlled D then cancel_run C run_id
         else and_then (existing_run C run_id) (\<lambda>s. and_then (save C (cancel s)) (\<lambda>_. answer (cancel s))))
        (\<lambda>s. (serialize_success C s, [])))"

text \<open>The response, and the runs that are driven in the background from then on.\<close>

fun handle_daemon_request :: "daemon \<Rightarrow> daemon_request \<Rightarrow> (daemon_response \<times> string list) action" where
  "handle_daemon_request D PingRequest = answer (response_success PingResult, [])"
| "handle_daemon_request D HealthRequest =
     (if dm_controlled D then responding (check_app_server D) (\<lambda>_. (response_success Reachable, []))
      else answer (response_failure ''DAEMON_UNAVAILABLE'' ''daemon has no App Server controller'', []))"
| "handle_daemon_request D (StatusRequest run) = status_request (dm_coordinator D) run"
| "handle_daemon_request D (WaitRequest run_id after_cursor timeout_ms) =
     wait_request (dm_coordinator D) run_id after_cursor timeout_ms"
| "handle_daemon_request D (StartRequest s request) = start_request_of D s request"
| "handle_daemon_request D (ResumeRequest run_id) = resume_request D run_id"
| "handle_daemon_request D (ApplyPatchRequest run_id h patch) = apply_patch_request D run_id h patch"
| "handle_daemon_request D (CancelRequest run_id) = cancel_request D run_id"

subsection \<open>The daemon\<close>

text \<open>The runs that are driven from the start on, after the recovery, whose failure is only reported.\<close>

definition startup :: "daemon \<Rightarrow> string list action" where
  "startup D =
     (if dm_controlled D then
        whatever (recover_startup_runs (dm_coordinator D)) (\<lambda>r.
        case r of
          Inl (Panicked t) \<Rightarrow> refuse (Panicked t)
        | _ \<Rightarrow> read_store (dm_coordinator D) (\<lambda>st.
            Inr (map rm_run (filter (\<lambda>m. rm_status m \<in> {SRunning, SWaitingThread}) (list_runs st)))))
      else answer [])"

definition respond_line ::
  "daemon \<Rightarrow> (string \<Rightarrow> string + daemon_request) \<Rightarrow> string \<Rightarrow> (daemon_response \<times> string list) action" where
  "respond_line D parse text =
     (if MAX_REQUEST_BYTES < length text then
        answer (response_failure ''REQUEST_TOO_LARGE'' ''daemon request exceeds 1 MiB'', [])
      else (case parse text of
          Inr request \<Rightarrow> handle_daemon_request D request
        | Inl err \<Rightarrow> answer (response_failure ''INVALID_REQUEST'' err, [])))"

text \<open>A connection ends with its input, with a line that is not UTF-8, and with a panic.\<close>

fun serve_connection ::
  "daemon \<Rightarrow> (string \<Rightarrow> string + daemon_request) \<Rightarrow> string list \<Rightarrow> (daemon_response list \<times> string list) action" where
  "serve_connection D parse [] = answer ([], [])"
| "serve_connection D parse (text # texts) =
     (if \<not> utf8 text then answer ([], [])
      else whatever (respond_line D parse text) (\<lambda>r.
        case r of
          Inl _ \<Rightarrow> answer ([], [])
        | Inr (response, runs) \<Rightarrow>
            and_then (serve_connection D parse texts) (\<lambda>(responses, runs').
            answer (response # responses, runs @ runs'))))"

subsection \<open>The client of the daemon\<close>

definition MAX_WIRE_LINE_BYTES :: nat where
  "MAX_WIRE_LINE_BYTES = 1024 * 1024"

datatype daemon_client_error = ClientIo string | ClientJson string | EmptyResponse | ResponseTooLarge

text \<open>The line that is received for a request.\<close>

definition received_response :: "(string \<Rightarrow> string + daemon_response) \<Rightarrow> string \<Rightarrow> daemon_client_error + daemon_response" where
  "received_response parse line =
     (if line = [] then Inl EmptyResponse
      else if MAX_WIRE_LINE_BYTES < length line then Inl ResponseTooLarge
      else map_err ClientJson (parse line))"

end
