(* ===== verification/Mcp_Server.thy ===== *)
theory Mcp_Server
  imports Json_Value
begin

text \<open>
  The tools of the MCP server (\<open>crates/mcp-server/src/tools.rs\<close>): their published definitions and the
  validation of the arguments of a call. An arguments struct denies unknown fields; \<open>decode_arguments\<close> is what
  \<open>serde\<close> derives for it, without the text of its error, which is a parameter (\<open>argument_error\<close>).
\<close>

definition PARTICIPANT_PATCH_TOOL :: string where
  "PARTICIPANT_PATCH_TOOL = ''consensus_apply_patch''"

definition MCP_TOOL_NAMES :: "string list" where
  "MCP_TOOL_NAMES = [''consensus_doctor'', ''consensus_list_threads'', ''consensus_list_worktrees'',
     ''consensus_start'', ''consensus_status'', ''consensus_wait'', ''consensus_resume'', ''consensus_apply_patch'',
     ''consensus_cancel'']"

subsection \<open>Definitions\<close>

definition tool :: "string \<Rightarrow> string \<Rightarrow> json \<Rightarrow> json" where
  "tool name description input_schema = json_object [
     (''name'', JStr name), (''description'', JStr description), (''inputSchema'', input_schema)]"

definition empty_schema :: json where
  "empty_schema = json_object [
     (''type'', JStr ''object''), (''properties'', json_object []), (''required'', JArr []),
     (''additionalProperties'', JBool False)]"

definition run_id_schema :: json where
  "run_id_schema = json_object [
     (''type'', JStr ''object''),
     (''properties'', json_object [(''run_id'', json_object [(''type'', JStr ''string''), (''minLength'', JInt 1)])]),
     (''required'', JArr [JStr ''run_id'']),
     (''additionalProperties'', JBool False)]"

definition list_worktrees_schema :: json where
  "list_worktrees_schema =
     json_object [
       (''type'', JStr ''object''),
       (''properties'', json_object [
         (''repository_path'', json_object [
           (''type'', JStr ''string''),
           (''minLength'', JInt 1),
           (''description'', JStr ''Absolute path to any worktree in the source repository.'')])]),
       (''required'', JArr [JStr ''repository_path'']),
       (''additionalProperties'', JBool False)]"

definition start_schema :: json where
  "start_schema =
     json_object [
       (''type'', JStr ''object''),
       (''properties'', json_object [
         (''primary_thread'', json_object [
           (''type'', JStr ''string''),
           (''minLength'', JInt 1),
           (''description'', JStr ''Existing task that owns integration writes.'')]),
         (''reviewer_thread'', json_object [
           (''type'', JStr ''string''),
           (''minLength'', JInt 1),
           (''description'', JStr ''Existing task that protects its implementation details.'')]),
         (''primary_worktree'', json_object [
           (''type'', JStr ''string''),
           (''minLength'', JInt 1),
           (''description'', JStr ''Absolute registered worktree containing the primary implementation.'')]),
         (''reviewer_worktree'', json_object [
           (''type'', JStr ''string''),
           (''minLength'', JInt 1),
           (''description'', JStr ''Absolute registered worktree containing the reviewer implementation.'')]),
         (''integration_branch'', json_object [
           (''type'', JStr ''string''),
           (''minLength'', JInt 1),
           (''description'', JStr ''Optional unique name for the new local integration branch.'')]),
         (''test_commands'', json_object [
           (''type'', JStr ''array''),
           (''items'', json_object [(''type'', JStr ''string''), (''minLength'', JInt 1)]),
           (''description'', JStr ''Additional verification commands for the primary task.'')])]),
       (''required'', JArr [JStr ''primary_thread'', JStr ''reviewer_thread'', JStr ''primary_worktree'',
         JStr ''reviewer_worktree'']),
       (''additionalProperties'', JBool False)]"

definition status_schema :: json where
  "status_schema =
     json_object [
       (''type'', JStr ''object''),
       (''properties'', json_object [
         (''run_id'', json_object [(''type'', JStr ''string''), (''minLength'', JInt 1)])]),
       (''required'', JArr []),
       (''additionalProperties'', JBool False)]"

definition wait_schema :: json where
  "wait_schema =
     json_object [
       (''type'', JStr ''object''),
       (''properties'', json_object [
         (''run_id'', json_object [(''type'', JStr ''string''), (''minLength'', JInt 1)]),
         (''after_cursor'', json_object [
           (''type'', JStr ''integer''),
           (''minimum'', JInt 0),
           (''description'', JStr ''Return events newer than this cursor; use 0 for the complete public event stream.'')]),
         (''timeout_ms'', json_object [
           (''type'', JStr ''integer''),
           (''minimum'', JInt 0),
           (''maximum'', JInt 30000),
           (''description'', JStr ''Long-poll timeout in milliseconds; defaults to 25000.'')])]),
       (''required'', JArr [JStr ''run_id'']),
       (''additionalProperties'', JBool False)]"

definition apply_patch_schema :: json where
  "apply_patch_schema =
     json_object [
       (''type'', JStr ''object''),
       (''properties'', json_object [
         (''run_id'', json_object [(''type'', JStr ''string''), (''minLength'', JInt 1)]),
         (''request_hash'', json_object [(''type'', JStr ''string''), (''minLength'', JInt 1)]),
         (''patch'', json_object [
           (''type'', JStr ''string''),
           (''minLength'', JInt 1),
           (''maxLength'', JInt 524288),
           (''description'', JStr ''One raw unified text patch for the authorized clean integration branch.'')])]),
       (''required'', JArr [JStr ''run_id'', JStr ''request_hash'', JStr ''patch'']),
       (''additionalProperties'', JBool False)]"

definition tool_definitions :: "json list" where
  "tool_definitions =
    [tool ''consensus_doctor''
       (''Check Git, Codex App Server, daemon, and local state compatibility; configure ''
        @ ''only the request-bound patch approval when it is missing.'') empty_schema,
     tool ''consensus_list_threads''
       ''List existing Codex tasks visible on this host.'' empty_schema,
     tool ''consensus_list_worktrees''
       ''List registered Git worktrees for one repository without modifying them.'' list_worktrees_schema,
     tool ''consensus_start''
       ''Start reviewed integration between two existing tasks and return immediately.'' start_schema,
     tool ''consensus_status''
       ''Show one consensus run, or list all runs when run_id is omitted.'' status_schema,
     tool ''consensus_wait''
       (''Wait for public consensus progress events and return a resumable cursor plus a ''
        @ ''snapshot when the run pauses or terminates.'') wait_schema,
     tool ''consensus_resume''
       ''Resume a paused consensus run after its blocking condition is resolved.'' run_id_schema,
     tool PARTICIPANT_PATCH_TOOL
       ''Apply one text-only patch during the exact active primary integration turn.'' apply_patch_schema,
     tool ''consensus_cancel''
       ''Cancel a consensus run without reverting or deleting Git state.'' run_id_schema]"

subsection \<open>Arguments\<close>

record start_arguments =
  sa_primary_thread :: string
  sa_reviewer_thread :: string
  sa_primary_worktree :: string
  sa_reviewer_worktree :: string
  sa_branch :: "string option"
  sa_tests :: "string list"

record wait_arguments =
  wa_run :: string
  wa_after :: int
  wa_timeout :: int

record patch_arguments =
  pg_run :: string
  pg_request :: string
  pg_patch :: string

datatype tool_arguments =
    EmptyArguments
  | WorktreeListArguments string
  | StartArguments start_arguments
  | StatusArguments "string option"
  | WaitArguments wait_arguments
  | RunIdArguments string
  | ApplyPatchArguments patch_arguments

definition DEFAULT_WAIT_TIMEOUT_MS :: int where
  "DEFAULT_WAIT_TIMEOUT_MS = 25000"

text \<open>A field of a struct: a string, an optional string, a list of strings, an integer with a default.\<close>

definition text_field :: "(string \<times> json) list \<Rightarrow> string \<Rightarrow> string option" where
  "text_field es k = Option.bind (map_of es k) as_str"

definition optional_text_field :: "(string \<times> json) list \<Rightarrow> string \<Rightarrow> string option option" where
  "optional_text_field es k =
     (case map_of es k of
        None \<Rightarrow> Some None
      | Some JNull \<Rightarrow> Some None
      | Some v \<Rightarrow> map_option Some (as_str v))"

fun as_texts :: "json list \<Rightarrow> string list option" where
  "as_texts [] = Some []"
| "as_texts (v # vs) = Option.bind (as_str v) (\<lambda>t. Option.bind (as_texts vs) (\<lambda>ts. Some (t # ts)))"

definition text_list_field :: "(string \<times> json) list \<Rightarrow> string \<Rightarrow> string list option" where
  "text_list_field es k =
     (case map_of es k of
        None \<Rightarrow> Some []
      | Some v \<Rightarrow> Option.bind (as_array v) as_texts)"

definition int_field ::
  "(json \<Rightarrow> int option) \<Rightarrow> int \<Rightarrow> (string \<times> json) list \<Rightarrow> string \<Rightarrow> int option" where
  "int_field read dflt es k = (case map_of es k of None \<Rightarrow> Some dflt | Some v \<Rightarrow> read v)"

definition only_fields :: "string list \<Rightarrow> (string \<times> json) list \<Rightarrow> unit option" where
  "only_fields known es = (if list_all (\<lambda>e. fst e \<in> set known) es then Some () else None)"

definition decode_start :: "(string \<times> json) list \<Rightarrow> start_arguments option" where
  "decode_start es =
     Option.bind (only_fields [''primary_thread'', ''reviewer_thread'', ''primary_worktree'',
         ''reviewer_worktree'', ''integration_branch'', ''test_commands''] es) (\<lambda>_.
     Option.bind (text_field es ''primary_thread'') (\<lambda>primary.
     Option.bind (text_field es ''reviewer_thread'') (\<lambda>reviewer.
     Option.bind (text_field es ''primary_worktree'') (\<lambda>primary_worktree.
     Option.bind (text_field es ''reviewer_worktree'') (\<lambda>reviewer_worktree.
     Option.bind (optional_text_field es ''integration_branch'') (\<lambda>branch.
     Option.bind (text_list_field es ''test_commands'') (\<lambda>tests.
     Some \<lparr>sa_primary_thread = primary, sa_reviewer_thread = reviewer, sa_primary_worktree = primary_worktree,
           sa_reviewer_worktree = reviewer_worktree, sa_branch = branch, sa_tests = tests\<rparr>)))))))"

definition decode_wait :: "(string \<times> json) list \<Rightarrow> wait_arguments option" where
  "decode_wait es =
     Option.bind (only_fields [''run_id'', ''after_cursor'', ''timeout_ms''] es) (\<lambda>_.
     Option.bind (text_field es ''run_id'') (\<lambda>run.
     Option.bind (int_field as_i64 0 es ''after_cursor'') (\<lambda>after.
     Option.bind (int_field as_u64 DEFAULT_WAIT_TIMEOUT_MS es ''timeout_ms'') (\<lambda>timeout.
     Some \<lparr>wa_run = run, wa_after = after, wa_timeout = timeout\<rparr>))))"

definition decode_patch :: "(string \<times> json) list \<Rightarrow> patch_arguments option" where
  "decode_patch es =
     Option.bind (only_fields [''run_id'', ''request_hash'', ''patch''] es) (\<lambda>_.
     Option.bind (text_field es ''run_id'') (\<lambda>run.
     Option.bind (text_field es ''request_hash'') (\<lambda>request.
     Option.bind (text_field es ''patch'') (\<lambda>patch.
     Some \<lparr>pg_run = run, pg_request = request, pg_patch = patch\<rparr>))))"

definition decode_one_text :: "string \<Rightarrow> (string \<times> json) list \<Rightarrow> string option" where
  "decode_one_text k es = Option.bind (only_fields [k] es) (\<lambda>_. text_field es k)"

definition decode_status :: "(string \<times> json) list \<Rightarrow> string option option" where
  "decode_status es = Option.bind (only_fields [''run_id''] es) (\<lambda>_. optional_text_field es ''run_id'')"

definition decode_arguments :: "string \<Rightarrow> (string \<times> json) list \<Rightarrow> tool_arguments option" where
  "decode_arguments name es =
     (if name \<in> {''consensus_doctor'', ''consensus_list_threads''} then
        map_option (\<lambda>_. EmptyArguments) (only_fields [] es)
      else if name = ''consensus_list_worktrees'' then
        map_option WorktreeListArguments (decode_one_text ''repository_path'' es)
      else if name = ''consensus_start'' then map_option StartArguments (decode_start es)
      else if name = ''consensus_status'' then map_option StatusArguments (decode_status es)
      else if name = ''consensus_wait'' then map_option WaitArguments (decode_wait es)
      else if name \<in> {''consensus_resume'', ''consensus_cancel''} then
        map_option RunIdArguments (decode_one_text ''run_id'' es)
      else map_option ApplyPatchArguments (decode_patch es))"

definition nonempty :: "string \<Rightarrow> string \<Rightarrow> string + unit" where
  "nonempty field value = ensure (\<not> blank value) (field @ '' must be a non-empty string'')"

definition nonempty_option :: "string \<Rightarrow> string option \<Rightarrow> string + unit" where
  "nonempty_option field value = (case value of None \<Rightarrow> Inr () | Some t \<Rightarrow> nonempty field t)"

definition validate_start :: "start_arguments \<Rightarrow> string + unit" where
  "validate_start a =
     attempt (nonempty ''primary_thread'' (sa_primary_thread a)) (\<lambda>_.
     attempt (nonempty ''reviewer_thread'' (sa_reviewer_thread a)) (\<lambda>_.
     attempt (ensure (sa_primary_thread a \<noteq> sa_reviewer_thread a)
       ''primary_thread and reviewer_thread must differ'') (\<lambda>_.
     attempt (nonempty ''primary_worktree'' (sa_primary_worktree a)) (\<lambda>_.
     attempt (nonempty ''reviewer_worktree'' (sa_reviewer_worktree a)) (\<lambda>_.
     attempt (ensure (sa_primary_worktree a \<noteq> sa_reviewer_worktree a)
       ''primary_worktree and reviewer_worktree must differ'') (\<lambda>_.
     attempt (nonempty_option ''integration_branch'' (sa_branch a)) (\<lambda>_.
     attempt (collect_results (nonempty ''test_commands item'') (sa_tests a)) (\<lambda>_. Inr ()))))))))"

definition validate_wait :: "wait_arguments \<Rightarrow> string + unit" where
  "validate_wait a =
     attempt (nonempty ''run_id'' (wa_run a)) (\<lambda>_.
     attempt (ensure (0 \<le> wa_after a) ''after_cursor must be at least 0'') (\<lambda>_.
     ensure (wa_timeout a \<le> 30000) ''timeout_ms must not exceed 30000''))"

definition validate_patch :: "patch_arguments \<Rightarrow> string + unit" where
  "validate_patch a =
     attempt (nonempty ''run_id'' (pg_run a)) (\<lambda>_.
     attempt (nonempty ''request_hash'' (pg_request a)) (\<lambda>_.
     attempt (nonempty ''patch'' (pg_patch a)) (\<lambda>_.
     ensure (int (length (pg_patch a)) \<le> 512 * 1024) ''patch exceeds the 524288 byte limit'')))"

fun validate :: "tool_arguments \<Rightarrow> string + unit" where
  "validate EmptyArguments = Inr ()"
| "validate (WorktreeListArguments path) = nonempty ''repository_path'' path"
| "validate (StartArguments a) = validate_start a"
| "validate (StatusArguments run) = nonempty_option ''run_id'' run"
| "validate (WaitArguments a) = validate_wait a"
| "validate (RunIdArguments run) = nonempty ''run_id'' run"
| "validate (ApplyPatchArguments a) = validate_patch a"

definition given_text :: "string \<Rightarrow> string option \<Rightarrow> (string \<times> json) list" where
  "given_text k value = (case value of None \<Rightarrow> [] | Some t \<Rightarrow> [(k, JStr t)])"

fun encode_arguments :: "tool_arguments \<Rightarrow> json" where
  "encode_arguments EmptyArguments = json_object []"
| "encode_arguments (WorktreeListArguments path) = json_object [(''repository_path'', JStr path)]"
| "encode_arguments (StartArguments a) = json_object (
     [(''primary_thread'', JStr (sa_primary_thread a)), (''reviewer_thread'', JStr (sa_reviewer_thread a)),
      (''primary_worktree'', JStr (sa_primary_worktree a)), (''reviewer_worktree'', JStr (sa_reviewer_worktree a))]
     @ given_text ''integration_branch'' (sa_branch a)
     @ (if sa_tests a = [] then [] else [(''test_commands'', JArr (map JStr (sa_tests a)))]))"
| "encode_arguments (StatusArguments run) = json_object (given_text ''run_id'' run)"
| "encode_arguments (WaitArguments a) = json_object [(''run_id'', JStr (wa_run a)),
     (''after_cursor'', JInt (wa_after a)), (''timeout_ms'', JInt (wa_timeout a))]"
| "encode_arguments (RunIdArguments run) = json_object [(''run_id'', JStr run)]"
| "encode_arguments (ApplyPatchArguments a) = json_object [(''run_id'', JStr (pg_run a)),
     (''request_hash'', JStr (pg_request a)), (''patch'', JStr (pg_patch a))]"

definition parse_arguments :: "(string \<Rightarrow> json \<Rightarrow> string) \<Rightarrow> string \<Rightarrow> json \<Rightarrow> string + tool_arguments" where
  "parse_arguments argument_error name arguments =
     attempt (ok_or ''tool arguments must be an object'' (as_object arguments)) (\<lambda>es.
     ok_or (''invalid tool arguments: '' @ argument_error name arguments) (decode_arguments name es))"

definition validate_arguments :: "(string \<Rightarrow> json \<Rightarrow> string) \<Rightarrow> string \<Rightarrow> json \<Rightarrow> string + json" where
  "validate_arguments argument_error name arguments =
     (if name \<in> set MCP_TOOL_NAMES then
        attempt (parse_arguments argument_error name arguments) (\<lambda>parsed.
        attempt (validate parsed) (\<lambda>_. Inr (encode_arguments parsed)))
      else Inl (''unknown tool '' @ name))"

subsection \<open>The server\<close>

text \<open>
  The MCP server (\<open>crates/mcp-server/src/lib.rs\<close>): one JSON-RPC request per line, answered with a line. The
  backend that runs a tool is an argument, a function that changes a state of its own; so are the functions of
  \<open>serde_json\<close> (record \<open>mcp_libs\<close>): the parser of a line with the text of its error, the pretty printer, and
  the text of the error for the arguments of a tool. A line is a list of bytes; reading one that is not UTF-8
  ends the service, as the end of the input does.
\<close>

record mcp_libs =
  ml_parse :: "string \<Rightarrow> string + json"
  ml_pretty :: "json \<Rightarrow> string"
  ml_argument_error :: "string \<Rightarrow> json \<Rightarrow> string"

record backend_error =
  be_code :: string
  be_message :: string

type_synonym 's backend = "string \<Rightarrow> json \<Rightarrow> 's \<Rightarrow> (backend_error + json) \<times> 's"

datatype tool_surface = Operator | ParticipantPatch

definition permits :: "tool_surface \<Rightarrow> string \<Rightarrow> bool" where
  "permits surface name \<longleftrightarrow> surface = Operator \<or> name = PARTICIPANT_PATCH_TOOL"

definition MCP_PROTOCOL_VERSION :: string where
  "MCP_PROTOCOL_VERSION = ''2025-06-18''"

definition MAX_MESSAGE_BYTES :: int where
  "MAX_MESSAGE_BYTES = 1024 * 1024"

definition PKG_VERSION :: string where
  "PKG_VERSION = ''0.3.15''"

subsection \<open>Answers\<close>

definition success_response :: "json \<Rightarrow> json \<Rightarrow> json" where
  "success_response rid result = json_object [(''jsonrpc'', JStr ''2.0''), (''id'', rid), (''result'', result)]"

definition error_response :: "json \<Rightarrow> int \<Rightarrow> string \<Rightarrow> json" where
  "error_response rid code message = json_object [
     (''jsonrpc'', JStr ''2.0''), (''id'', rid),
     (''error'', json_object [(''code'', JInt code), (''message'', JStr message)])]"

definition answered :: "json \<Rightarrow> string + json \<Rightarrow> json" where
  "answered rid r = (case r of Inr result \<Rightarrow> success_response rid result
     | Inl message \<Rightarrow> error_response rid (- 32602) message)"

definition successful_tool_result :: "mcp_libs \<Rightarrow> json \<Rightarrow> json" where
  "successful_tool_result L value = json_object [
     (''content'', JArr [json_object [(''type'', JStr ''text''), (''text'', JStr (ml_pretty L value))]]),
     (''structuredContent'', if is_object value then value else json_object [(''result'', value)]),
     (''isError'', JBool False)]"

definition failed_tool_result :: "backend_error \<Rightarrow> json" where
  "failed_tool_result err = json_object [
     (''content'', JArr [json_object [(''type'', JStr ''text''),
        (''text'', JStr (be_code err @ '': '' @ be_message err))]]),
     (''structuredContent'', json_object [(''ok'', JBool False),
        (''error'', json_object [(''code'', JStr (be_code err)), (''message'', JStr (be_message err))])]),
     (''isError'', JBool True)]"

subsection \<open>Parameters\<close>

definition reject_unknown_fields :: "(string \<times> json) list \<Rightarrow> string list \<Rightarrow> string + unit" where
  "reject_unknown_fields es allowed =
     (case find (\<lambda>e. fst e \<notin> set allowed) es of
        Some e \<Rightarrow> Inl (''unknown field '' @ fst e)
      | None \<Rightarrow> Inr ())"

definition validate_request_meta :: "(string \<times> json) list \<Rightarrow> string + unit" where
  "validate_request_meta es =
     (case map_of es ''_meta'' of
        None \<Rightarrow> Inr ()
      | Some meta \<Rightarrow> ensure (meta = JNull \<or> is_object meta) ''_meta must be an object when present'')"

definition validate_initialize_params :: "json option \<Rightarrow> string + unit" where
  "validate_initialize_params params =
     attempt (ok_or ''initialize params must be an object'' (Option.bind params as_object)) (\<lambda>es.
     case Option.bind (map_of es ''protocolVersion'') as_str of
       None \<Rightarrow> Inl ''protocolVersion must be a string''
     | Some version \<Rightarrow>
         ensure (version = MCP_PROTOCOL_VERSION) (''unsupported MCP protocol version '' @ version))"

definition validate_ping_params :: "json option \<Rightarrow> string + unit" where
  "validate_ping_params params =
     (case params of
        None \<Rightarrow> Inr ()
      | Some JNull \<Rightarrow> Inr ()
      | Some (JObj es) \<Rightarrow> attempt (reject_unknown_fields es [''_meta'']) (\<lambda>_. validate_request_meta es)
      | _ \<Rightarrow> Inl ''ping params must be an object when present'')"

definition validate_list_params :: "json option \<Rightarrow> string + unit" where
  "validate_list_params params =
     (case params of
        None \<Rightarrow> Inr ()
      | Some JNull \<Rightarrow> Inr ()
      | Some (JObj es) \<Rightarrow>
          attempt (reject_unknown_fields es [''cursor'', ''_meta'']) (\<lambda>_.
          attempt (case map_of es ''cursor'' of
              None \<Rightarrow> Inr ()
            | Some cursor \<Rightarrow> ensure (cursor = JNull \<or> is_string cursor) ''cursor must be a string when present'') (\<lambda>_.
          validate_request_meta es))
      | _ \<Rightarrow> Inl ''tools/list params must be an object when present'')"

definition parse_tool_call :: "json option \<Rightarrow> string + string \<times> json" where
  "parse_tool_call params =
     attempt (ok_or ''tools/call params must be an object'' (Option.bind params as_object)) (\<lambda>es.
     attempt (reject_unknown_fields es [''name'', ''arguments'', ''_meta'']) (\<lambda>_.
     attempt (validate_request_meta es) (\<lambda>_.
     case Option.bind (map_of es ''name'') as_str of
       None \<Rightarrow> Inl ''tool name must be a non-empty string''
     | Some name \<Rightarrow>
         attempt (ensure (name \<noteq> []) ''tool name must be a non-empty string'') (\<lambda>_.
         Inr (name, case map_of es ''arguments'' of Some v \<Rightarrow> v | None \<Rightarrow> json_object [])))))"

subsection \<open>Requests\<close>

definition initialize_result :: json where
  "initialize_result = json_object [
     (''protocolVersion'', JStr MCP_PROTOCOL_VERSION),
     (''capabilities'', json_object [(''tools'', json_object [(''listChanged'', JBool False)])]),
     (''serverInfo'', json_object [(''name'', JStr ''worktree-merge-consensus''), (''version'', JStr PKG_VERSION)])]"

definition offered_tools :: "tool_surface \<Rightarrow> json" where
  "offered_tools surface = json_object [(''tools'', JArr (filter
     (\<lambda>t. case str_field t ''name'' of Some name \<Rightarrow> permits surface name | None \<Rightarrow> False) tool_definitions))]"

definition call_tool ::
  "mcp_libs \<Rightarrow> 's backend \<Rightarrow> tool_surface \<Rightarrow> json \<Rightarrow> json option \<Rightarrow> 's \<Rightarrow> json \<times> 's" where
  "call_tool L call surface rid params s =
     (case parse_tool_call params of
        Inl message \<Rightarrow> (error_response rid (- 32602) message, s)
      | Inr (name, arguments) \<Rightarrow>
          if \<not> permits surface name then
            (error_response rid (- 32602) (''tool '' @ name @ '' is not available on this MCP surface''), s)
          else (case validate_arguments (ml_argument_error L) name arguments of
              Inl message \<Rightarrow> (error_response rid (- 32602) message, s)
            | Inr valid \<Rightarrow>
                let (r, s') = call name valid s in
                (success_response rid
                   (case r of Inr value \<Rightarrow> successful_tool_result L value | Inl err \<Rightarrow> failed_tool_result err), s')))"

definition handle_request ::
  "mcp_libs \<Rightarrow> 's backend \<Rightarrow> tool_surface \<Rightarrow> json \<Rightarrow> 's \<Rightarrow> json option \<times> 's" where
  "handle_request L call surface request s =
     (case as_object request of
        None \<Rightarrow> (Some (error_response JNull (- 32600) ''request must be a JSON object''), s)
      | Some es \<Rightarrow>
          let rid = map_of es ''id''; response_id = (case rid of Some v \<Rightarrow> v | None \<Rightarrow> JNull);
              params = map_of es ''params''; reply = (\<lambda>r. (map_option (\<lambda>_. r) rid, s)) in
          if str_field request ''jsonrpc'' \<noteq> Some ''2.0'' then
            reply (error_response response_id (- 32600)
              (''jsonrpc must equal '' @ [CHR 0x22] @ ''2.0'' @ [CHR 0x22]))
          else (case str_field request ''method'' of
              None \<Rightarrow> reply (error_response response_id (- 32600) ''method must be a string'')
            | Some method \<Rightarrow>
                if method = ''notifications/initialized'' then (None, s)
                else if method = ''initialize'' then
                  reply (answered response_id
                    (attempt (validate_initialize_params params) (\<lambda>_. Inr initialize_result)))
                else if method = ''ping'' then
                  reply (answered response_id (attempt (validate_ping_params params) (\<lambda>_. Inr (json_object []))))
                else if method = ''tools/list'' then
                  reply (answered response_id
                    (attempt (validate_list_params params) (\<lambda>_. Inr (offered_tools surface))))
                else if method = ''tools/call'' then
                  (if rid = None then (None, s)
                   else let (r, s') = call_tool L call surface response_id params s in (Some r, s'))
                else reply (error_response response_id (- 32601) ''method not found'')))"

subsection \<open>The service\<close>

definition answer_line ::
  "mcp_libs \<Rightarrow> 's backend \<Rightarrow> tool_surface \<Rightarrow> string \<Rightarrow> 's \<Rightarrow> json option \<times> 's" where
  "answer_line L call surface text s =
     (if MAX_MESSAGE_BYTES < int (length text) then
        (Some (error_response JNull (- 32600) (''request exceeds '' @ decimal (nat MAX_MESSAGE_BYTES) @ '' bytes'')), s)
      else (case ml_parse L text of
          Inr request \<Rightarrow> handle_request L call surface request s
        | Inl err \<Rightarrow> (Some (error_response JNull (- 32700) (''parse error: '' @ err)), s)))"

text \<open>The answers to the lines that are read, and whether the input ended.\<close>

fun serve_surface ::
  "mcp_libs \<Rightarrow> 's backend \<Rightarrow> tool_surface \<Rightarrow> string list \<Rightarrow> 's \<Rightarrow> (json list \<times> bool) \<times> 's" where
  "serve_surface L call surface [] s = (([], True), s)"
| "serve_surface L call surface (text # texts) s =
     (if \<not> utf8 text then (([], False), s)
      else
        let (response, s') = answer_line L call surface text s;
            ((responses, ended), s'') = serve_surface L call surface texts s' in
        ((case response of Some r \<Rightarrow> r # responses | None \<Rightarrow> responses, ended), s''))"

end
