(* ===== verification/Command_Line.thy ===== *)
theory Command_Line
  imports Task_Selection Daemon_Requests Mcp_Server
begin

text \<open>
  The commands of the program (\<open>crates/cli/src/main.rs\<close>, \<open>args.rs\<close>): the start of a run, the requests to the
  daemon and the watching of a run, and the tools of the MCP server, each turned into what a command does. The
  parser of the command line, the printing, the doctor and the processes are not modelled; the way to the daemon
  is a parameter that can fail before a request and after its response.
\<close>

subsection \<open>Arguments\<close>

record run_args =
  ra_primary_thread :: "string option"
  ra_reviewer_thread :: "string option"
  ra_primary_worktree :: "string option"
  ra_reviewer_worktree :: "string option"
  ra_repository :: "string option"
  ra_branch :: "string option"
  ra_tests :: "string list"
  ra_json :: bool

record watch_args =
  wt_run :: string
  wt_after :: int
  wt_timeout :: nat
  wt_once :: bool

datatype cli_command =
    RunCommand run_args
  | StatusCommand "string option"
  | WatchCommand watch_args
  | ResumeCommand string
  | CancelCommand string
  | OtherCommand

definition validate_run_args :: "run_args \<Rightarrow> string + unit" where
  "validate_run_args a =
     (let primary = ra_primary_thread a \<noteq> None; reviewer = ra_reviewer_thread a \<noteq> None;
          primary_worktree = ra_primary_worktree a \<noteq> None; reviewer_worktree = ra_reviewer_worktree a \<noteq> None in
      attempt (ensure (primary = reviewer)
        ''--primary-thread and --reviewer-thread must be provided together'') (\<lambda>_.
      attempt (ensure (primary_worktree = reviewer_worktree)
        ''--primary-worktree and --reviewer-worktree must be provided together'') (\<lambda>_.
      ensure (\<not> (ra_json a \<and> \<not> (primary \<and> reviewer \<and> primary_worktree \<and> reviewer_worktree)))
        (''JSON runs require all four binding flags: --primary-thread, --reviewer-thread, ''
         @ ''--primary-worktree, and --reviewer-worktree''))))"

fun validate_command :: "cli_command \<Rightarrow> string + unit" where
  "validate_command (RunCommand a) = validate_run_args a"
| "validate_command (WatchCommand a) = ensure (0 \<le> wt_after a) ''--after-cursor must be at least 0''"
| "validate_command _ = Inr ()"

subsection \<open>The start of a run\<close>

datatype doctor_surface = DirectCli | PluginMcp

record approval_status =
  av_configured_now :: bool
  av_file_path :: "string option"

text \<open>The setting is read, and on the surface of the plugin written if it is missing.\<close>

definition controlled_patch_approval_for_surface ::
  "app_server_error + string option \<Rightarrow> (app_server_error + json) \<Rightarrow> doctor_surface \<Rightarrow> cli_error + approval_status" where
  "controlled_patch_approval_for_surface mode written surface =
     attempt (map_err app_server_failure mode) (\<lambda>m.
     if m = Some CONTROLLED_PATCH_APPROVAL_MODE then Inr \<lparr>av_configured_now = False, av_file_path = None\<rparr>
     else if surface = DirectCli then
       Inl (cli_error ''APPROVAL_CONFIGURATION_REQUIRED''
         (CONTROLLED_PATCH_APPROVAL_KEY @ '' must equal '' @ CONTROLLED_PATCH_APPROVAL_MODE
          @ ''; run `codex-consensus configure` once, then retry the same run''))
     else
       attempt (map_err (\<lambda>err. cli_error ''APPROVAL_CONFIGURATION_REQUIRED''
           (''automatic scoped approval configuration failed: '' @ app_server_error_text err
            @ ''; run `codex-consensus configure` under the same Codex account and CODEX_HOME, or ask the ''
            @ ''administrator to permit only '' @ CONTROLLED_PATCH_APPROVAL_KEY @ ''=''
            @ CONTROLLED_PATCH_APPROVAL_MODE)) written) (\<lambda>response.
       Inr \<lparr>av_configured_now = True, av_file_path = str_field response ''filePath''\<rparr>))"

record thread_page =
  tg_data :: "thread_entry list"
  tg_next :: "string option"

text \<open>The pages of the listing, one moment after the other, until there is no next cursor.\<close>

fun all_threads ::
  "(nat \<Rightarrow> string option \<Rightarrow> app_server_error + thread_page) \<Rightarrow> nat \<Rightarrow> nat \<Rightarrow> string option \<Rightarrow> string list
   \<Rightarrow> (cli_error + thread_entry list) option" where
  "all_threads page 0 moment cursor seen = None"
| "all_threads page (Suc n) moment cursor seen =
     (case page moment cursor of
        Inl err \<Rightarrow> Some (Inl (app_server_failure err))
      | Inr p \<Rightarrow>
          (case tg_next p of
             None \<Rightarrow> Some (Inr (tg_data p))
           | Some c \<Rightarrow>
               if c \<in> set seen then Some (Inl (cli_error ''INVALID_APP_SERVER_RESPONSE''
                   ''thread/list repeated a pagination cursor''))
               else map_option (\<lambda>r. attempt r (\<lambda>ts. Inr (tg_data p @ ts)))
                 (all_threads page n (Suc moment) (Some c) (c # seen))))"

record cli_env =
  cl_approval :: "app_server_error + string option"
  cl_page :: "nat \<Rightarrow> string option \<Rightarrow> app_server_error + thread_page"
  cl_read_thread :: "string \<Rightarrow> app_server_error + thread_summary"
  cl_git :: git_env
  cl_terminal :: bool
  cl_current_dir :: "string option"
  cl_run_id :: uuid
  cl_bound :: nat

definition selected_from_details ::
  "string \<Rightarrow> string \<Rightarrow> thread_summary \<Rightarrow> thread_summary \<Rightarrow> cli_error + selected_tasks" where
  "selected_from_details primary_id reviewer_id primary reviewer =
     (if th_id primary \<noteq> primary_id \<or> th_id reviewer \<noteq> reviewer_id then
        Inl (cli_error ''AMBIGUOUS_THREAD'' ''App Server returned a different task than requested'')
      else Inr \<lparr>sk_primary = primary, sk_reviewer = reviewer\<rparr>)"

definition select_explicit_tasks :: "cli_env \<Rightarrow> string \<Rightarrow> string \<Rightarrow> cli_error + selected_tasks" where
  "select_explicit_tasks L primary_id reviewer_id =
     attempt (ensure (primary_id \<noteq> reviewer_id)
       (cli_error ''AMBIGUOUS_THREAD'' ''primary and reviewer task IDs must differ'')) (\<lambda>_.
     attempt (map_err app_server_failure (cl_read_thread L primary_id)) (\<lambda>primary.
     attempt (map_err app_server_failure (cl_read_thread L reviewer_id)) (\<lambda>reviewer.
     selected_from_details primary_id reviewer_id primary reviewer)))"

definition interactive_worktrees ::
  "cli_env \<Rightarrow> 's selector \<Rightarrow> run_args \<Rightarrow> ('s, cli_error, registered_worktree list) dialogue" where
  "interactive_worktrees L sel a =
     (let entries = (\<lambda>path. settled (map_err git_failure (list_registered_worktrees (cl_git L) path))) in
      case ra_repository a of
        Some repository \<Rightarrow> entries repository
      | None \<Rightarrow>
          (case Option.bind (cl_current_dir L)
              (\<lambda>dir. case list_registered_worktrees (cl_git L) dir of Inr es \<Rightarrow> Some es | Inl _ \<Rightarrow> None) of
             Some es \<Rightarrow> settled (Inr es)
           | None \<Rightarrow>
               proceed (reported (\<lambda>err. cli_error ''WORKTREE_SELECTION_FAILED'' (selection_error_text err))
                 (sl_repository sel)) entries))"

definition chosen_tasks :: "cli_env \<Rightarrow> 's selector \<Rightarrow> run_args \<Rightarrow> ('s, cli_error, selected_tasks) dialogue" where
  "chosen_tasks L sel a =
     (case (ra_primary_thread a, ra_reviewer_thread a) of
        (Some primary, Some reviewer) \<Rightarrow> settled (select_explicit_tasks L primary reviewer)
      | _ \<Rightarrow>
          (case all_threads (cl_page L) (cl_bound L) 0 None [] of
             None \<Rightarrow> (\<lambda>s. None)
           | Some r \<Rightarrow>
               proceed (settled r) (\<lambda>threads.
               reported (\<lambda>err. cli_error ''TASK_SELECTION_FAILED'' (selection_error_text err))
                 (select_tasks (ge_lossy (cl_git L)) sel threads))))"

definition chosen_worktrees ::
  "cli_env \<Rightarrow> 's selector \<Rightarrow> run_args \<Rightarrow> ('s, cli_error, worktree_snapshot \<times> worktree_snapshot) dialogue" where
  "chosen_worktrees L sel a =
     (case (ra_primary_worktree a, ra_reviewer_worktree a) of
        (Some primary, Some reviewer) \<Rightarrow>
          settled (map_err git_failure (inspect_registered_pair (cl_git L) primary reviewer))
      | _ \<Rightarrow>
          proceed (interactive_worktrees L sel a) (\<lambda>entries.
          reported (\<lambda>err. cli_error ''WORKTREE_SELECTION_FAILED'' (selection_error_text err))
            (select_valid_worktrees (cl_git L) sel entries (cl_bound L))))"

definition needs_interaction :: "run_args \<Rightarrow> bool" where
  "needs_interaction a \<longleftrightarrow>
     \<not> (ra_primary_thread a \<noteq> None \<and> ra_reviewer_thread a \<noteq> None)
     \<or> \<not> (ra_primary_worktree a \<noteq> None \<and> ra_reviewer_worktree a \<noteq> None)"

text \<open>\<open>start_run_value\<close>, up to the request it sends to the daemon.\<close>

definition start_run_request :: "cli_env \<Rightarrow> 's selector \<Rightarrow> run_args \<Rightarrow> ('s, cli_error, daemon_request) dialogue" where
  "start_run_request L sel a =
     proceed (settled (ensure (\<not> (needs_interaction a \<and> (ra_json a \<or> \<not> cl_terminal L)))
       (cli_error ''INTERACTIVE_TTY_REQUIRED'' (''non-interactive runs require all four binding flags: ''
         @ ''--primary-thread, --reviewer-thread, --primary-worktree, and --reviewer-worktree'')))) (\<lambda>_.
     proceed (settled (controlled_patch_approval_for_surface (cl_approval L) (Inl (Rpc [])) DirectCli)) (\<lambda>_.
     proceed (chosen_tasks L sel a) (\<lambda>tasks.
     proceed (chosen_worktrees L sel a) (\<lambda>(primary, reviewer).
     let b = \<lparr>sb_tasks = tasks, sb_primary = primary, sb_reviewer = reviewer\<rparr> in
     proceed (if needs_interaction a
        then reported (\<lambda>err. cli_error ''SELECTION_CANCELLED'' (selection_error_text err))
          (confirm_binding (ge_lossy (cl_git L)) sel b)
        else settled (Inr ())) (\<lambda>_.
     proceed (settled (freeze_selected (cl_run_id L) b)) (\<lambda>f.
     settled (Inr (StartRequest (new_run f) \<lparr>rq_branch = ra_branch a, rq_tests = ra_tests a\<rparr>))))))))"

subsection \<open>Requests to the daemon\<close>

record daemon_link =
  lk_daemon :: daemon
  lk_reach :: "nat \<Rightarrow> cli_error option"
  lk_lost :: "nat \<Rightarrow> daemon_response \<Rightarrow> cli_error option"

definition response_result :: "daemon_response \<Rightarrow> cli_error + daemon_value" where
  "response_result response =
     (if dr_ok response then
        ok_or (cli_error ''INVALID_DAEMON_RESPONSE'' ''daemon response has no result'') (dr_result response)
      else attempt (ok_or (cli_error ''INVALID_DAEMON_RESPONSE'' ''daemon response has no error'') (dr_error response))
        (\<lambda>(code, message). Inl (cli_error code message)))"

text \<open>\<open>daemon_request_value\<close>: a connection that ends without a response is an error of its own.\<close>

definition daemon_request_value :: "daemon_link \<Rightarrow> daemon_request \<Rightarrow> (cli_error + daemon_value) action" where
  "daemon_request_value K request w =
     (case lk_reach K (wd_moment w) of
        Some err \<Rightarrow> answer (Inl err) w
      | None \<Rightarrow>
          whatever (handle_daemon_request (lk_daemon K) request) (\<lambda>r w'.
            case r of
              Inl _ \<Rightarrow> answer (Inl (cli_error ''DAEMON_UNREACHABLE'' ''daemon returned no response'')) w'
            | Inr (response, _) \<Rightarrow>
                (case lk_lost K (wd_moment w') response of
                   Some err \<Rightarrow> answer (Inl err) w'
                 | None \<Rightarrow> answer (response_result response) w')) w)"

text \<open>
  \<open>watch_run\<close>: the batches that are printed, and the error it ends with, if any. It may follow a run without
  end; the bound is the number of batches.
\<close>

fun watch_loop ::
  "daemon_link \<Rightarrow> string \<Rightarrow> nat \<Rightarrow> bool \<Rightarrow> nat \<Rightarrow> int \<Rightarrow> (run_observation_batch list \<times> cli_error option) action" where
  "watch_loop K run_id timeout_ms once 0 cursor = given_up"
| "watch_loop K run_id timeout_ms once (Suc n) cursor =
     and_then (daemon_request_value K (WaitRequest run_id cursor timeout_ms)) (\<lambda>r.
     case r of
       Inl err \<Rightarrow> answer ([], Some err)
     | Inr (BatchValue b) \<Rightarrow>
         if once \<or> ob_terminal b \<or> ob_paused b then answer ([b], None)
         else
           and_then (watch_loop K run_id timeout_ms once n (ob_next_cursor b)) (\<lambda>(bs, err).
           answer (b # bs, err))
     | Inr _ \<Rightarrow> answer ([], Some (cli_error ''INVALID_DAEMON_RESPONSE''
         ''progress response did not contain an integer next_cursor'')))"

definition watch_run :: "daemon_link \<Rightarrow> nat \<Rightarrow> watch_args \<Rightarrow> (run_observation_batch list \<times> cli_error option) action" where
  "watch_run K bound a = watch_loop K (wt_run a) (wt_timeout a) (wt_once a) bound (wt_after a)"

subsection \<open>The tools of the MCP server\<close>

text \<open>
  What a tool does, from the members of its arguments; the start of a run and a resumption are preceded by
  \<open>controlled_patch_approval_for_surface\<close> on the surface of the plugin.
\<close>

datatype backend_call =
    DoctorCall
  | ListThreadsCall
  | ListWorktreesCall string
  | StartCall run_args
  | DaemonCall daemon_request

fun approval_first :: "backend_call \<Rightarrow> bool" where
  "approval_first (StartCall _) = True"
| "approval_first (DaemonCall (ResumeRequest _)) = True"
| "approval_first _ = False"

definition DEFAULT_MCP_WAIT_TIMEOUT_MS :: int where
  "DEFAULT_MCP_WAIT_TIMEOUT_MS = 25000"

definition mcp_start_arguments :: "(string \<times> json) list \<Rightarrow> run_args option" where
  "mcp_start_arguments es =
     Option.bind (text_field es ''primary_thread'') (\<lambda>primary.
     Option.bind (text_field es ''reviewer_thread'') (\<lambda>reviewer.
     Option.bind (text_field es ''primary_worktree'') (\<lambda>primary_worktree.
     Option.bind (text_field es ''reviewer_worktree'') (\<lambda>reviewer_worktree.
     Option.bind (optional_text_field es ''integration_branch'') (\<lambda>branch.
     Option.bind (text_list_field es ''test_commands'') (\<lambda>tests.
     Some \<lparr>ra_primary_thread = Some primary, ra_reviewer_thread = Some reviewer,
           ra_primary_worktree = Some primary_worktree, ra_reviewer_worktree = Some reviewer_worktree,
           ra_repository = None, ra_branch = branch, ra_tests = tests, ra_json = True\<rparr>))))))"

definition mcp_wait_arguments :: "(string \<times> json) list \<Rightarrow> daemon_request option" where
  "mcp_wait_arguments es =
     Option.bind (text_field es ''run_id'') (\<lambda>run_id.
     Option.bind (int_field as_i64 0 es ''after_cursor'') (\<lambda>after.
     Option.bind (int_field as_u64 DEFAULT_MCP_WAIT_TIMEOUT_MS es ''timeout_ms'') (\<lambda>timeout.
     Some (WaitRequest run_id after (nat timeout)))))"

definition mcp_patch_arguments :: "(string \<times> json) list \<Rightarrow> daemon_request option" where
  "mcp_patch_arguments es =
     Option.bind (text_field es ''run_id'') (\<lambda>run_id.
     Option.bind (text_field es ''request_hash'') (\<lambda>h.
     Option.bind (text_field es ''patch'') (\<lambda>patch. Some (ApplyPatchRequest run_id h patch))))"

definition backend_call :: "(string \<Rightarrow> json \<Rightarrow> string) \<Rightarrow> string \<Rightarrow> (string \<times> json) list \<Rightarrow> backend_error + backend_call" where
  "backend_call argument_error name es =
     (let decoded = ok_or \<lparr>be_code = ''INVALID_ARGUMENTS'', be_message = argument_error name (JObj es)\<rparr> in
      if name = ''consensus_doctor'' then Inr DoctorCall
      else if name = ''consensus_list_threads'' then Inr ListThreadsCall
      else if name = ''consensus_list_worktrees'' then
        decoded (map_option ListWorktreesCall (text_field es ''repository_path''))
      else if name = ''consensus_start'' then decoded (map_option StartCall (mcp_start_arguments es))
      else if name = ''consensus_status'' then
        decoded (map_option (\<lambda>run. DaemonCall (StatusRequest run)) (optional_text_field es ''run_id''))
      else if name = ''consensus_wait'' then decoded (map_option DaemonCall (mcp_wait_arguments es))
      else if name = ''consensus_resume'' then
        decoded (map_option (\<lambda>run. DaemonCall (ResumeRequest run)) (text_field es ''run_id''))
      else if name = ''consensus_apply_patch'' then decoded (map_option DaemonCall (mcp_patch_arguments es))
      else if name = ''consensus_cancel'' then
        decoded (map_option (\<lambda>run. DaemonCall (CancelRequest run)) (text_field es ''run_id''))
      else Inl \<lparr>be_code = ''UNKNOWN_TOOL'', be_message = ''unsupported MCP tool '' @ name\<rparr>)"

end
