(* ===== verification/Store_Events.thy ===== *)
theory Store_Events
  imports Store_Journal
begin

text \<open>
  The table of events: whatever operations follow, an event stays as it was written, new events come after
  it, and the events are numbered from 1 in the order of their rows.
\<close>

definition numbered :: "store \<Rightarrow> bool" where
  "numbered st \<longleftrightarrow> map ev_id (st_events st) = map int [1..<Suc (length (st_events st))]"

definition events_extend :: "store \<Rightarrow> store \<Rightarrow> bool" where
  "events_extend st st' \<longleftrightarrow>
     (\<exists>new. st_events st' = st_events st @ new) \<and> (numbered st \<longrightarrow> numbered st')"

lemma events_extend_same: "st_events st' = st_events st \<Longrightarrow> events_extend st st'"
  by (simp add: events_extend_def numbered_def)

lemma events_extend_trans: "events_extend st st1 \<Longrightarrow> events_extend st1 st2 \<Longrightarrow> events_extend st st2"
  by (auto simp: events_extend_def)

lemma event_inserted: "events_extend st (insert_run_event L now b s st)"
  by (auto simp: events_extend_def insert_run_event_def numbered_def)

lemma inserted_into: "st_events st1 = st_events st \<Longrightarrow> events_extend st (insert_run_event L now b s st1)"
  using events_extend_trans [OF events_extend_same event_inserted] .

lemma row_updated: "update_run_row L now run_id s st = Inr st' \<Longrightarrow> events_extend st st'"
  by (auto simp: update_run_row_def outcome Let_def events_extend_same intro!: inserted_into)

lemma released_events [simp]: "st_events (release_if_terminal r s st) = st_events st"
  by (simp add: release_if_terminal_tables)

lemma run_inserted: "insert_run E now s st = Inr (x, st') \<Longrightarrow> events_extend st st'"
  by (auto simp: insert_run_def outcome Let_def intro!: inserted_into)

lemma state_saved:
  assumes "save_state E now s st = Inr (x, st')"
  shows "events_extend st st'"
proof -
  obtain st1 where "update_run_row (se_libs E) now (run_text E s) s st = Inr st1" "st_events st' = st_events st1"
    using assms by (auto simp: save_state_def outcome)
  from events_extend_trans [OF row_updated [OF this(1)] events_extend_same [OF this(2)]] show ?thesis .
qed

lemma response_accepted:
  assumes "accept_response_and_advance E now run_id response s st = Inr (x, st')"
  shows "events_extend st st'"
proof -
  obtain p st1 where "update_run_row (se_libs E) now run_id s
      (st\<lparr>st_turns := update_rows p (accept_turn response) (st_turns st)\<rparr>) = Inr st1"
    "st_events st' = st_events st1"
    using assms by (auto simp: accept_response_and_advance_def outcome)
  from events_extend_trans [OF events_extend_same events_extend_trans [OF row_updated [OF this(1)]
      events_extend_same [OF this(2)]]] show ?thesis by simp
qed

lemma run_reactivated:
  assumes "reactivated E now s turn st = Inr st'" "turn_tables_only turn"
  shows "events_extend st st'"
proof -
  obtain st1 st2 where st1: "st_events st1 = st_events st" and st2: "turn st1 = Inr st2"
    and st': "update_run_row (se_libs E) now (run_text E s) s st2 = Inr st'"
    using assms(1) unfolding reactivated_def attempt_Inr acquire_lock_for
    by (elim exE conjE) (rule that [of "st\<lparr>st_locks := st_locks st @ [lock_for E (run_text E s) (facts s)]\<rparr>"]; simp)
  obtain p attempts archived completions items where
    "st2 = st1\<lparr>st_attempts := attempts, st_archived := archived, st_completions := completions,
               st_items := items, st_turns := update_rows p reset_turn (st_turns st1)\<rparr>"
    using assms(2) st2 unfolding turn_tables_only_def by blast
  then have "st_events st2 = st_events st" using st1 by simp
  from events_extend_trans [OF events_extend_same [OF this] row_updated [OF st']] show ?thesis .
qed

lemma blocked_run_reactivated:
  assumes "reactivate E now how b s st = Inr (x, st')"
  shows "events_extend st st'"
proof -
  obtain turn st1 where "turn_tables_only turn" "reactivated E now s turn st = Inr st1"
    "st' = st1 \<or> st' = insert_transition (run_text E b) (phase b) s None None st1"
    using assms by (rule reactivate_reactivated)
  then show ?thesis
    using events_extend_trans [OF run_reactivated events_extend_same, of E now s turn st st1 st'] by auto
qed

lemma events_commit: "(\<And>x st'. r = Inr (x, st') \<Longrightarrow> events_extend st st') \<Longrightarrow> events_extend st (commit st r)"
  by (rule commit_rule) (simp_all add: events_extend_same)

lemma events_step: "events_extend st (store_step E now op st)"
proof (cases "run_op op")
  case False
  then show ?thesis using journal_op_runs [of op st E now] by (simp add: runs_kept_def events_extend_same)
next
  case True
  show ?thesis
  proof (cases op)
    case (Reactivate run_id k how)
    then show ?thesis
      by (auto simp: reactivated_run_def events_extend_same dest: blocked_run_reactivated intro!: events_commit
          split: sum.split option.split prod.split)
  next
    case (RecoverCollision run_id)
    then show ?thesis
      by (auto simp: recovered_collision_def events_extend_same elim!: collision_reactivated dest: run_reactivated
          intro!: events_commit split: sum.split option.split)
  qed (use True in \<open>auto simp: events_extend_same dest: run_inserted state_saved response_accepted
      intro!: events_commit split: option.split\<close>)
qed

interpretation events: store_relation events_extend
  by unfold_locales (auto simp: events_extend_same intro: events_extend_trans events_step)

lemma stored_events_numbered: "numbered (store_after E root ops)"
proof -
  have "numbered (empty_store root)" by (simp add: numbered_def empty_store_def)
  with events.later [of "empty_store root" E ops] show ?thesis
    by (simp add: events_extend_def store_later_def store_after_def)
qed

end
