(* ===== verification/Daemon_Properties.thy ===== *)
theory Daemon_Properties
  imports Daemon_Requests Store_Events Turn_Wait_Properties
begin

text \<open>
  What the daemon promises to a client that follows a run: the batches it gets one after the other are the
  events of the run in their order, without a gap and without a repetition, however the run goes on meanwhile,
  and a wait ends with its timeout.
\<close>

subsection \<open>The events of a run\<close>

definition public_events :: "store \<Rightarrow> string \<Rightarrow> run_progress_event list" where
  "public_events st run_id =
     map (\<lambda>v. (ev_event v)\<lparr>pe_cursor := ev_id v\<rparr>) (filter (\<lambda>v. ev_run v = run_id) (st_events st))"

definition events_after :: "store \<Rightarrow> string \<Rightarrow> int \<Rightarrow> run_progress_event list" where
  "events_after st run_id a = filter (\<lambda>e. a < pe_cursor e) (public_events st run_id)"

lemma run_events_after_Inr:
  "run_events_after st run_id a n = Inr es \<longleftrightarrow>
     ensure_run_exists st run_id = Inr () \<and> es = take (max n 1) (events_after st run_id a)"
proof -
  have "filter (\<lambda>v. ev_run v = run_id \<and> a < ev_id v) (st_events st)
    = filter (\<lambda>v. a < ev_id v) (filter (\<lambda>v. ev_run v = run_id) (st_events st))"
    by (simp add: conj_commute)
  then show ?thesis
    by (auto simp: run_events_after_def outcome events_after_def public_events_def filter_map o_def take_map)
qed

definition latest_cursor :: "store \<Rightarrow> string \<Rightarrow> int" where
  "latest_cursor st run_id = fold max (map ev_id (filter (\<lambda>v. ev_run v = run_id) (st_events st))) 0"

lemma fold_max_bound: "a \<le> fold max xs (a::int) \<and> (\<forall>x \<in> set xs. x \<le> fold max xs a)"
proof (induction xs arbitrary: a)
  case (Cons x xs)
  from Cons [of "max x a"] show ?case by (auto simp: max_def split: if_splits)
qed simp

lemma nothing_after:
  assumes "latest_cursor st run_id \<le> a"
  shows "events_after st run_id a = []"
proof -
  have "ev_id v \<le> a" if "v \<in> set (st_events st)" "ev_run v = run_id" for v
    using that assms fold_max_bound [of 0 "map ev_id (filter (\<lambda>v. ev_run v = run_id) (st_events st))"]
    by (force simp: latest_cursor_def)
  then show ?thesis by (auto simp: events_after_def public_events_def filter_empty_conv not_less)
qed

lemma numbered_cursors:
  assumes "numbered st"
  shows "sorted_wrt (<) (map pe_cursor (public_events st run_id))"
proof -
  have "sorted_wrt (<) (map ev_id (st_events st))"
    using assms unfolding numbered_def by (simp add: sorted_wrt_map sorted_wrt_upt del: upt_Suc)
  then have "sorted_wrt (<) (map ev_id (filter (\<lambda>v. ev_run v = run_id) (st_events st)))"
    by (auto simp: sorted_wrt_map intro: sorted_wrt_filter)
  then show ?thesis by (simp add: public_events_def o_def)
qed

lemma events_after_extend:
  assumes "events_extend st st'"
  shows "\<exists>more. events_after st' run_id a = events_after st run_id a @ more"
  using assms by (auto simp: events_extend_def events_after_def public_events_def)

text \<open>Behind the first \<open>n\<close> of the events there are the others.\<close>

lemma filter_behind:
  assumes "sorted_wrt (<) (map f xs)" "n < length xs"
  shows "filter (\<lambda>x. f (xs ! n) < (f x :: int)) xs = drop (Suc n) xs"
  using assms
proof (induction xs arbitrary: n)
  case (Cons x xs)
  show ?case
  proof (cases n)
    case 0
    then show ?thesis using Cons.prems by (auto intro!: filter_True)
  next
    case (Suc m)
    then have "m < length xs" using Cons.prems(2) by simp
    moreover from this have "f x < f (xs ! m)" using Cons.prems(1) by simp
    ultimately show ?thesis using Cons Suc by (simp add: not_less less_imp_le)
  qed
qed simp

lemma behind_batch:
  assumes "numbered st" "es = take n (events_after st run_id a)"
    and "b = (if es = [] then a else pe_cursor (last es))"
  shows "events_after st run_id b = drop (length es) (events_after st run_id a) \<and> a \<le> b"
proof (cases "es = []")
  case False
  let ?xs = "events_after st run_id a"
  have sorted: "sorted_wrt (<) (map pe_cursor ?xs)"
    using sorted_wrt_filter [OF numbered_cursors [OF assms(1), unfolded sorted_wrt_map]]
    by (simp add: events_after_def sorted_wrt_map)
  obtain m where m: "length es = Suc m" using False by (cases es) auto
  then have "m < length ?xs" "m < n" using assms(2) by simp_all
  then have last: "last es = ?xs ! m" using m assms(2) False by (simp add: last_conv_nth)
  then have b: "b = pe_cursor (?xs ! m)" using assms(3) False by simp
  have "a < b" using nth_mem [OF \<open>m < length ?xs\<close>] unfolding b by (simp add: events_after_def)
  then have "events_after st run_id b = filter (\<lambda>e. b < pe_cursor e) ?xs"
    by (auto simp: events_after_def filter_filter intro: filter_cong)
  with filter_behind [OF sorted \<open>m < length ?xs\<close>] \<open>a < b\<close> show ?thesis unfolding b m by simp
qed (use assms in auto)

subsection \<open>Batches\<close>

text \<open>The others only operate on the store.\<close>

definition faithful :: "coordinator \<Rightarrow> bool" where
  "faithful C \<longleftrightarrow> (\<forall>n st e. \<exists>ops. fst (co_others C n (st, e)) = store_later (co_env C) ops st)"

definition grows :: "coordinator \<Rightarrow> world \<Rightarrow> world \<Rightarrow> bool" where
  "grows C w w' \<longleftrightarrow> (faithful C \<longrightarrow> events_extend (wd_store w) (wd_store w'))"

lemma elapse_store: "wd_store (elapse C w) = fst (co_others C (wd_moment w) (wd_store w, wd_git w))"
  by (simp add: elapse_def Let_def split: prod.split)

interpretation grown: observing "grows C" C for C
proof
  show "grows C w w" for w by (simp add: grows_def events_extend_same)
  show "grows C w w' \<Longrightarrow> grows C w' w'' \<Longrightarrow> grows C w w''" for w w' w''
    by (auto simp: grows_def intro: events_extend_trans)
  show "grows C w (elapse C w)" for w
    unfolding grows_def elapse_store faithful_def using events.later by metis
qed

lemma snapshot_Inr:
  "stored_public_snapshot E st run_id = Inr p \<longleftrightarrow>
     (\<exists>s. stored_state st run_id = Inr s \<and> p = public_snapshot (se_libs E) (se_lossy E) s (latest_cursor st run_id))"
  by (auto simp: stored_public_snapshot_def latest_cursor_def outcome)

lemma snapshot_cursor [simp]: "pr_cursor (public_snapshot L lossy s c) = c"
  by (simp add: public_snapshot_def)

text \<open>What a reading answers: the events of one moment, and whether there are more at a later one.\<close>

lemma observed:
  assumes "observe C run_id a timeout deadline w = Some (Inr (Some b), w')"
  shows "\<exists>st. grows C w w' \<and> (faithful C \<longrightarrow> events_extend (wd_store w) st \<and> events_extend st (wd_store w'))
    \<and> ob_events b = take MAX_EVENT_BATCH (events_after st run_id a)
    \<and> ob_next_cursor b = (if ob_events b = [] then a else pe_cursor (last (ob_events b)))
    \<and> ob_has_more b = (ob_next_cursor b < latest_cursor (wd_store w') run_id)"
proof -
  let ?w1 = "elapse C w" and ?w2 = "elapse C (elapse C w)"
  obtain events s where events: "events = take MAX_EVENT_BATCH (events_after (wd_store ?w1) run_id a)"
    and w': "w' = ?w2"
    and b: "\<exists>timed_out. b = observation_batch run_id a timed_out events
      (public_snapshot (se_libs (co_env C)) (se_lossy (co_env C)) s (latest_cursor (wd_store ?w2) run_id))"
    using assms
    by (auto simp: observe_def outcome run_events_after_Inr snapshot_Inr instant_def Let_def MAX_EVENT_BATCH_def
        split: if_splits)
  have "grows C w ?w1" "grows C ?w1 ?w2" by (rule grown.elapsed)+
  with grown.trans [OF this] events b show ?thesis
    unfolding w' by (intro exI [of _ "wd_store ?w1"]) (auto simp: observation_batch_def Let_def grows_def)
qed

lemma observe_grows: "ensures (grows C) (\<lambda>_. True) (observe C run_id a timeout deadline)"
  unfolding observe_def
  by (auto intro!: grown.and_then [where Q = "\<lambda>_. True"] grown.read_store grown.of_result grown.instant simp: Let_def)

text \<open>A wait answers with a reading it made after its start.\<close>

lemma loop_answer:
  assumes "wait_loop C run_id a timeout deadline n w = Some (Inr b, w')"
  shows "\<exists>w0. grows C w w0 \<and> observe C run_id a timeout deadline w0 = Some (Inr (Some b), w')"
  using assms
proof (induction n arbitrary: w)
  case (Suc n)
  then obtain r w1 where r: "observe C run_id a timeout deadline w = Some (Inr r, w1)"
    and rest: "(case r of Some batch \<Rightarrow> answer batch
       | None \<Rightarrow> and_then (pause_for C) (\<lambda>_. wait_loop C run_id a timeout deadline n)) w1 = Some (Inr b, w')"
    by (auto simp: outcome)
  show ?case
  proof (cases r)
    case None
    with rest have "wait_loop C run_id a timeout deadline n (elapse C w1) = Some (Inr b, w')"
      by (auto simp: outcome pause_for_def)
    from Suc.IH [OF this] obtain w0 where "grows C (elapse C w1) w0"
      "observe C run_id a timeout deadline w0 = Some (Inr (Some b), w')" by blast
    moreover have "grows C w w1" using ensuresD(1) [OF observe_grows r] .
    ultimately show ?thesis using grown.trans grown.elapsed by blast
  qed (use r rest grown.refl in auto)
qed simp

lemma wait_answer:
  assumes "wait_for_run_events C run_id a timeout w = Some (Inr b, w')"
  shows "\<exists>w0 deadline. grows C w w0 \<and> observe C run_id a timeout deadline w0 = Some (Inr (Some b), w')"
  using assms loop_answer [of C run_id a timeout "co_clock C (wd_moment w) + timeout" "co_patience C" w b w']
  by (auto simp: wait_for_run_events_def outcome instant_def)

text \<open>A client that asks for the next batch behind the one before, with a timeout for each.\<close>

fun follow :: "coordinator \<Rightarrow> string \<Rightarrow> int \<Rightarrow> nat list \<Rightarrow> run_observation_batch list action" where
  "follow C run_id a [] = answer []"
| "follow C run_id a (t # ts) =
     and_then (wait_for_run_events C run_id a t) (\<lambda>b.
     and_then (follow C run_id (ob_next_cursor b) ts) (\<lambda>bs. answer (b # bs)))"

lemma batch_step:
  assumes "faithful C" "numbered (wd_store w)" "wait_for_run_events C run_id a t w = Some (Inr b, w1)"
  shows "events_extend (wd_store w) (wd_store w1)" "length (ob_events b) \<le> 6"
    "events_extend (wd_store w1) st' \<Longrightarrow>
       events_after st' run_id a = ob_events b @ events_after st' run_id (ob_next_cursor b)"
    "\<not> ob_has_more b \<Longrightarrow> events_after (wd_store w1) run_id (ob_next_cursor b) = []"
proof -
  obtain w0 deadline where w0: "grows C w w0" "observe C run_id a t deadline w0 = Some (Inr (Some b), w1)"
    using wait_answer [OF assms(3)] by blast
  then obtain st where st: "events_extend (wd_store w0) st" "events_extend st (wd_store w1)"
    and b: "ob_events b = take MAX_EVENT_BATCH (events_after st run_id a)"
      "ob_next_cursor b = (if ob_events b = [] then a else pe_cursor (last (ob_events b)))"
      "ob_has_more b = (ob_next_cursor b < latest_cursor (wd_store w1) run_id)"
    using observed [OF w0(2)] assms(1) by blast
  have first: "events_extend (wd_store w) st"
    using w0(1) st(1) assms(1) by (auto simp: grows_def intro: events_extend_trans)
  with st(2) show "events_extend (wd_store w) (wd_store w1)" by (rule events_extend_trans [rotated])
  show "length (ob_events b) \<le> 6" by (simp add: b(1) MAX_EVENT_BATCH_def)
  show "\<not> ob_has_more b \<Longrightarrow> events_after (wd_store w1) run_id (ob_next_cursor b) = []"
    using nothing_after b(3) by simp
  assume "events_extend (wd_store w1) st'"
  then have ext: "events_extend st st'" using events_extend_trans st(2) by blast
  then obtain more where more: "events_after st' run_id a = events_after st run_id a @ more"
    using events_after_extend by blast
  have "numbered st'" using assms(2) first ext by (simp add: events_extend_def)
  moreover have whole: "ob_events b = take (length (ob_events b)) (events_after st' run_id a)"
    by (simp add: b(1) more min_def)
  ultimately have "events_after st' run_id (ob_next_cursor b) = drop (length (ob_events b)) (events_after st' run_id a)"
    using behind_batch b(2) by blast
  with whole show "events_after st' run_id a = ob_events b @ events_after st' run_id (ob_next_cursor b)"
    by (metis append_take_drop_id)
qed

lemma follow_exact:
  assumes "faithful C" "numbered (wd_store w)" "follow C run_id a ts w = Some (Inr bs, w')"
  shows "events_extend (wd_store w) (wd_store w') \<and> list_all (\<lambda>b. length (ob_events b) \<le> 6) bs
    \<and> (\<exists>rest. events_after (wd_store w') run_id a = concat (map ob_events bs) @ rest
         \<and> (bs \<noteq> [] \<and> \<not> ob_has_more (last bs) \<longrightarrow> rest = []))"
  using assms(2,3)
proof (induction ts arbitrary: a w bs)
  case (Cons t ts)
  then obtain b w1 bs' where b: "wait_for_run_events C run_id a t w = Some (Inr b, w1)"
    and rest: "follow C run_id (ob_next_cursor b) ts w1 = Some (Inr bs', w')" and bs: "bs = b # bs'"
    by (auto simp: outcome)
  note step = batch_step [OF assms(1) Cons.prems(1) b]
  have "numbered (wd_store w1)" using step(1) Cons.prems(1) by (simp add: events_extend_def)
  from Cons.IH [OF this rest] obtain more where ext: "events_extend (wd_store w1) (wd_store w')"
    "list_all (\<lambda>b. length (ob_events b) \<le> 6) bs'"
    and more: "events_after (wd_store w') run_id (ob_next_cursor b) = concat (map ob_events bs') @ more"
      "bs' \<noteq> [] \<and> \<not> ob_has_more (last bs') \<longrightarrow> more = []"
    by blast
  have "events_after (wd_store w') run_id a = concat (map ob_events bs) @ more"
    using step(3) [OF ext(1)] more(1) bs by simp
  moreover have "more = []" if "\<not> ob_has_more (last bs)"
  proof (cases "bs' = []")
    case True
    then have "w' = w1" using rest by (cases ts) (auto simp: outcome)
    with step(4) that more(1) True bs show ?thesis by simp
  qed (use that more(2) bs in simp)
  moreover have "events_extend (wd_store w) (wd_store w')" using step(1) ext(1) by (rule events_extend_trans)
  ultimately show ?case using step(2) ext(2) bs by auto
qed (auto simp: events_extend_same)

text \<open>
  C22: Following a run: the batches a client gets one after the other, each asked for behind the one before, are
  together the first events of the run behind the cursor the client began with, in their order, none left out
  and none twice, whatever is done to the store in the meantime; each has at most six. If the last one says
  that there are no more, they are all the events there are.
\<close>

theorem stream_followed:
  assumes "faithful C" "wd_store w = store_after (co_env C) root ops" "follow C run_id a ts w = Some (Inr bs, w')"
  shows "list_all (\<lambda>b. length (ob_events b) \<le> 6) bs
    \<and> (\<exists>rest. events_after (wd_store w') run_id a = concat (map ob_events bs) @ rest
         \<and> (bs \<noteq> [] \<and> \<not> ob_has_more (last bs) \<longrightarrow> rest = []))"
proof -
  have "numbered (wd_store w)" unfolding assms(2) by (rule stored_events_numbered)
  from follow_exact [OF assms(1) this assms(3)] show ?thesis by blast
qed

subsection \<open>Time\<close>

lemma observe_later: "ensures later (\<lambda>_. True) (observe C run_id a timeout deadline)"
  unfolding observe_def
  by (auto intro!: clocked.and_then [where Q = "\<lambda>_. True"] clocked.read_store clocked.of_result clocked.instant simp: Let_def)

lemma observe_returns [returning]: "returns (observe C run_id a timeout deadline)"
  unfolding observe_def Let_def by (intro returning)

lemma nothing_observed:
  assumes "observe C run_id a timeout deadline w = Some (Inr None, w')"
  shows "co_clock C (wd_moment w') < deadline"
  using assms
  by (auto simp: observe_def outcome instant_def Let_def events_after_def split: if_splits)

lemma batch_observed:
  assumes "observe C run_id a timeout deadline w = Some (Inr (Some b), w')"
  shows "ob_events b \<noteq> [] \<or> ob_terminal b \<or> timeout = 0
    \<or> ob_timed_out b \<and> deadline \<le> co_clock C (wd_moment w')"
  using assms
  by (auto simp: observe_def outcome instant_def Let_def observation_batch_def split: if_splits)

lemma wait_loop_ends:
  assumes "strict_mono (co_clock C)" "0 < n" "deadline < co_clock C (wd_moment w) + n"
  shows "\<exists>r w'. wait_loop C run_id a timeout deadline n w = Some (r, w')
    \<and> (\<forall>b. r = Inr b \<longrightarrow> ob_events b \<noteq> [] \<or> ob_terminal b \<or> timeout = 0
         \<or> ob_timed_out b \<and> deadline \<le> co_clock C (wd_moment w'))"
  using assms(2,3)
proof (induction n arbitrary: w)
  case (Suc n)
  obtain r w1 where r: "observe C run_id a timeout deadline w = Some (r, w1)"
    using observe_returns by (rule returnsE)
  consider err where "r = Inl err" | b where "r = Inr (Some b)" | "r = Inr None"
    by (metis not_None_eq old.sum.exhaust)
  then show ?case
  proof cases
    case 3
    have "co_clock C (wd_moment w) \<le> co_clock C (wd_moment w1)"
      using ensuresD(1) [OF observe_later r] strict_mono_mono [OF assms(1)] by (simp add: later_def monoD)
    moreover have "co_clock C (wd_moment w1) < co_clock C (wd_moment (elapse C w1))"
      using strict_monoD [OF assms(1)] by simp
    moreover have "co_clock C (wd_moment w1) < deadline" using nothing_observed r 3 by blast
    ultimately have "0 < n" "deadline < co_clock C (wd_moment (elapse C w1)) + n" using Suc.prems by linarith+
    from Suc.IH [OF this] show ?thesis
      using 3 r by (simp add: and_then_def whatever_def pause_for_def)
  qed (use r batch_observed [of C run_id a timeout deadline w _ w1] in
      \<open>auto simp: and_then_def whatever_def of_result_def\<close>)
qed simp

text \<open>
  C23: A wait ends in every world: within \<open>timeout + 1\<close> readings the answer is an error or a batch, and a batch without
  an event of a run that goes on comes only when the time is over, and says so.
\<close>

theorem wait_ends:
  assumes "strict_mono (co_clock C)" "timeout < co_patience C"
  shows "\<exists>r w'. wait_for_run_events C run_id a timeout w = Some (r, w')
    \<and> (\<forall>b. r = Inr b \<longrightarrow> ob_events b \<noteq> [] \<or> ob_terminal b \<or> timeout = 0
         \<or> ob_timed_out b \<and> co_clock C (wd_moment w) + timeout \<le> co_clock C (wd_moment w'))"
  using wait_loop_ends [OF assms(1), of "co_patience C" "co_clock C (wd_moment w) + timeout" w run_id a timeout] assms(2)
  by (simp add: wait_for_run_events_def and_then_def whatever_def instant_def)

end
