(* ===== verification/Mcp_Properties.thy ===== *)
theory Mcp_Properties
  imports Mcp_Server
begin

text \<open>
  What the MCP server guarantees to its backend and to its client: only valid calls of tools of the surface
  reach the backend, the arguments it gets decode to what was validated, and every request is answered once,
  under its own id.
\<close>

subsection \<open>Arguments\<close>

lemma obj_of_keys: "fst ` set (obj_of kvs) = fst ` set kvs"
proof -
  have "fst ` set (fold (\<lambda>(k, v). obj_insert k v) kvs es) = fst ` set es \<union> fst ` set kvs" for es
    by (induction kvs arbitrary: es) (simp_all add: case_prod_beta obj_insert_keys [unfolded set_map])
  then show ?thesis by (simp add: obj_of_def)
qed

lemma only_fields_obj_of: "only_fields known (obj_of kvs) = only_fields known kvs"
  using obj_of_keys [of kvs] by (force simp: only_fields_def list_all_iff)

lemma only_fields_simps [simp]:
  "only_fields known [] = Some ()"
  "only_fields known ((k, v) # es) = (if k \<in> set known then only_fields known es else None)"
  "only_fields known (es @ es') = Option.bind (only_fields known es) (\<lambda>_. only_fields known es')"
  by (auto simp: only_fields_def)

lemma as_texts_JStr [simp]: "as_texts (map JStr ts) = Some ts"
  by (induction ts) auto

lemma as_i64_bound: "as_i64 v = Some i \<Longrightarrow> as_i64 (JInt i) = Some i"
  by (cases v) (auto split: if_splits)

lemma as_u64_bound: "as_u64 v = Some i \<Longrightarrow> as_u64 (JInt i) = Some i"
  by (cases v) (auto split: if_splits)

lemma int_field_bounds:
  "int_field as_i64 0 es k = Some i \<Longrightarrow> as_i64 (JInt i) = Some i"
  "int_field as_u64 DEFAULT_WAIT_TIMEOUT_MS es k = Some i \<Longrightarrow> as_u64 (JInt i) = Some i"
  unfolding int_field_def
  by (cases "map_of es k"; auto simp: DEFAULT_WAIT_TIMEOUT_MS_def simp del: as_i64.simps as_u64.simps
      dest: as_i64_bound as_u64_bound; simp)+

lemmas fields = text_field_def optional_text_field_def text_list_field_def map_of_obj_of only_fields_obj_of
lemmas structs = decode_start_def decode_wait_def decode_patch_def decode_one_text_def decode_status_def

lemma decode_start_encode:
  "map_option StartArguments (decode_start (obj_of (
     [(''primary_thread'', JStr (sa_primary_thread a)), (''reviewer_thread'', JStr (sa_reviewer_thread a)),
      (''primary_worktree'', JStr (sa_primary_worktree a)), (''reviewer_worktree'', JStr (sa_reviewer_worktree a))]
     @ given_text ''integration_branch'' (sa_branch a)
     @ (if sa_tests a = [] then [] else [(''test_commands'', JArr (map JStr (sa_tests a)))]))))
   = Some (StartArguments a)"
  by (cases "sa_branch a")
     (simp_all add: decode_start_def fields given_text_def)

lemma decode_encode_arguments:
  assumes "decode_arguments name es = Some x"
  shows "\<exists>es'. encode_arguments x = JObj es' \<and> decode_arguments name es' = Some x"
proof (cases x)
  case (StartArguments a)
  then have "name = ''consensus_start''" using assms by (auto simp: decode_arguments_def split: if_splits)
  then show ?thesis
    using decode_start_encode [of a] StartArguments by (simp add: json_object_def decode_arguments_def)
next
  case (WaitArguments a)
  then have a: "decode_wait es = Some a" "name = ''consensus_wait''"
    using assms by (auto simp: decode_arguments_def split: if_splits)
  then have "as_i64 (JInt (wa_after a)) = Some (wa_after a)" "as_u64 (JInt (wa_timeout a)) = Some (wa_timeout a)"
    by (auto simp: decode_wait_def bind_eq_Some_conv simp del: as_i64.simps as_u64.simps intro: int_field_bounds)
  then show ?thesis
    using a WaitArguments
    by (simp add: json_object_def decode_arguments_def decode_wait_def fields int_field_def
        del: as_i64.simps as_u64.simps)
next
  case (StatusArguments r)
  then show ?thesis
    using assms
    by (cases r) (auto simp: json_object_def decode_arguments_def structs fields given_text_def
        obj_of_def split: if_splits)
qed (use assms in \<open>auto simp: json_object_def decode_arguments_def structs fields split: if_splits\<close>)

lemma valid_arguments:
  "validate_arguments err name v = Inr v' \<longleftrightarrow> name \<in> set MCP_TOOL_NAMES \<and>
     (\<exists>es x. v = JObj es \<and> decode_arguments name es = Some x \<and> validate x = Inr () \<and> v' = encode_arguments x)"
  by (auto simp: validate_arguments_def parse_arguments_def outcome)

text \<open>
  The arguments the backend gets are again valid arguments of the tool, and decode to the struct that was
  validated: validating them once more changes nothing.
\<close>

theorem validated_arguments_stable:
  assumes "validate_arguments err name v = Inr v'"
  shows "validate_arguments err name v' = Inr v'
    \<and> (\<exists>es es' x. v = JObj es \<and> v' = JObj es' \<and> decode_arguments name es = Some x
         \<and> decode_arguments name es' = Some x \<and> validate x = Inr ())"
proof -
  obtain es x where x: "v = JObj es" "decode_arguments name es = Some x" "validate x = Inr ()"
      "v' = encode_arguments x" "name \<in> set MCP_TOOL_NAMES"
    using assms unfolding valid_arguments by blast
  obtain es' where "v' = JObj es'" "decode_arguments name es' = Some x"
    using decode_encode_arguments [OF x(2)] x(4) by blast
  with x show ?thesis unfolding valid_arguments by blast
qed

theorem validated_arguments_stable_witness:
  "\<exists>v. validate_arguments (\<lambda>_ _. []) ''consensus_wait'' (json_object [(''run_id'', JStr ''id'')]) = Inr v
     \<and> get v ''timeout_ms'' = Some (JInt 25000) \<and> validate_arguments (\<lambda>_ _. []) ''consensus_wait'' v = Inr v"
proof -
  have "case validate_arguments (\<lambda>_ _. []) ''consensus_wait'' (json_object [(''run_id'', JStr ''id'')]) of
      Inr v \<Rightarrow> get v ''timeout_ms'' = Some (JInt 25000) | Inl _ \<Rightarrow> False"
    by code_simp
  then obtain v where v: "validate_arguments (\<lambda>_ _. []) ''consensus_wait'' (json_object [(''run_id'', JStr ''id'')]) = Inr v"
    "get v ''timeout_ms'' = Some (JInt 25000)"
    by (auto split: sum.splits)
  with validated_arguments_stable [OF v(1)] show ?thesis by blast
qed

subsection \<open>Calls\<close>

text \<open>A backend that also lists the calls it gets.\<close>

definition logged :: "'s backend \<Rightarrow> ('s \<times> (string \<times> json) list) backend" where
  "logged call name v w = (let (r, s) = call name v (fst w) in (r, (s, snd w @ [(name, v)])))"

definition admitted :: "mcp_libs \<Rightarrow> tool_surface \<Rightarrow> string \<times> json \<Rightarrow> bool" where
  "admitted L surface c \<longleftrightarrow>
     permits surface (fst c) \<and> validate_arguments (ml_argument_error L) (fst c) (snd c) = Inr (snd c)"

lemma call_logged:
  "snd (snd (call_tool L (logged call) surface i params w)) = snd w
   \<or> (\<exists>c. snd (snd (call_tool L (logged call) surface i params w)) = snd w @ [c] \<and> admitted L surface c)"
  using validated_arguments_stable [of "ml_argument_error L"]
  by (auto simp: call_tool_def logged_def admitted_def split: sum.splits prod.splits)

lemma request_logged:
  "snd (snd (handle_request L (logged call) surface request w)) = snd w
   \<or> (\<exists>c. snd (snd (handle_request L (logged call) surface request w)) = snd w @ [c] \<and> admitted L surface c)"
proof -
  have "snd (handle_request L (logged call) surface request w) = w
    \<or> (\<exists>i params. snd (handle_request L (logged call) surface request w)
         = snd (call_tool L (logged call) surface i params w))"
    by (auto simp: handle_request_def Let_def split: option.splits prod.splits) (metis snd_conv)+
  then show ?thesis using call_logged [of L call surface _ _ w] by metis
qed

lemma line_logged:
  "snd (snd (answer_line L (logged call) surface text w)) = snd w
   \<or> (\<exists>c. snd (snd (answer_line L (logged call) surface text w)) = snd w @ [c] \<and> admitted L surface c)"
  using request_logged [of L call surface _ w] by (simp add: answer_line_def split: sum.split)

lemma service_logged:
  "\<exists>new. snd (snd (serve_surface L (logged call) surface texts w)) = snd w @ new \<and> list_all (admitted L surface) new"
proof (induction texts arbitrary: w)
  case (Cons l ls)
  let ?w = "snd (answer_line L (logged call) surface l w)"
  obtain new where "snd (snd (serve_surface L (logged call) surface ls ?w)) = snd ?w @ new"
    "list_all (admitted L surface) new"
    using Cons by blast
  moreover have "\<exists>new. snd ?w = snd w @ new \<and> list_all (admitted L surface) new"
    using line_logged [of L call surface l w] by (metis append_Nil2 list.pred_inject)
  ultimately have "\<exists>new. snd (snd (serve_surface L (logged call) surface ls ?w)) = snd w @ new
      \<and> list_all (admitted L surface) new"
    by (metis append_assoc list_all_append)
  then show ?case by (simp add: Let_def case_prod_beta)
qed simp

lemma participant_arguments:
  assumes "admitted L ParticipantPatch (name, v)"
  shows "\<exists>a. name = PARTICIPANT_PATCH_TOOL \<and> v = encode_arguments (ApplyPatchArguments a) \<and> validate_patch a = Inr ()"
  using assms
  by (fastforce simp: admitted_def permits_def valid_arguments PARTICIPANT_PATCH_TOOL_def decode_arguments_def)

text \<open>
  C24: Whatever lines a client sends, the backend is called only for tools of the surface, with valid arguments. On
  the surface of a participant it is called only to apply a patch of a named run and request, of at most 524288
  bytes.
\<close>

theorem surface_restricts_calls:
  assumes "serve_surface L (logged call) surface texts (s, []) = (answers, (s', calls))" "(name, v) \<in> set calls"
  shows "permits surface name \<and> validate_arguments (ml_argument_error L) name v = Inr v
    \<and> (surface = ParticipantPatch \<longrightarrow>
        (\<exists>a. name = PARTICIPANT_PATCH_TOOL \<and> v = encode_arguments (ApplyPatchArguments a)
           \<and> \<not> blank (pg_run a) \<and> \<not> blank (pg_request a) \<and> \<not> blank (pg_patch a) \<and> length (pg_patch a) \<le> 524288))"
proof -
  have "list_all (admitted L surface) calls"
    using service_logged [of L call surface texts "(s, [])"] assms(1) by auto
  then have "admitted L surface (name, v)" using assms(2) by (simp add: list_all_iff)
  moreover from this have "surface = ParticipantPatch \<Longrightarrow>
      \<exists>a. name = PARTICIPANT_PATCH_TOOL \<and> v = encode_arguments (ApplyPatchArguments a) \<and> validate_patch a = Inr ()"
    using participant_arguments by blast
  ultimately show ?thesis
    by (auto simp: admitted_def validate_patch_def nonempty_def outcome)
qed

text \<open>Two lines of a participant: the patch is applied, the start of a run is not available.\<close>

definition example_call :: "string \<Rightarrow> (string \<times> json) list \<Rightarrow> json" where
  "example_call name arguments = json_object [(''jsonrpc'', JStr ''2.0''), (''id'', JInt 1),
     (''method'', JStr ''tools/call''),
     (''params'', json_object [(''name'', JStr name), (''arguments'', json_object arguments)])]"

definition example_mcp :: mcp_libs where
  "example_mcp = \<lparr>
     ml_parse = (\<lambda>t. Inr (if t = ''start'' then example_call ''consensus_start'' []
       else example_call ''consensus_apply_patch''
         [(''run_id'', JStr ''id''), (''request_hash'', JStr ''h''), (''patch'', JStr ''p'')])),
     ml_pretty = (\<lambda>_. []), ml_argument_error = (\<lambda>_ _. [])\<rparr>"

definition example_service :: "(json list \<times> bool) \<times> (nat \<times> (string \<times> json) list)" where
  "example_service = serve_surface example_mcp (logged (\<lambda>_ _ n. (Inr JNull, Suc n))) ParticipantPatch
     [''start'', ''patch''] (0, [])"

lemma service_example:
  "(length (fst (fst example_service)), snd (fst example_service), fst (snd example_service),
    map fst (snd (snd example_service))) = (2, True, 1, [''consensus_apply_patch''])"
  by code_simp

theorem surface_restricts_calls_witness:
  "\<exists>v. (''consensus_apply_patch'', v) \<in> set (snd (snd example_service))
     \<and> validate_arguments (\<lambda>_ _. []) ''consensus_apply_patch'' v = Inr v"
proof -
  obtain answers n calls where service: "example_service = (answers, (n, calls))" by (metis prod.exhaust)
  have "map fst calls = [''consensus_apply_patch'']" using service_example unfolding service by simp
  then obtain v where v: "(''consensus_apply_patch'', v) \<in> set calls" by (auto simp: map_eq_Cons_conv)
  with surface_restricts_calls [OF service [unfolded example_service_def] v] show ?thesis
    by (auto simp: service example_mcp_def)
qed

subsection \<open>Answers\<close>

definition answers_request :: "json \<Rightarrow> json \<Rightarrow> bool" where
  "answers_request request r \<longleftrightarrow>
     get r ''jsonrpc'' = Some (JStr ''2.0'')
     \<and> get r ''id'' = Some (case get request ''id'' of Some v \<Rightarrow> v | None \<Rightarrow> JNull)
     \<and> (get r ''result'' = None) \<noteq> (get r ''error'' = None)"

definition expects_answer :: "json \<Rightarrow> bool" where
  "expects_answer request \<longleftrightarrow>
     is_object request \<longrightarrow> get request ''id'' \<noteq> None
       \<and> \<not> (str_field request ''jsonrpc'' = Some ''2.0''
            \<and> str_field request ''method'' = Some ''notifications/initialized'')"

lemma answered_request:
  assumes "get request ''id'' = Some i"
  shows "answers_request request (success_response i v)" "answers_request request (error_response i c m)"
    "answers_request request (answered i x)"
  using assms by (simp_all add: answers_request_def success_response_def error_response_def answered_def get_json_object
      split: sum.split)

lemma call_answered:
  assumes "get request ''id'' = Some i"
  shows "answers_request request (fst (call_tool L call surface i params s))"
  using assms by (simp add: call_tool_def answered_request case_prod_beta Let_def split: sum.split)

lemma notification_unanswered:
  "is_object request \<Longrightarrow> get request ''id'' = None \<Longrightarrow> fst (handle_request L call surface request s) = None"
  by (cases "str_field request ''method''")
     (auto simp: handle_request_def is_object_def Let_def simp del: str_field_Some)

text \<open>
  C40: Every request is answered, and only requests are: a value that is not an object, or an object with an id that
  is not the notification after the initialization. The answer has the id of the request and either a result or
  an error.
\<close>

theorem request_answered:
  "case fst (handle_request L call surface request s) of
     None \<Rightarrow> \<not> expects_answer request
   | Some r \<Rightarrow> expects_answer request \<and> answers_request request r"
proof (cases "is_object request")
  case False
  then have "as_object request = None" "get request ''id'' = None" by (auto simp: is_object_def get_def simp del: as_object_Some)
  then show ?thesis
    using False by (simp add: handle_request_def expects_answer_def answers_request_def error_response_def get_json_object)
next
  case True
  then obtain es where es: "request = JObj es" by (auto simp: is_object_def)
  show ?thesis
  proof (cases "get request ''id''")
    case None
    show ?thesis
      unfolding notification_unanswered [OF True None] option.case by (simp add: expects_answer_def True None)
  next
    case (Some i)
    note answers = answered_request [OF Some] call_answered [OF Some, of L call surface _ s]
    have "map_of es ''id'' = Some i" using Some es by simp
    then show ?thesis
      using True Some answers unfolding es
      by (cases "str_field (JObj es) ''method''")
         (simp_all add: handle_request_def expects_answer_def Let_def case_prod_beta del: str_field_Some)
  qed
qed

end
