(* ===== verification/Command_Properties.thy ===== *)
theory Command_Properties
  imports Command_Line Daemon_Properties Mcp_Properties
begin

text \<open>
  What the commands promise: a run is started for exactly the tasks and worktrees that were chosen, the tools
  of the MCP server agree with the arguments the server has validated, and where watching a run stops.
\<close>

subsection \<open>Dialogues\<close>

lemma settled_outcome [outcome]: "settled r s = Some (r', s') \<longleftrightarrow> r = r' \<and> s' = s"
  by (auto simp: settled_def)

lemma proceed_Inr [outcome]:
  "proceed m f s = Some (Inr y, s') \<longleftrightarrow> (\<exists>x s1. m s = Some (Inr x, s1) \<and> f x s1 = Some (Inr y, s'))"
  by (auto simp: proceed_def split: option.splits prod.splits sum.splits)

lemma reported_Inr [outcome]: "reported g m s = Some (Inr y, s') \<longleftrightarrow> m s = Some (Inr y, s')"
proof (cases "m s")
  case (Some a)
  then show ?thesis by (cases a; cases "fst a") (auto simp: reported_def map_err_def)
qed (simp add: reported_def)

lemma tasks_differ:
  assumes "select_tasks lossy sel threads s = Some (Inr t, s')"
  shows "th_id (sk_primary t) \<noteq> th_id (sk_reviewer t)
    \<and> th_id (sk_primary t) \<in> th_id ` set threads \<and> th_id (sk_reviewer t) \<in> th_id ` set threads"
proof -
  obtain p r where t: "t = \<lparr>sk_primary = summary_entry p, sk_reviewer = summary_entry r\<rparr>" and "p \<in> set threads"
    and "r \<in> set (filter (\<lambda>t. th_id t \<noteq> th_id p) threads)"
    using assms
    by (auto simp: select_tasks_def Let_def outcome item_at_def split: if_splits dest!: nth_mem)
  then show ?thesis by (auto simp: summary_entry_def)
qed

lemma explicit_tasks:
  assumes "select_explicit_tasks L p r = Inr t"
  shows "th_id (sk_primary t) = p \<and> th_id (sk_reviewer t) = r \<and> p \<noteq> r"
  using assms by (auto simp: select_explicit_tasks_def selected_from_details_def outcome split: if_splits)

lemma valid_pair:
  "select_valid_worktrees e sel entries n s = Some (Inr (p, r), s') \<Longrightarrow>
     \<exists>path path'. inspect_registered_pair e path path' = Inr (p, r)"
proof (induction n arbitrary: s)
  case (Suc n)
  then obtain path path' s1 where
    "(case inspect_registered_pair e path path' of
        Inr pair \<Rightarrow> settled (Inr pair) s1
      | Inl err \<Rightarrow>
          if ge_code err \<in> {''UNREGISTERED_WORKTREE'', ''DUPLICATE_WORKTREE'', ''REPOSITORY_MISMATCH'',
              ''DIRTY_WORKTREE'', ''WORKTREE_UNAVAILABLE''}
          then select_valid_worktrees e sel entries n (sl_report sel err s1)
          else settled (Inl (GitRefused err)) s1) = Some (Inr (p, r), s')"
    unfolding select_valid_worktrees.simps proceed_Inr split_paired_Ex prod.case by blast
  then show ?case
    by (cases "inspect_registered_pair e path path'") (auto simp: settled_outcome split: if_splits dest: Suc.IH)
qed simp

lemma chosen_tasks_differ:
  assumes "chosen_tasks L sel a s = Some (Inr t, s')"
  shows "th_id (sk_primary t) \<noteq> th_id (sk_reviewer t)
    \<and> (\<forall>p r. ra_primary_thread a = Some p \<and> ra_reviewer_thread a = Some r \<longrightarrow>
         th_id (sk_primary t) = p \<and> th_id (sk_reviewer t) = r)"
  using assms
  by (auto simp: chosen_tasks_def outcome split: option.splits dest: tasks_differ explicit_tasks)

lemma chosen_pair:
  assumes "chosen_worktrees L sel a s = Some (Inr (p, r), s')"
  shows "\<exists>path path'. inspect_registered_pair (cl_git L) path path' = Inr (p, r)
    \<and> (ra_primary_worktree a \<noteq> None \<and> ra_reviewer_worktree a \<noteq> None \<longrightarrow>
         ra_primary_worktree a = Some path \<and> ra_reviewer_worktree a = Some path')"
  using assms by (auto simp: chosen_worktrees_def outcome split: option.splits dest!: valid_pair)

lemma frozen_facts:
  assumes "freeze_selected run_id b = Inr f"
  shows "rf_primary_thread_id f = th_id (sk_primary (sb_tasks b)) \<and> rf_reviewer_thread_id f = th_id (sk_reviewer (sb_tasks b))
    \<and> rf_primary_worktree f = ws_worktree (sb_primary b) \<and> rf_reviewer_worktree f = ws_worktree (sb_reviewer b)
    \<and> rf_primary_sha f = ws_head_sha (sb_primary b) \<and> rf_reviewer_sha f = ws_head_sha (sb_reviewer b)
    \<and> verify_frozen_sources f (sb_primary b) (sb_reviewer b) = Inr ()"
  using assms unfolding freeze_selected_def Let_def attempt_Inr map_err_Inr by (elim exE conjE) auto

text \<open>
  C26: A start request is for two different tasks and two worktrees that were found registered, clean and in one
  repository; its facts are those of the two snapshots and verify against them. Tasks and worktrees that were
  named are the ones used, and if any was chosen at the terminal the person confirmed exactly this binding.
\<close>

theorem started_as_selected:
  assumes "start_run_request L sel a s = Some (Inr request, s')"
  shows "\<exists>b f path path'.
    request = StartRequest (new_run f) \<lparr>rq_branch = ra_branch a, rq_tests = ra_tests a\<rparr>
    \<and> rf_primary_thread_id f = th_id (sk_primary (sb_tasks b)) \<and> rf_reviewer_thread_id f = th_id (sk_reviewer (sb_tasks b))
    \<and> rf_primary_thread_id f \<noteq> rf_reviewer_thread_id f
    \<and> (\<forall>p r. ra_primary_thread a = Some p \<and> ra_reviewer_thread a = Some r \<longrightarrow>
         rf_primary_thread_id f = p \<and> rf_reviewer_thread_id f = r)
    \<and> inspect_registered_pair (cl_git L) path path' = Inr (sb_primary b, sb_reviewer b)
    \<and> (ra_primary_worktree a \<noteq> None \<and> ra_reviewer_worktree a \<noteq> None \<longrightarrow>
         ra_primary_worktree a = Some path \<and> ra_reviewer_worktree a = Some path')
    \<and> rf_primary_worktree f = ws_worktree (sb_primary b) \<and> rf_reviewer_worktree f = ws_worktree (sb_reviewer b)
    \<and> rf_primary_sha f = ws_head_sha (sb_primary b) \<and> rf_reviewer_sha f = ws_head_sha (sb_reviewer b)
    \<and> verify_frozen_sources f (sb_primary b) (sb_reviewer b) = Inr ()
    \<and> (needs_interaction a \<longrightarrow> cl_terminal L
         \<and> (\<exists>s1 s2. sl_confirm sel (binding_summary (ge_lossy (cl_git L)) b) s1 = Some (Inr True, s2)))"
proof -
  obtain t p r f s1 s2 s3 s4 where t: "chosen_tasks L sel a s1 = Some (Inr t, s2)"
    and pr: "chosen_worktrees L sel a s2 = Some (Inr (p, r), s3)"
    and f: "freeze_selected (cl_run_id L) \<lparr>sb_tasks = t, sb_primary = p, sb_reviewer = r\<rparr> = Inr f"
    and request: "request = StartRequest (new_run f) \<lparr>rq_branch = ra_branch a, rq_tests = ra_tests a\<rparr>"
    and asked: "needs_interaction a \<Longrightarrow> cl_terminal L \<and> confirm_binding (ge_lossy (cl_git L)) sel
        \<lparr>sb_tasks = t, sb_primary = p, sb_reviewer = r\<rparr> s3 = Some (Inr (), s4)"
    using assms unfolding start_run_request_def
    by (simp only: Let_def proceed_Inr settled_outcome prod.case split_paired_Ex) (auto simp: outcome split: if_splits)
  let ?b = "\<lparr>sb_tasks = t, sb_primary = p, sb_reviewer = r\<rparr>"
  obtain path path' where "inspect_registered_pair (cl_git L) path path' = Inr (p, r)
    \<and> (ra_primary_worktree a \<noteq> None \<and> ra_reviewer_worktree a \<noteq> None \<longrightarrow>
         ra_primary_worktree a = Some path \<and> ra_reviewer_worktree a = Some path')"
    using chosen_pair [OF pr] by blast
  moreover have "needs_interaction a \<longrightarrow> cl_terminal L
         \<and> (\<exists>s1 s2. sl_confirm sel (binding_summary (ge_lossy (cl_git L)) ?b) s1 = Some (Inr True, s2))"
  proof
    assume "needs_interaction a"
    from asked [OF this] have "cl_terminal L" and confirmed: "confirm_binding (ge_lossy (cl_git L)) sel ?b s3 = Some (Inr (), s4)"
      by simp_all
    from confirmed obtain yes s5 where "sl_confirm sel (binding_summary (ge_lossy (cl_git L)) ?b) s3 = Some (Inr yes, s5)"
      "ensure yes SelectionCancelled = Inr ()"
      unfolding confirm_binding_def proceed_Inr settled_outcome by blast
    then have "sl_confirm sel (binding_summary (ge_lossy (cl_git L)) ?b) s3 = Some (Inr True, s5)"
      by (simp add: ensure_Inr)
    with \<open>cl_terminal L\<close> show "cl_terminal L
         \<and> (\<exists>s1 s2. sl_confirm sel (binding_summary (ge_lossy (cl_git L)) ?b) s1 = Some (Inr True, s2))"
      by blast
  qed
  ultimately show ?thesis
    using frozen_facts [OF f] chosen_tasks_differ [OF t] request
    unfolding selected_binding.select_convs
    by (intro exI [of _ ?b] exI [of _ f] exI [of _ path] exI [of _ path']) simp
qed

subsection \<open>The tools of the MCP server\<close>

fun call_of :: "string \<Rightarrow> tool_arguments \<Rightarrow> backend_call" where
  "call_of name EmptyArguments = (if name = ''consensus_doctor'' then DoctorCall else ListThreadsCall)"
| "call_of name (WorktreeListArguments path) = ListWorktreesCall path"
| "call_of name (StartArguments a) = StartCall
     \<lparr>ra_primary_thread = Some (sa_primary_thread a), ra_reviewer_thread = Some (sa_reviewer_thread a),
      ra_primary_worktree = Some (sa_primary_worktree a), ra_reviewer_worktree = Some (sa_reviewer_worktree a),
      ra_repository = None, ra_branch = sa_branch a, ra_tests = sa_tests a, ra_json = True\<rparr>"
| "call_of name (StatusArguments run) = DaemonCall (StatusRequest run)"
| "call_of name (WaitArguments a) = DaemonCall (WaitRequest (wa_run a) (wa_after a) (nat (wa_timeout a)))"
| "call_of name (RunIdArguments run) =
     DaemonCall (if name = ''consensus_resume'' then ResumeRequest run else CancelRequest run)"
| "call_of name (ApplyPatchArguments a) = DaemonCall (ApplyPatchRequest (pg_run a) (pg_request a) (pg_patch a))"

lemma arguments_read:
  "decode_start es = Some a \<Longrightarrow> map_option StartCall (mcp_start_arguments es) = Some (call_of name (StartArguments a))"
  "decode_wait es = Some w \<Longrightarrow> map_option DaemonCall (mcp_wait_arguments es) = Some (call_of name (WaitArguments w))"
  "decode_patch es = Some p \<Longrightarrow> map_option DaemonCall (mcp_patch_arguments es) = Some (call_of name (ApplyPatchArguments p))"
  "decode_one_text k es = Some t \<Longrightarrow> text_field es k = Some t"
  "decode_status es = Some r \<Longrightarrow> optional_text_field es ''run_id'' = Some r"
  by (auto simp: structs mcp_start_arguments_def mcp_wait_arguments_def mcp_patch_arguments_def
      DEFAULT_WAIT_TIMEOUT_MS_def DEFAULT_MCP_WAIT_TIMEOUT_MS_def bind_eq_Some_conv)

lemma decoded_by_name:
  "decode_arguments ''consensus_doctor'' es = map_option (\<lambda>_. EmptyArguments) (only_fields [] es)"
  "decode_arguments ''consensus_list_threads'' es = map_option (\<lambda>_. EmptyArguments) (only_fields [] es)"
  "decode_arguments ''consensus_list_worktrees'' es = map_option WorktreeListArguments (decode_one_text ''repository_path'' es)"
  "decode_arguments ''consensus_start'' es = map_option StartArguments (decode_start es)"
  "decode_arguments ''consensus_status'' es = map_option StatusArguments (decode_status es)"
  "decode_arguments ''consensus_wait'' es = map_option WaitArguments (decode_wait es)"
  "decode_arguments ''consensus_resume'' es = map_option RunIdArguments (decode_one_text ''run_id'' es)"
  "decode_arguments ''consensus_apply_patch'' es = map_option ApplyPatchArguments (decode_patch es)"
  "decode_arguments ''consensus_cancel'' es = map_option RunIdArguments (decode_one_text ''run_id'' es)"
  by (simp_all add: decode_arguments_def)

lemma called_by_name:
  "backend_call err ''consensus_doctor'' es = Inr DoctorCall"
  "backend_call err ''consensus_list_threads'' es = Inr ListThreadsCall"
  "map_option ListWorktreesCall (text_field es ''repository_path'') = Some c
     \<Longrightarrow> backend_call err ''consensus_list_worktrees'' es = Inr c"
  "map_option StartCall (mcp_start_arguments es) = Some c \<Longrightarrow> backend_call err ''consensus_start'' es = Inr c"
  "map_option (\<lambda>run. DaemonCall (StatusRequest run)) (optional_text_field es ''run_id'') = Some c
     \<Longrightarrow> backend_call err ''consensus_status'' es = Inr c"
  "map_option DaemonCall (mcp_wait_arguments es) = Some c \<Longrightarrow> backend_call err ''consensus_wait'' es = Inr c"
  "map_option (\<lambda>run. DaemonCall (ResumeRequest run)) (text_field es ''run_id'') = Some c
     \<Longrightarrow> backend_call err ''consensus_resume'' es = Inr c"
  "map_option DaemonCall (mcp_patch_arguments es) = Some c \<Longrightarrow> backend_call err ''consensus_apply_patch'' es = Inr c"
  "map_option (\<lambda>run. DaemonCall (CancelRequest run)) (text_field es ''run_id'') = Some c
     \<Longrightarrow> backend_call err ''consensus_cancel'' es = Inr c"
  by (auto simp: backend_call_def ok_or_def)

lemma records_called:
  "decode_start es = Some a \<Longrightarrow> backend_call err ''consensus_start'' es = Inr (call_of ''consensus_start'' (StartArguments a))"
  "decode_wait es = Some w \<Longrightarrow> backend_call err ''consensus_wait'' es = Inr (call_of ''consensus_wait'' (WaitArguments w))"
  "decode_patch es = Some p \<Longrightarrow>
     backend_call err ''consensus_apply_patch'' es = Inr (call_of ''consensus_apply_patch'' (ApplyPatchArguments p))"
  by (rule called_by_name(4,6,8), rule arguments_read(1-3), assumption)+

lemma backend_call_of:
  assumes "name \<in> set MCP_TOOL_NAMES" "decode_arguments name es = Some x"
  shows "backend_call err name es = Inr (call_of name x)"
proof -
  have "name = ''consensus_doctor'' \<or> name = ''consensus_list_threads'' \<or> name = ''consensus_list_worktrees'' \<or> name = ''consensus_start''
       \<or> name = ''consensus_status'' \<or> name = ''consensus_wait'' \<or> name = ''consensus_resume'' \<or> name = ''consensus_apply_patch''
       \<or> name = ''consensus_cancel''"
    using assms(1) by (simp only: MCP_TOOL_NAMES_def list.set insert_iff empty_iff simp_thms)
  then show ?thesis
  proof (elim disjE)
    assume "name = ''consensus_doctor''"
    then show ?thesis using assms(2) by (auto simp: decoded_by_name called_by_name(1,2))
  next
    assume "name = ''consensus_list_threads''"
    then show ?thesis using assms(2) by (auto simp: decoded_by_name called_by_name(1,2))
  next
    assume "name = ''consensus_list_worktrees''"
    then show ?thesis using assms(2) by (auto simp: decoded_by_name arguments_read(4) intro!: called_by_name(3))
  next
    assume "name = ''consensus_start''"
    then show ?thesis using assms(2) by (auto simp: decoded_by_name records_called simp del: call_of.simps)
  next
    assume "name = ''consensus_status''"
    then show ?thesis using assms(2) by (auto simp: decoded_by_name arguments_read(5) intro!: called_by_name(5))
  next
    assume "name = ''consensus_wait''"
    then show ?thesis using assms(2) by (auto simp: decoded_by_name records_called simp del: call_of.simps)
  next
    assume "name = ''consensus_resume''"
    then show ?thesis using assms(2) by (auto simp: decoded_by_name arguments_read(4) intro!: called_by_name(7))
  next
    assume "name = ''consensus_apply_patch''"
    then show ?thesis using assms(2) by (auto simp: decoded_by_name records_called simp del: call_of.simps)
  next
    assume "name = ''consensus_cancel''"
    then show ?thesis using assms(2) by (auto simp: decoded_by_name arguments_read(4) intro!: called_by_name(9))
  qed
qed

text \<open>
  C25: The backend understands every call the server lets through, and as the arguments were validated: a wait is one
  the daemon accepts, a run is started without a terminal for two different tasks and two different worktrees,
  and a patch has at most 524288 bytes.
\<close>

theorem validated_call_understood:
  assumes "validate_arguments err name v = Inr v'"
  shows "\<exists>es call. v' = JObj es \<and> backend_call err' name es = Inr call
    \<and> (\<forall>run a t. call = DaemonCall (WaitRequest run a t) \<longrightarrow> 0 \<le> a \<and> t \<le> MAX_WAIT_TIMEOUT_MS)
    \<and> (\<forall>a. call = StartCall a \<longrightarrow> validate_run_args a = Inr () \<and> \<not> needs_interaction a
         \<and> ra_primary_thread a \<noteq> ra_reviewer_thread a \<and> ra_primary_worktree a \<noteq> ra_reviewer_worktree a)
    \<and> (\<forall>run h p. call = DaemonCall (ApplyPatchRequest run h p) \<longrightarrow> length p \<le> 524288)"
proof -
  obtain es x where x: "decode_arguments name es = Some x" "validate x = Inr ()" "v' = encode_arguments x"
      "name \<in> set MCP_TOOL_NAMES"
    using assms unfolding valid_arguments by blast
  obtain es' where es': "v' = JObj es'" "decode_arguments name es' = Some x"
    using decode_encode_arguments [OF x(1)] x(3) by blast
  have "backend_call err' name es' = Inr (call_of name x)" using x(4) es'(2) by (rule backend_call_of)
  moreover have "\<forall>run a t. call_of name x = DaemonCall (WaitRequest run a t) \<longrightarrow> 0 \<le> a \<and> t \<le> MAX_WAIT_TIMEOUT_MS"
    using x(2) by (cases x) (auto simp: validate_wait_def outcome MAX_WAIT_TIMEOUT_MS_def)
  moreover have "\<forall>a. call_of name x = StartCall a \<longrightarrow> validate_run_args a = Inr () \<and> \<not> needs_interaction a
         \<and> ra_primary_thread a \<noteq> ra_reviewer_thread a \<and> ra_primary_worktree a \<noteq> ra_reviewer_worktree a"
    using x(2) by (cases x) (auto simp: validate_start_def outcome validate_run_args_def needs_interaction_def)
  moreover have "\<forall>run h p. call_of name x = DaemonCall (ApplyPatchRequest run h p) \<longrightarrow> length p \<le> 524288"
    using x(2) by (cases x) (auto simp: validate_patch_def outcome)
  ultimately show ?thesis using es'(1) by blast
qed

subsection \<open>Watching a run\<close>

lemma quiet_elapse [simp]: "(\<And>n x. co_others C n x = x) \<Longrightarrow> wd_store (elapse C w) = wd_store w"
  by (simp add: elapse_store)

lemma latest_attained: "0 \<le> a \<Longrightarrow> events_after st run_id a = [] \<Longrightarrow> latest_cursor st run_id \<le> a"
proof -
  have "fold max xs x \<le> a" if "x \<le> a" "\<forall>y \<in> set xs. y \<le> a" for xs and x :: int
    using that by (induction xs arbitrary: x) auto
  then show "0 \<le> a \<Longrightarrow> events_after st run_id a = [] \<Longrightarrow> latest_cursor st run_id \<le> a"
    by (auto simp: latest_cursor_def events_after_def public_events_def filter_empty_conv not_less)
qed

text \<open>A wait for events that are there, when nobody else acts.\<close>

lemma quiet_wait:
  assumes quiet: "\<And>n x. co_others C n x = x" and "0 < co_patience C"
    and stored: "stored_state (wd_store w) run_id = Inr s"
    and events: "numbered (wd_store w)" "0 \<le> a" "events_after (wd_store w) run_id a \<noteq> []"
  shows "\<exists>b w'. wait_for_run_events C run_id a timeout w = Some (Inr b, w') \<and> wd_store w' = wd_store w
    \<and> ob_events b = take 6 (events_after (wd_store w) run_id a)
    \<and> 0 \<le> ob_next_cursor b \<and> events_after (wd_store w) run_id (ob_next_cursor b) = drop 6 (events_after (wd_store w) run_id a)
    \<and> ob_has_more b = (6 < length (events_after (wd_store w) run_id a)) \<and> (ob_has_more b \<longrightarrow> ob_snapshot b = None)
    \<and> ob_terminal b = terminal_status (status s) \<and> ob_paused b = (status s = SPausedUserAction)"
proof -
  let ?st = "wd_store w" and ?c = "latest_cursor (wd_store w) run_id"
  let ?es = "take 6 (events_after ?st run_id a)"
  let ?next = "pe_cursor (last ?es)"
  let ?p = "public_snapshot (se_libs (co_env C)) (se_lossy (co_env C)) s ?c"
  let ?b = "observation_batch run_id a False ?es ?p"
  have some: "?es \<noteq> []" using events(3) by simp
  have behind: "events_after ?st run_id ?next = drop 6 (events_after ?st run_id a)" "a \<le> ?next"
    using behind_batch [OF events(1) refl refl, where n = 6 and run_id = run_id and a = a] some
    by (simp_all add: min_def split: if_splits)
  have more: "?next < ?c \<longleftrightarrow> 6 < length (events_after ?st run_id a)"
  proof -
    have "?c \<le> ?next \<longleftrightarrow> events_after ?st run_id ?next = []"
      using nothing_after latest_attained order_trans [OF events(2) behind(2)] by blast
    then show ?thesis unfolding behind(1) by (simp only: drop_eq_Nil flip: not_le)
  qed
  have "a \<le> ?c" using events(3) nothing_after [of ?st run_id a] by (cases "?c \<le> a") simp_all
  moreover have "run_events_after ?st run_id a MAX_EVENT_BATCH = Inr ?es"
    using stored by (auto simp: run_events_after_Inr MAX_EVENT_BATCH_def outcome ensure_run_exists_def)
  moreover have "stored_public_snapshot (co_env C) ?st run_id = Inr ?p"
    using stored by (auto simp: snapshot_Inr)
  ultimately have "observe C run_id a timeout deadline w = Some (Inr (Some ?b), elapse C (elapse C w))" for deadline
    using some
    by (simp add: observe_def and_then_def whatever_def read_store_def quiet of_result_def instant_def map_err_def
        ensure_def Let_def)
  then have "wait_for_run_events C run_id a timeout w = Some (Inr ?b, elapse C (elapse C w))"
    using assms(2) by (auto simp: gr0_conv_Suc wait_for_run_events_def and_then_def whatever_def instant_def of_result_def)
  moreover have "ob_events ?b = ?es" "ob_next_cursor ?b = ?next" "ob_has_more ?b = (?next < ?c)"
    "ob_has_more ?b \<longrightarrow> ob_snapshot ?b = None" "ob_terminal ?b = terminal_status (status s)"
    "ob_paused ?b = (status s = SPausedUserAction)"
    using some by (simp_all add: observation_batch_def Let_def public_snapshot_def)
  ultimately show ?thesis
    using behind more events(2) by (intro exI [of _ ?b] exI [of _ "elapse C (elapse C w)"]) (simp add: quiet)
qed

text \<open>
  Watching a run that has stopped prints its first six events behind the cursor and returns, although the batch
  says that there are more: the events after them, the last one and the result among them, are never printed.
\<close>

theorem watch_stops_in_backlog:
  assumes quiet: "\<And>n x. co_others (dm_coordinator (lk_daemon K)) n x = x"
    and reached: "\<And>n. lk_reach K n = None" "\<And>n r. lk_lost K n r = None"
    and stopped: "stored_state (wd_store w) run_id = Inr s" "terminal_status (status s) \<or> status s = SPausedUserAction"
    and backlog: "numbered (wd_store w)" "6 < length (events_after (wd_store w) run_id (wt_after a))"
    and args: "wt_run a = run_id" "0 \<le> wt_after a" "wt_timeout a \<le> MAX_WAIT_TIMEOUT_MS"
      "0 < co_patience (dm_coordinator (lk_daemon K))" "0 < bound"
  shows "\<exists>b w'. watch_run K bound a w = Some (Inr ([b], None), w')
    \<and> ob_events b = take 6 (events_after (wd_store w) run_id (wt_after a)) \<and> ob_has_more b \<and> ob_snapshot b = None"
proof -
  let ?C = "dm_coordinator (lk_daemon K)"
  obtain m where n: "bound = Suc m" using args(5) by (auto simp: gr0_conv_Suc)
  have "events_after (wd_store w) run_id (wt_after a) \<noteq> []" using backlog(2) by auto
  then obtain b w' where "wait_for_run_events ?C run_id (wt_after a) (wt_timeout a) w = Some (Inr b, w')"
    and more: "ob_events b = take 6 (events_after (wd_store w) run_id (wt_after a))" "ob_has_more b" "ob_snapshot b = None"
    and ended: "ob_terminal b = terminal_status (status s)" "ob_paused b = (status s = SPausedUserAction)"
    using quiet_wait [of ?C w run_id s "wt_after a" "wt_timeout a"] quiet args(2,4) stopped(1) backlog by blast
  then have "handle_daemon_request (lk_daemon K) (WaitRequest run_id (wt_after a) (wt_timeout a)) w
      = Some (Inr (response_success (BatchValue b), []), w')"
    using args by (simp add: wait_request_def responding_def whatever_def of_result_def)
  then have "daemon_request_value K (WaitRequest run_id (wt_after a) (wt_timeout a)) w = Some (Inr (Inr (BatchValue b)), w')"
    by (simp add: daemon_request_value_def reached whatever_def of_result_def response_result_def response_success_def ok_or_def
        del: handle_daemon_request.simps)
  then have "watch_run K bound a w = Some (Inr ([b], None), w')"
    using stopped(2) by (simp add: watch_run_def args(1) n and_then_def whatever_def of_result_def ended)
  with more show ?thesis by blast
qed

end
