(* ===== verification/Command_Example.thy ===== *)
theory Command_Example
  imports Command_Properties Resume_Example
begin

text \<open>
  Concrete commands: a run that was cancelled with seven events behind it, followed to the end by a client and
  watched by a command that stops before it; a run that is started for two named tasks; and calls of tools.
\<close>

subsection \<open>A run with seven events\<close>

definition seven_events :: "(int \<times> store_op) list" where
  "seven_events = (1, StartRun example_facts ''i'' [''t'']) # map (\<lambda>i. (2, Save ''id'' i))
     [WaitForThread, ThreadBecameIdle, WaitForThread, ThreadBecameIdle, WaitForThread, Cancel]"

definition seven_store :: store where
  "seven_store = store_after (co_env idle) ''/s'' seven_events"

lemma seven_example:
  "map ev_run (st_events seven_store) = replicate 7 ''id''"
  "case stored_state seven_store ''id'' of Inr s \<Rightarrow> status s = SCancelled | Inl _ \<Rightarrow> False"
  by code_simp+

lemma seven_numbered: "numbered seven_store"
  unfolding seven_store_def by (rule stored_events_numbered)

lemma seven_length: "length (events_after seven_store ''id'' 0) = 7"
proof -
  have n: "length (st_events seven_store) = 7"
    using arg_cong [OF seven_example(1), of length] by simp
  have runs: "\<forall>v \<in> set (st_events seven_store). ev_run v = ''id''"
    using arg_cong [OF seven_example(1), of set] by (auto simp: set_eq_iff)
  have "\<forall>v \<in> set (st_events seven_store). 0 < ev_id v"
  proof
    fix v assume "v \<in> set (st_events seven_store)"
    then have "ev_id v \<in> int ` {1..<8}"
      using arg_cong [OF seven_numbered [unfolded numbered_def n], of set] by fastforce
    then show "0 < ev_id v" by auto
  qed
  with runs n show ?thesis by (simp add: events_after_def public_events_def filter_map o_def cong: filter_cong)
qed

definition example_daemon :: daemon where
  "example_daemon = \<lparr>dm_coordinator = idle, dm_controlled = True, dm_list_threads = (\<lambda>_. Inr ())\<rparr>"

definition example_link :: daemon_link where
  "example_link = \<lparr>lk_daemon = example_daemon, lk_reach = (\<lambda>_. None), lk_lost = (\<lambda>_ _. None)\<rparr>"

definition example_watch :: watch_args where
  "example_watch = \<lparr>wt_run = ''id'', wt_after = 0, wt_timeout = 5, wt_once = False\<rparr>"

lemma idle_quiet: "co_others idle n x = x"
  by (simp add: idle_coordinator_def)

theorem watch_stops_in_backlog_witness:
  "\<exists>b w'. watch_run example_link 9 example_watch (scene seven_store frozen_git 0) = Some (Inr ([b], None), w')
     \<and> length (events_after seven_store ''id'' 0) = 7 \<and> length (ob_events b) = 6 \<and> ob_has_more b"
proof -
  obtain s where s: "stored_state seven_store ''id'' = Inr s" "status s = SCancelled"
    using seven_example(2) by (auto split: sum.splits)
  have "\<exists>b w'. watch_run example_link 9 example_watch (scene seven_store frozen_git 0) = Some (Inr ([b], None), w')
    \<and> ob_events b = take 6 (events_after (wd_store (scene seven_store frozen_git 0)) ''id'' (wt_after example_watch))
    \<and> ob_has_more b \<and> ob_snapshot b = None"
    by (rule watch_stops_in_backlog [where s = s])
       (simp_all add: example_link_def example_daemon_def example_watch_def idle_quiet s seven_numbered seven_length
         MAX_WAIT_TIMEOUT_MS_def)
  then show ?thesis using seven_length by (auto simp: example_watch_def)
qed

subsection \<open>Following it\<close>

lemma idle_faithful: "faithful idle"
  unfolding faithful_def idle_quiet by (auto intro: exI [of _ "[]"])

lemma followed_example:
  "\<exists>b1 b2 w'. follow idle ''id'' 0 [5, 5] (scene seven_store frozen_git 0) = Some (Inr [b1, b2], w')
     \<and> \<not> ob_has_more b2 \<and> wd_store w' = seven_store"
proof -
  obtain s where s: "stored_state seven_store ''id'' = Inr s" using seven_example(2) by (auto split: sum.splits)
  have some: "events_after seven_store ''id'' 0 \<noteq> []" using seven_length by auto
  note wait = quiet_wait [of idle _ "''id''" s _ 5, OF idle_quiet]
  obtain b1 w1 where b1: "wait_for_run_events idle ''id'' 0 5 (scene seven_store frozen_git 0) = Some (Inr b1, w1)"
    "wd_store w1 = seven_store" "0 \<le> ob_next_cursor b1"
    "events_after seven_store ''id'' (ob_next_cursor b1) = drop 6 (events_after seven_store ''id'' 0)"
    using wait [of "scene seven_store frozen_git 0" 0] s some seven_numbered by auto
  have rest: "length (events_after seven_store ''id'' (ob_next_cursor b1)) = 1" using b1(4) seven_length by simp
  then have "events_after seven_store ''id'' (ob_next_cursor b1) \<noteq> []" by auto
  then obtain b2 w2 where "wait_for_run_events idle ''id'' (ob_next_cursor b1) 5 w1 = Some (Inr b2, w2)"
    "wd_store w2 = seven_store" "\<not> ob_has_more b2"
    using wait [of w1 "ob_next_cursor b1"] s b1(2,3) seven_numbered rest by auto
  with b1(1) show ?thesis by (simp add: and_then_def whatever_def of_result_def)
qed

theorem stream_followed_witness:
  "\<exists>b1 b2 w'. follow idle ''id'' 0 [5, 5] (scene seven_store frozen_git 0) = Some (Inr [b1, b2], w')
     \<and> ob_events b1 @ ob_events b2 = events_after seven_store ''id'' 0"
proof -
  obtain b1 b2 w' where f: "follow idle ''id'' 0 [5, 5] (scene seven_store frozen_git 0) = Some (Inr [b1, b2], w')"
    and last: "\<not> ob_has_more b2" "wd_store w' = seven_store"
    using followed_example by blast
  with stream_followed [OF idle_faithful _ f, of "''/s''" seven_events] show ?thesis
    by (simp add: seven_store_def)
qed

theorem wait_ends_witness:
  "\<exists>r w'. wait_for_run_events idle ''id'' 0 5 (scene seven_store frozen_git 0) = Some (r, w')"
  using wait_ends [of idle 5 "''id''" 0 "scene seven_store frozen_git 0"] by (auto simp: strict_mono_def)

subsection \<open>Starting a run\<close>

definition example_cli :: cli_env where
  "example_cli = \<lparr>cl_approval = Inr (Some ''approve''), cl_page = (\<lambda>_ _. Inl (Rpc [])),
     cl_read_thread = (\<lambda>t. Inr \<lparr>th_id = t, th_status = JNull\<rparr>), cl_git = frozen_git, cl_terminal = False,
     cl_current_dir = None, cl_run_id = 1, cl_bound = 0\<rparr>"

definition explicit_run :: run_args where
  "explicit_run = \<lparr>ra_primary_thread = Some ''p'', ra_reviewer_thread = Some ''r'', ra_primary_worktree = Some ''/p'',
     ra_reviewer_worktree = Some ''/r'', ra_repository = None, ra_branch = None, ra_tests = [''t''], ra_json = True\<rparr>"

lemma pair_example:
  "inspect_registered_pair frozen_git ''/p'' ''/r'' = Inr
     (\<lparr>ws_worktree = ''/p'', ws_common_dir = ''/p/.git'', ws_head_sha = sha_of (CHR ''a''),
       ws_source_ref = Some \<lparr>sr_name = ''refs/heads/main'', sr_target_sha = sha_of (CHR ''a'')\<rparr>, ws_clean = True\<rparr>,
      \<lparr>ws_worktree = ''/r'', ws_common_dir = ''/p/.git'', ws_head_sha = sha_of (CHR ''b''),
       ws_source_ref = Some \<lparr>sr_name = ''refs/heads/dev'', sr_target_sha = sha_of (CHR ''b'')\<rparr>, ws_clean = True\<rparr>)"
proof -
  obtain a b where pair: "inspect_registered_pair frozen_git ''/p'' ''/r'' = Inr (a, b)"
    using registered_example by blast
  have "ge_canonicalize frozen_git p = Inr p" for p by (simp add: frozen_git_def with_git_def)
  with pair have "inspect_worktree frozen_git ''/p'' = Inr a" "inspect_worktree frozen_git ''/r'' = Inr b"
    by (auto simp: inspect_registered_pair_def inspect_registered_worktree_def outcome split: option.splits)
  then show ?thesis
    using inspect_primary [of "sha_of (CHR ''a'')" "''main''" "[]"] inspect_reviewer [of "sha_of (CHR ''a'')" "''main''" "[]"]
    unfolding pair by (simp add: frozen_git_def nul_list_def)
qed

lemma start_example:
  "start_run_request example_cli sel explicit_run s
   = Some (Inr (StartRequest (new_run repository_facts) \<lparr>rq_branch = None, rq_tests = [''t'']\<rparr>), s)"
  by (simp add: start_run_request_def example_cli_def explicit_run_def needs_interaction_def chosen_tasks_def
      select_explicit_tasks_def selected_from_details_def chosen_worktrees_def pair_example freeze_selected_def
      controlled_patch_approval_for_surface_def CONTROLLED_PATCH_APPROVAL_MODE_def
      proceed_def settled_def map_err_def ensure_def repository_facts_def
      verify_frozen_sources_def verify_same_repository_def verify_frozen_source_def paths_differ)

definition example_selector :: "unit selector" where
  "example_selector = (let refusing = (\<lambda>_. settled (Inl SelectionCancelled)) in
     \<lparr>sl_primary = refusing, sl_reviewer = refusing, sl_primary_worktree = refusing, sl_reviewer_worktree = refusing,
      sl_repository = settled (Inl SelectionCancelled), sl_confirm = (\<lambda>_. settled (Inl SelectionCancelled)),
      sl_report = (\<lambda>_ s. s)\<rparr>)"

theorem started_as_selected_witness:
  "\<exists>f. start_run_request example_cli example_selector explicit_run ()
       = Some (Inr (StartRequest (new_run f) \<lparr>rq_branch = None, rq_tests = [''t'']\<rparr>), ())
     \<and> rf_primary_thread_id f = ''p'' \<and> rf_reviewer_thread_id f = ''r'' \<and> rf_primary_sha f = sha_of (CHR ''a'')"
proof -
  from started_as_selected [OF start_example [of example_selector "()"]] obtain b :: selected_binding and f path path' where
    f: "StartRequest (new_run repository_facts) \<lparr>rq_branch = None, rq_tests = [''t'']\<rparr>
      = StartRequest (new_run f) \<lparr>rq_branch = ra_branch explicit_run, rq_tests = ra_tests explicit_run\<rparr>"
    and ids: "\<forall>p r. ra_primary_thread explicit_run = Some p \<and> ra_reviewer_thread explicit_run = Some r \<longrightarrow>
         rf_primary_thread_id f = p \<and> rf_reviewer_thread_id f = r"
    and pair: "inspect_registered_pair (cl_git example_cli) path path' = Inr (sb_primary b, sb_reviewer b)"
    and paths: "ra_primary_worktree explicit_run \<noteq> None \<and> ra_reviewer_worktree explicit_run \<noteq> None \<longrightarrow>
         ra_primary_worktree explicit_run = Some path \<and> ra_reviewer_worktree explicit_run = Some path'"
    and sha: "rf_primary_sha f = ws_head_sha (sb_primary b)"
    by (elim exE conjE) (rule that; assumption)
  have "path = ''/p''" "path' = ''/r''" using paths by (simp_all add: explicit_run_def)
  then have "inspect_registered_pair frozen_git ''/p'' ''/r'' = Inr (sb_primary b, sb_reviewer b)"
    using pair by (simp add: example_cli_def)
  then have "ws_head_sha (sb_primary b) = sha_of (CHR ''a'')"
    using arg_cong [OF pair_example, of "\<lambda>r. ws_head_sha (fst (projr r))"] by simp
  with f ids sha start_example [of example_selector "()"] show ?thesis
    by (intro exI [of _ f]) (simp add: explicit_run_def)
qed

subsection \<open>Calling a tool\<close>

definition example_wait :: "(string \<times> json) list" where
  "example_wait = (case validate_arguments (\<lambda>_ _. []) ''consensus_wait'' (json_object [(''run_id'', JStr ''id''), (''timeout_ms'', JInt 5)]) of
     Inr (JObj es) \<Rightarrow> es | _ \<Rightarrow> [])"

lemma wait_example:
  "validate_arguments (\<lambda>_ _. []) ''consensus_wait'' (json_object [(''run_id'', JStr ''id''), (''timeout_ms'', JInt 5)]) = Inr (JObj example_wait)"
  "backend_call (\<lambda>_ _. []) ''consensus_wait'' example_wait = Inr (DaemonCall (WaitRequest ''id'' 0 5))"
  by code_simp+

theorem validated_call_understood_witness:
  "\<exists>call. backend_call (\<lambda>_ _. []) ''consensus_wait'' example_wait = Inr call
     \<and> call = DaemonCall (WaitRequest ''id'' 0 5) \<and> 5 \<le> MAX_WAIT_TIMEOUT_MS"
  using validated_call_understood [OF wait_example(1), of "\<lambda>_ _. []"] wait_example(2) by auto

end
