(* ===== verification/Spec2Isabelle.thy ===== *)
theory Spec2Isabelle
  imports Participant Protocol_Properties Run_Properties Guard_Properties Policy_Properties
    Observation_Properties Turn_Audit_Properties Store_Example Turn_Example Drive_Example Resume_Example
    Command_Example
begin

text \<open>
  A model of the core of Worktree Merge Consensus: a daemon that lets two participants, the primary
  and the reviewer of two worktrees of one repository, agree on a plan, integrate, verify and review
  one exact commit.

  \<^bold>\<open>The program.\<close> A participant answers a turn with text (\<open>crates/core/src/participant.rs\<close>) or with a
  JSON message (\<open>protocol.rs\<close>). The coordinator (\<open>crates/daemon/src/coordinator.rs\<close>) applies the message
  to the state of the run (\<open>state.rs\<close>), saves the state in the store (\<open>store.rs\<close>), and checks the
  repository around every turn with the Git inspector (\<open>git.rs\<close>).

  \<^bold>\<open>The theories.\<close>
  \<^item> \<open>Prelude\<close>, \<open>Rust_Text\<close>, \<open>Json_Value\<close>, \<open>Path_Set\<close>: results and the \<open>?\<close> operator, Rust's strings,
    paths and sets of paths, \<open>serde_json\<close> values, the canonical hash (\<open>hash.rs\<close>), and the record \<open>libs\<close>
    of functions of other crates (SHA-256, the JSON schema, UUID texts, texts of decoding errors).
  \<^item> \<open>Participant\<close>: the marker parser, with soundness and completeness.
  \<^item> \<open>Protocol\<close>, \<open>Protocol_Properties\<close>: messages, their invariants, encoding and decoding.
  \<^item> \<open>Run_State\<close>, \<open>Run_Operations\<close>, \<open>Run_Rules\<close>, \<open>Run_Recovery\<close>: the record \<open>run_state\<close>, every operation
    of \<open>RunState\<close>, the thirteen recoveries (one \<open>check\<close> and one operation each) and the check of a
    persisted state. A method on \<open>&mut self\<close> returns its result and the new state, also when it fails.
  \<^item> \<open>Run_Machine\<close>: the operations as inputs of a machine, \<open>perform\<close> for one of them, \<open>persist\<close> for the
    store, \<open>run_of\<close> for the stored state after a list of inputs.
  \<^item> \<open>Run_Transitions\<close>, \<open>Run_Invariants\<close>, \<open>Run_Provenance\<close>, \<open>Run_Progress\<close>, \<open>Run_Refinement\<close>: the steps of
    the machine as an inductive relation, its invariant, where agreements come from, a rank that every
    effective message decreases, and the abstract consensus protocol the machine refines.
  \<^item> \<open>Run_Example\<close>, \<open>Run_Properties\<close>: a concrete run and the properties of runs.
  \<^item> \<open>Git_Text\<close>, \<open>Git_Scan\<close>, \<open>Git_Safety\<close>, \<open>Git_Inspector\<close>, \<open>Git_Properties\<close>: the checks on text, the scan
    for conflict markers, the checks on snapshots and the commands that produce them.
  \<^item> \<open>Git_Clone\<close>: the creation of a verification clone, the one operation that runs writing commands.
  \<^item> \<open>Repository_Guard\<close>, \<open>Guard_Example\<close>, \<open>Guard_Properties\<close>: the checks the coordinator composes from them
    (\<open>GitRepositorySafety\<close>), a concrete repository, and what Git must have answered when a check succeeds.
  \<^item> \<open>Command_Policy\<close>, \<open>Policy_Properties\<close>: which commands a participant may run (\<open>policy.rs\<close>).
  \<^item> \<open>Observation\<close>, \<open>Observation_Properties\<close>: the public snapshot of a run, what is scrubbed from it, and
    the event that a step publishes (\<open>observation.rs\<close>).
  \<^item> \<open>Turn_Evidence\<close>, \<open>Turn_Audit\<close>, \<open>Turn_Audit_Properties\<close>: the items of a turn as the app server
    returns them, the delivery marker, the final answer, and the audits of \<open>coordinator.rs\<close> that decide
    what a turn has executed before its answer is used or the turn is repeated.
  \<^item> \<open>Store_Tables\<close>: the record \<open>store\<close> with one list of rows for each table of \<open>store.rs\<close>, in the order
    of the row ids, the unique indexes written out where a row is inserted.
  \<^item> \<open>Store_Runs\<close>, \<open>Store_Turns\<close>, \<open>Store_Commands\<close>, \<open>Store_Bindings\<close>, \<open>Store_Recovery\<close>: the operations
    of \<open>store.rs\<close> on them, each a transaction that fails with an error or returns the new store.
  \<^item> \<open>Store_Machine\<close>: the operations as steps of one machine, composed with the run machine as the
    coordinator composes them: load the state, perform an input, store the result.
  \<^item> \<open>Store_Locks\<close>, \<open>Store_Properties\<close>, \<open>Store_Journal\<close>, \<open>Store_Events\<close>, \<open>Store_Example\<close>: which tables
    an operation changes, the runs and locks of all reachable stores, what the journal of commands, patches
    and bindings keeps, that events are only appended, and concrete stores, with a cancellation that is lost.

  \<^item> \<open>Turn_Messages\<close>, \<open>Turn_Verification\<close>, \<open>Turn_Retry\<close>: the message that a marker stands for, the
    execution of the frozen test commands and the check of the evidence of a message, and the action
    that a retry of a stopped run repeats; \<open>Turn_Messages_Properties\<close>, \<open>Turn_Verification_Properties\<close>,
    \<open>Turn_Retry_Properties\<close> and \<open>Turn_Example\<close> show that the messages are current, that the evidence is
    that of the commands, and that the chosen action is the one the recovery restores.
  \<^item> \<open>Prompts\<close>: the validation of a request and the text of every prompt (\<open>prompts.rs\<close>).
  \<^item> \<open>Conversation\<close>, \<open>Conversation_Rules\<close>: an action of the coordinator as a function of the world, that is
    of the store, the repository, the moment and the log of the calls that change something outside; the
    rules for such actions.
  \<^item> \<open>Turn_Wait\<close>, \<open>Turn_Binding\<close>, \<open>Turn_Drive\<close>: the waits for a task and for a turn, the answers to its
    requests, the binding of the Primary to a task or to a fork, and \<open>drive_model_action\<close> and \<open>drive\<close>.
    \<open>Turn_Wait_Properties\<close>, \<open>Turn_Drive_Properties\<close>, \<open>Drive_Properties\<close>, \<open>Drive_Setting\<close> and
    \<open>Drive_Example\<close> show when a wait ends, what a task is granted, what is recorded before a turn is sent,
    what a response does to the run, and what the driver leaves in the store.
  \<^item> \<open>Turn_Inspection\<close>, \<open>Turn_Blockers\<close>, \<open>Turn_Restart\<close>: the inspections of a recorded turn before it is
    repeated or replayed, one for each reason a run can stop for, the restoration of archived turns and the
    interruption of a turn that waits for the approval of a patch.
  \<^item> \<open>Turn_Resume\<close>, \<open>Turn_Resume_Properties\<close>, \<open>Resume_Example\<close>: the requests to the coordinator, \<open>start\<close>,
    \<open>apply_patch\<close>, \<open>cancel\<close> and \<open>resume\<close>, and the recovery of runs at startup; what a started run and an
    applied patch satisfy, what a resumption does outside, and where the resumed run continues.
  \<^item> \<open>Mcp_Server\<close>, \<open>Mcp_Properties\<close>: the published tools, the validation of their arguments and
    the service of a stream of requests (\<open>crates/mcp-server\<close>); which calls reach the backend, and that every
    request gets one answer.
  \<^item> \<open>Daemon_Requests\<close>, \<open>Daemon_Properties\<close>: the requests to the daemon (\<open>server.rs\<close>, \<open>wire.rs\<close>), the wait for
    events and the service of a connection; a client that follows a run gets all its events in order, and
    a wait ends.
  \<^item> \<open>Task_Selection\<close>, \<open>Command_Line\<close>, \<open>Command_Properties\<close>, \<open>Command_Example\<close>: the choice of tasks and
    worktrees (\<open>select.rs\<close>), the request that starts a run, the watching of a run and the tools of the MCP
    server as requests (\<open>main.rs\<close>, \<open>args.rs\<close>); a run is started for what was chosen, every validated call
    is understood, and a watch that stops before the last events.

  \<^bold>\<open>Interfaces.\<close> The locale \<open>recovery\<close> is the contract of a recovery, interpreted for all thirteen; the
  locale \<open>run_invariant\<close> is the rule for invariants of stored runs, interpreted for the invariant, the
  provenance and the counting of reviews. The locale \<open>item_audit\<close> is the contract of a scan over the
  items of a turn, interpreted for the audits. The locale \<open>run_tables\<close> is the contract of an invariant of
  the tables of runs and locks, interpreted for the origin of the stored states and for the locks; the
  locale \<open>store_relation\<close> is that of a relation every operation of the store keeps, interpreted for the
  commands, the patches and the events. The locales \<open>world_relation\<close>, \<open>observing\<close> and \<open>writing\<close> say which relations
  between worlds all actions keep, interpreted for the growth of the log, for the moment and for the growth
  of the events. The locale
  \<open>task_effects\<close> is a condition on the logged effects of preparing a task, extended by \<open>effect_condition\<close> to
  those of a turn and interpreted for the effects the policy authorizes; the locale \<open>resumption\<close> is such a
  condition for a resumption, interpreted for the effects the run calls for.

  \<^bold>\<open>Bounds.\<close> Rounds and revisions are 32-bit words. The driver makes at most 128 steps and a drain reads at
  most 256 events, as in the code. The loops that wait have a bound \<open>co_patience\<close> of the model, and answer
  \<open>None\<close> if it is reached: \<open>stalled_wait_ends\<close> shows that the wait for a task without progress ends before, and
  \<open>wait_ends\<close> that a wait for events does, its timeout in milliseconds being smaller than the bound. The pages
  of a listing and the questions for a worktree have the bound \<open>cl_bound\<close>, and \<open>watch_run\<close> has one on its
  batches: both go on for as long as the app server or the person gives a reason. The loop that watches an interrupted turn has the same bound and the same check of its deadline.
  Every other function is total without fuel.

  \<^bold>\<open>Not modelled.\<close> The app server client is present only as the calls the coordinator makes of it and
  their answers. The sockets and processes of the daemon, and the parsing, the printing, the installation and
  the doctor of the command line are input and output around this core; so are opening and migrating the
  database. The locks of the coordinator
  are not modelled: other actors may change the store and the repository between any two operations, also
  where a lock keeps some of them out. While the test commands run, nobody else is assumed to act. SQLite is trusted to run
  a transaction as a whole. Git itself, the file system, SHA-256, the JSON schema validator, the parser
  of JSON text and the splitting of a command into words are parameters.
\<close>

end
